(* ===== verification/Prelude.thy ===== *)
theory Prelude
  imports Main "HOL-Library.State_Monad" "HOL-Library.List_Lexorder" "HOL-Library.Char_ord"
    "HOL-Library.Product_Lexorder"
begin

text \<open>
  The shared library of the development. It holds

  \<^item> the reading of SQL statements as list functions: a table is the list of its rows in
    scan order, \<open>UPDATE ... WHERE\<close> is \<open>upd_where\<close>, \<open>DELETE ... WHERE\<close> is \<open>del_where\<close>,
    a one-row \<open>SELECT\<close> is \<open>List.find\<close>, \<open>ORDER BY\<close> is the stable \<open>sort_key\<close> and
    \<open>LIMIT/OFFSET\<close> is \<open>page\<close>;
  \<^item> the weakest-precondition transformer \<open>wp\<close> of the library's state monad, with the
    equations that let the simplifier run a handler (\<open>wp_simps\<close>), and the Go error idiom
    \<open>if err := op(); err != nil { return ... }\<close> as \<open>try_do\<close>;
  \<^item> the locale \<open>keyed_table\<close>: the contract of a table with a primary key, which every
    repository's table is an instance of.
\<close>

named_theorems wp_simps \<open>equations that compute the weakest precondition of an operation\<close>
named_theorems sql_simps \<open>facts about the list reading of SQL statements\<close>

section \<open>Rows\<close>

definition upd_where :: "('r \<Rightarrow> bool) \<Rightarrow> ('r \<Rightarrow> 'r) \<Rightarrow> 'r list \<Rightarrow> 'r list" where
  "upd_where p f rows = map (\<lambda>r. if p r then f r else r) rows"

definition del_where :: "('r \<Rightarrow> bool) \<Rightarrow> 'r list \<Rightarrow> 'r list" where
  "del_where p rows = filter (\<lambda>r. \<not> p r) rows"

definition page :: "nat \<Rightarrow> nat \<Rightarrow> 'r list \<Rightarrow> 'r list" where
  "page offset limit rows = take limit (drop offset rows)"

lemma upd_where_Nil [simp]: "upd_where p f [] = []"
  by (simp add: upd_where_def)

lemma upd_where_Cons [simp]:
  "upd_where p f (r # rows) = (if p r then f r else r) # upd_where p f rows"
  by (simp add: upd_where_def)

lemma del_where_Nil [simp]: "del_where p [] = []"
  by (simp add: del_where_def)

lemma del_where_Cons [simp]:
  "del_where p (r # rows) = (if p r then del_where p rows else r # del_where p rows)"
  by (simp add: del_where_def)

lemma length_upd_where [simp]: "length (upd_where p f rows) = length rows"
  by (simp add: upd_where_def)

lemma upd_where_append [simp]: "upd_where p f (xs @ ys) = upd_where p f xs @ upd_where p f ys"
  by (simp add: upd_where_def)

lemma set_upd_where [sql_simps]: "set (upd_where p f rows) = (\<lambda>r. if p r then f r else r) ` set rows"
  by (simp add: upd_where_def)

lemma set_del_where [sql_simps]: "set (del_where p rows) = {r \<in> set rows. \<not> p r}"
  by (simp add: del_where_def)

lemma upd_where_id: "(\<And>r. r \<in> set rows \<Longrightarrow> p r \<Longrightarrow> f r = r) \<Longrightarrow> upd_where p f rows = rows"
  by (induction rows) auto

lemma upd_where_none: "(\<And>r. r \<in> set rows \<Longrightarrow> \<not> p r) \<Longrightarrow> upd_where p f rows = rows"
  by (induction rows) auto

lemma map_upd_where:
  "(\<And>r. p r \<Longrightarrow> g (f r) = g r) \<Longrightarrow> map g (upd_where p f rows) = map g rows"
  by (simp add: upd_where_def)

lemma filter_upd_where_irrelevant:
  "(\<And>r. p r \<Longrightarrow> q (f r) = q r) \<Longrightarrow>
   filter q (upd_where p f rows) = upd_where p f (filter q rows)"
  by (induction rows) auto

lemma filter_upd_where_other:
  "(\<And>r. r \<in> set rows \<Longrightarrow> p r \<Longrightarrow> \<not> q r \<and> \<not> q (f r)) \<Longrightarrow>
   filter q (upd_where p f rows) = filter q rows"
  by (induction rows) auto

lemma length_page: "length (page offset limit rows) \<le> limit"
  by (simp add: page_def)

lemma set_page_subset: "set (page offset limit rows) \<subseteq> set rows"
  unfolding page_def by (meson order_trans set_drop_subset set_take_subset)

lemma page_all: "length rows \<le> limit \<Longrightarrow> page 0 limit rows = rows"
  by (simp add: page_def)

lemma find_Some_iff_mem: "List.find p xs = Some x \<Longrightarrow> x \<in> set xs \<and> p x"
  by (induction xs) (auto split: if_splits)

lemma find_None_iff_mem: "List.find p xs = None \<longleftrightarrow> (\<forall>x\<in>set xs. \<not> p x)"
  by (induction xs) auto

lemma find_eq_hd_filter:
  "List.find p xs = (case filter p xs of [] \<Rightarrow> None | x # _ \<Rightarrow> Some x)"
  by (induction xs) auto

lemma find_upd_where:
  "(\<And>r. p r \<Longrightarrow> p (f r)) \<Longrightarrow> List.find p (upd_where p f rows) = map_option f (List.find p rows)"
  by (induction rows) auto

lemma distinct_singleton: "distinct xs \<Longrightarrow> set xs = {a} \<Longrightarrow> xs = [a]"
  by (cases xs; cases "tl xs") auto

lemma list_all2_upd_where:
  "(\<And>r. r \<in> set rows \<Longrightarrow> R r (if p r then f r else r)) \<Longrightarrow> list_all2 R rows (upd_where p f rows)"
  by (induction rows) auto

lemma upd_where_twice:
  assumes "\<And>r. f (f r) = f r" "\<And>r. p (f r) = p r"
  shows "upd_where p f (upd_where q f rows) = upd_where (\<lambda>r. q r \<or> p r) f rows"
  by (induction rows) (use assms in auto)

lemma sort_key_map_same: "(\<And>x. f (g x) = f x) \<Longrightarrow> sort_key f (map g xs) = map g (sort_key f xs)"
proof (induction xs)
  case (Cons x xs)
  have "insort_key f (g x) (map g ys) = map g (insort_key f x ys)" for ys
    by (induction ys) (use Cons.prems in auto)
  with Cons show ?case by simp
qed simp

lemma map_filter_total: "\<forall>i\<in>set is. f i \<noteq> None \<Longrightarrow> List.map_filter f is = map (the \<circ> f) is"
  by (induction "is") (auto simp: map_filter_simps)

lemma filter_list_all2:
  assumes "list_all2 R xs ys" "\<And>x y. x \<in> set xs \<Longrightarrow> R x y \<Longrightarrow> P x = P y \<and> (P x \<longrightarrow> x = y)"
  shows "filter P xs = filter P ys"
  using assms by (induction rule: list_all2_induct) auto

lemma list_all2_mem: "list_all2 R xs ys \<Longrightarrow> y \<in> set ys \<Longrightarrow> \<exists>x\<in>set xs. R x y"
  by (induction rule: list_all2_induct) auto

lemma list_all2_map_eq: "list_all2 R xs ys \<Longrightarrow> (\<And>x y. R x y \<Longrightarrow> f x = f y) \<Longrightarrow> map f xs = map f ys"
  by (induction rule: list_all2_induct) auto

lemma image_singleton: "x \<in> A \<Longrightarrow> (\<And>n. n \<in> A \<Longrightarrow> f n = v) \<Longrightarrow> f ` A = {v}"
  by auto

text \<open>The stable sort moves rows but neither drops nor invents one.\<close>

lemma sort_key_mem [simp]: "set (sort_key f xs) = set xs"
  by (rule set_sort)

lemma hd_sort_key_min:
  "sort_key f xs = y # ys \<Longrightarrow> x \<in> set xs \<Longrightarrow> f y \<le> f x"
proof -
  assume eq: "sort_key f xs = y # ys" and "x \<in> set xs"
  then have "x \<in> set (y # ys)" by (metis set_sort)
  moreover have "sorted (map f (y # ys))" using eq by (metis sorted_sort_key)
  ultimately show ?thesis by auto
qed

section \<open>Tables with a primary key\<close>

text \<open>
  What the repositories rely on: rows are found, changed and removed by their key, and
  no two rows share one. \<open>key\<close> is the column the \<open>PRIMARY KEY\<close> clause names.
\<close>

locale keyed_table =
  fixes key :: "'r \<Rightarrow> 'k"
begin

definition unique :: "'r list \<Rightarrow> bool" where
  "unique rows \<longleftrightarrow> distinct (map key rows)"

definition by_key :: "'k \<Rightarrow> 'r list \<Rightarrow> 'r option" where
  "by_key k rows = List.find (\<lambda>r. key r = k) rows"

lemma by_key_Some: "by_key k rows = Some r \<Longrightarrow> r \<in> set rows \<and> key r = k"
  unfolding by_key_def by (rule find_Some_iff_mem)

lemma by_key_None: "by_key k rows = None \<longleftrightarrow> k \<notin> key ` set rows"
  unfolding by_key_def by (auto simp: find_None_iff_mem)

lemma unique_same: "unique rows \<Longrightarrow> r \<in> set rows \<Longrightarrow> s \<in> set rows \<Longrightarrow> key r = key s \<Longrightarrow> r = s"
  unfolding unique_def by (metis distinct_map inj_onD)

lemma by_key_mem: "unique rows \<Longrightarrow> r \<in> set rows \<Longrightarrow> by_key (key r) rows = Some r"
proof -
  assume u: "unique rows" and r: "r \<in> set rows"
  then obtain s where s: "by_key (key r) rows = Some s"
    by (metis by_key_None image_eqI option.exhaust)
  then have "s = r" using by_key_Some [OF s] unique_same [OF u] r by metis
  with s show ?thesis by simp
qed

lemma unique_upd:
  "(\<And>r. p r \<Longrightarrow> key (f r) = key r) \<Longrightarrow> unique (upd_where p f rows) = unique rows"
  unfolding unique_def by (simp add: map_upd_where)

lemma keys_upd: "(\<And>r. key (f r) = key r) \<Longrightarrow> key ` set (upd_where p f rows) = key ` set rows"
  by (induction rows) auto

lemma unique_del: "unique rows \<Longrightarrow> unique (del_where p rows)"
  unfolding unique_def del_where_def by (rule distinct_map_filter)

lemma unique_insert: "unique rows \<Longrightarrow> k \<notin> key ` set rows \<Longrightarrow> key r = k \<Longrightarrow> unique (rows @ [r])"
  unfolding unique_def by auto

lemma by_key_upd_same:
  "by_key k rows = Some r \<Longrightarrow> (\<And>s. key (f s) = key s) \<Longrightarrow>
   by_key k (upd_where (\<lambda>s. key s = k) f rows) = Some (f r)"
  unfolding by_key_def by (induction rows) (auto split: if_splits)

lemma by_key_upd_other:
  "k' \<noteq> k \<Longrightarrow> (\<And>s. key (f s) = key s) \<Longrightarrow>
   by_key k' (upd_where (\<lambda>s. key s = k) f rows) = by_key k' rows"
  unfolding by_key_def by (induction rows) (auto split: if_splits)

lemma by_key_del: "by_key k (del_where (\<lambda>s. key s = k) rows) = None"
  by (auto simp: by_key_None set_del_where)

lemma by_key_del_other: "k' \<noteq> k \<Longrightarrow> by_key k' (del_where (\<lambda>s. key s = k) rows) = by_key k' rows"
  unfolding by_key_def by (induction rows) auto

lemma by_key_insert_other: "key r \<noteq> k \<Longrightarrow> by_key k (rows @ [r]) = by_key k rows"
  unfolding by_key_def by (induction rows) auto

lemma by_key_insert:
  "k \<notin> key ` set rows \<Longrightarrow> key r = k \<Longrightarrow> by_key k (rows @ [r]) = Some r"
  unfolding by_key_def by (induction rows) auto

end

section \<open>The state monad: weakest preconditions and the error idiom\<close>

definition wp :: "('s, 'a) state \<Rightarrow> ('a \<Rightarrow> 's \<Rightarrow> bool) \<Rightarrow> 's \<Rightarrow> bool" where
  "wp m Q s = (case run_state m s of (a, s') \<Rightarrow> Q a s')"

lemma wp_return [wp_simps]: "wp (State_Monad.return a) Q s = Q a s"
  by (simp add: wp_def)

lemma wp_bind [wp_simps]: "wp (State_Monad.bind m f) Q s = wp m (\<lambda>a. wp (f a) Q) s"
  by (simp add: wp_def split: prod.splits)

lemma wp_get [wp_simps]: "wp State_Monad.get Q s = Q s s"
  by (simp add: wp_def)

lemma wp_set [wp_simps]: "wp (State_Monad.set s') Q s = Q () s'"
  by (simp add: wp_def)

lemma wp_mono: "wp m Q s \<Longrightarrow> (\<And>a s'. Q a s' \<Longrightarrow> R a s') \<Longrightarrow> wp m R s"
  by (auto simp: wp_def)

lemma wp_cong: "(\<And>a s'. Q a s' = R a s') \<Longrightarrow> wp m Q s = wp m R s"
  by (simp add: wp_def)

lemma wp_conj: "wp m (\<lambda>a s. Q a s \<and> R a s) s \<longleftrightarrow> wp m Q s \<and> wp m R s"
  by (auto simp: wp_def split: prod.splits)

lemma wp_run: "wp m Q s \<Longrightarrow> run_state m s = (a, s') \<Longrightarrow> Q a s'"
  by (simp add: wp_def)

lemma wpI: "(\<And>a s'. run_state m s = (a, s') \<Longrightarrow> Q a s') \<Longrightarrow> wp m Q s"
  by (simp add: wp_def split: prod.splits)

text \<open>The value and the state a run ends with.\<close>

definition result :: "('s, 'a) state \<Rightarrow> 's \<Rightarrow> 'a" where
  "result m s = fst (run_state m s)"

definition after :: "('s, 'a) state \<Rightarrow> 's \<Rightarrow> 's" where
  "after m s = snd (run_state m s)"

lemma after_bind: "after (State_Monad.bind m f) s = after (f (result m s)) (after m s)"
  by (simp add: after_def result_def State_Monad.bind_def split: prod.split)

lemma after_return [simp]: "after (State_Monad.return a) s = s"
  by (simp add: after_def State_Monad.return_def)

lemma wp_outcome: "wp m Q s \<longleftrightarrow> Q (result m s) (after m s)"
  by (simp add: wp_def result_def after_def split: prod.splits)

text \<open>
  \<open>try_do m onerr k\<close> is Go's \<open>a, err := m; if err != nil { return onerr(err) }; k(a)\<close>.
\<close>

definition try_do :: "('s, 'e + 'a) state \<Rightarrow> ('e \<Rightarrow> 'r) \<Rightarrow> ('a \<Rightarrow> ('s, 'r) state) \<Rightarrow> ('s, 'r) state" where
  "try_do m onerr k = do {
     r \<leftarrow> m;
     (case r of Inl e \<Rightarrow> State_Monad.return (onerr e) | Inr a \<Rightarrow> k a)
   }"

lemma wp_try_do [wp_simps]:
  "wp (try_do m onerr k) Q s =
   wp m (\<lambda>r s'. case r of Inl e \<Rightarrow> Q (onerr e) s' | Inr a \<Rightarrow> wp (k a) Q s') s"
  by (auto simp: try_do_def wp_def split: prod.splits sum.splits)

text \<open>
  The chaining rule: the success case of \<open>m\<close> establishes what its continuation needs, and the
  postcondition holds of every error.
\<close>

lemma wp_try_doI:
  assumes "wp m (\<lambda>r s'. \<forall>a. r = Inr a \<longrightarrow> R a s') s"
    and "\<And>e s'. Q (onerr e) s'" "\<And>a s'. R a s' \<Longrightarrow> wp (k a) Q s'"
  shows "wp (try_do m onerr k) Q s"
  unfolding wp_try_do by (rule wp_mono [OF assms(1)]) (auto intro: assms(2,3) split: sum.splits)

text \<open>A loop over a slice whose body may return early with an error.\<close>

fun for_each :: "'a list \<Rightarrow> ('a \<Rightarrow> ('s, 'e + unit) state) \<Rightarrow> ('s, 'e + unit) state" where
  "for_each [] body = State_Monad.return (Inr ())"
| "for_each (x # xs) body = try_do (body x) Inl (\<lambda>_. for_each xs body)"

lemma wp_True: "wp m (\<lambda>_ _. True) s"
  by (simp add: wp_def split: prod.splits)

text \<open>The success case of a loop, from the success case of its body.\<close>

lemma wp_for_each:
  assumes "\<And>x s. wp (body x) (\<lambda>r s'. \<forall>a. r = Inr a \<longrightarrow> R [x] s s') s"
    and "\<And>s. R [] s s" "\<And>x xs s s1 s2. R [x] s s1 \<Longrightarrow> R xs s1 s2 \<Longrightarrow> R (x # xs) s s2"
  shows "wp (for_each xs body) (\<lambda>r s'. \<forall>a. r = Inr a \<longrightarrow> R xs s s') s"
proof (induction xs arbitrary: s)
  case Nil
  show ?case by (simp add: wp_simps assms(2))
next
  case (Cons x xs)
  show ?case unfolding for_each.simps
    by (rule wp_try_doI [OF assms(1)], simp) (rule wp_mono [OF Cons.IH], use assms(3) in blast)
qed

text \<open>A loop over a slice that collects a result per element.\<close>

fun for_collect :: "'a list \<Rightarrow> ('a \<Rightarrow> ('s, 'e + 'b) state) \<Rightarrow> ('s, 'e + 'b list) state" where
  "for_collect [] body = State_Monad.return (Inr [])"
| "for_collect (x # xs) body =
     try_do (body x) Inl (\<lambda>y. try_do (for_collect xs body) Inl (\<lambda>ys. State_Monad.return (Inr (y # ys))))"

text \<open>A loop whose body cannot fail (errors are logged and dropped).\<close>

fun for_all_do :: "'a list \<Rightarrow> ('a \<Rightarrow> ('s, unit) state) \<Rightarrow> ('s, unit) state" where
  "for_all_do [] body = State_Monad.return ()"
| "for_all_do (x # xs) body = do { _ \<leftarrow> body x; for_all_do xs body }"

subsection \<open>Invariants of operations\<close>

text \<open>\<open>keeps I m\<close>: running \<open>m\<close> from any state that satisfies \<open>I\<close> ends in one that does.\<close>

definition keeps :: "('s \<Rightarrow> bool) \<Rightarrow> ('s, 'a) state \<Rightarrow> bool" where
  "keeps I m \<longleftrightarrow> (\<forall>s. I s \<longrightarrow> I (snd (run_state m s)))"

named_theorems keeps_intros \<open>compositional rules for invariants of operations\<close>

lemma keepsD: "keeps I m \<Longrightarrow> I s \<Longrightarrow> run_state m s = (a, s') \<Longrightarrow> I s'"
  by (metis keeps_def snd_conv)

lemma keeps_after: "keeps I m \<Longrightarrow> I s \<Longrightarrow> I (after m s)"
  by (simp add: keeps_def after_def)

lemma keeps_wp: "keeps I m \<longleftrightarrow> (\<forall>s. I s \<longrightarrow> wp m (\<lambda>_. I) s)"
  by (simp add: keeps_def wp_def split: prod.splits) (metis snd_conv surj_pair)

lemma keeps_wpI: "(\<And>s. I s \<Longrightarrow> wp m (\<lambda>_. I) s) \<Longrightarrow> keeps I m"
  by (simp add: keeps_wp)

lemma wp_keeps: "keeps I m \<Longrightarrow> I s \<Longrightarrow> (\<And>a s'. I s' \<Longrightarrow> Q a s') \<Longrightarrow> wp m Q s"
  by (auto simp: keeps_wp elim!: wp_mono)

lemma keeps_conj: "keeps I m \<Longrightarrow> keeps J m \<Longrightarrow> keeps (\<lambda>s. I s \<and> J s) m"
  by (simp add: keeps_def)

lemma keeps_return [keeps_intros]: "keeps I (State_Monad.return a)"
  by (simp add: keeps_def)

lemma keeps_bind [keeps_intros]:
  "keeps I m \<Longrightarrow> (\<And>a. keeps I (f a)) \<Longrightarrow> keeps I (State_Monad.bind m f)"
  by (simp add: keeps_def split: prod.splits) (metis snd_conv)

lemma keeps_try_do [keeps_intros]:
  "keeps I m \<Longrightarrow> (\<And>a. keeps I (k a)) \<Longrightarrow> keeps I (try_do m onerr k)"
  unfolding try_do_def by (intro keeps_bind) (auto intro: keeps_return split: sum.splits)

lemma keeps_for_each [keeps_intros]: "(\<And>x. keeps I (body x)) \<Longrightarrow> keeps I (for_each xs body)"
  by (induction xs) (auto intro: keeps_intros)

lemma keeps_for_all_do [keeps_intros]: "(\<And>x. keeps I (body x)) \<Longrightarrow> keeps I (for_all_do xs body)"
  by (induction xs) (auto intro: keeps_intros)

lemma keeps_if [keeps_intros]: "keeps I m \<Longrightarrow> keeps I n \<Longrightarrow> keeps I (if b then m else n)"
  by simp

lemma keeps_case_option [keeps_intros]:
  "keeps I m \<Longrightarrow> (\<And>x. keeps I (f x)) \<Longrightarrow> keeps I (case_option m f v)"
  by (cases v) auto

lemma keeps_case_sum [keeps_intros]:
  "(\<And>x. keeps I (f x)) \<Longrightarrow> (\<And>x. keeps I (g x)) \<Longrightarrow> keeps I (case_sum f g v)"
  by (cases v) auto

lemma keeps_case_prod [keeps_intros]:
  "(\<And>x y. keeps I (f x y)) \<Longrightarrow> keeps I (case_prod f v)"
  by (cases v) auto

lemma keeps_get_bind [keeps_intros]:
  "(\<And>s. keeps I (f s)) \<Longrightarrow> keeps I (State_Monad.bind State_Monad.get f)"
  by (simp add: keeps_def)

section \<open>Text\<close>

text \<open>\<open>fmt.Errorf("p: %w", err)\<close>: the prefix and the cause.\<close>

definition wrap :: "string \<Rightarrow> string \<Rightarrow> string" where
  "wrap p e = p @ '': '' @ e"

fun join :: "string \<Rightarrow> string list \<Rightarrow> string" where
  "join sep [] = []"
| "join sep [x] = x"
| "join sep (x # xs) = x @ sep @ join sep xs"

definition digit :: "nat \<Rightarrow> char" where
  "digit n = char_of (48 + n mod 10)"

lemma digit_simps [simp]:
  "digit 0 = CHR ''0''" "digit (Suc 0) = CHR ''1''" "digit (Suc (Suc 0)) = CHR ''2''" "digit (Suc (Suc (Suc 0))) = CHR ''3''"
  "digit 1 = CHR ''1''" "digit 2 = CHR ''2''"
  "digit 3 = CHR ''3''" "digit 4 = CHR ''4''" "digit 5 = CHR ''5''" "digit 6 = CHR ''6''"
  "digit 7 = CHR ''7''" "digit 8 = CHR ''8''" "digit 9 = CHR ''9''"
  by code_simp+

fun dec_nat :: "nat \<Rightarrow> string" where
  "dec_nat n = (if n < 10 then [digit n] else dec_nat (n div 10) @ [digit n])"

declare dec_nat.simps [simp del]

text \<open>The verb \<open>%d\<close>.\<close>

definition dec :: "int \<Rightarrow> string" where
  "dec i = (if i < 0 then ''-'' @ dec_nat (nat (- i)) else dec_nat (nat i))"

text \<open>The verb \<open>%q\<close> on an ASCII string: a double-quoted Go string literal.\<close>

definition hex_digit :: "nat \<Rightarrow> char" where
  "hex_digit n = char_of (if n < 10 then 48 + n else 87 + n)"

definition escape_char :: "char \<Rightarrow> string" where
  "escape_char c = (let n = of_char c in
     if c = CHR 0x22 \<or> c = CHR 0x5C then [CHR 0x5C, c]
     else if n = 7 then [CHR 0x5C, CHR ''a''] else if n = 8 then [CHR 0x5C, CHR ''b'']
     else if n = 9 then [CHR 0x5C, CHR ''t''] else if n = 10 then [CHR 0x5C, CHR ''n'']
     else if n = 11 then [CHR 0x5C, CHR ''v''] else if n = 12 then [CHR 0x5C, CHR ''f'']
     else if n = 13 then [CHR 0x5C, CHR ''r'']
     else if n < 32 \<or> n = (127 :: nat) then [CHR 0x5C, CHR ''x'', hex_digit (n div 16), hex_digit (n mod 16)]
     else [c])"

definition quote :: "string \<Rightarrow> string" where
  "quote s = [CHR 0x22] @ concat (map escape_char s) @ [CHR 0x22]"

text \<open>\<open>strings.TrimSpace\<close>, \<open>strings.ToLower\<close> and \<open>strings.Index\<close> on ASCII texts.\<close>

definition is_space :: "char \<Rightarrow> bool" where
  "is_space c \<longleftrightarrow> c \<in> {CHR '' '', CHR 0x09, CHR 0x0A, CHR 0x0B, CHR 0x0C, CHR 0x0D}"

definition TrimSpace :: "string \<Rightarrow> string" where
  "TrimSpace s = rev (dropWhile is_space (rev (dropWhile is_space s)))"

definition lower_char :: "char \<Rightarrow> char" where
  "lower_char c = (if 65 \<le> (of_char c :: nat) \<and> (of_char c :: nat) \<le> 90 then char_of ((of_char c :: nat) + 32) else c)"

definition strings_ToLower :: "string \<Rightarrow> string" where
  "strings_ToLower s = map lower_char s"

definition strings_HasPrefix :: "string \<Rightarrow> string \<Rightarrow> bool" where
  "strings_HasPrefix s p \<longleftrightarrow> take (length p) s = p"

definition strings_TrimPrefix :: "string \<Rightarrow> string \<Rightarrow> string" where
  "strings_TrimPrefix s p = (if strings_HasPrefix s p then drop (length p) s else s)"

lemma HasPrefix_append [simp]: "strings_HasPrefix (p @ s) p" "strings_TrimPrefix (p @ s) p = s"
  by (simp_all add: strings_HasPrefix_def strings_TrimPrefix_def)

fun strings_Index :: "string \<Rightarrow> string \<Rightarrow> nat option" where
  "strings_Index [] sub = (if sub = [] then Some 0 else None)"
| "strings_Index (c # s) sub =
     (if take (length sub) (c # s) = sub then Some 0 else map_option Suc (strings_Index s sub))"

text \<open>Where \<open>strings.Index\<close> finds a text, and when it finds none.\<close>

lemma strings_Index_Some:
  "strings_Index s m = Some i \<Longrightarrow> take (length m) (drop i s) = m \<and> i \<le> length s \<and>
     (\<forall>j<i. take (length m) (drop j s) \<noteq> m)"
proof (induction s arbitrary: i)
  case (Cons c s)
  show ?case
  proof (cases "take (length m) (c # s) = m")
    case False
    then obtain k where k: "strings_Index s m = Some k" "i = Suc k" using Cons.prems by auto
    have "take (length m) (drop j (c # s)) \<noteq> m" if "j < i" for j
      using False Cons.IH [OF k(1)] that k(2) by (cases j) auto
    then show ?thesis using Cons.IH [OF k(1)] k(2) by simp
  qed (use Cons.prems in auto)
qed (auto split: if_splits)

lemma all_le_Suc: "(\<forall>j\<le>Suc n. P j) \<longleftrightarrow> P 0 \<and> (\<forall>j\<le>n. P (Suc j))"
  by (metis Suc_le_mono le0 not0_implies_Suc)

lemma strings_Index_None:
  "strings_Index s m = None \<longleftrightarrow> (\<forall>j\<le>length s. take (length m) (drop j s) \<noteq> m)"
proof (induction s)
  case (Cons c s)
  have "(\<forall>j\<le>length (c # s). take (length m) (drop j (c # s)) \<noteq> m) \<longleftrightarrow>
      take (length m) (c # s) \<noteq> m \<and> (\<forall>j\<le>length s. take (length m) (drop j s) \<noteq> m)"
    by (simp add: all_le_Suc)
  then show ?case using Cons.IH by auto
qed auto

lemma strings_Index_SomeI:
  "take (length m) (drop i s) = m \<Longrightarrow> i \<le> length s \<Longrightarrow> (\<forall>j<i. take (length m) (drop j s) \<noteq> m) \<Longrightarrow>
   strings_Index s m = Some i"
  by (cases "strings_Index s m")
    (auto simp: strings_Index_None dest!: strings_Index_Some, metis linorder_neqE_nat)

text \<open>\<open>fmt\<close>'s \<open>%t\<close>.\<close>

definition bool_text :: "bool \<Rightarrow> string" where
  "bool_text b = (if b then ''true'' else ''false'')"

end
