(* ===== verification/Models.thy ===== *)
theory Models
  imports Prelude
begin

text \<open>
  The data of \<open>internal/models\<close> and the row types the repositories of \<open>internal/db\<close> declare.
  A Go string enumeration is a datatype with one constructor per constant; the empty string
  has a constructor of its own where the program writes it (\<open>ServiceLocationUnspecified\<close>,
  \<open>InstallationStateUnspecified\<close>, and \<open>NodeRoleNone\<close>, which \<open>DeleteCluster\<close> stores when it
  returns a node to the idle pool). A \<open>time.Time\<close> is an \<open>int\<close> (nanoseconds), a
  \<open>*time.Time\<close> an \<open>int option\<close>, a \<open>map[string]string\<close> a map. A \<open>float64\<close> is only stored
  and read back, never computed with, so it is kept as the \<open>int\<close> of its bit pattern.
  A text that is the JSON encoding of an object is kept as that object (\<open>Json\<close>), any other
  text as \<open>Text\<close>: marshalling builds the object, unmarshalling a \<open>Text\<close> fails.
\<close>

type_synonym Time = int
type_synonym Labels = "string \<rightharpoonup> string"

datatype jval = JStr string | JBool bool | JInt int | JList "string list"

datatype payload = Text string | Json "(string \<times> jval) list"

text \<open>The zero \<open>time.Time\<close> (the first of January of the year 1) and a day, in nanoseconds.\<close>

definition zero_time :: Time where
  "zero_time = - 62135596800 * 10 ^ 9"

definition day_ns :: Time where
  "day_ns = 24 * 3600 * 10 ^ 9"

section \<open>Reading JSON payloads\<close>

text \<open>A missing field has the zero value of its type; a field of another type is an error.\<close>

definition json_str :: "string \<Rightarrow> payload \<Rightarrow> string option" where
  "json_str k p = (case p of
     Text _ \<Rightarrow> None
   | Json fs \<Rightarrow> (case map_of (rev fs) k of
        None \<Rightarrow> Some []
      | Some (JStr s) \<Rightarrow> Some s
      | Some _ \<Rightarrow> None))"

definition json_bool :: "string \<Rightarrow> payload \<Rightarrow> bool option" where
  "json_bool k p = (case p of
     Text _ \<Rightarrow> None
   | Json fs \<Rightarrow> (case map_of (rev fs) k of
        None \<Rightarrow> Some False
      | Some (JBool b) \<Rightarrow> Some b
      | Some _ \<Rightarrow> None))"

section \<open>Enumerations\<close>

datatype EngineType = EnginePostgreSQL | EngineNone

datatype NodeRole = NodeRolePrimary | NodeRoleReplica | NodeRoleNone

text \<open>The stored strings, which \<open>ORDER BY role\<close> compares.\<close>

primrec role_text :: "NodeRole \<Rightarrow> string" where
  "role_text NodeRolePrimary = ''primary''"
| "role_text NodeRoleReplica = ''replica''"
| "role_text NodeRoleNone = ''''"

datatype ReplicationMode = ReplicationSync | ReplicationAsync

datatype ClusterStatus =
    ClusterStatusCreating | ClusterStatusRunning | ClusterStatusDegraded
  | ClusterStatusStopped | ClusterStatusDeleting

datatype ServiceLocation =
    ServiceLocationUnspecified | ServiceLocationNative | ServiceLocationDocker

datatype InstallationState =
    InstallationStateUnspecified | InstallationStatePendingPreflight
  | InstallationStateNothingFound | InstallationStateConflict | InstallationStateInstalling
  | InstallationStateInstalled | InstallationStateFailed | InstallationStateAdopted

datatype NodeStatus =
    NodeStatusOnline | NodeStatusOffline | NodeStatusDegraded | NodeStatusSyncing
  | NodeStatusPromoting | NodeStatusDrained | NodeStatusDeleting

datatype CommandStatus = CommandStatusPending | CommandStatusCompleted | CommandStatusFailed

text \<open>\<open>RoleNone\<close> is the empty role of a token that carries no role claim.\<close>

datatype Role = RoleAdmin | RoleOperator | RoleViewer | RoleNone

section \<open>Records\<close>

record Cluster =
  Cluster_ID :: string
  Cluster_Name :: string
  Cluster_Engine :: EngineType
  Cluster_Version :: string
  Cluster_ReplicationMode :: ReplicationMode
  Cluster_Replicas :: int
  Cluster_StorageConfigID :: string
  Cluster_DataDir :: string
  Cluster_PITREnabled :: bool
  Cluster_Status :: ClusterStatus
  Cluster_Tags :: Labels
  Cluster_ServiceLocation :: ServiceLocation
  Cluster_CreatedAt :: Time
  Cluster_UpdatedAt :: Time

record NodeMetric =
  Metric_ID :: string
  Metric_NodeID :: string
  Metric_RecordedAt :: Time
  Metric_OS :: string
  Metric_Platform :: string
  Metric_PlatformVersion :: string
  Metric_KernelVersion :: string
  Metric_Architecture :: string
  Metric_CPUCores :: int
  Metric_CPUUsagePercent :: int
  Metric_LoadAverage1M :: int
  Metric_LoadAverage5M :: int
  Metric_LoadAverage15M :: int
  Metric_MemoryTotalBytes :: int
  Metric_MemoryUsedBytes :: int
  Metric_MemoryAvailableBytes :: int
  Metric_MemoryUsagePercent :: int
  Metric_DiskTotalBytes :: int
  Metric_DiskUsedBytes :: int
  Metric_DiskAvailableBytes :: int
  Metric_DiskUsagePercent :: int
  Metric_UptimeSeconds :: int

record Node =
  Node_ID :: string
  Node_ClusterID :: string
  Node_Hostname :: string
  Node_Address :: string
  Node_Port :: int
  Node_Role :: NodeRole
  Node_Status :: NodeStatus
  Node_AgentVersion :: string
  Node_AgentID :: string
  Node_Labels :: Labels
  Node_LastSeen :: Time
  Node_CreatedAt :: Time
  Node_UpdatedAt :: Time
  Node_PostgresInstalled :: bool
  Node_PostgresVersion :: string
  Node_PostgresDataInitialized :: bool
  Node_StatusDetail :: string
  Node_ServiceLocation :: ServiceLocation
  Node_DockerAvailable :: bool
  Node_InstallationState :: InstallationState
  Node_ConflictDetails :: string
  Node_AgentConnected :: bool
  Node_AgentLatencyMS :: int
  Node_LatestMetrics :: "NodeMetric option"

record AgentCommand =
  Cmd_ID :: string
  Cmd_AgentID :: string
  Cmd_NodeID :: string
  Cmd_Action :: string
  Cmd_Payload :: payload
  Cmd_Status :: CommandStatus
  Cmd_Result :: payload
  Cmd_Error :: string
  Cmd_CreatedAt :: Time
  Cmd_CompletedAt :: "Time option"

record ClusterSetting =
  Setting_ID :: string
  Setting_ClusterID :: string
  Setting_Key :: string
  Setting_Value :: string
  Setting_CreatedAt :: Time
  Setting_UpdatedAt :: Time

record User =
  User_ID :: string
  User_Email :: string
  User_PasswordHash :: string
  User_DisplayName :: string
  User_Role :: Role
  User_CreatedAt :: Time
  User_UpdatedAt :: Time

record APIKey =
  Key_ID :: string
  Key_UserID :: string
  Key_Name :: string
  Key_KeyHash :: string
  Key_ExpiresAt :: "Time option"
  Key_CreatedAt :: Time

record AgentToken =
  Token_ID :: string
  Token_Name :: string
  Token_TokenHash :: string
  Token_Role :: Role
  Token_ExpiresAt :: "Time option"
  Token_CreatedAt :: Time

record ServiceOperation =
  Op_ID :: string
  Op_ClusterID :: string
  Op_NodeID :: string
  Op_OperationType :: string
  Op_Status :: string
  Op_Error :: string
  Op_CreatedAt :: Time
  Op_UpdatedAt :: Time
  Op_CompletedAt :: "Time option"

record ManagedRole =
  MRole_ID :: string
  MRole_ClusterID :: string
  MRole_RoleName :: string
  MRole_RoleKind :: string
  MRole_EncryptedPassword :: string
  MRole_PasswordVersion :: int
  MRole_ExpiresAt :: "Time option"
  MRole_Status :: string
  MRole_CreatedAt :: Time
  MRole_UpdatedAt :: Time

record CommandSecret =
  Secret_ID :: string
  Secret_CommandID :: string
  Secret_Key :: string
  Secret_Ciphertext :: string
  Secret_CreatedAt :: Time
  Secret_ExpiresAt :: "Time option"

text \<open>A row of \<open>cluster_secrets\<close>: one value per cluster and key.\<close>

record ClusterSecret =
  CSecret_ID :: string
  CSecret_ClusterID :: string
  CSecret_Key :: string
  CSecret_Ciphertext :: string
  CSecret_CreatedAt :: Time
  CSecret_UpdatedAt :: Time

text \<open>
  A row of \<open>node_feature_apply_status\<close>, which \<open>HBAApplyStatus\<close> and \<open>TLSApplyStatus\<close> are read
  from: \<open>Feat_Feature\<close> tells them apart.
\<close>

record FeatureApplyStatus =
  Feat_ClusterID :: string
  Feat_NodeID :: string
  Feat_Feature :: string
  Feat_CommandID :: string
  Feat_Status :: string
  Feat_Error :: string
  Feat_Detail :: payload
  Feat_AppliedAt :: "Time option"
  Feat_UpdatedAt :: Time

record ManagedDatabase =
  MDb_ID :: string
  MDb_ClusterID :: string
  MDb_DatabaseName :: string
  MDb_OwnerRoleID :: "string option"
  MDb_Status :: string
  MDb_CreatedAt :: Time
  MDb_UpdatedAt :: Time

record ClusterExtension =
  Ext_ClusterID :: string
  Ext_ExtensionName :: string
  Ext_Enabled :: bool
  Ext_Status :: string
  Ext_Error :: string
  Ext_CommandID :: string
  Ext_AppliedAt :: "Time option"
  Ext_UpdatedAt :: Time

record CommandLog =
  Log_ID :: string
  Log_CommandID :: string
  Log_AgentID :: string
  Log_Level :: string
  Log_Message :: string
  Log_CreatedAt :: Time

record AuditLog =
  Audit_ID :: int
  Audit_UserID :: string
  Audit_Action :: string
  Audit_Resource :: string
  Audit_Detail :: string
  Audit_IPAddress :: string
  Audit_CreatedAt :: Time

text \<open>
  The connection profile of a cluster and the row that stores it: the columns of the CIDR lists hold JSON
  texts, kept as the list they encode, and \<open>None\<close> for any other text.
\<close>

record ConnectionProfile =
  CP_ClusterID :: string
  CP_EndpointMode :: string
  CP_PublicHost :: string
  CP_PublicPort :: int
  CP_SSLMode :: string
  CP_AllowedCIDRs :: "string list"
  CP_AllowedAdminCIDRs :: "string list"
  CP_AllowedReplicationCIDRs :: "string list"
  CP_TLSCertFile :: string
  CP_TLSKeyFile :: string
  CP_TLSCAFile :: string
  CP_CreatedAt :: Time
  CP_UpdatedAt :: Time

record ConnectionProfileRow =
  Row_ClusterID :: string
  Row_EndpointMode :: string
  Row_PublicHost :: string
  Row_PublicPort :: int
  Row_SSLMode :: string
  Row_AllowedCIDRs :: "string list option"
  Row_AllowedAdminCIDRs :: "string list option"
  Row_AllowedReplicationCIDRs :: "string list option"
  Row_TLSCertFile :: string
  Row_TLSKeyFile :: string
  Row_TLSCAFile :: string
  Row_CreatedAt :: Time
  Row_UpdatedAt :: Time

record ServiceTLSCA =
  CA_ClusterID :: string
  CA_CACertPEM :: string
  CA_EncryptedCAKeyPEM :: string
  CA_CreatedAt :: Time
  CA_UpdatedAt :: Time

record StorageConfig =
  Stor_ID :: string
  Stor_Name :: string
  Stor_Type :: string
  Stor_Endpoint :: string
  Stor_Bucket :: string
  Stor_Region :: string
  Stor_AccessKeyID :: string
  Stor_SecretKey :: string
  Stor_UseSSL :: bool
  Stor_CreatedAt :: Time
  Stor_UpdatedAt :: Time

datatype BackupType = BackupTypeFull | BackupTypeIncremental | BackupTypeDifferential

datatype BackupStatus = BackupStatusRunning | BackupStatusCompleted | BackupStatusFailed | BackupStatusDeleting

record Backup =
  Bak_ID :: string
  Bak_ClusterID :: string
  Bak_NodeID :: string
  Bak_Type :: BackupType
  Bak_StoragePath :: string
  Bak_StorageConfigID :: string
  Bak_WALStart :: string
  Bak_WALStop :: string
  Bak_LSN :: string
  Bak_SizeBytes :: int
  Bak_Status :: BackupStatus
  Bak_CreatedAt :: Time
  Bak_CompletedAt :: "Time option"

datatype RestoreTargetType = RestoreTargetTime | RestoreTargetLSN | RestoreTargetXID | RestoreTargetLatest

datatype RestoreStatus = RestoreStatusRunning | RestoreStatusCompleted | RestoreStatusFailed

text \<open>A row of \<open>restore_jobs\<close>; the column \<open>backup_id\<close> is written and never read.\<close>

record RestoreJob =
  Rst_ID :: string
  Rst_SourceClusterID :: string
  Rst_BackupID :: string
  Rst_TargetType :: RestoreTargetType
  Rst_TargetValue :: string
  Rst_TargetNodeID :: string
  Rst_Status :: RestoreStatus
  Rst_CreatedAt :: Time
  Rst_CompletedAt :: "Time option"

record BackupSchedule =
  Sch_ID :: string
  Sch_ClusterID :: string
  Sch_Cron :: string
  Sch_Type :: BackupType
  Sch_RetentionCount :: int
  Sch_RetentionDays :: int
  Sch_StorageConfigID :: string
  Sch_Enabled :: bool
  Sch_CreatedAt :: Time
  Sch_UpdatedAt :: Time

section \<open>gRPC status errors\<close>

datatype code =
    InvalidArgument | NotFound | AlreadyExists | PermissionDenied | FailedPrecondition
  | Unimplemented | Internal | Unavailable | Unauthenticated

text \<open>
  What a handler returns instead of a response: a gRPC status with its code and text, or a
  run-time panic (an index out of range) that unwinds the handler.
\<close>

datatype grpc_error = Status code string | Panic string

end
