(* ===== verification/Store.thy ===== *)
theory Store
  imports Models
begin

text \<open>
  The metadata store and the effects every handler runs in. \<open>db\<close> is the content of the
  tables; \<open>world\<close> adds the environment the server cannot control: whether the n-th SQL
  statement fails and with which driver error (\<open>fault\<close>), what the n-th call of
  \<open>time.Now()\<close> reads (\<open>clock\<close>), what \<open>id.New()\<close> (google/uuid), the random token
  generator and the source of nonces return. These are functions of a call counter, so a theorem about every \<open>env\<close>
  is a theorem about every pattern of failures, clock readings and identifiers. The calls
  of etcd are counted and may fail like the statements; what the server put there is
  \<open>dcs_primary\<close>, which no transaction rolls back.

  A statement is atomic: it changes the tables as it says or, when it fails, not at all.
  \<open>in_tx\<close> is \<open>BeginTx ... defer tx.Rollback() ... Commit\<close>: an early return restores the
  tables as they were at \<open>BeginTx\<close>, and so does a commit that fails. Foreign-key actions
  belong to the schema, not to the statements, and are not modelled.
\<close>

record db =
  clusters :: "Cluster list"
  nodes :: "Node list"
  node_metrics :: "NodeMetric list"
  agent_commands :: "AgentCommand list"
  cluster_settings :: "ClusterSetting list"
  users :: "User list"
  api_keys :: "APIKey list"
  agent_tokens :: "AgentToken list"
  service_operations :: "ServiceOperation list"
  managed_roles :: "ManagedRole list"
  agent_command_secrets :: "CommandSecret list"
  cluster_secrets :: "ClusterSecret list"
  node_feature_apply_status :: "FeatureApplyStatus list"
  managed_databases :: "ManagedDatabase list"
  cluster_extensions :: "ClusterExtension list"
  agent_command_logs :: "CommandLog list"
  audit_logs :: "AuditLog list"
  cluster_connection_profiles :: "ConnectionProfileRow list"
  service_tls_authorities :: "ServiceTLSCA list"
  storage_configs :: "StorageConfig list"
  backups :: "Backup list"
  restore_jobs :: "RestoreJob list"
  backup_schedules :: "BackupSchedule list"

record env =
  fault :: "nat \<Rightarrow> string option"
  constraint_error :: string
  json_error :: "payload \<Rightarrow> string"
  base64_error :: "string \<Rightarrow> string"
  clock :: "nat \<Rightarrow> Time"
  uuid :: "nat \<Rightarrow> string"
  random_token :: "nat \<Rightarrow> string"
  random_nonce :: "nat \<Rightarrow> string"

text \<open>What \<open>dcs.Store\<close> keeps in etcd about a cluster's primary (\<open>dcs.PrimaryInfo\<close>).\<close>

record PrimaryInfo =
  Info_ClusterID :: string
  Info_NodeID :: string
  Info_Hostname :: string
  Info_Address :: string
  Info_Port :: int
  Info_UpdatedAt :: Time

record world =
  store :: db
  the_env :: env
  dcs_primary :: "string \<rightharpoonup> PrimaryInfo"
  n_stmt :: nat
  n_now :: nat
  n_uuid :: nat
  n_token :: nat
  n_nonce :: nat

type_synonym 'a io = "(world, 'a) state"
type_synonym 'a res = "string + 'a"
type_synonym 'a rpc = "grpc_error + 'a"

section \<open>Calls of the environment\<close>

definition time_now :: "Time io" where
  "time_now = do {
     w \<leftarrow> State_Monad.get;
     _ \<leftarrow> State_Monad.set (w\<lparr>n_now := Suc (n_now w)\<rparr>);
     State_Monad.return (clock (the_env w) (n_now w))
   }"

definition id_New :: "string io" where
  "id_New = do {
     w \<leftarrow> State_Monad.get;
     _ \<leftarrow> State_Monad.set (w\<lparr>n_uuid := Suc (n_uuid w)\<rparr>);
     State_Monad.return (uuid (the_env w) (n_uuid w))
   }"

definition GenerateToken :: "string io" where
  "GenerateToken = do {
     w \<leftarrow> State_Monad.get;
     _ \<leftarrow> State_Monad.set (w\<lparr>n_token := Suc (n_token w)\<rparr>);
     State_Monad.return (random_token (the_env w) (n_token w))
   }"

text \<open>The twelve random bytes that \<open>io.ReadFull(rand.Reader, nonce)\<close> fills in.\<close>

definition read_nonce :: "string io" where
  "read_nonce = do {
     w \<leftarrow> State_Monad.get;
     _ \<leftarrow> State_Monad.set (w\<lparr>n_nonce := Suc (n_nonce w)\<rparr>);
     State_Monad.return (random_nonce (the_env w) (n_nonce w))
   }"

text \<open>The error texts of \<open>json.Unmarshal\<close> and of \<open>base64.DecodeString\<close>.\<close>

definition json_err :: "payload \<Rightarrow> string io" where
  "json_err p = do { w \<leftarrow> State_Monad.get; State_Monad.return (json_error (the_env w) p) }"

definition base64_err :: "string \<Rightarrow> string io" where
  "base64_err s = do { w \<leftarrow> State_Monad.get; State_Monad.return (base64_error (the_env w) s) }"

lemma wp_read_nonce [wp_simps]:
  "wp read_nonce Q w = Q (random_nonce (the_env w) (n_nonce w)) (w\<lparr>n_nonce := Suc (n_nonce w)\<rparr>)"
  by (simp add: read_nonce_def wp_simps)

lemma wp_json_err [wp_simps]: "wp (json_err p) Q w = Q (json_error (the_env w) p) w"
  by (simp add: json_err_def wp_simps)

lemma wp_base64_err [wp_simps]: "wp (base64_err s) Q w = Q (base64_error (the_env w) s) w"
  by (simp add: base64_err_def wp_simps)

lemma wp_time_now [wp_simps]:
  "wp time_now Q w = Q (clock (the_env w) (n_now w)) (w\<lparr>n_now := Suc (n_now w)\<rparr>)"
  by (simp add: time_now_def wp_simps)

lemma wp_id_New [wp_simps]:
  "wp id_New Q w = Q (uuid (the_env w) (n_uuid w)) (w\<lparr>n_uuid := Suc (n_uuid w)\<rparr>)"
  by (simp add: id_New_def wp_simps)

lemma wp_GenerateToken [wp_simps]:
  "wp GenerateToken Q w = Q (random_token (the_env w) (n_token w)) (w\<lparr>n_token := Suc (n_token w)\<rparr>)"
  by (simp add: GenerateToken_def wp_simps)

section \<open>Statements\<close>

text \<open>
  \<open>exec f\<close> runs a statement that writes; \<open>f\<close> is its effect on the tables, \<open>None\<close> a violated
  constraint. \<open>query f\<close> runs a \<open>SELECT\<close>.
\<close>

definition stmt_fault :: "string option io" where
  "stmt_fault = do {
     w \<leftarrow> State_Monad.get;
     _ \<leftarrow> State_Monad.set (w\<lparr>n_stmt := Suc (n_stmt w)\<rparr>);
     State_Monad.return (fault (the_env w) (n_stmt w))
   }"

definition exec :: "(db \<Rightarrow> db option) \<Rightarrow> unit res io" where
  "exec f = do {
     e \<leftarrow> stmt_fault;
     w \<leftarrow> State_Monad.get;
     (case e of
       Some msg \<Rightarrow> State_Monad.return (Inl msg)
     | None \<Rightarrow> (case f (store w) of
         None \<Rightarrow> State_Monad.return (Inl (constraint_error (the_env w)))
       | Some d \<Rightarrow> do {
           _ \<leftarrow> State_Monad.set (w\<lparr>store := d\<rparr>);
           State_Monad.return (Inr ())
         }))
   }"

definition query :: "(db \<Rightarrow> 'a) \<Rightarrow> 'a res io" where
  "query f = do {
     e \<leftarrow> stmt_fault;
     w \<leftarrow> State_Monad.get;
     State_Monad.return (case e of Some msg \<Rightarrow> Inl msg | None \<Rightarrow> Inr (f (store w)))
   }"

lemma wp_stmt_fault [wp_simps]:
  "wp stmt_fault Q w = Q (fault (the_env w) (n_stmt w)) (w\<lparr>n_stmt := Suc (n_stmt w)\<rparr>)"
  by (simp add: stmt_fault_def wp_simps)

lemma wp_exec [wp_simps]:
  "wp (exec f) Q w =
   (case fault (the_env w) (n_stmt w) of
      Some msg \<Rightarrow> Q (Inl msg) (w\<lparr>n_stmt := Suc (n_stmt w)\<rparr>)
    | None \<Rightarrow> (case f (store w) of
        None \<Rightarrow> Q (Inl (constraint_error (the_env w))) (w\<lparr>n_stmt := Suc (n_stmt w)\<rparr>)
      | Some d \<Rightarrow> Q (Inr ()) (w\<lparr>n_stmt := Suc (n_stmt w), store := d\<rparr>)))"
  by (auto simp: exec_def wp_simps split: option.splits)

lemma wp_query [wp_simps]:
  "wp (query f) Q w =
   (case fault (the_env w) (n_stmt w) of
      Some msg \<Rightarrow> Q (Inl msg) (w\<lparr>n_stmt := Suc (n_stmt w)\<rparr>)
    | None \<Rightarrow> Q (Inr (f (store w))) (w\<lparr>n_stmt := Suc (n_stmt w)\<rparr>))"
  by (auto simp: query_def wp_simps split: option.splits)

text \<open>\<open>UPDATE\<close> and \<open>DELETE\<close> statements violate no constraint of the schema.\<close>

definition sql_write :: "(db \<Rightarrow> db) \<Rightarrow> unit res io" where
  "sql_write f = exec (\<lambda>d. Some (f d))"

lemma wp_sql_write [wp_simps]:
  "wp (sql_write f) Q w =
   (case fault (the_env w) (n_stmt w) of
      Some msg \<Rightarrow> Q (Inl msg) (w\<lparr>n_stmt := Suc (n_stmt w)\<rparr>)
    | None \<Rightarrow> Q (Inr ()) (w\<lparr>n_stmt := Suc (n_stmt w), store := f (store w)\<rparr>))"
  by (simp add: sql_write_def wp_simps split: option.splits)

text \<open>An error a repository returns with a prefix.\<close>

definition wrap_err :: "string \<Rightarrow> 'a res io \<Rightarrow> 'a res io" where
  "wrap_err p m = try_do m (\<lambda>e. Inl (wrap p e)) (\<lambda>a. State_Monad.return (Inr a))"

lemma wp_wrap_err [wp_simps]:
  "wp (wrap_err p m) Q w =
   wp m (\<lambda>r w'. case r of Inl e \<Rightarrow> Q (Inl (wrap p e)) w' | Inr a \<Rightarrow> Q (Inr a) w') w"
  by (simp add: wrap_err_def wp_simps cong: sum.case_cong)

section \<open>Transactions\<close>

text \<open>
  The body of a transaction ends by committing a result, or by returning early with one
  (\<open>Abort\<close>), in which case the deferred \<open>Rollback\<close> undoes its writes.
\<close>

datatype 'r tx = Commit 'r | Abort 'r

definition in_tx :: "(string \<Rightarrow> 'r) \<Rightarrow> (string \<Rightarrow> 'r) \<Rightarrow> 'r tx io \<Rightarrow> 'r io" where
  "in_tx on_begin on_commit body = do {
     b \<leftarrow> stmt_fault;
     (case b of
       Some e \<Rightarrow> State_Monad.return (on_begin e)
     | None \<Rightarrow> do {
         w \<leftarrow> State_Monad.get;
         r \<leftarrow> body;
         (case r of
           Abort v \<Rightarrow> do {
             w' \<leftarrow> State_Monad.get;
             _ \<leftarrow> State_Monad.set (w'\<lparr>store := store w\<rparr>);
             State_Monad.return v
           }
         | Commit v \<Rightarrow> do {
             c \<leftarrow> stmt_fault;
             (case c of
               None \<Rightarrow> State_Monad.return v
             | Some e \<Rightarrow> do {
                 w' \<leftarrow> State_Monad.get;
                 _ \<leftarrow> State_Monad.set (w'\<lparr>store := store w\<rparr>);
                 State_Monad.return (on_commit e)
               })
           })
       })
   }"

lemma wp_in_tx:
  "wp (in_tx on_begin on_commit body) Q w =
   (case fault (the_env w) (n_stmt w) of
      Some e \<Rightarrow> Q (on_begin e) (w\<lparr>n_stmt := Suc (n_stmt w)\<rparr>)
    | None \<Rightarrow> wp body (\<lambda>r w'. case r of
          Abort v \<Rightarrow> Q v (w'\<lparr>store := store w\<rparr>)
        | Commit v \<Rightarrow> (case fault (the_env w') (n_stmt w') of
            None \<Rightarrow> Q v (w'\<lparr>n_stmt := Suc (n_stmt w')\<rparr>)
          | Some e \<Rightarrow> Q (on_commit e) (w'\<lparr>n_stmt := Suc (n_stmt w'), store := store w\<rparr>)))
        (w\<lparr>n_stmt := Suc (n_stmt w)\<rparr>))"
proof (cases "fault (the_env w) (n_stmt w)")
  case None
  then show ?thesis
    unfolding in_tx_def
    by (simp add: wp_simps) (rule wp_cong, auto simp: wp_simps split: option.splits tx.splits)
next
  case (Some e)
  then show ?thesis
    unfolding in_tx_def by (simp add: wp_simps)
qed

text \<open>The body of a transaction: an error of a statement returns early.\<close>

definition try_tx :: "('s, 'e + 'a) state \<Rightarrow> ('e \<Rightarrow> 'r) \<Rightarrow> ('a \<Rightarrow> ('s, 'r tx) state) \<Rightarrow> ('s, 'r tx) state" where
  "try_tx m onerr k = try_do m (\<lambda>e. Abort (onerr e)) k"

lemma wp_try_tx [wp_simps]:
  "wp (try_tx m onerr k) Q s =
   wp m (\<lambda>r s'. case r of Inl e \<Rightarrow> Q (Abort (onerr e)) s' | Inr a \<Rightarrow> wp (k a) Q s') s"
  by (simp add: try_tx_def wp_simps)

lemma wp_try_txI:
  assumes "wp m (\<lambda>r s'. \<forall>a. r = Inr a \<longrightarrow> R a s') s"
    and "\<And>e s'. Q (Abort (onerr e)) s'" "\<And>a s'. R a s' \<Longrightarrow> wp (k a) Q s'"
  shows "wp (try_tx m onerr k) Q s"
  unfolding try_tx_def by (rule wp_try_doI [OF assms])

text \<open>
  The outcome of a transaction: it commits what its body promises (\<open>C\<close>), or the tables are
  as before and the value is one of those an abort or a failed begin or commit gives (\<open>A\<close>).
\<close>

lemma wp_in_tx_outcome:
  assumes "wp body (\<lambda>r w'. case r of Commit v \<Rightarrow> C v (store w') | Abort v \<Rightarrow> A v) (w\<lparr>n_stmt := Suc (n_stmt w)\<rparr>)"
    and "\<And>e. A (on_begin e)" "\<And>e. A (on_commit e)"
  shows "wp (in_tx on_begin on_commit body) (\<lambda>v w'. C v (store w') \<or> A v \<and> store w' = store w) w"
  unfolding wp_in_tx
  by (auto simp: assms(2,3) split: option.splits intro!: wp_mono [OF assms(1)] split: tx.splits)

section \<open>Invariants of the tables\<close>

text \<open>\<open>keeps_db I m\<close>: \<open>m\<close> keeps the property \<open>I\<close> of the tables, whatever fails.\<close>

abbreviation keeps_db :: "(db \<Rightarrow> bool) \<Rightarrow> 'a io \<Rightarrow> bool" where
  "keeps_db I m \<equiv> keeps (\<lambda>w. I (store w)) m"

lemma keeps_time_now [keeps_intros]: "keeps_db I time_now"
  by (rule keeps_wpI) (simp add: wp_simps)

lemma keeps_id_New [keeps_intros]: "keeps_db I id_New"
  by (rule keeps_wpI) (simp add: wp_simps)

lemma keeps_GenerateToken [keeps_intros]: "keeps_db I GenerateToken"
  by (rule keeps_wpI) (simp add: wp_simps)

lemma keeps_read_nonce [keeps_intros]: "keeps_db I read_nonce"
  by (rule keeps_wpI) (simp add: wp_simps)

lemma keeps_codec_err [keeps_intros]: "keeps I (json_err p)" "keeps I (base64_err s)"
  by (rule keeps_wpI, simp add: wp_simps)+

lemma keeps_query [keeps_intros]: "keeps_db I (query f)"
  by (rule keeps_wpI) (simp add: wp_simps split: option.splits)

lemma keeps_exec:
  "(\<And>d d'. I d \<Longrightarrow> f d = Some d' \<Longrightarrow> I d') \<Longrightarrow> keeps_db I (exec f)"
  by (rule keeps_wpI) (simp add: wp_simps split: option.splits)

lemma keeps_sql_write: "(\<And>d. I d \<Longrightarrow> I (f d)) \<Longrightarrow> keeps_db I (sql_write f)"
  unfolding sql_write_def by (rule keeps_exec) auto

lemma keeps_wrap_err [keeps_intros]: "keeps I m \<Longrightarrow> keeps I (wrap_err p m)"
  unfolding wrap_err_def by (intro keeps_intros)

lemma keeps_try_tx [keeps_intros]:
  "keeps_db I m \<Longrightarrow> (\<And>a. keeps_db I (k a)) \<Longrightarrow> keeps_db I (try_tx m onerr k)"
  unfolding try_tx_def by (rule keeps_try_do)

lemma keeps_in_tx [keeps_intros]:
  assumes "keeps_db I body"
  shows "keeps_db I (in_tx on_begin on_commit body)"
proof (rule keeps_wpI)
  fix w :: world assume I: "I (store w)"
  then have "wp body (\<lambda>_ w'. I (store w')) (w\<lparr>n_stmt := Suc (n_stmt w)\<rparr>)"
    using assms by (simp add: keeps_wp)
  then show "wp (in_tx on_begin on_commit body) (\<lambda>_ w. I (store w)) w"
    using I by (auto simp: wp_in_tx split: option.splits tx.splits elim!: wp_mono)
qed

section \<open>One table of the store\<close>

text \<open>
  The contract between a repository and the store: the rows of its table can be read and
  replaced, and replacing them changes nothing else. Every table of \<open>db\<close> is an
  interpretation; the facts below then say that each kind of statement keeps the primary
  key of that table.
\<close>

locale db_table = keyed_table key for key :: "'r \<Rightarrow> 'k" +
  fixes tab :: "db \<Rightarrow> 'r list"
    and put :: "'r list \<Rightarrow> db \<Rightarrow> db"
  assumes tab_put: "tab (put rows d) = rows"
    and put_tab: "put (tab d) d = d"
    and put_put: "put rows (put rows' d) = put rows d"
begin

abbreviation pk :: "db \<Rightarrow> bool" where
  "pk d \<equiv> unique (tab d)"

lemma keeps_pk_update:
  "(\<And>r. p r \<Longrightarrow> key (f r) = key r) \<Longrightarrow> keeps_db pk (sql_write (\<lambda>d. put (upd_where p f (tab d)) d))"
  by (rule keeps_sql_write) (simp add: tab_put unique_upd)

lemma keeps_pk_delete: "keeps_db pk (sql_write (\<lambda>d. put (del_where (p d) (tab d)) d))"
  by (rule keeps_sql_write) (simp add: tab_put unique_del)

lemma keeps_pk_insert:
  "keeps_db pk (exec (\<lambda>d. if key r \<in> key ` set (tab d) then None
                          else Some (put (tab d @ [r]) d)))"
  by (rule keeps_exec) (auto simp: tab_put unique_insert split: if_splits)

lemma keeps_pk_insert_unless:
  "keeps_db pk (exec (\<lambda>d. if key r \<in> key ` set (tab d) \<or> clash d then None
                          else Some (put (tab d @ [r]) d)))"
  by (rule keeps_exec) (auto simp: tab_put unique_insert split: if_splits)

lemma keeps_pk_other:
  "(\<And>d. tab (f d) = tab d) \<Longrightarrow> keeps_db pk (sql_write f)"
  by (rule keeps_sql_write) simp

lemma keeps_pk_other_exec:
  "(\<And>d d'. f d = Some d' \<Longrightarrow> tab d' = tab d) \<Longrightarrow> keeps_db pk (exec f)"
  by (rule keeps_exec) simp

end

interpretation clusters_table: db_table Cluster_ID clusters "\<lambda>rows d. d\<lparr>clusters := rows\<rparr>"
  by unfold_locales simp_all

interpretation nodes_table: db_table Node_ID nodes "\<lambda>rows d. d\<lparr>nodes := rows\<rparr>"
  by unfold_locales simp_all

interpretation commands_table: db_table Cmd_ID agent_commands "\<lambda>rows d. d\<lparr>agent_commands := rows\<rparr>"
  by unfold_locales simp_all

interpretation roles_table: db_table MRole_ID managed_roles "\<lambda>rows d. d\<lparr>managed_roles := rows\<rparr>"
  by unfold_locales simp_all

interpretation operations_table: db_table Op_ID service_operations
  "\<lambda>rows d. d\<lparr>service_operations := rows\<rparr>"
  by unfold_locales simp_all

interpretation databases_table: db_table MDb_ID managed_databases
  "\<lambda>rows d. d\<lparr>managed_databases := rows\<rparr>"
  by unfold_locales simp_all

interpretation secrets_table: db_table "\<lambda>s. (Secret_CommandID s, Secret_Key s)" agent_command_secrets
  "\<lambda>rows d. d\<lparr>agent_command_secrets := rows\<rparr>"
  by unfold_locales simp_all

interpretation cluster_secrets_table: db_table "\<lambda>s. (CSecret_ClusterID s, CSecret_Key s)" cluster_secrets
  "\<lambda>rows d. d\<lparr>cluster_secrets := rows\<rparr>"
  by unfold_locales simp_all

interpretation features_table: db_table "\<lambda>r. (Feat_ClusterID r, Feat_NodeID r, Feat_Feature r)"
  node_feature_apply_status "\<lambda>rows d. d\<lparr>node_feature_apply_status := rows\<rparr>"
  by unfold_locales simp_all

interpretation extensions_table: db_table "\<lambda>x. (Ext_ClusterID x, Ext_ExtensionName x)"
  cluster_extensions "\<lambda>rows d. d\<lparr>cluster_extensions := rows\<rparr>"
  by unfold_locales simp_all

interpretation profiles_table: db_table Row_ClusterID cluster_connection_profiles
  "\<lambda>rows d. d\<lparr>cluster_connection_profiles := rows\<rparr>"
  by unfold_locales simp_all

interpretation authorities_table: db_table CA_ClusterID service_tls_authorities
  "\<lambda>rows d. d\<lparr>service_tls_authorities := rows\<rparr>"
  by unfold_locales simp_all

interpretation storage_table: db_table Stor_ID storage_configs "\<lambda>rows d. d\<lparr>storage_configs := rows\<rparr>"
  by unfold_locales simp_all

interpretation backups_table: db_table Bak_ID backups "\<lambda>rows d. d\<lparr>backups := rows\<rparr>"
  by unfold_locales simp_all

interpretation schedules_table: db_table Sch_ID backup_schedules "\<lambda>rows d. d\<lparr>backup_schedules := rows\<rparr>"
  by unfold_locales simp_all

interpretation restores_table: db_table Rst_ID restore_jobs "\<lambda>rows d. d\<lparr>restore_jobs := rows\<rparr>"
  by unfold_locales simp_all

text \<open>
  Atomicity. A transaction that does not return a committed result leaves every table as it
  was, whichever statement failed: the outcome is the old store, or the store its body
  built and committed.
\<close>

definition committed :: "'r tx io \<Rightarrow> world \<Rightarrow> 'r \<Rightarrow> db \<Rightarrow> bool" where
  "committed body w v d \<longleftrightarrow>
     (\<exists>w'. run_state body (w\<lparr>n_stmt := Suc (n_stmt w)\<rparr>) = (Commit v, w') \<and> store w' = d)"

lemma in_tx_atomic:
  fixes w w' :: world
  assumes "run_state (in_tx on_begin on_commit body) w = (v, w')"
  shows "store w' = store w \<or> committed body w v (store w')"
proof -
  obtain r w1 where b: "run_state body (w\<lparr>n_stmt := Suc (n_stmt w)\<rparr>) = (r, w1)"
    by fastforce
  have "wp (in_tx on_begin on_commit body) (\<lambda>v' w2. v' = v \<and> w2 = w') w"
    using assms by (simp add: wp_def)
  then show ?thesis
    unfolding wp_in_tx
    using b by (auto simp: wp_def committed_def split: option.splits tx.splits)
qed

section \<open>Runs without failures\<close>

definition fault_free :: "env \<Rightarrow> bool" where
  "fault_free e \<longleftrightarrow> (\<forall>n. fault e n = None)"

abbreviation no_faults :: "world \<Rightarrow> bool" where
  "no_faults w \<equiv> fault_free (the_env w)"

lemma no_faultsD [simp]: "fault_free e \<Longrightarrow> fault e n = None"
  by (simp add: fault_free_def)

text \<open>No operation changes the environment, so a world without failures stays one.\<close>

abbreviation keeps_env :: "(env \<Rightarrow> bool) \<Rightarrow> 'a io \<Rightarrow> bool" where
  "keeps_env P m \<equiv> keeps (\<lambda>w. P (the_env w)) m"

lemma keeps_env_basic [keeps_intros]:
  "keeps_env P time_now" "keeps_env P id_New" "keeps_env P GenerateToken"
  "keeps_env P read_nonce"
  "keeps_env P stmt_fault" "keeps_env P (exec f)" "keeps_env P (query g)"
  "keeps_env P (sql_write h)"
  by (auto intro!: keeps_wpI simp: wp_simps split: option.splits)

lemma keeps_env_try_tx [keeps_intros]:
  "keeps_env P m \<Longrightarrow> (\<And>a. keeps_env P (k a)) \<Longrightarrow> keeps_env P (try_tx m onerr k)"
  unfolding try_tx_def by (rule keeps_try_do)

lemma keeps_env_in_tx [keeps_intros]:
  assumes "keeps_env P body"
  shows "keeps_env P (in_tx on_begin on_commit body)"
proof (rule keeps_wpI)
  fix w :: world assume I: "P (the_env w)"
  then have "wp body (\<lambda>_ w. P (the_env w)) (w\<lparr>n_stmt := Suc (n_stmt w)\<rparr>)"
    using assms by (simp add: keeps_wp)
  then show "wp (in_tx on_begin on_commit body) (\<lambda>_ w. P (the_env w)) w"
    using I by (auto simp: wp_in_tx split: option.splits tx.splits elim!: wp_mono)
qed

lemma keeps_stmt_fault [keeps_intros]: "keeps_db I stmt_fault"
  by (rule keeps_wpI) (simp add: wp_simps)

end
