(* ===== verification/NodeRepo.thy ===== *)
theory NodeRepo
  imports Store
begin

text \<open>
  \<open>internal/db/node_repo.go\<close>: the repository of cluster nodes and their metrics. A null
  \<open>cluster_id\<close> column is the empty string (\<open>scanNodeRow\<close> reads it so), and since
  \<open>cluster_id = ?\<close> is never true of a null column the lookups by cluster exclude it
  (\<open>in_cluster\<close>). Metrics are not columns of \<open>nodes\<close>: each getter reads the rows and then
  attaches the newest metric of each node with a second statement.
\<close>

definition in_cluster :: "string \<Rightarrow> Node \<Rightarrow> bool" where
  "in_cluster cid n \<longleftrightarrow> cid \<noteq> [] \<and> Node_ClusterID n = cid"

section \<open>Metrics\<close>

definition latest_metric :: "string \<Rightarrow> NodeMetric list \<Rightarrow> NodeMetric option" where
  "latest_metric nid ms =
     (case rev (sort_key (\<lambda>m. (Metric_RecordedAt m, Metric_ID m)) (filter (\<lambda>m. Metric_NodeID m = nid) ms)) of
        [] \<Rightarrow> None
      | m # _ \<Rightarrow> Some m)"

definition attach_metric :: "NodeMetric list \<Rightarrow> Node \<Rightarrow> Node" where
  "attach_metric ms n =
     (case latest_metric (Node_ID n) ms of
        None \<Rightarrow> n
      | Some m \<Rightarrow> n\<lparr>Node_LatestMetrics := Some m\<rparr>)"

definition nodes_attachLatestMetrics :: "Node list \<Rightarrow> Node list res io" where
  "nodes_attachLatestMetrics ns =
     (if ns = [] then State_Monad.return (Inr [])
      else wrap_err ''query latest node metrics'' (query (\<lambda>d. map (attach_metric (node_metrics d)) ns)))"

lemma attach_metric_fields [simp]:
  "Node_ID (attach_metric ms n) = Node_ID n"
  "Node_ClusterID (attach_metric ms n) = Node_ClusterID n"
  "Node_Hostname (attach_metric ms n) = Node_Hostname n"
  "Node_Address (attach_metric ms n) = Node_Address n"
  "Node_Port (attach_metric ms n) = Node_Port n"
  "Node_Role (attach_metric ms n) = Node_Role n"
  "Node_Status (attach_metric ms n) = Node_Status n"
  "Node_AgentID (attach_metric ms n) = Node_AgentID n"
  "Node_LastSeen (attach_metric ms n) = Node_LastSeen n"
  "Node_CreatedAt (attach_metric ms n) = Node_CreatedAt n"
  "Node_PostgresInstalled (attach_metric ms n) = Node_PostgresInstalled n"
  "Node_PostgresVersion (attach_metric ms n) = Node_PostgresVersion n"
  "Node_PostgresDataInitialized (attach_metric ms n) = Node_PostgresDataInitialized n"
  "Node_StatusDetail (attach_metric ms n) = Node_StatusDetail n"
  "Node_ServiceLocation (attach_metric ms n) = Node_ServiceLocation n"
  "Node_DockerAvailable (attach_metric ms n) = Node_DockerAvailable n"
  "Node_InstallationState (attach_metric ms n) = Node_InstallationState n"
  "Node_ConflictDetails (attach_metric ms n) = Node_ConflictDetails n"
  by (simp_all add: attach_metric_def split: option.splits)

section \<open>Inserting and reading nodes\<close>

definition nodes_Create ::
  "string \<Rightarrow> string \<Rightarrow> string \<Rightarrow> int \<Rightarrow> NodeRole \<Rightarrow> string \<Rightarrow> Labels \<Rightarrow> Node res io" where
  "nodes_Create clusterID hostname address port role agentVersion labels = do {
     nodeID \<leftarrow> id_New;
     now \<leftarrow> time_now;
     let n = \<lparr>Node_ID = nodeID, Node_ClusterID = clusterID, Node_Hostname = hostname,
              Node_Address = address, Node_Port = port, Node_Role = role,
              Node_Status = NodeStatusOffline, Node_AgentVersion = agentVersion,
              Node_AgentID = [], Node_Labels = labels, Node_LastSeen = now,
              Node_CreatedAt = now, Node_UpdatedAt = now, Node_PostgresInstalled = False,
              Node_PostgresVersion = [], Node_PostgresDataInitialized = False,
              Node_StatusDetail = [], Node_ServiceLocation = ServiceLocationUnspecified,
              Node_DockerAvailable = False,
              Node_InstallationState = InstallationStateUnspecified,
              Node_ConflictDetails = [], Node_AgentConnected = False,
              Node_AgentLatencyMS = 0, Node_LatestMetrics = None\<rparr>;
     try_do
       (exec (\<lambda>d. if Node_ID n \<in> Node_ID ` set (nodes d) then None
                  else Some (d\<lparr>nodes := nodes d @ [n]\<rparr>)))
       (\<lambda>e. Inl (wrap ''insert node'' e))
       (\<lambda>_. State_Monad.return (Inr n))
   }"

text \<open>
  The common shape of \<open>GetByID\<close>, \<open>GetPrimary\<close>, \<open>GetByHostname\<close> and \<open>GetByAgentID\<close>: one row, then
  its metrics. Go returns the node and the error of the second statement together, so the
  result is a pair.
\<close>

definition nodes_row :: "(Node \<Rightarrow> bool) \<Rightarrow> (Node option \<times> string option) io" where
  "nodes_row p = do {
     r \<leftarrow> wrap_err ''scan node'' (query (\<lambda>d. List.find p (nodes d)));
     (case r of
       Inl e \<Rightarrow> State_Monad.return (None, Some e)
     | Inr None \<Rightarrow> State_Monad.return (None, None)
     | Inr (Some n) \<Rightarrow> do {
         m \<leftarrow> nodes_attachLatestMetrics [n];
         State_Monad.return (case m of
             Inl e \<Rightarrow> (Some n, Some e)
           | Inr ns \<Rightarrow> (Some (case ns of [] \<Rightarrow> n | n' # _ \<Rightarrow> n'), None))
       })
   }"

text \<open>A caller that tests the error first sees the node only when there is none.\<close>

definition checked :: "('a option \<times> string option) io \<Rightarrow> 'a option res io" where
  "checked m = do {
     r \<leftarrow> m;
     State_Monad.return (case snd r of Some e \<Rightarrow> Inl e | None \<Rightarrow> Inr (fst r))
   }"

definition nodes_GetByID :: "string \<Rightarrow> Node option res io" where
  "nodes_GetByID i = checked (nodes_row (\<lambda>n. Node_ID n = i))"

definition nodes_GetPrimary :: "string \<Rightarrow> Node option res io" where
  "nodes_GetPrimary cid = checked (nodes_row (\<lambda>n. in_cluster cid n \<and> Node_Role n = NodeRolePrimary))"

definition nodes_GetByHostname :: "string \<Rightarrow> (Node option \<times> string option) io" where
  "nodes_GetByHostname h = nodes_row (\<lambda>n. Node_Hostname n = h)"

definition nodes_GetByAgentID :: "string \<Rightarrow> Node option res io" where
  "nodes_GetByAgentID aid = checked (nodes_row (\<lambda>n. Node_AgentID n = aid))"

definition nodes_GetHostnameByID :: "string \<Rightarrow> string res io" where
  "nodes_GetHostnameByID i =
     wrap_err ''get node hostname''
       (query (\<lambda>d. case List.find (\<lambda>n. Node_ID n = i) (nodes d) of None \<Rightarrow> [] | Some n \<Rightarrow> Node_Hostname n))"

definition by_role_then_age :: "Node list \<Rightarrow> Node list" where
  "by_role_then_age ns = sort_key (\<lambda>n. (role_text (Node_Role n), Node_CreatedAt n)) ns"

definition nodes_ListByCluster :: "string \<Rightarrow> nat \<Rightarrow> nat \<Rightarrow> (Node list \<times> nat) res io" where
  "nodes_ListByCluster cid offset limit = (
     let p = (\<lambda>n. cid = [] \<or> in_cluster cid n)
     in try_do (wrap_err ''count nodes'' (query (\<lambda>d. length (filter p (nodes d))))) Inl (\<lambda>total.
        try_do (wrap_err ''query nodes''
                  (query (\<lambda>d. page offset limit (by_role_then_age (filter p (nodes d)))))) Inl (\<lambda>ns.
        try_do (nodes_attachLatestMetrics ns) Inl (\<lambda>ns'.
        State_Monad.return (Inr (ns', total))))))"

definition nodes_GetReplicas :: "string \<Rightarrow> Node list res io" where
  "nodes_GetReplicas cid =
     try_do (wrap_err ''query replicas''
       (query (\<lambda>d. sort_key Node_CreatedAt
          (filter (\<lambda>n. in_cluster cid n \<and> Node_Role n = NodeRoleReplica) (nodes d))))) Inl
     nodes_attachLatestMetrics"

text \<open>
  \<open>GetByIDs\<close> reads the rows into a map by identifier (a later row with the same identifier
  wins) and then walks the requested identifiers in order, collecting those it misses.
\<close>

definition rows_by_id :: "string list \<Rightarrow> Node list \<Rightarrow> string \<Rightarrow> Node option" where
  "rows_by_id ids ns i = List.find (\<lambda>n. Node_ID n = i) (rev (filter (\<lambda>n. Node_ID n \<in> set ids) ns))"

definition nodes_GetByIDs :: "string list \<Rightarrow> Node list res io" where
  "nodes_GetByIDs ids =
     (if ids = [] then State_Monad.return (Inr [])
      else try_do (wrap_err ''query nodes by ids'' (query (\<lambda>d. rows_by_id ids (nodes d)))) Inl (\<lambda>byID.
        let missing = filter (\<lambda>i. byID i = None) ids
        in if missing \<noteq> [] then State_Monad.return (Inl (''node(s) not found: '' @ join '', '' missing))
           else nodes_attachLatestMetrics (List.map_filter byID ids)))"

section \<open>Changing nodes\<close>

definition update_node :: "string \<Rightarrow> (Time \<Rightarrow> Node \<Rightarrow> Node) \<Rightarrow> unit res io" where
  "update_node i f = do {
     now \<leftarrow> time_now;
     sql_write (\<lambda>d. d\<lparr>nodes := upd_where (\<lambda>n. Node_ID n = i) (f now) (nodes d)\<rparr>)
   }"

definition nodes_UpdateStatus :: "string \<Rightarrow> NodeStatus \<Rightarrow> unit res io" where
  "nodes_UpdateStatus i st = wrap_err ''update node status''
     (update_node i (\<lambda>now n. n\<lparr>Node_Status := st, Node_UpdatedAt := now\<rparr>))"

definition nodes_UpdateRole :: "string \<Rightarrow> NodeRole \<Rightarrow> unit res io" where
  "nodes_UpdateRole i role = wrap_err ''update node role''
     (update_node i (\<lambda>now n. n\<lparr>Node_Role := role, Node_UpdatedAt := now\<rparr>))"

definition nodes_UpdateHeartbeat :: "string \<Rightarrow> NodeStatus \<Rightarrow> int \<Rightarrow> unit res io" where
  "nodes_UpdateHeartbeat i st latencyMS = (
     let latency = (if latencyMS < 0 then 0 else latencyMS)
     in wrap_err ''update node heartbeat''
          (update_node i (\<lambda>now n. n\<lparr>Node_Status := st, Node_LastSeen := now,
                                    Node_AgentLatencyMS := latency, Node_UpdatedAt := now\<rparr>)))"

definition nodes_AssignToCluster :: "string \<Rightarrow> string \<Rightarrow> NodeRole \<Rightarrow> unit res io" where
  "nodes_AssignToCluster i cid role = wrap_err ''assign node to cluster''
     (update_node i (\<lambda>now n. n\<lparr>Node_ClusterID := cid, Node_Role := role, Node_UpdatedAt := now\<rparr>))"

definition nodes_Delete :: "string \<Rightarrow> unit res io" where
  "nodes_Delete i = wrap_err ''delete node''
     (sql_write (\<lambda>d. d\<lparr>nodes := del_where (\<lambda>n. Node_ID n = i) (nodes d)\<rparr>))"

definition nodes_UpdateAgentID :: "string \<Rightarrow> string \<Rightarrow> unit res io" where
  "nodes_UpdateAgentID i aid = wrap_err ''update node agent_id''
     (update_node i (\<lambda>now n. n\<lparr>Node_AgentID := aid, Node_UpdatedAt := now\<rparr>))"

definition nodes_UpdateInstallationState ::
  "string \<Rightarrow> InstallationState \<Rightarrow> string \<Rightarrow> unit res io" where
  "nodes_UpdateInstallationState i st details = wrap_err ''update node installation state''
     (update_node i (\<lambda>now n. n\<lparr>Node_InstallationState := st, Node_ConflictDetails := details,
                               Node_UpdatedAt := now\<rparr>))"

definition nodes_UpdatePostgresStatus :: "string \<Rightarrow> bool \<Rightarrow> string \<Rightarrow> bool \<Rightarrow> unit res io" where
  "nodes_UpdatePostgresStatus i installed version dataInitialized = wrap_err ''update node postgres status''
     (update_node i (\<lambda>now n. n\<lparr>Node_PostgresInstalled := installed, Node_PostgresVersion := version,
                               Node_PostgresDataInitialized := dataInitialized, Node_UpdatedAt := now\<rparr>))"

definition nodes_UpdateStatusDetail :: "string \<Rightarrow> string \<Rightarrow> unit res io" where
  "nodes_UpdateStatusDetail i detail = wrap_err ''update node status detail''
     (update_node i (\<lambda>now n. n\<lparr>Node_StatusDetail := detail, Node_UpdatedAt := now\<rparr>))"

definition nodes_UpdateDockerAvailable :: "string \<Rightarrow> bool \<Rightarrow> unit res io" where
  "nodes_UpdateDockerAvailable i available = wrap_err ''update node docker_available''
     (update_node i (\<lambda>now n. n\<lparr>Node_DockerAvailable := available, Node_UpdatedAt := now\<rparr>))"

section \<open>Metrics of a node\<close>

definition nodes_InsertMetric :: "NodeMetric \<Rightarrow> unit res io" where
  "nodes_InsertMetric metric = do {
     m1 \<leftarrow> (if Metric_ID metric = []
            then do { i \<leftarrow> id_New; State_Monad.return (metric\<lparr>Metric_ID := i\<rparr>) }
            else State_Monad.return metric);
     m2 \<leftarrow> (if Metric_RecordedAt m1 = zero_time
            then do { t \<leftarrow> time_now; State_Monad.return (m1\<lparr>Metric_RecordedAt := t\<rparr>) }
            else State_Monad.return m1);
     wrap_err ''insert node metric''
       (exec (\<lambda>d. if Metric_ID m2 \<in> Metric_ID ` set (node_metrics d) then None
                  else Some (d\<lparr>node_metrics := node_metrics d @ [m2]\<rparr>)))
   }"

definition clamp_limit :: "int \<Rightarrow> int \<Rightarrow> int \<Rightarrow> nat" where
  "clamp_limit hi dflt limit = nat (if limit \<le> 0 \<or> limit > hi then dflt else limit)"

definition nodes_ListMetrics :: "string \<Rightarrow> Time \<Rightarrow> int \<Rightarrow> NodeMetric list res io" where
  "nodes_ListMetrics nid since limit = (
     let lim = clamp_limit 1000 300 limit
     in wrap_err ''query node metrics'' (query (\<lambda>d.
          sort_key Metric_RecordedAt
            (take lim (rev (sort_key Metric_RecordedAt
               (filter (\<lambda>m. Metric_NodeID m = nid \<and> (since = zero_time \<or> since \<le> Metric_RecordedAt m))
                  (node_metrics d))))))))"

section \<open>What the operations keep\<close>

text \<open>Reading operations change no table; an update changes the rows of \<open>nodes\<close> with its identifier only.\<close>

lemma keeps_checked [keeps_intros]: "keeps I m \<Longrightarrow> keeps I (checked m)"
  unfolding checked_def by (intro keeps_intros)

lemma keeps_attach [keeps_intros]:
  "keeps_db I (nodes_attachLatestMetrics ns)" "keeps_env P (nodes_attachLatestMetrics ns)"
  unfolding nodes_attachLatestMetrics_def by (intro keeps_intros)+

lemma keeps_nodes_row [keeps_intros]: "keeps_db I (nodes_row p)" "keeps_env P (nodes_row p)"
  unfolding nodes_row_def by (intro keeps_intros)+

lemmas node_getters =
  nodes_GetByID_def nodes_GetPrimary_def nodes_GetByHostname_def nodes_GetByAgentID_def

lemma keeps_node_getters [keeps_intros]:
  "keeps_db I (nodes_GetByID i)" "keeps_db I (nodes_GetPrimary cid)"
  "keeps_db I (nodes_GetByHostname h)" "keeps_db I (nodes_GetByAgentID a)"
  "keeps_db I (nodes_GetReplicas cid)" "keeps_db I (nodes_ListByCluster cid off lim)"
  "keeps_db I (nodes_GetByIDs ids)"
  "keeps_env P (nodes_GetByID i)" "keeps_env P (nodes_GetPrimary cid)"
  "keeps_env P (nodes_GetByHostname h)" "keeps_env P (nodes_GetByAgentID a)"
  "keeps_env P (nodes_GetReplicas cid)" "keeps_env P (nodes_ListByCluster cid off lim)"
  "keeps_env P (nodes_GetByIDs ids)"
  unfolding node_getters nodes_GetReplicas_def nodes_ListByCluster_def nodes_GetByIDs_def Let_def
  by (intro keeps_intros)+

lemma keeps_update_node:
  "(\<And>now d. I d \<Longrightarrow> I (d\<lparr>nodes := upd_where (\<lambda>n. Node_ID n = i) (f now) (nodes d)\<rparr>))
   \<Longrightarrow> keeps_db I (update_node i f)"
  unfolding update_node_def by (intro keeps_intros keeps_sql_write) simp

lemma keeps_env_update_node [keeps_intros]: "keeps_env P (update_node i f)"
  unfolding update_node_def by (intro keeps_intros)

lemmas node_updates =
  nodes_UpdateStatus_def nodes_UpdateRole_def nodes_UpdateHeartbeat_def nodes_AssignToCluster_def
  nodes_UpdateAgentID_def nodes_UpdateInstallationState_def nodes_UpdatePostgresStatus_def
  nodes_UpdateStatusDetail_def nodes_UpdateDockerAvailable_def Let_def

lemma keeps_env_node_updates [keeps_intros]:
  "keeps_env P (nodes_UpdateStatus i st)" "keeps_env P (nodes_UpdateRole i role)"
  "keeps_env P (nodes_UpdateHeartbeat i st ms)" "keeps_env P (nodes_AssignToCluster i cid role)"
  "keeps_env P (nodes_UpdateAgentID i a)" "keeps_env P (nodes_UpdateInstallationState i ist det)"
  "keeps_env P (nodes_UpdatePostgresStatus i b v c)" "keeps_env P (nodes_UpdateStatusDetail i det)"
  "keeps_env P (nodes_UpdateDockerAvailable i b)" "keeps_env P (nodes_Delete i)"
  unfolding node_updates nodes_Delete_def by (intro keeps_intros)+

text \<open>The identifiers, clusters and roles of the nodes: what decides which node is a primary.\<close>

definition role_view :: "db \<Rightarrow> (string \<times> string \<times> NodeRole) list" where
  "role_view d = map (\<lambda>n. (Node_ID n, Node_ClusterID n, Node_Role n)) (nodes d)"

definition primaries :: "string \<Rightarrow> db \<Rightarrow> Node list" where
  "primaries cid d = filter (\<lambda>n. in_cluster cid n \<and> Node_Role n = NodeRolePrimary) (nodes d)"

definition view_primaries :: "string \<Rightarrow> (string \<times> string \<times> NodeRole) list \<Rightarrow> string list" where
  "view_primaries cid v = map fst (filter (\<lambda>(i, c, r). cid \<noteq> [] \<and> c = cid \<and> r = NodeRolePrimary) v)"

lemma primaries_view: "map Node_ID (primaries cid d) = view_primaries cid (role_view d)"
  by (auto simp: primaries_def view_primaries_def role_view_def in_cluster_def filter_map o_def
      intro!: arg_cong [where f = "map Node_ID"] filter_cong)

lemma role_view_update:
  "(\<And>n. Node_ID (f n) = Node_ID n \<and> Node_ClusterID (f n) = Node_ClusterID n \<and> Node_Role (f n) = Node_Role n)
   \<Longrightarrow> role_view (d\<lparr>nodes := upd_where p f (nodes d)\<rparr>) = role_view d"
  by (simp add: role_view_def map_upd_where)

lemma keeps_role_view [keeps_intros]:
  "keeps_db (\<lambda>d. role_view d = v) (nodes_UpdateStatus i st)"
  "keeps_db (\<lambda>d. role_view d = v) (nodes_UpdateHeartbeat i st ms)"
  "keeps_db (\<lambda>d. role_view d = v) (nodes_UpdateAgentID i a)"
  "keeps_db (\<lambda>d. role_view d = v) (nodes_UpdateInstallationState i ist det)"
  "keeps_db (\<lambda>d. role_view d = v) (nodes_UpdatePostgresStatus i b pv c)"
  "keeps_db (\<lambda>d. role_view d = v) (nodes_UpdateStatusDetail i det)"
  "keeps_db (\<lambda>d. role_view d = v) (nodes_UpdateDockerAvailable i b)"
  unfolding node_updates by (intro keeps_intros keeps_update_node; simp add: role_view_update)+

end
