(* ===== verification/ClusterRepo.thy ===== *)
theory ClusterRepo
  imports Store
begin

text \<open>
  \<open>internal/db/cluster_repo.go\<close>, \<open>internal/db/cluster_settings_repo.go\<close> and
  \<open>internal/db/agent_command_repo.go\<close>: clusters, their PostgreSQL parameters, and the queue of
  commands the agents poll. Each operation is the statement it issues, with its error prefix.
\<close>

section \<open>Clusters\<close>

definition clusters_insert :: "Cluster \<Rightarrow> unit res io" where
  "clusters_insert c = exec (\<lambda>d.
     if Cluster_ID c \<in> Cluster_ID ` set (clusters d) \<or> Cluster_Name c \<in> Cluster_Name ` set (clusters d)
     then None else Some (d\<lparr>clusters := clusters d @ [c]\<rparr>))"

text \<open>The statement names no \<open>service_location\<close>, so the column takes its default.\<close>

definition clusters_Create ::
  "string \<Rightarrow> string \<Rightarrow> string \<Rightarrow> EngineType \<Rightarrow> string \<Rightarrow> ReplicationMode \<Rightarrow> int \<Rightarrow> bool \<Rightarrow> Labels
   \<Rightarrow> Cluster res io" where
  "clusters_Create name storageConfigID dataDir engine version mode replicas pitrEnabled labels = do {
     clusterID \<leftarrow> id_New;
     now \<leftarrow> time_now;
     let c = \<lparr>Cluster_ID = clusterID, Cluster_Name = name, Cluster_Engine = engine,
              Cluster_Version = version, Cluster_ReplicationMode = mode,
              Cluster_Replicas = replicas, Cluster_StorageConfigID = storageConfigID,
              Cluster_DataDir = dataDir, Cluster_PITREnabled = pitrEnabled,
              Cluster_Status = ClusterStatusCreating, Cluster_Tags = labels,
              Cluster_ServiceLocation = ServiceLocationUnspecified,
              Cluster_CreatedAt = now, Cluster_UpdatedAt = now\<rparr>;
     try_do (clusters_insert c) (\<lambda>e. Inl (wrap ''insert cluster'' e)) (\<lambda>_. State_Monad.return (Inr c))
   }"

definition clusters_GetByID :: "string \<Rightarrow> Cluster option res io" where
  "clusters_GetByID i = wrap_err ''scan cluster''
     (query (\<lambda>d. List.find (\<lambda>c. Cluster_ID c = i) (clusters d)))"

definition clusters_GetByName :: "string \<Rightarrow> Cluster option res io" where
  "clusters_GetByName name = wrap_err ''scan cluster''
     (query (\<lambda>d. List.find (\<lambda>c. Cluster_Name c = name) (clusters d)))"

definition newest_first :: "Cluster list \<Rightarrow> Cluster list" where
  "newest_first cs = sort_key (\<lambda>c. - Cluster_CreatedAt c) cs"

definition clusters_List :: "nat \<Rightarrow> nat \<Rightarrow> (Cluster list \<times> nat) res io" where
  "clusters_List offset limit =
     try_do (wrap_err ''count clusters'' (query (\<lambda>d. length (clusters d)))) Inl (\<lambda>total.
     try_do (wrap_err ''query clusters'' (query (\<lambda>d. page offset limit (newest_first (clusters d))))) Inl (\<lambda>cs.
     State_Monad.return (Inr (cs, total))))"

definition clusters_UpdateStatus :: "string \<Rightarrow> ClusterStatus \<Rightarrow> unit res io" where
  "clusters_UpdateStatus i st = do {
     now \<leftarrow> time_now;
     wrap_err ''update cluster status'' (sql_write (\<lambda>d. d\<lparr>clusters :=
       upd_where (\<lambda>c. Cluster_ID c = i) (\<lambda>c. c\<lparr>Cluster_Status := st, Cluster_UpdatedAt := now\<rparr>) (clusters d)\<rparr>))
   }"

definition clusters_Delete :: "string \<Rightarrow> unit res io" where
  "clusters_Delete i = wrap_err ''delete cluster''
     (sql_write (\<lambda>d. d\<lparr>clusters := del_where (\<lambda>c. Cluster_ID c = i) (clusters d)\<rparr>))"

section \<open>Settings of a cluster\<close>

definition settings_of :: "string \<Rightarrow> ClusterSetting list \<Rightarrow> ClusterSetting list" where
  "settings_of cid ss = sort_key Setting_Key (filter (\<lambda>s. Setting_ClusterID s = cid) ss)"

definition settings_GetByClusterID :: "string \<Rightarrow> (string \<rightharpoonup> string) res io" where
  "settings_GetByClusterID cid = wrap_err ''query cluster settings''
     (query (\<lambda>d. map_of (map (\<lambda>s. (Setting_Key s, Setting_Value s)) (rev (settings_of cid (cluster_settings d))))))"

definition settings_ListKeys :: "string \<Rightarrow> string list res io" where
  "settings_ListKeys cid = wrap_err ''query cluster setting keys''
     (query (\<lambda>d. map Setting_Key (settings_of cid (cluster_settings d))))"

definition settings_insert :: "string \<Rightarrow> string \<Rightarrow> string \<Rightarrow> Time \<Rightarrow> unit res io" where
  "settings_insert cid key val now = do {
     i \<leftarrow> id_New;
     exec (\<lambda>d. if i \<in> Setting_ID ` set (cluster_settings d)
                  \<or> (\<exists>s\<in>set (cluster_settings d). Setting_ClusterID s = cid \<and> Setting_Key s = key)
               then None
               else Some (d\<lparr>cluster_settings := cluster_settings d @
                 [\<lparr>Setting_ID = i, Setting_ClusterID = cid, Setting_Key = key, Setting_Value = val,
                   Setting_CreatedAt = now, Setting_UpdatedAt = now\<rparr>]\<rparr>))
   }"

definition settings_delete :: "(ClusterSetting \<Rightarrow> bool) \<Rightarrow> unit res io" where
  "settings_delete p = sql_write (\<lambda>d. d\<lparr>cluster_settings := del_where p (cluster_settings d)\<rparr>)"

definition settings_Set :: "string \<Rightarrow> string \<Rightarrow> string \<Rightarrow> unit res io" where
  "settings_Set cid key val = do {
     now \<leftarrow> time_now;
     in_tx (\<lambda>e. Inl (wrap ''begin set cluster setting'' e)) (\<lambda>e. Inl (wrap ''commit set cluster setting'' e))
       (try_tx (settings_delete (\<lambda>s. Setting_ClusterID s = cid \<and> Setting_Key s = key))
          (\<lambda>e. Inl (wrap ''delete old cluster setting'' e)) (\<lambda>_.
        try_tx (settings_insert cid key val now)
          (\<lambda>e. Inl (wrap ''insert cluster setting'' e)) (\<lambda>_.
        State_Monad.return (Commit (Inr ())))))
   }"

definition settings_Delete :: "string \<Rightarrow> string \<Rightarrow> unit res io" where
  "settings_Delete cid key = wrap_err ''delete cluster setting''
     (settings_delete (\<lambda>s. Setting_ClusterID s = cid \<and> Setting_Key s = key))"

text \<open>
  The parameters are a Go map, here the association list of its entries; the insertions run
  in the order of the sorted keys.
\<close>

fun settings_insert_all :: "string \<Rightarrow> Time \<Rightarrow> (string \<times> string) list \<Rightarrow> (unit res) tx io" where
  "settings_insert_all cid now [] = State_Monad.return (Commit (Inr ()))"
| "settings_insert_all cid now ((key, val) # kvs) =
     try_tx (settings_insert cid key val now)
       (\<lambda>e. Inl (wrap (''insert cluster setting '' @ key) e))
       (\<lambda>_. settings_insert_all cid now kvs)"

definition settings_ReplaceAll :: "string \<Rightarrow> (string \<times> string) list \<Rightarrow> unit res io" where
  "settings_ReplaceAll cid params =
     in_tx (\<lambda>e. Inl (wrap ''begin replace cluster settings'' e))
       (\<lambda>e. Inl (wrap ''commit replace cluster settings'' e))
       (try_tx (settings_delete (\<lambda>s. Setting_ClusterID s = cid))
          (\<lambda>e. Inl (wrap ''delete cluster settings'' e)) (\<lambda>_.
        if params = [] then State_Monad.return (Commit (Inr ()))
        else do {
          now \<leftarrow> time_now;
          settings_insert_all cid now (sort_key fst params)
        }))"

section \<open>The command queue\<close>

definition command_row :: "string \<Rightarrow> string \<Rightarrow> string \<Rightarrow> string \<Rightarrow> payload \<Rightarrow> Time \<Rightarrow> AgentCommand" where
  "command_row i agentID nodeID action payload now =
     \<lparr>Cmd_ID = i, Cmd_AgentID = agentID, Cmd_NodeID = nodeID, Cmd_Action = action,
      Cmd_Payload = payload, Cmd_Status = CommandStatusPending, Cmd_Result = Text [],
      Cmd_Error = [], Cmd_CreatedAt = now, Cmd_CompletedAt = None\<rparr>"

definition commands_insert :: "AgentCommand \<Rightarrow> unit res io" where
  "commands_insert c = exec (\<lambda>d.
     if Cmd_ID c \<in> Cmd_ID ` set (agent_commands d) then None
     else Some (d\<lparr>agent_commands := agent_commands d @ [c]\<rparr>))"

definition commands_Create :: "string \<Rightarrow> string \<Rightarrow> string \<Rightarrow> payload \<Rightarrow> AgentCommand res io" where
  "commands_Create agentID nodeID action payload = do {
     cmdID \<leftarrow> id_New;
     now \<leftarrow> time_now;
     let c = command_row cmdID agentID nodeID action payload now;
     try_do (commands_insert c) (\<lambda>e. Inl (wrap ''insert agent command'' e)) (\<lambda>_. State_Monad.return (Inr c))
   }"

definition commands_GetByID :: "string \<Rightarrow> AgentCommand option res io" where
  "commands_GetByID i = wrap_err ''get command by id''
     (query (\<lambda>d. List.find (\<lambda>c. Cmd_ID c = i) (agent_commands d)))"

definition pending_for :: "string \<Rightarrow> string \<Rightarrow> AgentCommand \<Rightarrow> bool" where
  "pending_for agentID nodeID c \<longleftrightarrow>
     (Cmd_AgentID c = agentID \<or> Cmd_NodeID c = nodeID) \<and> Cmd_Status c = CommandStatusPending"

definition commands_listPending :: "string \<Rightarrow> string \<Rightarrow> nat \<Rightarrow> AgentCommand list res io" where
  "commands_listPending agentID nodeID limit = wrap_err ''query pending commands''
     (query (\<lambda>d. page 0 limit (sort_key Cmd_CreatedAt (filter (pending_for agentID nodeID) (agent_commands d)))))"

definition commands_ListPending :: "string \<Rightarrow> string \<Rightarrow> AgentCommand list res io" where
  "commands_ListPending agentID nodeID = commands_listPending agentID nodeID 100"

definition commands_ListPendingLimit :: "string \<Rightarrow> string \<Rightarrow> int \<Rightarrow> AgentCommand list res io" where
  "commands_ListPendingLimit agentID nodeID limit =
     commands_listPending agentID nodeID (nat (if limit \<le> 0 \<or> limit > 100 then 100 else limit))"

definition commands_MarkPendingFailedByNodeIDs ::
  "string list \<Rightarrow> string list \<Rightarrow> string \<Rightarrow> unit res io" where
  "commands_MarkPendingFailedByNodeIDs nodeIDs actions errMsg =
     (if nodeIDs = [] \<or> actions = [] then State_Monad.return (Inr ())
      else do {
        now \<leftarrow> time_now;
        wrap_err ''mark pending commands failed'' (sql_write (\<lambda>d. d\<lparr>agent_commands :=
          upd_where (\<lambda>c. Cmd_Status c = CommandStatusPending \<and> Cmd_NodeID c \<in> set nodeIDs \<and> Cmd_Action c \<in> set actions)
            (\<lambda>c. c\<lparr>Cmd_Status := CommandStatusFailed, Cmd_Error := errMsg, Cmd_CompletedAt := Some now\<rparr>)
            (agent_commands d)\<rparr>))
      })"

text \<open>The oldest commands of the nodes, at most \<open>limit\<close> of them.\<close>

definition oldest_of_nodes :: "string list \<Rightarrow> nat \<Rightarrow> AgentCommand list \<Rightarrow> AgentCommand list" where
  "oldest_of_nodes nodeIDs limit cs =
     page 0 limit (sort_key Cmd_CreatedAt (filter (\<lambda>c. Cmd_NodeID c \<in> set nodeIDs) cs))"

definition commands_ListByNodeIDs :: "string list \<Rightarrow> int \<Rightarrow> AgentCommand list res io" where
  "commands_ListByNodeIDs nodeIDs limit =
     (if nodeIDs = [] then State_Monad.return (Inr [])
      else (let lim = nat (if limit \<le> 0 \<or> limit > 1000 then 1000 else limit)
            in wrap_err ''query commands by node ids''
                 (query (\<lambda>d. oldest_of_nodes nodeIDs lim (agent_commands d)))))"

definition commands_UpdateResult :: "string \<Rightarrow> bool \<Rightarrow> payload \<Rightarrow> string \<Rightarrow> unit res io" where
  "commands_UpdateResult i success output errMsg = do {
     now \<leftarrow> time_now;
     wrap_err ''update command result'' (sql_write (\<lambda>d. d\<lparr>agent_commands :=
       upd_where (\<lambda>c. Cmd_ID c = i)
         (\<lambda>c. c\<lparr>Cmd_Status := (if success then CommandStatusCompleted else CommandStatusFailed),
                Cmd_Result := output, Cmd_Error := errMsg, Cmd_CompletedAt := Some now\<rparr>)
         (agent_commands d)\<rparr>))
   }"

section \<open>What the operations keep\<close>

lemma keeps_cluster_getters [keeps_intros]:
  "keeps_db I (clusters_GetByID i)" "keeps_db I (clusters_GetByName name)" "keeps_db I (clusters_List off lim)"
  "keeps_db I (settings_GetByClusterID cid)" "keeps_db I (commands_GetByID i)"
  "keeps_db I (commands_ListPendingLimit a n l)" "keeps_db I (commands_ListByNodeIDs ids l)"
  "keeps_env P (clusters_GetByID i)" "keeps_env P (clusters_GetByName name)"
  "keeps_env P (clusters_List off lim)" "keeps_env P (settings_GetByClusterID cid)"
  "keeps_env P (commands_GetByID i)" "keeps_env P (commands_ListPendingLimit a n l)"
  "keeps_env P (commands_ListByNodeIDs ids l)"
  unfolding clusters_GetByID_def clusters_GetByName_def clusters_List_def settings_GetByClusterID_def
    commands_GetByID_def commands_ListPendingLimit_def commands_listPending_def commands_ListByNodeIDs_def
    Let_def
  by (intro keeps_intros)+

lemma keeps_clusters_UpdateStatus:
  "(\<And>now d. I d \<Longrightarrow> I (d\<lparr>clusters := upd_where (\<lambda>c. Cluster_ID c = i)
       (\<lambda>c. c\<lparr>Cluster_Status := st, Cluster_UpdatedAt := now\<rparr>) (clusters d)\<rparr>))
   \<Longrightarrow> keeps_db I (clusters_UpdateStatus i st)"
  unfolding clusters_UpdateStatus_def by (intro keeps_intros keeps_sql_write) simp

lemma keeps_commands_Create:
  "(\<And>d c. I d \<Longrightarrow> I (d\<lparr>agent_commands := agent_commands d @ [c]\<rparr>)) \<Longrightarrow> keeps_db I (commands_Create a n act p)"
  unfolding commands_Create_def commands_insert_def Let_def
  by (intro keeps_intros keeps_exec) (auto split: if_splits)

lemma keeps_commands_MarkPendingFailed:
  "(\<And>now d. I d \<Longrightarrow> I (d\<lparr>agent_commands :=
      upd_where (\<lambda>c. Cmd_Status c = CommandStatusPending \<and> Cmd_NodeID c \<in> set ids \<and> Cmd_Action c \<in> set acts)
        (\<lambda>c. c\<lparr>Cmd_Status := CommandStatusFailed, Cmd_Error := msg, Cmd_CompletedAt := Some now\<rparr>)
        (agent_commands d)\<rparr>))
   \<Longrightarrow> keeps_db I (commands_MarkPendingFailedByNodeIDs ids acts msg)"
  unfolding commands_MarkPendingFailedByNodeIDs_def by (intro keeps_intros keeps_sql_write) simp

lemma keeps_env_cluster_ops [keeps_intros]:
  "keeps_env P (clusters_UpdateStatus i st)" "keeps_env P (commands_Create a n act p)"
  "keeps_env P (commands_MarkPendingFailedByNodeIDs ids acts msg)"
  "keeps_env P (commands_UpdateResult i b out msg)"
  unfolding clusters_UpdateStatus_def commands_Create_def commands_insert_def
    commands_MarkPendingFailedByNodeIDs_def commands_UpdateResult_def Let_def
  by (intro keeps_intros)+

end
