(* ===== verification/Engine.thy ===== *)
theory Engine
  imports Models
begin

text \<open>
  \<open>internal/engine/engine.go\<close> and \<open>internal/engine/postgres/postgres.go\<close>: the providers of
  database engines, the registry that maps the action strings of agent commands back to logical
  operations, and the PostgreSQL provider. The Go interface \<open>Provider\<close> is the record \<open>Provider\<close>;
  what its clients rely on is the locale \<open>engine_provider\<close>, interpreted on the PostgreSQL provider.
  A validation returns \<open>None\<close> for Go's nil error.
\<close>

datatype ModuleID =
    ModuleOverview | ModuleConnection | ModuleDatabases | ModuleRoles | ModuleNetwork | ModuleTLS
  | ModuleExtensions | ModuleSettings | ModuleDiagnostics

record Module =
  Mod_ID :: ModuleID
  Mod_Label :: string

datatype LogicalOp =
    OpEnsureDatabase | OpDropDatabase | OpGrantDatabasePrivileges | OpEnsureRole
  | OpRotateRolePassword | OpDropRole | OpApplyHBA | OpApplyTLS | OpApplyExtensions

primrec op_text :: "LogicalOp \<Rightarrow> string" where
  "op_text OpEnsureDatabase = ''ensure_database''"
| "op_text OpDropDatabase = ''drop_database''"
| "op_text OpGrantDatabasePrivileges = ''grant_database_privileges''"
| "op_text OpEnsureRole = ''ensure_role''"
| "op_text OpRotateRolePassword = ''rotate_role_password''"
| "op_text OpDropRole = ''drop_role''"
| "op_text OpApplyHBA = ''apply_hba''"
| "op_text OpApplyTLS = ''apply_tls''"
| "op_text OpApplyExtensions = ''apply_extensions''"

primrec engine_text :: "EngineType \<Rightarrow> string" where
  "engine_text EnginePostgreSQL = ''postgresql''"
| "engine_text EngineNone = []"

record Extension =
  Extn_Name :: string
  Extn_Label :: string
  Extn_Description :: string

record Provider =
  Prov_Engine :: EngineType
  Prov_Modules :: "Module list"
  Prov_Supports :: "ModuleID \<Rightarrow> bool"
  Prov_Action :: "LogicalOp \<Rightarrow> string option"
  Prov_ValidateRoleName :: "string \<Rightarrow> string option"
  Prov_ValidateDatabaseName :: "string \<Rightarrow> string option"
  Prov_DefaultPort :: int

section \<open>The registry\<close>

definition allOps :: "LogicalOp list" where
  "allOps = [OpEnsureDatabase, OpDropDatabase, OpGrantDatabasePrivileges, OpEnsureRole,
     OpRotateRolePassword, OpDropRole, OpApplyHBA, OpApplyTLS, OpApplyExtensions]"

record registry =
  providers :: "EngineType \<rightharpoonup> Provider"
  reverseActions :: "string \<rightharpoonup> (EngineType \<times> LogicalOp)"

definition empty_registry :: registry where
  "empty_registry = \<lparr>providers = Map.empty, reverseActions = Map.empty\<rparr>"

fun register_actions ::
  "Provider \<Rightarrow> LogicalOp list \<Rightarrow> (string \<rightharpoonup> (EngineType \<times> LogicalOp)) \<Rightarrow> string + (string \<rightharpoonup> (EngineType \<times> LogicalOp))" where
  "register_actions p [] rv = Inr rv"
| "register_actions p (op # ops) rv =
     (case Prov_Action p op of
        None \<Rightarrow> register_actions p ops rv
      | Some action \<Rightarrow> (case rv action of
            Some (e, o') \<Rightarrow> Inl (''engine: action '' @ quote action @ '' already mapped to '' @ quote (engine_text e)
                               @ ''/'' @ quote (op_text o'))
          | None \<Rightarrow> register_actions p ops (rv(action \<mapsto> (Prov_Engine p, op)))))"

text \<open>A panic is \<open>Inl\<close> with its text.\<close>

definition Register :: "Provider \<Rightarrow> registry \<Rightarrow> string + registry" where
  "Register p r =
     (if providers r (Prov_Engine p) \<noteq> None
      then Inl (''engine: provider already registered for '' @ quote (engine_text (Prov_Engine p)))
      else (case register_actions p allOps (reverseActions r) of
          Inl e \<Rightarrow> Inl e
        | Inr rv \<Rightarrow> Inr \<lparr>providers = (providers r)(Prov_Engine p \<mapsto> p), reverseActions = rv\<rparr>))"

definition LogicalOpForAction :: "registry \<Rightarrow> string \<Rightarrow> LogicalOp option" where
  "LogicalOpForAction r action = map_option snd (reverseActions r action)"

definition engine_For :: "registry \<Rightarrow> EngineType \<Rightarrow> string + Provider" where
  "engine_For r e = (case providers r e of
     None \<Rightarrow> Inl (''engine: no provider registered for '' @ quote (engine_text e))
   | Some p \<Rightarrow> Inr p)"

text \<open>\<open>Engines\<close> lists the keys of the registry, in an order Go leaves open.\<close>

definition Engines :: "registry \<Rightarrow> EngineType list" where
  "Engines r = filter (\<lambda>e. providers r e \<noteq> None) [EnginePostgreSQL, EngineNone]"

section \<open>What clients rely on\<close>

locale engine_provider =
  fixes p :: Provider
  assumes supports_modules: "Prov_Supports p m \<longleftrightarrow> m \<in> Mod_ID ` set (Prov_Modules p)"
    and action_inj: "Prov_Action p a = Some x \<Longrightarrow> Prov_Action p b = Some x \<Longrightarrow> a = b"
    and role_names: "Prov_ValidateRoleName p n = None \<Longrightarrow>
      n \<noteq> [] \<and> length n \<le> 63 \<and> (\<forall>c\<in>set n. c \<notin> {CHR 0x22, CHR 0x27, CHR '';'', CHR '' '', CHR 0x5C})"
    and database_names: "Prov_ValidateDatabaseName p n = None \<Longrightarrow>
      n \<noteq> [] \<and> length n \<le> 63 \<and> (\<forall>c\<in>set n. c \<notin> {CHR 0x22, CHR 0x27, CHR '';'', CHR '' '', CHR 0x5C})"
begin

text \<open>No action of the provider is in the table yet.\<close>

definition fresh :: "registry \<Rightarrow> bool" where
  "fresh r \<longleftrightarrow> providers r (Prov_Engine p) = None \<and> (\<forall>op a. Prov_Action p op = Some a \<longrightarrow> reverseActions r a = None)"

lemma register_actions_ok:
  assumes "distinct ops" "\<And>op a. op \<in> set ops \<Longrightarrow> Prov_Action p op = Some a \<Longrightarrow> rv a = None"
  shows "\<exists>rv'. register_actions p ops rv = Inr rv' \<and>
     (\<forall>a. rv' a = (case List.find (\<lambda>op. Prov_Action p op = Some a) ops of
                     Some op \<Rightarrow> Some (Prov_Engine p, op) | None \<Rightarrow> rv a))"
  using assms
proof (induction ops arbitrary: rv)
  case (Cons op ops)
  show ?case
  proof (cases "Prov_Action p op")
    case None
    then show ?thesis using Cons by auto
  next
    case (Some x)
    let ?rv = "rv(x \<mapsto> (Prov_Engine p, op))"
    have fresh_rest: "?rv a = None" if "o' \<in> set ops" "Prov_Action p o' = Some a" for o' a
      using that Cons.prems Some action_inj [of op a o'] by auto
    have "\<exists>rv'. register_actions p ops ?rv = Inr rv' \<and>
        (\<forall>a. rv' a = (case List.find (\<lambda>op. Prov_Action p op = Some a) ops of
                     Some op \<Rightarrow> Some (Prov_Engine p, op) | None \<Rightarrow> ?rv a))"
      using Cons.prems(1) by (intro Cons.IH [of ?rv]) (simp, rule fresh_rest)
    then obtain rv' where
        ok: "register_actions p ops ?rv = Inr rv'" and
        rv': "\<forall>a. rv' a = (case List.find (\<lambda>op. Prov_Action p op = Some a) ops of
                     Some op \<Rightarrow> Some (Prov_Engine p, op) | None \<Rightarrow> ?rv a)"
      by blast
    have "List.find (\<lambda>o'. Prov_Action p o' = Some x) ops = None"
      unfolding find_None_iff_mem using Some action_inj Cons.prems(1) by (metis distinct.simps(2))
    then have all: "rv' a = (case List.find (\<lambda>op. Prov_Action p op = Some a) (op # ops) of
                     Some op \<Rightarrow> Some (Prov_Engine p, op) | None \<Rightarrow> rv a)" for a
      using rv' [rule_format, of a] Some by (cases "a = x") (simp_all split: option.splits)
    have "rv x = None" using Some Cons.prems(2) [of op x] by simp
    then have "register_actions p (op # ops) rv = Inr rv'" using Some ok by simp
    with all show ?thesis by blast
  qed
qed simp

lemma Register_ok:
  assumes "fresh r"
  shows "\<exists>r'. Register p r = Inr r' \<and> engine_For r' (Prov_Engine p) = Inr p \<and>
     (\<forall>op a. Prov_Action p op = Some a \<longrightarrow> LogicalOpForAction r' a = Some op) \<and>
     (\<forall>a. (\<forall>op. Prov_Action p op \<noteq> Some a) \<longrightarrow> LogicalOpForAction r' a = LogicalOpForAction r a)"
proof -
  have all: "op \<in> set allOps" for op by (cases op) (simp_all add: allOps_def)
  obtain rv' where rv: "register_actions p allOps (reverseActions r) = Inr rv'"
    "\<forall>a. rv' a = (case List.find (\<lambda>op. Prov_Action p op = Some a) allOps of
                     Some op \<Rightarrow> Some (Prov_Engine p, op) | None \<Rightarrow> reverseActions r a)"
    using register_actions_ok [of allOps "reverseActions r"] assms by (auto simp: fresh_def allOps_def)
  have found: "List.find (\<lambda>o'. Prov_Action p o' = Some a) allOps = Some op" if "Prov_Action p op = Some a" for op a
    using that all [of op] action_inj
    by (cases "List.find (\<lambda>o'. Prov_Action p o' = Some a) allOps")
      (auto simp: find_None_iff_mem dest!: find_Some_iff_mem)
  have absent: "List.find (\<lambda>o'. Prov_Action p o' = Some a) allOps = None" if "\<forall>op. Prov_Action p op \<noteq> Some a" for a
    using that by (simp add: find_None_iff_mem)
  show ?thesis
    using assms rv found absent
    by (auto simp: Register_def fresh_def engine_For_def LogicalOpForAction_def)
qed

end

section \<open>The PostgreSQL provider\<close>

definition is_digit :: "char \<Rightarrow> bool" where
  "is_digit c \<longleftrightarrow> 48 \<le> (of_char c :: nat) \<and> (of_char c :: nat) \<le> 57"

definition is_letter :: "char \<Rightarrow> bool" where
  "is_letter c \<longleftrightarrow> 65 \<le> (of_char c :: nat) \<and> (of_char c :: nat) \<le> 90 \<or> 97 \<le> (of_char c :: nat) \<and> (of_char c :: nat) \<le> 122"

text \<open>The shape \<open>^[first][rest]{0,62}$\<close>.\<close>

fun ident :: "(char \<Rightarrow> bool) \<Rightarrow> (char \<Rightarrow> bool) \<Rightarrow> string \<Rightarrow> bool" where
  "ident first rest [] = False"
| "ident first rest (c # cs) = (first c \<and> list_all rest cs \<and> length cs \<le> 62)"

definition roleNamePattern :: "string \<Rightarrow> bool" where
  "roleNamePattern = ident (\<lambda>c. is_letter c \<or> c = CHR ''_'')
     (\<lambda>c. is_letter c \<or> is_digit c \<or> c = CHR ''_'' \<or> c = CHR ''$'')"

definition databaseNamePattern :: "string \<Rightarrow> bool" where
  "databaseNamePattern = ident (\<lambda>c. is_letter c \<or> c = CHR ''_'') (\<lambda>c. is_letter c \<or> is_digit c \<or> c = CHR ''_'')"

definition extensionNamePattern :: "string \<Rightarrow> bool" where
  "extensionNamePattern = ident is_letter (\<lambda>c. is_letter c \<or> is_digit c \<or> c = CHR ''_'' \<or> c = CHR ''-'')"

definition pg_modules :: "Module list" where
  "pg_modules = [\<lparr>Mod_ID = ModuleOverview, Mod_Label = ''Overview''\<rparr>,
     \<lparr>Mod_ID = ModuleConnection, Mod_Label = ''Connection''\<rparr>,
     \<lparr>Mod_ID = ModuleDatabases, Mod_Label = ''Databases''\<rparr>,
     \<lparr>Mod_ID = ModuleRoles, Mod_Label = ''Roles & Users''\<rparr>,
     \<lparr>Mod_ID = ModuleNetwork, Mod_Label = ''Network Security''\<rparr>,
     \<lparr>Mod_ID = ModuleTLS, Mod_Label = ''TLS Encryption''\<rparr>,
     \<lparr>Mod_ID = ModuleExtensions, Mod_Label = ''Extensions''\<rparr>,
     \<lparr>Mod_ID = ModuleSettings, Mod_Label = ''Settings''\<rparr>,
     \<lparr>Mod_ID = ModuleDiagnostics, Mod_Label = ''Diagnostics & Logs''\<rparr>]"

primrec pg_actions :: "LogicalOp \<Rightarrow> string option" where
  "pg_actions OpEnsureDatabase = Some ''pg_ensure_database''"
| "pg_actions OpDropDatabase = Some ''pg_drop_database''"
| "pg_actions OpGrantDatabasePrivileges = Some ''pg_grant_database_privileges''"
| "pg_actions OpEnsureRole = Some ''pg_ensure_role''"
| "pg_actions OpRotateRolePassword = Some ''pg_rotate_role_password''"
| "pg_actions OpDropRole = Some ''pg_drop_role''"
| "pg_actions OpApplyHBA = Some ''pg_apply_hba''"
| "pg_actions OpApplyTLS = Some ''pg_apply_tls''"
| "pg_actions OpApplyExtensions = Some ''pg_apply_extensions''"

definition availableExtensions :: "Extension list" where
  "availableExtensions = [\<lparr>Extn_Name = ''uuid-ossp'', Extn_Label = ''uuid-ossp'', Extn_Description = ''Generate universally unique identifiers (UUIDs).''\<rparr>,
     \<lparr>Extn_Name = ''pgcrypto'', Extn_Label = ''pgcrypto'', Extn_Description = ''Cryptographic functions (hashing, encryption, random).''\<rparr>,
     \<lparr>Extn_Name = ''pg_trgm'', Extn_Label = ''pg_trgm'', Extn_Description = ''Trigram-based fuzzy text search and similarity.''\<rparr>,
     \<lparr>Extn_Name = ''citext'', Extn_Label = ''citext'', Extn_Description = ''Case-insensitive text data type.''\<rparr>,
     \<lparr>Extn_Name = ''hstore'', Extn_Label = ''hstore'', Extn_Description = ''Key/value pair storage within a single column.''\<rparr>,
     \<lparr>Extn_Name = ''btree_gin'', Extn_Label = ''btree_gin'', Extn_Description = ''GIN index support for common scalar types.''\<rparr>,
     \<lparr>Extn_Name = ''btree_gist'', Extn_Label = ''btree_gist'', Extn_Description = ''GiST index support for common scalar types.''\<rparr>,
     \<lparr>Extn_Name = ''unaccent'', Extn_Label = ''unaccent'', Extn_Description = ''Text search dictionary that removes accents.''\<rparr>,
     \<lparr>Extn_Name = ''ltree'', Extn_Label = ''ltree'', Extn_Description = ''Data type for hierarchical tree-like structures.''\<rparr>,
     \<lparr>Extn_Name = ''tablefunc'', Extn_Label = ''tablefunc'', Extn_Description = ''Cross-tab (pivot) and other table functions.''\<rparr>]"

definition extensionAllowSet :: "string \<Rightarrow> bool" where
  "extensionAllowSet name \<longleftrightarrow> name \<in> set (map Extn_Name availableExtensions)"

fun supports :: "Module list \<Rightarrow> ModuleID \<Rightarrow> bool" where
  "supports [] i = False"
| "supports (m # ms) i = (if Mod_ID m = i then True else supports ms i)"

definition pg_ValidateRoleName :: "string \<Rightarrow> string option" where
  "pg_ValidateRoleName name = (if roleNamePattern name then None
     else Some ''invalid role name: must match ^[a-zA-Z_][a-zA-Z0-9_$]{0,62}$'')"

definition pg_ValidateDatabaseName :: "string \<Rightarrow> string option" where
  "pg_ValidateDatabaseName name = (if databaseNamePattern name then None
     else Some ''invalid database name: must match ^[a-zA-Z_][a-zA-Z0-9_]{0,62}$'')"

definition pg_ValidateExtensionName :: "string \<Rightarrow> string option" where
  "pg_ValidateExtensionName name =
     (if \<not> extensionAllowSet name
      then Some (''extension '' @ quote name @ '' is not in the supported allowlist'')
      else if \<not> extensionNamePattern name
      then Some ''invalid extension name: must match ^[a-zA-Z][a-zA-Z0-9_-]{0,62}$''
      else None)"

definition pg_provider :: Provider where
  "pg_provider = \<lparr>Prov_Engine = EnginePostgreSQL, Prov_Modules = pg_modules,
     Prov_Supports = supports pg_modules, Prov_Action = pg_actions,
     Prov_ValidateRoleName = pg_ValidateRoleName, Prov_ValidateDatabaseName = pg_ValidateDatabaseName,
     Prov_DefaultPort = 5432\<rparr>"

text \<open>The registry after the package's \<open>init\<close>.\<close>

definition the_registry :: registry where
  "the_registry = (case Register pg_provider empty_registry of Inr r \<Rightarrow> r | Inl _ \<Rightarrow> empty_registry)"

lemma ident_chars: "ident f g n \<Longrightarrow> n \<noteq> [] \<and> length n \<le> 63 \<and> (\<forall>c\<in>set n. f c \<or> g c)"
  by (cases n) (auto simp: list_all_iff)

lemma plain_chars: "is_letter c \<or> is_digit c \<or> c = CHR ''_'' \<or> c = CHR ''$'' \<Longrightarrow>
    c \<notin> {CHR 0x22, CHR 0x27, CHR '';'', CHR '' '', CHR 0x5C}"
  by (auto simp: is_letter_def is_digit_def)

lemma ident_plain:
  assumes "ident f g n" "\<And>c. f c \<or> g c \<Longrightarrow> is_letter c \<or> is_digit c \<or> c = CHR ''_'' \<or> c = CHR ''$''"
  shows "n \<noteq> [] \<and> length n \<le> 63 \<and> (\<forall>c\<in>set n. c \<notin> {CHR 0x22, CHR 0x27, CHR '';'', CHR '' '', CHR 0x5C})"
  using ident_chars [OF assms(1)] assms(2) plain_chars by meson

interpretation pg: engine_provider pg_provider
proof
  fix m show "Prov_Supports pg_provider m \<longleftrightarrow> m \<in> Mod_ID ` set (Prov_Modules pg_provider)"
    by (cases m) (simp_all add: pg_provider_def pg_modules_def)
next
  fix a b x assume "Prov_Action pg_provider a = Some x" "Prov_Action pg_provider b = Some x"
  then show "a = b" by (cases a; cases b) (auto simp: pg_provider_def)
next
  fix n assume "Prov_ValidateRoleName pg_provider n = None"
  then show "n \<noteq> [] \<and> length n \<le> 63 \<and> (\<forall>c\<in>set n. c \<notin> {CHR 0x22, CHR 0x27, CHR '';'', CHR '' '', CHR 0x5C})"
    by (intro ident_plain [where f = "\<lambda>c. is_letter c \<or> c = CHR ''_''"
          and g = "\<lambda>c. is_letter c \<or> is_digit c \<or> c = CHR ''_'' \<or> c = CHR ''$''"])
      (auto simp: pg_provider_def pg_ValidateRoleName_def roleNamePattern_def split: if_splits)
next
  fix n assume "Prov_ValidateDatabaseName pg_provider n = None"
  then show "n \<noteq> [] \<and> length n \<le> 63 \<and> (\<forall>c\<in>set n. c \<notin> {CHR 0x22, CHR 0x27, CHR '';'', CHR '' '', CHR 0x5C})"
    by (intro ident_plain [where f = "\<lambda>c. is_letter c \<or> c = CHR ''_''"
          and g = "\<lambda>c. is_letter c \<or> is_digit c \<or> c = CHR ''_''"])
      (auto simp: pg_provider_def pg_ValidateDatabaseName_def databaseNamePattern_def split: if_splits)
qed

lemma pg_registered:
  "engine_For the_registry EnginePostgreSQL = Inr pg_provider"
  "pg_actions op = Some a \<Longrightarrow> LogicalOpForAction the_registry a = Some op"
  "(\<And>op. pg_actions op \<noteq> Some a) \<Longrightarrow> LogicalOpForAction the_registry a = None"
proof -
  have "pg.fresh empty_registry" by (simp add: pg.fresh_def empty_registry_def)
  from pg.Register_ok [OF this] obtain r where r: "Register pg_provider empty_registry = Inr r"
    "engine_For r (Prov_Engine pg_provider) = Inr pg_provider"
    "\<And>op a. Prov_Action pg_provider op = Some a \<Longrightarrow> LogicalOpForAction r a = Some op"
    "\<And>a. (\<forall>op. Prov_Action pg_provider op \<noteq> Some a) \<Longrightarrow> LogicalOpForAction r a = LogicalOpForAction empty_registry a"
    by blast
  then show "engine_For the_registry EnginePostgreSQL = Inr pg_provider"
    "pg_actions op = Some a \<Longrightarrow> LogicalOpForAction the_registry a = Some op"
    "(\<And>op. pg_actions op \<noteq> Some a) \<Longrightarrow> LogicalOpForAction the_registry a = None"
    by (simp_all add: the_registry_def pg_provider_def LogicalOpForAction_def empty_registry_def)
qed

lemma op_for_action_iff: "LogicalOpForAction the_registry action = Some op \<longleftrightarrow> pg_actions op = Some action"
proof
  assume A: "LogicalOpForAction the_registry action = Some op"
  then obtain op' where "pg_actions op' = Some action" using pg_registered(3) [of action] by fastforce
  with A pg_registered(2) [OF this] show "pg_actions op = Some action" by simp
qed (rule pg_registered(2))

section \<open>Properties\<close>

text \<open>
  the routing table of command results is the exact inverse of the PostgreSQL provider's action
  table: an action string maps to an operation if and only if the provider maps the operation to it.
\<close>

theorem LogicalOpForAction_inverse:
  "LogicalOpForAction the_registry action = Some op \<longleftrightarrow> Prov_Action pg_provider op = Some action"
  by (simp add: pg_provider_def op_for_action_iff)

text \<open>
  C23: a name the provider accepts for a role, a database or an extension is not empty, has at most
  63 characters and contains no quote, semicolon, space or backslash, so it cannot leave the quoted
  identifier it is placed in; an accepted extension is one of the curated list.
\<close>

theorem validated_names_safe:
  assumes "Prov_ValidateRoleName pg_provider n = None \<or> Prov_ValidateDatabaseName pg_provider n = None \<or>
    pg_ValidateExtensionName n = None"
  shows "n \<noteq> [] \<and> length n \<le> 63 \<and> (\<forall>c\<in>set n. c \<notin> {CHR 0x22, CHR 0x27, CHR '';'', CHR '' '', CHR 0x5C}) \<and>
    (pg_ValidateExtensionName n = None \<longrightarrow> extensionAllowSet n)"
proof -
  have "n \<noteq> [] \<and> length n \<le> 63 \<and> (\<forall>c\<in>set n. c \<notin> {CHR 0x22, CHR 0x27, CHR '';'', CHR '' '', CHR 0x5C})"
    if "extensionAllowSet n"
    using that by (auto simp: extensionAllowSet_def availableExtensions_def)
  then show ?thesis
    using assms pg.role_names [of n] pg.database_names [of n]
    by (auto simp: pg_ValidateExtensionName_def split: if_splits)
qed

theorem validated_names_safe_witness:
  "Prov_ValidateRoleName pg_provider ''app_user$1'' = None \<and> pg_ValidateExtensionName ''uuid-ossp'' = None \<and>
   CHR '';'' \<notin> set ''app_user$1'' \<and> extensionAllowSet ''uuid-ossp''"
proof -
  have "Prov_ValidateRoleName pg_provider ''app_user$1'' = None" "pg_ValidateExtensionName ''uuid-ossp'' = None"
    by code_simp+
  with validated_names_safe [of "''app_user$1''"] validated_names_safe [of "''uuid-ossp''"] show ?thesis by blast
qed

end
