(* ===== verification/Proto.thy ===== *)
theory Proto
  imports NodeRepo ClusterRepo Engine
begin

text \<open>
  What the RPC services share: the messages and enumerations of \<open>proto/skylex/v1\<close> that the handlers
  read and build, the conversions of \<open>cluster_service.go\<close> and \<open>cluster_health.go\<close> between them and
  the models, the caller a request carries in its context, and the idiom
  \<open>if err != nil { return nil, status.Errorf(code, "text: %v", err) }\<close> as \<open>or_status\<close>. A message
  field that is a pointer is an option; an enumeration value that is none of the declared constants
  is converted like the unspecified one.
\<close>

record request_context =
  UserIDFromContext :: string
  UserRoleFromContext :: Role
  UserEmailFromContext :: string

definition or_status :: "code \<Rightarrow> string \<Rightarrow> 'a res io \<Rightarrow> ('a \<Rightarrow> 'b rpc io) \<Rightarrow> 'b rpc io" where
  "or_status c p m k = try_do m (\<lambda>e. Inl (Status c (wrap p e))) k"

definition or_status_tx :: "code \<Rightarrow> string \<Rightarrow> 'a res io \<Rightarrow> ('a \<Rightarrow> 'b rpc tx io) \<Rightarrow> 'b rpc tx io" where
  "or_status_tx c p m k = try_tx m (\<lambda>e. Inl (Status c (wrap p e))) k"

definition fail :: "code \<Rightarrow> string \<Rightarrow> 'b rpc io" where
  "fail c msg = State_Monad.return (Inl (Status c msg))"

definition fail_tx :: "code \<Rightarrow> string \<Rightarrow> 'b rpc tx io" where
  "fail_tx c msg = State_Monad.return (Abort (Inl (Status c msg)))"

definition reply :: "'b \<Rightarrow> 'b rpc io" where
  "reply r = State_Monad.return (Inr r)"

lemma wp_or_status [wp_simps]:
  "wp (or_status c p m k) Q w =
   wp m (\<lambda>r w'. case r of Inl e \<Rightarrow> Q (Inl (Status c (wrap p e))) w' | Inr a \<Rightarrow> wp (k a) Q w') w"
  by (simp add: or_status_def wp_simps)

lemma wp_or_status_tx [wp_simps]:
  "wp (or_status_tx c p m k) Q w =
   wp m (\<lambda>r w'. case r of Inl e \<Rightarrow> Q (Abort (Inl (Status c (wrap p e)))) w' | Inr a \<Rightarrow> wp (k a) Q w') w"
  by (simp add: or_status_tx_def wp_simps)

lemma wp_fail [wp_simps]:
  "wp (fail c msg) Q w = Q (Inl (Status c msg)) w"
  "wp (fail_tx c msg) Q' w = Q' (Abort (Inl (Status c msg))) w"
  "wp (reply r) Q w = Q (Inr r) w"
  by (simp_all add: fail_def fail_tx_def reply_def wp_simps)

lemma keeps_or_status [keeps_intros]:
  "keeps I m \<Longrightarrow> (\<And>a. keeps I (k a)) \<Longrightarrow> keeps I (or_status c p m k)"
  unfolding or_status_def by (rule keeps_try_do)

lemma keeps_or_status_tx [keeps_intros]:
  "keeps I m \<Longrightarrow> (\<And>a. keeps I (k' a)) \<Longrightarrow> keeps I (or_status_tx c p m k')"
  unfolding or_status_tx_def try_tx_def by (rule keeps_try_do)

lemma keeps_fail [keeps_intros]: "keeps I (fail c msg)" "keeps I (fail_tx c msg)" "keeps I (reply r)"
  unfolding fail_def fail_tx_def reply_def by (intro keeps_intros)+

text \<open>The chaining rules for the success case, as \<open>wp_try_doI\<close>.\<close>

lemma wp_or_statusI:
  assumes "wp m (\<lambda>r s'. \<forall>a. r = Inr a \<longrightarrow> R a s') s"
    and "\<And>e s'. Q (Inl e) s'" "\<And>a s'. R a s' \<Longrightarrow> wp (k a) Q s'"
  shows "wp (or_status c p m k) Q s"
  unfolding or_status_def by (rule wp_try_doI [OF assms])

lemma wp_or_status_txI:
  assumes "wp m (\<lambda>r s'. \<forall>a. r = Inr a \<longrightarrow> R a s') s"
    and "\<And>e s'. Q (Abort (Inl e)) s'" "\<And>a s'. R a s' \<Longrightarrow> wp (k a) Q s'"
  shows "wp (or_status_tx c p m k) Q s"
  unfolding or_status_tx_def by (rule wp_try_txI [OF assms])

section \<open>Conversions\<close>

text \<open>The conversion of a Go \<open>int\<close> to \<open>int32\<close>.\<close>

definition to_int32 :: "int \<Rightarrow> int" where
  "to_int32 i = (i + 2 ^ 31) mod 2 ^ 32 - 2 ^ 31"

datatype PEngine = ENGINE_UNSPECIFIED | ENGINE_POSTGRESQL

datatype PReplicationMode = REPLICATION_MODE_UNSPECIFIED | REPLICATION_MODE_ASYNC | REPLICATION_MODE_SYNC

datatype PServiceLocation =
  SERVICE_LOCATION_UNSPECIFIED | SERVICE_LOCATION_NATIVE | SERVICE_LOCATION_DOCKER

datatype PClusterStatus =
    CLUSTER_STATUS_UNSPECIFIED | CLUSTER_STATUS_CREATING | CLUSTER_STATUS_HEALTHY
  | CLUSTER_STATUS_DEGRADED | CLUSTER_STATUS_FAILED | CLUSTER_STATUS_DELETING | CLUSTER_STATUS_STOPPED

record Pagination =
  Pag_Page :: int
  Pag_PageSize :: int
  Pag_Total :: int

datatype PRole = ROLE_UNSPECIFIED | ROLE_ADMIN | ROLE_OPERATOR | ROLE_VIEWER

datatype PNodeRole = NODE_ROLE_UNSPECIFIED | NODE_ROLE_PRIMARY | NODE_ROLE_REPLICA

datatype PInstallationState =
    INSTALLATION_STATE_UNSPECIFIED | INSTALLATION_STATE_PENDING_PREFLIGHT | INSTALLATION_STATE_NOTHING_FOUND
  | INSTALLATION_STATE_CONFLICT | INSTALLATION_STATE_INSTALLING | INSTALLATION_STATE_INSTALLED
  | INSTALLATION_STATE_FAILED | INSTALLATION_STATE_ADOPTED

record ClusterConfig =
  Cfg_Engine :: PEngine
  Cfg_Version :: string
  Cfg_ReplicationMode :: PReplicationMode
  Cfg_ReplicaCount :: int
  Cfg_StorageConfigId :: string
  Cfg_PitrEnabled :: bool
  Cfg_Labels :: Labels
  Cfg_ServiceLocation :: PServiceLocation

record ProtoCluster =
  PC_Id :: string
  PC_Name :: string
  PC_Config :: ClusterConfig
  PC_Status :: PClusterStatus
  PC_ServiceLocation :: PServiceLocation
  PC_CreatedAt :: Time
  PC_UpdatedAt :: Time

primrec convertEngine :: "PEngine \<Rightarrow> EngineType" where
  "convertEngine ENGINE_POSTGRESQL = EnginePostgreSQL"
| "convertEngine ENGINE_UNSPECIFIED = EngineNone"

primrec convertReplicationMode :: "PReplicationMode \<Rightarrow> ReplicationMode" where
  "convertReplicationMode REPLICATION_MODE_SYNC = ReplicationSync"
| "convertReplicationMode REPLICATION_MODE_ASYNC = ReplicationAsync"
| "convertReplicationMode REPLICATION_MODE_UNSPECIFIED = ReplicationAsync"

primrec convertServiceLocation :: "PServiceLocation \<Rightarrow> ServiceLocation" where
  "convertServiceLocation SERVICE_LOCATION_DOCKER = ServiceLocationDocker"
| "convertServiceLocation SERVICE_LOCATION_NATIVE = ServiceLocationNative"
| "convertServiceLocation SERVICE_LOCATION_UNSPECIFIED = ServiceLocationUnspecified"

primrec protoServiceLocation :: "ServiceLocation \<Rightarrow> PServiceLocation" where
  "protoServiceLocation ServiceLocationDocker = SERVICE_LOCATION_DOCKER"
| "protoServiceLocation ServiceLocationNative = SERVICE_LOCATION_NATIVE"
| "protoServiceLocation ServiceLocationUnspecified = SERVICE_LOCATION_UNSPECIFIED"

primrec clusterStatusToProto :: "ClusterStatus \<Rightarrow> PClusterStatus" where
  "clusterStatusToProto ClusterStatusCreating = CLUSTER_STATUS_CREATING"
| "clusterStatusToProto ClusterStatusRunning = CLUSTER_STATUS_HEALTHY"
| "clusterStatusToProto ClusterStatusDegraded = CLUSTER_STATUS_DEGRADED"
| "clusterStatusToProto ClusterStatusDeleting = CLUSTER_STATUS_DELETING"
| "clusterStatusToProto ClusterStatusStopped = CLUSTER_STATUS_STOPPED"

primrec nodeRoleToProto :: "NodeRole \<Rightarrow> PNodeRole" where
  "nodeRoleToProto NodeRolePrimary = NODE_ROLE_PRIMARY"
| "nodeRoleToProto NodeRoleReplica = NODE_ROLE_REPLICA"
| "nodeRoleToProto NodeRoleNone = NODE_ROLE_UNSPECIFIED"

definition clusterToProto :: "Cluster \<Rightarrow> ProtoCluster" where
  "clusterToProto c = (
     let engine = (case Cluster_Engine c of EnginePostgreSQL \<Rightarrow> ENGINE_POSTGRESQL | EngineNone \<Rightarrow> ENGINE_UNSPECIFIED);
         mode = (case Cluster_ReplicationMode c of
                   ReplicationSync \<Rightarrow> REPLICATION_MODE_SYNC | ReplicationAsync \<Rightarrow> REPLICATION_MODE_ASYNC);
         clusterStatus = (case Cluster_Status c of
             ClusterStatusCreating \<Rightarrow> CLUSTER_STATUS_CREATING
           | ClusterStatusRunning \<Rightarrow> CLUSTER_STATUS_HEALTHY
           | ClusterStatusDegraded \<Rightarrow> CLUSTER_STATUS_DEGRADED
           | ClusterStatusDeleting \<Rightarrow> CLUSTER_STATUS_DELETING
           | ClusterStatusStopped \<Rightarrow> CLUSTER_STATUS_STOPPED);
         serviceLocation = protoServiceLocation (Cluster_ServiceLocation c)
     in \<lparr>PC_Id = Cluster_ID c, PC_Name = Cluster_Name c,
         PC_Config = \<lparr>Cfg_Engine = engine, Cfg_Version = Cluster_Version c, Cfg_ReplicationMode = mode,
            Cfg_ReplicaCount = to_int32 (Cluster_Replicas c), Cfg_StorageConfigId = Cluster_StorageConfigID c,
            Cfg_PitrEnabled = Cluster_PITREnabled c, Cfg_Labels = Cluster_Tags c,
            Cfg_ServiceLocation = serviceLocation\<rparr>,
         PC_Status = clusterStatus, PC_ServiceLocation = serviceLocation,
         PC_CreatedAt = Cluster_CreatedAt c, PC_UpdatedAt = Cluster_UpdatedAt c\<rparr>)"

text \<open>The stored strings of \<open>models.ClusterStatus\<close>, which error texts print.\<close>

primrec cluster_status_text :: "ClusterStatus \<Rightarrow> string" where
  "cluster_status_text ClusterStatusCreating = ''creating''"
| "cluster_status_text ClusterStatusRunning = ''running''"
| "cluster_status_text ClusterStatusDegraded = ''degraded''"
| "cluster_status_text ClusterStatusStopped = ''stopped''"
| "cluster_status_text ClusterStatusDeleting = ''deleting''"

definition module_text :: "ModuleID \<Rightarrow> string" where
  "module_text m = (case m of
     ModuleOverview \<Rightarrow> ''overview'' | ModuleConnection \<Rightarrow> ''connection'' | ModuleDatabases \<Rightarrow> ''databases''
   | ModuleRoles \<Rightarrow> ''roles'' | ModuleNetwork \<Rightarrow> ''network'' | ModuleTLS \<Rightarrow> ''tls''
   | ModuleExtensions \<Rightarrow> ''extensions'' | ModuleSettings \<Rightarrow> ''settings'' | ModuleDiagnostics \<Rightarrow> ''diagnostics'')"

definition engineModulesProto :: "EngineType \<Rightarrow> (string \<times> string) list" where
  "engineModulesProto e = (case engine_For the_registry e of
     Inl _ \<Rightarrow> []
   | Inr provider \<Rightarrow> map (\<lambda>m. (module_text (Mod_ID m), Mod_Label m)) (Prov_Modules provider))"

lemma clusterToProto_fields [simp]:
  "PC_Id (clusterToProto c) = Cluster_ID c" "PC_Name (clusterToProto c) = Cluster_Name c"
  "PC_Status (clusterToProto c) = clusterStatusToProto (Cluster_Status c)"
  by (simp_all add: clusterToProto_def Let_def split: ClusterStatus.splits)

lemma to_int32_id: "- (2 ^ 31) \<le> i \<Longrightarrow> i < 2 ^ 31 \<Longrightarrow> to_int32 i = i"
  by (simp add: to_int32_def)

end
