(* ===== verification/Samples.thy ===== *)
theory Samples
  imports Store
begin

text \<open>
  Concrete rows and worlds on which the component theories evaluate their definitions: an
  environment in which nothing fails, whose clock and identifiers count the calls, and rows
  that fix only the columns the examples differ in.
\<close>

definition sample_env :: env where
  "sample_env = \<lparr>fault = (\<lambda>_. None), constraint_error = ''UNIQUE constraint failed'',
     json_error = (\<lambda>_. ''invalid character''),
     base64_error = (\<lambda>_. ''illegal base64 data''), clock = (\<lambda>n. 1000 + int n), uuid = (\<lambda>n. ''id-'' @ dec_nat n),
     random_token = (\<lambda>n. ''token-'' @ dec_nat n), random_nonce = (\<lambda>_. ''0123456789ab'')\<rparr>"

definition empty_db :: db where
  "empty_db = \<lparr>clusters = [], nodes = [], node_metrics = [], agent_commands = [],
     cluster_settings = [], users = [], api_keys = [], agent_tokens = [],
     service_operations = [], managed_roles = [], agent_command_secrets = [],
     cluster_secrets = [], node_feature_apply_status = [],
     managed_databases = [], cluster_extensions = [], agent_command_logs = [], audit_logs = [],
     cluster_connection_profiles = [], service_tls_authorities = [], storage_configs = [], backups = [],
     restore_jobs = [], backup_schedules = []\<rparr>"

definition world_of :: "db \<Rightarrow> world" where
  "world_of d = \<lparr>store = d, the_env = sample_env, dcs_primary = Map.empty,
     n_stmt = 0, n_now = 0, n_uuid = 0, n_token = 0, n_nonce = 0\<rparr>"

definition sample_cluster :: "string \<Rightarrow> ClusterStatus \<Rightarrow> Cluster" where
  "sample_cluster i st = \<lparr>Cluster_ID = i, Cluster_Name = i, Cluster_Engine = EnginePostgreSQL,
     Cluster_Version = ''16'', Cluster_ReplicationMode = ReplicationAsync, Cluster_Replicas = 1,
     Cluster_StorageConfigID = [], Cluster_DataDir = ''/var/lib/pg'', Cluster_PITREnabled = False,
     Cluster_Status = st, Cluster_Tags = Map.empty,
     Cluster_ServiceLocation = ServiceLocationNative, Cluster_CreatedAt = 1, Cluster_UpdatedAt = 1\<rparr>"

definition sample_node :: "string \<Rightarrow> string \<Rightarrow> NodeRole \<Rightarrow> NodeStatus \<Rightarrow> Time \<Rightarrow> Node" where
  "sample_node i cid role st seen = \<lparr>Node_ID = i, Node_ClusterID = cid, Node_Hostname = i @ ''.local'',
     Node_Address = i @ ''.local'', Node_Port = 5432, Node_Role = role, Node_Status = st,
     Node_AgentVersion = ''1'', Node_AgentID = ''agent-'' @ i, Node_Labels = Map.empty,
     Node_LastSeen = seen, Node_CreatedAt = 1, Node_UpdatedAt = 1, Node_PostgresInstalled = True,
     Node_PostgresVersion = ''16'', Node_PostgresDataInitialized = True, Node_StatusDetail = [],
     Node_ServiceLocation = ServiceLocationNative, Node_DockerAvailable = False,
     Node_InstallationState = InstallationStateInstalled, Node_ConflictDetails = [],
     Node_AgentConnected = True, Node_AgentLatencyMS = 0, Node_LatestMetrics = None\<rparr>"

definition sample_command :: "string \<Rightarrow> string \<Rightarrow> string \<Rightarrow> string \<Rightarrow> CommandStatus \<Rightarrow> Time \<Rightarrow> AgentCommand" where
  "sample_command i agentID nodeID action st created = \<lparr>Cmd_ID = i, Cmd_AgentID = agentID,
     Cmd_NodeID = nodeID, Cmd_Action = action, Cmd_Payload = Text [], Cmd_Status = st,
     Cmd_Result = Text [], Cmd_Error = [], Cmd_CreatedAt = created, Cmd_CompletedAt = None\<rparr>"

lemma sample_world [simp]:
  "store (world_of d) = d" "the_env (world_of d) = sample_env"
  "n_stmt (world_of d) = 0" "n_now (world_of d) = 0" "n_uuid (world_of d) = 0" "n_token (world_of d) = 0"
  "n_nonce (world_of d) = 0"
  by (simp_all add: world_of_def)

lemma sample_env_fault_free [simp]: "fault_free sample_env"
  by (simp add: fault_free_def sample_env_def)

lemma empty_db_tables [simp]:
  "clusters empty_db = []" "nodes empty_db = []" "node_metrics empty_db = []" "agent_commands empty_db = []"
  "cluster_settings empty_db = []" "users empty_db = []" "api_keys empty_db = []" "agent_tokens empty_db = []"
  "service_operations empty_db = []" "managed_roles empty_db = []" "agent_command_secrets empty_db = []"
  "cluster_secrets empty_db = []" "node_feature_apply_status empty_db = []" "managed_databases empty_db = []"
  "cluster_extensions empty_db = []" "agent_command_logs empty_db = []" "audit_logs empty_db = []"
  "cluster_connection_profiles empty_db = []" "service_tls_authorities empty_db = []" "storage_configs empty_db = []"
  "backups empty_db = []" "restore_jobs empty_db = []" "backup_schedules empty_db = []"
  by (simp_all add: empty_db_def)

end
