(* ===== verification/ClusterSettings.thy ===== *)
theory ClusterSettings
  imports Proto Samples
begin

text \<open>
  The PostgreSQL parameters of a cluster: the curated list, the validation of keys and values and the
  handlers \<open>GetClusterSettings\<close> and \<open>UpdateClusterSettings\<close> of \<open>internal/server/cluster_service.go\<close>.
  A \<open>map[string]string\<close> that is iterated over is the association list of its entries in the order of
  the iteration; one that is only read is a map. \<open>strings.TrimSpace\<close>, \<open>strings.ToLower\<close>,
  \<open>strconv.Atoi\<close> and the regular expression are written out for ASCII texts.
\<close>

section \<open>The standard library's string functions\<close>

text \<open>\<open>strconv.Atoi\<close>: an optional sign, decimal digits, the range of a 64-bit \<open>int\<close>.\<close>

definition digits_val :: "string \<Rightarrow> int" where
  "digits_val s = foldl (\<lambda>a c. 10 * a + int (of_char c - 48)) 0 s"

definition Atoi :: "string \<Rightarrow> int option" where
  "Atoi s = (
     let (neg, ds) = (case s of
         c # cs \<Rightarrow> if c = CHR ''-'' then (True, cs) else if c = CHR ''+'' then (False, cs) else (False, s)
       | [] \<Rightarrow> (False, []));
         n = (if neg then - digits_val ds else digits_val ds)
     in if ds \<noteq> [] \<and> list_all is_digit ds \<and> - (2 ^ 63) \<le> n \<and> n < 2 ^ 63 then Some n else None)"

section \<open>Validation\<close>

definition allowedClusterSettings :: "string list" where
  "allowedClusterSettings = [''max_connections'', ''shared_buffers'', ''wal_level'', ''max_wal_senders'', ''work_mem'']"

definition defaultClusterSettings :: "string \<rightharpoonup> string" where
  "defaultClusterSettings = [''max_connections'' \<mapsto> ''200'', ''shared_buffers'' \<mapsto> ''128MB'',
     ''wal_level'' \<mapsto> ''replica'', ''max_wal_senders'' \<mapsto> ''10'', ''work_mem'' \<mapsto> ''4MB'']"

definition clusterSettingsWithDefaults :: "(string \<rightharpoonup> string) \<Rightarrow> (string \<rightharpoonup> string)" where
  "clusterSettingsWithDefaults parameters = defaultClusterSettings ++ parameters"

text \<open>The class \<open>\s\<close> of Go's regular expressions has no vertical tab; \<open>$\<close> is the end of the text.\<close>

definition regex_space :: "char \<Rightarrow> bool" where
  "regex_space c \<longleftrightarrow> c \<in> {CHR '' '', CHR 0x09, CHR 0x0A, CHR 0x0C, CHR 0x0D}"

definition memory_units :: "string list" where
  "memory_units = [[], ''kb'', ''mb'', ''gb'', ''tb'', ''k'', ''m'', ''g'', ''t'']"

definition memoryUnitPattern :: "string \<Rightarrow> bool" where
  "memoryUnitPattern s \<longleftrightarrow>
     takeWhile is_digit s \<noteq> [] \<and>
     strings_ToLower (dropWhile regex_space (dropWhile is_digit s)) \<in> set memory_units"

definition validateClusterSetting :: "string \<Rightarrow> string \<Rightarrow> string option" where
  "validateClusterSetting key val =
     (if key \<notin> set allowedClusterSettings then Some (quote key @ '' is not an editable PostgreSQL setting'')
      else if TrimSpace val = [] then Some (''value for '' @ quote key @ '' cannot be empty'')
      else if key = ''max_connections'' \<or> key = ''max_wal_senders'' then
        (case Atoi (TrimSpace val) of
           None \<Rightarrow> Some (quote key @ '' must be an integer'')
         | Some n \<Rightarrow> if n \<le> 0 then Some (quote key @ '' must be greater than 0'') else None)
      else if key = ''wal_level'' then
        (if strings_ToLower val = ''replica'' \<or> strings_ToLower val = ''logical'' then None
         else Some (quote key @ '' must be replica or logical''))
      else if key = ''shared_buffers'' \<or> key = ''work_mem'' then
        (if \<not> memoryUnitPattern val then Some (quote key @ '' must be a memory value such as 128MB'') else None)
      else None)"

fun validate_settings :: "(string \<times> string) list \<Rightarrow> string list res" where
  "validate_settings [] = Inr []"
| "validate_settings ((k, v) # kvs) =
     (case validateClusterSetting k v of
        Some e \<Rightarrow> Inl e
      | None \<Rightarrow> (case validate_settings kvs of Inl e \<Rightarrow> Inl e | Inr keys \<Rightarrow> Inr (k # keys)))"

definition validateClusterSettingsParameters :: "(string \<times> string) list \<Rightarrow> string list res" where
  "validateClusterSettingsParameters parameters =
     (if parameters = [] then Inr []
      else (case validate_settings parameters of Inl e \<Rightarrow> Inl e | Inr keys \<Rightarrow> Inr (sort keys)))"

section \<open>Handlers\<close>

text \<open>The common beginning of the handlers that take a cluster id.\<close>

definition require_cluster :: "string \<Rightarrow> (Cluster \<Rightarrow> 'b rpc io) \<Rightarrow> 'b rpc io" where
  "require_cluster cid k =
     or_status Internal ''get cluster'' (clusters_GetByID cid) (\<lambda>c. case c of
         None \<Rightarrow> fail NotFound (''cluster '' @ quote cid @ '' not found'')
       | Some cluster \<Rightarrow> k cluster)"

definition GetClusterSettings :: "string \<Rightarrow> (string \<rightharpoonup> string) rpc io" where
  "GetClusterSettings cid =
     (if cid = [] then fail InvalidArgument ''cluster_id is required''
      else require_cluster cid (\<lambda>_.
        or_status Internal ''get cluster settings'' (settings_GetByClusterID cid) (\<lambda>parameters.
        reply (clusterSettingsWithDefaults parameters))))"

text \<open>\<open>json.Marshal\<close> of a map sorts the keys; a nil map, which an empty one is on the wire, gives \<open>null\<close>.\<close>

definition settings_payload :: "(string \<times> string) list \<Rightarrow> payload" where
  "settings_payload parameters =
     (if parameters = [] then Text ''null'' else Json (map (\<lambda>(k, v). (k, JStr v)) (sort_key fst parameters)))"

definition queueApplySettingsCommands :: "string \<Rightarrow> (string \<times> string) list \<Rightarrow> unit res io" where
  "queueApplySettingsCommands cid parameters =
     try_do (nodes_ListByCluster cid 0 1000) (\<lambda>e. Inl (wrap ''list cluster nodes'' e)) (\<lambda>(ns, _).
       for_each ns (\<lambda>node.
         if Node_AgentID node = [] then State_Monad.return (Inr ())
         else try_do (commands_Create (Node_AgentID node) (Node_ID node) ''pg_apply_settings'' (settings_payload parameters))
                (\<lambda>e. Inl (wrap (''queue apply settings for node '' @ Node_ID node) e))
                (\<lambda>_. State_Monad.return (Inr ()))))"

definition UpdateClusterSettings :: "string \<Rightarrow> (string \<times> string) list \<Rightarrow> ProtoCluster rpc io" where
  "UpdateClusterSettings cid parameters =
     (if cid = [] then fail InvalidArgument ''cluster_id is required''
      else require_cluster cid (\<lambda>cluster.
        (case validateClusterSettingsParameters parameters of
           Inl e \<Rightarrow> fail InvalidArgument (wrap ''invalid settings'' e)
         | Inr _ \<Rightarrow>
             or_status Internal ''persist cluster settings'' (settings_ReplaceAll (Cluster_ID cluster) parameters) (\<lambda>_.
             or_status Internal ''queue apply settings commands''
               (queueApplySettingsCommands (Cluster_ID cluster) parameters) (\<lambda>_.
             reply (clusterToProto cluster))))))"

section \<open>What the validation accepts\<close>

definition setting_char :: "char \<Rightarrow> bool" where
  "setting_char c \<longleftrightarrow> is_letter c \<or> is_digit c \<or> is_space c \<or> c = CHR ''+'' \<or> c = CHR ''-''"

lemma take_or_drop: "c \<in> set xs \<Longrightarrow> c \<in> set (takeWhile P xs) \<or> c \<in> set (dropWhile P xs)"
  by (induction xs) auto

lemma trim_chars: "c \<in> set s \<Longrightarrow> c \<in> set (TrimSpace s) \<or> is_space c"
  unfolding TrimSpace_def using take_or_drop [of c s is_space] take_or_drop [of c "rev (dropWhile is_space s)" is_space]
  by (auto dest: set_takeWhileD)

lemma Atoi_chars: "Atoi s = Some n \<Longrightarrow> c \<in> set s \<Longrightarrow> setting_char c"
  by (auto simp: Atoi_def Let_def setting_char_def list_all_iff split: list.splits if_splits)

lemma lower_letter: "is_letter (lower_char c) \<Longrightarrow> is_letter c"
  by (auto simp: lower_char_def is_letter_def less_eq_char_def split: if_splits)

lemma ToLower_letters: "\<forall>c\<in>set (strings_ToLower s). is_letter c \<Longrightarrow> \<forall>c\<in>set s. is_letter c"
  by (auto simp: strings_ToLower_def intro: lower_letter)

lemma words_letters:
  "\<forall>u\<in>set memory_units. \<forall>c\<in>set u. is_letter c"
  "\<forall>c\<in>set ''replica''. is_letter c" "\<forall>c\<in>set ''logical''. is_letter c"
  by code_simp+

lemma memory_chars:
  assumes "memoryUnitPattern s" "c \<in> set s"
  shows "setting_char c"
proof -
  have "strings_ToLower (dropWhile regex_space (dropWhile is_digit s)) \<in> set memory_units"
    using assms(1) unfolding memoryUnitPattern_def by (rule conjunct2)
  then have "\<forall>c\<in>set (dropWhile regex_space (dropWhile is_digit s)). is_letter c"
    by (rule ToLower_letters [OF bspec [OF words_letters(1)]])
  moreover have "c \<in> set (takeWhile is_digit s) \<or> c \<in> set (takeWhile regex_space (dropWhile is_digit s)) \<or>
      c \<in> set (dropWhile regex_space (dropWhile is_digit s))"
    using take_or_drop [OF assms(2), of is_digit] take_or_drop [of c "dropWhile is_digit s" regex_space] by blast
  moreover have "regex_space c \<Longrightarrow> is_space c" by (auto simp: regex_space_def is_space_def)
  ultimately show ?thesis unfolding setting_char_def by (meson set_takeWhileD)
qed

lemma validateClusterSetting_ok:
  assumes "validateClusterSetting k v = None"
  shows "k \<in> set allowedClusterSettings \<and> (\<forall>c\<in>set v. setting_char c) \<and> TrimSpace v \<noteq> [] \<and>
    (k = ''max_connections'' \<or> k = ''max_wal_senders'' \<longrightarrow> (\<exists>n. Atoi (TrimSpace v) = Some n \<and> 0 < n \<and> n < 2 ^ 63))"
proof -
  have range: "Atoi s = Some n \<Longrightarrow> n < 2 ^ 63" for s n
    by (auto simp: Atoi_def Let_def split: list.splits if_splits)
  have key: "k \<in> set allowedClusterSettings"
    using assms unfolding validateClusterSetting_def by (cases "k \<in> set allowedClusterSettings") simp_all
  have ne: "TrimSpace v \<noteq> []"
    using assms key unfolding validateClusterSetting_def by (cases "TrimSpace v = []") simp_all
  have "k = ''max_connections'' \<or> k = ''shared_buffers'' \<or> k = ''wal_level'' \<or> k = ''max_wal_senders'' \<or> k = ''work_mem''"
    using key by (simp only: allowedClusterSettings_def list.set insert_iff empty_iff simp_thms)
  then consider (num) "k = ''max_connections'' \<or> k = ''max_wal_senders''" | (wal) "k = ''wal_level''"
    | (mem) "k = ''shared_buffers'' \<or> k = ''work_mem''"
    by argo
  then show ?thesis
  proof cases
    case num
    then obtain n where n: "Atoi (TrimSpace v) = Some n" "0 < n"
      using assms key ne by (auto simp: validateClusterSetting_def split: option.splits if_splits)
    have "\<forall>c\<in>set v. setting_char c"
      using trim_chars [of _ v] Atoi_chars [OF n(1)] by (auto simp: setting_char_def)
    with key ne n range [OF n(1)] show ?thesis by blast
  next
    case wal
    then have "strings_ToLower v = ''replica'' \<or> strings_ToLower v = ''logical''"
      using assms key ne by (simp add: validateClusterSetting_def split: if_splits)
    then have "\<forall>c\<in>set v. is_letter c" using ToLower_letters [of v] words_letters(2,3) by auto
    with key ne wal show ?thesis by (simp add: setting_char_def)
  next
    case mem
    then have "memoryUnitPattern v" using assms key ne by (auto simp: validateClusterSetting_def split: if_splits)
    with memory_chars key ne mem show ?thesis by auto
  qed
qed

lemma validate_settings_ok:
  "validate_settings kvs = Inr keys \<Longrightarrow> keys = map fst kvs \<and> (\<forall>(k, v)\<in>set kvs. validateClusterSetting k v = None)"
  by (induction kvs arbitrary: keys rule: validate_settings.induct) (auto split: option.splits sum.splits)

section \<open>Replacing and reading the settings\<close>

definition stored_settings :: "string \<Rightarrow> db \<Rightarrow> (string \<rightharpoonup> string)" where
  "stored_settings cid d = map_of (map (\<lambda>s. (Setting_Key s, Setting_Value s)) (rev (settings_of cid (cluster_settings d))))"

lemma wp_settings_insert:
  "wp (settings_insert cid key val now) (\<lambda>r w'. \<forall>a. r = Inr a \<longrightarrow> (\<exists>s. store w' = (store w)\<lparr>cluster_settings := cluster_settings (store w) @ [s]\<rparr> \<and>
     Setting_ClusterID s = cid \<and> Setting_Key s = key \<and> Setting_Value s = val)) w"
  by (auto simp: settings_insert_def wp_simps split: option.splits)

lemma wp_settings_insert_all:
  "wp (settings_insert_all cid now kvs) (\<lambda>r w'. case r of Abort v \<Rightarrow> isl v | Commit v \<Rightarrow>
     v = Inr () \<and> (\<exists>rows. store w' = (store w)\<lparr>cluster_settings := cluster_settings (store w) @ rows\<rparr> \<and>
       map (\<lambda>s. (Setting_Key s, Setting_Value s)) rows = kvs \<and> (\<forall>s\<in>set rows. Setting_ClusterID s = cid))) w"
proof (induction kvs arbitrary: w)
  case Nil
  show ?case by (auto simp: wp_simps intro!: exI [of _ "[]"])
next
  case (Cons kv kvs)
  obtain k v where kv: "kv = (k, v)" by fastforce
  show ?case unfolding kv settings_insert_all.simps
    by (rule wp_try_txI [OF wp_settings_insert], simp)
      (rule wp_mono [OF Cons.IH], force split: tx.splits intro: exI [of _ "_ # _"])
qed

lemma settings_of_replaced:
  assumes "\<forall>s\<in>set rows. Setting_ClusterID s = cid" "distinct (map Setting_Key rows)"
  shows "map_of (map (\<lambda>s. (Setting_Key s, Setting_Value s))
      (rev (settings_of cid (del_where (\<lambda>s. Setting_ClusterID s = cid) ss @ rows)))) =
    map_of (map (\<lambda>s. (Setting_Key s, Setting_Value s)) rows)"
proof -
  have *: "filter (\<lambda>s. Setting_ClusterID s = cid) (del_where (\<lambda>s. Setting_ClusterID s = cid) ss @ rows) = rows"
    using assms(1) by (simp add: del_where_def filter_id_conv)
  show ?thesis unfolding settings_of_def *
    by (subst map_of_inject_set)
      (use assms(2) in \<open>simp_all add: comp_def distinct_map flip: rev_map\<close>)
qed

lemma wp_ReplaceAll:
  assumes "distinct (map fst params)"
  shows "wp (settings_ReplaceAll cid params) (\<lambda>r w'.
     r = Inr () \<and> stored_settings cid (store w') = map_of params \<and>
       (\<forall>cid'. cid' \<noteq> cid \<longrightarrow> stored_settings cid' (store w') = stored_settings cid' (store w)) \<and>
       clusters (store w') = clusters (store w) \<or>
     isl r \<and> store w' = store w) w"
proof -
  let ?C = "\<lambda>r d. r = Inr () \<and> stored_settings cid d = map_of params \<and>
       (\<forall>cid'. cid' \<noteq> cid \<longrightarrow> stored_settings cid' d = stored_settings cid' (store w)) \<and>
       clusters d = clusters (store w)"
  let ?del = "del_where (\<lambda>s. Setting_ClusterID s = cid) (cluster_settings (store w))"
  have C: "?C (Inr ()) ((store w)\<lparr>cluster_settings := ?del @ rows\<rparr>)"
    if rows: "map (\<lambda>s. (Setting_Key s, Setting_Value s)) rows = sort_key fst params" "\<forall>s\<in>set rows. Setting_ClusterID s = cid" for rows
  proof -
    have keys: "distinct (map Setting_Key rows)"
      using arg_cong [OF rows(1), of "\<lambda>xs. distinct (map fst xs)"] assms by (simp add: comp_def distinct_map)
    have "map_of (sort_key fst params) = map_of params"
      by (subst map_of_inject_set) (use assms in \<open>simp_all add: distinct_map\<close>)
    moreover have "settings_of cid' (?del @ rows) = settings_of cid' (cluster_settings (store w))" if "cid' \<noteq> cid" for cid'
      using that rows(2) unfolding settings_of_def
      by (auto simp: del_where_def filter_empty_conv intro!: arg_cong [where f = "sort_key Setting_Key"] filter_cong)
    ultimately show ?thesis
      using settings_of_replaced [OF rows(2) keys] rows(1) by (simp add: stored_settings_def)
  qed
  show ?thesis unfolding settings_ReplaceAll_def
  proof (rule wp_in_tx_outcome [where A = isl and C = ?C])
    show "wp (try_tx (settings_delete (\<lambda>s. Setting_ClusterID s = cid)) (\<lambda>e. Inl (wrap ''delete cluster settings'' e)) (\<lambda>_.
        if params = [] then State_Monad.return (Commit (Inr ()))
        else do { now \<leftarrow> time_now; settings_insert_all cid now (sort_key fst params) }))
      (\<lambda>r w'. case r of Commit v \<Rightarrow> ?C v (store w') | Abort v \<Rightarrow> isl v) (w\<lparr>n_stmt := Suc (n_stmt w)\<rparr>)"
      unfolding wp_try_tx settings_delete_def wp_sql_write
    proof (split option.split, intro conjI impI allI, goal_cases)
      case 1
      have "wp (settings_insert_all cid now (sort_key fst params))
          (\<lambda>r w'. case r of Commit v \<Rightarrow> ?C v (store w') | Abort v \<Rightarrow> isl v) w1"
        if "store w1 = (store w)\<lparr>cluster_settings := ?del\<rparr>" for now w1
        by (rule wp_mono [OF wp_settings_insert_all]) (auto simp: that C split: tx.splits)
      then show ?case using C [of "[]"] by (auto simp: wp_simps)
    qed simp
  qed simp_all
qed

lemma wp_require_cluster:
  assumes "\<And>e w'. store w' = store w \<Longrightarrow> the_env w' = the_env w \<Longrightarrow> Q (Inl e) w'"
    and "\<And>c w'. List.find (\<lambda>c. Cluster_ID c = cid) (clusters (store w)) = Some c \<Longrightarrow> Cluster_ID c = cid \<Longrightarrow>
      store w' = store w \<Longrightarrow> the_env w' = the_env w \<Longrightarrow> wp (k c) Q w'"
  shows "wp (require_cluster cid k) Q w"
  unfolding require_cluster_def
  by (auto simp: wp_simps clusters_GetByID_def split: option.splits intro!: assms dest: find_Some_iff_mem)

lemma keeps_queueApplySettings [keeps_intros]:
  "keeps_db (\<lambda>d. clusters d = cs \<and> cluster_settings d = ss) (queueApplySettingsCommands cid params)"
  "keeps_env P (queueApplySettingsCommands cid params)"
  unfolding queueApplySettingsCommands_def by (intro keeps_intros keeps_commands_Create; simp)+

lemma wp_UpdateClusterSettings:
  assumes "distinct (map fst params)"
  shows "wp (UpdateClusterSettings cid params) (\<lambda>r w'. \<forall>a. r = Inr a \<longrightarrow> cid \<noteq> [] \<and>
     stored_settings cid (store w') = map_of params \<and> List.find (\<lambda>c. Cluster_ID c = cid) (clusters (store w')) \<noteq> None) w"
proof (cases "cid = []")
  case True
  then show ?thesis by (simp add: UpdateClusterSettings_def wp_simps)
next
  case False
  let ?Q = "\<lambda>r w'. \<forall>a. r = Inr a \<longrightarrow> cid \<noteq> [] \<and>
     stored_settings cid (store w') = map_of params \<and> List.find (\<lambda>c. Cluster_ID c = cid) (clusters (store w')) \<noteq> None"
  have queue: "wp (queueApplySettingsCommands cid params) (\<lambda>_ w'. clusters (store w') = clusters (store w1) \<and>
      cluster_settings (store w') = cluster_settings (store w1)) w1" for w1
    by (rule wp_keeps [OF keeps_queueApplySettings(1)]) auto
  have persist: "wp (or_status Internal ''persist cluster settings'' (settings_ReplaceAll cid params) (\<lambda>_.
       or_status Internal ''queue apply settings commands'' (queueApplySettingsCommands cid params) (\<lambda>_.
       reply (clusterToProto c)))) ?Q w1"
    if "List.find (\<lambda>c. Cluster_ID c = cid) (clusters (store w1)) = Some c" for c w1
    by (rule wp_or_statusI [where R = "\<lambda>_ w'. stored_settings cid (store w') = map_of params \<and> clusters (store w') = clusters (store w1)"])
      (use that False in \<open>auto simp: wp_simps split: sum.splits intro!: wp_mono [OF wp_ReplaceAll [OF assms]]
        wp_mono [OF queue] simp: stored_settings_def\<close>)
  show ?thesis
    unfolding UpdateClusterSettings_def if_not_P [OF False]
  proof (rule wp_require_cluster, goal_cases)
    case (2 c w')
    then show ?case
      using persist [of w' c] by (cases "validateClusterSettingsParameters params") (simp_all add: wp_fail)
  qed simp
qed

lemma wp_GetClusterSettings:
  assumes "no_faults w" "cid \<noteq> []" "List.find (\<lambda>c. Cluster_ID c = cid) (clusters (store w)) \<noteq> None"
  shows "wp (GetClusterSettings cid) (\<lambda>r _. r = Inr (clusterSettingsWithDefaults (stored_settings cid (store w)))) w"
  using assms
  by (auto simp: GetClusterSettings_def require_cluster_def clusters_GetByID_def settings_GetByClusterID_def
      stored_settings_def wp_simps)

lemma keeps_env_insert_all [keeps_intros]: "keeps_env P (settings_insert_all cid now kvs)"
  unfolding settings_insert_def
  by (induction kvs) (auto simp: settings_insert_def intro!: keeps_intros)

lemma keeps_env_UpdateClusterSettings [keeps_intros]: "keeps_env P (UpdateClusterSettings cid params)"
  unfolding UpdateClusterSettings_def require_cluster_def settings_ReplaceAll_def settings_delete_def
  by (intro keeps_intros)

section \<open>Properties\<close>

text \<open>
  C24: the parameters the validation accepts are those of the curated list, returned as the sorted
  keys; every accepted value consists of letters, digits, signs and white space only, so it
  contains no quote, comment sign or assignment, and a connection or sender limit is a positive
  number that fits a 64-bit integer.
\<close>

theorem validated_settings_safe:
  assumes "validateClusterSettingsParameters params = Inr keys"
  shows "keys = sort (map fst params) \<and> (\<forall>(k, v)\<in>set params. k \<in> set allowedClusterSettings \<and>
    (\<forall>c\<in>set v. setting_char c) \<and> (k = ''max_connections'' \<or> k = ''max_wal_senders'' \<longrightarrow>
      (\<exists>n. Atoi (TrimSpace v) = Some n \<and> 0 < n \<and> n < 2 ^ 63)))"
proof (cases "params = []")
  case False
  then have "validate_settings params = Inr (map fst params)" "keys = sort (map fst params)"
    using assms validate_settings_ok [of params]
    by (auto simp: validateClusterSettingsParameters_def split: sum.splits)
  then show ?thesis using validate_settings_ok [of params] validateClusterSetting_ok by blast
qed (use assms in \<open>simp add: validateClusterSettingsParameters_def\<close>)

theorem validated_settings_safe_witness:
  "validateClusterSettingsParameters [(''work_mem'', ''64 MB''), (''max_connections'', '' 250'')] =
     Inr [''max_connections'', ''work_mem''] \<and> list_all setting_char ''64 MB''"
proof -
  have "validateClusterSettingsParameters [(''work_mem'', ''64 MB''), (''max_connections'', '' 250'')] =
     Inr [''max_connections'', ''work_mem'']" by code_simp
  moreover from bspec [OF conjunct2 [OF validated_settings_safe [OF this]], of "(''work_mem'', ''64 MB'')"]
  have "list_all setting_char ''64 MB''" unfolding list_all_iff by simp
  ultimately show ?thesis by simp
qed

text \<open>
  settings that were updated are the settings that are read back: after a successful
  \<open>UpdateClusterSettings\<close>, \<open>GetClusterSettings\<close> returns exactly the new parameters over the
  defaults, whatever was stored before.
\<close>

theorem update_then_get_settings:
  assumes "distinct (map fst params)" "no_faults w" "result (UpdateClusterSettings cid params) w = Inr c"
  shows "result (GetClusterSettings cid) (after (UpdateClusterSettings cid params) w) =
    Inr (clusterSettingsWithDefaults (map_of params))"
proof -
  let ?w = "after (UpdateClusterSettings cid params) w"
  have upd: "cid \<noteq> []" "stored_settings cid (store ?w) = map_of params"
      "List.find (\<lambda>c. Cluster_ID c = cid) (clusters (store ?w)) \<noteq> None"
    using wp_UpdateClusterSettings [OF assms(1), of cid w] assms(3) by (auto simp: wp_outcome)
  have "no_faults ?w" by (rule keeps_after [where I = no_faults, OF keeps_env_UpdateClusterSettings assms(2)])
  from wp_GetClusterSettings [OF this upd(1,3)] upd(2) show ?thesis by (simp add: wp_outcome)
qed

theorem update_then_get_settings_witness:
  "result (GetClusterSettings ''c1'') (after (UpdateClusterSettings ''c1'' [(''work_mem'', ''64MB'')])
     (world_of (empty_db\<lparr>clusters := [sample_cluster ''c1'' ClusterStatusRunning]\<rparr>))) =
   Inr (clusterSettingsWithDefaults [''work_mem'' \<mapsto> ''64MB''])"
proof -
  let ?w = "world_of (empty_db\<lparr>clusters := [sample_cluster ''c1'' ClusterStatusRunning]\<rparr>)"
  have "validateClusterSettingsParameters [(''work_mem'', ''64MB'')] = Inr [''work_mem'']" by code_simp
  then have "wp (UpdateClusterSettings ''c1'' [(''work_mem'', ''64MB'')])
      (\<lambda>r _. r = Inr (clusterToProto (sample_cluster ''c1'' ClusterStatusRunning))) ?w"
    by (simp add: UpdateClusterSettings_def require_cluster_def clusters_GetByID_def settings_ReplaceAll_def
        settings_delete_def settings_insert_def queueApplySettingsCommands_def nodes_ListByCluster_def
        nodes_attachLatestMetrics_def sample_cluster_def by_role_then_age_def page_def Let_def wp_in_tx wp_simps)
  from update_then_get_settings [OF _ _ this [unfolded wp_outcome]] show ?thesis by simp
qed

text \<open>
  an update with an unacceptable parameter is refused as a whole: nothing is stored and no
  command is queued, whichever other parameters it has.
\<close>

theorem invalid_settings_rejected:
  assumes "validateClusterSettingsParameters params = Inl e"
  shows "isl (result (UpdateClusterSettings cid params) w) \<and> store (after (UpdateClusterSettings cid params) w) = store w"
proof -
  have "wp (UpdateClusterSettings cid params) (\<lambda>r w'. isl r \<and> store w' = store w) w"
    using assms unfolding UpdateClusterSettings_def by (auto intro!: wp_require_cluster simp: wp_simps)
  then show ?thesis by (simp add: wp_outcome)
qed

theorem invalid_settings_rejected_witness:
  "store (after (UpdateClusterSettings ''c1'' [(''work_mem'', ''4MB''), (''fsync'', ''off'')]) (world_of empty_db)) = empty_db"
proof -
  have "validateClusterSettingsParameters [(''work_mem'', ''4MB''), (''fsync'', ''off'')] =
    Inl (quote ''fsync'' @ '' is not an editable PostgreSQL setting'')" by code_simp
  from invalid_settings_rejected [OF this, of "''c1''" "world_of empty_db"] show ?thesis by simp
qed

end
