(* ===== verification/AuditRepo.thy ===== *)
theory AuditRepo
  imports Store
begin

text \<open>
  \<open>internal/db/audit_repo.go\<close>: the audit log. The identifier column is filled in by the database;
  entries are never removed, so the next identifier is one above the largest in use. An entry whose
  \<open>CreatedAt\<close> is the zero time is stamped with the current time.
\<close>

definition next_audit_id :: "AuditLog list \<Rightarrow> int" where
  "next_audit_id ls = fold max (map Audit_ID ls) 0 + 1"

definition audit_Log :: "AuditLog \<Rightarrow> AuditLog res io" where
  "audit_Log entry = do {
     createdAt \<leftarrow> (if Audit_CreatedAt entry = zero_time then time_now else State_Monad.return (Audit_CreatedAt entry));
     e \<leftarrow> stmt_fault;
     (case e of
       Some msg \<Rightarrow> State_Monad.return (Inl msg)
     | None \<Rightarrow> do {
         w \<leftarrow> State_Monad.get;
         let row = entry\<lparr>Audit_ID := next_audit_id (audit_logs (store w)), Audit_CreatedAt := createdAt\<rparr>;
         _ \<leftarrow> State_Monad.set (w\<lparr>store := (store w)\<lparr>audit_logs := audit_logs (store w) @ [row]\<rparr>\<rparr>);
         State_Monad.return (Inr row)
       })
   }"

definition audit_List :: "nat \<Rightarrow> nat \<Rightarrow> (AuditLog list \<times> nat) res io" where
  "audit_List pg pageSize =
     try_do (query (\<lambda>d. length (audit_logs d))) Inl (\<lambda>total.
     try_do (query (\<lambda>d. page ((pg - 1) * pageSize) pageSize (sort_key (\<lambda>l. - Audit_CreatedAt l) (audit_logs d)))) Inl (\<lambda>logs.
     State_Monad.return (Inr (logs, total))))"

lemma wp_audit_Log:
  assumes "\<And>w'. the_env w' = the_env w \<Longrightarrow> store w' = store w \<Longrightarrow> Q w'"
    and "\<And>w' rows. the_env w' = the_env w \<Longrightarrow> store w' = (store w)\<lparr>audit_logs := rows\<rparr> \<Longrightarrow> Q w'"
  shows "wp (audit_Log entry) (\<lambda>_. Q) w"
  using assms by (auto simp: audit_Log_def wp_simps Let_def split: option.splits)

end
