(* ===== verification/Failover.thy ===== *)
theory Failover
  imports NodeRepo ClusterRepo Samples
begin

text \<open>
  \<open>internal/server/failover.go\<close>: the failover engine, with \<open>dcs.Store.SetPrimary\<close>. A step of
  \<open>executeFailover\<close> whose error the code only logs is wrapped in \<open>logged\<close>; a step whose error
  ends the run uses \<open>or_return\<close>. The five second sleep between the promote command and the
  change of roles has no effect of its own.
\<close>

record failover_engine =
  has_dcs :: bool
  heartbeatTimeout :: Time

definition logged :: "'a res io \<Rightarrow> unit io" where
  "logged m = do { _ \<leftarrow> m; State_Monad.return () }"

definition or_return :: "'a res io \<Rightarrow> ('a \<Rightarrow> unit io) \<Rightarrow> unit io" where
  "or_return m k = try_do m (\<lambda>_. ()) k"

section \<open>The shared store of primaries\<close>

definition dcs_SetPrimary :: "string \<Rightarrow> PrimaryInfo \<Rightarrow> unit res io" where
  "dcs_SetPrimary cid info = do {
     now \<leftarrow> time_now;
     e \<leftarrow> stmt_fault;
     (case e of
       Some msg \<Rightarrow> State_Monad.return (Inl (wrap ''etcd put'' msg))
     | None \<Rightarrow> do {
         w \<leftarrow> State_Monad.get;
         _ \<leftarrow> State_Monad.set (w\<lparr>dcs_primary := (dcs_primary w)(cid \<mapsto> info\<lparr>Info_UpdatedAt := now\<rparr>)\<rparr>);
         State_Monad.return (Inr ())
       })
   }"

section \<open>Choosing the replica\<close>

text \<open>\<open>r.LastSeen.After(best.LastSeen)\<close>: a later replica replaces an earlier one only if strictly newer.\<close>

fun best_replica :: "Node option \<Rightarrow> Node list \<Rightarrow> Node option" where
  "best_replica best [] = best"
| "best_replica best (r # rs) =
     (if Node_Status r \<noteq> NodeStatusOnline then best_replica best rs
      else (case best of
          None \<Rightarrow> best_replica (Some r) rs
        | Some b \<Rightarrow> if Node_LastSeen r > Node_LastSeen b then best_replica (Some r) rs
                    else best_replica best rs))"

section \<open>Commands\<close>

definition failover_createCommand :: "string \<Rightarrow> string \<Rightarrow> payload \<Rightarrow> string res io" where
  "failover_createCommand nodeID action payload = do {
     r \<leftarrow> nodes_GetByID nodeID;
     (case r of
       Inl _ \<Rightarrow> State_Monad.return (Inl (''node not found: '' @ nodeID))
     | Inr None \<Rightarrow> State_Monad.return (Inl (''node not found: '' @ nodeID))
     | Inr (Some node) \<Rightarrow> (
         let agentID = (if Node_AgentID node = [] then ''failover-sentinel'' else Node_AgentID node)
         in try_do (commands_Create agentID nodeID action payload) (\<lambda>e. Inl (wrap ''create command'' e))
              (\<lambda>cmd. State_Monad.return (Inr (Cmd_ID cmd)))))
   }"

definition host_port :: "string \<Rightarrow> int \<Rightarrow> payload" where
  "host_port h p = Text (h @ '':'' @ dec p)"

section \<open>The failover\<close>

definition switch_roles :: "Node \<Rightarrow> Node \<Rightarrow> unit io" where
  "switch_roles failedPrimary best = do {
     _ \<leftarrow> logged (nodes_UpdateRole (Node_ID best) NodeRolePrimary);
     _ \<leftarrow> logged (nodes_UpdateStatus (Node_ID best) NodeStatusOnline);
     (if Node_ID failedPrimary \<noteq> Node_ID best
      then logged (nodes_UpdateRole (Node_ID failedPrimary) NodeRoleReplica)
      else State_Monad.return ())
   }"

definition repoint_replicas :: "Node list \<Rightarrow> Node \<Rightarrow> unit io" where
  "repoint_replicas replicas best =
     for_all_do replicas (\<lambda>replica.
       if Node_ID replica = Node_ID best then State_Monad.return ()
       else if Node_Status replica \<noteq> NodeStatusOnline then State_Monad.return ()
       else logged (failover_createCommand (Node_ID replica) ''repoint_replica''
                      (host_port (Node_Address best) (Node_Port best))))"

definition announce_primary :: "failover_engine \<Rightarrow> Cluster \<Rightarrow> Node \<Rightarrow> unit io" where
  "announce_primary e cluster best =
     (if has_dcs e
      then logged (dcs_SetPrimary (Cluster_ID cluster)
             \<lparr>Info_ClusterID = Cluster_ID cluster, Info_NodeID = Node_ID best,
              Info_Hostname = Node_Hostname best, Info_Address = Node_Address best,
              Info_Port = Node_Port best, Info_UpdatedAt = 0\<rparr>)
      else State_Monad.return ())"

text \<open>What follows the change of roles: the other nodes follow the new primary.\<close>

definition finish_failover :: "failover_engine \<Rightarrow> Cluster \<Rightarrow> Node \<Rightarrow> Node list \<Rightarrow> Node \<Rightarrow> unit io" where
  "finish_failover e cluster failedPrimary replicas best = do {
     _ \<leftarrow> repoint_replicas replicas best;
     _ \<leftarrow> (if Node_ID failedPrimary \<noteq> Node_ID best
          then logged (failover_createCommand (Node_ID failedPrimary) ''pg_rewind''
                 (host_port (Node_Address best) (Node_Port best)))
          else State_Monad.return ());
     _ \<leftarrow> logged (clusters_UpdateStatus (Cluster_ID cluster) ClusterStatusRunning);
     announce_primary e cluster best
   }"

text \<open>From the choice of the replica to the announcement of the new primary.\<close>

definition promote_replica :: "failover_engine \<Rightarrow> Cluster \<Rightarrow> Node \<Rightarrow> Node list \<Rightarrow> Node \<Rightarrow> unit io" where
  "promote_replica e cluster failedPrimary replicas best =
     or_return (nodes_UpdateStatus (Node_ID best) NodeStatusPromoting) (\<lambda>_.
     or_return (failover_createCommand (Node_ID best) ''pg_promote'' (Text [])) (\<lambda>_. do {
       _ \<leftarrow> switch_roles failedPrimary best;
       finish_failover e cluster failedPrimary replicas best
     }))"

definition executeFailover :: "failover_engine \<Rightarrow> Cluster \<Rightarrow> Node \<Rightarrow> unit io" where
  "executeFailover e cluster failedPrimary =
     or_return (nodes_UpdateStatus (Node_ID failedPrimary) NodeStatusOffline) (\<lambda>_.
     or_return (clusters_UpdateStatus (Cluster_ID cluster) ClusterStatusDegraded) (\<lambda>_.
     or_return (nodes_GetReplicas (Cluster_ID cluster)) (\<lambda>replicas.
     case best_replica None replicas of
       None \<Rightarrow> State_Monad.return ()
     | Some best \<Rightarrow> promote_replica e cluster failedPrimary replicas best)))"

section \<open>Monitoring\<close>

definition checkClusterHealth :: "failover_engine \<Rightarrow> Cluster \<Rightarrow> unit io" where
  "checkClusterHealth e cluster = do {
     r \<leftarrow> nodes_GetPrimary (Cluster_ID cluster);
     (case r of
       Inl _ \<Rightarrow> State_Monad.return ()
     | Inr None \<Rightarrow> State_Monad.return ()
     | Inr (Some primary) \<Rightarrow> do {
         now \<leftarrow> time_now;
         (if now - Node_LastSeen primary \<le> heartbeatTimeout e then State_Monad.return ()
          else if Node_Status primary = NodeStatusPromoting then State_Monad.return ()
          else executeFailover e cluster primary)
       })
   }"

definition monitored :: "Cluster \<Rightarrow> bool" where
  "monitored c \<longleftrightarrow> Cluster_Status c = ClusterStatusRunning \<or> Cluster_Status c = ClusterStatusDegraded"

definition monitorClusters :: "failover_engine \<Rightarrow> unit io" where
  "monitorClusters e =
     or_return (clusters_List 0 100) (\<lambda>(cs, _).
       for_all_do cs (\<lambda>cluster.
         if \<not> monitored cluster then State_Monad.return () else checkClusterHealth e cluster))"

text \<open>One tick of \<open>Run\<close>: only the elected leader monitors.\<close>

definition failover_tick :: "failover_engine \<Rightarrow> bool \<Rightarrow> unit io" where
  "failover_tick e isLeader = (if \<not> isLeader then State_Monad.return () else monitorClusters e)"

section \<open>Properties of the choice\<close>

lemma best_replica_mem:
  "best_replica b rs = Some r \<Longrightarrow> b = Some r \<or> (r \<in> set rs \<and> Node_Status r = NodeStatusOnline)"
  by (induction b rs rule: best_replica.induct) (auto split: if_splits option.splits)

lemma best_replica_max:
  "best_replica b rs = Some r \<Longrightarrow>
   (\<forall>x\<in>set rs. Node_Status x = NodeStatusOnline \<longrightarrow> Node_LastSeen x \<le> Node_LastSeen r)
    \<and> (\<forall>x. b = Some x \<longrightarrow> Node_LastSeen x \<le> Node_LastSeen r)"
  by (induction b rs rule: best_replica.induct) (fastforce split: if_splits option.splits)+

lemma best_replica_None:
  "best_replica b rs = None \<longleftrightarrow> b = None \<and> (\<forall>x\<in>set rs. Node_Status x \<noteq> NodeStatusOnline)"
  by (induction b rs rule: best_replica.induct) (auto split: option.splits)

section \<open>Frames\<close>

lemma keeps_logged [keeps_intros]: "keeps I m \<Longrightarrow> keeps I (logged m)"
  unfolding logged_def by (intro keeps_intros)

lemma keeps_or_return [keeps_intros]:
  "keeps I m \<Longrightarrow> (\<And>a. keeps I (k a)) \<Longrightarrow> keeps I (or_return m k)"
  unfolding or_return_def by (intro keeps_intros)

lemma keeps_dcs_SetPrimary [keeps_intros]:
  "keeps_db I (dcs_SetPrimary cid info)" "keeps_env P (dcs_SetPrimary cid info)"
  unfolding dcs_SetPrimary_def
  by (auto intro!: keeps_wpI simp: wp_simps split: option.splits)

lemma keeps_failover_createCommand:
  "(\<And>d c. I d \<Longrightarrow> I (d\<lparr>agent_commands := agent_commands d @ [c]\<rparr>))
   \<Longrightarrow> keeps_db I (failover_createCommand i act p)"
  unfolding failover_createCommand_def Let_def
  by (intro keeps_intros keeps_commands_Create) simp_all

lemma keeps_env_failover_createCommand [keeps_intros]: "keeps_env P (failover_createCommand i act p)"
  unfolding failover_createCommand_def Let_def by (intro keeps_intros)

lemma keeps_role_view_failover [keeps_intros]:
  "keeps_db (\<lambda>d. role_view d = v) (failover_createCommand i act p)"
  "keeps_db (\<lambda>d. role_view d = v) (clusters_UpdateStatus cid st)"
  by (intro keeps_failover_createCommand keeps_clusters_UpdateStatus; simp add: role_view_def)+

text \<open>Tail of the failover after the switch: it queues commands and sets the status, no roles change.\<close>

lemma keeps_role_view_tail [keeps_intros]:
  "keeps_db (\<lambda>d. role_view d = v) (repoint_replicas rs best)"
  "keeps_db (\<lambda>d. role_view d = v) (finish_failover e c fp rs best)"
  unfolding finish_failover_def repoint_replicas_def announce_primary_def by (intro keeps_intros)+

lemma wp_logged [wp_simps]: "wp (logged m) Q w = wp m (\<lambda>_ w'. Q () w') w"
  by (simp add: logged_def wp_bind) (rule wp_cong, rule wp_return)

lemma wp_or_return [wp_simps]:
  "wp (or_return m k) Q w = wp m (\<lambda>r w'. case r of Inl _ \<Rightarrow> Q () w' | Inr a \<Rightarrow> wp (k a) Q w') w"
  by (simp add: or_return_def wp_simps)

definition switch_view :: "string \<Rightarrow> string \<Rightarrow> (string \<times> string \<times> NodeRole) list \<Rightarrow> (string \<times> string \<times> NodeRole) list" where
  "switch_view failed best v = map (\<lambda>(i, c, r).
     (i, c, if i = failed \<and> failed \<noteq> best then NodeRoleReplica else if i = best then NodeRolePrimary else r)) v"

lemma wp_switch_roles:
  "no_faults w \<Longrightarrow>
   wp (switch_roles fp best) (\<lambda>_ w'. no_faults w' \<and>
      role_view (store w') = switch_view (Node_ID fp) (Node_ID best) (role_view (store w))) w"
  by (auto simp: switch_roles_def nodes_UpdateRole_def nodes_UpdateStatus_def update_node_def wp_simps
      role_view_def switch_view_def upd_where_def)

lemma view_primaries_switch:
  assumes "distinct (map fst v)" "view_primaries cid v = [failed]"
    "(best, cid, NodeRoleReplica) \<in> set v"
  shows "view_primaries cid (switch_view failed best v) = [best]"
proof -
  have ids: "map fst (switch_view failed best v) = map fst v"
    by (auto simp: switch_view_def)
  then have "distinct (view_primaries cid (switch_view failed best v))"
    unfolding view_primaries_def using assms(1) by (metis distinct_map_filter)
  moreover have "set (view_primaries cid (switch_view failed best v)) = {best}"
  proof -
    have "failed \<in> set (view_primaries cid v)" by (simp add: assms(2))
    then have f: "(failed, cid, NodeRolePrimary) \<in> set v" and "cid \<noteq> []"
      by (auto simp: view_primaries_def)
    have only: "i = failed" if "(i, cid, NodeRolePrimary) \<in> set v" for i
    proof -
      have "i \<in> set (view_primaries cid v)"
        using that \<open>cid \<noteq> []\<close> by (force simp: view_primaries_def)
      then show ?thesis by (simp add: assms(2))
    qed
    have "failed \<noteq> best"
      using f assms(1,3) by (auto dest: eq_key_imp_eq_value)
    note cid = \<open>cid \<noteq> []\<close> and ne = this
    have "i = best" if "(i, cid, NodeRolePrimary) \<in> set (switch_view failed best v)" for i
      using that ne only by (auto simp: switch_view_def split: if_splits)
    moreover have "(best, cid, NodeRolePrimary) \<in> set (switch_view failed best v)"
      using assms(3) ne by (force simp: switch_view_def)
    ultimately show ?thesis
      using cid by (force simp: view_primaries_def)
  qed
  ultimately show ?thesis by (rule distinct_singleton)
qed

lemma wp_or_return_keeps:
  assumes "keeps I m" "I w" "\<And>w'. I w' \<Longrightarrow> Q () w'" "\<And>a w'. I w' \<Longrightarrow> wp (k a) Q w'"
  shows "wp (or_return m k) Q w"
  unfolding wp_or_return by (rule wp_keeps [OF assms(1,2)]) (auto intro: assms(3,4) split: sum.splits)

lemma wp_bind_keeps:
  assumes "keeps I m" "I w" "\<And>a w'. I w' \<Longrightarrow> wp (k a) Q w'"
  shows "wp (State_Monad.bind m k) Q w"
  unfolding wp_bind by (rule wp_keeps [OF assms(1,2)]) (rule assms(3))

lemma wp_GetReplicas:
  "no_faults w \<Longrightarrow> wp (nodes_GetReplicas cid) (\<lambda>r w'. no_faults w' \<and> store w' = store w \<and>
     (\<forall>rs. r = Inr rs \<longrightarrow> rs = map (attach_metric (node_metrics (store w)))
         (sort_key Node_CreatedAt (filter (\<lambda>n. in_cluster cid n \<and> Node_Role n = NodeRoleReplica) (nodes (store w)))))) w"
  by (auto simp: nodes_GetReplicas_def nodes_attachLatestMetrics_def wp_simps)

lemma keeps_same_roles:
  "keeps no_faults m \<Longrightarrow> keeps_db (\<lambda>d. role_view d = v) m \<Longrightarrow>
   keeps (\<lambda>w. no_faults w \<and> role_view (store w) = v) m"
  by (rule keeps_conj)

lemma keeps_env_tail [keeps_intros]:
  "keeps_env P (repoint_replicas rs best)" "keeps_env P (finish_failover e c fp rs best)"
  unfolding finish_failover_def repoint_replicas_def announce_primary_def by (intro keeps_intros)+

text \<open>
  A failover without failures leaves the roles as they were, or exchanges them between the
  failed primary and a replica of the cluster.
\<close>

definition roles_after :: "string \<Rightarrow> string \<Rightarrow> (string \<times> string \<times> NodeRole) list \<Rightarrow> db \<Rightarrow> bool" where
  "roles_after cid failed v d \<longleftrightarrow> role_view d = v \<or>
     (\<exists>best. (best, cid, NodeRoleReplica) \<in> set v \<and> role_view d = switch_view failed best v)"

lemma wp_promote_replica:
  assumes "no_faults w" "role_view (store w) = v" "(Node_ID best, cid, NodeRoleReplica) \<in> set v"
  shows "wp (promote_replica e c fp rs best) (\<lambda>_ w'. no_faults w' \<and> roles_after cid (Node_ID fp) v (store w')) w"
proof -
  let ?Q = "\<lambda>w'. no_faults w' \<and> roles_after cid (Node_ID fp) v (store w')"
  let ?I = "\<lambda>w. no_faults w \<and> role_view (store w) = v"
  let ?J = "\<lambda>w. no_faults w \<and> role_view (store w) = switch_view (Node_ID fp) (Node_ID best) v"
  have IQ: "?Q w'" if "?I w'" for w' using that by (simp add: roles_after_def)
  have JQ: "?Q w'" if "?J w'" for w' using that assms(3) by (auto simp: roles_after_def)
  have switch: "wp (do { _ \<leftarrow> switch_roles fp best; finish_failover e c fp rs best }) (\<lambda>_. ?Q) w2"
    if "?I w2" for w2 :: world
    unfolding wp_bind
    by (rule wp_mono [OF wp_switch_roles], use that in simp,
        rule wp_keeps [where I = ?J], intro keeps_same_roles keeps_intros, use that in simp, rule JQ)
  show ?thesis
    unfolding promote_replica_def
    by (rule wp_or_return_keeps [where I = ?I], intro keeps_same_roles keeps_intros, simp add: assms, rule IQ,
        assumption, rule wp_or_return_keeps [where I = ?I], intro keeps_same_roles keeps_intros, assumption,
        rule IQ, assumption, rule switch)
qed

lemma wp_executeFailover_roles:
  assumes nf: "no_faults w"
  shows "wp (executeFailover e c fp) (\<lambda>_ w'. no_faults w' \<and>
     roles_after (Cluster_ID c) (Node_ID fp) (role_view (store w)) (store w')) w"
proof -
  let ?cid = "Cluster_ID c" and ?v = "role_view (store w)"
  let ?I = "\<lambda>w'. no_faults w' \<and> role_view (store w') = ?v"
  let ?Q = "\<lambda>w'. no_faults w' \<and> roles_after ?cid (Node_ID fp) ?v (store w')"
  let ?rest = "\<lambda>rs. case best_replica None rs of None \<Rightarrow> State_Monad.return ()
      | Some best \<Rightarrow> promote_replica e c fp rs best"
  have stay: "?Q w'" if "?I w'" for w' using that by (simp add: roles_after_def)
  have replica: "(Node_ID best, ?cid, NodeRoleReplica) \<in> set (role_view d)"
    if "best_replica None (map (attach_metric ms)
         (sort_key Node_CreatedAt (filter (\<lambda>n. in_cluster ?cid n \<and> Node_Role n = NodeRoleReplica) (nodes d)))) = Some best"
    for d ms best
    using best_replica_mem [OF that] by (force simp: role_view_def in_cluster_def)
  have choose: "wp (or_return (nodes_GetReplicas ?cid) ?rest) (\<lambda>_. ?Q) w1" if I: "?I w1" for w1 :: world
    unfolding wp_or_return
  proof (rule wp_mono [OF wp_GetReplicas])
    show "no_faults w1" using I by simp
    fix r and w2 :: world
    assume A: "no_faults w2 \<and> store w2 = store w1 \<and> (\<forall>rs. r = Inr rs \<longrightarrow> rs =
      map (attach_metric (node_metrics (store w1))) (sort_key Node_CreatedAt
        (filter (\<lambda>n. in_cluster ?cid n \<and> Node_Role n = NodeRoleReplica) (nodes (store w1)))))"
    have "wp (promote_replica e c fp rs best) (\<lambda>_. ?Q) w2"
      if "r = Inr rs" "best_replica None rs = Some best" for rs best
      using A I that replica [of _ "store w1"] by (intro wp_promote_replica) auto
    then show "case r of Inl _ \<Rightarrow> ?Q w2 | Inr rs \<Rightarrow> wp (?rest rs) (\<lambda>_. ?Q) w2"
      using A I stay [of w2] by (auto simp: wp_return split: sum.splits option.splits)
  qed
  show ?thesis
    unfolding executeFailover_def
    by (rule wp_or_return_keeps [where I = ?I], intro keeps_same_roles keeps_intros, simp add: nf, rule stay,
        assumption, rule wp_or_return_keeps [where I = ?I], intro keeps_same_roles keeps_intros, assumption,
        rule stay, assumption, rule choose)
qed

text \<open>No cluster has two primaries, and the identifiers of the nodes are a key.\<close>

definition single_primaries :: "db \<Rightarrow> bool" where
  "single_primaries d \<longleftrightarrow> nodes_table.pk d \<and> (\<forall>cid. length (primaries cid d) \<le> 1)"

lemma single_primaries_view:
  "single_primaries d \<longleftrightarrow> distinct (map fst (role_view d)) \<and> (\<forall>cid. length (view_primaries cid (role_view d)) \<le> 1)"
  unfolding single_primaries_def primaries_view [symmetric]
  by (simp add: role_view_def nodes_table.unique_def o_def)

lemma view_primaries_switch_other:
  assumes "distinct (map fst v)" "(failed, cid, r) \<in> set v" "(best, cid, r') \<in> set v" "cid' \<noteq> cid"
  shows "view_primaries cid' (switch_view failed best v) = view_primaries cid' v"
proof -
  have "view_primaries cid' (switch_view failed best u) = view_primaries cid' u" if "set u \<subseteq> set v" for u
    using that
  proof (induction u)
    case (Cons x u)
    obtain i c s where x: "x = (i, c, s)" by (cases x)
    have "i \<noteq> failed" "i \<noteq> best" if "c = cid'"
      using that Cons.prems assms x by (auto dest: eq_key_imp_eq_value)
    then show ?case using Cons x by (auto simp: view_primaries_def switch_view_def)
  qed (simp add: view_primaries_def switch_view_def)
  then show ?thesis by simp
qed

lemma roles_after_single:
  assumes "single_primaries d" "view_primaries cid (role_view d) = [failed]"
    "roles_after cid failed (role_view d) d'"
  shows "single_primaries d'"
proof -
  let ?v = "role_view d"
  have v: "distinct (map fst ?v)" "\<And>cid. length (view_primaries cid ?v) \<le> 1"
    using assms(1) by (auto simp: single_primaries_view)
  have "failed \<in> set (view_primaries cid ?v)" by (simp add: assms(2))
  then have f: "(failed, cid, NodeRolePrimary) \<in> set ?v" by (auto simp: view_primaries_def)
  have ids: "map fst (switch_view failed best ?v) = map fst ?v" for best
    by (auto simp: switch_view_def)
  have "length (view_primaries cid' (switch_view failed best ?v)) \<le> 1"
    if "(best, cid, NodeRoleReplica) \<in> set ?v" for best cid'
    using view_primaries_switch [OF v(1) assms(2) that] view_primaries_switch_other [OF v(1) f that] v(2)
    by (cases "cid' = cid") simp_all
  then show ?thesis
    using assms(3) v ids by (auto simp: roles_after_def single_primaries_view)
qed

lemma find_primary:
  assumes "single_primaries d" "List.find (\<lambda>n. in_cluster cid n \<and> Node_Role n = NodeRolePrimary) (nodes d) = Some p"
  shows "view_primaries cid (role_view d) = [Node_ID p]"
proof -
  have "length (primaries cid d) \<le> 1" using assms(1) by (simp add: single_primaries_def)
  then have "primaries cid d = [p]"
    using assms(2) by (auto simp: primaries_def find_eq_hd_filter split: list.splits)
  then show ?thesis by (simp flip: primaries_view)
qed

lemma wp_GetPrimary:
  "no_faults w \<Longrightarrow> wp (nodes_GetPrimary cid) (\<lambda>r w'. no_faults w' \<and> store w' = store w \<and>
     (\<forall>p. r = Inr (Some p) \<longrightarrow> (\<exists>q. p = attach_metric (node_metrics (store w)) q \<and>
        List.find (\<lambda>n. in_cluster cid n \<and> Node_Role n = NodeRolePrimary) (nodes (store w)) = Some q))) w"
  by (auto simp: nodes_GetPrimary_def checked_def nodes_row_def nodes_attachLatestMetrics_def wp_simps
      split: option.splits)

lemma wp_executeFailover_single:
  assumes "no_faults w" "single_primaries (store w)" "view_primaries (Cluster_ID c) (role_view (store w)) = [Node_ID p]"
  shows "wp (executeFailover e c p) (\<lambda>_ w'. no_faults w' \<and> single_primaries (store w')) w"
  by (rule wp_mono [OF wp_executeFailover_roles [OF assms(1)]]) (use assms(2,3) in \<open>blast intro: roles_after_single\<close>)

lemma keeps_single_checkClusterHealth:
  "keeps (\<lambda>w. no_faults w \<and> single_primaries (store w)) (checkClusterHealth e c)"
proof (rule keeps_wpI)
  fix w :: world assume A: "no_faults w \<and> single_primaries (store w)"
  show "wp (checkClusterHealth e c) (\<lambda>_ w. no_faults w \<and> single_primaries (store w)) w"
    unfolding checkClusterHealth_def wp_bind [of "nodes_GetPrimary i" for i]
    by (rule wp_mono [OF wp_GetPrimary])
      (use A in \<open>auto simp: wp_return wp_bind wp_time_now find_primary split: sum.splits option.splits
          intro!: wp_executeFailover_single\<close>)
qed

lemma keeps_single_tick: "keeps (\<lambda>w. no_faults w \<and> single_primaries (store w)) (failover_tick e isLeader)"
  unfolding failover_tick_def monitorClusters_def
  by (intro keeps_intros keeps_single_checkClusterHealth keeps_conj)

section \<open>The failover refines a change of topology\<close>

definition topology :: "db \<Rightarrow> (string \<times> string \<times> NodeRole \<times> NodeStatus) list" where
  "topology d = map (\<lambda>n. (Node_ID n, Node_ClusterID n, Node_Role n, Node_Status n)) (nodes d)"

definition failover_spec ::
  "string \<Rightarrow> string \<Rightarrow> (string \<times> string \<times> NodeRole \<times> NodeStatus) list
   \<Rightarrow> (string \<times> string \<times> NodeRole \<times> NodeStatus) list" where
  "failover_spec failed best = map (\<lambda>(i, c, r, s).
     if i = failed then (i, c, NodeRoleReplica, NodeStatusOffline)
     else if i = best then (i, c, NodeRolePrimary, NodeStatusOnline)
     else (i, c, r, s))"

definition replicas_of :: "string \<Rightarrow> db \<Rightarrow> Node list" where
  "replicas_of cid d =
     sort_key Node_CreatedAt (filter (\<lambda>n. in_cluster cid n \<and> Node_Role n = NodeRoleReplica) (nodes d))"

lemma keeps_tables_createCommand [keeps_intros]:
  "keeps_db (\<lambda>d. nodes d = N \<and> clusters d = C) (failover_createCommand i act p)"
  by (rule keeps_failover_createCommand) simp

lemma keeps_tables_repoint [keeps_intros]:
  "keeps_db (\<lambda>d. nodes d = N \<and> clusters d = C) (repoint_replicas rs best)"
  unfolding repoint_replicas_def by (intro keeps_intros)

lemma wp_createCommand_ok:
  assumes "no_faults w" "nodes_table.by_key i (nodes (store w)) = Some n"
    "uuid (the_env w) (n_uuid w) \<notin> Cmd_ID ` set (agent_commands (store w))"
  shows "wp (failover_createCommand i act p) (\<lambda>r w'. (\<exists>cid. r = Inr cid) \<and> no_faults w' \<and>
     nodes (store w') = nodes (store w) \<and> clusters (store w') = clusters (store w)) w"
  using assms
  by (auto simp: failover_createCommand_def nodes_GetByID_def nodes_row_def checked_def
      nodes_attachLatestMetrics_def commands_Create_def commands_insert_def command_row_def
      nodes_table.by_key_def wp_simps Let_def)


lemma best_replica_map:
  "(\<And>x. Node_Status (f x) = Node_Status x \<and> Node_LastSeen (f x) = Node_LastSeen x) \<Longrightarrow>
   best_replica (map_option f b) (map f rs) = map_option f (best_replica b rs)"
  by (induction b rs rule: best_replica.induct) (auto split: option.splits)

lemmas best_replica_attach = best_replica_map [of "attach_metric ms" None for ms, simplified]

lemma keeps_announce [keeps_intros]: "keeps_db I (announce_primary e c best)"
  unfolding announce_primary_def by (intro keeps_intros)

definition cluster_has_status :: "string \<Rightarrow> ClusterStatus \<Rightarrow> db \<Rightarrow> bool" where
  "cluster_has_status cid st d \<longleftrightarrow> (\<forall>c\<in>set (clusters d). Cluster_ID c = cid \<longrightarrow> Cluster_Status c = st)"

lemma topology_nodes: "nodes d = nodes d' \<Longrightarrow> topology d = topology d'"
  by (simp add: topology_def)

lemma cluster_has_status_upd [simp]:
  "cluster_has_status cid st (d\<lparr>clusters := upd_where (\<lambda>c. Cluster_ID c = cid)
     (\<lambda>c. c\<lparr>Cluster_Status := st, Cluster_UpdatedAt := t\<rparr>) rows\<rparr>)"
  by (induction rows) (simp_all add: cluster_has_status_def)

lemma wp_finish_failover:
  assumes "no_faults w"
  shows "wp (finish_failover e c fp rs best) (\<lambda>_ w'. nodes (store w') = nodes (store w) \<and>
     cluster_has_status (Cluster_ID c) ClusterStatusRunning (store w')) w"
proof -
  let ?cid = "Cluster_ID c"
  let ?N = "nodes (store w)" and ?C = "clusters (store w)"
  let ?I = "\<lambda>w. no_faults w \<and> nodes (store w) = ?N \<and> clusters (store w) = ?C"
  let ?J = "\<lambda>w. nodes (store w) = ?N \<and> cluster_has_status ?cid ClusterStatusRunning (store w)"
  show ?thesis
    unfolding finish_failover_def
  proof (rule wp_bind_keeps [where I = ?I], intro keeps_conj keeps_intros, simp add: assms,
      rule wp_bind_keeps [where I = ?I], intro keeps_conj keeps_intros, assumption)
    fix w2 :: world assume "?I w2"
    then have "wp (logged (clusters_UpdateStatus ?cid ClusterStatusRunning)) (\<lambda>_. ?J) w2"
      by (simp add: wp_simps clusters_UpdateStatus_def)
    then show "wp (do { _ \<leftarrow> logged (clusters_UpdateStatus ?cid ClusterStatusRunning); announce_primary e c best })
        (\<lambda>_. ?J) w2"
      unfolding wp_bind by (rule wp_mono) (rule wp_keeps [OF keeps_announce])
  qed
qed

text \<open>The statements that change a node's status or role, seen on the topology.\<close>

lemma wp_set_status:
  assumes "no_faults w"
  shows "wp (nodes_UpdateStatus i st) (\<lambda>r w'. r = Inr () \<and> no_faults w' \<and>
     topology (store w') = map (\<lambda>(j, c, r, s). (j, c, r, if j = i then st else s)) (topology (store w)) \<and>
     (nodes_table.by_key k (nodes (store w)) \<noteq> None \<longrightarrow> nodes_table.by_key k (nodes (store w')) \<noteq> None) \<and>
     n_uuid w' = n_uuid w \<and> the_env w' = the_env w \<and> clusters (store w') = clusters (store w) \<and>
     agent_commands (store w') = agent_commands (store w)) w"
  using assms
  by (simp add: nodes_UpdateStatus_def update_node_def wp_simps nodes_table.by_key_None
      nodes_table.keys_upd) (simp add: topology_def upd_where_def)

lemma wp_switch_roles_topology:
  assumes "no_faults w" "Node_ID fp \<noteq> Node_ID best"
  shows "wp (switch_roles fp best) (\<lambda>_ w'. no_faults w' \<and> topology (store w') =
     map (\<lambda>(j, c, r, s). (j, c, if j = Node_ID fp then NodeRoleReplica else if j = Node_ID best then NodeRolePrimary else r,
                          if j = Node_ID best then NodeStatusOnline else s)) (topology (store w))) w"
  using assms
  by (auto simp: switch_roles_def nodes_UpdateRole_def nodes_UpdateStatus_def update_node_def wp_simps
      topology_def upd_where_def)

lemma wp_promote_replica_ok:
  assumes "no_faults w" "nodes_table.by_key (Node_ID best) (nodes (store w)) \<noteq> None"
    "uuid (the_env w) (n_uuid w) \<notin> Cmd_ID ` set (agent_commands (store w))" "Node_ID fp \<noteq> Node_ID best"
    "\<forall>(i, c, r, s)\<in>set (topology (store w)). i = Node_ID fp \<longrightarrow> s = NodeStatusOffline"
  shows "wp (promote_replica e c fp rs best) (\<lambda>_ w'.
     topology (store w') = failover_spec (Node_ID fp) (Node_ID best) (topology (store w)) \<and>
     cluster_has_status (Cluster_ID c) ClusterStatusRunning (store w')) w"
proof -
  let ?Q = "\<lambda>w'. topology (store w') = failover_spec (Node_ID fp) (Node_ID best) (topology (store w)) \<and>
     cluster_has_status (Cluster_ID c) ClusterStatusRunning (store w')"
  let ?pro = "map (\<lambda>(j, c, r, s). (j, c, r, if j = Node_ID best then NodeStatusPromoting else s)) (topology (store w))"
  have switch: "wp (switch_roles fp best) (\<lambda>_ w'. no_faults w' \<and>
      topology (store w') = failover_spec (Node_ID fp) (Node_ID best) (topology (store w))) w2"
    if "no_faults w2" "topology (store w2) = ?pro" for w2 :: world
    by (rule wp_mono [OF wp_switch_roles_topology [OF that(1) assms(4)]])
      (use assms(4,5) that(2) in \<open>auto simp: failover_spec_def\<close>)
  have rest: "wp (do { _ \<leftarrow> switch_roles fp best; finish_failover e c fp rs best }) (\<lambda>_. ?Q) w2"
    if "no_faults w2" "topology (store w2) = ?pro" for w2 :: world
    unfolding wp_bind
    by (rule wp_mono [OF switch [OF that]], rule wp_mono [OF wp_finish_failover])
      (auto dest: topology_nodes)
  have command: "wp (or_return (failover_createCommand (Node_ID best) ''pg_promote'' (Text []))
       (\<lambda>_. do { _ \<leftarrow> switch_roles fp best; finish_failover e c fp rs best })) (\<lambda>_. ?Q) w1"
    if nf: "no_faults w1" and t: "topology (store w1) = ?pro"
      and k: "nodes_table.by_key (Node_ID best) (nodes (store w1)) \<noteq> None"
      and u: "uuid (the_env w1) (n_uuid w1) \<notin> Cmd_ID ` set (agent_commands (store w1))" for w1 :: world
  proof -
    obtain n where "nodes_table.by_key (Node_ID best) (nodes (store w1)) = Some n" using k by blast
    from wp_createCommand_ok [OF nf this u] show ?thesis
      unfolding wp_or_return by (rule wp_mono) (auto intro!: rest dest: topology_nodes simp: t)
  qed
  show ?thesis
    unfolding promote_replica_def wp_or_return [of "nodes_UpdateStatus i st" for i st]
    by (rule wp_mono [OF wp_set_status [OF assms(1), of _ _ "Node_ID best"]])
      (use assms(2,3) in \<open>auto intro!: command\<close>)
qed

lemma wp_UpdateStatus_ok:
  assumes "no_faults w"
  shows "wp (nodes_UpdateStatus i st) (\<lambda>r w'. r = Inr () \<and> no_faults w' \<and>
     store w' = (store w)\<lparr>nodes := upd_where (\<lambda>n. Node_ID n = i)
        (\<lambda>n. n\<lparr>Node_Status := st, Node_UpdatedAt := clock (the_env w) (n_now w)\<rparr>) (nodes (store w))\<rparr> \<and>
     n_uuid w' = n_uuid w \<and> the_env w' = the_env w) w"
  using assms by (simp add: nodes_UpdateStatus_def update_node_def wp_simps)

lemma wp_cluster_status_ok:
  assumes "no_faults w"
  shows "wp (clusters_UpdateStatus i st) (\<lambda>r w'. r = Inr () \<and> no_faults w' \<and>
     nodes (store w') = nodes (store w) \<and> agent_commands (store w') = agent_commands (store w) \<and>
     n_uuid w' = n_uuid w \<and> the_env w' = the_env w) w"
  using assms by (simp add: clusters_UpdateStatus_def wp_simps)

lemma wp_GetReplicas_ok:
  assumes "no_faults w"
  shows "wp (nodes_GetReplicas cid) (\<lambda>r w'. r = Inr (map (attach_metric (node_metrics (store w))) (replicas_of cid (store w)))
     \<and> no_faults w' \<and> store w' = store w \<and> n_uuid w' = n_uuid w \<and> the_env w' = the_env w) w"
  using assms by (auto simp: nodes_GetReplicas_def nodes_attachLatestMetrics_def wp_simps replicas_of_def)

lemma replicas_of_mark:
  assumes "nodes_table.pk d" "map Node_ID (primaries cid d) = [i]"
  shows "replicas_of cid (d\<lparr>nodes := upd_where (\<lambda>n. Node_ID n = i)
     (\<lambda>n. n\<lparr>Node_Status := st, Node_UpdatedAt := t\<rparr>) (nodes d)\<rparr>) = replicas_of cid d"
proof -
  obtain p where p: "primaries cid d = [p]" "Node_ID p = i" using assms(2) by auto
  then have "p \<in> set (nodes d)" "Node_Role p = NodeRolePrimary"
    by (auto simp: primaries_def filter_eq_Cons_iff)
  then have "Node_Role n = NodeRolePrimary" if "n \<in> set (nodes d)" "Node_ID n = i" for n
    using that p(2) nodes_table.unique_same [OF assms(1)] by metis
  then show ?thesis
    unfolding replicas_of_def by (simp add: filter_upd_where_other)
qed

lemma wp_executeFailover_refines:
  assumes nf: "no_faults w" and pk: "nodes_table.pk (store w)"
    and one: "map Node_ID (primaries (Cluster_ID c) (store w)) = [Node_ID fp]"
    and fresh: "uuid (the_env w) (n_uuid w) \<notin> Cmd_ID ` set (agent_commands (store w))"
    and best: "best_replica None (replicas_of (Cluster_ID c) (store w)) = Some best"
  shows "wp (executeFailover e c fp) (\<lambda>_ w'.
     topology (store w') = failover_spec (Node_ID fp) (Node_ID best) (topology (store w)) \<and>
     cluster_has_status (Cluster_ID c) ClusterStatusRunning (store w')) w"
proof -
  let ?cid = "Cluster_ID c" and ?d = "store w"
  let ?Q = "\<lambda>w'. topology (store w') = failover_spec (Node_ID fp) (Node_ID best) (topology ?d) \<and>
     cluster_has_status ?cid ClusterStatusRunning (store w')"
  let ?N = "upd_where (\<lambda>n. Node_ID n = Node_ID fp)
        (\<lambda>n. n\<lparr>Node_Status := NodeStatusOffline, Node_UpdatedAt := clock (the_env w) (n_now w)\<rparr>) (nodes ?d)"
  let ?same = "\<lambda>w'. no_faults w' \<and> nodes (store w') = ?N \<and> agent_commands (store w') = agent_commands ?d \<and>
      n_uuid w' = n_uuid w \<and> the_env w' = the_env w"
  have mem: "best \<in> set (nodes ?d)" "Node_Role best = NodeRoleReplica"
    using best_replica_mem [OF best] by (auto simp: replicas_of_def)
  obtain p where "primaries ?cid ?d = [p]" "Node_ID p = Node_ID fp" using one by auto
  then have ne: "Node_ID fp \<noteq> Node_ID best"
    using mem nodes_table.unique_same [OF pk, of p best] by (auto simp: primaries_def filter_eq_Cons_iff)
  have spec: "failover_spec (Node_ID fp) (Node_ID best) (topology d') =
      failover_spec (Node_ID fp) (Node_ID best) (topology ?d)" if "nodes d' = ?N" for d'
    using that by (simp add: topology_def failover_spec_def upd_where_def)
  have promote: "wp (promote_replica e c fp rs (attach_metric ms best)) (\<lambda>_. ?Q) w3"
    if s: "?same w3" for rs ms and w3 :: world
  proof (rule wp_mono [OF wp_promote_replica_ok])
    show "nodes_table.by_key (Node_ID (attach_metric ms best)) (nodes (store w3)) \<noteq> None"
      using s mem by (simp add: nodes_table.by_key_None nodes_table.keys_upd)
    show "\<forall>(i, c, r, s)\<in>set (topology (store w3)). i = Node_ID fp \<longrightarrow> s = NodeStatusOffline"
      using s by (auto simp: topology_def upd_where_def)
  qed (use s fresh ne spec in auto)
  have replicas: "replicas_of ?cid (store w2) = replicas_of ?cid ?d" if "?same w2" for w2 :: world
    using that replicas_of_mark [OF pk one] by (simp add: replicas_of_def)
  have choose: "wp (or_return (nodes_GetReplicas ?cid) (\<lambda>rs. case best_replica None rs of
      None \<Rightarrow> State_Monad.return () | Some b \<Rightarrow> promote_replica e c fp rs b)) (\<lambda>_. ?Q) w2"
    if s: "?same w2" for w2 :: world
    unfolding wp_or_return
    by (rule wp_mono [OF wp_GetReplicas_ok])
      (use s in \<open>auto simp: replicas best_replica_attach best intro!: promote\<close>)
  have degrade: "wp (or_return (clusters_UpdateStatus ?cid ClusterStatusDegraded) (\<lambda>_.
      or_return (nodes_GetReplicas ?cid) (\<lambda>rs. case best_replica None rs of
      None \<Rightarrow> State_Monad.return () | Some b \<Rightarrow> promote_replica e c fp rs b))) (\<lambda>_. ?Q) w1"
    if s: "?same w1" for w1 :: world
    unfolding wp_or_return [of "clusters_UpdateStatus i st" for i st]
    by (rule wp_mono [OF wp_cluster_status_ok]) (use s in \<open>auto intro!: choose\<close>)
  show ?thesis
    unfolding executeFailover_def wp_or_return [of "nodes_UpdateStatus i st" for i st]
    by (rule wp_mono [OF wp_UpdateStatus_ok [OF nf]]) (auto intro!: degrade)
qed

section \<open>Properties\<close>

text \<open>An online replica of the cluster.\<close>

definition online_replica :: "string \<Rightarrow> db \<Rightarrow> Node \<Rightarrow> bool" where
  "online_replica cid d r \<longleftrightarrow> r \<in> set (nodes d) \<and> in_cluster cid r \<and> Node_Role r = NodeRoleReplica \<and> Node_Status r = NodeStatusOnline"

lemma online_replicas: "online_replica cid d r \<longleftrightarrow> r \<in> set (replicas_of cid d) \<and> Node_Status r = NodeStatusOnline"
  by (auto simp: online_replica_def replicas_of_def)

lemma freshest_replica_chosen:
  assumes "online_replica cid d r"
  obtains best where "best_replica None (replicas_of cid d) = Some best" "online_replica cid d best"
    "\<And>r. online_replica cid d r \<Longrightarrow> Node_LastSeen r \<le> Node_LastSeen best"
proof (cases "best_replica None (replicas_of cid d)")
  case None
  then show ?thesis using assms by (auto simp: best_replica_None online_replicas)
next
  case (Some best)
  then show ?thesis using best_replica_mem [OF Some] best_replica_max [OF Some]
    by (intro that [OF Some]) (auto simp: online_replicas)
qed

definition sample_cluster_db :: db where
  "sample_cluster_db = empty_db
     \<lparr>clusters := [sample_cluster ''c1'' ClusterStatusRunning],
      nodes := [sample_node ''n1'' ''c1'' NodeRolePrimary NodeStatusOnline 10,
                sample_node ''n2'' ''c1'' NodeRoleReplica NodeStatusOnline 20,
                sample_node ''n3'' ''c1'' NodeRoleReplica NodeStatusOnline 30,
                sample_node ''n4'' ''c1'' NodeRoleReplica NodeStatusOffline 40]\<rparr>"

definition sample_engine :: failover_engine where
  "sample_engine = \<lparr>has_dcs = True, heartbeatTimeout = 30\<rparr>"

lemma sample_single_primaries: "single_primaries sample_cluster_db"
  by (auto simp: single_primaries_def sample_cluster_db_def nodes_table.unique_def primaries_def
      in_cluster_def sample_node_def)

text \<open>
  C1: in a run without failures a tick of the failover engine keeps the invariant that node
  identifiers are unique and that no cluster has two primaries, whatever clusters it monitors,
  fails over or skips.
\<close>

theorem failover_tick_single_primary:
  assumes "no_faults w" "single_primaries (store w)"
  shows "single_primaries (store (after (failover_tick e isLeader) w))"
  using keeps_after [OF keeps_single_tick] assms by blast

theorem failover_tick_single_primary_witness:
  "single_primaries (store (after (failover_tick sample_engine True) (world_of sample_cluster_db)))"
  by (rule failover_tick_single_primary) (simp_all add: sample_single_primaries)

text \<open>
  C4: refinement. When nothing fails, the cluster has the failed node as its only primary and at least one of its
  replicas is online, the failover performs the change of topology \<open>failover_spec\<close> with a node \<open>best\<close> that is an
  online replica of the cluster, and no online replica was seen later: the failed primary becomes an offline
  replica, \<open>best\<close> the online primary, every other node keeps its role and status, and the cluster ends in
  status running.
\<close>

theorem executeFailover_refines_spec:
  assumes "no_faults w" "nodes_table.pk (store w)"
    and "map Node_ID (primaries (Cluster_ID c) (store w)) = [Node_ID fp]"
    and "uuid (the_env w) (n_uuid w) \<notin> Cmd_ID ` set (agent_commands (store w))"
    and "\<exists>r. online_replica (Cluster_ID c) (store w) r"
  shows "\<exists>best. online_replica (Cluster_ID c) (store w) best \<and>
     (\<forall>r. online_replica (Cluster_ID c) (store w) r \<longrightarrow> Node_LastSeen r \<le> Node_LastSeen best) \<and>
     topology (store (after (executeFailover e c fp) w)) = failover_spec (Node_ID fp) (Node_ID best) (topology (store w)) \<and>
     cluster_has_status (Cluster_ID c) ClusterStatusRunning (store (after (executeFailover e c fp) w))"
proof -
  obtain r where "online_replica (Cluster_ID c) (store w) r" using assms(5) by blast
  then obtain best where best: "best_replica None (replicas_of (Cluster_ID c) (store w)) = Some best"
      "online_replica (Cluster_ID c) (store w) best"
      "\<And>r. online_replica (Cluster_ID c) (store w) r \<Longrightarrow> Node_LastSeen r \<le> Node_LastSeen best"
    by (rule freshest_replica_chosen) blast
  show ?thesis
    using wp_executeFailover_refines [OF assms(1-4) best(1), of e] best(2,3) by (auto simp: wp_outcome)
qed

lemma sample_node_fields:
  "Node_ID (sample_node i cid role st seen) = i" "Node_ClusterID (sample_node i cid role st seen) = cid"
  "Node_Role (sample_node i cid role st seen) = role" "Node_Status (sample_node i cid role st seen) = st"
  "Node_LastSeen (sample_node i cid role st seen) = seen" "Node_CreatedAt (sample_node i cid role st seen) = 1"
  by (simp_all add: sample_node_def)

theorem executeFailover_refines_spec_witness:
  "let c = sample_cluster ''c1'' ClusterStatusRunning;
       fp = sample_node ''n1'' ''c1'' NodeRolePrimary NodeStatusOnline 10
   in topology (store (after (executeFailover sample_engine c fp) (world_of sample_cluster_db))) =
      [(''n1'', ''c1'', NodeRoleReplica, NodeStatusOffline), (''n2'', ''c1'', NodeRoleReplica, NodeStatusOnline),
       (''n3'', ''c1'', NodeRolePrimary, NodeStatusOnline), (''n4'', ''c1'', NodeRoleReplica, NodeStatusOffline)]"
proof -
  let ?c = "sample_cluster ''c1'' ClusterStatusRunning"
  let ?fp = "sample_node ''n1'' ''c1'' NodeRolePrimary NodeStatusOnline 10"
  let ?n2 = "sample_node ''n2'' ''c1'' NodeRoleReplica NodeStatusOnline 20"
  let ?n3 = "sample_node ''n3'' ''c1'' NodeRoleReplica NodeStatusOnline 30"
  let ?w = "world_of sample_cluster_db"
  let ?w' = "after (executeFailover sample_engine ?c ?fp) ?w"
  have online: "online_replica (Cluster_ID ?c) (store ?w) r \<longleftrightarrow> r = ?n2 \<or> r = ?n3" for r
    by (auto simp: online_replica_def sample_cluster_db_def sample_node_fields sample_cluster_def in_cluster_def)
  have "\<exists>best. online_replica (Cluster_ID ?c) (store ?w) best \<and>
     (\<forall>r. online_replica (Cluster_ID ?c) (store ?w) r \<longrightarrow> Node_LastSeen r \<le> Node_LastSeen best) \<and>
     topology (store ?w') = failover_spec (Node_ID ?fp) (Node_ID best) (topology (store ?w)) \<and>
     cluster_has_status (Cluster_ID ?c) ClusterStatusRunning (store ?w')"
    by (rule executeFailover_refines_spec)
      (simp_all only: online, simp_all add: sample_cluster_db_def nodes_table.unique_def primaries_def in_cluster_def sample_node_fields
        sample_cluster_def, blast)
  then obtain best where best: "best = ?n2 \<or> best = ?n3" "Node_LastSeen ?n3 \<le> Node_LastSeen best"
      "topology (store ?w') = failover_spec (Node_ID ?fp) (Node_ID best) (topology (store ?w))"
    unfolding online by blast
  then have "best = ?n3" by (auto simp: sample_node_def)
  with best(3) show ?thesis
    by (simp add: Let_def failover_spec_def topology_def sample_cluster_db_def sample_node_def)
qed

text \<open>
  the replica that is promoted is online, and no online replica reported a heartbeat later;
  no replica is chosen only when none is online.
\<close>

theorem best_replica_most_recent:
  "case best_replica None rs of
     None \<Rightarrow> filter (\<lambda>r. Node_Status r = NodeStatusOnline) rs = []
   | Some b \<Rightarrow> b \<in> set rs \<and> Node_Status b = NodeStatusOnline \<and>
       Node_LastSeen b = Max (Node_LastSeen ` set (filter (\<lambda>r. Node_Status r = NodeStatusOnline) rs))"
proof (cases "best_replica None rs")
  case None
  then show ?thesis by (simp add: filter_empty_conv) (simp add: best_replica_None)
next
  case (Some b)
  then have "b \<in> set rs" "Node_Status b = NodeStatusOnline"
    using best_replica_mem by fastforce+
  moreover from this have "Node_LastSeen b = Max (Node_LastSeen ` set (filter (\<lambda>r. Node_Status r = NodeStatusOnline) rs))"
    using best_replica_max [OF Some] by (intro Max_eqI [symmetric]) auto
  ultimately show ?thesis using Some by simp
qed

text \<open>
  the health check of a cluster changes no table, whatever statement fails, while the
  cluster has no primary that is both silent for longer than the heartbeat timeout and not
  already being promoted.
\<close>

theorem checkClusterHealth_keeps_healthy:
  assumes "\<forall>p\<in>set (primaries (Cluster_ID c) (store w)).
      clock (the_env w) (n_now w) - Node_LastSeen p \<le> heartbeatTimeout e \<or> Node_Status p = NodeStatusPromoting"
  shows "store (after (checkClusterHealth e c) w) = store w"
proof -
  have found: "n \<in> set (primaries cid d)"
    if "List.find (\<lambda>n. in_cluster cid n \<and> Node_Role n = NodeRolePrimary) (nodes d) = Some n" for n cid d
    using find_Some_iff_mem [OF that] by (simp add: primaries_def)
  have "wp (checkClusterHealth e c) (\<lambda>_ w'. store w' = store w) w"
    using assms(1)
    by (auto simp: checkClusterHealth_def nodes_GetPrimary_def checked_def nodes_row_def
        nodes_attachLatestMetrics_def wp_simps split: option.splits dest!: found)
  then show ?thesis by (simp add: wp_outcome)
qed

theorem checkClusterHealth_keeps_healthy_witness:
  "let w = world_of (sample_cluster_db\<lparr>nodes := [sample_node ''n1'' ''c1'' NodeRolePrimary NodeStatusOnline 990]\<rparr>);
       c = sample_cluster ''c1'' ClusterStatusRunning
   in store (after (checkClusterHealth sample_engine c) w) = store w"
proof -
  let ?w = "world_of (sample_cluster_db\<lparr>nodes := [sample_node ''n1'' ''c1'' NodeRolePrimary NodeStatusOnline 990]\<rparr>)"
  let ?c = "sample_cluster ''c1'' ClusterStatusRunning"
  have "store (after (checkClusterHealth sample_engine ?c) ?w) = store ?w"
    by (rule checkClusterHealth_keeps_healthy)
      (simp_all add: primaries_def in_cluster_def sample_node_def sample_cluster_def sample_cluster_db_def
        sample_engine_def world_of_def sample_env_def)
  then show ?thesis by (simp add: Let_def)
qed

text \<open>
  C22: the change of roles is not atomic. When the statement that demotes the failed primary fails,
  its error is logged and the failover goes on to its end: both nodes are primaries of the cluster,
  whatever the later statements do.
\<close>

theorem failover_split_brain:
  assumes "fault (the_env w) (n_stmt w) = None" "fault (the_env w) (Suc (n_stmt w)) = None"
    "fault (the_env w) (Suc (Suc (n_stmt w))) = Some err"
    and "(Node_ID fp, cid, NodeRolePrimary) \<in> set (role_view (store w))"
    and "(Node_ID best, cid, NodeRoleReplica) \<in> set (role_view (store w))" "cid \<noteq> []" "Node_ID fp \<noteq> Node_ID best"
  shows "{Node_ID fp, Node_ID best} \<subseteq> Node_ID ` set (primaries cid (store
     (after (do { _ \<leftarrow> switch_roles fp best; finish_failover e c fp rs best }) w)))"
proof -
  let ?v = "map (\<lambda>(i, c, r). (i, c, if i = Node_ID best then NodeRolePrimary else r)) (role_view (store w))"
  have "wp (switch_roles fp best) (\<lambda>_ w'. role_view (store w') = ?v) w"
    using assms(1-3,7)
    by (auto simp: switch_roles_def nodes_UpdateRole_def nodes_UpdateStatus_def update_node_def wp_simps
        role_view_def upd_where_def)
  then have "wp (do { _ \<leftarrow> switch_roles fp best; finish_failover e c fp rs best }) (\<lambda>_ w'. role_view (store w') = ?v) w"
    unfolding wp_bind by (rule wp_mono) (rule wp_keeps [OF keeps_role_view_tail(2)])
  then have "map Node_ID (primaries cid (store (after (do { _ \<leftarrow> switch_roles fp best; finish_failover e c fp rs best }) w)))
      = view_primaries cid ?v"
    unfolding wp_outcome primaries_view by (simp only:)
  moreover have "{Node_ID fp, Node_ID best} \<subseteq> set (view_primaries cid ?v)"
    using assms(4-6) by (force simp: view_primaries_def)
  ultimately show ?thesis by (simp only: flip: set_map)
qed

theorem failover_split_brain_witness:
  "let w = (world_of sample_cluster_db)\<lparr>the_env := sample_env\<lparr>fault := (\<lambda>_. None)(2 := Some ''database is locked'')\<rparr>\<rparr>;
       fp = sample_node ''n1'' ''c1'' NodeRolePrimary NodeStatusOffline 10;
       best = sample_node ''n3'' ''c1'' NodeRoleReplica NodeStatusPromoting 30
   in {''n1'', ''n3''} \<subseteq> Node_ID ` set (primaries ''c1'' (store (after (do { _ \<leftarrow> switch_roles fp best;
        finish_failover sample_engine (sample_cluster ''c1'' ClusterStatusDegraded) fp [] best }) w)))"
proof -
  let ?w = "(world_of sample_cluster_db)\<lparr>the_env := sample_env\<lparr>fault := (\<lambda>_. None)(2 := Some ''database is locked'')\<rparr>\<rparr>"
  let ?fp = "sample_node ''n1'' ''c1'' NodeRolePrimary NodeStatusOffline 10"
  let ?best = "sample_node ''n3'' ''c1'' NodeRoleReplica NodeStatusPromoting 30"
  have "{Node_ID ?fp, Node_ID ?best} \<subseteq> Node_ID ` set (primaries ''c1'' (store (after (do { _ \<leftarrow> switch_roles ?fp ?best;
        finish_failover sample_engine (sample_cluster ''c1'' ClusterStatusDegraded) ?fp [] ?best }) ?w)))"
    by (rule failover_split_brain [where err = "''database is locked''"])
      (simp_all add: role_view_def sample_cluster_db_def sample_node_def)
  then show ?thesis by (simp add: Let_def sample_node_def)
qed

end
