(* ===== verification/Crypto.thy ===== *)
theory Crypto
  imports Samples
begin

text \<open>
  \<open>internal/crypto/crypto.go\<close> and the base64 encoding the repositories store ciphertexts in. A
  byte string is a \<open>string\<close> (one \<open>char\<close> per byte). The AES-GCM primitive and SHA-256 are
  parameters (\<open>aead\<close>); what a caller relies on is \<open>aead_ok\<close>: opening what was sealed under the
  same key and nonce gives the plaintext. The nonce comes from the environment.
\<close>

section \<open>Base64\<close>

definition base64_alphabet :: string where
  "base64_alphabet = ''ABCDEFGHIJKLMNOPQRSTUVWXYZabcdefghijklmnopqrstuvwxyz0123456789+/''"

definition enc6 :: "nat \<Rightarrow> char" where
  "enc6 n = base64_alphabet ! n"

fun index_of :: "'a \<Rightarrow> 'a list \<Rightarrow> nat option" where
  "index_of x [] = None"
| "index_of x (y # ys) = (if x = y then Some 0 else map_option Suc (index_of x ys))"

definition dec6 :: "char \<Rightarrow> nat option" where
  "dec6 c = index_of c base64_alphabet"

abbreviation byte :: "char \<Rightarrow> nat" where
  "byte c \<equiv> of_char c"

fun base64_EncodeToString :: "string \<Rightarrow> string" where
  "base64_EncodeToString [] = []"
| "base64_EncodeToString [a] = [enc6 (byte a div 4), enc6 (byte a mod 4 * 16), CHR ''='', CHR ''='']"
| "base64_EncodeToString [a, b] =
     [enc6 (byte a div 4), enc6 (byte a mod 4 * 16 + byte b div 16), enc6 (byte b mod 16 * 4), CHR ''='']"
| "base64_EncodeToString (a # b # c # rest) =
     enc6 (byte a div 4) # enc6 (byte a mod 4 * 16 + byte b div 16)
     # enc6 (byte b mod 16 * 4 + byte c div 64) # enc6 (byte c mod 64) # base64_EncodeToString rest"

text \<open>A quantum with padding ends the input; the decoder skips line breaks.\<close>

fun decode_quanta :: "string \<Rightarrow> string option" where
  "decode_quanta [] = Some []"
| "decode_quanta (w # x # y # z # rest) =
     (case (dec6 w, dec6 x) of
        (Some i, Some j) \<Rightarrow>
          let a = char_of (i * 4 + j div 16)
          in if y = CHR ''='' then (if z = CHR ''='' \<and> rest = [] then Some [a] else None)
             else (case dec6 y of
                 None \<Rightarrow> None
               | Some k \<Rightarrow>
                   let b = char_of (j mod 16 * 16 + k div 4)
                   in if z = CHR ''='' then (if rest = [] then Some [a, b] else None)
                      else (case dec6 z of
                          None \<Rightarrow> None
                        | Some l \<Rightarrow> map_option (\<lambda>bs. a # b # char_of (k mod 4 * 64 + l) # bs) (decode_quanta rest)))
      | _ \<Rightarrow> None)"
| "decode_quanta _ = None"

definition base64_DecodeString :: "string \<Rightarrow> string option" where
  "base64_DecodeString s = decode_quanta (filter (\<lambda>c. c \<noteq> CHR 0x0A \<and> c \<noteq> CHR 0x0D) s)"

lemma dec6_enc6: "n < 64 \<Longrightarrow> dec6 (enc6 n) = Some n"
proof -
  have "list_all (\<lambda>n. dec6 (enc6 n) = Some n) [0..<64]" by code_simp
  then show "n < 64 \<Longrightarrow> dec6 (enc6 n) = Some n" by (simp add: list_all_iff)
qed

lemma enc6_plain: "n < 64 \<Longrightarrow> enc6 n \<noteq> CHR ''='' \<and> enc6 n \<noteq> CHR 0x0A \<and> enc6 n \<noteq> CHR 0x0D"
proof -
  have "list_all (\<lambda>n. enc6 n \<noteq> CHR ''='' \<and> enc6 n \<noteq> CHR 0x0A \<and> enc6 n \<noteq> CHR 0x0D) [0..<64]" by code_simp
  then show "n < 64 \<Longrightarrow> enc6 n \<noteq> CHR ''='' \<and> enc6 n \<noteq> CHR 0x0A \<and> enc6 n \<noteq> CHR 0x0D"
    by (simp add: list_all_iff)
qed

lemma sextets:
  "byte a div 4 < 64" "byte a mod 4 * 16 < 64" "byte a mod 4 * 16 + byte b div 16 < 64"
  "byte b mod 16 * 4 < 64" "byte b mod 16 * 4 + byte c div 64 < 64" "byte c mod 64 < 64"
  using nat_of_char_less_256 [of a] nat_of_char_less_256 [of b] nat_of_char_less_256 [of c] by linarith+

lemma bytes_back:
  "byte a div 16 div 16 = 0" "byte a div 16 mod 16 = byte a div 16"
  "byte a div 64 div 4 = 0" "byte a div 64 mod 4 = byte a div 64"
  using nat_of_char_less_256 [of a] by (simp_all add: less_mult_imp_div_less)

lemma decode_encode: "decode_quanta (base64_EncodeToString s) = Some s"
  by (induction s rule: base64_EncodeToString.induct)
    (simp_all add: dec6_enc6 enc6_plain sextets bytes_back Let_def)

lemma encode_plain: "c \<in> set (base64_EncodeToString s) \<Longrightarrow> c \<noteq> CHR 0x0A \<and> c \<noteq> CHR 0x0D"
  by (induction s rule: base64_EncodeToString.induct) (auto simp: enc6_plain sextets)

lemma base64_round_trip [simp]: "base64_DecodeString (base64_EncodeToString s) = Some s"
  unfolding base64_DecodeString_def
  by (simp add: decode_encode filter_True encode_plain)

section \<open>Authenticated encryption\<close>

record aead =
  gcm_Seal :: "string \<Rightarrow> string \<Rightarrow> string \<Rightarrow> string"
  gcm_Open :: "string \<Rightarrow> string \<Rightarrow> string \<Rightarrow> string option"
  sha256 :: "string \<Rightarrow> string"

definition aead_ok :: "aead \<Rightarrow> bool" where
  "aead_ok A \<longleftrightarrow> (\<forall>key nonce p. gcm_Open A key nonce (gcm_Seal A key nonce p) = Some p)"

text \<open>\<open>aes.NewCipher\<close> takes keys of 16, 24 or 32 bytes; \<open>cipher.NewGCM\<close> of an AES block never fails.\<close>

definition aes_NewCipher :: "string \<Rightarrow> unit res" where
  "aes_NewCipher key =
     (if length key \<in> {16, 24, 32} then Inr ()
      else Inl (''crypto/aes: invalid key size '' @ dec (int (length key))))"

definition gcm_NonceSize :: nat where
  "gcm_NonceSize = 12"

definition EncryptAES256GCM :: "aead \<Rightarrow> string \<Rightarrow> string \<Rightarrow> string res io" where
  "EncryptAES256GCM A plaintext key =
     (case aes_NewCipher key of
        Inl e \<Rightarrow> State_Monad.return (Inl (wrap ''create cipher'' e))
      | Inr _ \<Rightarrow> do {
          nonce \<leftarrow> read_nonce;
          State_Monad.return (Inr (nonce @ gcm_Seal A key nonce plaintext))
        })"

definition DecryptAES256GCM :: "aead \<Rightarrow> string \<Rightarrow> string \<Rightarrow> string res" where
  "DecryptAES256GCM A ciphertext key =
     (case aes_NewCipher key of
        Inl e \<Rightarrow> Inl (wrap ''create cipher'' e)
      | Inr _ \<Rightarrow>
          if length ciphertext < gcm_NonceSize then Inl ''ciphertext too short''
          else (case gcm_Open A key (take gcm_NonceSize ciphertext) (drop gcm_NonceSize ciphertext) of
              None \<Rightarrow> Inl ''decrypt: cipher: message authentication failed''
            | Some p \<Rightarrow> Inr p))"

text \<open>Tokens are stored as the URL-safe base64 of their SHA-256.\<close>

definition base64_url :: "string \<Rightarrow> string" where
  "base64_url s = map (\<lambda>c. if c = CHR ''+'' then CHR ''-'' else if c = CHR ''/'' then CHR ''_'' else c)
     (base64_EncodeToString s)"

definition HashToken :: "aead \<Rightarrow> string \<Rightarrow> string" where
  "HashToken A token = base64_url (sha256 A token)"

lemma keeps_Encrypt [keeps_intros]:
  "keeps_db I (EncryptAES256GCM A p key)" "keeps_env P (EncryptAES256GCM A p key)"
  unfolding EncryptAES256GCM_def by (intro keeps_intros)+

definition nonces12 :: "env \<Rightarrow> bool" where
  "nonces12 e \<longleftrightarrow> (\<forall>n. length (random_nonce e n) = gcm_NonceSize)"

abbreviation nonces_ok :: "world \<Rightarrow> bool" where
  "nonces_ok w \<equiv> nonces12 (the_env w)"

lemma wp_Encrypt:
  assumes "aead_ok A" "nonces_ok w" "length key \<in> {16, 24, 32}"
  shows "wp (EncryptAES256GCM A p key) (\<lambda>r w'. (\<exists>c. r = Inr c \<and> DecryptAES256GCM A c key = Inr p) \<and>
     w' = w\<lparr>n_nonce := Suc (n_nonce w)\<rparr>) w"
  using assms
  by (simp add: EncryptAES256GCM_def DecryptAES256GCM_def aes_NewCipher_def wp_simps nonces12_def aead_ok_def)

text \<open>An instance for evaluation: the plaintext tagged with the key.\<close>

definition sample_aead :: aead where
  "sample_aead = \<lparr>gcm_Seal = (\<lambda>key nonce p. key @ p),
     gcm_Open = (\<lambda>key nonce c. if take (length key) c = key then Some (drop (length key) c) else None),
     sha256 = (\<lambda>s. rev s)\<rparr>"

lemma sample_aead_ok [simp]: "aead_ok sample_aead"
  by (simp add: aead_ok_def sample_aead_def)

lemma sample_nonces_ok [simp]: "nonces12 sample_env"
  by (simp add: nonces12_def sample_env_def gcm_NonceSize_def)

section \<open>Properties\<close>

text \<open>
  decrypting what was encrypted under the same key gives the plaintext, for every key length
  AES accepts; any other key length is refused by both directions before a nonce is drawn.
\<close>

theorem decrypt_encrypt:
  assumes "aead_ok A" "nonces_ok w"
  shows "case result (EncryptAES256GCM A p key) w of
      Inr c \<Rightarrow> length key \<in> {16, 24, 32} \<and> DecryptAES256GCM A c key = Inr p
    | Inl e \<Rightarrow> length key \<notin> {16, 24, 32} \<and> DecryptAES256GCM A c' key = Inl e \<and> after (EncryptAES256GCM A p key) w = w"
proof (cases "length key \<in> {16, 24, 32}")
  case True
  then show ?thesis using wp_Encrypt [OF assms True, of p] by (auto simp: wp_outcome)
next
  case False
  then have "wp (EncryptAES256GCM A p key) (\<lambda>r w'. r = DecryptAES256GCM A c' key \<and> isl r \<and> w' = w) w"
    by (simp add: EncryptAES256GCM_def DecryptAES256GCM_def aes_NewCipher_def wp_simps)
  then show ?thesis using False by (cases "DecryptAES256GCM A c' key") (auto simp: wp_outcome)
qed

theorem decrypt_encrypt_witness:
  "case result (EncryptAES256GCM sample_aead ''secret'' ''0123456789abcdef'') (world_of empty_db) of
      Inr c \<Rightarrow> DecryptAES256GCM sample_aead c ''0123456789abcdef'' = Inr ''secret''
    | Inl e \<Rightarrow> False"
  using decrypt_encrypt [where A = sample_aead and w = "world_of empty_db" and p = "''secret''"
      and key = "''0123456789abcdef''" and c' = "[]"]
  by (simp split: sum.splits)

end
