(* ===== verification/Secrets.thy ===== *)
theory Secrets
  imports Crypto ClusterRepo
begin

text \<open>
  \<open>internal/db/agent_command_secret_repo.go\<close> and \<open>internal/db/cluster_secret_repo.go\<close>: secrets
  encrypted at rest, of one command or of a cluster, and the statements of
  \<open>internal/db/managed_role_repo.go\<close> that attach a secret to a queued command. A secret map is
  the association list of its entries in the order the loop meets them.
\<close>

record SecretRepository =
  repo_aead :: aead
  encryptKey :: string

section \<open>Secrets of a command\<close>

definition secret_row :: "string \<Rightarrow> string \<Rightarrow> string \<Rightarrow> string \<Rightarrow> Time \<Rightarrow> Time option \<Rightarrow> CommandSecret" where
  "secret_row i cmdID key encoded now expiresAt =
     \<lparr>Secret_ID = i, Secret_CommandID = cmdID, Secret_Key = key, Secret_Ciphertext = encoded,
      Secret_CreatedAt = now, Secret_ExpiresAt = expiresAt\<rparr>"

definition upsert_secret :: "CommandSecret \<Rightarrow> CommandSecret list \<Rightarrow> CommandSecret list option" where
  "upsert_secret s rows =
     (if Secret_ID s \<in> Secret_ID ` set rows then None
      else if (Secret_CommandID s, Secret_Key s) \<in> (\<lambda>r. (Secret_CommandID r, Secret_Key r)) ` set rows
      then Some (upd_where (\<lambda>r. Secret_CommandID r = Secret_CommandID s \<and> Secret_Key r = Secret_Key s)
                   (\<lambda>r. r\<lparr>Secret_Ciphertext := Secret_Ciphertext s, Secret_ExpiresAt := Secret_ExpiresAt s\<rparr>) rows)
      else Some (rows @ [s]))"

definition secrets_StoreSecret ::
  "SecretRepository \<Rightarrow> string \<Rightarrow> string \<Rightarrow> string \<Rightarrow> Time option \<Rightarrow> unit res io" where
  "secrets_StoreSecret r commandID key plaintext expiresAt = do {
     secretID \<leftarrow> id_New;
     now \<leftarrow> time_now;
     try_do (EncryptAES256GCM (repo_aead r) plaintext (encryptKey r))
       (\<lambda>e. Inl (wrap ''encrypt command secret'' e)) (\<lambda>ciphertext.
       wrap_err ''insert command secret'' (exec (\<lambda>d. map_option (\<lambda>rows. d\<lparr>agent_command_secrets := rows\<rparr>)
         (upsert_secret (secret_row secretID commandID key (base64_EncodeToString ciphertext) now expiresAt)
            (agent_command_secrets d)))))
   }"

definition insertCommandSecret ::
  "string \<Rightarrow> string \<Rightarrow> string \<Rightarrow> Time option \<Rightarrow> Time \<Rightarrow> unit res io" where
  "insertCommandSecret commandID key ciphertext expiresAt now = do {
     secretID \<leftarrow> id_New;
     let s = secret_row secretID commandID key (base64_EncodeToString ciphertext) now expiresAt;
     wrap_err ''insert command secret'' (exec (\<lambda>d.
       if (commandID, key) \<in> (\<lambda>r. (Secret_CommandID r, Secret_Key r)) ` set (agent_command_secrets d)
          \<or> secretID \<in> Secret_ID ` set (agent_command_secrets d)
       then None else Some (d\<lparr>agent_command_secrets := agent_command_secrets d @ [s]\<rparr>)))
   }"

definition insertAdminCommandSecret ::
  "string \<Rightarrow> string \<Rightarrow> string \<Rightarrow> Time option \<Rightarrow> Time \<Rightarrow> unit res io" where
  "insertAdminCommandSecret commandID key ciphertext expiresAt now =
     (if ciphertext = [] \<or> key = [] then State_Monad.return (Inr ())
      else insertCommandSecret commandID key ciphertext expiresAt now)"

text \<open>The loop of \<open>CreateCommandWithSecrets\<close>.\<close>

definition attach_secrets ::
  "SecretRepository \<Rightarrow> string \<Rightarrow> (string \<times> string) list \<Rightarrow> Time option \<Rightarrow> Time \<Rightarrow> unit res io" where
  "attach_secrets r cmdID secrets expiresAt now =
     for_each secrets (\<lambda>(key, plaintext).
       try_do (EncryptAES256GCM (repo_aead r) plaintext (encryptKey r))
         (\<lambda>e. Inl (wrap (''encrypt command secret '' @ quote key) e)) (\<lambda>ciphertext.
         insertCommandSecret cmdID key ciphertext expiresAt now))"

definition secrets_CreateCommandWithSecrets ::
  "SecretRepository \<Rightarrow> string \<Rightarrow> string \<Rightarrow> string \<Rightarrow> payload \<Rightarrow> (string \<times> string) list \<Rightarrow> Time option
   \<Rightarrow> AgentCommand res io" where
  "secrets_CreateCommandWithSecrets r agentID nodeID action payload secrets expiresAt = do {
     cmdID \<leftarrow> id_New;
     now \<leftarrow> time_now;
     let cmd = command_row cmdID agentID nodeID action payload now;
     in_tx (\<lambda>e. Inl (wrap ''begin command secret tx'' e)) (\<lambda>e. Inl (wrap ''commit command secret tx'' e))
       (try_tx (commands_insert cmd) (\<lambda>e. Inl (wrap ''insert agent command'' e)) (\<lambda>_.
        try_tx (attach_secrets r cmdID secrets expiresAt now) Inl (\<lambda>_.
        State_Monad.return (Commit (Inr cmd)))))
   }"

text \<open>\<open>expiresAt.Valid && expiresAt.Time.Before(time.Now())\<close>\<close>

definition is_expired :: "Time option \<Rightarrow> bool io" where
  "is_expired expiresAt =
     (case expiresAt of
        None \<Rightarrow> State_Monad.return False
      | Some t \<Rightarrow> do { now \<leftarrow> time_now; State_Monad.return (t < now) })"

text \<open>Decoding and decrypting a stored ciphertext, with the error texts of the caller.\<close>

definition open_secret :: "SecretRepository \<Rightarrow> string \<Rightarrow> string \<Rightarrow> string \<Rightarrow> string res io" where
  "open_secret r decode_msg decrypt_msg encoded =
     (case base64_DecodeString encoded of
        None \<Rightarrow> do { e \<leftarrow> base64_err encoded; State_Monad.return (Inl (wrap decode_msg e)) }
      | Some ct \<Rightarrow> State_Monad.return (case DecryptAES256GCM (repo_aead r) ct (encryptKey r) of
            Inl e \<Rightarrow> Inl (wrap decrypt_msg e)
          | Inr p \<Rightarrow> Inr p))"

definition secrets_ResolveSecret :: "SecretRepository \<Rightarrow> string \<Rightarrow> string \<Rightarrow> string res io" where
  "secrets_ResolveSecret r commandID key =
     try_do (wrap_err ''fetch command secret'' (query (\<lambda>d.
       List.find (\<lambda>s. Secret_CommandID s = commandID \<and> Secret_Key s = key) (agent_command_secrets d)))) Inl (\<lambda>row.
     case row of
       None \<Rightarrow> State_Monad.return (Inr [])
     | Some s \<Rightarrow> do {
         x \<leftarrow> is_expired (Secret_ExpiresAt s);
         (if x then State_Monad.return (Inl ''command secret expired'')
          else open_secret r ''decode command secret'' ''decrypt command secret'' (Secret_Ciphertext s))
       })"

fun resolve_rows :: "SecretRepository \<Rightarrow> CommandSecret list \<Rightarrow> (string \<rightharpoonup> string) \<Rightarrow> (string \<rightharpoonup> string) res io" where
  "resolve_rows r [] m = State_Monad.return (Inr m)"
| "resolve_rows r (s # ss) m = do {
     x \<leftarrow> is_expired (Secret_ExpiresAt s);
     (if x then resolve_rows r ss m
      else try_do (open_secret r (''decode command secret '' @ quote (Secret_Key s))
                     (''decrypt command secret '' @ quote (Secret_Key s)) (Secret_Ciphertext s)) Inl
             (\<lambda>p. resolve_rows r ss (m(Secret_Key s \<mapsto> p))))
   }"

definition secrets_ResolveAllForCommand :: "SecretRepository \<Rightarrow> string \<Rightarrow> (string \<rightharpoonup> string) res io" where
  "secrets_ResolveAllForCommand r commandID =
     try_do (wrap_err ''query command secrets'' (query (\<lambda>d.
       filter (\<lambda>s. Secret_CommandID s = commandID) (agent_command_secrets d)))) Inl
     (\<lambda>rows. resolve_rows r rows Map.empty)"

definition secrets_DeleteForCommand :: "string \<Rightarrow> unit res io" where
  "secrets_DeleteForCommand commandID = wrap_err ''delete command secrets''
     (sql_write (\<lambda>d. d\<lparr>agent_command_secrets :=
        del_where (\<lambda>s. Secret_CommandID s = commandID) (agent_command_secrets d)\<rparr>))"

section \<open>Secrets of a cluster\<close>

definition upsert_cluster_secret :: "ClusterSecret \<Rightarrow> ClusterSecret list \<Rightarrow> ClusterSecret list option" where
  "upsert_cluster_secret s rows =
     (if CSecret_ID s \<in> CSecret_ID ` set rows then None
      else if (CSecret_ClusterID s, CSecret_Key s) \<in> (\<lambda>r. (CSecret_ClusterID r, CSecret_Key r)) ` set rows
      then Some (upd_where (\<lambda>r. CSecret_ClusterID r = CSecret_ClusterID s \<and> CSecret_Key r = CSecret_Key s)
                   (\<lambda>r. r\<lparr>CSecret_Ciphertext := CSecret_Ciphertext s, CSecret_UpdatedAt := CSecret_UpdatedAt s\<rparr>) rows)
      else Some (rows @ [s]))"

definition csecrets_StoreSecret :: "SecretRepository \<Rightarrow> string \<Rightarrow> string \<Rightarrow> string \<Rightarrow> unit res io" where
  "csecrets_StoreSecret r clusterID key plaintext = do {
     secretID \<leftarrow> id_New;
     now \<leftarrow> time_now;
     try_do (EncryptAES256GCM (repo_aead r) plaintext (encryptKey r))
       (\<lambda>e. Inl (wrap ''encrypt cluster secret'' e)) (\<lambda>ciphertext.
       wrap_err ''upsert cluster secret'' (exec (\<lambda>d. map_option (\<lambda>rows. d\<lparr>cluster_secrets := rows\<rparr>)
         (upsert_cluster_secret \<lparr>CSecret_ID = secretID, CSecret_ClusterID = clusterID, CSecret_Key = key,
             CSecret_Ciphertext = base64_EncodeToString ciphertext, CSecret_CreatedAt = now, CSecret_UpdatedAt = now\<rparr>
            (cluster_secrets d)))))
   }"

definition csecrets_ResolveSecret :: "SecretRepository \<Rightarrow> string \<Rightarrow> string \<Rightarrow> string res io" where
  "csecrets_ResolveSecret r clusterID key =
     try_do (wrap_err ''fetch cluster secret'' (query (\<lambda>d.
       List.find (\<lambda>s. CSecret_ClusterID s = clusterID \<and> CSecret_Key s = key) (cluster_secrets d)))) Inl (\<lambda>row.
     case row of
       None \<Rightarrow> State_Monad.return (Inr [])
     | Some s \<Rightarrow> open_secret r ''decode cluster secret'' ''decrypt cluster secret'' (CSecret_Ciphertext s))"

definition csecrets_DeleteForCluster :: "string \<Rightarrow> unit res io" where
  "csecrets_DeleteForCluster clusterID = wrap_err ''delete cluster secrets''
     (sql_write (\<lambda>d. d\<lparr>cluster_secrets :=
        del_where (\<lambda>s. CSecret_ClusterID s = clusterID) (cluster_secrets d)\<rparr>))"

section \<open>What the operations keep\<close>

lemma keeps_insertCommandSecret:
  "(\<And>d s. I d \<Longrightarrow> I (d\<lparr>agent_command_secrets := agent_command_secrets d @ [s]\<rparr>)) \<Longrightarrow>
   keeps_db I (insertCommandSecret c k ct x now)"
  unfolding insertCommandSecret_def Let_def by (intro keeps_intros keeps_exec) (auto split: if_splits)

lemma keeps_env_secrets [keeps_intros]:
  "keeps_env P (insertCommandSecret c k ct x now)" "keeps_env P (insertAdminCommandSecret c k ct x now)"
  "keeps_env P (attach_secrets r c ss x now)" "keeps_env P (secrets_DeleteForCommand c)"
  "keeps_env P (secrets_CreateCommandWithSecrets r a n act p ss x)"
  "keeps_env P (csecrets_StoreSecret r cid k pt)"
  unfolding insertCommandSecret_def insertAdminCommandSecret_def attach_secrets_def secrets_DeleteForCommand_def
    secrets_CreateCommandWithSecrets_def csecrets_StoreSecret_def commands_insert_def Let_def
  by (intro keeps_intros)+

text \<open>Reading secrets changes no table.\<close>

lemma keeps_open_secret [keeps_intros]: "keeps I (open_secret r a b s)"
  unfolding open_secret_def by (intro keeps_intros)

lemma keeps_is_expired [keeps_intros]: "keeps_db I (is_expired x)" "keeps_env P (is_expired x)"
  unfolding is_expired_def by (intro keeps_intros)+

lemma keeps_resolve_rows [keeps_intros]: "keeps_db I (resolve_rows r ss m)" "keeps_env P (resolve_rows r ss m)"
  by (induction ss arbitrary: m) (auto intro!: keeps_intros)

lemma keeps_secret_getters [keeps_intros]:
  "keeps_db I (secrets_ResolveSecret r c k)" "keeps_db I (secrets_ResolveAllForCommand r c)"
  "keeps_db I (csecrets_ResolveSecret r cid k)"
  "keeps_env P (secrets_ResolveSecret r c k)" "keeps_env P (secrets_ResolveAllForCommand r c)"
  "keeps_env P (csecrets_ResolveSecret r cid k)"
  unfolding secrets_ResolveSecret_def secrets_ResolveAllForCommand_def csecrets_ResolveSecret_def
  by (intro keeps_intros)+

section \<open>The stored secrets open to what was stored\<close>

text \<open>\<open>opens_to r row p\<close>: the row decrypts to \<open>p\<close>.\<close>

definition opens_to :: "SecretRepository \<Rightarrow> string \<Rightarrow> string \<Rightarrow> bool" where
  "opens_to r encoded p \<longleftrightarrow> (\<exists>ct. base64_DecodeString encoded = Some ct \<and>
     DecryptAES256GCM (repo_aead r) ct (encryptKey r) = Inr p)"

definition repo_ok :: "SecretRepository \<Rightarrow> bool" where
  "repo_ok r \<longleftrightarrow> aead_ok (repo_aead r) \<and> length (encryptKey r) \<in> {16, 24, 32}"

lemma opens_to_encode:
  "DecryptAES256GCM (repo_aead r) ct (encryptKey r) = Inr p \<Longrightarrow> opens_to r (base64_EncodeToString ct) p"
  by (simp add: opens_to_def)

lemma open_secret_opens: "opens_to r s p \<Longrightarrow> open_secret r a b s = State_Monad.return (Inr p)"
  by (auto simp: opens_to_def open_secret_def)

definition secret_rows :: "SecretRepository \<Rightarrow> string \<Rightarrow> Time option \<Rightarrow> (string \<times> string) list \<Rightarrow> CommandSecret list \<Rightarrow> bool" where
  "secret_rows r cmdID expiresAt secrets rows \<longleftrightarrow>
     list_all2 (\<lambda>(k, p) s. Secret_CommandID s = cmdID \<and> Secret_Key s = k \<and>
        Secret_ExpiresAt s = expiresAt \<and> opens_to r (Secret_Ciphertext s) p) secrets rows"

lemma wp_insertCommandSecret:
  assumes "opens_to r (base64_EncodeToString ct) p" "nonces_ok w"
  shows "wp (insertCommandSecret c k ct x now) (\<lambda>res w'. nonces_ok w' \<and> (res = Inr () \<longrightarrow>
     (\<exists>s. store w' = (store w)\<lparr>agent_command_secrets := agent_command_secrets (store w) @ [s]\<rparr> \<and>
       secret_rows r c x [(k, p)] [s]))) w"
  using assms
  by (auto simp: insertCommandSecret_def Let_def wp_simps secret_rows_def secret_row_def split: option.splits)

lemma wp_attach_secrets:
  assumes "repo_ok r" "nonces_ok w"
  shows "wp (attach_secrets r c ss x now) (\<lambda>res w'. nonces_ok w' \<and> (res = Inr () \<longrightarrow>
     (\<exists>rows. store w' = (store w)\<lparr>agent_command_secrets := agent_command_secrets (store w) @ rows\<rparr> \<and>
       secret_rows r c x ss rows))) w"
  using assms(2)
proof (induction ss arbitrary: w)
  case Nil
  then show ?case by (simp add: attach_secrets_def wp_simps secret_rows_def exI [of _ "[]"])
next
  case (Cons kp ss)
  obtain k p where kp: "kp = (k, p)" by (cases kp)
  have ok: "aead_ok (repo_aead r)" "length (encryptKey r) \<in> {16, 24, 32}"
    using assms(1) by (auto simp: repo_ok_def)
  let ?Q = "\<lambda>res w'. nonces_ok w' \<and> (res = Inr () \<longrightarrow>
     (\<exists>rows. store w' = (store w)\<lparr>agent_command_secrets := agent_command_secrets (store w) @ rows\<rparr> \<and>
       secret_rows r c x (kp # ss) rows))"
  have rest: "wp (attach_secrets r c ss x now) ?Q w2"
    if n: "nonces_ok w2" and s: "store w2 = (store w)\<lparr>agent_command_secrets := agent_command_secrets (store w) @ [s]\<rparr>"
      and row: "secret_rows r c x [(k, p)] [s]" for w2 s
    by (rule wp_mono [OF Cons.IH [OF n]]) (use s row in \<open>auto simp: kp secret_rows_def\<close>)
  have ins: "wp (insertCommandSecret c k ct x now) (\<lambda>res w2. case res of Inl e \<Rightarrow> ?Q (Inl e) w2
       | Inr _ \<Rightarrow> wp (attach_secrets r c ss x now) ?Q w2) w1"
    if "DecryptAES256GCM (repo_aead r) ct (encryptKey r) = Inr p" "nonces_ok w1" "store w1 = store w" for ct w1
    by (rule wp_mono [OF wp_insertCommandSecret [OF opens_to_encode [OF that(1)] that(2)]])
      (use that(3) in \<open>auto split: sum.splits intro: rest\<close>)
  show ?case
    unfolding attach_secrets_def for_each.simps kp case_prod_conv wp_try_do
    unfolding attach_secrets_def [symmetric] kp [symmetric]
    by (rule wp_mono [OF wp_Encrypt [OF ok(1) Cons.prems ok(2)]]) (use Cons.prems in \<open>auto intro!: ins\<close>)
qed

lemma wp_CreateCommandWithSecrets:
  assumes "repo_ok r" "nonces_ok w"
  shows "wp (secrets_CreateCommandWithSecrets r a n act p ss x) (\<lambda>res w'. case res of
      Inl _ \<Rightarrow> store w' = store w
    | Inr cmd \<Rightarrow> \<exists>rows. store w' = (store w)\<lparr>agent_commands := agent_commands (store w) @ [cmd],
          agent_command_secrets := agent_command_secrets (store w) @ rows\<rparr> \<and>
        Cmd_AgentID cmd = a \<and> Cmd_NodeID cmd = n \<and> Cmd_Action cmd = act \<and> Cmd_Payload cmd = p \<and>
        Cmd_Status cmd = CommandStatusPending \<and> secret_rows r (Cmd_ID cmd) x ss rows) w"
proof -
  let ?C = "\<lambda>d res d'. \<exists>cmd rows. res = Inr cmd \<and> d' = d\<lparr>agent_commands := agent_commands d @ [cmd],
          agent_command_secrets := agent_command_secrets d @ rows\<rparr> \<and>
        Cmd_AgentID cmd = a \<and> Cmd_NodeID cmd = n \<and> Cmd_Action cmd = act \<and> Cmd_Payload cmd = p \<and>
        Cmd_Status cmd = CommandStatusPending \<and> secret_rows r (Cmd_ID cmd) x ss rows"
  have attach: "wp (attach_secrets r i ss x now) (\<lambda>res w'. case res of Inl e \<Rightarrow> True | Inr _ \<Rightarrow>
      (\<exists>rows. store w' = (store w1)\<lparr>agent_command_secrets := agent_command_secrets (store w1) @ rows\<rparr> \<and>
       secret_rows r i x ss rows)) w1" if "nonces_ok w1" for i now w1
    by (rule wp_mono [OF wp_attach_secrets [OF assms(1) that]]) (auto split: sum.splits)
  have tx: "wp (secrets_CreateCommandWithSecrets r a n act p ss x)
      (\<lambda>res w'. ?C (store w) res (store w') \<or> isl res \<and> store w' = store w) w"
    unfolding secrets_CreateCommandWithSecrets_def Let_def wp_bind wp_id_New wp_time_now
    by (rule wp_in_tx_outcome [THEN wp_mono, where C1 = "?C (store w)" and A1 = isl])
      (use assms(2) in \<open>auto simp: wp_try_tx commands_insert_def wp_exec wp_return command_row_def
          split: option.splits sum.splits intro!: wp_mono [OF attach]\<close>)
  show ?thesis by (rule wp_mono [OF tx]) (auto simp: isl_def)
qed

section \<open>Reading back\<close>

definition never_expires :: "env \<Rightarrow> Time option \<Rightarrow> bool" where
  "never_expires e x \<longleftrightarrow> (case x of None \<Rightarrow> True | Some t \<Rightarrow> (\<forall>n. clock e n \<le> t))"

lemma wp_is_expired_not:
  "never_expires (the_env w) x \<Longrightarrow> wp (is_expired x) (\<lambda>b w'. b = False \<and> store w' = store w \<and> the_env w' = the_env w) w"
  by (auto simp: is_expired_def never_expires_def wp_simps not_less split: option.splits)

lemma wp_resolve_rows:
  assumes "secret_rows r c x ss rows" "never_expires (the_env w) x"
  shows "wp (resolve_rows r rows m) (\<lambda>res _. res = Inr (m ++ map_of (rev ss))) w"
  using assms
proof (induction ss arbitrary: rows m w)
  case Nil
  then show ?case by (simp add: secret_rows_def wp_simps)
next
  case (Cons kp ss)
  obtain k p where kp: "kp = (k, p)" by (cases kp)
  then obtain s rest where rows: "rows = s # rest" "Secret_Key s = k" "Secret_ExpiresAt s = x" "opens_to r (Secret_Ciphertext s) p"
      "secret_rows r c x ss rest"
    using Cons.prems(1) by (auto simp: secret_rows_def list_all2_Cons1)
  have "wp (resolve_rows r rest (m(k \<mapsto> p))) (\<lambda>res _. res = Inr (m ++ map_of (rev (kp # ss)))) w2"
    if "the_env w2 = the_env w" for w2
  proof -
    have eq: "m ++ map_of (rev (kp # ss)) = m(k \<mapsto> p) ++ map_of (rev ss)" by (simp add: kp)
    show ?thesis unfolding eq by (rule Cons.IH [OF rows(5)]) (use Cons.prems(2) that in simp)
  qed
  then show ?case
    unfolding rows(1) resolve_rows.simps wp_bind
    by (intro wp_mono [OF wp_is_expired_not])
      (use Cons.prems(2) rows in \<open>auto simp: open_secret_opens wp_try_do wp_return\<close>)
qed

text \<open>The rows a transaction adds carry the expiry it was given.\<close>

lemma map_of_rev: "distinct (map fst xs) \<Longrightarrow> map_of (rev xs) = map_of xs"
  by (simp add: map_of_inject_set rev_map [symmetric] distinct_rev)

lemma filter_new_rows:
  assumes "secret_rows r c x ss rows" "\<forall>s\<in>set old. Secret_CommandID s \<noteq> c"
  shows "filter (\<lambda>s. Secret_CommandID s = c) (old @ rows) = rows"
proof -
  have "\<forall>s\<in>set rows. Secret_CommandID s = c"
    using assms(1) by (auto simp: secret_rows_def in_set_conv_nth dest: list_all2_nthD2)
  then show ?thesis using assms(2) by simp
qed

section \<open>Properties\<close>

text \<open>
  whatever statement fails, \<open>CreateCommandWithSecrets\<close> returns an error and changes no table,
  or it returns the command and has appended that one pending command and one row per secret, each
  decrypting to its plaintext: no agent can fetch the command without its secrets.
\<close>

theorem create_command_with_secrets_atomic:
  assumes "repo_ok r" "nonces_ok w"
  shows "case result (secrets_CreateCommandWithSecrets r a n act p ss x) w of
      Inl _ \<Rightarrow> store (after (secrets_CreateCommandWithSecrets r a n act p ss x) w) = store w
    | Inr cmd \<Rightarrow> \<exists>rows. store (after (secrets_CreateCommandWithSecrets r a n act p ss x) w) =
          (store w)\<lparr>agent_commands := agent_commands (store w) @ [cmd],
                     agent_command_secrets := agent_command_secrets (store w) @ rows\<rparr> \<and>
        Cmd_AgentID cmd = a \<and> Cmd_NodeID cmd = n \<and> Cmd_Action cmd = act \<and> Cmd_Payload cmd = p \<and>
        Cmd_Status cmd = CommandStatusPending \<and> secret_rows r (Cmd_ID cmd) x ss rows"
  using wp_CreateCommandWithSecrets [OF assms] unfolding wp_outcome .

text \<open>
  the secrets of a new command read back. After a successful \<open>CreateCommandWithSecrets\<close>,
  \<open>ResolveAllForCommand\<close> returns exactly the map of secrets the command was queued with, as long
  as they have not expired.
\<close>

theorem command_secrets_round_trip:
  assumes "repo_ok r" "nonces_ok w" "no_faults w" "distinct (map fst ss)" "never_expires (the_env w) x"
    and "\<forall>s\<in>set (agent_command_secrets (store w)). Secret_CommandID s \<noteq> Cmd_ID cmd"
    and "result (secrets_CreateCommandWithSecrets r a n act p ss x) w = Inr cmd"
  shows "result (secrets_ResolveAllForCommand r (Cmd_ID cmd))
     (after (secrets_CreateCommandWithSecrets r a n act p ss x) w) = Inr (map_of ss)"
proof -
  let ?w = "after (secrets_CreateCommandWithSecrets r a n act p ss x) w"
  have env: "the_env ?w = the_env w"
    by (rule keeps_after [OF keeps_env_secrets(5)]) simp
  obtain rows where rows: "agent_command_secrets (store ?w) = agent_command_secrets (store w) @ rows"
      "secret_rows r (Cmd_ID cmd) x ss rows"
    using wp_CreateCommandWithSecrets [OF assms(1,2), of a n act p ss x] assms(7) by (auto simp: wp_outcome)
  have "wp (secrets_ResolveAllForCommand r (Cmd_ID cmd)) (\<lambda>res _. res = Inr (map_of ss)) ?w"
    using assms(3,5) env rows(1) wp_resolve_rows [OF rows(2), of "?w\<lparr>n_stmt := Suc (n_stmt ?w)\<rparr>" Map.empty]
    by (simp add: secrets_ResolveAllForCommand_def wp_simps filter_new_rows [OF rows(2) assms(6)]
        map_of_rev [OF assms(4)] del: filter_append)
  then show ?thesis by (simp add: wp_outcome)
qed


definition sample_repo :: SecretRepository where
  "sample_repo = \<lparr>repo_aead = sample_aead, encryptKey = ''0123456789abcdef''\<rparr>"

lemma sample_repo_ok [simp]: "repo_ok sample_repo"
  by (simp add: repo_ok_def sample_repo_def)

abbreviation sample_create :: "AgentCommand res io" where
  "sample_create \<equiv> secrets_CreateCommandWithSecrets sample_repo ''a1'' ''n1'' ''pg_ensure_role'' (Text [])
     [(''password'', ''pw''), (''admin'', ''pw2'')] (Some 5000000)"

lemma sample_create_runs:
  "result sample_create (world_of empty_db) = Inr (command_row ''id-0'' ''a1'' ''n1'' ''pg_ensure_role'' (Text []) 1000)"
proof -
  have "wp sample_create (\<lambda>r _. r = Inr (command_row ''id-0'' ''a1'' ''n1'' ''pg_ensure_role'' (Text []) 1000))
      (world_of empty_db)"
    by (simp add: secrets_CreateCommandWithSecrets_def Let_def wp_simps wp_in_tx commands_insert_def attach_secrets_def
        EncryptAES256GCM_def aes_NewCipher_def insertCommandSecret_def command_row_def secret_row_def
        sample_repo_def sample_env_def dec_nat.simps)
  then show ?thesis by (simp add: wp_outcome)
qed

theorem create_command_with_secrets_atomic_witness:
  "\<exists>rows. store (after sample_create (world_of empty_db)) =
      empty_db\<lparr>agent_commands := [command_row ''id-0'' ''a1'' ''n1'' ''pg_ensure_role'' (Text []) 1000],
               agent_command_secrets := rows\<rparr> \<and>
    secret_rows sample_repo ''id-0'' (Some 5000000) [(''password'', ''pw''), (''admin'', ''pw2'')] rows"
  using create_command_with_secrets_atomic [where r = sample_repo and w = "world_of empty_db" and a = "''a1''"
      and n = "''n1''" and act = "''pg_ensure_role''" and p = "Text []" and x = "Some 5000000"
      and ss = "[(''password'', ''pw''), (''admin'', ''pw2'')]"]
  by (simp add: sample_create_runs command_row_def)

theorem command_secrets_round_trip_witness:
  "\<exists>w. result (secrets_ResolveAllForCommand sample_repo ''id-0'') w
     = Inr (map_of [(''password'', ''pw''), (''admin'', ''pw2'')])"
proof -
  let ?w = "(world_of empty_db)\<lparr>the_env := sample_env\<lparr>clock := (\<lambda>_. 7)\<rparr>\<rparr>"
  let ?cmd = "command_row ''id-0'' ''a1'' ''n1'' ''pg_ensure_role'' (Text []) 7"
  have "wp sample_create (\<lambda>r _. r = Inr ?cmd) ?w"
    by (simp add: secrets_CreateCommandWithSecrets_def Let_def wp_simps wp_in_tx commands_insert_def attach_secrets_def
        EncryptAES256GCM_def aes_NewCipher_def insertCommandSecret_def command_row_def secret_row_def
        sample_repo_def sample_env_def dec_nat.simps)
  then have "result (secrets_ResolveAllForCommand sample_repo (Cmd_ID ?cmd)) (after sample_create ?w)
      = Inr (map_of [(''password'', ''pw''), (''admin'', ''pw2'')])"
    by (intro command_secrets_round_trip)
      (simp_all add: wp_outcome never_expires_def nonces12_def sample_env_def gcm_NonceSize_def fault_free_def)
  then show ?thesis by (auto simp: command_row_def)
qed


lemma wp_csecrets_StoreSecret:
  assumes "repo_ok r" "nonces_ok w" "no_faults w" "uuid (the_env w) (n_uuid w) \<notin> CSecret_ID ` set (cluster_secrets (store w))"
  shows "wp (csecrets_StoreSecret r cid k p) (\<lambda>res w'. res = Inr () \<and> the_env w' = the_env w \<and>
     (\<exists>s. List.find (\<lambda>s. CSecret_ClusterID s = cid \<and> CSecret_Key s = k) (cluster_secrets (store w')) = Some s \<and>
        opens_to r (CSecret_Ciphertext s) p) \<and>
     filter (\<lambda>s. \<not> (CSecret_ClusterID s = cid \<and> CSecret_Key s = k)) (cluster_secrets (store w')) =
     filter (\<lambda>s. \<not> (CSecret_ClusterID s = cid \<and> CSecret_Key s = k)) (cluster_secrets (store w))) w"
proof -
  have ok: "aead_ok (repo_aead r)" "length (encryptKey r) \<in> {16, 24, 32}"
    using assms(1) by (auto simp: repo_ok_def)
  let ?P = "\<lambda>s. CSecret_ClusterID s = cid \<and> CSecret_Key s = k"
  have absent: "List.find ?P rows = None" if "(cid, k) \<notin> (\<lambda>r. (CSecret_ClusterID r, CSecret_Key r)) ` set rows" for rows
    using that by (auto simp: find_None_iff_mem)
  have present: "List.find ?P rows \<noteq> None" if "(cid, k) \<in> (\<lambda>r. (CSecret_ClusterID r, CSecret_Key r)) ` set rows" for rows
    using that by (auto simp: find_None_iff_mem)
  have find_append: "List.find ?P rows = None \<Longrightarrow> List.find ?P (rows @ [s]) = (if ?P s then Some s else None)" for rows s
    by (induction rows) (auto split: if_splits)
  show ?thesis
    unfolding csecrets_StoreSecret_def wp_bind wp_id_New wp_time_now wp_try_do
    by (rule wp_mono [OF wp_Encrypt [OF ok(1) _ ok(2)]])
      (use assms(2-4) in \<open>auto simp: wp_simps upsert_cluster_secret_def find_upd_where filter_upd_where_other
          find_append absent opens_to_encode dest!: present\<close>)
qed

text \<open>
  a cluster secret reads back as stored, replacing an earlier value under the same key, and
  the secrets of other clusters and keys are untouched.
\<close>

theorem cluster_secret_round_trip:
  assumes "repo_ok r" "nonces_ok w" "no_faults w"
    "uuid (the_env w) (n_uuid w) \<notin> CSecret_ID ` set (cluster_secrets (store w))"
  shows "result (csecrets_StoreSecret r cid k p) w = Inr () \<and>
    result (csecrets_ResolveSecret r cid k) (after (csecrets_StoreSecret r cid k p) w) = Inr p \<and>
    filter (\<lambda>s. \<not> (CSecret_ClusterID s = cid \<and> CSecret_Key s = k))
      (cluster_secrets (store (after (csecrets_StoreSecret r cid k p) w))) =
    filter (\<lambda>s. \<not> (CSecret_ClusterID s = cid \<and> CSecret_Key s = k)) (cluster_secrets (store w))"
proof -
  let ?w = "after (csecrets_StoreSecret r cid k p) w"
  note st = wp_csecrets_StoreSecret [OF assms, of cid k p, unfolded wp_outcome]
  then obtain s where s: "List.find (\<lambda>s. CSecret_ClusterID s = cid \<and> CSecret_Key s = k) (cluster_secrets (store ?w)) = Some s"
      "opens_to r (CSecret_Ciphertext s) p" by blast
  have "wp (csecrets_ResolveSecret r cid k) (\<lambda>res _. res = Inr p) ?w"
    using st s assms(3) by (simp add: csecrets_ResolveSecret_def wp_simps open_secret_opens)
  then show ?thesis using st by (simp add: wp_outcome)
qed

theorem cluster_secret_round_trip_witness:
  "result (csecrets_ResolveSecret sample_repo ''c1'' ''skylex_admin_password'')
     (after (csecrets_StoreSecret sample_repo ''c1'' ''skylex_admin_password'' ''pw'') (world_of empty_db)) = Inr ''pw''"
  using cluster_secret_round_trip [of sample_repo "world_of empty_db" "''c1''" "''skylex_admin_password''" "''pw''"]
  by simp

end
