(* ===== verification/ClusterService.thy ===== *)
theory ClusterService
  imports ClusterSettings AuditRepo Failover Secrets
begin

text \<open>
  \<open>internal/server/cluster_service.go\<close>: creating, listing, deleting, starting, pausing and restarting
  clusters, and the commands these queue for the agents. The repositories the service holds are the
  tables of the store; what can be absent is in the record \<open>ClusterService\<close>: the audit log, the two
  secret repositories and the failover engine.

  \<open>CreateCluster\<close> is cut at its transaction: the checks before it, the transaction itself, and the
  commands it queues after the commit. The deferred \<open>Rollback\<close> of the lifecycle operations only runs
  for errors of statements; where a guard returns early the transaction has written nothing and ends
  with the request's context, so both are the \<open>Abort\<close> of \<open>in_tx\<close>. The goroutine that
  \<open>FailoverCluster\<close> starts runs after the response is determined.
\<close>

record ClusterService =
  CS_audit :: bool
  CS_clusterSecrets :: "SecretRepository option"
  CS_commandSecrets :: "SecretRepository option"
  CS_failoverEngine :: "failover_engine option"

definition maxClusterLifecycleNodes :: nat where
  "maxClusterLifecycleNodes = 1000"

section \<open>Commands for the agents\<close>

record provisioningCommand =
  Prov_action :: string
  Prov_payload :: payload

definition pcmd :: "string \<Rightarrow> payload \<Rightarrow> provisioningCommand" where
  "pcmd a p = \<lparr>Prov_action = a, Prov_payload = p\<rparr>"

definition nodeAddress :: "Node \<Rightarrow> string" where
  "nodeAddress n = (if Node_Address n \<noteq> [] then Node_Address n else Node_Hostname n)"

definition primaryCommands :: "provisioningCommand list" where
  "primaryCommands = [pcmd ''pg_init'' (Text []), pcmd ''pg_start'' (Text []), pcmd ''pg_create_repl_user'' (Text [])]"

definition replicaCommands :: "Node \<Rightarrow> provisioningCommand list" where
  "replicaCommands primary = (let payload = host_port (nodeAddress primary) (Node_Port primary) in
     [pcmd ''pg_basebackup'' payload, pcmd ''repoint_replica'' payload, pcmd ''pg_start'' (Text [])])"

definition installCommands :: "Node \<Rightarrow> string \<Rightarrow> ServiceLocation \<Rightarrow> bool \<Rightarrow> string \<Rightarrow> provisioningCommand list" where
  "installCommands node version serviceLocation resolvedNativeConflict clusterID =
     (if serviceLocation = ServiceLocationNative \<and> \<not> resolvedNativeConflict then [pcmd ''pg_preflight'' (Text [])]
      else if serviceLocation = ServiceLocationDocker then
        [pcmd ''pg_install_docker'' (Json [(''cluster_id'', JStr clusterID), (''version'', JStr version)])]
      else if \<not> Node_PostgresInstalled node then [pcmd ''pg_install_native'' (Text version)]
      else [])"

definition queueNodeCommands :: "Node \<Rightarrow> provisioningCommand list \<Rightarrow> unit res io" where
  "queueNodeCommands node cmds = for_each cmds (\<lambda>c.
     try_do (commands_Create (Node_AgentID node) (Node_ID node) (Prov_action c) (Prov_payload c))
       (\<lambda>e. Inl (wrap (''queue '' @ Prov_action c) e)) (\<lambda>_. State_Monad.return (Inr ())))"

definition queuePrimaryCommands :: "Node \<Rightarrow> string \<Rightarrow> ServiceLocation \<Rightarrow> unit res io" where
  "queuePrimaryCommands node version serviceLocation =
     queueNodeCommands node (installCommands node version serviceLocation False (Node_ClusterID node)
       @ (if serviceLocation \<noteq> ServiceLocationNative then primaryCommands else []))"

definition queueReplicaCommands :: "Node \<Rightarrow> Node \<Rightarrow> string \<Rightarrow> ServiceLocation \<Rightarrow> unit res io" where
  "queueReplicaCommands replica primary version serviceLocation =
     queueNodeCommands replica (installCommands replica version serviceLocation False (Node_ClusterID replica)
       @ (if serviceLocation \<noteq> ServiceLocationNative then replicaCommands primary else []))"

definition admin_role_payload :: payload where
  "admin_role_payload = Json [(''allow_promote'', JBool False), (''password_secret_key'', JStr ''skylex_admin_password''),
     (''role_kind'', JStr ''admin''), (''role_name'', JStr ''skylex_admin'')]"

definition queueAdminRoleCommand :: "ClusterService \<Rightarrow> Node \<Rightarrow> string \<Rightarrow> ServiceLocation \<Rightarrow> unit res io" where
  "queueAdminRoleCommand svc primary clusterID serviceLocation =
     (case (CS_clusterSecrets svc, CS_commandSecrets svc) of
        (Some cs, Some ks) \<Rightarrow> do {
          password \<leftarrow> GenerateToken;
          try_do (csecrets_StoreSecret cs clusterID ''skylex_admin_password'' password)
            (\<lambda>e. Inl (wrap ''store skylex_admin password'' e)) (\<lambda>_.
            if serviceLocation = ServiceLocationNative then State_Monad.return (Inr ())
            else do {
              now \<leftarrow> time_now;
              try_do (secrets_CreateCommandWithSecrets ks (Node_AgentID primary) (Node_ID primary)
                        ''pg_ensure_admin_role'' admin_role_payload
                        [(''skylex_admin_password'', password)] (Some (now + day_ns)))
                (\<lambda>e. Inl (wrap ''queue pg_ensure_admin_role'' e)) (\<lambda>_. State_Monad.return (Inr ()))
            })
        }
      | _ \<Rightarrow> State_Monad.return (Inr ()))"

section \<open>Creating a cluster\<close>

record CreateClusterRequest =
  Create_Name :: string
  Create_Config :: "ClusterConfig option"
  Create_NodeIds :: "string list"

definition node_roles :: "Node list \<Rightarrow> NodeRole list" where
  "node_roles ns = (case ns of [] \<Rightarrow> [] | _ # rest \<Rightarrow> NodeRolePrimary # map (\<lambda>_. NodeRoleReplica) rest)"

definition check_selected :: "Node list \<Rightarrow> grpc_error option" where
  "check_selected ns = (
     let alreadyAssigned = map Node_Hostname (filter (\<lambda>n. Node_ClusterID n \<noteq> []) ns);
         missingAgent = map Node_Hostname (filter (\<lambda>n. Node_AgentID n = []) ns)
     in if alreadyAssigned \<noteq> [] then Some (Status FailedPrecondition
          (''the following node(s) are already assigned to a cluster: '' @ join '', '' alreadyAssigned))
        else if missingAgent \<noteq> [] then Some (Status FailedPrecondition
          (''the following node(s) do not have a linked agent: '' @ join '', '' missingAgent))
        else None)"

definition assign_node :: "string \<Rightarrow> ServiceLocation \<Rightarrow> Time \<Rightarrow> NodeRole \<Rightarrow> Node \<Rightarrow> Node" where
  "assign_node cid loc now role n = n\<lparr>Node_ClusterID := cid, Node_Role := role, Node_ServiceLocation := loc,
     Node_InstallationState := InstallationStatePendingPreflight, Node_ConflictDetails := [], Node_UpdatedAt := now\<rparr>"

definition assign_nodes :: "string \<Rightarrow> ServiceLocation \<Rightarrow> Time \<Rightarrow> (Node \<times> NodeRole) list \<Rightarrow> unit rpc io" where
  "assign_nodes cid loc now nrs = for_each nrs (\<lambda>(n, role).
     try_do (sql_write (\<lambda>d. d\<lparr>nodes := upd_where (\<lambda>m. Node_ID m = Node_ID n) (assign_node cid loc now role) (nodes d)\<rparr>))
       (\<lambda>e. Inl (Status Internal (wrap (''assign node '' @ Node_ID n) e)))
       (\<lambda>_. State_Monad.return (Inr ())))"

definition create_cluster_tx :: "Cluster \<Rightarrow> Node list \<Rightarrow> unit rpc io" where
  "create_cluster_tx cluster selectedNodes =
     in_tx (\<lambda>e. Inl (Status Internal (wrap ''begin transaction'' e))) (\<lambda>e. Inl (Status Internal (wrap ''commit transaction'' e)))
       (or_status_tx Internal ''create cluster'' (clusters_insert cluster) (\<lambda>_.
        if selectedNodes = [] then State_Monad.return (Abort (Inl (Panic ''index out of range [0] with length 0'')))
        else try_tx (assign_nodes (Cluster_ID cluster) (Cluster_ServiceLocation cluster) (Cluster_CreatedAt cluster)
                       (zip selectedNodes (node_roles selectedNodes))) Inl (\<lambda>_.
        State_Monad.return (Commit (Inr ())))))"

text \<open>The copies of the selected nodes the commands are queued for keep their old \<open>UpdatedAt\<close>.\<close>

definition assigned_copy :: "string \<Rightarrow> ServiceLocation \<Rightarrow> Node \<times> NodeRole \<Rightarrow> Node" where
  "assigned_copy cid loc nr = assign_node cid loc (Node_UpdatedAt (fst nr)) (snd nr) (fst nr)"

definition queue_provisioning :: "ClusterService \<Rightarrow> Cluster \<Rightarrow> Node list \<Rightarrow> ProtoCluster rpc io" where
  "queue_provisioning svc cluster selectedNodes = (
     let loc = Cluster_ServiceLocation cluster;
         assignedNodes = map (assigned_copy (Cluster_ID cluster) loc) (zip selectedNodes (node_roles selectedNodes));
         primary = hd assignedNodes
     in or_status Internal ''queue primary commands'' (queuePrimaryCommands primary (Cluster_Version cluster) loc) (\<lambda>_.
        or_status Internal ''provision admin role'' (queueAdminRoleCommand svc primary (Cluster_ID cluster) loc) (\<lambda>_.
        or_status Internal ''queue replica commands''
          (for_each (tl assignedNodes) (\<lambda>replica. queueReplicaCommands replica primary (Cluster_Version cluster) loc)) (\<lambda>_.
        reply (clusterToProto cluster)))))"

definition new_cluster :: "string \<Rightarrow> Time \<Rightarrow> string \<Rightarrow> ClusterConfig \<Rightarrow> Cluster" where
  "new_cluster clusterID now name cfg = (
     let loc = convertServiceLocation (Cfg_ServiceLocation cfg) in
     \<lparr>Cluster_ID = clusterID, Cluster_Name = name, Cluster_Engine = convertEngine (Cfg_Engine cfg),
      Cluster_Version = (if Cfg_Version cfg = [] then ''16'' else Cfg_Version cfg),
      Cluster_ReplicationMode = convertReplicationMode (Cfg_ReplicationMode cfg),
      Cluster_Replicas = Cfg_ReplicaCount cfg, Cluster_StorageConfigID = Cfg_StorageConfigId cfg,
      Cluster_DataDir = [], Cluster_PITREnabled = Cfg_PitrEnabled cfg, Cluster_Status = ClusterStatusCreating,
      Cluster_Tags = Cfg_Labels cfg,
      Cluster_ServiceLocation = (if loc = ServiceLocationUnspecified then ServiceLocationNative else loc),
      Cluster_CreatedAt = now, Cluster_UpdatedAt = now\<rparr>)"

definition CreateCluster :: "ClusterService \<Rightarrow> CreateClusterRequest \<Rightarrow> ProtoCluster rpc io" where
  "CreateCluster svc req =
     (case Create_Config req of
        None \<Rightarrow> fail InvalidArgument ''config is required''
      | Some cfg \<Rightarrow>
          or_status Internal ''check cluster name'' (clusters_GetByName (Create_Name req)) (\<lambda>existing.
          if existing \<noteq> None then fail AlreadyExists (''cluster '' @ quote (Create_Name req) @ '' already exists'')
          else if convertEngine (Cfg_Engine cfg) = EngineNone
          then fail InvalidArgument ''config.engine is required and must be a supported engine''
          else (let replicaCount = Cfg_ReplicaCount cfg; neededNodes = replicaCount + 1; nodeIDs = Create_NodeIds req in
            if int (length nodeIDs) \<noteq> neededNodes
            then fail InvalidArgument (''node_ids must have exactly '' @ dec neededNodes @ '' entries (1 primary + ''
                   @ dec replicaCount @ '' replica(s)), got '' @ dec (int (length nodeIDs)))
            else or_status NotFound ''resolve node_ids'' (nodes_GetByIDs nodeIDs) (\<lambda>selectedNodes.
              case check_selected selectedNodes of
                Some e \<Rightarrow> State_Monad.return (Inl e)
              | None \<Rightarrow> do {
                  clusterID \<leftarrow> id_New;
                  now \<leftarrow> time_now;
                  let cluster = new_cluster clusterID now (Create_Name req) cfg;
                  try_do (create_cluster_tx cluster selectedNodes) Inl (\<lambda>_.
                    queue_provisioning svc cluster selectedNodes)
                }))))"

section \<open>Reading clusters\<close>

definition GetCluster :: "string \<Rightarrow> (ProtoCluster \<times> (string \<times> string) list) rpc io" where
  "GetCluster i = require_cluster i (\<lambda>cluster. reply (clusterToProto cluster, engineModulesProto (Cluster_Engine cluster)))"

definition ListClusters :: "int \<Rightarrow> int \<Rightarrow> (ProtoCluster list \<times> Pagination) rpc io" where
  "ListClusters req_page req_pageSize = (
     let pageSize = (if req_pageSize \<le> 0 then 20 else if req_pageSize > 100 then 100 else req_pageSize);
         pg = (if req_page \<le> 0 then 1 else req_page);
         offset = (pg - 1) * pageSize
     in or_status Internal ''list clusters'' (clusters_List (nat offset) (nat pageSize)) (\<lambda>(cs, total).
        reply (map clusterToProto cs,
          \<lparr>Pag_Page = to_int32 pg, Pag_PageSize = to_int32 pageSize, Pag_Total = to_int32 (int total)\<rparr>)))"

definition UpdateCluster :: "ProtoCluster rpc io" where
  "UpdateCluster = fail Unimplemented ''UpdateCluster not implemented''"

definition ScaleCluster :: "string \<Rightarrow> ProtoCluster rpc io" where
  "ScaleCluster cid =
     (if cid = [] then fail InvalidArgument ''cluster_id is required''
      else require_cluster cid (\<lambda>cluster. reply (clusterToProto cluster)))"

section \<open>Deleting a cluster\<close>

definition isLifecycleOnlyAction :: "string \<Rightarrow> bool" where
  "isLifecycleOnlyAction action \<longleftrightarrow> action = ''pg_start'' \<or> action = ''pg_stop''"

definition node_running :: "Node \<Rightarrow> bool" where
  "node_running n \<longleftrightarrow> Node_Status n = NodeStatusOnline \<or> Node_StatusDetail n = ''healthy'' \<or>
     Node_StatusDetail n = ''running'' \<or> Node_StatusDetail n = ''syncing_replica''"

definition requireClusterStoppedForDelete :: "Cluster \<Rightarrow> unit rpc io" where
  "requireClusterStoppedForDelete cluster =
     or_status Internal ''list cluster nodes'' (nodes_ListByCluster (Cluster_ID cluster) 0 maxClusterLifecycleNodes) (\<lambda>(ns, _).
     or_status Internal ''list cluster commands'' (commands_ListByNodeIDs (map Node_ID ns) (int maxClusterLifecycleNodes)) (\<lambda>cmds.
     if \<exists>c\<in>set cmds. Cmd_Status c = CommandStatusPending \<and> isLifecycleOnlyAction (Cmd_Action c)
     then fail FailedPrecondition ''PostgreSQL lifecycle command is still pending; wait for the service to stop before deleting it''
     else if \<exists>n\<in>set ns. node_running n
     then fail FailedPrecondition ''PostgreSQL service is still running; pause/stop the cluster before deleting it''
     else reply ()))"

definition cancel_pending :: "string \<Rightarrow> Time \<Rightarrow> db \<Rightarrow> db" where
  "cancel_pending cid now d = d\<lparr>agent_commands := upd_where
     (\<lambda>c. Cmd_Status c = CommandStatusPending \<and> Cmd_NodeID c \<in> set (map Node_ID (filter (in_cluster cid) (nodes d))))
     (\<lambda>c. c\<lparr>Cmd_Status := CommandStatusFailed, Cmd_Error := ''cluster deleted'', Cmd_CompletedAt := Some now\<rparr>)
     (agent_commands d)\<rparr>"

definition release_nodes :: "string \<Rightarrow> Time \<Rightarrow> db \<Rightarrow> db" where
  "release_nodes cid now d = d\<lparr>nodes := upd_where (in_cluster cid)
     (\<lambda>n. n\<lparr>Node_ClusterID := [], Node_Role := NodeRoleNone, Node_ServiceLocation := ServiceLocationUnspecified,
            Node_InstallationState := InstallationStateUnspecified, Node_ConflictDetails := [],
            Node_StatusDetail := [], Node_UpdatedAt := now\<rparr>) (nodes d)\<rparr>"

definition delete_cluster_body :: "string \<Rightarrow> unit rpc tx io" where
  "delete_cluster_body cid = do {
     t1 \<leftarrow> time_now;
     or_status_tx Internal ''cancel pending commands'' (sql_write (cancel_pending cid t1)) (\<lambda>_. do {
       t2 \<leftarrow> time_now;
       or_status_tx Internal ''unassign cluster nodes'' (sql_write (release_nodes cid t2)) (\<lambda>_.
       or_status_tx Internal ''delete cluster settings'' (settings_delete (\<lambda>s. Setting_ClusterID s = cid)) (\<lambda>_.
       or_status_tx Internal ''delete cluster''
         (sql_write (\<lambda>d. d\<lparr>clusters := del_where (\<lambda>c. Cluster_ID c = cid) (clusters d)\<rparr>)) (\<lambda>_.
       State_Monad.return (Commit (Inr ())))))
     })
   }"

definition DeleteCluster :: "string \<Rightarrow> unit rpc io" where
  "DeleteCluster i = require_cluster i (\<lambda>cluster.
     try_do (requireClusterStoppedForDelete cluster) Inl (\<lambda>_.
       in_tx (\<lambda>e. Inl (Status Internal (wrap ''begin transaction'' e))) (\<lambda>e. Inl (Status Internal (wrap ''commit transaction'' e)))
         (delete_cluster_body (Cluster_ID cluster))))"

section \<open>Starting, pausing and restarting\<close>

definition clusterNodesForLifecycle :: "string \<Rightarrow> Node list res io" where
  "clusterNodesForLifecycle cid =
     query (\<lambda>d. page 0 maxClusterLifecycleNodes (by_role_then_age (filter (in_cluster cid) (nodes d))))"

definition nodeEligibleForLifecycle :: "Node \<Rightarrow> bool" where
  "nodeEligibleForLifecycle node \<longleftrightarrow> Node_AgentID node \<noteq> [] \<and> Node_PostgresInstalled node \<and> Node_PostgresDataInitialized node \<and>
     (Node_InstallationState node = InstallationStateInstalled \<or> Node_InstallationState node = InstallationStateAdopted)"

definition hasPendingClusterCommands :: "string list \<Rightarrow> bool res io" where
  "hasPendingClusterCommands nodeIDs =
     (if nodeIDs = [] then State_Monad.return (Inr False)
      else query (\<lambda>d. length (filter (\<lambda>c. Cmd_NodeID c \<in> set nodeIDs \<and> Cmd_Status c = CommandStatusPending) (agent_commands d)) > 0))"

definition queue_lifecycle_node :: "provisioningCommand list \<Rightarrow> NodeStatus \<Rightarrow> string \<Rightarrow> Time \<Rightarrow> Node \<Rightarrow> unit rpc io" where
  "queue_lifecycle_node cmds nodeStatus nodeDetail now node =
     try_do (for_each cmds (\<lambda>c. do {
         cmdID \<leftarrow> id_New;
         try_do (commands_insert (command_row cmdID (Node_AgentID node) (Node_ID node) (Prov_action c) (Prov_payload c) now))
           (\<lambda>e. Inl (Status Internal (wrap (''queue '' @ Prov_action c @ '' for node '' @ Node_ID node) e)))
           (\<lambda>_. State_Monad.return (Inr ()))
       })) Inl (\<lambda>_.
     or_status Internal ''mark node lifecycle pending''
       (sql_write (\<lambda>d. d\<lparr>nodes := upd_where (\<lambda>n. Node_ID n = Node_ID node)
          (\<lambda>n. n\<lparr>Node_Status := nodeStatus, Node_StatusDetail := nodeDetail, Node_UpdatedAt := now\<rparr>) (nodes d)\<rparr>)) (\<lambda>_.
     reply ()))"

definition lifecycle_body ::
  "string \<Rightarrow> provisioningCommand list \<Rightarrow> ClusterStatus \<Rightarrow> NodeStatus \<Rightarrow> string \<Rightarrow> (Cluster \<times> nat) rpc tx io" where
  "lifecycle_body clusterID cmds clusterStatus nodeStatus nodeDetail =
     or_status_tx Internal ''get cluster'' (query (\<lambda>d. List.find (\<lambda>c. Cluster_ID c = clusterID) (clusters d))) (\<lambda>row.
     case row of
       None \<Rightarrow> fail_tx NotFound (''cluster '' @ quote clusterID @ '' not found'')
     | Some cluster \<Rightarrow>
         if Cluster_Status cluster = ClusterStatusCreating \<or> Cluster_Status cluster = ClusterStatusDeleting
         then fail_tx FailedPrecondition (''cluster '' @ quote (Cluster_ID cluster) @ '' is ''
                @ cluster_status_text (Cluster_Status cluster) @ ''; wait for provisioning/deletion before lifecycle operations'')
         else or_status_tx Internal ''list cluster nodes'' (clusterNodesForLifecycle (Cluster_ID cluster)) (\<lambda>ns.
           if ns = [] then fail_tx FailedPrecondition (''cluster '' @ quote (Cluster_ID cluster) @ '' has no assigned nodes'')
           else (let eligible = filter nodeEligibleForLifecycle ns in
             if eligible = [] then fail_tx FailedPrecondition (''cluster '' @ quote (Cluster_ID cluster)
                  @ '' has no ready nodes with connected agents for lifecycle operation'')
             else or_status_tx Internal ''check pending commands'' (hasPendingClusterCommands (map Node_ID eligible)) (\<lambda>hasPending.
               if hasPending then fail_tx FailedPrecondition
                 ''an agent command is already pending for this cluster; wait for it to finish before lifecycle operations''
               else do {
                 now \<leftarrow> time_now;
                 try_tx (for_each eligible (queue_lifecycle_node cmds nodeStatus nodeDetail now)) Inl (\<lambda>_.
                 or_status_tx Internal ''update cluster status''
                   (sql_write (\<lambda>d. d\<lparr>clusters := upd_where (\<lambda>c. Cluster_ID c = Cluster_ID cluster)
                      (\<lambda>c. c\<lparr>Cluster_Status := clusterStatus, Cluster_UpdatedAt := now\<rparr>) (clusters d)\<rparr>)) (\<lambda>_.
                 State_Monad.return (Commit (Inr (cluster\<lparr>Cluster_Status := clusterStatus, Cluster_UpdatedAt := now\<rparr>, length eligible)))))
               }))))"

definition auditClusterLifecycle :: "ClusterService \<Rightarrow> request_context \<Rightarrow> string \<Rightarrow> string \<Rightarrow> nat \<Rightarrow> unit io" where
  "auditClusterLifecycle svc ctx clusterID operation nodeCount =
     (if \<not> CS_audit svc then State_Monad.return ()
      else logged (audit_Log \<lparr>Audit_ID = 0, Audit_UserID = UserIDFromContext ctx, Audit_Action = ''cluster.lifecycle'',
             Audit_Resource = clusterID, Audit_Detail = ''operation='' @ operation @ '' cluster_id='' @ clusterID
               @ '' nodes='' @ dec (int nodeCount), Audit_IPAddress = [], Audit_CreatedAt = zero_time\<rparr>))"

definition queueClusterLifecycle ::
  "ClusterService \<Rightarrow> request_context \<Rightarrow> string \<Rightarrow> string \<Rightarrow> provisioningCommand list \<Rightarrow> ClusterStatus \<Rightarrow> NodeStatus \<Rightarrow> string
   \<Rightarrow> Cluster rpc io" where
  "queueClusterLifecycle svc ctx clusterID operation cmds clusterStatus nodeStatus nodeDetail =
     (if clusterID = [] then fail InvalidArgument ''cluster_id is required''
      else if UserRoleFromContext ctx = RoleViewer
      then fail PermissionDenied (''viewer role cannot '' @ operation @ '' clusters'')
      else try_do
        (in_tx (\<lambda>e. Inl (Status Internal (wrap ''begin transaction'' e)))
           (\<lambda>e. Inl (Status Internal (wrap ''commit lifecycle operation'' e)))
           (lifecycle_body clusterID cmds clusterStatus nodeStatus nodeDetail))
        Inl (\<lambda>(cluster, n). do {
          _ \<leftarrow> auditClusterLifecycle svc ctx (Cluster_ID cluster) operation n;
          reply cluster
        }))"

definition lifecycle_reply :: "Cluster rpc io \<Rightarrow> ProtoCluster rpc io" where
  "lifecycle_reply m = try_do m Inl (\<lambda>cluster. reply (clusterToProto cluster))"

definition StartCluster :: "ClusterService \<Rightarrow> request_context \<Rightarrow> string \<Rightarrow> ProtoCluster rpc io" where
  "StartCluster svc ctx cid = lifecycle_reply (queueClusterLifecycle svc ctx cid ''start'' [pcmd ''pg_start'' (Text [])]
     ClusterStatusRunning NodeStatusOnline ''starting'')"

definition PauseCluster :: "ClusterService \<Rightarrow> request_context \<Rightarrow> string \<Rightarrow> ProtoCluster rpc io" where
  "PauseCluster svc ctx cid = lifecycle_reply (queueClusterLifecycle svc ctx cid ''pause'' [pcmd ''pg_stop'' (Text [])]
     ClusterStatusStopped NodeStatusOffline ''stopping'')"

definition RestartCluster :: "ClusterService \<Rightarrow> request_context \<Rightarrow> string \<Rightarrow> ProtoCluster rpc io" where
  "RestartCluster svc ctx cid = lifecycle_reply (queueClusterLifecycle svc ctx cid ''restart''
     [pcmd ''pg_stop'' (Text []), pcmd ''pg_start'' (Text [])] ClusterStatusRunning NodeStatusOnline ''restarting'')"

section \<open>Manual failover and restart of a node\<close>

definition FailoverCluster :: "ClusterService \<Rightarrow> string \<Rightarrow> ProtoCluster rpc io" where
  "FailoverCluster svc cid =
     (if cid = [] then fail InvalidArgument ''cluster_id is required''
      else require_cluster cid (\<lambda>cluster. do {
        r \<leftarrow> nodes_GetPrimary (Cluster_ID cluster);
        (case r of
          Inr (Some primary) \<Rightarrow> (case CS_failoverEngine svc of
              None \<Rightarrow> fail Unavailable ''failover engine is not available''
            | Some e \<Rightarrow> do {
                _ \<leftarrow> executeFailover e cluster primary;
                reply (clusterToProto cluster)
              })
        | _ \<Rightarrow> fail FailedPrecondition (''no primary found for cluster '' @ quote (Cluster_ID cluster)))
      }))"

definition RestartNode :: "request_context \<Rightarrow> string \<Rightarrow> unit rpc io" where
  "RestartNode ctx nid =
     (if nid = [] then fail InvalidArgument ''node_id is required''
      else if UserRoleFromContext ctx = RoleViewer then fail PermissionDenied ''viewer role cannot restart nodes''
      else or_status Internal ''get node'' (nodes_GetByID nid) (\<lambda>r. case r of
          None \<Rightarrow> fail NotFound (''node '' @ quote nid @ '' not found'')
        | Some node \<Rightarrow>
            if Node_AgentID node = [] then fail FailedPrecondition (''node '' @ quote (Node_ID node) @ '' has no agent_id assigned'')
            else if \<not> nodeEligibleForLifecycle node
            then fail FailedPrecondition (''node '' @ quote (Node_ID node) @ '' is not ready for PostgreSQL lifecycle operations'')
            else or_status Internal ''queue stop command'' (commands_Create (Node_AgentID node) (Node_ID node) ''pg_stop'' (Text [])) (\<lambda>_.
                 or_status Internal ''queue start command'' (commands_Create (Node_AgentID node) (Node_ID node) ''pg_start'' (Text [])) (\<lambda>_.
                 reply ()))))"

end
