(* ===== verification/ClusterLifecycle.thy ===== *)
theory ClusterLifecycle
  imports ClusterService
begin

text \<open>
  What \<open>DeleteCluster\<close> and the lifecycle operations \<open>StartCluster\<close>, \<open>PauseCluster\<close> and
  \<open>RestartCluster\<close> of \<open>internal/server/cluster_service.go\<close> do to the tables: each is all or nothing,
  with the guards of the code. \<open>cluster_gone\<close>, \<open>appended\<close> and \<open>lifecycle_done\<close> state the effects
  without the order of the statements.
\<close>

section \<open>Deleting a cluster: what remains\<close>

definition cluster_gone :: "string \<Rightarrow> db \<Rightarrow> db \<Rightarrow> bool" where
  "cluster_gone cid d d' \<longleftrightarrow>
     clusters d' = filter (\<lambda>c. Cluster_ID c \<noteq> cid) (clusters d) \<and>
     cluster_settings d' = filter (\<lambda>s. Setting_ClusterID s \<noteq> cid) (cluster_settings d) \<and>
     list_all2 (\<lambda>n n'. if in_cluster cid n
                       then Node_ID n' = Node_ID n \<and> Node_ClusterID n' = [] \<and> Node_Role n' = NodeRoleNone
                       else n' = n) (nodes d) (nodes d') \<and>
     list_all2 (\<lambda>c c'. if Cmd_Status c = CommandStatusPending \<and> Cmd_NodeID c \<in> Node_ID ` set (filter (in_cluster cid) (nodes d))
                       then Cmd_ID c' = Cmd_ID c \<and> Cmd_Status c' = CommandStatusFailed
                       else c' = c) (agent_commands d) (agent_commands d')"

lemma cluster_gone_deleted:
  "cluster_gone cid d ((release_nodes cid t2 (cancel_pending cid t1 d))\<lparr>
     cluster_settings := del_where (\<lambda>s. Setting_ClusterID s = cid) (cluster_settings d),
     clusters := del_where (\<lambda>c. Cluster_ID c = cid) (clusters d)\<rparr>)"
  by (auto simp: cluster_gone_def release_nodes_def cancel_pending_def del_where_def intro!: list_all2_upd_where)

lemma wp_delete_cluster_body:
  assumes "store w = d"
  shows "wp (delete_cluster_body cid) (\<lambda>r w'. case r of Commit v \<Rightarrow> v = Inr () \<and> cluster_gone cid d (store w') | Abort v \<Rightarrow> isl v) w"
proof -
  have [simp]: "cluster_settings (release_nodes cid t2 (cancel_pending cid t1 d)) = cluster_settings d"
    "clusters (release_nodes cid t2 (cancel_pending cid t1 d)) = clusters d" for t1 t2 d
    by (simp_all add: release_nodes_def cancel_pending_def)
  show ?thesis
    by (simp add: assms delete_cluster_body_def wp_simps settings_delete_def cluster_gone_deleted split: option.splits)
qed

lemma wp_delete_tx:
  assumes "store w = d"
  shows "wp (in_tx (\<lambda>e. Inl (Status Internal (wrap ''begin transaction'' e))) (\<lambda>e. Inl (Status Internal (wrap ''commit transaction'' e)))
     (delete_cluster_body cid)) (\<lambda>r w'. r = Inr () \<and> cluster_gone cid d (store w') \<or> isl r \<and> store w' = d) w"
  unfolding assms [symmetric]
  by (rule wp_in_tx_outcome [where A = isl and C = "\<lambda>r d. r = Inr () \<and> cluster_gone cid (store w) d"])
    (rule wp_delete_cluster_body, simp_all)

lemma keeps_requireClusterStopped [keeps_intros]:
  "keeps_db I (requireClusterStoppedForDelete c)" "keeps_env P (requireClusterStoppedForDelete c)"
  unfolding requireClusterStoppedForDelete_def by (intro keeps_intros)+

lemma wp_DeleteCluster:
  "wp (DeleteCluster cid) (\<lambda>r w'. r = Inr () \<and> cluster_gone cid (store w) (store w') \<or> isl r \<and> store w' = store w) w"
  unfolding DeleteCluster_def
proof (rule wp_require_cluster, goal_cases)
  case (2 c w1)
  have stop: "wp (requireClusterStoppedForDelete c) (\<lambda>_ w'. store w' = store w) w1"
    by (rule wp_keeps [OF keeps_requireClusterStopped(1) [of "\<lambda>d. d = store w"]]) (use 2 in auto)
  show ?case unfolding wp_try_do
    by (rule wp_mono [OF stop], split sum.split, use 2 in \<open>simp add: wp_delete_tx\<close>)
qed simp

lemma wp_ListByCluster:
  assumes "cid \<noteq> []"
  shows "wp (nodes_ListByCluster cid off lim) (\<lambda>r w'. store w' = store w \<and> the_env w' = the_env w \<and> (\<forall>ns t. r = Inr (ns, t) \<longrightarrow>
     (\<exists>ms. ns = map (attach_metric ms) (page off lim (by_role_then_age (filter (in_cluster cid) (nodes (store w)))))))) w"
  using assms
  by (auto simp: nodes_ListByCluster_def nodes_attachLatestMetrics_def Let_def wp_simps split: option.splits)

lemma in_whole_page:
  "length xs \<le> lim \<Longrightarrow> set (page 0 lim (by_role_then_age xs)) = set xs"
  by (simp add: page_all by_role_then_age_def)

lemma wp_requireStopped_running:
  assumes "n \<in> set (nodes (store w))" "in_cluster cid n" "node_running n" "Cluster_ID c = cid"
    and "length (filter (in_cluster cid) (nodes (store w))) \<le> maxClusterLifecycleNodes"
  shows "wp (requireClusterStoppedForDelete c) (\<lambda>r w'. isl r) w"
proof -
  have "cid \<noteq> []" using assms(2) by (simp add: in_cluster_def)
  have run: "\<exists>m\<in>set (map (attach_metric ms) (page 0 maxClusterLifecycleNodes
      (by_role_then_age (filter (in_cluster cid) (nodes (store w)))))). node_running m" for ms
    using assms in_whole_page [OF assms(5)] by (auto simp: node_running_def)
  show ?thesis
    unfolding requireClusterStoppedForDelete_def wp_or_status assms(4)
  proof (rule wp_mono [OF wp_ListByCluster [OF \<open>cid \<noteq> []\<close>]], goal_cases)
    case (1 r w1)
    then show ?case using run
      by (auto simp: wp_or_status wp_fail split: sum.splits intro!: wp_mono [OF wp_True]) blast
  qed
qed

section \<open>Properties: deleting\<close>

text \<open>
  C6: deleting a cluster is all or nothing. When it succeeds the cluster and its settings are gone,
  every node it had is back in the idle pool with no role, every command still pending for those
  nodes is failed, and nothing else of these tables has changed; when it fails, whichever statement
  failed, no table has changed.
\<close>

theorem delete_cluster_all_or_nothing:
  "case result (DeleteCluster cid) w of
     Inr _ \<Rightarrow> cluster_gone cid (store w) (store (after (DeleteCluster cid) w))
   | Inl _ \<Rightarrow> store (after (DeleteCluster cid) w) = store w"
  using wp_DeleteCluster [of cid w] by (auto simp: wp_outcome split: sum.splits)

text \<open>
  a cluster with a running node is never deleted: as long as it has no more nodes than the
  handler looks at, the request is refused and no table changes.
\<close>

theorem running_cluster_not_deleted:
  assumes "n \<in> set (nodes (store w))" "in_cluster cid n" "node_running n"
    and "length (filter (in_cluster cid) (nodes (store w))) \<le> maxClusterLifecycleNodes"
  shows "isl (result (DeleteCluster cid) w) \<and> store (after (DeleteCluster cid) w) = store w"
proof -
  have "wp (DeleteCluster cid) (\<lambda>r w'. isl r \<and> store w' = store w) w"
    unfolding DeleteCluster_def
  proof (rule wp_require_cluster, goal_cases)
    case (2 c w1)
    have "wp (requireClusterStoppedForDelete c) (\<lambda>r w'. isl r \<and> store w' = store w) w1"
      unfolding wp_conj
      by (intro conjI wp_requireStopped_running [of n _ cid] wp_keeps [OF keeps_requireClusterStopped(1) [of "\<lambda>d. d = store w"]])
        (use 2 assms in auto)
    then show ?case unfolding wp_try_do by (rule wp_mono) (auto split: sum.splits)
  qed simp
  then show ?thesis by (simp add: wp_outcome)
qed

theorem running_cluster_not_deleted_witness:
  "store (after (DeleteCluster ''c1'') (world_of sample_cluster_db)) = sample_cluster_db"
proof -
  have "isl (result (DeleteCluster ''c1'') (world_of sample_cluster_db)) \<and>
    store (after (DeleteCluster ''c1'') (world_of sample_cluster_db)) = store (world_of sample_cluster_db)"
    by (rule running_cluster_not_deleted [of "sample_node ''n2'' ''c1'' NodeRoleReplica NodeStatusOnline 20"])
      (auto simp: sample_cluster_db_def sample_node_def in_cluster_def node_running_def maxClusterLifecycleNodes_def)
  then show ?thesis by simp
qed

section \<open>Lifecycle operations: what they queue\<close>

definition queued_view :: "AgentCommand \<Rightarrow> string \<times> string \<times> string \<times> payload" where
  "queued_view c = (Cmd_AgentID c, Cmd_NodeID c, Cmd_Action c, Cmd_Payload c)"

definition requested_view :: "Node \<Rightarrow> provisioningCommand \<Rightarrow> string \<times> string \<times> string \<times> payload" where
  "requested_view n c = (Node_AgentID n, Node_ID n, Prov_action c, Prov_payload c)"

text \<open>New commands at the end of the queue, pending, as requested.\<close>

definition appended :: "(string \<times> string \<times> string \<times> payload) list \<Rightarrow> AgentCommand list \<Rightarrow> AgentCommand list \<Rightarrow> bool" where
  "appended req cs cs' \<longleftrightarrow> (\<exists>new. cs' = cs @ new \<and> map queued_view new = req \<and> (\<forall>c\<in>set new. Cmd_Status c = CommandStatusPending))"

lemma appended_Nil [simp]: "appended [] cs cs" by (simp add: appended_def)

lemma appended_trans: "appended a cs cs1 \<Longrightarrow> appended b cs1 cs2 \<Longrightarrow> appended (a @ b) cs cs2"
  unfolding appended_def by (elim exE) (rule exI [of _ "_ @ _"], auto)

definition mark_node :: "NodeStatus \<Rightarrow> string \<Rightarrow> Time \<Rightarrow> Node \<Rightarrow> Node" where
  "mark_node st det now n = n\<lparr>Node_Status := st, Node_StatusDetail := det, Node_UpdatedAt := now\<rparr>"

definition lifecycle_queued :: "provisioningCommand list \<Rightarrow> (Node \<Rightarrow> Node) \<Rightarrow> Node list \<Rightarrow> db \<Rightarrow> db \<Rightarrow> bool" where
  "lifecycle_queued cmds f ns d d' \<longleftrightarrow>
     (\<exists>cs. d' = d\<lparr>agent_commands := cs, nodes := upd_where (\<lambda>n. Node_ID n \<in> Node_ID ` set ns) f (nodes d)\<rparr> \<and>
       appended (concat (map (\<lambda>n. map (requested_view n) cmds) ns)) (agent_commands d) cs)"

lemma wp_lifecycle_commands:
  "wp (for_each cmds (\<lambda>c. do {
         cmdID \<leftarrow> id_New;
         try_do (commands_insert (command_row cmdID (Node_AgentID node) (Node_ID node) (Prov_action c) (Prov_payload c) now))
           (\<lambda>e. Inl (Status Internal (wrap (''queue '' @ Prov_action c @ '' for node '' @ Node_ID node) e)))
           (\<lambda>_. State_Monad.return (Inr ()))
       })) (\<lambda>r w'. \<forall>a. r = Inr a \<longrightarrow>
     (\<exists>cs. store w' = (store w)\<lparr>agent_commands := cs\<rparr> \<and>
       appended (map (requested_view node) cmds) (agent_commands (store w)) cs)) w"
  by (rule wp_for_each [where R = "\<lambda>xs w w'. \<exists>cs. store w' = (store w)\<lparr>agent_commands := cs\<rparr> \<and>
     appended (map (requested_view node) xs) (agent_commands (store w)) cs"])
    (auto simp: wp_simps commands_insert_def appended_def command_row_def queued_view_def requested_view_def
      intro: appended_trans [of "[_]", simplified] split: option.splits)

lemma wp_queue_lifecycle_node:
  "wp (queue_lifecycle_node cmds st det now node) (\<lambda>r w'. \<forall>a. r = Inr a \<longrightarrow>
     lifecycle_queued cmds (mark_node st det now) [node] (store w) (store w')) w"
  unfolding queue_lifecycle_node_def
  by (rule wp_try_doI [OF wp_lifecycle_commands], simp)
    (auto simp: wp_simps lifecycle_queued_def mark_node_def [abs_def] split: option.splits)

lemma wp_queue_lifecycle_nodes:
  "wp (for_each ns (queue_lifecycle_node cmds st det now)) (\<lambda>r w'. \<forall>a. r = Inr a \<longrightarrow>
     lifecycle_queued cmds (mark_node st det now) ns (store w) (store w')) w"
proof (rule wp_for_each [where R = "\<lambda>ns w w'. lifecycle_queued cmds (mark_node st det now) ns (store w) (store w')"], goal_cases)
  case 1
  show ?case by (rule wp_queue_lifecycle_node)
next
  case (2 w)
  show ?case by (simp add: lifecycle_queued_def upd_where_none exI [of _ "agent_commands (store w)"])
next
  case (3 x xs w w1 w2)
  then obtain c1 c2 where c: "store w1 = (store w)\<lparr>agent_commands := c1, nodes := upd_where (\<lambda>n. Node_ID n = Node_ID x) (mark_node st det now) (nodes (store w))\<rparr>"
      "appended (map (requested_view x) cmds) (agent_commands (store w)) c1"
      "store w2 = (store w1)\<lparr>agent_commands := c2, nodes := upd_where (\<lambda>n. Node_ID n \<in> Node_ID ` set xs) (mark_node st det now) (nodes (store w1))\<rparr>"
      "appended (concat (map (\<lambda>n. map (requested_view n) cmds) xs)) (agent_commands (store w1)) c2"
    by (auto simp: lifecycle_queued_def)
  have "upd_where (\<lambda>n. Node_ID n \<in> Node_ID ` set xs) (mark_node st det now)
        (upd_where (\<lambda>n. Node_ID n = Node_ID x) (mark_node st det now) (nodes (store w))) =
      upd_where (\<lambda>n. Node_ID n = Node_ID x \<or> Node_ID n \<in> Node_ID ` set xs) (mark_node st det now) (nodes (store w))"
    by (rule upd_where_twice) (simp_all add: mark_node_def)
  with c show ?case
    by (auto simp: lifecycle_queued_def intro!: exI [of _ c2] appended_trans [OF c(2)])
qed

definition eligible_nodes :: "string \<Rightarrow> db \<Rightarrow> Node list" where
  "eligible_nodes cid d = filter nodeEligibleForLifecycle
     (page 0 maxClusterLifecycleNodes (by_role_then_age (filter (in_cluster cid) (nodes d))))"

definition pending_on :: "string set \<Rightarrow> db \<Rightarrow> bool" where
  "pending_on ids d \<longleftrightarrow> (\<exists>c\<in>set (agent_commands d). Cmd_NodeID c \<in> ids \<and> Cmd_Status c = CommandStatusPending)"

text \<open>The effect of a lifecycle operation on the tables, apart from the audit log.\<close>

definition lifecycle_done ::
  "string \<Rightarrow> provisioningCommand list \<Rightarrow> ClusterStatus \<Rightarrow> NodeStatus \<Rightarrow> string \<Rightarrow> db \<Rightarrow> db \<Rightarrow> bool" where
  "lifecycle_done cid cmds cst nst det d d' \<longleftrightarrow>
     eligible_nodes cid d \<noteq> [] \<and> \<not> pending_on (Node_ID ` set (eligible_nodes cid d)) d \<and>
     (\<exists>now cs c. c \<in> set (clusters d) \<and> Cluster_ID c = cid \<and> Cluster_Status c \<noteq> ClusterStatusCreating \<and>
        Cluster_Status c \<noteq> ClusterStatusDeleting \<and>
        appended (concat (map (\<lambda>n. map (requested_view n) cmds) (eligible_nodes cid d))) (agent_commands d) cs \<and>
        d' = d\<lparr>agent_commands := cs,
          nodes := upd_where (\<lambda>n. Node_ID n \<in> Node_ID ` set (eligible_nodes cid d)) (mark_node nst det now) (nodes d),
          clusters := upd_where (\<lambda>c. Cluster_ID c = cid) (\<lambda>c. c\<lparr>Cluster_Status := cst, Cluster_UpdatedAt := now\<rparr>) (clusters d)\<rparr>)"

lemma length_filter_pending:
  "0 < length (filter (\<lambda>c. Cmd_NodeID c \<in> ids \<and> Cmd_Status c = CommandStatusPending) (agent_commands d)) \<longleftrightarrow> pending_on ids d"
  by (auto simp: pending_on_def filter_empty_conv)

lemma wp_lifecycle_tail:
  assumes "lifecycle_queued cmds (mark_node nst det now) (eligible_nodes cid d) d (store w1)"
    and "List.find (\<lambda>c. Cluster_ID c = cid) (clusters d) = Some c"
    and "Cluster_Status c \<noteq> ClusterStatusCreating" "Cluster_Status c \<noteq> ClusterStatusDeleting"
    and "eligible_nodes cid d \<noteq> []" "\<not> pending_on (Node_ID ` set (eligible_nodes cid d)) d"
  shows "lifecycle_done cid cmds cst nst det d ((store w1)\<lparr>clusters :=
     upd_where (\<lambda>c. Cluster_ID c = cid) (\<lambda>c. c\<lparr>Cluster_Status := cst, Cluster_UpdatedAt := now\<rparr>) (clusters (store w1))\<rparr>)"
proof -
  obtain cs where cs: "appended (concat (map (\<lambda>n. map (requested_view n) cmds) (eligible_nodes cid d))) (agent_commands d) cs"
    "store w1 = d\<lparr>agent_commands := cs, nodes := upd_where (\<lambda>n. Node_ID n \<in> Node_ID ` set (eligible_nodes cid d)) (mark_node nst det now) (nodes d)\<rparr>"
    using assms(1) by (auto simp: lifecycle_queued_def)
  show ?thesis
    unfolding lifecycle_done_def
    using assms(3-6) cs find_Some_iff_mem [OF assms(2)]
    by (intro conjI exI [of _ now] exI [of _ cs] exI [of _ c]) simp_all
qed

lemma wp_lifecycle_body:
  assumes "store w = d"
  shows "wp (lifecycle_body cid cmds cst nst det) (\<lambda>r w'. case r of
     Commit v \<Rightarrow> (\<exists>c n. v = Inr (c, n) \<and> Cluster_Status c = cst \<and> lifecycle_done cid cmds cst nst det d (store w'))
   | Abort v \<Rightarrow> isl v) w"
proof -
  have loop: "wp (try_tx (for_each (eligible_nodes cid d) (queue_lifecycle_node cmds nst det now)) Inl (\<lambda>_.
       or_status_tx Internal ''update cluster status''
         (sql_write (\<lambda>d. d\<lparr>clusters := upd_where (\<lambda>c. Cluster_ID c = cid)
            (\<lambda>c. c\<lparr>Cluster_Status := cst, Cluster_UpdatedAt := now\<rparr>) (clusters d)\<rparr>)) (\<lambda>_.
       State_Monad.return (Commit (Inr (cl\<lparr>Cluster_Status := cst, Cluster_UpdatedAt := now\<rparr>, length (eligible_nodes cid d)))))))
     (\<lambda>r w'. case r of
       Commit v \<Rightarrow> (\<exists>c n. v = Inr (c, n) \<and> Cluster_Status c = cst \<and> lifecycle_done cid cmds cst nst det d (store w'))
     | Abort v \<Rightarrow> isl v) w1"
    if "store w1 = d" "List.find (\<lambda>c. Cluster_ID c = cid) (clusters d) = Some cl"
      "Cluster_Status cl \<noteq> ClusterStatusCreating" "Cluster_Status cl \<noteq> ClusterStatusDeleting"
      "eligible_nodes cid d \<noteq> []" "\<not> pending_on (Node_ID ` set (eligible_nodes cid d)) d" for w1 cl now
  proof (rule wp_try_txI [OF wp_queue_lifecycle_nodes], simp, goal_cases)
    case (1 _ w2)
    then show ?case
      using that wp_lifecycle_tail [of cmds nst det now cid d w2, OF _ that(2-6)] find_Some_iff_mem [OF that(2)]
      by (simp add: wp_simps split: option.splits)
  qed
  have el: "filter nodeEligibleForLifecycle (page 0 maxClusterLifecycleNodes (by_role_then_age (filter (in_cluster cid) (nodes d)))) =
    eligible_nodes cid d" by (simp add: eligible_nodes_def)
  have none: "page 0 maxClusterLifecycleNodes (by_role_then_age (filter (in_cluster cid) (nodes d))) = [] \<Longrightarrow> eligible_nodes cid d = []"
    by (simp add: eligible_nodes_def)
  show ?thesis
  proof (cases "List.find (\<lambda>c. Cluster_ID c = cid) (clusters d)")
    case None
    then show ?thesis by (simp add: lifecycle_body_def wp_or_status_tx wp_query wp_fail assms split: option.splits)
  next
    case (Some cl)
    then have cl: "Cluster_ID cl = cid" by (auto dest: find_Some_iff_mem)
    show ?thesis
      unfolding lifecycle_body_def wp_or_status_tx wp_query assms clusterNodesForLifecycle_def hasPendingClusterCommands_def Let_def
      using Some none
      by (auto simp: wp_or_status_tx wp_query wp_fail cl assms el length_filter_pending [unfolded length_greater_0_conv]
          wp_bind wp_time_now wp_return image_image simp flip: set_map split: option.splits intro!: loop [OF _ Some])
  qed
qed

lemma wp_audit_lifecycle:
  "wp (auditClusterLifecycle svc ctx cid op n) (\<lambda>_ w'. the_env w' = the_env w \<and> (\<exists>logs. store w' = (store w)\<lparr>audit_logs := logs\<rparr>)) w"
proof -
  have [intro]: "\<exists>logs. store w = (store w)\<lparr>audit_logs := logs\<rparr>"
    by (rule exI [of _ "audit_logs (store w)"]) simp
  show ?thesis
    unfolding auditClusterLifecycle_def by (auto simp: wp_simps intro!: wp_audit_Log)
qed

lemma lifecycle_done_frame:
  "lifecycle_done cid cmds cst nst det d d' \<Longrightarrow> audit_logs d' = audit_logs d"
  by (auto simp: lifecycle_done_def)

lemma wp_queueClusterLifecycle:
  "wp (queueClusterLifecycle svc ctx cid op cmds cst nst det) (\<lambda>r w'. case r of
     Inl _ \<Rightarrow> store w' = store w
   | Inr c \<Rightarrow> cid \<noteq> [] \<and> UserRoleFromContext ctx \<noteq> RoleViewer \<and> Cluster_Status c = cst \<and>
       lifecycle_done cid cmds cst nst det (store w) ((store w')\<lparr>audit_logs := audit_logs (store w)\<rparr>)) w"
proof -
  let ?C = "\<lambda>v d'. \<exists>c n. v = Inr (c, n) \<and> Cluster_Status c = cst \<and> lifecycle_done cid cmds cst nst det (store w) d'"
  let ?tx = "in_tx (\<lambda>e. Inl (Status Internal (wrap ''begin transaction'' e)))
      (\<lambda>e. Inl (Status Internal (wrap ''commit lifecycle operation'' e))) (lifecycle_body cid cmds cst nst det)"
  have tx: "wp ?tx (\<lambda>v w'. ?C v (store w') \<or> isl v \<and> store w' = store w) w"
    by (rule wp_in_tx_outcome [where A = isl and C = ?C]) (rule wp_lifecycle_body, simp_all)
  have "wp (try_do ?tx Inl (\<lambda>(cluster, n). do {
          _ \<leftarrow> auditClusterLifecycle svc ctx (Cluster_ID cluster) op n; reply cluster })) (\<lambda>r w'. case r of
     Inl _ \<Rightarrow> store w' = store w
   | Inr c \<Rightarrow> Cluster_Status c = cst \<and>
       lifecycle_done cid cmds cst nst det (store w) ((store w')\<lparr>audit_logs := audit_logs (store w)\<rparr>)) w"
    unfolding wp_try_do
  proof (rule wp_mono [OF tx], goal_cases)
    case (1 v w1)
    have frame: "(store w1)\<lparr>audit_logs := audit_logs (store w)\<rparr> = store w1"
      if "lifecycle_done cid cmds cst nst det (store w) (store w1)"
      using lifecycle_done_frame [OF that] by (metis db.surjective db.update_convs(17))
    from 1 show ?case
      by (elim disjE exE conjE)
        (auto simp: wp_simps frame split: sum.splits intro!: wp_mono [OF wp_audit_lifecycle])
  qed
  then show ?thesis
    unfolding queueClusterLifecycle_def by (auto simp: wp_fail elim!: wp_mono split: sum.splits)
qed

section \<open>Properties: lifecycle operations\<close>

text \<open>
  C7: a lifecycle operation (start, pause, restart) is all or nothing. It succeeds only for a caller
  who is not a viewer, on a cluster that is neither being created nor deleted, when some node is
  ready and no command is pending for the ready nodes; then exactly the requested commands are
  queued, in order, for each ready node, these nodes are marked and the cluster takes the target
  status. Otherwise no table changes, whichever statement failed. (Only the audit log is outside
  the transaction.)
\<close>

theorem lifecycle_all_or_nothing:
  "case result (queueClusterLifecycle svc ctx cid op cmds cst nst det) w of
     Inl _ \<Rightarrow> store (after (queueClusterLifecycle svc ctx cid op cmds cst nst det) w) = store w
   | Inr c \<Rightarrow> cid \<noteq> [] \<and> UserRoleFromContext ctx \<noteq> RoleViewer \<and> Cluster_Status c = cst \<and>
       lifecycle_done cid cmds cst nst det (store w)
         ((store (after (queueClusterLifecycle svc ctx cid op cmds cst nst det) w))\<lparr>audit_logs := audit_logs (store w)\<rparr>)"
  using wp_queueClusterLifecycle [of svc ctx cid op cmds cst nst det w] by (simp add: wp_outcome)

lemma eligible_nodes_mark:
  "eligible_nodes cid (d\<lparr>agent_commands := cs, nodes := upd_where p (mark_node st det now) (nodes d), clusters := cl, audit_logs := logs\<rparr>) =
   map (\<lambda>n. if p n then mark_node st det now n else n) (eligible_nodes cid d)"
proof -
  let ?g = "\<lambda>n. if p n then mark_node st det now n else n"
  have [simp]: "in_cluster cid \<circ> ?g = in_cluster cid" "nodeEligibleForLifecycle \<circ> ?g = nodeEligibleForLifecycle"
    by (auto simp: in_cluster_def mark_node_def nodeEligibleForLifecycle_def fun_eq_iff)
  have "sort_key (\<lambda>n. (role_text (Node_Role n), Node_CreatedAt n)) (map ?g ns) =
      map ?g (sort_key (\<lambda>n. (role_text (Node_Role n), Node_CreatedAt n)) ns)" for ns
    by (rule sort_key_map_same) (simp add: mark_node_def)
  then show ?thesis
    by (simp add: eligible_nodes_def upd_where_def filter_map page_def by_role_then_age_def take_map)
qed

lemma appended_pending:
  assumes "appended req cs cs'" "(a, n, act, p) \<in> set req"
  shows "\<exists>c\<in>set cs'. Cmd_NodeID c = n \<and> Cmd_Status c = CommandStatusPending"
  using assms by (fastforce simp: appended_def queued_view_def)

lemma lifecycle_done_pending:
  assumes "lifecycle_done cid cmds cst nst det d (d'\<lparr>audit_logs := audit_logs d\<rparr>)" "cmds \<noteq> []"
  shows "pending_on (Node_ID ` set (eligible_nodes cid d')) d'"
proof -
  obtain now cs where q: "appended (concat (map (\<lambda>n. map (requested_view n) cmds) (eligible_nodes cid d))) (agent_commands d) cs"
      and d': "d'\<lparr>audit_logs := audit_logs d\<rparr> = d\<lparr>agent_commands := cs,
          nodes := upd_where (\<lambda>n. Node_ID n \<in> Node_ID ` set (eligible_nodes cid d)) (mark_node nst det now) (nodes d),
          clusters := upd_where (\<lambda>c. Cluster_ID c = cid) (\<lambda>c. c\<lparr>Cluster_Status := cst, Cluster_UpdatedAt := now\<rparr>) (clusters d)\<rparr>"
    using assms(1) by (auto simp: lifecycle_done_def)
  obtain n where n: "n \<in> set (eligible_nodes cid d)" using assms(1) by (cases "eligible_nodes cid d") (auto simp: lifecycle_done_def)
  obtain c where c: "c \<in> set cmds" using assms(2) by (cases cmds) auto
  have "(Node_AgentID n, Node_ID n, Prov_action c, Prov_payload c) \<in> set (concat (map (\<lambda>n. map (requested_view n) cmds) (eligible_nodes cid d)))"
    using n c by (force simp: requested_view_def)
  from appended_pending [OF q this]
  obtain k where k: "k \<in> set cs" "Cmd_NodeID k = Node_ID n" "Cmd_Status k = CommandStatusPending" by blast
  have d2: "d' = d\<lparr>agent_commands := cs,
          nodes := upd_where (\<lambda>n. Node_ID n \<in> Node_ID ` set (eligible_nodes cid d)) (mark_node nst det now) (nodes d),
          clusters := upd_where (\<lambda>c. Cluster_ID c = cid) (\<lambda>c. c\<lparr>Cluster_Status := cst, Cluster_UpdatedAt := now\<rparr>) (clusters d),
          audit_logs := audit_logs d'\<rparr>"
    using arg_cong [OF d', of "\<lambda>x. x\<lparr>audit_logs := audit_logs d'\<rparr>"] by simp
  have e: "eligible_nodes cid d' = map (\<lambda>m. if Node_ID m \<in> Node_ID ` set (eligible_nodes cid d) then mark_node nst det now m else m) (eligible_nodes cid d)"
    by (subst d2) (rule eligible_nodes_mark)
  have a: "agent_commands d' = cs" using arg_cong [OF d2, of agent_commands] by simp
  have "Node_ID ` set (eligible_nodes cid d') = Node_ID ` set (eligible_nodes cid d)"
    unfolding e set_map image_image by (rule image_cong) (simp_all add: mark_node_def)
  then show ?thesis unfolding pending_on_def a using k n by (intro bexI [of _ k]) simp_all
qed

text \<open>
  lifecycle operations exclude each other: after one has succeeded, another one on the same
  cluster is refused and changes nothing, because the commands of the first are still pending.
\<close>

theorem lifecycle_exclusive:
  assumes "result (queueClusterLifecycle svc ctx cid op cmds cst nst det) w = Inr c" "cmds \<noteq> []"
    and "store w' = store (after (queueClusterLifecycle svc ctx cid op cmds cst nst det) w)"
  shows "isl (result (queueClusterLifecycle svc' ctx' cid op' cmds' cst' nst' det') w') \<and>
    store (after (queueClusterLifecycle svc' ctx' cid op' cmds' cst' nst' det') w') = store w'"
proof -
  have "lifecycle_done cid cmds cst nst det (store w) ((store w')\<lparr>audit_logs := audit_logs (store w)\<rparr>)"
    using wp_queueClusterLifecycle [of svc ctx cid op cmds cst nst det w] assms(1,3) by (simp add: wp_outcome)
  from lifecycle_done_pending [OF this assms(2)]
  have "\<not> lifecycle_done cid cmds' cst' nst' det' (store w') x" for x by (simp add: lifecycle_done_def)
  then show ?thesis
    using wp_queueClusterLifecycle [of svc' ctx' cid op' cmds' cst' nst' det' w'] by (simp add: wp_outcome split: sum.splits)
qed

definition sample_service :: ClusterService where
  "sample_service = \<lparr>CS_audit = False, CS_clusterSecrets = None, CS_commandSecrets = None, CS_failoverEngine = Some sample_engine\<rparr>"

definition admin_ctx :: request_context where
  "admin_ctx = \<lparr>UserIDFromContext = ''u1'', UserRoleFromContext = RoleAdmin, UserEmailFromContext = ''u1@example.org''\<rparr>"

definition one_node_db :: db where
  "one_node_db = empty_db\<lparr>clusters := [sample_cluster ''c1'' ClusterStatusRunning],
     nodes := [sample_node ''n1'' ''c1'' NodeRolePrimary NodeStatusOnline 10]\<rparr>"

lemma sample_pause_runs:
  "\<exists>c. result (queueClusterLifecycle sample_service admin_ctx ''c1'' ''pause'' [pcmd ''pg_stop'' (Text [])]
     ClusterStatusStopped NodeStatusOffline ''stopping'') (world_of one_node_db) = Inr c"
proof -
  have "wp (queueClusterLifecycle sample_service admin_ctx ''c1'' ''pause'' [pcmd ''pg_stop'' (Text [])]
     ClusterStatusStopped NodeStatusOffline ''stopping'') (\<lambda>r _. \<exists>c. r = Inr c) (world_of one_node_db)"
    by (simp add: queueClusterLifecycle_def admin_ctx_def sample_service_def lifecycle_body_def one_node_db_def sample_cluster_def
        sample_node_def clusterNodesForLifecycle_def page_def by_role_then_age_def maxClusterLifecycleNodes_def in_cluster_def
        nodeEligibleForLifecycle_def Let_def hasPendingClusterCommands_def queue_lifecycle_node_def pcmd_def commands_insert_def
        command_row_def auditClusterLifecycle_def wp_in_tx wp_simps)
  then show ?thesis by (simp add: wp_outcome)
qed

theorem lifecycle_exclusive_witness:
  "isl (result (queueClusterLifecycle sample_service admin_ctx ''c1'' ''start'' [pcmd ''pg_start'' (Text [])] ClusterStatusRunning NodeStatusOnline ''starting'')
     (after (queueClusterLifecycle sample_service admin_ctx ''c1'' ''pause'' [pcmd ''pg_stop'' (Text [])]
        ClusterStatusStopped NodeStatusOffline ''stopping'') (world_of one_node_db)))"
proof -
  obtain c where "result (queueClusterLifecycle sample_service admin_ctx ''c1'' ''pause'' [pcmd ''pg_stop'' (Text [])]
     ClusterStatusStopped NodeStatusOffline ''stopping'') (world_of one_node_db) = Inr c" using sample_pause_runs by blast
  from lifecycle_exclusive [OF this _ refl] show ?thesis by simp
qed

end
