(* ===== verification/ClusterCreate.thy ===== *)
theory ClusterCreate
  imports ClusterLifecycle
begin

text \<open>
  What \<open>CreateCluster\<close> of \<open>internal/server/cluster_service.go\<close> does to clusters and nodes
  (\<open>cluster_created\<close>), and that it keeps the invariants of the topology: at most one primary per
  cluster and no node of a cluster that does not exist.
\<close>

section \<open>The selected nodes\<close>

lemma rows_by_id_mem: "rows_by_id ids ns i = Some n \<Longrightarrow> n \<in> set ns \<and> Node_ID n = i"
  by (auto simp: rows_by_id_def dest!: find_Some_iff_mem)

text \<open>The nodes come back in the order they were asked for, one for each identifier.\<close>

lemma wp_GetByIDs:
  "wp (nodes_GetByIDs ids) (\<lambda>r w'. store w' = store w \<and> the_env w' = the_env w \<and> n_uuid w' = n_uuid w \<and>
     (\<forall>ns. r = Inr ns \<longrightarrow> map Node_ID ns = ids \<and> (\<forall>n\<in>set ns. \<exists>m\<in>set (nodes (store w)).
        Node_ID m = Node_ID n \<and> Node_ClusterID m = Node_ClusterID n \<and> Node_AgentID m = Node_AgentID n))) w"
proof -
  let ?by = "rows_by_id ids (nodes (store w))"
  have "map Node_ID (map (attach_metric ms) (List.map_filter ?by ids)) = ids \<and>
      (\<forall>n\<in>set (map (attach_metric ms) (List.map_filter ?by ids)). \<exists>m\<in>set (nodes (store w)).
        Node_ID m = Node_ID n \<and> Node_ClusterID m = Node_ClusterID n \<and> Node_AgentID m = Node_AgentID n)"
    if "filter (\<lambda>i. ?by i = None) ids = []" for ms
  proof -
    have total: "\<forall>i\<in>set ids. ?by i \<noteq> None" using that by (simp add: filter_empty_conv)
    then have "the (?by i) \<in> set (nodes (store w)) \<and> Node_ID (the (?by i)) = i" if "i \<in> set ids" for i
      using that rows_by_id_mem [of ids "nodes (store w)" i] by force
    then show ?thesis unfolding map_filter_total [OF total] by (auto simp: map_idI)
  qed
  then show ?thesis
    by (auto simp: nodes_GetByIDs_def nodes_attachLatestMetrics_def Let_def wp_simps split: option.splits)
qed

lemma check_selected_ok: "check_selected ns = None \<Longrightarrow> \<forall>n\<in>set ns. Node_ClusterID n = [] \<and> Node_AgentID n \<noteq> []"
  by (auto simp: check_selected_def Let_def filter_empty_conv split: if_splits)

section \<open>Assigning them\<close>

definition assign_all :: "string \<Rightarrow> ServiceLocation \<Rightarrow> Time \<Rightarrow> (string \<times> NodeRole) list \<Rightarrow> Node list \<Rightarrow> Node list" where
  "assign_all cid loc now prs ns = map (\<lambda>m. case map_of prs (Node_ID m) of None \<Rightarrow> m | Some r \<Rightarrow> assign_node cid loc now r m) ns"

lemma assign_all_Cons:
  assumes "i \<notin> fst ` set prs"
  shows "assign_all cid loc now prs (upd_where (\<lambda>m. Node_ID m = i) (assign_node cid loc now r) ns) =
    assign_all cid loc now ((i, r) # prs) ns"
proof -
  have "map_of prs i = None" using assms by (simp add: map_of_eq_None_iff)
  then show ?thesis by (auto simp: assign_all_def upd_where_def assign_node_def)
qed

lemma wp_assign_nodes:
  assumes "distinct (map (Node_ID \<circ> fst) nrs)"
  shows "wp (assign_nodes cid loc now nrs) (\<lambda>r w'. \<forall>a. r = Inr a \<longrightarrow>
     store w' = (store w)\<lparr>nodes := assign_all cid loc now (map (\<lambda>(n, r). (Node_ID n, r)) nrs) (nodes (store w))\<rparr>) w"
  using assms unfolding assign_nodes_def
proof (induction nrs arbitrary: w)
  case Nil
  show ?case by (simp add: wp_simps assign_all_def)
next
  case (Cons nr nrs)
  obtain n r where nr: "nr = (n, r)" by fastforce
  have *: "Node_ID n \<notin> fst ` set (map (\<lambda>(n, r). (Node_ID n, r)) nrs)" using Cons.prems nr by force
  have "wp (try_do (sql_write (\<lambda>d. d\<lparr>nodes := upd_where (\<lambda>m. Node_ID m = Node_ID n) (assign_node cid loc now r) (nodes d)\<rparr>))
      (\<lambda>e. Inl (Status Internal (wrap (''assign node '' @ Node_ID n) e))) (\<lambda>_. State_Monad.return (Inr ())))
    (\<lambda>r' w1. \<forall>a. r' = Inr a \<longrightarrow> store w1 = (store w)\<lparr>nodes :=
       upd_where (\<lambda>m. Node_ID m = Node_ID n) (assign_node cid loc now r) (nodes (store w))\<rparr>) w"
    by (simp add: wp_simps split: option.splits)
  then show ?case unfolding nr for_each.simps prod.case
  proof (rule wp_try_doI, goal_cases)
    case (2 _ w1)
    show ?case
      by (rule wp_mono [OF Cons.IH]) (use Cons.prems 2 assign_all_Cons [OF *] in \<open>auto simp: nr\<close>)
  qed simp
qed

lemma zip_roles:
  "ns \<noteq> [] \<Longrightarrow> map (\<lambda>(n, r). (Node_ID n, r)) (zip ns (node_roles ns)) = zip (map Node_ID ns) (node_roles ns)"
  "map (Node_ID \<circ> fst) (zip ns (node_roles ns)) = map Node_ID ns"
proof -
  have len: "length (node_roles ns) = length ns" by (simp add: node_roles_def split: list.splits)
  show "map (\<lambda>(n, r). (Node_ID n, r)) (zip ns (node_roles ns)) = zip (map Node_ID ns) (node_roles ns)"
    by (simp add: zip_map1)
  show "map (Node_ID \<circ> fst) (zip ns (node_roles ns)) = map Node_ID ns"
    using len by (simp flip: map_map)
qed

lemma map_of_roles:
  assumes "distinct ids" "ids = map Node_ID ns" "ns \<noteq> []"
  shows "map_of (zip ids (node_roles ns)) i =
    (if i \<notin> set ids then None else if i = hd ids then Some NodeRolePrimary else Some NodeRoleReplica)"
proof -
  obtain n rest where ns: "ns = n # rest" using assms(3) by (cases ns) auto
  have rep: "map_of (zip (map Node_ID ms) (map (\<lambda>_. NodeRoleReplica) ms)) i =
      (if i \<in> Node_ID ` set ms then Some NodeRoleReplica else None)" for ms by (induction ms) auto
  show ?thesis using assms(1,2) rep [of rest] by (cases "i = Node_ID n") (simp_all add: ns node_roles_def del: map_of_eq_Some_iff)
qed

text \<open>What \<open>CreateCluster\<close> does to clusters and nodes.\<close>

definition cluster_created :: "string \<Rightarrow> string list \<Rightarrow> db \<Rightarrow> db \<Rightarrow> bool" where
  "cluster_created cid ids d d' \<longleftrightarrow>
     (\<exists>c. clusters d' = clusters d @ [c] \<and> Cluster_ID c = cid \<and> Cluster_Status c = ClusterStatusCreating) \<and>
     cid \<notin> Cluster_ID ` set (clusters d) \<and> ids \<noteq> [] \<and> set ids \<subseteq> Node_ID ` set (nodes d) \<and>
     list_all2 (\<lambda>n n'. Node_ID n' = Node_ID n \<and>
        (if Node_ID n \<in> set ids
         then Node_ClusterID n = [] \<and> Node_AgentID n \<noteq> [] \<and> Node_ClusterID n' = cid \<and>
              Node_Role n' = (if Node_ID n = hd ids then NodeRolePrimary else NodeRoleReplica)
         else n' = n)) (nodes d) (nodes d')"

lemma wp_create_cluster_tx:
  assumes ns: "map Node_ID ns = ids" "distinct ids" and pk: "nodes_table.pk (store w)"
    and sel: "\<forall>n\<in>set ns. \<exists>m\<in>set (nodes (store w)). Node_ID m = Node_ID n \<and> Node_ClusterID m = [] \<and> Node_AgentID m \<noteq> []"
    and c: "Cluster_Status c = ClusterStatusCreating"
  shows "wp (create_cluster_tx c ns) (\<lambda>r w'. r = Inr () \<and> cluster_created (Cluster_ID c) ids (store w) (store w') \<or>
     isl r \<and> store w' = store w) w"
proof -
  let ?nodes = "assign_all (Cluster_ID c) (Cluster_ServiceLocation c) (Cluster_CreatedAt c) (zip ids (node_roles ns)) (nodes (store w))"
  have dist: "distinct (map (Node_ID \<circ> fst) (zip ns (node_roles ns)))" using ns zip_roles(2) [of ns] by simp
  have idle: "Node_ClusterID m = [] \<and> Node_AgentID m \<noteq> []" if "m \<in> set (nodes (store w))" "Node_ID m \<in> set ids" for m
    using that sel ns nodes_table.unique_same [OF pk] by fastforce
  have created: "cluster_created (Cluster_ID c) ids (store w) ((store w)\<lparr>clusters := clusters (store w) @ [c], nodes := ?nodes\<rparr>)"
    if "ns \<noteq> []" "Cluster_ID c \<notin> Cluster_ID ` set (clusters (store w))"
  proof -
    have "set ids \<subseteq> Node_ID ` set (nodes (store w))" unfolding ns(1) [symmetric] set_map
      using sel by (metis (no_types, lifting) image_eqI image_subsetI)
    moreover have "ids \<noteq> []" using that ns by auto
    ultimately show ?thesis
      using that c idle map_of_roles [OF ns(2) ns(1) [symmetric] that(1)]
      by (auto simp: cluster_created_def assign_all_def list.rel_map list_all2_same assign_node_def)
  qed
  show ?thesis
    unfolding create_cluster_tx_def
    by (rule wp_in_tx_outcome [where A = isl and C = "\<lambda>r d. r = Inr () \<and> cluster_created (Cluster_ID c) ids (store w) d"])
      (auto simp: wp_simps clusters_insert_def ns(1) zip_roles(1) intro!: wp_mono [OF wp_assign_nodes [OF dist]] created
        split: option.splits sum.splits)
qed

section \<open>Queueing the commands leaves clusters and nodes alone\<close>

abbreviation same_topology :: "Cluster list \<Rightarrow> Node list \<Rightarrow> db \<Rightarrow> bool" where
  "same_topology cs ns d \<equiv> clusters d = cs \<and> nodes d = ns"

lemma keeps_topology_secrets [keeps_intros]:
  "keeps_db (same_topology cs ns) (csecrets_StoreSecret r cid k pt)"
  "keeps_db (same_topology cs ns) (secrets_CreateCommandWithSecrets r' a n act p ss x)"
  unfolding csecrets_StoreSecret_def secrets_CreateCommandWithSecrets_def attach_secrets_def Let_def commands_insert_def
  by (intro keeps_intros keeps_exec keeps_insertCommandSecret; auto split: if_splits)+

lemma keeps_topology_queue [keeps_intros]:
  "keeps_db (same_topology cs ns) (queueNodeCommands n cmds)"
  "keeps_db (same_topology cs ns) (queueAdminRoleCommand svc pr cid loc)"
  "keeps_db (same_topology cs ns) (queuePrimaryCommands pr v loc)"
  "keeps_db (same_topology cs ns) (queueReplicaCommands re pr v loc)"
  unfolding queuePrimaryCommands_def queueReplicaCommands_def queueNodeCommands_def queueAdminRoleCommand_def
  by (intro keeps_intros keeps_commands_Create; simp)+

lemma wp_queue_provisioning:
  "wp (queue_provisioning svc c ns) (\<lambda>r w'. clusters (store w') = clusters (store w) \<and> nodes (store w') = nodes (store w) \<and>
     (\<forall>p. r = Inr p \<longrightarrow> p = clusterToProto c)) w"
proof -
  have "keeps_db (same_topology (clusters (store w)) (nodes (store w))) (queue_provisioning svc c ns)"
    unfolding queue_provisioning_def Let_def by (intro keeps_intros)
  then have "wp (queue_provisioning svc c ns) (\<lambda>_ w'. clusters (store w') = clusters (store w) \<and> nodes (store w') = nodes (store w)) w"
    by (rule wp_keeps) auto
  moreover have "wp (queue_provisioning svc c ns) (\<lambda>r _. \<forall>p. r = Inr p \<longrightarrow> p = clusterToProto c) w"
    unfolding queue_provisioning_def Let_def
    by (intro wp_or_statusI [where R = "\<lambda>_ _. True"]) (auto simp: wp_fail intro!: wp_mono [OF wp_True])
  ultimately show ?thesis by (simp add: wp_outcome)
qed

lemma cluster_created_topology:
  "clusters d1 = clusters d2 \<Longrightarrow> nodes d1 = nodes d2 \<Longrightarrow> cluster_created cid ids d d1 = cluster_created cid ids d d2"
  by (simp add: cluster_created_def)

lemma new_cluster_fields [simp]:
  "Cluster_ID (new_cluster i now name cfg) = i" "Cluster_Status (new_cluster i now name cfg) = ClusterStatusCreating"
  by (simp_all add: new_cluster_def Let_def)

lemma wp_create_phases:
  assumes "map Node_ID ns = ids" "distinct ids" "nodes_table.pk (store w)"
    and "\<forall>n\<in>set ns. \<exists>m\<in>set (nodes (store w)). Node_ID m = Node_ID n \<and> Node_ClusterID m = [] \<and> Node_AgentID m \<noteq> []"
    and "Cluster_Status c = ClusterStatusCreating"
  shows "wp (try_do (create_cluster_tx c ns) Inl (\<lambda>_. queue_provisioning svc c ns)) (\<lambda>r w'.
     cluster_created (Cluster_ID c) ids (store w) (store w') \<and> (\<forall>p. r = Inr p \<longrightarrow> PC_Id p = Cluster_ID c) \<or>
     isl r \<and> store w' = store w) w"
  unfolding wp_try_do
proof (rule wp_mono [OF wp_create_cluster_tx [OF assms]], goal_cases)
  case (1 r w1)
  have "wp (queue_provisioning svc c ns) (\<lambda>r w'.
      cluster_created (Cluster_ID c) ids (store w) (store w') \<and> (\<forall>p. r = Inr p \<longrightarrow> PC_Id p = Cluster_ID c)) w1"
    if "cluster_created (Cluster_ID c) ids (store w) (store w1)"
    by (rule wp_mono [OF wp_queue_provisioning])
      (use that in \<open>auto intro: cluster_created_topology [THEN iffD2]\<close>)
  with 1 show ?case by (auto split: sum.splits elim!: wp_mono)
qed

lemma wp_CreateCluster:
  assumes "distinct (Create_NodeIds req)" "nodes_table.pk (store w)"
  shows "wp (CreateCluster svc req) (\<lambda>r w'.
     cluster_created (uuid (the_env w) (n_uuid w)) (Create_NodeIds req) (store w) (store w') \<and>
       (\<forall>p. r = Inr p \<longrightarrow> PC_Id p = uuid (the_env w) (n_uuid w)) \<or>
     isl r \<and> store w' = store w) w" (is "wp _ ?Q w")
proof (cases "Create_Config req")
  case None
  then show ?thesis by (simp add: CreateCluster_def wp_fail)
next
  case (Some cfg)
  have selected: "wp (case check_selected ns of
                Some e \<Rightarrow> State_Monad.return (Inl e)
              | None \<Rightarrow> do {
                  clusterID \<leftarrow> id_New;
                  now \<leftarrow> time_now;
                  let cluster = new_cluster clusterID now (Create_Name req) cfg;
                  try_do (create_cluster_tx cluster ns) Inl (\<lambda>_. queue_provisioning svc cluster ns)
                }) ?Q w1"
    if "store w1 = store w" "the_env w1 = the_env w" "n_uuid w1 = n_uuid w" "map Node_ID ns = Create_NodeIds req"
      "\<forall>n\<in>set ns. \<exists>m\<in>set (nodes (store w)). Node_ID m = Node_ID n \<and> Node_ClusterID m = Node_ClusterID n \<and> Node_AgentID m = Node_AgentID n"
    for w1 ns
  proof (cases "check_selected ns")
    case None
    have "\<forall>n\<in>set ns. \<exists>m\<in>set (nodes (store w)). Node_ID m = Node_ID n \<and> Node_ClusterID m = [] \<and> Node_AgentID m \<noteq> []"
      using check_selected_ok [OF None] that(5) by fastforce
    then show ?thesis
      using that assms None wp_create_phases [of ns "Create_NodeIds req" "w1\<lparr>n_uuid := Suc (n_uuid w), n_now := Suc (n_now w1)\<rparr>"
          "new_cluster (uuid (the_env w) (n_uuid w)) (clock (the_env w) (n_now w1)) (Create_Name req) cfg" svc]
      by (simp add: wp_bind wp_id_New wp_time_now Let_def)
  qed (simp add: wp_return that)
  have get: "wp (or_status NotFound ''resolve node_ids'' (nodes_GetByIDs (Create_NodeIds req)) (\<lambda>ns. case check_selected ns of
                Some e \<Rightarrow> State_Monad.return (Inl e)
              | None \<Rightarrow> do {
                  clusterID \<leftarrow> id_New;
                  now \<leftarrow> time_now;
                  let cluster = new_cluster clusterID now (Create_Name req) cfg;
                  try_do (create_cluster_tx cluster ns) Inl (\<lambda>_. queue_provisioning svc cluster ns)
                })) ?Q w1"
    if "store w1 = store w" "the_env w1 = the_env w" "n_uuid w1 = n_uuid w" for w1
    unfolding wp_or_status
  proof (rule wp_mono [OF wp_GetByIDs], split sum.split, intro conjI allI impI, goal_cases)
    case (2 r w2 ns)
    then show ?case using that by (intro selected) auto
  qed (use that in auto)
  show ?thesis
    unfolding CreateCluster_def Some option.case wp_or_status clusters_GetByName_def wp_wrap_err wp_query Let_def
    by (auto split: option.split simp: wp_fail intro!: get [unfolded Let_def])
qed

section \<open>One primary\<close>

text \<open>Referential integrity: a node belongs to no cluster or to one that exists.\<close>

definition refs_ok :: "db \<Rightarrow> bool" where
  "refs_ok d \<longleftrightarrow> (\<forall>n\<in>set (nodes d). Node_ClusterID n = [] \<or> Node_ClusterID n \<in> Cluster_ID ` set (clusters d))"

lemma cluster_created_primaries:
  assumes "cluster_created cid ids d d'" "nodes_table.pk d" "refs_ok d" "cid \<noteq> []"
  shows "map Node_ID (primaries cid d') = [hd ids]" "nodes_table.pk d'" "refs_ok d'"
    "cid' \<noteq> cid \<Longrightarrow> primaries cid' d' = primaries cid' d"
proof -
  let ?R = "\<lambda>n n'. Node_ID n' = Node_ID n \<and>
        (if Node_ID n \<in> set ids
         then Node_ClusterID n = [] \<and> Node_AgentID n \<noteq> [] \<and> Node_ClusterID n' = cid \<and>
              Node_Role n' = (if Node_ID n = hd ids then NodeRolePrimary else NodeRoleReplica)
         else n' = n)"
  have R: "list_all2 ?R (nodes d) (nodes d')" and fresh: "cid \<notin> Cluster_ID ` set (clusters d)"
    and ids: "ids \<noteq> []" "set ids \<subseteq> Node_ID ` set (nodes d)"
    and cl: "Cluster_ID ` set (clusters d') = insert cid (Cluster_ID ` set (clusters d))"
    using assms(1) by (auto simp: cluster_created_def)
  have keys: "map Node_ID (nodes d') = map Node_ID (nodes d)" using list_all2_map_eq [OF R, of Node_ID] by simp
  show pk: "nodes_table.pk d'" using assms(2) keys by (simp add: nodes_table.unique_def)
  have old: "Node_ClusterID n \<noteq> cid" if "n \<in> set (nodes d)" for n
    using that assms(3,4) fresh by (auto simp: refs_ok_def)
  have new: "Node_ClusterID n' = cid \<Longrightarrow> Node_ID n' \<in> set ids \<and> (Node_Role n' = NodeRolePrimary \<longleftrightarrow> Node_ID n' = hd ids)"
      "Node_ID n' \<in> set ids \<Longrightarrow> Node_ClusterID n' = cid" if "n' \<in> set (nodes d')" for n'
    using list_all2_mem [OF R that] old by (auto split: if_splits)
  show "refs_ok d'"
    unfolding refs_ok_def cl using list_all2_mem [OF R] assms(3) by (fastforce simp: refs_ok_def split: if_splits)
  have "hd ids \<in> Node_ID ` set (nodes d')"
    using ids arg_cong [OF keys, of set] by (simp only: set_map) (use hd_in_set in blast)
  then obtain x where x: "x \<in> set (nodes d')" "Node_ID x = hd ids" by auto
  then have "x \<in> set (primaries cid d')"
    using new [OF x(1)] ids(1) assms(4) by (simp add: primaries_def in_cluster_def)
  moreover have "Node_ID n = hd ids" if "n \<in> set (primaries cid d')" for n
    using that new(1) by (auto simp: primaries_def in_cluster_def)
  ultimately have "set (map Node_ID (primaries cid d')) = {hd ids}"
    unfolding set_map using x(2) by (intro image_singleton)
  moreover have "distinct (map Node_ID (primaries cid d'))"
    using pk by (simp add: nodes_table.unique_def primaries_def distinct_map_filter)
  ultimately show "map Node_ID (primaries cid d') = [hd ids]" by (rule distinct_singleton [rotated])
  show "primaries cid' d' = primaries cid' d" if "cid' \<noteq> cid"
    unfolding primaries_def
    by (rule filter_list_all2 [OF R, symmetric]) (use that in \<open>auto simp: in_cluster_def split: if_splits\<close>)
qed

section \<open>Properties\<close>

text \<open>
  creating a cluster assigns exactly the requested nodes. Whatever fails, either no table has
  changed, or the new cluster exists with status creating, its first requested node is its primary
  and the others are replicas, all of them were idle with a linked agent, and every other node is
  untouched; the response names the new cluster.
\<close>

theorem create_cluster_assigns:
  assumes "distinct (Create_NodeIds req)" "nodes_table.pk (store w)"
  shows "(\<exists>cid. cluster_created cid (Create_NodeIds req) (store w) (store (after (CreateCluster svc req) w)) \<and>
       (\<forall>p. result (CreateCluster svc req) w = Inr p \<longrightarrow> PC_Id p = cid)) \<or>
     isl (result (CreateCluster svc req) w) \<and> store (after (CreateCluster svc req) w) = store w"
  using wp_CreateCluster [OF assms, of svc] unfolding wp_outcome by blast

text \<open>
  C2: a successful creation whose request names no node twice gives the new cluster exactly one primary, the
  first requested node, and keeps the invariants, when they hold before: node identifiers are unique, no
  cluster has two primaries, every node belongs to no cluster or to an existing one.
\<close>

theorem create_cluster_one_primary:
  assumes "distinct (Create_NodeIds req)" "single_primaries (store w)" "refs_ok (store w)"
    and "\<forall>n. uuid (the_env w) n \<noteq> []" "result (CreateCluster svc req) w = Inr p"
  shows "map Node_ID (primaries (PC_Id p) (store (after (CreateCluster svc req) w))) = [hd (Create_NodeIds req)] \<and>
    single_primaries (store (after (CreateCluster svc req) w)) \<and> refs_ok (store (after (CreateCluster svc req) w))"
proof -
  let ?d' = "store (after (CreateCluster svc req) w)"
  have pk: "nodes_table.pk (store w)" using assms(2) by (simp add: single_primaries_def)
  have c: "cluster_created (PC_Id p) (Create_NodeIds req) (store w) ?d'" "PC_Id p \<noteq> []"
    using wp_CreateCluster [OF assms(1) pk, of svc] assms(4,5) by (auto simp: wp_outcome)
  note prim = cluster_created_primaries [OF c(1) pk assms(3) c(2)]
  note one = prim(1)
  have "length (primaries cid ?d') \<le> 1" for cid
    using prim(4) [of cid] assms(2) arg_cong [OF one, of length]
    by (cases "cid = PC_Id p") (simp_all add: single_primaries_def)
  with prim(2) have "single_primaries ?d'" by (simp add: single_primaries_def)
  with one prim(3) show ?thesis by blast
qed

definition idle_node :: "string \<Rightarrow> Node" where
  "idle_node i = sample_node i [] NodeRoleNone NodeStatusOnline 10"

definition sample_create_req :: CreateClusterRequest where
  "sample_create_req = \<lparr>Create_Name = ''main'', Create_Config = Some \<lparr>Cfg_Engine = ENGINE_POSTGRESQL, Cfg_Version = [],
     Cfg_ReplicationMode = REPLICATION_MODE_ASYNC, Cfg_ReplicaCount = 1, Cfg_StorageConfigId = [], Cfg_PitrEnabled = False,
     Cfg_Labels = Map.empty, Cfg_ServiceLocation = SERVICE_LOCATION_NATIVE\<rparr>, Create_NodeIds = [''b'', ''a'']\<rparr>"

definition idle_db :: db where
  "idle_db = empty_db\<lparr>nodes := [idle_node ''a'', idle_node ''b'', idle_node ''c'']\<rparr>"

lemma create_sample_runs: "\<exists>p. result (CreateCluster sample_service sample_create_req) (world_of idle_db) = Inr p"
proof -
  have "wp (CreateCluster sample_service sample_create_req) (\<lambda>r _. \<exists>p. r = Inr p) (world_of idle_db)"
    by (simp add: CreateCluster_def sample_create_req_def clusters_GetByName_def nodes_GetByIDs_def rows_by_id_def idle_db_def
        idle_node_def sample_node_def nodes_attachLatestMetrics_def map_filter_simps attach_metric_def latest_metric_def
        check_selected_def create_cluster_tx_def clusters_insert_def new_cluster_def node_roles_def assign_nodes_def assign_node_def
        queue_provisioning_def queuePrimaryCommands_def queueReplicaCommands_def queueAdminRoleCommand_def sample_service_def
        assigned_copy_def installCommands_def queueNodeCommands_def pcmd_def commands_Create_def commands_insert_def command_row_def
        Let_def wp_in_tx wp_simps sample_env_def digit_simps dec_nat.simps)
  then show ?thesis by (simp add: wp_outcome)
qed

theorem create_cluster_assigns_witness:
  "\<exists>cid. cluster_created cid [''b'', ''a''] idle_db (store (after (CreateCluster sample_service sample_create_req) (world_of idle_db)))"
proof -
  have "nodes_table.pk idle_db" "distinct (Create_NodeIds sample_create_req)"
    by (simp_all add: nodes_table.unique_def idle_db_def idle_node_def sample_node_def sample_create_req_def)
  with create_cluster_assigns [of sample_create_req "world_of idle_db" sample_service] create_sample_runs
  show ?thesis by (auto simp: sample_create_req_def)
qed

theorem create_cluster_one_primary_witness:
  "\<exists>p :: ProtoCluster. map Node_ID (primaries (PC_Id p) (store (after (CreateCluster sample_service sample_create_req) (world_of idle_db)))) = [''b'']"
proof -
  obtain p where p: "result (CreateCluster sample_service sample_create_req) (world_of idle_db) = Inr p"
    using create_sample_runs by blast
  have one: "map Node_ID (primaries (PC_Id p) (store (after (CreateCluster sample_service sample_create_req) (world_of idle_db)))) =
      [hd (Create_NodeIds sample_create_req)] \<and>
    single_primaries (store (after (CreateCluster sample_service sample_create_req) (world_of idle_db))) \<and>
    refs_ok (store (after (CreateCluster sample_service sample_create_req) (world_of idle_db)))"
    by (rule create_cluster_one_primary [OF _ _ _ _ p])
      (auto simp: nodes_table.unique_def idle_db_def idle_node_def sample_node_def sample_create_req_def single_primaries_def
        primaries_def in_cluster_def refs_ok_def sample_env_def)
  have b: "hd (Create_NodeIds sample_create_req) = ''b''" by (simp add: sample_create_req_def)
  show ?thesis by (rule exI [of _ p], rule conjunct1 [OF one, unfolded b])
qed

text \<open>
  A request that names the same node twice is not refused: the node becomes the primary and then a replica, and
  the new cluster has no primary.
\<close>

definition duplicate_req :: CreateClusterRequest where
  "duplicate_req = sample_create_req\<lparr>Create_NodeIds := [''a'', ''a'']\<rparr>"

lemma duplicate_node_ids_no_primary:
  "map (\<lambda>n. (Node_ID n, Node_Role n)) (filter (\<lambda>n. Node_ClusterID n \<noteq> []) (nodes (store (after (CreateCluster sample_service duplicate_req) (world_of idle_db)))))
   = [(''a'', NodeRoleReplica)]"
  by code_simp

end
