(* ===== verification/UserRepo.thy ===== *)
theory UserRepo
  imports Store
begin

text \<open>
  \<open>internal/db/user_repo.go\<close>: users, their API keys and the tokens agents register with. These
  repositories return the driver's error as it is, and a missing row is the error \<open>sql.ErrNoRows\<close>,
  which callers tell from the others. A page is read as SQLite reads it: a negative limit is no
  limit, a negative offset is 0.
\<close>

datatype sql_error = ErrNoRows | DriverError string

primrec sql_error_text :: "sql_error \<Rightarrow> string" where
  "sql_error_text ErrNoRows = ''sql: no rows in result set''"
| "sql_error_text (DriverError msg) = msg"

definition query_row :: "(db \<Rightarrow> 'a option) \<Rightarrow> (sql_error + 'a) io" where
  "query_row f = try_do (query f) (\<lambda>e. Inl (DriverError e)) (\<lambda>r.
     State_Monad.return (case r of None \<Rightarrow> Inl ErrNoRows | Some a \<Rightarrow> Inr a))"

definition sqlite_page :: "int \<Rightarrow> int \<Rightarrow> 'a list \<Rightarrow> 'a list" where
  "sqlite_page offset limit xs = (
     let ys = drop (nat offset) xs in if limit < 0 then ys else take (nat limit) ys)"

section \<open>Users\<close>

definition users_Create :: "User \<Rightarrow> unit res io" where
  "users_Create u = exec (\<lambda>d.
     if User_ID u \<in> User_ID ` set (users d) \<or> User_Email u \<in> User_Email ` set (users d)
     then None else Some (d\<lparr>users := users d @ [u]\<rparr>))"

definition users_GetByEmail :: "string \<Rightarrow> (sql_error + User) io" where
  "users_GetByEmail email = query_row (\<lambda>d. List.find (\<lambda>u. User_Email u = email) (users d))"

definition users_GetByID :: "string \<Rightarrow> (sql_error + User) io" where
  "users_GetByID i = query_row (\<lambda>d. List.find (\<lambda>u. User_ID u = i) (users d))"

definition users_List :: "int \<Rightarrow> int \<Rightarrow> (User list \<times> nat) res io" where
  "users_List pg pageSize =
     try_do (query (\<lambda>d. length (users d))) Inl (\<lambda>total.
     try_do (query (\<lambda>d. sqlite_page ((pg - 1) * pageSize) pageSize (sort_key (\<lambda>u. - User_CreatedAt u) (users d)))) Inl (\<lambda>us.
     State_Monad.return (Inr (us, total))))"

definition users_Delete :: "string \<Rightarrow> unit res io" where
  "users_Delete i = sql_write (\<lambda>d. d\<lparr>users := del_where (\<lambda>u. User_ID u = i) (users d)\<rparr>)"

section \<open>API keys\<close>

definition apikeys_Create :: "APIKey \<Rightarrow> unit res io" where
  "apikeys_Create k = exec (\<lambda>d.
     if Key_ID k \<in> Key_ID ` set (api_keys d) \<or> Key_KeyHash k \<in> Key_KeyHash ` set (api_keys d)
     then None else Some (d\<lparr>api_keys := api_keys d @ [k]\<rparr>))"

definition apikeys_GetByKeyHash :: "string \<Rightarrow> (sql_error + APIKey) io" where
  "apikeys_GetByKeyHash h = query_row (\<lambda>d. List.find (\<lambda>k. Key_KeyHash k = h) (api_keys d))"

definition apikeys_ListByUserID :: "string \<Rightarrow> APIKey list res io" where
  "apikeys_ListByUserID userID =
     query (\<lambda>d. sort_key (\<lambda>k. - Key_CreatedAt k) (filter (\<lambda>k. Key_UserID k = userID) (api_keys d)))"

definition apikeys_Delete :: "string \<Rightarrow> unit res io" where
  "apikeys_Delete i = sql_write (\<lambda>d. d\<lparr>api_keys := del_where (\<lambda>k. Key_ID k = i) (api_keys d)\<rparr>)"

section \<open>Agent tokens\<close>

definition tokens_Create :: "AgentToken \<Rightarrow> unit res io" where
  "tokens_Create t = exec (\<lambda>d.
     if Token_ID t \<in> Token_ID ` set (agent_tokens d) \<or> Token_TokenHash t \<in> Token_TokenHash ` set (agent_tokens d)
     then None else Some (d\<lparr>agent_tokens := agent_tokens d @ [t]\<rparr>))"

definition tokens_GetByTokenHash :: "string \<Rightarrow> (sql_error + AgentToken) io" where
  "tokens_GetByTokenHash h = query_row (\<lambda>d. List.find (\<lambda>t. Token_TokenHash t = h) (agent_tokens d))"

definition tokens_List :: "AgentToken list res io" where
  "tokens_List = query (\<lambda>d. sort_key (\<lambda>t. - Token_CreatedAt t) (agent_tokens d))"

definition tokens_Delete :: "string \<Rightarrow> unit res io" where
  "tokens_Delete i = sql_write (\<lambda>d. d\<lparr>agent_tokens := del_where (\<lambda>t. Token_ID t = i) (agent_tokens d)\<rparr>)"

lemma wp_query_row [wp_simps]:
  "wp (query_row f) Q w =
   (case fault (the_env w) (n_stmt w) of
      Some msg \<Rightarrow> Q (Inl (DriverError msg)) (w\<lparr>n_stmt := Suc (n_stmt w)\<rparr>)
    | None \<Rightarrow> Q (case f (store w) of None \<Rightarrow> Inl ErrNoRows | Some a \<Rightarrow> Inr a) (w\<lparr>n_stmt := Suc (n_stmt w)\<rparr>))"
  by (simp add: query_row_def wp_simps split: option.splits)

lemma keeps_query_row [keeps_intros]: "keeps_db I (query_row f)" "keeps_env P (query_row f)"
  unfolding query_row_def by (intro keeps_intros)+

end
