(* ===== verification/AdminBackfill.thy ===== *)
theory AdminBackfill
  imports ClusterService
begin

text \<open>
  The two helpers of \<open>internal/server/postgres_management_service.go\<close> that the management service and
  the agent service share: resolving the \<open>skylex_admin\<close> password of a cluster as a command secret, and
  the lazy backfill that creates the role on clusters that have none. A repository that is not wired
  is \<open>None\<close>; the empty byte slice and \<open>nil\<close> are both the empty text.
\<close>

definition resolveSkylexAdminCommandSecret ::
  "SecretRepository option \<Rightarrow> aead \<Rightarrow> string \<Rightarrow> string \<Rightarrow> (string \<times> string) io" where
  "resolveSkylexAdminCommandSecret clusterSecrets A roleEncryptKey clusterID =
     (case clusterSecrets of
        None \<Rightarrow> State_Monad.return ([], [])
      | Some cs \<Rightarrow> try_do (csecrets_ResolveSecret cs clusterID ''skylex_admin_password'') (\<lambda>_. ([], [])) (\<lambda>pw.
          if pw = [] then State_Monad.return ([], [])
          else try_do (EncryptAES256GCM A pw roleEncryptKey) (\<lambda>_. ([], [])) (\<lambda>ciphertext.
            State_Monad.return (ciphertext, ''skylex_admin_password''))))"

definition ensureSkylexAdminProvisioned ::
  "SecretRepository option \<Rightarrow> SecretRepository option \<Rightarrow> string \<Rightarrow> Node \<Rightarrow> bool res io" where
  "ensureSkylexAdminProvisioned clusterSecrets commandSecrets clusterID primary =
     (case (clusterSecrets, commandSecrets) of
        (Some cs, Some ks) \<Rightarrow>
          try_do (csecrets_ResolveSecret cs clusterID ''skylex_admin_password'')
            (\<lambda>e. Inl (wrap ''resolve skylex_admin password'' e)) (\<lambda>pw.
          if pw \<noteq> [] then State_Monad.return (Inr False)
          else do {
            password \<leftarrow> GenerateToken;
            try_do (csecrets_StoreSecret cs clusterID ''skylex_admin_password'' password)
              (\<lambda>e. Inl (wrap ''store skylex_admin password'' e)) (\<lambda>_. do {
              now \<leftarrow> time_now;
              try_do (secrets_CreateCommandWithSecrets ks (Node_AgentID primary) (Node_ID primary)
                        ''pg_ensure_admin_role'' admin_role_payload
                        [(''skylex_admin_password'', password)] (Some (now + day_ns)))
                (\<lambda>e. Inl (wrap ''queue pg_ensure_admin_role'' e)) (\<lambda>_.
              State_Monad.return (Inr True))
            })
          })
      | _ \<Rightarrow> State_Monad.return (Inr False))"

section \<open>Properties\<close>

text \<open>One statement fails: the third, which opens the transaction of the queued command.\<close>

definition failing_world :: world where
  "failing_world = (world_of empty_db)\<lparr>the_env := sample_env\<lparr>fault := (\<lambda>n. if n = 2 then Some ''disk I/O error'' else None)\<rparr>\<rparr>"

abbreviation backfill :: "bool res io" where
  "backfill \<equiv> ensureSkylexAdminProvisioned (Some sample_repo) (Some sample_repo) ''c1''
     (sample_node ''n1'' ''c1'' NodeRolePrimary NodeStatusOnline 10)"

lemma backfill_twice:
  "wp (do { a \<leftarrow> backfill; b \<leftarrow> backfill; State_Monad.return (a, b) })
     (\<lambda>(a, b) w'. isl a \<and> b = Inr False \<and> agent_commands (store w') = []) failing_world"
proof -
  have opn: "open_secret sample_repo x y (base64_EncodeToString (''0123456789ab'' @ ''0123456789abcdef'' @ p)) = State_Monad.return (Inr p)"
    for x y p
    by (rule open_secret_opens, rule opens_to_encode)
      (simp add: sample_repo_def sample_aead_def DecryptAES256GCM_def aes_NewCipher_def gcm_NonceSize_def)
  have seal: "wp (EncryptAES256GCM (repo_aead sample_repo) p (encryptKey sample_repo)) Q w =
      Q (Inr (random_nonce (the_env w) (n_nonce w) @ ''0123456789abcdef'' @ p)) (w\<lparr>n_nonce := Suc (n_nonce w)\<rparr>)" for p Q w
    by (simp add: EncryptAES256GCM_def aes_NewCipher_def sample_repo_def sample_aead_def wp_simps)
  show ?thesis
    by (simp add: ensureSkylexAdminProvisioned_def csecrets_ResolveSecret_def csecrets_StoreSecret_def seal opn
        secrets_CreateCommandWithSecrets_def wp_in_tx upsert_cluster_secret_def failing_world_def sample_env_def
        wp_simps Let_def del: append_Cons base64_EncodeToString.simps)
qed

text \<open>
  the backfill of the administrator role is not retried. The password is stored before the command
  is queued, in separate transactions; when queueing fails the caller gets an error, but the next call
  finds the password, reports the role as provisioned and queues nothing, so the role is never created
  although later commands will authenticate as it.
\<close>

theorem admin_backfill_not_retried:
  "case result (do { a \<leftarrow> backfill; b \<leftarrow> backfill; State_Monad.return (a, b) }) failing_world of
     (a, b) \<Rightarrow> isl a \<and> b = Inr False \<and>
       agent_commands (store (after (do { a \<leftarrow> backfill; b \<leftarrow> backfill; State_Monad.return (a, b) }) failing_world)) = []"
  using backfill_twice unfolding wp_outcome by (simp add: case_prod_beta)

end
