(* ===== verification/ManagedRoles.thy ===== *)
theory ManagedRoles
  imports Secrets
begin

text \<open>
  \<open>internal/db/managed_role_repo.go\<close> and \<open>internal/db/service_operation_repo.go\<close>: the PostgreSQL
  roles Skylex manages, the operations it records, and the transactions that write a role, its
  operation, the agent command that carries it out and the command's secrets together.
  A role moves between the statuses \<open>pending\<close>, \<open>ready\<close>, \<open>failed\<close> and \<open>deleting\<close>. A JSON payload
  is read by exact field names; a missing field is the empty string.
\<close>

section \<open>Redaction of stored errors\<close>

definition redact_markers :: "string list" where
  "redact_markers = [''password'', ''secret'', ''token'']"

fun redact_with :: "string list \<Rightarrow> string \<Rightarrow> string" where
  "redact_with [] input = input"
| "redact_with (marker # ms) input =
     (case strings_Index (strings_ToLower input) marker of
        Some idx \<Rightarrow> take idx input @ marker @ ''=[REDACTED]''
      | None \<Rightarrow> redact_with ms input)"

definition RedactStoredError :: "string \<Rightarrow> string" where
  "RedactStoredError input = redact_with redact_markers input"

section \<open>Operations\<close>

definition operation_row :: "string \<Rightarrow> string \<Rightarrow> string \<Rightarrow> string \<Rightarrow> Time \<Rightarrow> ServiceOperation" where
  "operation_row opID clusterID nodeID operationType now =
     \<lparr>Op_ID = opID, Op_ClusterID = clusterID, Op_NodeID = nodeID, Op_OperationType = operationType,
      Op_Status = ''pending'', Op_Error = [], Op_CreatedAt = now, Op_UpdatedAt = now, Op_CompletedAt = None\<rparr>"

definition operations_insert :: "ServiceOperation \<Rightarrow> unit res io" where
  "operations_insert op = exec (\<lambda>d.
     if Op_ID op \<in> Op_ID ` set (service_operations d) then None
     else Some (d\<lparr>service_operations := service_operations d @ [op]\<rparr>))"

definition operations_Create :: "string \<Rightarrow> string \<Rightarrow> string \<Rightarrow> ServiceOperation res io" where
  "operations_Create clusterID nodeID operationType = do {
     opID \<leftarrow> id_New;
     now \<leftarrow> time_now;
     let op = operation_row opID clusterID nodeID operationType now;
     try_do (operations_insert op) (\<lambda>e. Inl (wrap ''insert postgres operation'' e)) (\<lambda>_. State_Monad.return (Inr op))
   }"

definition finished :: "string \<Rightarrow> Time \<Rightarrow> Time option" where
  "finished status now = (if status = ''succeeded'' \<or> status = ''failed'' then Some now else None)"

definition operations_UpdateStatus :: "string \<Rightarrow> string \<Rightarrow> string \<Rightarrow> unit res io" where
  "operations_UpdateStatus opID status errMsg = do {
     now \<leftarrow> time_now;
     wrap_err ''update postgres operation status'' (sql_write (\<lambda>d. d\<lparr>service_operations :=
       upd_where (\<lambda>x. Op_ID x = opID) (\<lambda>x. x\<lparr>Op_Status := status, Op_Error := errMsg, Op_UpdatedAt := now,
          Op_CompletedAt := finished status now\<rparr>) (service_operations d)\<rparr>))
   }"

definition operations_ListByCluster :: "string \<Rightarrow> int \<Rightarrow> ServiceOperation list res io" where
  "operations_ListByCluster clusterID limit = wrap_err ''list postgres operations''
     (query (\<lambda>d. page 0 (nat (if limit \<le> 0 \<or> limit > 500 then 100 else limit))
        (sort_key (\<lambda>x. - Op_CreatedAt x) (filter (\<lambda>x. Op_ClusterID x = clusterID) (service_operations d)))))"

definition insertServiceOperation ::
  "string \<Rightarrow> string \<Rightarrow> string \<Rightarrow> string \<Rightarrow> Time \<Rightarrow> ServiceOperation res io" where
  "insertServiceOperation opID clusterID nodeID operationType now = do {
     i \<leftarrow> (if opID = [] then id_New else State_Monad.return opID);
     let op = operation_row i clusterID nodeID operationType now;
     try_do (operations_insert op) (\<lambda>e. Inl (wrap ''insert postgres operation'' e)) (\<lambda>_. State_Monad.return (Inr op))
   }"

definition insertAgentCommand ::
  "string \<Rightarrow> string \<Rightarrow> string \<Rightarrow> string \<Rightarrow> payload \<Rightarrow> Time \<Rightarrow> AgentCommand res io" where
  "insertAgentCommand cmdID agentID nodeID action payload now = do {
     i \<leftarrow> (if cmdID = [] then id_New else State_Monad.return cmdID);
     let c = command_row i agentID nodeID action payload now;
     try_do (commands_insert c) (\<lambda>e. Inl (wrap ''insert agent command'' e)) (\<lambda>_. State_Monad.return (Inr c))
   }"

definition mark_operation_running :: "string \<Rightarrow> Time \<Rightarrow> unit res io" where
  "mark_operation_running opID now = sql_write (\<lambda>d. d\<lparr>service_operations :=
     upd_where (\<lambda>x. Op_ID x = opID) (\<lambda>x. x\<lparr>Op_Status := ''running'', Op_UpdatedAt := now\<rparr>) (service_operations d)\<rparr>)"

text \<open>
  What the four role transactions and the two database transactions have in common after the row
  of the entity is written: the operation, the optional command that must run before (queued one
  millisecond earlier, so that it is fetched first), the command, its secrets, and the operation
  set running.
\<close>

record QueueInput =
  Q_OperationID :: string
  Q_ClusterID :: string
  Q_NodeID :: string
  Q_OperationType :: string
  Q_AgentID :: string
  Q_BeforeAction :: string
  Q_BeforePayload :: payload
  Q_CommandID :: string
  Q_Action :: string
  Q_Payload :: payload
  Q_Password :: "string option"
  Q_AdminSecretKey :: string
  Q_AdminSecret :: string
  Q_SecretExpiresAt :: "Time option"
  Q_RunningMsg :: string

definition millisecond :: Time where
  "millisecond = 1000000"

definition queue_before :: "QueueInput \<Rightarrow> Time \<Rightarrow> unit res io" where
  "queue_before q now =
     (if Q_BeforeAction q = [] then State_Monad.return (Inr ())
      else try_do (insertAgentCommand [] (Q_AgentID q) (Q_NodeID q) (Q_BeforeAction q) (Q_BeforePayload q)
                     (now - millisecond)) Inl (\<lambda>_. State_Monad.return (Inr ())))"

definition queue_operation :: "QueueInput \<Rightarrow> Time \<Rightarrow> (ServiceOperation \<times> AgentCommand) res io" where
  "queue_operation q now =
     try_do (insertServiceOperation (Q_OperationID q) (Q_ClusterID q) (Q_NodeID q) (Q_OperationType q) now) Inl (\<lambda>op.
     try_do (queue_before q now) Inl (\<lambda>_.
     try_do (insertAgentCommand (Q_CommandID q) (Q_AgentID q) (Q_NodeID q) (Q_Action q) (Q_Payload q) now) Inl (\<lambda>cmd.
     try_do (case Q_Password q of
               None \<Rightarrow> State_Monad.return (Inr ())
             | Some ct \<Rightarrow> insertCommandSecret (Cmd_ID cmd) ''password'' ct (Q_SecretExpiresAt q) now) Inl (\<lambda>_.
     try_do (insertAdminCommandSecret (Cmd_ID cmd) (Q_AdminSecretKey q) (Q_AdminSecret q) (Q_SecretExpiresAt q) now) Inl (\<lambda>_.
     try_do (mark_operation_running (Op_ID op) now) (\<lambda>e. Inl (wrap (Q_RunningMsg q) e)) (\<lambda>_.
     State_Monad.return (Inr (op\<lparr>Op_Status := ''running''\<rparr>, cmd))))))))"

section \<open>Roles\<close>

definition role_row ::
  "string \<Rightarrow> string \<Rightarrow> string \<Rightarrow> string \<Rightarrow> string \<Rightarrow> Time option \<Rightarrow> Time \<Rightarrow> ManagedRole" where
  "role_row i clusterID roleName roleKind encryptedPassword expiresAt now =
     \<lparr>MRole_ID = i, MRole_ClusterID = clusterID, MRole_RoleName = roleName, MRole_RoleKind = roleKind,
      MRole_EncryptedPassword = encryptedPassword, MRole_PasswordVersion = 1, MRole_ExpiresAt = expiresAt,
      MRole_Status = ''pending'', MRole_CreatedAt = now, MRole_UpdatedAt = now\<rparr>"

definition roles_insert :: "ManagedRole \<Rightarrow> unit res io" where
  "roles_insert r = exec (\<lambda>d.
     if MRole_ID r \<in> MRole_ID ` set (managed_roles d)
        \<or> (MRole_ClusterID r, MRole_RoleName r) \<in> (\<lambda>x. (MRole_ClusterID x, MRole_RoleName x)) ` set (managed_roles d)
     then None else Some (d\<lparr>managed_roles := managed_roles d @ [r]\<rparr>))"

definition update_role :: "string \<Rightarrow> (ManagedRole \<Rightarrow> ManagedRole) \<Rightarrow> unit res io" where
  "update_role i f = sql_write (\<lambda>d. d\<lparr>managed_roles := upd_where (\<lambda>r. MRole_ID r = i) f (managed_roles d)\<rparr>)"

definition role_by_id :: "string \<Rightarrow> ManagedRole option res io" where
  "role_by_id i = query (\<lambda>d. List.find (\<lambda>r. MRole_ID r = i) (managed_roles d))"

definition roles_Create ::
  "string \<Rightarrow> string \<Rightarrow> string \<Rightarrow> string \<Rightarrow> Time option \<Rightarrow> ManagedRole res io" where
  "roles_Create clusterID roleName roleKind encryptedPassword expiresAt = do {
     roleID \<leftarrow> id_New;
     now \<leftarrow> time_now;
     let r = role_row roleID clusterID roleName roleKind encryptedPassword expiresAt now;
     try_do (roles_insert r) (\<lambda>e. Inl (wrap ''insert postgres role'' e)) (\<lambda>_. State_Monad.return (Inr r))
   }"

definition roles_GetByID :: "string \<Rightarrow> ManagedRole option res io" where
  "roles_GetByID i = wrap_err ''scan postgres role'' (role_by_id i)"

definition roles_GetByClusterAndName :: "string \<Rightarrow> string \<Rightarrow> ManagedRole option res io" where
  "roles_GetByClusterAndName clusterID roleName = wrap_err ''scan postgres role''
     (query (\<lambda>d. List.find (\<lambda>r. MRole_ClusterID r = clusterID \<and> MRole_RoleName r = roleName) (managed_roles d)))"

definition roles_ListByCluster :: "string \<Rightarrow> ManagedRole list res io" where
  "roles_ListByCluster clusterID = wrap_err ''list postgres roles''
     (query (\<lambda>d. sort_key MRole_CreatedAt (filter (\<lambda>r. MRole_ClusterID r = clusterID) (managed_roles d))))"

definition roles_UpdateStatus :: "string \<Rightarrow> string \<Rightarrow> unit res io" where
  "roles_UpdateStatus roleID status = do {
     now \<leftarrow> time_now;
     wrap_err ''update postgres role status''
       (update_role roleID (\<lambda>r. r\<lparr>MRole_Status := status, MRole_UpdatedAt := now\<rparr>))
   }"

definition roles_Delete :: "string \<Rightarrow> unit res io" where
  "roles_Delete roleID = wrap_err ''delete postgres role''
     (sql_write (\<lambda>d. d\<lparr>managed_roles := del_where (\<lambda>r. MRole_ID r = roleID) (managed_roles d)\<rparr>))"

definition roles_RotatePassword :: "string \<Rightarrow> string \<Rightarrow> int res io" where
  "roles_RotatePassword roleID encryptedPassword = do {
     now \<leftarrow> time_now;
     in_tx (\<lambda>e. Inl (wrap ''begin rotate password tx'' e)) (\<lambda>e. Inl (wrap ''commit rotate password'' e))
       (try_tx (role_by_id roleID) (\<lambda>e. Inl (wrap ''fetch password_version'' e)) (\<lambda>row.
        case row of
          None \<Rightarrow> State_Monad.return (Abort (Inl (''role '' @ quote roleID @ '' not found'')))
        | Some r \<Rightarrow> (
            let newVersion = MRole_PasswordVersion r + 1
            in try_tx (update_role roleID (\<lambda>x. x\<lparr>MRole_EncryptedPassword := encryptedPassword,
                   MRole_PasswordVersion := newVersion, MRole_Status := ''pending'', MRole_UpdatedAt := now\<rparr>))
                 (\<lambda>e. Inl (wrap ''update encrypted password'' e)) (\<lambda>_.
               State_Monad.return (Commit (Inr newVersion))))))
   }"

section \<open>The transactions on roles\<close>

record CreateRoleTxInput =
  CR_RoleID :: string
  CR_OperationID :: string
  CR_CommandID :: string
  CR_ClusterID :: string
  CR_NodeID :: string
  CR_AgentID :: string
  CR_RoleName :: string
  CR_RoleKind :: string
  CR_EncryptedPassword :: string
  CR_Payload :: payload
  CR_BeforeAction :: string
  CR_BeforePayload :: payload
  CR_EncryptedCommandSecret :: string
  CR_SecretExpiresAt :: "Time option"
  CR_ExpiresAt :: "Time option"
  CR_EncryptedAdminSecret :: string
  CR_AdminSecretKey :: string
  CR_EnsureAction :: string

record RotateRoleTxInput =
  RR_RoleID :: string
  RR_OperationID :: string
  RR_CommandID :: string
  RR_NodeID :: string
  RR_AgentID :: string
  RR_EncryptedPassword :: string
  RR_Payload :: payload
  RR_BeforeAction :: string
  RR_BeforePayload :: payload
  RR_EncryptedCommandSecret :: string
  RR_SecretExpiresAt :: "Time option"
  RR_EncryptedAdminSecret :: string
  RR_AdminSecretKey :: string
  RR_RotateAction :: string

record DeleteRoleTxInput =
  DR_RoleID :: string
  DR_OperationID :: string
  DR_CommandID :: string
  DR_NodeID :: string
  DR_AgentID :: string
  DR_Payload :: payload
  DR_BeforeAction :: string
  DR_BeforePayload :: payload
  DR_EncryptedAdminSecret :: string
  DR_AdminSecretKey :: string
  DR_SecretExpiresAt :: "Time option"
  DR_DropAction :: string

record ManagedRoleTx =
  Tx_Role :: ManagedRole
  Tx_Operation :: ServiceOperation
  Tx_Command :: AgentCommand

definition create_queue_input :: "CreateRoleTxInput \<Rightarrow> string \<Rightarrow> QueueInput" where
  "create_queue_input inp msg = \<lparr>Q_OperationID = CR_OperationID inp, Q_ClusterID = CR_ClusterID inp,
     Q_NodeID = CR_NodeID inp, Q_OperationType = ''create_role'', Q_AgentID = CR_AgentID inp,
     Q_BeforeAction = CR_BeforeAction inp, Q_BeforePayload = CR_BeforePayload inp,
     Q_CommandID = CR_CommandID inp, Q_Action = CR_EnsureAction inp, Q_Payload = CR_Payload inp,
     Q_Password = Some (CR_EncryptedCommandSecret inp), Q_AdminSecretKey = CR_AdminSecretKey inp,
     Q_AdminSecret = CR_EncryptedAdminSecret inp, Q_SecretExpiresAt = CR_SecretExpiresAt inp, Q_RunningMsg = msg\<rparr>"

definition roles_CreateWithCommand :: "CreateRoleTxInput \<Rightarrow> ManagedRoleTx res io" where
  "roles_CreateWithCommand inp =
     in_tx (\<lambda>e. Inl (wrap ''begin create role tx'' e)) (\<lambda>e. Inl (wrap ''commit create role tx'' e)) (do {
       now \<leftarrow> time_now;
       roleID \<leftarrow> (if CR_RoleID inp = [] then id_New else State_Monad.return (CR_RoleID inp));
       let role = role_row roleID (CR_ClusterID inp) (CR_RoleName inp) (CR_RoleKind inp)
                    (CR_EncryptedPassword inp) (CR_ExpiresAt inp) now;
       try_tx (roles_insert role) (\<lambda>e. Inl (wrap ''insert postgres role'' e)) (\<lambda>_.
       try_tx (queue_operation (create_queue_input inp ''mark operation running'') now) Inl (\<lambda>(op, cmd).
       State_Monad.return (Commit (Inr \<lparr>Tx_Role = role, Tx_Operation = op, Tx_Command = cmd\<rparr>))))
     })"

definition roles_RetryCreateWithCommand :: "CreateRoleTxInput \<Rightarrow> ManagedRoleTx res io" where
  "roles_RetryCreateWithCommand inp =
     in_tx (\<lambda>e. Inl (wrap ''begin retry create role tx'' e)) (\<lambda>e. Inl (wrap ''commit retry create role tx'' e))
       (try_tx (role_by_id (CR_RoleID inp)) (\<lambda>e. Inl (wrap ''scan failed role for retry'' e)) (\<lambda>row.
        case row of
          None \<Rightarrow> State_Monad.return (Abort (Inl (''role '' @ quote (CR_RoleID inp) @ '' not found'')))
        | Some old \<Rightarrow>
            if MRole_Status old \<noteq> ''failed''
            then State_Monad.return (Abort (Inl (''role '' @ quote (CR_RoleID inp) @ '' is not failed'')))
            else if MRole_ClusterID old \<noteq> CR_ClusterID inp \<or> MRole_RoleName old \<noteq> CR_RoleName inp
            then State_Monad.return (Abort (Inl ''role retry input does not match existing role''))
            else do {
              now \<leftarrow> time_now;
              let version = MRole_PasswordVersion old + 1;
              let change = (\<lambda>r. r\<lparr>MRole_RoleKind := CR_RoleKind inp, MRole_EncryptedPassword := CR_EncryptedPassword inp,
                     MRole_PasswordVersion := version, MRole_ExpiresAt := CR_ExpiresAt inp,
                     MRole_Status := ''pending'', MRole_UpdatedAt := now\<rparr>);
              try_tx (update_role (MRole_ID old) change) (\<lambda>e. Inl (wrap ''update failed role for retry'' e)) (\<lambda>_.
              try_tx (queue_operation (create_queue_input inp ''mark retry operation running'') now) Inl (\<lambda>(op, cmd).
              State_Monad.return (Commit (Inr \<lparr>Tx_Role = change old, Tx_Operation = op, Tx_Command = cmd\<rparr>))))
            }))"

definition rotate_queue_input :: "RotateRoleTxInput \<Rightarrow> string \<Rightarrow> QueueInput" where
  "rotate_queue_input inp clusterID = \<lparr>Q_OperationID = RR_OperationID inp, Q_ClusterID = clusterID,
                  Q_NodeID = RR_NodeID inp, Q_OperationType = ''rotate_role_password'', Q_AgentID = RR_AgentID inp,
                  Q_BeforeAction = RR_BeforeAction inp, Q_BeforePayload = RR_BeforePayload inp,
                  Q_CommandID = RR_CommandID inp, Q_Action = RR_RotateAction inp, Q_Payload = RR_Payload inp,
                  Q_Password = Some (RR_EncryptedCommandSecret inp), Q_AdminSecretKey = RR_AdminSecretKey inp,
                  Q_AdminSecret = RR_EncryptedAdminSecret inp, Q_SecretExpiresAt = RR_SecretExpiresAt inp,
                  Q_RunningMsg = ''mark operation running''\<rparr>"

definition roles_RotateWithCommand :: "RotateRoleTxInput \<Rightarrow> ManagedRoleTx res io" where
  "roles_RotateWithCommand inp =
     in_tx (\<lambda>e. Inl (wrap ''begin rotate role tx'' e)) (\<lambda>e. Inl (wrap ''commit rotate role tx'' e))
       (try_tx (role_by_id (RR_RoleID inp)) (\<lambda>e. Inl (wrap ''scan postgres role for rotate'' e)) (\<lambda>row.
        case row of
          None \<Rightarrow> State_Monad.return (Abort (Inl (''role '' @ quote (RR_RoleID inp) @ '' not found'')))
        | Some old \<Rightarrow>
            if MRole_Status old = ''deleting''
            then State_Monad.return (Abort (Inl ''role is being deleted''))
            else do {
              now \<leftarrow> time_now;
              let version = MRole_PasswordVersion old + 1;
              let change = (\<lambda>r. r\<lparr>MRole_EncryptedPassword := RR_EncryptedPassword inp,
                     MRole_PasswordVersion := version, MRole_Status := ''pending'', MRole_UpdatedAt := now\<rparr>);
              try_tx (update_role (RR_RoleID inp) change) (\<lambda>e. Inl (wrap ''update role password'' e)) (\<lambda>_.
              try_tx (queue_operation (rotate_queue_input inp (MRole_ClusterID old)) now) Inl (\<lambda>(op, cmd).
              State_Monad.return (Commit (Inr \<lparr>Tx_Role = change old, Tx_Operation = op, Tx_Command = cmd\<rparr>))))
            }))"

definition delete_queue_input :: "DeleteRoleTxInput \<Rightarrow> string \<Rightarrow> QueueInput" where
  "delete_queue_input inp clusterID = \<lparr>Q_OperationID = DR_OperationID inp, Q_ClusterID = clusterID,
                Q_NodeID = DR_NodeID inp, Q_OperationType = ''delete_role'', Q_AgentID = DR_AgentID inp,
                Q_BeforeAction = DR_BeforeAction inp, Q_BeforePayload = DR_BeforePayload inp,
                Q_CommandID = DR_CommandID inp, Q_Action = DR_DropAction inp, Q_Payload = DR_Payload inp,
                Q_Password = None, Q_AdminSecretKey = DR_AdminSecretKey inp,
                Q_AdminSecret = DR_EncryptedAdminSecret inp, Q_SecretExpiresAt = DR_SecretExpiresAt inp,
                Q_RunningMsg = ''mark operation running''\<rparr>"

definition roles_DeleteWithCommand :: "DeleteRoleTxInput \<Rightarrow> ManagedRoleTx res io" where
  "roles_DeleteWithCommand inp =
     in_tx (\<lambda>e. Inl (wrap ''begin delete role tx'' e)) (\<lambda>e. Inl (wrap ''commit delete role tx'' e))
       (try_tx (role_by_id (DR_RoleID inp)) (\<lambda>e. Inl (wrap ''scan postgres role for delete'' e)) (\<lambda>row.
        case row of
          None \<Rightarrow> State_Monad.return (Abort (Inl (''role '' @ quote (DR_RoleID inp) @ '' not found'')))
        | Some old \<Rightarrow> do {
            now \<leftarrow> time_now;
            let change = (\<lambda>r. r\<lparr>MRole_Status := ''deleting'', MRole_UpdatedAt := now\<rparr>);
            try_tx (update_role (DR_RoleID inp) change) (\<lambda>e. Inl (wrap ''mark role deleting'' e)) (\<lambda>_.
            try_tx (queue_operation (delete_queue_input inp (MRole_ClusterID old)) now) Inl (\<lambda>(op, cmd).
            State_Monad.return (Commit (Inr \<lparr>Tx_Role = change old, Tx_Operation = op, Tx_Command = cmd\<rparr>))))
          }))"

section \<open>Results of role commands\<close>

definition operationTypeForRoleAction :: "string \<Rightarrow> string" where
  "operationTypeForRoleAction action =
     (if action = ''pg_ensure_role'' then ''create_role''
      else if action = ''pg_rotate_role_password'' then ''rotate_role_password''
      else if action = ''pg_drop_role'' then ''delete_role''
      else [])"

text \<open>The status of the role after the command: ready, failed, or no row after a successful drop.\<close>

definition settle_role :: "string \<Rightarrow> string \<Rightarrow> bool \<Rightarrow> Time \<Rightarrow> unit res io" where
  "settle_role action roleID success now =
     (if success then
        (if action = ''pg_drop_role''
         then wrap_err ''delete role after drop''
                (sql_write (\<lambda>d. d\<lparr>managed_roles := del_where (\<lambda>r. MRole_ID r = roleID) (managed_roles d)\<rparr>))
         else wrap_err ''mark role ready''
                (update_role roleID (\<lambda>r. r\<lparr>MRole_Status := ''ready'', MRole_UpdatedAt := now\<rparr>)))
      else wrap_err ''mark role failed''
             (update_role roleID (\<lambda>r. r\<lparr>MRole_Status := ''failed'', MRole_UpdatedAt := now\<rparr>)))"

definition settle_operation :: "string \<Rightarrow> string \<Rightarrow> string \<Rightarrow> string \<Rightarrow> Time \<Rightarrow> unit res io" where
  "settle_operation opID operationType status errMsg now = sql_write (\<lambda>d. d\<lparr>service_operations :=
     upd_where (\<lambda>x. Op_ID x = opID \<and> Op_OperationType x = operationType)
       (\<lambda>x. x\<lparr>Op_Status := status, Op_Error := errMsg, Op_UpdatedAt := now, Op_CompletedAt := finished status now\<rparr>)
       (service_operations d)\<rparr>)"

definition op_status :: "bool \<Rightarrow> string" where
  "op_status success = (if success then ''succeeded'' else ''failed'')"

text \<open>The result is the pair of Go's \<open>(handled, err)\<close>.\<close>

definition roles_HandleCommandResult :: "string \<Rightarrow> bool \<Rightarrow> string \<Rightarrow> (bool \<times> string option) io" where
  "roles_HandleCommandResult commandID success errMsg =
     in_tx (\<lambda>e. (False, Some (wrap ''begin role command result tx'' e)))
       (\<lambda>e. (True, Some (wrap ''commit role command result tx'' e)))
       (try_tx (query (\<lambda>d. List.find (\<lambda>c. Cmd_ID c = commandID) (agent_commands d)))
          (\<lambda>e. (False, Some (wrap ''get command for role result'' e))) (\<lambda>row.
        case row of
          None \<Rightarrow> State_Monad.return (Abort (False, None))
        | Some cmd \<Rightarrow> (
            let operationType = operationTypeForRoleAction (Cmd_Action cmd)
            in if operationType = [] then State_Monad.return (Abort (False, None))
               else (case (json_str ''role_id'' (Cmd_Payload cmd), json_str ''operation_id'' (Cmd_Payload cmd)) of
                   (Some roleID, Some operationID) \<Rightarrow>
                     if roleID = [] then State_Monad.return (Abort (True, Some ''role command payload missing role_id''))
                     else do {
                       now \<leftarrow> time_now;
                       try_tx (settle_role (Cmd_Action cmd) roleID success now) (\<lambda>e. (True, Some e)) (\<lambda>_.
                       if operationID = []
                       then State_Monad.return (Abort (True, Some ''role command payload missing operation_id''))
                       else
                         try_tx (settle_operation operationID operationType (op_status success) errMsg now)
                           (\<lambda>e. (True, Some (wrap ''update role operation'' e))) (\<lambda>_.
                         try_tx (sql_write (\<lambda>d. d\<lparr>agent_command_secrets :=
                                   del_where (\<lambda>s. Secret_CommandID s = commandID) (agent_command_secrets d)\<rparr>))
                           (\<lambda>e. (True, Some (wrap ''delete command secrets'' e))) (\<lambda>_.
                         State_Monad.return (Commit (True, None)))))
                     }
                 | _ \<Rightarrow> do {
                     e \<leftarrow> json_err (Cmd_Payload cmd);
                     State_Monad.return (Abort (True, Some (wrap ''parse role command payload'' e)))
                   }))))"

section \<open>What a queued operation adds\<close>

lemma wp_insertServiceOperation:
  "wp (insertServiceOperation i c n t now) (\<lambda>r w'. \<forall>op. r = Inr op \<longrightarrow>
     store w' = (store w)\<lparr>service_operations := service_operations (store w) @ [op]\<rparr> \<and>
     op = operation_row (Op_ID op) c n t now \<and> Op_ID op \<notin> Op_ID ` set (service_operations (store w))) w"
  by (auto simp: insertServiceOperation_def operations_insert_def Let_def wp_simps operation_row_def split: option.splits)

lemma wp_insertAgentCommand:
  "wp (insertAgentCommand i a n act p now) (\<lambda>r w'. \<forall>c. r = Inr c \<longrightarrow>
     store w' = (store w)\<lparr>agent_commands := agent_commands (store w) @ [c]\<rparr> \<and>
     c = command_row (Cmd_ID c) a n act p now) w"
  by (auto simp: insertAgentCommand_def commands_insert_def Let_def wp_simps command_row_def split: option.splits)

lemma wp_queue_before:
  "wp (queue_before q now) (\<lambda>r w'. \<forall>u. r = Inr u \<longrightarrow> (\<exists>cs.
     store w' = (store w)\<lparr>agent_commands := agent_commands (store w) @ cs\<rparr> \<and>
     (if Q_BeforeAction q = [] then cs = []
      else \<exists>i. cs = [command_row i (Q_AgentID q) (Q_NodeID q) (Q_BeforeAction q) (Q_BeforePayload q) (now - millisecond)]))) w"
proof (cases "Q_BeforeAction q = []")
  case False
  then show ?thesis
    unfolding queue_before_def
    by (auto simp: wp_try_do wp_return split: sum.splits intro!: wp_mono [OF wp_insertAgentCommand])
qed (simp add: queue_before_def wp_simps)

definition secret_triple :: "CommandSecret \<Rightarrow> string \<times> string \<times> string" where
  "secret_triple s = (Secret_CommandID s, Secret_Key s, Secret_Ciphertext s)"

lemma wp_insertSecret_frame:
  "wp (insertCommandSecret c k ct x now) (\<lambda>r w'. \<forall>u. r = Inr u \<longrightarrow> (\<exists>ss.
     store w' = (store w)\<lparr>agent_command_secrets := agent_command_secrets (store w) @ ss\<rparr> \<and>
     map secret_triple ss = [(c, k, base64_EncodeToString ct)])) w"
  by (auto simp: insertCommandSecret_def Let_def wp_simps secret_row_def secret_triple_def map_eq_Cons_conv
      split: option.splits)

lemma wp_insertAdminSecret_frame:
  "wp (insertAdminCommandSecret c k ct x now) (\<lambda>r w'. \<forall>u. r = Inr u \<longrightarrow> (\<exists>ss.
     store w' = (store w)\<lparr>agent_command_secrets := agent_command_secrets (store w) @ ss\<rparr> \<and>
     map secret_triple ss = (if ct = [] \<or> k = [] then [] else [(c, k, base64_EncodeToString ct)]))) w"
proof (cases "ct = [] \<or> k = []")
  case False
  then show ?thesis
    unfolding insertAdminCommandSecret_def if_not_P [OF False] by (intro wp_insertSecret_frame)
qed (simp add: insertAdminCommandSecret_def wp_simps exI [of _ "[]"])

text \<open>
  \<open>queued q now d d' op cmd\<close>: relative to \<open>d\<close>, the tables of \<open>d'\<close> have the running operation, the
  command (after the one that must run before it) and exactly the secrets of the input.
\<close>

definition queued_secrets :: "QueueInput \<Rightarrow> string \<Rightarrow> (string \<times> string \<times> string) list" where
  "queued_secrets q cmdID =
     (case Q_Password q of None \<Rightarrow> [] | Some ct \<Rightarrow> [(cmdID, ''password'', base64_EncodeToString ct)]) @
     (if Q_AdminSecret q = [] \<or> Q_AdminSecretKey q = [] then []
      else [(cmdID, Q_AdminSecretKey q, base64_EncodeToString (Q_AdminSecret q))])"

definition queued_commands :: "QueueInput \<Rightarrow> Time \<Rightarrow> AgentCommand \<Rightarrow> AgentCommand list \<Rightarrow> bool" where
  "queued_commands q now cmd cs \<longleftrightarrow>
     cmd = command_row (Cmd_ID cmd) (Q_AgentID q) (Q_NodeID q) (Q_Action q) (Q_Payload q) now \<and>
     (if Q_BeforeAction q = [] then cs = [cmd]
      else \<exists>i. cs = [command_row i (Q_AgentID q) (Q_NodeID q) (Q_BeforeAction q) (Q_BeforePayload q) (now - millisecond), cmd])"

definition queued :: "QueueInput \<Rightarrow> Time \<Rightarrow> db \<Rightarrow> db \<Rightarrow> ServiceOperation \<Rightarrow> AgentCommand \<Rightarrow> bool" where
  "queued q now d d' op cmd \<longleftrightarrow> (\<exists>cs ss.
     d' = d\<lparr>service_operations := service_operations d @ [op],
            agent_commands := agent_commands d @ cs, agent_command_secrets := agent_command_secrets d @ ss\<rparr> \<and>
     op = (operation_row (Op_ID op) (Q_ClusterID q) (Q_NodeID q) (Q_OperationType q) now)\<lparr>Op_Status := ''running''\<rparr> \<and>
     queued_commands q now cmd cs \<and>
     map secret_triple ss = queued_secrets q (Cmd_ID cmd))"

lemma upd_where_fresh: "i \<notin> Op_ID ` set ops \<Longrightarrow> upd_where (\<lambda>x. Op_ID x = i) f ops = ops"
  by (rule upd_where_none) auto

lemma wp_mark_running:
  assumes "service_operations (store w) = ops @ [op]" "Op_ID op \<notin> Op_ID ` set ops" "Op_UpdatedAt op = now"
  shows "wp (mark_operation_running (Op_ID op) now) (\<lambda>r w'. \<forall>u. r = Inr u \<longrightarrow>
     store w' = (store w)\<lparr>service_operations := ops @ [op\<lparr>Op_Status := ''running''\<rparr>]\<rparr>) w"
  using assms by (auto simp: mark_operation_running_def wp_simps upd_where_fresh split: option.splits)

lemma wp_queue_operation:
  "wp (queue_operation q now) (\<lambda>r w'. \<forall>op cmd. r = Inr (op, cmd) \<longrightarrow> queued q now (store w) (store w') op cmd) w"
proof -
  let ?Q = "\<lambda>r w'. \<forall>op cmd. r = Inr (op, cmd) \<longrightarrow> queued q now (store w) (store w') op cmd"
  let ?d = "store w"
  let ?added = "\<lambda>op cs ss. ?d\<lparr>service_operations := service_operations ?d @ [op],
       agent_commands := agent_commands ?d @ cs, agent_command_secrets := agent_command_secrets ?d @ ss\<rparr>"
  let ?op = "\<lambda>op. Op_ID op \<notin> Op_ID ` set (service_operations ?d) \<and>
       op = operation_row (Op_ID op) (Q_ClusterID q) (Q_NodeID q) (Q_OperationType q) now"
  have running: "op\<lparr>Op_Status := s\<rparr> = (operation_row (Op_ID op) c n t now)\<lparr>Op_Status := s\<rparr>"
    if "op = operation_row (Op_ID op) c n t now" for op s c n t
    by (subst that) simp
  have stamp: "Op_UpdatedAt op = now" if "op = operation_row (Op_ID op) c n t now" for op c n t
    by (subst that) (simp add: operation_row_def)
  have run: "wp (mark_operation_running (Op_ID op) now) (\<lambda>r w'. \<forall>u. r = Inr u \<longrightarrow>
       ?Q (Inr (op\<lparr>Op_Status := ''running''\<rparr>, cmd)) w') w5"
    if "store w5 = ?added op cs ss" "?op op" "queued_commands q now cmd cs" "map secret_triple ss = queued_secrets q (Cmd_ID cmd)"
    for w5 :: world and op cmd cs ss
    by (rule wp_mono [OF wp_mark_running [where ops = "service_operations ?d"]])
      (use that in \<open>auto simp: queued_def intro!: exI [of _ cs] exI [of _ ss] running stamp\<close>)
  have pw: "wp (case Q_Password q of None \<Rightarrow> State_Monad.return (Inr ())
        | Some ct \<Rightarrow> insertCommandSecret i ''password'' ct x now) (\<lambda>r w'. \<forall>u. r = Inr u \<longrightarrow> (\<exists>ss.
          store w' = (store w3)\<lparr>agent_command_secrets := agent_command_secrets (store w3) @ ss\<rparr> \<and>
          map secret_triple ss = (case Q_Password q of None \<Rightarrow> [] | Some ct \<Rightarrow> [(i, ''password'', base64_EncodeToString ct)]))) w3"
    for i x and w3 :: world
    using wp_insertSecret_frame [of i "''password''" _ x now w3] by (cases "Q_Password q") (simp_all add: wp_return)
  have finish: "wp (try_do (mark_operation_running (Op_ID op) now) (\<lambda>e. Inl (wrap (Q_RunningMsg q) e))
      (\<lambda>_. State_Monad.return (Inr (op\<lparr>Op_Status := ''running''\<rparr>, cmd)))) ?Q w5"
    if "store w5 = ?added op cs ss" "?op op" "queued_commands q now cmd cs" "map secret_triple ss = queued_secrets q (Cmd_ID cmd)"
    for w5 :: world and op cmd cs ss
    by (rule wp_try_doI [OF run [OF that]]) (simp_all add: wp_return)
  show ?thesis
    unfolding queue_operation_def
    apply (rule wp_try_doI [OF wp_insertServiceOperation], simp)
    apply (rule wp_try_doI [OF wp_queue_before], simp)
    apply (rule wp_try_doI [OF wp_insertAgentCommand], simp)
    apply (rule wp_try_doI [OF pw], simp)
    apply (rule wp_try_doI [OF wp_insertAdminSecret_frame], simp)
    apply (elim exE conjE)
    subgoal for op w1 u w2 cmd w3 u' w4 u'' w5 cs ss ss'
      by (rule finish [of w5 "ss @ ss'" "cs @ [cmd]" op cmd])
        (simp_all add: queued_commands_def queued_secrets_def split: if_splits)
    done
qed

section \<open>The transactions are all or nothing\<close>

text \<open>What each transaction does to the table of roles, before the operation is queued.\<close>

definition created_role :: "CreateRoleTxInput \<Rightarrow> ManagedRoleTx \<Rightarrow> db \<Rightarrow> db \<Rightarrow> bool" where
  "created_role inp tx d d' \<longleftrightarrow> (\<exists>now.
     Tx_Role tx = role_row (MRole_ID (Tx_Role tx)) (CR_ClusterID inp) (CR_RoleName inp) (CR_RoleKind inp)
        (CR_EncryptedPassword inp) (CR_ExpiresAt inp) now \<and>
     MRole_ID (Tx_Role tx) \<notin> MRole_ID ` set (managed_roles d) \<and>
     (CR_ClusterID inp, CR_RoleName inp) \<notin> (\<lambda>x. (MRole_ClusterID x, MRole_RoleName x)) ` set (managed_roles d) \<and>
     queued (create_queue_input inp ''mark operation running'') now
       (d\<lparr>managed_roles := managed_roles d @ [Tx_Role tx]\<rparr>) d' (Tx_Operation tx) (Tx_Command tx))"

lemma wp_roles_insert:
  "wp (roles_insert r) (\<lambda>res w'. \<forall>u. res = Inr u \<longrightarrow>
     store w' = (store w)\<lparr>managed_roles := managed_roles (store w) @ [r]\<rparr> \<and>
     MRole_ID r \<notin> MRole_ID ` set (managed_roles (store w)) \<and>
     (MRole_ClusterID r, MRole_RoleName r) \<notin> (\<lambda>x. (MRole_ClusterID x, MRole_RoleName x)) ` set (managed_roles (store w))) w"
  by (auto simp: roles_insert_def wp_simps split: option.splits)

lemma wp_update_role:
  "wp (update_role i f) (\<lambda>res w'. \<forall>u. res = Inr u \<longrightarrow>
     store w' = (store w)\<lparr>managed_roles := upd_where (\<lambda>r. MRole_ID r = i) f (managed_roles (store w))\<rparr>) w"
  by (auto simp: update_role_def wp_simps split: option.splits)

lemma wp_role_by_id:
  "wp (role_by_id i) (\<lambda>res w'. \<forall>row. res = Inr row \<longrightarrow> store w' = store w \<and> row = roles_table.by_key i (managed_roles (store w))) w"
  by (auto simp: role_by_id_def roles_table.by_key_def wp_simps split: option.splits)

lemma wp_queue_ok:
  "wp (queue_operation q now) (\<lambda>r w'. \<forall>x. r = Inr x \<longrightarrow> queued q now (store w) (store w') (fst x) (snd x)) w"
  by (rule wp_mono [OF wp_queue_operation]) auto

lemma wp_CreateWithCommand:
  "wp (roles_CreateWithCommand inp) (\<lambda>res w'. (\<exists>tx. res = Inr tx \<and> created_role inp tx (store w) (store w')) \<or>
     isl res \<and> store w' = store w) w"
  unfolding roles_CreateWithCommand_def
  apply (rule wp_in_tx_outcome [where A = isl and C = "\<lambda>res d'. \<exists>tx. res = Inr tx \<and> created_role inp tx (store w) d'"])
    apply (simp only: wp_bind wp_time_now Let_def)
    apply (rule wp_mono [where Q = "\<lambda>_ w'. store w' = store w"], simp add: wp_simps)
    apply (rule wp_try_txI [OF wp_roles_insert], simp)
    apply (rule wp_try_txI [OF wp_queue_ok], simp)
    apply (auto simp: wp_return created_role_def role_row_def split: prod.splits)
  done

text \<open>A transaction on a stored role: the row changes by \<open>f\<close> and the operation is queued.\<close>

definition changed_role ::
  "string \<Rightarrow> (Time \<Rightarrow> ManagedRole \<Rightarrow> ManagedRole) \<Rightarrow> QueueInput \<Rightarrow> ManagedRole \<Rightarrow> ManagedRoleTx \<Rightarrow> db \<Rightarrow> db \<Rightarrow> bool" where
  "changed_role i f q old tx d d' \<longleftrightarrow> (\<exists>now.
     roles_table.by_key i (managed_roles d) = Some old \<and> Tx_Role tx = f now old \<and>
     queued q now (d\<lparr>managed_roles := upd_where (\<lambda>r. MRole_ID r = i) (f now) (managed_roles d)\<rparr>) d'
       (Tx_Operation tx) (Tx_Command tx))"

definition rotate_row :: "RotateRoleTxInput \<Rightarrow> int \<Rightarrow> Time \<Rightarrow> ManagedRole \<Rightarrow> ManagedRole" where
  "rotate_row inp version now r = r\<lparr>MRole_EncryptedPassword := RR_EncryptedPassword inp,
     MRole_PasswordVersion := version, MRole_Status := ''pending'', MRole_UpdatedAt := now\<rparr>"

definition retry_row :: "CreateRoleTxInput \<Rightarrow> int \<Rightarrow> Time \<Rightarrow> ManagedRole \<Rightarrow> ManagedRole" where
  "retry_row inp version now r = r\<lparr>MRole_RoleKind := CR_RoleKind inp, MRole_EncryptedPassword := CR_EncryptedPassword inp,
     MRole_PasswordVersion := version, MRole_ExpiresAt := CR_ExpiresAt inp,
     MRole_Status := ''pending'', MRole_UpdatedAt := now\<rparr>"

definition rotated_role :: "RotateRoleTxInput \<Rightarrow> ManagedRoleTx \<Rightarrow> db \<Rightarrow> db \<Rightarrow> bool" where
  "rotated_role inp tx d d' \<longleftrightarrow> (\<exists>old. MRole_Status old \<noteq> ''deleting'' \<and>
     changed_role (RR_RoleID inp) (rotate_row inp (MRole_PasswordVersion old + 1))
       (rotate_queue_input inp (MRole_ClusterID old)) old tx d d')"

definition retried_role :: "CreateRoleTxInput \<Rightarrow> ManagedRoleTx \<Rightarrow> db \<Rightarrow> db \<Rightarrow> bool" where
  "retried_role inp tx d d' \<longleftrightarrow> (\<exists>old. MRole_Status old = ''failed'' \<and> MRole_ClusterID old = CR_ClusterID inp \<and>
     MRole_RoleName old = CR_RoleName inp \<and>
     changed_role (CR_RoleID inp) (retry_row inp (MRole_PasswordVersion old + 1))
       (create_queue_input inp ''mark retry operation running'') old tx d d')"

definition deleted_role :: "DeleteRoleTxInput \<Rightarrow> ManagedRoleTx \<Rightarrow> db \<Rightarrow> db \<Rightarrow> bool" where
  "deleted_role inp tx d d' \<longleftrightarrow> (\<exists>old.
     changed_role (DR_RoleID inp) (\<lambda>now r. r\<lparr>MRole_Status := ''deleting'', MRole_UpdatedAt := now\<rparr>)
       (delete_queue_input inp (MRole_ClusterID old)) old tx d d')"

lemma changed_roleI:
  "roles_table.by_key i (managed_roles d) = Some old \<Longrightarrow>
   queued q now (d\<lparr>managed_roles := upd_where (\<lambda>r. MRole_ID r = i) (f now) (managed_roles d)\<rparr>) d' op cmd \<Longrightarrow>
   changed_role i f q old \<lparr>Tx_Role = f now old, Tx_Operation = op, Tx_Command = cmd\<rparr> d d'"
  by (auto simp: changed_role_def)

lemma wp_change_role:
  assumes "roles_table.by_key i (managed_roles d) = Some old" "store w = d"
    and "\<And>op cmd d'. changed_role i f q old \<lparr>Tx_Role = f now old, Tx_Operation = op, Tx_Command = cmd\<rparr> d d' \<Longrightarrow>
           C (Inr \<lparr>Tx_Role = f now old, Tx_Operation = op, Tx_Command = cmd\<rparr>) d'"
  shows "wp (try_tx (update_role i (f now)) (\<lambda>e. Inl (wrap msg e)) (\<lambda>_.
       try_tx (queue_operation q now) Inl (\<lambda>(op, cmd).
       State_Monad.return (Commit (Inr \<lparr>Tx_Role = f now old, Tx_Operation = op, Tx_Command = cmd\<rparr>)))))
     (\<lambda>r w'. case r of Commit v \<Rightarrow> C v (store w') | Abort v \<Rightarrow> isl v) w"
  apply (rule wp_try_txI [OF wp_update_role], simp)
  apply (rule wp_try_txI [OF wp_queue_ok], simp)
  apply (auto simp: wp_return assms(2) split: prod.splits intro!: assms(3) changed_roleI [OF assms(1)])
  done

lemma wp_RotateWithCommand:
  "wp (roles_RotateWithCommand inp) (\<lambda>res w'. (\<exists>tx. res = Inr tx \<and> rotated_role inp tx (store w) (store w')) \<or>
     isl res \<and> store w' = store w) w"
  unfolding roles_RotateWithCommand_def Let_def rotate_row_def [symmetric]
  apply (rule wp_in_tx_outcome [where A = isl and C = "\<lambda>res d'. \<exists>tx. res = Inr tx \<and> rotated_role inp tx (store w) d'"])
    apply (rule wp_try_txI [OF wp_role_by_id], simp)
    apply (clarsimp simp: wp_return wp_bind wp_time_now split: option.split)
    apply (rule wp_change_role, assumption)
    apply (auto simp: rotated_role_def)
  done

lemma wp_RetryCreateWithCommand:
  "wp (roles_RetryCreateWithCommand inp) (\<lambda>res w'. (\<exists>tx. res = Inr tx \<and> retried_role inp tx (store w) (store w')) \<or>
     isl res \<and> store w' = store w) w"
  unfolding roles_RetryCreateWithCommand_def Let_def retry_row_def [symmetric]
  apply (rule wp_in_tx_outcome [where A = isl and C = "\<lambda>res d'. \<exists>tx. res = Inr tx \<and> retried_role inp tx (store w) d'"])
    apply (rule wp_try_txI [OF wp_role_by_id], simp)
    apply (clarsimp simp: wp_return wp_bind wp_time_now split: option.split)
    apply (frule roles_table.by_key_Some, clarsimp)
    apply (rule wp_change_role, assumption)
    apply (auto simp: retried_role_def)
  done

lemma wp_DeleteWithCommand:
  "wp (roles_DeleteWithCommand inp) (\<lambda>res w'. (\<exists>tx. res = Inr tx \<and> deleted_role inp tx (store w) (store w')) \<or>
     isl res \<and> store w' = store w) w"
  unfolding roles_DeleteWithCommand_def Let_def
  apply (rule wp_in_tx_outcome [where A = isl and C = "\<lambda>res d'. \<exists>tx. res = Inr tx \<and> deleted_role inp tx (store w) d'"])
    apply (rule wp_try_txI [OF wp_role_by_id], simp)
    apply (clarsimp simp: wp_return wp_bind wp_time_now split: option.split)
    apply (rule wp_change_role [where f = "\<lambda>now r. r\<lparr>MRole_Status := ''deleting'', MRole_UpdatedAt := now\<rparr>"], assumption)
    apply (auto simp: deleted_role_def)
  done

section \<open>Results\<close>

definition settled_roles :: "string \<Rightarrow> string \<Rightarrow> bool \<Rightarrow> Time \<Rightarrow> ManagedRole list \<Rightarrow> ManagedRole list" where
  "settled_roles action roleID success now rows =
     (if success \<and> action = ''pg_drop_role'' then del_where (\<lambda>r. MRole_ID r = roleID) rows
      else upd_where (\<lambda>r. MRole_ID r = roleID)
        (\<lambda>r. r\<lparr>MRole_Status := (if success then ''ready'' else ''failed''), MRole_UpdatedAt := now\<rparr>) rows)"

definition role_result_applied :: "string \<Rightarrow> bool \<Rightarrow> string \<Rightarrow> db \<Rightarrow> db \<Rightarrow> bool" where
  "role_result_applied commandID success errMsg d d' \<longleftrightarrow> (\<exists>cmd roleID operationID now.
     commands_table.by_key commandID (agent_commands d) = Some cmd \<and>
     operationTypeForRoleAction (Cmd_Action cmd) \<noteq> [] \<and>
     json_str ''role_id'' (Cmd_Payload cmd) = Some roleID \<and> roleID \<noteq> [] \<and>
     json_str ''operation_id'' (Cmd_Payload cmd) = Some operationID \<and> operationID \<noteq> [] \<and>
     d' = d\<lparr>managed_roles := settled_roles (Cmd_Action cmd) roleID success now (managed_roles d),
       service_operations := upd_where
         (\<lambda>x. Op_ID x = operationID \<and> Op_OperationType x = operationTypeForRoleAction (Cmd_Action cmd))
         (\<lambda>x. x\<lparr>Op_Status := op_status success, Op_Error := errMsg,
                Op_UpdatedAt := now, Op_CompletedAt := Some now\<rparr>) (service_operations d),
       agent_command_secrets := del_where (\<lambda>s. Secret_CommandID s = commandID) (agent_command_secrets d)\<rparr>)"

lemma wp_settle_role:
  "wp (settle_role act i ok now) (\<lambda>r w'. \<forall>u. r = Inr u \<longrightarrow>
     store w' = (store w)\<lparr>managed_roles := settled_roles act i ok now (managed_roles (store w))\<rparr>) w"
  by (auto simp: settle_role_def settled_roles_def update_role_def wp_simps split: option.splits)

lemma wp_settle_operation:
  "wp (settle_operation i t st msg now) (\<lambda>r w'. \<forall>u. r = Inr u \<longrightarrow>
     store w' = (store w)\<lparr>service_operations := upd_where (\<lambda>x. Op_ID x = i \<and> Op_OperationType x = t)
       (\<lambda>x. x\<lparr>Op_Status := st, Op_Error := msg, Op_UpdatedAt := now, Op_CompletedAt := finished st now\<rparr>)
       (service_operations (store w))\<rparr>) w"
  by (auto simp: settle_operation_def wp_simps split: option.splits)

lemma wp_drop_secrets:
  "wp (sql_write (\<lambda>d. d\<lparr>agent_command_secrets := del_where p (agent_command_secrets d)\<rparr>)) (\<lambda>r w'. \<forall>u. r = Inr u \<longrightarrow>
     store w' = (store w)\<lparr>agent_command_secrets := del_where p (agent_command_secrets (store w))\<rparr>) w"
  by (auto simp: wp_simps split: option.splits)

lemma wp_find_command:
  "wp (query (\<lambda>d. List.find (\<lambda>c. Cmd_ID c = i) (agent_commands d))) (\<lambda>r w'. \<forall>row. r = Inr row \<longrightarrow>
     store w' = store w \<and> row = commands_table.by_key i (agent_commands (store w))) w"
  by (auto simp: wp_simps commands_table.by_key_def split: option.splits)

lemma finished_op_status: "finished (op_status ok) now = Some now"
  by (simp add: finished_def op_status_def)

lemma wp_roles_HandleCommandResult:
  "wp (roles_HandleCommandResult commandID success errMsg) (\<lambda>res w'.
     res = (True, None) \<and> role_result_applied commandID success errMsg (store w) (store w') \<or>
     res \<noteq> (True, None) \<and> store w' = store w) w"
  unfolding roles_HandleCommandResult_def Let_def
  apply (rule wp_in_tx_outcome [where A = "\<lambda>res. res \<noteq> (True, None)" and
        C = "\<lambda>res d'. res = (True, None) \<and> role_result_applied commandID success errMsg (store w) d'"])
    apply (rule wp_try_txI [OF wp_find_command], simp)
    apply (clarsimp simp: wp_return wp_bind wp_time_now wp_json_err split: option.split)
    apply (intro conjI impI)
     apply (rule wp_try_txI [OF wp_settle_role], simp, simp add: wp_return)
    apply (rule wp_try_txI [OF wp_settle_role], simp)
    apply (rule wp_try_txI [OF wp_settle_operation], simp)
    apply (rule wp_try_txI [OF wp_drop_secrets], simp)
    apply (simp add: wp_return role_result_applied_def finished_op_status)
    apply (blast intro: refl)
   apply simp_all
  done

section \<open>The life of a role\<close>

text \<open>
  The abstract machine of a role. Its state is the status and the password version, \<open>None\<close> without a row; a
  label names the transaction that was committed or the command whose result was settled. Only a failed role is
  tried again, a role that is being deleted is not rotated, and only the results of commands make a role ready
  or failed or remove it.
\<close>

text \<open>What the machine sees of a role: its status and the version of its password.\<close>

type_synonym role_state = "(string \<times> int) option"

definition role_state :: "string \<Rightarrow> db \<Rightarrow> role_state" where
  "role_state i d = map_option (\<lambda>r. (MRole_Status r, MRole_PasswordVersion r)) (roles_table.by_key i (managed_roles d))"

text \<open>The label of a step names the transaction, or the action and outcome of the settled command.\<close>

datatype role_event = Created | Retried | Rotated | Deleted | Settled string bool

inductive role_step :: "role_event \<Rightarrow> role_state \<Rightarrow> role_state \<Rightarrow> bool" where
  create_step: "role_step Created None (Some (''pending'', 1))"
| retry_step: "role_step Retried (Some (''failed'', n)) (Some (''pending'', n + 1))"
| rotate_step: "s \<noteq> ''deleting'' \<Longrightarrow> role_step Rotated (Some (s, n)) (Some (''pending'', n + 1))"
| delete_step: "role_step Deleted (Some (s, n)) (Some (''deleting'', n))"
| ready_step: "a \<noteq> ''pg_drop_role'' \<Longrightarrow> role_step (Settled a True) (Some (s, n)) (Some (''ready'', n))"
| failed_step: "role_step (Settled a False) (Some (s, n)) (Some (''failed'', n))"
| dropped_step: "role_step (Settled ''pg_drop_role'' True) (Some (s, n)) None"
| late_step: "role_step (Settled a ok) None None"

inductive_cases role_stepE: "role_step e v v'"

inductive role_run :: "role_event list \<Rightarrow> role_state \<Rightarrow> role_state \<Rightarrow> bool" where
  stop: "role_run [] v v"
| move: "role_step e v v' \<Longrightarrow> role_run es v' v'' \<Longrightarrow> role_run (e # es) v v''"

datatype role_op =
    CreateOp CreateRoleTxInput | RetryOp CreateRoleTxInput | RotateOp RotateRoleTxInput
  | DeleteOp DeleteRoleTxInput | ResultOp string bool string

definition tx_role :: "ManagedRoleTx res \<Rightarrow> string option" where
  "tx_role r = (case r of Inl _ \<Rightarrow> None | Inr tx \<Rightarrow> Some (MRole_ID (Tx_Role tx)))"

text \<open>The role an operation reports to have changed, None when it reports an error.\<close>

definition settled_role :: "string \<Rightarrow> db \<Rightarrow> string option" where
  "settled_role c d = Option.bind (commands_table.by_key c (agent_commands d)) (\<lambda>cmd. json_str ''role_id'' (Cmd_Payload cmd))"

fun run_role_op :: "role_op \<Rightarrow> string option io" where
  "run_role_op (CreateOp inp) = do { r \<leftarrow> roles_CreateWithCommand inp; State_Monad.return (tx_role r) }"
| "run_role_op (RetryOp inp) = do { r \<leftarrow> roles_RetryCreateWithCommand inp; State_Monad.return (tx_role r) }"
| "run_role_op (RotateOp inp) = do { r \<leftarrow> roles_RotateWithCommand inp; State_Monad.return (tx_role r) }"
| "run_role_op (DeleteOp inp) = do { r \<leftarrow> roles_DeleteWithCommand inp; State_Monad.return (tx_role r) }"
| "run_role_op (ResultOp c ok msg) = do {
     w \<leftarrow> State_Monad.get;
     r \<leftarrow> roles_HandleCommandResult c ok msg;
     State_Monad.return (if r = (True, None) then settled_role c (store w) else None)
   }"

fun role_label :: "db \<Rightarrow> role_op \<Rightarrow> role_event" where
  "role_label d (CreateOp inp) = Created"
| "role_label d (RetryOp inp) = Retried"
| "role_label d (RotateOp inp) = Rotated"
| "role_label d (DeleteOp inp) = Deleted"
| "role_label d (ResultOp c ok msg) =
     Settled (case commands_table.by_key c (agent_commands d) of None \<Rightarrow> [] | Some cmd \<Rightarrow> Cmd_Action cmd) ok"

text \<open>The labels of the steps on role \<open>i\<close> in a run: one for each operation that reports to have changed it.\<close>

fun role_events :: "string \<Rightarrow> role_op list \<Rightarrow> world \<Rightarrow> role_event list" where
  "role_events i [] w = []"
| "role_events i (x # ops) w =
     (if result (run_role_op x) w = Some i then [role_label (store w) x] else []) @
     role_events i ops (after (run_role_op x) w)"

fun run_role_ops :: "role_op list \<Rightarrow> unit io" where
  "run_role_ops [] = State_Monad.return ()"
| "run_role_ops (x # ops) = do { _ \<leftarrow> run_role_op x; run_role_ops ops }"

lemma queued_roles: "queued q now d d' op cmd \<Longrightarrow> managed_roles d' = managed_roles d"
  by (auto simp: queued_def)

lemma role_state_put [simp]: "role_state i (d\<lparr>managed_roles := rows\<rparr>) =
    map_option (\<lambda>r. (MRole_Status r, MRole_PasswordVersion r)) (roles_table.by_key i rows)"
  by (simp add: role_state_def)

lemma role_state_queued: "queued q now d d' op cmd \<Longrightarrow> role_state i d' = role_state i d"
  by (simp add: role_state_def queued_roles)

lemma by_key_upd:
  "(\<And>s. MRole_ID (f s) = MRole_ID s) \<Longrightarrow>
   roles_table.by_key i (upd_where (\<lambda>r. MRole_ID r = k) f rows) =
   (if i = k then map_option f (roles_table.by_key i rows) else roles_table.by_key i rows)"
  unfolding roles_table.by_key_def by (induction rows) auto

lemma changed_role_state:
  assumes "changed_role k f q old tx d d'" "\<And>now s. MRole_ID (f now s) = MRole_ID s"
    "\<And>now s. MRole_Status (f now s) = st" "\<And>now. MRole_PasswordVersion (f now old) = n"
  shows "MRole_ID (Tx_Role tx) = k \<and> role_state k d = Some (MRole_Status old, MRole_PasswordVersion old) \<and>
    role_state k d' = Some (st, n) \<and> (i \<noteq> k \<longrightarrow> role_state i d' = role_state i d)"
  using assms by (auto simp: changed_role_def role_state_def by_key_upd queued_roles dest: roles_table.by_key_Some)

lemma created_role_state:
  assumes "created_role inp tx d d'"
  shows "role_state (MRole_ID (Tx_Role tx)) d = None \<and>
    role_state (MRole_ID (Tx_Role tx)) d' = Some (''pending'', 1) \<and> (i \<noteq> MRole_ID (Tx_Role tx) \<longrightarrow> role_state i d' = role_state i d)"
proof -
  let ?r = "Tx_Role tx"
  obtain c n k p x now where r: "?r = role_row (MRole_ID ?r) c n k p x now" and new: "MRole_ID ?r \<notin> MRole_ID ` set (managed_roles d)"
    and rows: "managed_roles d' = managed_roles d @ [?r]"
    using assms by (fastforce simp: created_role_def dest!: queued_roles)
  have "MRole_Status ?r = ''pending'' \<and> MRole_PasswordVersion ?r = 1" by (subst (1 2) r) (simp add: role_row_def)
  with new rows show ?thesis
    by (auto simp: role_state_def roles_table.by_key_insert_other roles_table.by_key_insert roles_table.by_key_None)
qed

lemma applied_view:
  assumes "role_result_applied c ok msg d d'"
  shows "\<exists>k. settled_role c d = Some k \<and> role_step (role_label d (ResultOp c ok msg)) (role_state k d) (role_state k d') \<and>
    (i \<noteq> k \<longrightarrow> role_state i d' = role_state i d)"
proof -
  obtain cmd k now where cmd: "commands_table.by_key c (agent_commands d) = Some cmd" "json_str ''role_id'' (Cmd_Payload cmd) = Some k"
    and rows: "managed_roles d' = settled_roles (Cmd_Action cmd) k ok now (managed_roles d)"
    using assms by (auto simp: role_result_applied_def)
  have "i \<noteq> k \<longrightarrow> role_state i d' = role_state i d"
    by (auto simp: rows settled_roles_def role_state_def by_key_upd roles_table.by_key_del_other)
  moreover have "role_step (Settled (Cmd_Action cmd) ok) (role_state k d) (role_state k d')"
    by (cases "roles_table.by_key k (managed_roles d)"; cases ok)
      (auto simp: rows settled_roles_def role_state_def by_key_upd roles_table.by_key_del intro: role_step.intros)
  ultimately show ?thesis using cmd by (simp add: settled_role_def)
qed

text \<open>One operation takes exactly the step it reports: an edge with its label on the role it names, and
  no step on any other role or when it reports an error.\<close>

definition role_moved :: "string \<Rightarrow> role_event \<Rightarrow> db \<Rightarrow> string option \<Rightarrow> db \<Rightarrow> bool" where
  "role_moved i e d changed d' \<longleftrightarrow>
     (if changed = Some i then role_step e (role_state i d) (role_state i d') else role_state i d' = role_state i d)"

definition moves_role :: "string \<Rightarrow> role_event \<Rightarrow> ManagedRoleTx \<Rightarrow> db \<Rightarrow> db \<Rightarrow> bool" where
  "moves_role i e tx d d' \<longleftrightarrow> (let k = MRole_ID (Tx_Role tx) in
     role_step e (role_state k d) (role_state k d') \<and> (i \<noteq> k \<longrightarrow> role_state i d' = role_state i d))"

lemma role_moved_tx:
  assumes "\<And>tx. r = Inr tx \<Longrightarrow> moves_role i e tx d d'"
    and "isl r \<Longrightarrow> d' = d"
  shows "role_moved i e d (tx_role r) d'"
  using assms by (cases r) (auto simp: role_moved_def tx_role_def moves_role_def Let_def)

lemma retried_moves: "retried_role inp tx d d' \<Longrightarrow> moves_role i Retried tx d d'"
  unfolding retried_role_def
  by (elim exE conjE, drule changed_role_state [where i = i and st = "''pending''"])
    (auto simp: retry_row_def moves_role_def Let_def intro: role_step.intros)

lemma rotated_moves: "rotated_role inp tx d d' \<Longrightarrow> moves_role i Rotated tx d d'"
  unfolding rotated_role_def
  by (elim exE conjE, drule changed_role_state [where i = i and st = "''pending''"])
    (auto simp: rotate_row_def moves_role_def Let_def intro: role_step.intros)

lemma deleted_moves: "deleted_role inp tx d d' \<Longrightarrow> moves_role i Deleted tx d d'"
  unfolding deleted_role_def
  by (elim exE conjE, drule changed_role_state [where i = i and st = "''deleting''"])
    (auto simp: moves_role_def Let_def intro: role_step.intros)

lemma created_moves: "created_role inp tx d d' \<Longrightarrow> moves_role i Created tx d d'"
  by (drule created_role_state [where i = i]) (auto simp: moves_role_def Let_def intro: role_step.intros)

lemma role_op_step:
  "wp (run_role_op x) (\<lambda>r w'. role_moved i (role_label (store w) x) (store w) r (store w')) w"
proof (cases x)
  case (CreateOp inp)
  show ?thesis
    unfolding CreateOp run_role_op.simps role_label.simps wp_bind
    by (rule wp_mono [OF wp_CreateWithCommand]) (auto simp: wp_return intro!: role_moved_tx created_moves)
next
  case (RetryOp inp)
  show ?thesis
    unfolding RetryOp run_role_op.simps role_label.simps wp_bind
    by (rule wp_mono [OF wp_RetryCreateWithCommand]) (auto simp: wp_return intro!: role_moved_tx retried_moves)
next
  case (RotateOp inp)
  show ?thesis
    unfolding RotateOp run_role_op.simps role_label.simps wp_bind
    by (rule wp_mono [OF wp_RotateWithCommand]) (auto simp: wp_return intro!: role_moved_tx rotated_moves)
next
  case (DeleteOp inp)
  show ?thesis
    unfolding DeleteOp run_role_op.simps role_label.simps wp_bind
    by (rule wp_mono [OF wp_DeleteWithCommand]) (auto simp: wp_return intro!: role_moved_tx deleted_moves)
next
  case (ResultOp c ok msg)
  have get: "wp State_Monad.get Q w = Q w w" for Q by (simp add: wp_def State_Monad.get_def)
  show ?thesis
    unfolding ResultOp run_role_op.simps wp_bind get
    by (rule wp_mono [OF wp_roles_HandleCommandResult])
      (use applied_view [of c ok msg "store w" _ i] in \<open>auto simp: wp_return role_moved_def\<close>)
qed

lemma role_ops_run:
  "role_run (role_events i ops w) (role_state i (store w)) (role_state i (store (after (run_role_ops ops) w)))"
proof (induction ops arbitrary: w)
  case Nil
  show ?case by (simp add: stop)
next
  case (Cons x ops)
  let ?w = "after (run_role_op x) w"
  have after: "after (run_role_ops (x # ops)) w = after (run_role_ops ops) ?w" by (simp add: after_bind)
  have "role_moved i (role_label (store w) x) (store w) (result (run_role_op x) w) (store ?w)"
    using role_op_step [of x i w] by (simp add: wp_outcome)
  then show ?case using Cons.IH [of ?w] unfolding after
    by (auto simp: role_moved_def intro: move)
qed

section \<open>Redaction\<close>

lemma take_drop_prefix: "j + n \<le> k \<Longrightarrow> k \<le> length s \<Longrightarrow> take n (drop j (take k s @ t)) = take n (drop j s)"
  by (simp add: take_drop)

lemma Index_same_marker:
  assumes "strings_Index s m = Some i"
  shows "strings_Index (take i s @ m @ t) m = Some i"
proof -
  note s = strings_Index_Some [OF assms]
  then have len: "i + length m \<le> length s" by (metis drop_eq_Nil2 length_drop length_take le_diff_conv2 min.cobounded1 min_def nle_le add.commute)
  have eq: "take i s @ m @ t = take (i + length m) s @ t" using s by (simp add: take_add)
  have "take (length m) (drop j (take i s @ m @ t)) \<noteq> m" if "j < i" for j
    unfolding eq using s that len by (subst take_drop_prefix) auto
  then show ?thesis using s by (intro strings_Index_SomeI) auto
qed

lemma Index_other_marker:
  assumes "strings_Index s m = Some i" "strings_Index s m' = None" "CHR ''='' \<notin> set m'"
    "strings_Index t m' = None" "m' \<noteq> []"
  shows "strings_Index (take i s @ m @ (CHR ''='' # t)) m' = None"
proof -
  note s = strings_Index_Some [OF assms(1)]
  then have len: "i + length m \<le> length s" by (metis drop_eq_Nil2 length_drop length_take le_diff_conv2 min.cobounded1 min_def nle_le add.commute)
  let ?k = "i + length m"
  have eq: "take i s @ m @ (CHR ''='' # t) = take ?k s @ (CHR ''='' # t)" using s by (simp add: take_add)
  have "take (length m') (drop j (take ?k s @ (CHR ''='' # t))) \<noteq> m'" for j
  proof -
    consider "j + length m' \<le> ?k" | "j \<le> ?k" "?k < j + length m'" | "?k < j" by linarith
    then show ?thesis
    proof cases
      case 1
      then show ?thesis using assms(2) len by (subst take_drop_prefix) (auto simp: strings_Index_None)
    next
      case 2
      have "take (length m') (drop j (take ?k s @ (CHR ''='' # t))) ! (?k - j) = CHR ''=''"
        using 2 len by (simp add: nth_append)
      moreover have "m' ! (?k - j) \<in> set m'" using 2 by simp
      ultimately show ?thesis using assms(3) by metis
    next
      case 3
      then obtain n where "j = Suc (?k + n)" using less_imp_Suc_add by blast
      then have "drop j (take ?k s @ (CHR ''='' # t)) = drop n t" using len by simp
      then show ?thesis using assms(4,5) by (cases "n \<le> length t") (auto simp: strings_Index_None)
    qed
  qed
  then show ?thesis unfolding eq strings_Index_None by blast
qed

lemma ToLower_append [simp]: "strings_ToLower (a @ b) = strings_ToLower a @ strings_ToLower b"
  by (simp add: strings_ToLower_def)

lemma ToLower_take [simp]: "strings_ToLower (take i s) = take i (strings_ToLower s)"
  by (simp add: strings_ToLower_def take_map)

lemma ToLower_markers:
  "strings_ToLower ''password'' = ''password''" "strings_ToLower ''secret'' = ''secret''"
  "strings_ToLower ''token'' = ''token''" "strings_ToLower ''=[REDACTED]'' = CHR ''='' # ''[redacted]''"
  by code_simp+

lemma redacted_no_marker:
  "strings_Index ''[redacted]'' ''password'' = None" "strings_Index ''[redacted]'' ''secret'' = None"
  by simp_all

lemma Redact_cases:
  "RedactStoredError s =
    (case strings_Index (strings_ToLower s) ''password'' of Some i \<Rightarrow> take i s @ ''password'' @ ''=[REDACTED]''
     | None \<Rightarrow> (case strings_Index (strings_ToLower s) ''secret'' of Some i \<Rightarrow> take i s @ ''secret'' @ ''=[REDACTED]''
     | None \<Rightarrow> (case strings_Index (strings_ToLower s) ''token'' of Some i \<Rightarrow> take i s @ ''token'' @ ''=[REDACTED]''
     | None \<Rightarrow> s)))"
  by (simp add: RedactStoredError_def redact_markers_def split: option.splits)

lemma take_same: "strings_Index (strings_ToLower s) m = Some i \<Longrightarrow> take i (take i s @ x) = take i s"
  by (auto simp: strings_ToLower_def dest!: strings_Index_Some)

lemma Redact_idempotent: "RedactStoredError (RedactStoredError s) = RedactStoredError s"
proof -
  have side: "CHR ''='' \<notin> set ''password''" "''password'' \<noteq> []" "CHR ''='' \<notin> set ''secret''" "''secret'' \<noteq> []"
    by simp_all
  note idx = Index_same_marker Index_other_marker [OF _ _ side(1) redacted_no_marker(1) side(2)]
    Index_other_marker [OF _ _ side(3) redacted_no_marker(2) side(4)]
  show ?thesis
    by (cases "strings_Index (strings_ToLower s) ''password''"; cases "strings_Index (strings_ToLower s) ''secret''";
        cases "strings_Index (strings_ToLower s) ''token''")
      (auto simp only: Redact_cases option.case ToLower_append ToLower_take ToLower_markers idx take_same)
qed

section \<open>Properties\<close>

text \<open>
  creating a managed role is all or nothing. Whatever statement fails, the call returns an error
  and every table is as before; or it returns the new role, whose name was free in the cluster, and
  the tables have grown by that role, its running operation, the command that creates it (behind the
  command that must run before it) and the secrets of that command, and by nothing else.
\<close>

theorem create_role_all_or_nothing:
  "case result (roles_CreateWithCommand inp) w of
     Inl _ \<Rightarrow> store (after (roles_CreateWithCommand inp) w) = store w
   | Inr tx \<Rightarrow> created_role inp tx (store w) (store (after (roles_CreateWithCommand inp) w))"
  using wp_CreateWithCommand [of inp w] by (auto simp: wp_outcome split: sum.splits)

text \<open>
  C18: rotating a password is all or nothing. On success the role existed and was not being deleted,
  its password is replaced, its version grows by exactly one and its status is pending; no other
  role changes, and the operation, the command and its password secret are queued with it. On any
  error no table changes.
\<close>

theorem rotate_role_all_or_nothing:
  "case result (roles_RotateWithCommand inp) w of
     Inl _ \<Rightarrow> store (after (roles_RotateWithCommand inp) w) = store w
   | Inr tx \<Rightarrow> rotated_role inp tx (store w) (store (after (roles_RotateWithCommand inp) w))"
  using wp_RotateWithCommand [of inp w] by (auto simp: wp_outcome split: sum.splits)

text \<open>
  the result of a role command is applied completely or not at all. \<open>HandleCommandResult\<close> reports
  success only when the role, the operation of the matching type and the secrets of the command have
  all been settled together; in every other outcome (not a role command, a malformed payload, a
  failed statement) no table changes.
\<close>

theorem role_result_all_or_nothing:
  "if result (roles_HandleCommandResult commandID success errMsg) w = (True, None)
   then role_result_applied commandID success errMsg (store w)
          (store (after (roles_HandleCommandResult commandID success errMsg) w))
   else store (after (roles_HandleCommandResult commandID success errMsg) w) = store w"
  using wp_roles_HandleCommandResult [of commandID success errMsg w] by (auto simp: wp_outcome)

text \<open>
  C8: refinement. A sequence of role transactions and command results, with any failures in between, takes a
  role through the machine \<open>role_step\<close>: the operations that report to have changed it are, in their order,
  the labels of steps that lead from its status and password version before to those after. An operation that
  reports an error, or changes another role, is no step. So a retry only follows a failure, a rotation never
  revives a role that is being deleted, the version grows by one with each new password, and a role is ready
  only after the result of a command.
\<close>

theorem role_ops_refine_role_step:
  "role_run (role_events i ops w) (role_state i (store w)) (role_state i (store (after (run_role_ops ops) w)))"
  by (rule role_ops_run)

text \<open>
  what the machine says of deletion: a role that is being deleted stays so until the result of a command.
\<close>

lemma deleting_waits_for_result:
  "role_run es v v' \<Longrightarrow> v = Some (''deleting'', n) \<Longrightarrow> \<forall>a ok. Settled a ok \<notin> set es \<Longrightarrow> v' = v"
  by (induction rule: role_run.induct) (auto elim!: role_stepE)

text \<open>
  redaction is stable. Redacting a stored error a second time, as the agent service and the
  repositories both do, changes nothing.
\<close>

theorem RedactStoredError_idempotent: "RedactStoredError (RedactStoredError s) = RedactStoredError s"
  by (rule Redact_idempotent)

text \<open>
  the markers are searched in a fixed order and only the first kind found is cut, so a secret
  that stands before a later marker of an earlier kind survives redaction.
\<close>

theorem RedactStoredError_keeps_earlier_secret:
  "RedactStoredError ''token=abc password=x'' = ''token=abc password=[REDACTED]''"
  by code_simp

end
