(* ===== verification/ManagedDatabases.thy ===== *)
theory ManagedDatabases
  imports ManagedRoles
begin

text \<open>
  \<open>internal/db/managed_database_repo.go\<close>: the application databases Skylex manages. Creating and
  dropping a database write its row, an operation and the agent command together, as for roles. A
  successful \<open>pg_ensure_database\<close> of a database with an owner changes no row: it asks the caller to
  queue the grant, and the result of the grant command settles the operation.
\<close>

section \<open>Rows\<close>

record ManagedDatabaseTx =
  DbTx_Database :: ManagedDatabase
  DbTx_Operation :: ServiceOperation
  DbTx_Command :: AgentCommand

record DatabaseGrantRequest =
  Grant_ClusterID :: string
  Grant_DatabaseID :: string
  Grant_DatabaseName :: string
  Grant_OperationID :: string
  Grant_GrantRoleName :: string
  Grant_GrantRoleKind :: string

record CreateDatabaseTxInput =
  CD_DatabaseID :: string
  CD_OperationID :: string
  CD_CommandID :: string
  CD_ClusterID :: string
  CD_NodeID :: string
  CD_AgentID :: string
  CD_DatabaseName :: string
  CD_OwnerRoleID :: string
  CD_Payload :: payload
  CD_BeforeAction :: string
  CD_BeforePayload :: payload
  CD_EncryptedAdminSecret :: string
  CD_AdminSecretKey :: string
  CD_SecretExpiresAt :: "Time option"
  CD_EnsureAction :: string

record DeleteDatabaseTxInput =
  DD_DatabaseID :: string
  DD_OperationID :: string
  DD_CommandID :: string
  DD_NodeID :: string
  DD_AgentID :: string
  DD_Payload :: payload
  DD_BeforeAction :: string
  DD_BeforePayload :: payload
  DD_EncryptedAdminSecret :: string
  DD_AdminSecretKey :: string
  DD_SecretExpiresAt :: "Time option"
  DD_DropAction :: string

record GrantDatabaseTxInput =
  GD_CommandID :: string
  GD_NodeID :: string
  GD_AgentID :: string
  GD_Payload :: payload
  GD_EncryptedAdminSecret :: string
  GD_AdminSecretKey :: string
  GD_SecretExpiresAt :: "Time option"
  GD_GrantAction :: string

record databaseCommandPayload =
  DP_DatabaseID :: string
  DP_OperationID :: string
  DP_DatabaseName :: string
  DP_OwnerRoleName :: string
  DP_OwnerRoleKind :: string
  DP_GrantRoleName :: string
  DP_GrantRoleKind :: string

text \<open>\<open>json.Unmarshal\<close> into the payload fails when one of its fields is not a string.\<close>

definition databaseCommandPayload_of :: "payload \<Rightarrow> databaseCommandPayload option" where
  "databaseCommandPayload_of p = do {
     databaseID \<leftarrow> json_str ''database_id'' p;
     operationID \<leftarrow> json_str ''operation_id'' p;
     databaseName \<leftarrow> json_str ''database_name'' p;
     ownerName \<leftarrow> json_str ''owner_role_name'' p;
     ownerKind \<leftarrow> json_str ''owner_role_kind'' p;
     grantName \<leftarrow> json_str ''grant_role_name'' p;
     grantKind \<leftarrow> json_str ''grant_role_kind'' p;
     Some \<lparr>DP_DatabaseID = databaseID, DP_OperationID = operationID, DP_DatabaseName = databaseName,
           DP_OwnerRoleName = ownerName, DP_OwnerRoleKind = ownerKind,
           DP_GrantRoleName = grantName, DP_GrantRoleKind = grantKind\<rparr>
   }"

section \<open>Queries\<close>

definition databases_GetByID :: "string \<Rightarrow> ManagedDatabase option res io" where
  "databases_GetByID i = wrap_err ''scan postgres database''
     (query (\<lambda>d. List.find (\<lambda>x. MDb_ID x = i) (managed_databases d)))"

definition databases_GetByClusterAndName :: "string \<Rightarrow> string \<Rightarrow> ManagedDatabase option res io" where
  "databases_GetByClusterAndName clusterID databaseName = wrap_err ''scan postgres database''
     (query (\<lambda>d. List.find (\<lambda>x. MDb_ClusterID x = clusterID \<and> MDb_DatabaseName x = databaseName) (managed_databases d)))"

definition databases_ListByCluster :: "string \<Rightarrow> ManagedDatabase list res io" where
  "databases_ListByCluster clusterID = wrap_err ''list postgres databases''
     (query (\<lambda>d. sort_key MDb_CreatedAt (filter (\<lambda>x. MDb_ClusterID x = clusterID) (managed_databases d))))"

definition databases_HasByOwnerRole :: "string \<Rightarrow> bool res io" where
  "databases_HasByOwnerRole roleID = wrap_err ''check databases by owner role''
     (query (\<lambda>d. list_ex (\<lambda>x. MDb_OwnerRoleID x = Some roleID \<and> MDb_Status x \<noteq> ''deleting'') (managed_databases d)))"

section \<open>Transactions\<close>

definition databases_insert :: "ManagedDatabase \<Rightarrow> unit res io" where
  "databases_insert x = exec (\<lambda>d.
     if MDb_ID x \<in> MDb_ID ` set (managed_databases d)
        \<or> (MDb_ClusterID x, MDb_DatabaseName x) \<in> (\<lambda>y. (MDb_ClusterID y, MDb_DatabaseName y)) ` set (managed_databases d)
     then None else Some (d\<lparr>managed_databases := managed_databases d @ [x]\<rparr>))"

definition database_row :: "string \<Rightarrow> CreateDatabaseTxInput \<Rightarrow> Time \<Rightarrow> ManagedDatabase" where
  "database_row i inp now =
     \<lparr>MDb_ID = i, MDb_ClusterID = CD_ClusterID inp, MDb_DatabaseName = CD_DatabaseName inp,
      MDb_OwnerRoleID = (if CD_OwnerRoleID inp \<noteq> [] then Some (CD_OwnerRoleID inp) else None),
      MDb_Status = ''pending'', MDb_CreatedAt = now, MDb_UpdatedAt = now\<rparr>"

definition create_db_queue_input :: "CreateDatabaseTxInput \<Rightarrow> QueueInput" where
  "create_db_queue_input inp = \<lparr>Q_OperationID = CD_OperationID inp, Q_ClusterID = CD_ClusterID inp,
     Q_NodeID = CD_NodeID inp, Q_OperationType = ''create_database'', Q_AgentID = CD_AgentID inp,
     Q_BeforeAction = CD_BeforeAction inp, Q_BeforePayload = CD_BeforePayload inp,
     Q_CommandID = CD_CommandID inp, Q_Action = CD_EnsureAction inp, Q_Payload = CD_Payload inp,
     Q_Password = None, Q_AdminSecretKey = CD_AdminSecretKey inp,
     Q_AdminSecret = CD_EncryptedAdminSecret inp, Q_SecretExpiresAt = CD_SecretExpiresAt inp,
     Q_RunningMsg = ''mark operation running''\<rparr>"

definition databases_CreateWithCommand :: "CreateDatabaseTxInput \<Rightarrow> ManagedDatabaseTx res io" where
  "databases_CreateWithCommand inp =
     in_tx (\<lambda>e. Inl (wrap ''begin create database tx'' e)) (\<lambda>e. Inl (wrap ''commit create database tx'' e)) (do {
       now \<leftarrow> time_now;
       databaseID \<leftarrow> (if CD_DatabaseID inp = [] then id_New else State_Monad.return (CD_DatabaseID inp));
       let database = database_row databaseID inp now;
       try_tx (databases_insert database) (\<lambda>e. Inl (wrap ''insert postgres database'' e)) (\<lambda>_.
       try_tx (queue_operation (create_db_queue_input inp) now) Inl (\<lambda>(op, cmd).
       State_Monad.return (Commit (Inr \<lparr>DbTx_Database = database, DbTx_Operation = op, DbTx_Command = cmd\<rparr>))))
     })"

definition database_by_id :: "string \<Rightarrow> ManagedDatabase option res io" where
  "database_by_id i = query (\<lambda>d. List.find (\<lambda>x. MDb_ID x = i) (managed_databases d))"

definition update_database :: "string \<Rightarrow> (ManagedDatabase \<Rightarrow> ManagedDatabase) \<Rightarrow> unit res io" where
  "update_database i f = sql_write (\<lambda>d. d\<lparr>managed_databases := upd_where (\<lambda>x. MDb_ID x = i) f (managed_databases d)\<rparr>)"

definition with_status :: "string \<Rightarrow> Time \<Rightarrow> ManagedDatabase \<Rightarrow> ManagedDatabase" where
  "with_status status now x = x\<lparr>MDb_Status := status, MDb_UpdatedAt := now\<rparr>"

definition delete_db_queue_input :: "DeleteDatabaseTxInput \<Rightarrow> string \<Rightarrow> QueueInput" where
  "delete_db_queue_input inp clusterID = \<lparr>Q_OperationID = DD_OperationID inp, Q_ClusterID = clusterID,
     Q_NodeID = DD_NodeID inp, Q_OperationType = ''delete_database'', Q_AgentID = DD_AgentID inp,
     Q_BeforeAction = DD_BeforeAction inp, Q_BeforePayload = DD_BeforePayload inp,
     Q_CommandID = DD_CommandID inp, Q_Action = DD_DropAction inp, Q_Payload = DD_Payload inp,
     Q_Password = None, Q_AdminSecretKey = DD_AdminSecretKey inp,
     Q_AdminSecret = DD_EncryptedAdminSecret inp, Q_SecretExpiresAt = DD_SecretExpiresAt inp,
     Q_RunningMsg = ''mark operation running''\<rparr>"

definition databases_DeleteWithCommand :: "DeleteDatabaseTxInput \<Rightarrow> ManagedDatabaseTx res io" where
  "databases_DeleteWithCommand inp =
     in_tx (\<lambda>e. Inl (wrap ''begin delete database tx'' e)) (\<lambda>e. Inl (wrap ''commit delete database tx'' e))
       (try_tx (database_by_id (DD_DatabaseID inp)) (\<lambda>e. Inl (wrap ''scan postgres database for delete'' e)) (\<lambda>row.
        case row of
          None \<Rightarrow> State_Monad.return (Abort (Inl (''database '' @ quote (DD_DatabaseID inp) @ '' not found'')))
        | Some old \<Rightarrow> do {
            now \<leftarrow> time_now;
            try_tx (update_database (DD_DatabaseID inp) (with_status ''deleting'' now)) (\<lambda>e. Inl (wrap ''mark database deleting'' e)) (\<lambda>_.
            try_tx (queue_operation (delete_db_queue_input inp (MDb_ClusterID old)) now) Inl (\<lambda>(op, cmd).
            State_Monad.return (Commit (Inr \<lparr>DbTx_Database = with_status ''deleting'' now old,
              DbTx_Operation = op, DbTx_Command = cmd\<rparr>))))
          }))"

definition databases_QueueGrantCommand :: "GrantDatabaseTxInput \<Rightarrow> AgentCommand res io" where
  "databases_QueueGrantCommand inp =
     in_tx (\<lambda>e. Inl (wrap ''begin grant database command tx'' e)) (\<lambda>e. Inl (wrap ''commit grant database command tx'' e)) (do {
       now \<leftarrow> time_now;
       try_tx (insertAgentCommand (GD_CommandID inp) (GD_AgentID inp) (GD_NodeID inp) (GD_GrantAction inp) (GD_Payload inp) now)
         (\<lambda>e. Inl (wrap ''insert grant database command'' e)) (\<lambda>cmd.
       try_tx (insertAdminCommandSecret (Cmd_ID cmd) (GD_AdminSecretKey inp) (GD_EncryptedAdminSecret inp)
                 (GD_SecretExpiresAt inp) now) Inl (\<lambda>_.
       State_Monad.return (Commit (Inr cmd))))
     })"

section \<open>Results\<close>

definition operationTypeForDatabaseAction :: "string \<Rightarrow> string" where
  "operationTypeForDatabaseAction action =
     (if action = ''pg_ensure_database'' \<or> action = ''pg_grant_database_privileges'' then ''create_database''
      else if action = ''pg_drop_database'' then ''delete_database''
      else [])"

text \<open>Here a missing row is an error, \<open>sql.ErrNoRows\<close>.\<close>

definition clusterIDForDatabase :: "string \<Rightarrow> string res io" where
  "clusterIDForDatabase databaseID =
     try_do (database_by_id databaseID) (\<lambda>e. Inl (wrap ''get database cluster'' e)) (\<lambda>row.
     State_Monad.return (case row of
       None \<Rightarrow> Inl (wrap ''get database cluster'' ''sql: no rows in result set'')
     | Some x \<Rightarrow> Inr (MDb_ClusterID x)))"

definition markDatabaseStatus :: "string \<Rightarrow> string \<Rightarrow> Time \<Rightarrow> unit res io" where
  "markDatabaseStatus databaseID status now =
     wrap_err (''mark database '' @ status) (update_database databaseID (with_status status now))"

definition markDatabaseOperation :: "string \<Rightarrow> string \<Rightarrow> string \<Rightarrow> string \<Rightarrow> Time \<Rightarrow> unit res io" where
  "markDatabaseOperation operationID operationType status errMsg now =
     wrap_err ''update database operation'' (settle_operation operationID operationType status errMsg now)"

definition databases_MarkCreateFailed :: "string \<Rightarrow> string \<Rightarrow> string \<Rightarrow> unit res io" where
  "databases_MarkCreateFailed databaseID operationID errMsg =
     in_tx (\<lambda>e. Inl (wrap ''begin mark database create failed tx'' e))
       (\<lambda>e. Inl (wrap ''commit mark database create failed tx'' e)) (do {
       now \<leftarrow> time_now;
       try_tx (markDatabaseStatus databaseID ''failed'' now) Inl (\<lambda>_.
       try_tx (markDatabaseOperation operationID ''create_database'' ''failed'' (RedactStoredError errMsg) now) Inl (\<lambda>_.
       State_Monad.return (Commit (Inr ()))))
     })"

text \<open>The two statements of every settled outcome: the row of the database and its operation.\<close>

definition settle_database ::
  "databaseCommandPayload \<Rightarrow> string \<Rightarrow> string \<Rightarrow> string \<Rightarrow> string \<Rightarrow> Time \<Rightarrow> unit res io" where
  "settle_database p operationType dbStatus opStatus errMsg now =
     try_do (markDatabaseStatus (DP_DatabaseID p) dbStatus now) Inl (\<lambda>_.
     markDatabaseOperation (DP_OperationID p) operationType opStatus errMsg now)"

definition drop_database :: "databaseCommandPayload \<Rightarrow> string \<Rightarrow> Time \<Rightarrow> unit res io" where
  "drop_database p operationType now =
     try_do (sql_write (\<lambda>d. d\<lparr>managed_databases := del_where (\<lambda>x. MDb_ID x = DP_DatabaseID p) (managed_databases d)\<rparr>))
       (\<lambda>e. Inl (wrap ''delete database after drop'' e)) (\<lambda>_.
     markDatabaseOperation (DP_OperationID p) operationType ''succeeded'' [] now)"

text \<open>The \<open>switch\<close> on the action: its follow-up request, if any.\<close>

definition database_outcome ::
  "string \<Rightarrow> databaseCommandPayload \<Rightarrow> bool \<Rightarrow> string \<Rightarrow> Time \<Rightarrow> DatabaseGrantRequest option res io" where
  "database_outcome action p success storedErr now = (
     let operationType = operationTypeForDatabaseAction action;
         failed = settle_database p operationType ''failed'' ''failed'' storedErr now;
         plain = (\<lambda>m. try_do m Inl (\<lambda>_. State_Monad.return (Inr None)))
     in if action = ''pg_ensure_database'' then
          (if success \<and> DP_OwnerRoleName p \<noteq> []
           then try_do (clusterIDForDatabase (DP_DatabaseID p)) Inl (\<lambda>clusterID.
                State_Monad.return (Inr (Some \<lparr>Grant_ClusterID = clusterID, Grant_DatabaseID = DP_DatabaseID p,
                  Grant_DatabaseName = DP_DatabaseName p, Grant_OperationID = DP_OperationID p,
                  Grant_GrantRoleName = DP_OwnerRoleName p, Grant_GrantRoleKind = DP_OwnerRoleKind p\<rparr>)))
           else if success then plain (settle_database p operationType ''ready'' ''succeeded'' [] now)
           else plain failed)
        else if action = ''pg_grant_database_privileges'' then
          (if success then plain (settle_database p ''create_database'' ''ready'' ''succeeded'' [] now)
           else plain (settle_database p ''create_database'' ''failed'' ''failed'' storedErr now))
        else if action = ''pg_drop_database'' then
          (if success then plain (drop_database p operationType now) else plain failed)
        else State_Monad.return (Inr None))"

text \<open>The result is the triple of Go's \<open>(handled, followUp, err)\<close>.\<close>

definition databases_HandleCommandResult ::
  "string \<Rightarrow> bool \<Rightarrow> string \<Rightarrow> (bool \<times> DatabaseGrantRequest option \<times> string option) io" where
  "databases_HandleCommandResult commandID success errMsg =
     in_tx (\<lambda>e. (False, None, Some (wrap ''begin database command result tx'' e)))
       (\<lambda>e. (True, None, Some (wrap ''commit database command result tx'' e)))
       (try_tx (query (\<lambda>d. List.find (\<lambda>c. Cmd_ID c = commandID) (agent_commands d)))
          (\<lambda>e. (False, None, Some (wrap ''get command for database result'' e))) (\<lambda>row.
        case row of
          None \<Rightarrow> State_Monad.return (Abort (False, None, None))
        | Some cmd \<Rightarrow>
            if operationTypeForDatabaseAction (Cmd_Action cmd) = []
            then State_Monad.return (Abort (False, None, None))
            else (case databaseCommandPayload_of (Cmd_Payload cmd) of
                None \<Rightarrow> do {
                  e \<leftarrow> json_err (Cmd_Payload cmd);
                  State_Monad.return (Abort (True, None, Some (wrap ''parse database command payload'' e)))
                }
              | Some p \<Rightarrow>
                  if DP_DatabaseID p = []
                  then State_Monad.return (Abort (True, None, Some ''database command payload missing database_id''))
                  else if DP_OperationID p = []
                  then State_Monad.return (Abort (True, None, Some ''database command payload missing operation_id''))
                  else do {
                    now \<leftarrow> time_now;
                    try_tx (database_outcome (Cmd_Action cmd) p success (RedactStoredError errMsg) now)
                      (\<lambda>e. (True, None, Some e)) (\<lambda>followUp.
                    State_Monad.return (Commit (True, followUp, None)))
                  })))"

section \<open>What the transactions do\<close>

definition created_database :: "CreateDatabaseTxInput \<Rightarrow> ManagedDatabaseTx \<Rightarrow> db \<Rightarrow> db \<Rightarrow> bool" where
  "created_database inp tx d d' \<longleftrightarrow> (\<exists>now.
     DbTx_Database tx = database_row (MDb_ID (DbTx_Database tx)) inp now \<and>
     MDb_ID (DbTx_Database tx) \<notin> MDb_ID ` set (managed_databases d) \<and>
     (CD_ClusterID inp, CD_DatabaseName inp) \<notin> (\<lambda>x. (MDb_ClusterID x, MDb_DatabaseName x)) ` set (managed_databases d) \<and>
     queued (create_db_queue_input inp) now
       (d\<lparr>managed_databases := managed_databases d @ [DbTx_Database tx]\<rparr>) d' (DbTx_Operation tx) (DbTx_Command tx))"

definition deleting_database :: "DeleteDatabaseTxInput \<Rightarrow> ManagedDatabaseTx \<Rightarrow> db \<Rightarrow> db \<Rightarrow> bool" where
  "deleting_database inp tx d d' \<longleftrightarrow> (\<exists>old now.
     databases_table.by_key (DD_DatabaseID inp) (managed_databases d) = Some old \<and>
     DbTx_Database tx = with_status ''deleting'' now old \<and>
     queued (delete_db_queue_input inp (MDb_ClusterID old)) now
       (d\<lparr>managed_databases := upd_where (\<lambda>x. MDb_ID x = DD_DatabaseID inp) (with_status ''deleting'' now) (managed_databases d)\<rparr>)
       d' (DbTx_Operation tx) (DbTx_Command tx))"

text \<open>
  The effect of a result: a successful \<open>pg_ensure_database\<close> with an owner only asks for the grant;
  any other outcome settles the row of the database and the operation of the payload.
\<close>

definition settled_databases ::
  "string \<Rightarrow> string \<Rightarrow> bool \<Rightarrow> Time \<Rightarrow> ManagedDatabase list \<Rightarrow> ManagedDatabase list" where
  "settled_databases action databaseID success now rows =
     (if success \<and> action = ''pg_drop_database'' then del_where (\<lambda>x. MDb_ID x = databaseID) rows
      else upd_where (\<lambda>x. MDb_ID x = databaseID) (with_status (if success then ''ready'' else ''failed'') now) rows)"

definition settled_operations ::
  "string \<Rightarrow> string \<Rightarrow> bool \<Rightarrow> string \<Rightarrow> Time \<Rightarrow> ServiceOperation list \<Rightarrow> ServiceOperation list" where
  "settled_operations operationID operationType success errMsg now ops =
     upd_where (\<lambda>x. Op_ID x = operationID \<and> Op_OperationType x = operationType)
       (\<lambda>x. x\<lparr>Op_Status := op_status success, Op_Error := (if success then [] else errMsg),
              Op_UpdatedAt := now, Op_CompletedAt := Some now\<rparr>) ops"

definition wants_grant :: "string \<Rightarrow> databaseCommandPayload \<Rightarrow> bool \<Rightarrow> bool" where
  "wants_grant action p success \<longleftrightarrow> success \<and> action = ''pg_ensure_database'' \<and> DP_OwnerRoleName p \<noteq> []"

definition outcome_applied ::
  "string \<Rightarrow> databaseCommandPayload \<Rightarrow> bool \<Rightarrow> string \<Rightarrow> Time \<Rightarrow> DatabaseGrantRequest option \<Rightarrow> db \<Rightarrow> db \<Rightarrow> bool" where
  "outcome_applied action p success errMsg now followUp d d' \<longleftrightarrow>
     (if wants_grant action p success
      then d' = d \<and> (\<exists>x. databases_table.by_key (DP_DatabaseID p) (managed_databases d) = Some x \<and>
             followUp = Some \<lparr>Grant_ClusterID = MDb_ClusterID x, Grant_DatabaseID = DP_DatabaseID p,
                  Grant_DatabaseName = DP_DatabaseName p, Grant_OperationID = DP_OperationID p,
                  Grant_GrantRoleName = DP_OwnerRoleName p, Grant_GrantRoleKind = DP_OwnerRoleKind p\<rparr>)
      else followUp = None \<and>
        d' = d\<lparr>managed_databases := settled_databases action (DP_DatabaseID p) success now (managed_databases d),
               service_operations := settled_operations (DP_OperationID p) (operationTypeForDatabaseAction action)
                 success errMsg now (service_operations d)\<rparr>)"

definition database_result_applied ::
  "string \<Rightarrow> bool \<Rightarrow> string \<Rightarrow> DatabaseGrantRequest option \<Rightarrow> db \<Rightarrow> db \<Rightarrow> bool" where
  "database_result_applied commandID success errMsg followUp d d' \<longleftrightarrow> (\<exists>cmd p now.
     commands_table.by_key commandID (agent_commands d) = Some cmd \<and>
     databaseCommandPayload_of (Cmd_Payload cmd) = Some p \<and> DP_DatabaseID p \<noteq> [] \<and> DP_OperationID p \<noteq> [] \<and>
     operationTypeForDatabaseAction (Cmd_Action cmd) \<noteq> [] \<and>
     outcome_applied (Cmd_Action cmd) p success (RedactStoredError errMsg) now followUp d d')"

lemma wp_database_by_id:
  "wp (database_by_id i) (\<lambda>r w'. \<forall>row. r = Inr row \<longrightarrow>
     store w' = store w \<and> row = databases_table.by_key i (managed_databases (store w))) w"
  by (auto simp: database_by_id_def databases_table.by_key_def wp_simps split: option.splits)

lemma wp_update_database:
  "wp (update_database i f) (\<lambda>r w'. \<forall>u. r = Inr u \<longrightarrow>
     store w' = (store w)\<lparr>managed_databases := upd_where (\<lambda>x. MDb_ID x = i) f (managed_databases (store w))\<rparr>) w"
  by (auto simp: update_database_def wp_simps split: option.splits)

lemma wp_databases_insert:
  "wp (databases_insert x) (\<lambda>r w'. \<forall>u. r = Inr u \<longrightarrow>
     store w' = (store w)\<lparr>managed_databases := managed_databases (store w) @ [x]\<rparr> \<and>
     MDb_ID x \<notin> MDb_ID ` set (managed_databases (store w)) \<and>
     (MDb_ClusterID x, MDb_DatabaseName x) \<notin> (\<lambda>y. (MDb_ClusterID y, MDb_DatabaseName y)) ` set (managed_databases (store w))) w"
  by (auto simp: databases_insert_def wp_simps split: option.splits)

lemma wp_databases_CreateWithCommand:
  "wp (databases_CreateWithCommand inp) (\<lambda>res w'. (\<exists>tx. res = Inr tx \<and> created_database inp tx (store w) (store w')) \<or>
     isl res \<and> store w' = store w) w"
  unfolding databases_CreateWithCommand_def
  apply (rule wp_in_tx_outcome [where A = isl and C = "\<lambda>res d'. \<exists>tx. res = Inr tx \<and> created_database inp tx (store w) d'"])
    apply (simp only: wp_bind wp_time_now Let_def)
    apply (rule wp_mono [where Q = "\<lambda>_ w'. store w' = store w"], simp add: wp_simps)
    apply (rule wp_try_txI [OF wp_databases_insert], simp)
    apply (rule wp_try_txI [OF wp_queue_ok], simp)
    apply (auto simp: wp_return created_database_def database_row_def split: prod.splits)
  done

lemma wp_databases_DeleteWithCommand:
  "wp (databases_DeleteWithCommand inp) (\<lambda>res w'. (\<exists>tx. res = Inr tx \<and> deleting_database inp tx (store w) (store w')) \<or>
     isl res \<and> store w' = store w) w"
  unfolding databases_DeleteWithCommand_def
  apply (rule wp_in_tx_outcome [where A = isl and C = "\<lambda>res d'. \<exists>tx. res = Inr tx \<and> deleting_database inp tx (store w) d'"])
    apply (rule wp_try_txI [OF wp_database_by_id], simp)
    apply (clarsimp simp: wp_return wp_bind wp_time_now split: option.split)
    apply (rule wp_try_txI [OF wp_update_database], simp)
    apply (rule wp_try_txI [OF wp_queue_ok], simp)
    apply (auto simp: wp_return deleting_database_def split: prod.splits)
  done

lemma wp_settle_database:
  "wp (settle_database p t (if ok then ''ready'' else ''failed'') (op_status ok) (if ok then [] else msg) now) (\<lambda>r w'. \<forall>u. r = Inr u \<longrightarrow>
     store w' = (store w)\<lparr>managed_databases := upd_where (\<lambda>x. MDb_ID x = DP_DatabaseID p)
         (with_status (if ok then ''ready'' else ''failed'') now) (managed_databases (store w)),
       service_operations := settled_operations (DP_OperationID p) t ok msg now (service_operations (store w))\<rparr>) w"
  by (simp add: settle_database_def markDatabaseStatus_def markDatabaseOperation_def update_database_def settle_operation_def
      settled_operations_def finished_op_status wp_simps split: option.splits)

lemma wp_drop_database:
  "wp (drop_database p t now) (\<lambda>r w'. \<forall>u. r = Inr u \<longrightarrow>
     store w' = (store w)\<lparr>managed_databases := del_where (\<lambda>x. MDb_ID x = DP_DatabaseID p) (managed_databases (store w)),
       service_operations := settled_operations (DP_OperationID p) t True msg now (service_operations (store w))\<rparr>) w"
  by (simp add: drop_database_def markDatabaseOperation_def settle_operation_def settled_operations_def
      op_status_def finished_def wp_simps split: option.splits)

lemma wp_clusterIDForDatabase:
  "wp (clusterIDForDatabase i) (\<lambda>r w'. \<forall>c. r = Inr c \<longrightarrow> store w' = store w \<and>
     (\<exists>x. databases_table.by_key i (managed_databases (store w)) = Some x \<and> c = MDb_ClusterID x)) w"
  unfolding clusterIDForDatabase_def
  by (rule wp_try_doI [OF wp_database_by_id]) (auto simp: wp_return split: option.splits)

lemmas settle_ok = wp_settle_database [where ok = True, unfolded op_status_def if_True if_False simp_thms]
lemmas settle_failed = wp_settle_database [where ok = False, unfolded op_status_def if_True if_False simp_thms]

lemma wp_database_outcome:
  assumes "operationTypeForDatabaseAction action \<noteq> []"
  shows "wp (database_outcome action p ok msg now) (\<lambda>r w'. \<forall>fu. r = Inr fu \<longrightarrow>
     outcome_applied action p ok msg now fu (store w) (store w')) w"
proof -
  have act: "action = ''pg_ensure_database'' \<or> action = ''pg_grant_database_privileges'' \<or> action = ''pg_drop_database''"
    using assms by (auto simp: operationTypeForDatabaseAction_def split: if_splits)
  note step = wp_try_doI [OF wp_clusterIDForDatabase] wp_try_doI [OF settle_ok] wp_try_doI [OF settle_failed]
    wp_try_doI [OF wp_drop_database]
  have "wants_grant action p ok \<longleftrightarrow> ok \<and> action = ''pg_ensure_database'' \<and> DP_OwnerRoleName p \<noteq> []"
    by (rule wants_grant_def)
  with act show ?thesis
    by (elim disjE; cases ok; cases "DP_OwnerRoleName p = []")
      (simp_all add: database_outcome_def Let_def,
        (rule step, simp, simp add: wp_return outcome_applied_def settled_databases_def operationTypeForDatabaseAction_def)+)
qed

lemma wp_databases_HandleCommandResult:
  "wp (databases_HandleCommandResult commandID success errMsg) (\<lambda>res w'.
     (\<exists>fu. res = (True, fu, None) \<and> database_result_applied commandID success errMsg fu (store w) (store w')) \<or>
     (\<forall>fu. res \<noteq> (True, fu, None)) \<and> store w' = store w) w"
  unfolding databases_HandleCommandResult_def
  apply (rule wp_in_tx_outcome [where A = "\<lambda>res. \<forall>fu. res \<noteq> (True, fu, None)" and
        C = "\<lambda>res d'. \<exists>fu. res = (True, fu, None) \<and> database_result_applied commandID success errMsg fu (store w) d'"])
    apply (rule wp_try_txI [OF wp_find_command], simp)
    apply (clarsimp simp: wp_return wp_bind wp_time_now wp_json_err split: option.split)
    apply (rule wp_try_txI [OF wp_database_outcome], simp, simp)
    apply (auto simp: wp_return database_result_applied_def)
  done

section \<open>Properties\<close>

text \<open>
  creating a managed database is all or nothing. An error leaves every table as before; on success
  the name was free in the cluster, and the tables have grown by the pending database, its running
  operation, the command (behind the one that must run before it) and at most the administrator's
  secret, and by nothing else.
\<close>

theorem create_database_all_or_nothing:
  "case result (databases_CreateWithCommand inp) w of
     Inl _ \<Rightarrow> store (after (databases_CreateWithCommand inp) w) = store w
   | Inr tx \<Rightarrow> created_database inp tx (store w) (store (after (databases_CreateWithCommand inp) w))"
  using wp_databases_CreateWithCommand [of inp w] by (auto simp: wp_outcome split: sum.splits)

text \<open>
  the result of a database command is applied completely or not at all. It is reported as handled
  without an error only when the command exists with a well-formed payload, and then either the database
  has an owner, nothing changes and the grant for exactly that owner is requested, or no grant is
  requested and the database and its operation are settled together (ready and succeeded, removed and
  succeeded, or failed with the redacted error). In every other outcome no table changes.
\<close>

theorem database_result_all_or_nothing:
  "case result (databases_HandleCommandResult commandID success errMsg) w of
     (True, followUp, None) \<Rightarrow> database_result_applied commandID success errMsg followUp (store w)
          (store (after (databases_HandleCommandResult commandID success errMsg) w))
   | _ \<Rightarrow> store (after (databases_HandleCommandResult commandID success errMsg) w) = store w"
  using wp_databases_HandleCommandResult [of commandID success errMsg w]
  by (auto simp: wp_outcome split: prod.splits bool.splits option.splits)

end
