(* ===== verification/FeatureRepos.thy ===== *)
theory FeatureRepos
  imports ManagedDatabases Engine Samples
begin

text \<open>
  \<open>internal/db/network_access_repo.go\<close>, \<open>internal/db/tls_apply_repo.go\<close> and
  \<open>internal/db/cluster_extension_repo.go\<close>: what the server knows of the features the agents apply on
  the nodes. A queued command and its status row are written in one transaction, and the result of
  the command settles the rows that still carry its identifier.

  All repositories that settle commands promise the same to their caller: they claim only commands of
  their own actions, and a result is applied as a whole or leaves the tables alone. This contract is
  the locale \<open>result_handler\<close>, interpreted for roles, databases, HBA, TLS and extensions.
\<close>

section \<open>Status rows\<close>

definition is_feature :: "string \<Rightarrow> string \<Rightarrow> string \<Rightarrow> FeatureApplyStatus \<Rightarrow> bool" where
  "is_feature feature clusterID nodeID r \<longleftrightarrow>
     Feat_ClusterID r = clusterID \<and> Feat_NodeID r = nodeID \<and> Feat_Feature r = feature"

text \<open>\<open>DELETE\<close> of the old row and \<open>INSERT\<close> of the pending one, with the error prefixes of the caller.\<close>

definition replace_feature_row :: "string \<Rightarrow> FeatureApplyStatus \<Rightarrow> unit res io" where
  "replace_feature_row name r =
     try_do (sql_write (\<lambda>d. d\<lparr>node_feature_apply_status :=
         del_where (is_feature (Feat_Feature r) (Feat_ClusterID r) (Feat_NodeID r)) (node_feature_apply_status d)\<rparr>))
       (\<lambda>e. Inl (wrap (''delete old '' @ name @ '' apply status'') e)) (\<lambda>_.
     wrap_err (''insert '' @ name @ '' apply status'') (exec (\<lambda>d.
       if (Feat_ClusterID r, Feat_NodeID r, Feat_Feature r)
          \<in> (\<lambda>x. (Feat_ClusterID x, Feat_NodeID x, Feat_Feature x)) ` set (node_feature_apply_status d)
       then None else Some (d\<lparr>node_feature_apply_status := node_feature_apply_status d @ [r]\<rparr>))))"

definition pending_feature :: "string \<Rightarrow> string \<Rightarrow> string \<Rightarrow> string \<Rightarrow> payload \<Rightarrow> Time \<Rightarrow> FeatureApplyStatus" where
  "pending_feature feature clusterID nodeID commandID detail now =
     \<lparr>Feat_ClusterID = clusterID, Feat_NodeID = nodeID, Feat_Feature = feature, Feat_CommandID = commandID,
      Feat_Status = ''pending'', Feat_Error = [], Feat_Detail = detail, Feat_AppliedAt = None, Feat_UpdatedAt = now\<rparr>"

definition of_feature :: "string \<Rightarrow> string \<Rightarrow> db \<Rightarrow> FeatureApplyStatus list" where
  "of_feature feature clusterID d = sort_key (\<lambda>r. - Feat_UpdatedAt r)
     (filter (\<lambda>r. Feat_ClusterID r = clusterID \<and> Feat_Feature r = feature) (node_feature_apply_status d))"

text \<open>The row a result settles: it still carries the command's identifier.\<close>

definition settle_feature ::
  "string \<Rightarrow> string \<Rightarrow> string \<Rightarrow> string \<Rightarrow> bool \<Rightarrow> string \<Rightarrow> payload option \<Rightarrow> Time \<Rightarrow> db \<Rightarrow> db" where
  "settle_feature feature clusterID nodeID commandID success storedErr detail now d = d\<lparr>node_feature_apply_status :=
     upd_where (\<lambda>r. is_feature feature clusterID nodeID r \<and> Feat_CommandID r = commandID)
       (\<lambda>r. r\<lparr>Feat_Status := op_status success, Feat_Error := storedErr,
              Feat_Detail := (case detail of None \<Rightarrow> Feat_Detail r | Some p \<Rightarrow> p),
              Feat_AppliedAt := (if success then Some now else None), Feat_UpdatedAt := now\<rparr>)
       (node_feature_apply_status d)\<rparr>"

text \<open>
  The common shape of the three \<open>HandleCommandResult\<close>: the command is read in the transaction, an
  unknown command or one of another operation is not handled, then the payload is parsed and checked
  and the settling statements run.
\<close>

definition handle_feature_result ::
  "string \<Rightarrow> LogicalOp \<Rightarrow> (payload \<Rightarrow> 'p option) \<Rightarrow> ('p \<Rightarrow> string option) \<Rightarrow> ('p \<Rightarrow> Time \<Rightarrow> unit res io) \<Rightarrow> string
   \<Rightarrow> (bool \<times> string option) io" where
  "handle_feature_result name op parse check settle commandID =
     in_tx (\<lambda>e. (False, Some (wrap (''begin '' @ name @ '' command result tx'') e)))
       (\<lambda>e. (True, Some (wrap (''commit '' @ name @ '' command result tx'') e)))
       (try_tx (query (\<lambda>d. List.find (\<lambda>c. Cmd_ID c = commandID) (agent_commands d)))
          (\<lambda>e. (False, Some (wrap (''get command for '' @ name @ '' result'') e))) (\<lambda>row.
        case row of
          None \<Rightarrow> State_Monad.return (Abort (False, None))
        | Some cmd \<Rightarrow>
            if LogicalOpForAction the_registry (Cmd_Action cmd) \<noteq> Some op
            then State_Monad.return (Abort (False, None))
            else (case parse (Cmd_Payload cmd) of
                None \<Rightarrow> do {
                  e \<leftarrow> json_err (Cmd_Payload cmd);
                  State_Monad.return (Abort (True, Some (wrap (''parse '' @ name @ '' command payload'') e)))
                }
              | Some p \<Rightarrow> (case check p of
                    Some msg \<Rightarrow> State_Monad.return (Abort (True, Some msg))
                  | None \<Rightarrow> do {
                      now \<leftarrow> time_now;
                      try_tx (settle p now) (\<lambda>e. (True, Some e)) (\<lambda>_.
                      State_Monad.return (Commit (True, None)))
                    }))))"

section \<open>Network access\<close>

record HBAApplyStatus =
  HBA_ClusterID :: string
  HBA_NodeID :: string
  HBA_CommandID :: string
  HBA_Status :: string
  HBA_Error :: string
  HBA_AppliedAt :: "Time option"
  HBA_UpdatedAt :: Time

record ApplyHBANodeCommand =
  AH_NodeID :: string
  AH_AgentID :: string
  AH_CommandID :: string
  AH_Payload :: payload

definition scanHBAApplyStatus :: "FeatureApplyStatus \<Rightarrow> HBAApplyStatus" where
  "scanHBAApplyStatus r = \<lparr>HBA_ClusterID = Feat_ClusterID r, HBA_NodeID = Feat_NodeID r, HBA_CommandID = Feat_CommandID r,
     HBA_Status = Feat_Status r, HBA_Error = Feat_Error r, HBA_AppliedAt = Feat_AppliedAt r, HBA_UpdatedAt = Feat_UpdatedAt r\<rparr>"

definition access_ListHBAStatusByCluster :: "string \<Rightarrow> HBAApplyStatus list res io" where
  "access_ListHBAStatusByCluster clusterID = wrap_err ''list hba apply status''
     (query (\<lambda>d. map scanHBAApplyStatus (of_feature ''hba'' clusterID d)))"

definition queue_hba :: "string \<Rightarrow> Time \<Rightarrow> ApplyHBANodeCommand \<Rightarrow> HBAApplyStatus res io" where
  "queue_hba clusterID now cmd = do {
     commandID \<leftarrow> (if AH_CommandID cmd = [] then id_New else State_Monad.return (AH_CommandID cmd));
     try_do (insertAgentCommand commandID (AH_AgentID cmd) (AH_NodeID cmd) ''pg_apply_hba'' (AH_Payload cmd) now) Inl (\<lambda>_.
     let row = pending_feature ''hba'' clusterID (AH_NodeID cmd) commandID (Json []) now in
     try_do (replace_feature_row ''hba'' row) Inl (\<lambda>_.
     State_Monad.return (Inr (scanHBAApplyStatus row))))
   }"

definition access_QueueApplyHBACommands :: "string \<Rightarrow> ApplyHBANodeCommand list \<Rightarrow> HBAApplyStatus list res io" where
  "access_QueueApplyHBACommands clusterID cmds =
     (if cmds = [] then State_Monad.return (Inr [])
      else in_tx (\<lambda>e. Inl (wrap ''begin queue hba apply tx'' e)) (\<lambda>e. Inl (wrap ''commit queue hba apply tx'' e)) (do {
        now \<leftarrow> time_now;
        try_tx (for_collect cmds (queue_hba clusterID now)) Inl (\<lambda>statuses. State_Monad.return (Commit (Inr statuses)))
      }))"

definition hba_payload :: "payload \<Rightarrow> (string \<times> string) option" where
  "hba_payload p = do { c \<leftarrow> json_str ''cluster_id'' p; n \<leftarrow> json_str ''node_id'' p; Some (c, n) }"

definition access_HandleHBACommandResult :: "string \<Rightarrow> bool \<Rightarrow> string \<Rightarrow> (bool \<times> string option) io" where
  "access_HandleHBACommandResult commandID success errMsg =
     handle_feature_result ''hba'' OpApplyHBA hba_payload
       (\<lambda>(c, n). if c = [] \<or> n = [] then Some ''hba command payload missing cluster_id or node_id'' else None)
       (\<lambda>(c, n) now. wrap_err ''update hba apply status''
          (sql_write (settle_feature ''hba'' c n commandID success (RedactStoredError errMsg) None now)))
       commandID"

section \<open>TLS\<close>

record TLSApplyStatus =
  TLS_ClusterID :: string
  TLS_NodeID :: string
  TLS_CommandID :: string
  TLS_RequestedTLSMode :: string
  TLS_Status :: string
  TLS_Error :: string
  TLS_TLSActive :: bool
  TLS_AppliedAt :: "Time option"
  TLS_UpdatedAt :: Time

record ApplyTLSNodeCommand =
  AT_NodeID :: string
  AT_AgentID :: string
  AT_CommandID :: string
  AT_Payload :: payload
  AT_Secrets :: "(string \<times> string) list"

definition tlsApplyDetail :: "string \<Rightarrow> bool \<Rightarrow> payload" where
  "tlsApplyDetail mode active = Json [(''requested_tls_mode'', JStr mode), (''tls_active'', JBool active)]"

definition read_detail :: "payload \<Rightarrow> (string \<times> bool) option" where
  "read_detail p = (if p = Text [] then Some ([], False)
     else do { m \<leftarrow> json_str ''requested_tls_mode'' p; a \<leftarrow> json_bool ''tls_active'' p; Some (m, a) })"

definition scanTLSApplyStatus :: "FeatureApplyStatus \<Rightarrow> TLSApplyStatus res io" where
  "scanTLSApplyStatus r =
     (case read_detail (Feat_Detail r) of
        None \<Rightarrow> do { e \<leftarrow> json_err (Feat_Detail r); State_Monad.return (Inl (wrap ''parse tls apply detail'' e)) }
      | Some (mode, active) \<Rightarrow> State_Monad.return (Inr
          \<lparr>TLS_ClusterID = Feat_ClusterID r, TLS_NodeID = Feat_NodeID r, TLS_CommandID = Feat_CommandID r,
           TLS_RequestedTLSMode = mode, TLS_Status = Feat_Status r, TLS_Error = Feat_Error r, TLS_TLSActive = active,
           TLS_AppliedAt = Feat_AppliedAt r, TLS_UpdatedAt = Feat_UpdatedAt r\<rparr>))"

definition tls_ListStatusByCluster :: "string \<Rightarrow> TLSApplyStatus list res io" where
  "tls_ListStatusByCluster clusterID =
     try_do (wrap_err ''list tls apply status'' (query (of_feature ''tls'' clusterID))) Inl (\<lambda>rows.
     for_collect rows scanTLSApplyStatus)"

definition queue_tls :: "SecretRepository \<Rightarrow> string \<Rightarrow> string \<Rightarrow> Time \<Rightarrow> ApplyTLSNodeCommand \<Rightarrow> TLSApplyStatus res io" where
  "queue_tls repo clusterID mode now cmd = do {
     commandID \<leftarrow> (if AT_CommandID cmd = [] then id_New else State_Monad.return (AT_CommandID cmd));
     try_do (insertAgentCommand commandID (AT_AgentID cmd) (AT_NodeID cmd) ''pg_apply_tls'' (AT_Payload cmd) now) Inl (\<lambda>_.
     try_do (for_each (AT_Secrets cmd) (\<lambda>(key, plaintext).
         try_do (EncryptAES256GCM (repo_aead repo) plaintext (encryptKey repo))
           (\<lambda>e. Inl (wrap ''encrypt tls command secret'' e)) (\<lambda>ciphertext.
         insertCommandSecret commandID key ciphertext (Some (now + day_ns)) now))) Inl (\<lambda>_.
     let row = pending_feature ''tls'' clusterID (AT_NodeID cmd) commandID (tlsApplyDetail mode False) now in
     try_do (replace_feature_row ''tls'' row) Inl (\<lambda>_.
     State_Monad.return (Inr \<lparr>TLS_ClusterID = clusterID, TLS_NodeID = AT_NodeID cmd, TLS_CommandID = commandID,
           TLS_RequestedTLSMode = mode, TLS_Status = ''pending'', TLS_Error = [], TLS_TLSActive = False,
           TLS_AppliedAt = None, TLS_UpdatedAt = now\<rparr>))))
   }"

definition tls_QueueApplyTLSCommands ::
  "SecretRepository \<Rightarrow> string \<Rightarrow> string \<Rightarrow> ApplyTLSNodeCommand list \<Rightarrow> TLSApplyStatus list res io" where
  "tls_QueueApplyTLSCommands repo clusterID requestedTLSMode cmds =
     (if cmds = [] then State_Monad.return (Inr [])
      else in_tx (\<lambda>e. Inl (wrap ''begin queue tls apply tx'' e)) (\<lambda>e. Inl (wrap ''commit queue tls apply tx'' e)) (do {
        now \<leftarrow> time_now;
        try_tx (for_collect cmds (queue_tls repo clusterID requestedTLSMode now)) Inl (\<lambda>statuses.
        State_Monad.return (Commit (Inr statuses)))
      }))"

definition tls_payload :: "payload \<Rightarrow> (string \<times> string \<times> string) option" where
  "tls_payload p = do {
     c \<leftarrow> json_str ''cluster_id'' p; n \<leftarrow> json_str ''node_id'' p; m \<leftarrow> json_str ''tls_mode'' p; Some (c, n, m) }"

definition tls_HandleCommandResult :: "string \<Rightarrow> bool \<Rightarrow> string \<Rightarrow> (bool \<times> string option) io" where
  "tls_HandleCommandResult commandID success errMsg =
     handle_feature_result ''tls'' OpApplyTLS tls_payload
       (\<lambda>(c, n, m). if c = [] \<or> n = [] then Some ''tls command payload missing cluster_id or node_id'' else None)
       (\<lambda>(c, n, m) now. wrap_err ''update tls apply status''
          (sql_write (settle_feature ''tls'' c n commandID success (RedactStoredError errMsg)
             (Some (tlsApplyDetail m (success \<and> m \<noteq> ''disabled''))) now)))
       commandID"

section \<open>Extensions\<close>

record ApplyExtensionsCommand =
  AE_ClusterID :: string
  AE_NodeID :: string
  AE_AgentID :: string
  AE_CommandID :: string
  AE_Payload :: payload
  AE_EncryptedAdminSecret :: string
  AE_AdminSecretKey :: string
  AE_SecretExpiresAt :: "Time option"

definition ext_ListByCluster :: "string \<Rightarrow> ClusterExtension list res io" where
  "ext_ListByCluster clusterID = wrap_err ''list cluster extensions''
     (query (\<lambda>d. sort_key Ext_ExtensionName (filter (\<lambda>x. Ext_ClusterID x = clusterID) (cluster_extensions d))))"

definition is_extension :: "string \<Rightarrow> string \<Rightarrow> ClusterExtension \<Rightarrow> bool" where
  "is_extension clusterID name x \<longleftrightarrow> Ext_ClusterID x = clusterID \<and> Ext_ExtensionName x = name"

definition ext_get :: "string \<Rightarrow> string \<Rightarrow> ClusterExtension option res io" where
  "ext_get clusterID name = wrap_err ''scan cluster extension row''
     (query (\<lambda>d. List.find (is_extension clusterID name) (cluster_extensions d)))"

text \<open>\<open>INSERT ... ON CONFLICT (cluster_id, extension_name) DO UPDATE\<close>.\<close>

definition upsert_extension :: "string \<Rightarrow> string \<Rightarrow> bool \<Rightarrow> Time \<Rightarrow> ClusterExtension list \<Rightarrow> ClusterExtension list" where
  "upsert_extension clusterID name enabled now xs =
     (if list_ex (is_extension clusterID name) xs
      then upd_where (is_extension clusterID name) (\<lambda>x. x\<lparr>Ext_Enabled := enabled, Ext_UpdatedAt := now\<rparr>) xs
      else xs @ [\<lparr>Ext_ClusterID = clusterID, Ext_ExtensionName = name, Ext_Enabled = enabled, Ext_Status = ''off'',
                  Ext_Error = [], Ext_CommandID = [], Ext_AppliedAt = None, Ext_UpdatedAt = now\<rparr>])"

definition ext_SetEnabled :: "string \<Rightarrow> string \<Rightarrow> bool \<Rightarrow> ClusterExtension option res io" where
  "ext_SetEnabled clusterID extensionName enabled = do {
     now \<leftarrow> time_now;
     try_do (sql_write (\<lambda>d. d\<lparr>cluster_extensions := upsert_extension clusterID extensionName enabled now (cluster_extensions d)\<rparr>))
       (\<lambda>e. Inl (wrap ''upsert cluster extension'' e)) (\<lambda>_.
     ext_get clusterID extensionName)
   }"

definition ext_QueueApplyCommand :: "ApplyExtensionsCommand \<Rightarrow> unit res io" where
  "ext_QueueApplyCommand cmd =
     in_tx (\<lambda>e. Inl (wrap ''begin queue apply extensions tx'' e)) (\<lambda>e. Inl (wrap ''commit queue apply extensions tx'' e)) (do {
       now \<leftarrow> time_now;
       commandID \<leftarrow> (if AE_CommandID cmd = [] then id_New else State_Monad.return (AE_CommandID cmd));
       try_tx (insertAgentCommand commandID (AE_AgentID cmd) (AE_NodeID cmd) ''pg_apply_extensions'' (AE_Payload cmd) now) Inl (\<lambda>_.
       try_tx (insertAdminCommandSecret commandID (AE_AdminSecretKey cmd) (AE_EncryptedAdminSecret cmd) (AE_SecretExpiresAt cmd) now) Inl (\<lambda>_.
       try_tx (sql_write (\<lambda>d. d\<lparr>cluster_extensions := upd_where (\<lambda>x. Ext_ClusterID x = AE_ClusterID cmd)
            (\<lambda>x. x\<lparr>Ext_Status := ''pending'', Ext_Error := [], Ext_CommandID := commandID, Ext_UpdatedAt := now\<rparr>)
            (cluster_extensions d)\<rparr>)) (\<lambda>e. Inl (wrap ''mark extensions pending'' e)) (\<lambda>_.
       State_Monad.return (Commit (Inr ())))))
     })"

text \<open>A null \<open>command_id\<close> is the empty text and equals no identifier.\<close>

definition of_command :: "string \<Rightarrow> string \<Rightarrow> ClusterExtension \<Rightarrow> bool" where
  "of_command clusterID commandID x \<longleftrightarrow> Ext_ClusterID x = clusterID \<and> commandID \<noteq> [] \<and> Ext_CommandID x = commandID"

definition settle_extensions :: "string \<Rightarrow> string \<Rightarrow> bool \<Rightarrow> string \<Rightarrow> Time \<Rightarrow> unit res io" where
  "settle_extensions clusterID commandID success storedErr now =
     (if success then
        try_do (sql_write (\<lambda>d. d\<lparr>cluster_extensions :=
            del_where (\<lambda>x. of_command clusterID commandID x \<and> \<not> Ext_Enabled x) (cluster_extensions d)\<rparr>))
          (\<lambda>e. Inl (wrap ''remove disabled extensions'' e)) (\<lambda>_.
        wrap_err ''mark extensions ready'' (sql_write (\<lambda>d. d\<lparr>cluster_extensions :=
            upd_where (\<lambda>x. of_command clusterID commandID x \<and> Ext_Enabled x)
              (\<lambda>x. x\<lparr>Ext_Status := ''ready'', Ext_Error := [], Ext_AppliedAt := Some now, Ext_UpdatedAt := now\<rparr>)
              (cluster_extensions d)\<rparr>)))
      else wrap_err ''mark extensions failed'' (sql_write (\<lambda>d. d\<lparr>cluster_extensions :=
            upd_where (of_command clusterID commandID)
              (\<lambda>x. x\<lparr>Ext_Status := ''failed'', Ext_Error := storedErr, Ext_UpdatedAt := now\<rparr>)
              (cluster_extensions d)\<rparr>)))"

definition ext_HandleCommandResult :: "string \<Rightarrow> bool \<Rightarrow> string \<Rightarrow> (bool \<times> string option) io" where
  "ext_HandleCommandResult commandID success errMsg =
     handle_feature_result ''extensions'' OpApplyExtensions (json_str ''cluster_id'')
       (\<lambda>c. if c = [] then Some ''extensions command payload missing cluster_id'' else None)
       (\<lambda>c now. settle_extensions c commandID success (RedactStoredError errMsg) now)
       commandID"

section \<open>The contract of a result handler\<close>

text \<open>
  What \<open>ReportCommandResult\<close> relies on when it offers a result to one repository after the other:
  the repository claims the command only when its action is one of \<open>mine\<close>; unless it reports the
  result as handled without an error it has changed nothing; and whatever it does, clusters, nodes
  and the command queue are not its business.
\<close>

locale result_handler =
  fixes handle :: "string \<Rightarrow> bool \<Rightarrow> string \<Rightarrow> (bool \<times> string option) io"
    and mine :: "string \<Rightarrow> bool"
  assumes all_or_nothing: "wp (handle c ok msg) (\<lambda>r w'. r \<noteq> (True, None) \<longrightarrow> store w' = store w) w"
    and claims: "wp (handle c ok msg) (\<lambda>r w'. fst r \<longrightarrow> (\<exists>cmd.
           commands_table.by_key c (agent_commands (store w)) = Some cmd \<and> mine (Cmd_Action cmd))) w"
    and frame: "wp (handle c ok msg) (\<lambda>r w'. clusters (store w') = clusters (store w) \<and>
           nodes (store w') = nodes (store w) \<and> agent_commands (store w') = agent_commands (store w)) w"
begin

lemma foreign:
  assumes "commands_table.by_key c (agent_commands (store w)) = Some cmd" "\<not> mine (Cmd_Action cmd)"
  shows "wp (handle c ok msg) (\<lambda>r w'. \<not> fst r \<and> store w' = store w) w"
  using all_or_nothing [of c ok msg w] claims [of c ok msg w] assms by (auto simp: wp_outcome)

lemma unknown:
  assumes "commands_table.by_key c (agent_commands (store w)) = None"
  shows "wp (handle c ok msg) (\<lambda>r w'. \<not> fst r \<and> store w' = store w) w"
  using all_or_nothing [of c ok msg w] claims [of c ok msg w] assms by (auto simp: wp_outcome)

lemma keeps_frame:
  assumes "\<And>d d'. I d \<Longrightarrow> clusters d' = clusters d \<Longrightarrow> nodes d' = nodes d \<Longrightarrow> agent_commands d' = agent_commands d \<Longrightarrow> I d'"
  shows "keeps_db I (handle c ok msg)"
  by (rule keeps_wpI, rule wp_mono [OF frame]) (use assms in blast)

end

section \<open>The repositories as result handlers\<close>

lemma wp_in_tx_value:
  assumes "wp body (\<lambda>r w'. case r of Commit v \<Rightarrow> P v \<and> (\<forall>e. P (on_commit e)) | Abort v \<Rightarrow> P v) (w\<lparr>n_stmt := Suc (n_stmt w)\<rparr>)"
    and "\<And>e. P (on_begin e)"
  shows "wp (in_tx on_begin on_commit body) (\<lambda>v w'. P v) w"
  unfolding wp_in_tx
  by (auto simp: assms(2) split: option.splits intro!: wp_mono [OF assms(1)] split: tx.splits)

lemma wp_always: "(\<And>a s'. Q a s') \<Longrightarrow> wp m Q s"
  by (simp add: wp_def split: prod.splits)

abbreviation claimed :: "(string \<Rightarrow> bool) \<Rightarrow> string \<Rightarrow> db \<Rightarrow> bool" where
  "claimed mine c d \<equiv> \<exists>cmd. commands_table.by_key c (agent_commands d) = Some cmd \<and> mine (Cmd_Action cmd)"

abbreviation same_queue :: "db \<Rightarrow> db \<Rightarrow> bool" where
  "same_queue d d' \<equiv> clusters d' = clusters d \<and> nodes d' = nodes d \<and> agent_commands d' = agent_commands d"

definition feature_applied ::
  "LogicalOp \<Rightarrow> (payload \<Rightarrow> 'p option) \<Rightarrow> ('p \<Rightarrow> string option) \<Rightarrow> ('p \<Rightarrow> Time \<Rightarrow> db \<Rightarrow> db) \<Rightarrow> string \<Rightarrow> db \<Rightarrow> db \<Rightarrow> bool" where
  "feature_applied op parse check S c d d' \<longleftrightarrow> (\<exists>cmd p now.
     commands_table.by_key c (agent_commands d) = Some cmd \<and>
     LogicalOpForAction the_registry (Cmd_Action cmd) = Some op \<and>
     parse (Cmd_Payload cmd) = Some p \<and> check p = None \<and> d' = S p now d)"

lemma wp_handle_feature_result:
  assumes "\<And>p now w. wp (settle p now) (\<lambda>r w'. \<forall>u. r = Inr u \<longrightarrow> store w' = S p now (store w)) w"
  shows "wp (handle_feature_result name op parse check settle c) (\<lambda>res w'.
     (res = (True, None) \<and> feature_applied op parse check S c (store w) (store w')) \<or>
     res \<noteq> (True, None) \<and> store w' = store w) w"
  unfolding handle_feature_result_def
  apply (rule wp_in_tx_outcome [where A = "\<lambda>res. res \<noteq> (True, None)" and
        C = "\<lambda>res d'. res = (True, None) \<and> feature_applied op parse check S c (store w) d'"])
    apply (rule wp_try_txI [OF wp_find_command], simp)
    apply (clarsimp simp: wp_return wp_bind wp_time_now wp_json_err split: option.split)
    apply (rule wp_try_txI [OF assms], simp)
    apply (auto simp: wp_return feature_applied_def)
  done

lemma feature_result_claims:
  "wp (handle_feature_result name op parse check settle c) (\<lambda>res w'.
     fst res \<longrightarrow> claimed (\<lambda>a. LogicalOpForAction the_registry a = Some op) c (store w)) w"
  unfolding handle_feature_result_def
  apply (rule wp_in_tx_value)
   apply (rule wp_try_txI [OF wp_find_command], simp)
   apply (clarsimp simp: wp_return wp_bind wp_time_now wp_json_err wp_try_tx split: option.split)
   apply (rule wp_always, simp add: wp_return split: sum.split)
  apply simp
  done

text \<open>Every repository of this shape is a result handler when its settling statements keep the queue.\<close>

lemma feature_result_handler:
  assumes "\<And>c ok msg p now w. wp (settle c ok msg p now) (\<lambda>r w'. \<forall>u. r = Inr u \<longrightarrow> store w' = S c ok msg p now (store w)) w"
    and "\<And>c ok msg p now d. same_queue d (S c ok msg p now d)"
  shows "result_handler (\<lambda>c ok msg. handle_feature_result name op parse check (settle c ok msg) c)
           (\<lambda>a. LogicalOpForAction the_registry a = Some op)"
proof
  fix c ok msg and w :: world
  have out: "wp (handle_feature_result name op parse check (settle c ok msg) c) (\<lambda>res w'.
     (res = (True, None) \<and> feature_applied op parse check (S c ok msg) c (store w) (store w')) \<or>
     res \<noteq> (True, None) \<and> store w' = store w) w"
    by (rule wp_handle_feature_result) (rule assms(1))
  show "wp (handle_feature_result name op parse check (settle c ok msg) c) (\<lambda>r w'. r \<noteq> (True, None) \<longrightarrow> store w' = store w) w"
    by (rule wp_mono [OF out]) auto
  show "wp (handle_feature_result name op parse check (settle c ok msg) c) (\<lambda>r w'. fst r \<longrightarrow>
      claimed (\<lambda>a. LogicalOpForAction the_registry a = Some op) c (store w)) w"
    by (rule feature_result_claims)
  show "wp (handle_feature_result name op parse check (settle c ok msg) c) (\<lambda>r w'. same_queue (store w) (store w')) w"
    by (rule wp_mono [OF out]) (auto simp: feature_applied_def assms(2))
qed

lemma wp_write_to:
  "wp (wrap_err p (sql_write f)) (\<lambda>r w'. \<forall>u. r = Inr u \<longrightarrow> store w' = f (store w)) w"
  by (auto simp: wp_simps split: option.splits)

definition settled_extensions :: "string \<Rightarrow> string \<Rightarrow> bool \<Rightarrow> string \<Rightarrow> Time \<Rightarrow> ClusterExtension list \<Rightarrow> ClusterExtension list" where
  "settled_extensions clusterID commandID success storedErr now xs =
     (if success then
        upd_where (of_command clusterID commandID)
          (\<lambda>x. x\<lparr>Ext_Status := ''ready'', Ext_Error := [], Ext_AppliedAt := Some now, Ext_UpdatedAt := now\<rparr>)
          (del_where (\<lambda>x. of_command clusterID commandID x \<and> \<not> Ext_Enabled x) xs)
      else upd_where (of_command clusterID commandID)
          (\<lambda>x. x\<lparr>Ext_Status := ''failed'', Ext_Error := storedErr, Ext_UpdatedAt := now\<rparr>) xs)"

lemma upd_after_del:
  "upd_where (\<lambda>x. p x \<and> q x) f (del_where (\<lambda>x. p x \<and> \<not> q x) xs) = upd_where p f (del_where (\<lambda>x. p x \<and> \<not> q x) xs)"
  by (induction xs) auto

lemma wp_settle_extensions:
  "wp (settle_extensions c i ok msg now) (\<lambda>r w'. \<forall>u. r = Inr u \<longrightarrow> store w' = (store w)\<lparr>cluster_extensions :=
     settled_extensions c i ok msg now (cluster_extensions (store w))\<rparr>) w"
  by (simp add: settle_extensions_def settled_extensions_def wp_simps upd_after_del split: option.splits)

interpretation hba: result_handler access_HandleHBACommandResult "\<lambda>a. LogicalOpForAction the_registry a = Some OpApplyHBA"
  unfolding access_HandleHBACommandResult_def
  by (rule feature_result_handler [where S = "\<lambda>i ok msg p now.
        settle_feature ''hba'' (fst p) (snd p) i ok (RedactStoredError msg) None now"])
    (simp only: case_prod_beta wp_write_to, simp add: settle_feature_def)

interpretation tls: result_handler tls_HandleCommandResult "\<lambda>a. LogicalOpForAction the_registry a = Some OpApplyTLS"
  unfolding tls_HandleCommandResult_def
  by (rule feature_result_handler [where S = "\<lambda>i ok msg p now.
        settle_feature ''tls'' (fst p) (fst (snd p)) i ok (RedactStoredError msg)
          (Some (tlsApplyDetail (snd (snd p)) (ok \<and> snd (snd p) \<noteq> ''disabled''))) now"])
    (simp only: case_prod_beta wp_write_to, simp add: settle_feature_def)

interpretation ext: result_handler ext_HandleCommandResult "\<lambda>a. LogicalOpForAction the_registry a = Some OpApplyExtensions"
  unfolding ext_HandleCommandResult_def
  by (rule feature_result_handler [where S = "\<lambda>i ok msg c now d.
        d\<lparr>cluster_extensions := settled_extensions c i ok (RedactStoredError msg) now (cluster_extensions d)\<rparr>"])
    (rule wp_settle_extensions, simp)

lemma role_result_claims:
  "wp (roles_HandleCommandResult c ok msg) (\<lambda>res w'. fst res \<longrightarrow> claimed (\<lambda>a. operationTypeForRoleAction a \<noteq> []) c (store w)) w"
  unfolding roles_HandleCommandResult_def Let_def
  apply (rule wp_in_tx_value)
   apply (rule wp_try_txI [OF wp_find_command], simp)
   apply (clarsimp simp: wp_return wp_bind wp_time_now wp_json_err split: option.split)
   apply (intro conjI impI; rule wp_always; auto split: tx.split)
  apply simp
  done

interpretation role_results: result_handler roles_HandleCommandResult "\<lambda>a. operationTypeForRoleAction a \<noteq> []"
proof
  fix c ok msg and w :: world
  show "wp (roles_HandleCommandResult c ok msg) (\<lambda>r w'. r \<noteq> (True, None) \<longrightarrow> store w' = store w) w"
    by (rule wp_mono [OF wp_roles_HandleCommandResult]) auto
  show "wp (roles_HandleCommandResult c ok msg) (\<lambda>r w'. fst r \<longrightarrow> claimed (\<lambda>a. operationTypeForRoleAction a \<noteq> []) c (store w)) w"
    by (rule role_result_claims)
  show "wp (roles_HandleCommandResult c ok msg) (\<lambda>r w'. same_queue (store w) (store w')) w"
    by (rule wp_mono [OF wp_roles_HandleCommandResult]) (auto simp: role_result_applied_def)
qed

text \<open>The result of a database command without its follow-up request.\<close>

definition database_result :: "string \<Rightarrow> bool \<Rightarrow> string \<Rightarrow> (bool \<times> string option) io" where
  "database_result c ok msg = do { r \<leftarrow> databases_HandleCommandResult c ok msg; State_Monad.return (fst r, snd (snd r)) }"

lemma database_result_claims:
  "wp (databases_HandleCommandResult c ok msg) (\<lambda>res w'.
     fst res \<longrightarrow> claimed (\<lambda>a. operationTypeForDatabaseAction a \<noteq> []) c (store w)) w"
  unfolding databases_HandleCommandResult_def
  apply (rule wp_in_tx_value)
   apply (rule wp_try_txI [OF wp_find_command], simp)
   apply (clarsimp simp: wp_return wp_bind wp_time_now wp_json_err split: option.split)
   apply (rule wp_always, auto split: tx.split)
  done

interpretation database_results: result_handler database_result "\<lambda>a. operationTypeForDatabaseAction a \<noteq> []"
proof
  fix c ok msg and w :: world
  show "wp (database_result c ok msg) (\<lambda>r w'. r \<noteq> (True, None) \<longrightarrow> store w' = store w) w"
    unfolding database_result_def wp_bind wp_return
    by (rule wp_mono [OF wp_databases_HandleCommandResult]) auto
  show "wp (database_result c ok msg) (\<lambda>r w'. fst r \<longrightarrow> claimed (\<lambda>a. operationTypeForDatabaseAction a \<noteq> []) c (store w)) w"
    unfolding database_result_def wp_bind wp_return by (rule wp_mono [OF database_result_claims]) simp
  show "wp (database_result c ok msg) (\<lambda>r w'. same_queue (store w) (store w')) w"
    unfolding database_result_def wp_bind wp_return
    by (rule wp_mono [OF wp_databases_HandleCommandResult])
      (auto simp: database_result_applied_def outcome_applied_def split: if_splits)
qed

section \<open>Superseded commands\<close>

lemma settle_feature_stale:
  assumes "\<forall>r\<in>set (node_feature_apply_status d). Feat_CommandID r \<noteq> i"
  shows "settle_feature f c n i ok msg det now d = d"
proof -
  have "upd_where (\<lambda>r. is_feature f c n r \<and> Feat_CommandID r = i) g (node_feature_apply_status d) = node_feature_apply_status d" for g
    by (rule upd_where_none) (use assms in auto)
  then show ?thesis by (simp add: settle_feature_def)
qed

lemma wp_hba_result:
  "wp (access_HandleHBACommandResult i ok msg) (\<lambda>res w'. store w' = store w \<or>
     (\<exists>c n now. store w' = settle_feature ''hba'' c n i ok (RedactStoredError msg) None now (store w))) w"
  unfolding access_HandleHBACommandResult_def
  by (rule wp_mono, rule wp_handle_feature_result [where S = "\<lambda>p now. settle_feature ''hba'' (fst p) (snd p) i ok (RedactStoredError msg) None now"])
    (simp only: case_prod_beta wp_write_to, auto simp: feature_applied_def)

lemma wp_tls_result:
  "wp (tls_HandleCommandResult i ok msg) (\<lambda>res w'. store w' = store w \<or>
     (\<exists>c n det now. store w' = settle_feature ''tls'' c n i ok (RedactStoredError msg) det now (store w))) w"
  unfolding tls_HandleCommandResult_def
  by (rule wp_mono, rule wp_handle_feature_result [where S = "\<lambda>p now. settle_feature ''tls'' (fst p) (fst (snd p)) i ok (RedactStoredError msg)
          (Some (tlsApplyDetail (snd (snd p)) (ok \<and> snd (snd p) \<noteq> ''disabled''))) now"])
    (simp only: case_prod_beta wp_write_to, auto simp: feature_applied_def)

lemma wp_ext_result:
  "wp (ext_HandleCommandResult i ok msg) (\<lambda>res w'.
     res = (True, None) \<and> (\<exists>cmd c now. commands_table.by_key i (agent_commands (store w)) = Some cmd \<and>
        Cmd_Action cmd = ''pg_apply_extensions'' \<and> json_str ''cluster_id'' (Cmd_Payload cmd) = Some c \<and> c \<noteq> [] \<and>
        store w' = (store w)\<lparr>cluster_extensions := settled_extensions c i ok (RedactStoredError msg) now (cluster_extensions (store w))\<rparr>) \<or>
     res \<noteq> (True, None) \<and> store w' = store w) w"
  unfolding ext_HandleCommandResult_def
  by (rule wp_mono, rule wp_handle_feature_result [where S = "\<lambda>c now d.
        d\<lparr>cluster_extensions := settled_extensions c i ok (RedactStoredError msg) now (cluster_extensions d)\<rparr>"],
      rule wp_settle_extensions)
    (auto simp: feature_applied_def op_for_action_iff split: if_splits)

section \<open>Properties\<close>

text \<open>
  an applied result concerns only the command a status row was written for. When the row of a
  node has been replaced by a newer apply command, the late result of the old command, success or
  failure, changes no table.
\<close>

theorem superseded_result_ignored:
  assumes "\<forall>r\<in>set (node_feature_apply_status (store w)). Feat_CommandID r \<noteq> commandID"
  shows "store (after (access_HandleHBACommandResult commandID success errMsg) w) = store w \<and>
    store (after (tls_HandleCommandResult commandID success errMsg) w) = store w"
  using wp_hba_result [of commandID success errMsg w] wp_tls_result [of commandID success errMsg w]
  by (auto simp: wp_outcome settle_feature_stale [OF assms])

definition stale_db :: db where
  "stale_db = empty_db\<lparr>agent_commands := [(sample_command ''old'' ''a1'' ''n1'' ''pg_apply_hba'' CommandStatusPending 1)
       \<lparr>Cmd_Payload := Json [(''cluster_id'', JStr ''c1''), (''node_id'', JStr ''n1'')]\<rparr>],
     node_feature_apply_status := [pending_feature ''hba'' ''c1'' ''n1'' ''new'' (Json []) 2]\<rparr>"

theorem superseded_result_ignored_witness:
  "map Feat_CommandID (node_feature_apply_status stale_db) = [''new''] \<and>
   store (after (access_HandleHBACommandResult ''old'' True []) (world_of stale_db)) = stale_db"
  using superseded_result_ignored [of "world_of stale_db" "''old''" True "[]"]
  by (simp add: stale_db_def pending_feature_def)

text \<open>
  the result of an apply-extensions command settles exactly the extensions that still carry the
  command, or nothing. On success the disabled ones are gone and the enabled ones ready, on failure
  all of them have failed with the redacted error; extensions of other clusters or other commands and
  all other tables stay as they are.
\<close>

theorem extensions_result_all_or_nothing:
  "case result (ext_HandleCommandResult commandID success errMsg) w of
     (True, None) \<Rightarrow> \<exists>cmd c now. commands_table.by_key commandID (agent_commands (store w)) = Some cmd \<and>
        Cmd_Action cmd = ''pg_apply_extensions'' \<and> json_str ''cluster_id'' (Cmd_Payload cmd) = Some c \<and> c \<noteq> [] \<and>
        store (after (ext_HandleCommandResult commandID success errMsg) w) = (store w)\<lparr>cluster_extensions :=
          settled_extensions c commandID success (RedactStoredError errMsg) now (cluster_extensions (store w))\<rparr>
   | _ \<Rightarrow> store (after (ext_HandleCommandResult commandID success errMsg) w) = store w"
  using wp_ext_result [of commandID success errMsg w]
  by (auto simp: wp_outcome split: prod.splits bool.splits option.splits)

definition toggled_db :: db where
  "toggled_db = empty_db\<lparr>agent_commands := [(sample_command ''k1'' ''a1'' ''n1'' ''pg_apply_extensions'' CommandStatusPending 1)
       \<lparr>Cmd_Payload := Json [(''cluster_id'', JStr ''c1''), (''enable'', JList [''pg_trgm''])]\<rparr>],
     cluster_extensions := [\<lparr>Ext_ClusterID = ''c1'', Ext_ExtensionName = ''pg_trgm'', Ext_Enabled = True, Ext_Status = ''pending'',
       Ext_Error = [], Ext_CommandID = ''k1'', Ext_AppliedAt = None, Ext_UpdatedAt = 1\<rparr>]\<rparr>"

lemma toggled_run:
  "wp (do { _ \<leftarrow> ext_SetEnabled ''c1'' ''pg_trgm'' False; ext_HandleCommandResult ''k1'' True [] })
     (\<lambda>r w'. r = (True, None) \<and> cluster_extensions (store w') = []) (world_of toggled_db)"
proof -
  have op: "LogicalOpForAction the_registry ''pg_apply_extensions'' = Some OpApplyExtensions"
    by (simp add: op_for_action_iff)
  show ?thesis
    by (simp add: ext_SetEnabled_def ext_get_def upsert_extension_def is_extension_def ext_HandleCommandResult_def
        handle_feature_result_def settle_extensions_def of_command_def wp_simps wp_in_tx toggled_db_def sample_command_def
        op json_str_def)
qed

text \<open>
  a toggle during an apply is lost. The command that enables an extension is queued; the user
  switches the extension off before the agent answers; the success of the command, which did create
  the extension on the node, then deletes its row, so the server no longer knows that it is installed
  and no later apply drops it.
\<close>

theorem extension_toggle_during_apply_lost:
  "result (do { _ \<leftarrow> ext_SetEnabled ''c1'' ''pg_trgm'' False; ext_HandleCommandResult ''k1'' True [] }) (world_of toggled_db)
     = (True, None) \<and>
   cluster_extensions (store (after (do { _ \<leftarrow> ext_SetEnabled ''c1'' ''pg_trgm'' False; ext_HandleCommandResult ''k1'' True [] })
     (world_of toggled_db))) = []"
  using toggled_run by (simp add: wp_outcome)

end
