(* ===== verification/CommandLogs.thy ===== *)
theory CommandLogs
  imports NodeRepo Samples
begin

text \<open>
  \<open>internal/db/agent_command_log_repo.go\<close>: the log lines agents report for their commands. A batch is
  stored in one transaction; the lists join each line with its command and that command's node, take
  the newest page and return it in chronological order. The zero \<open>time.Time\<close> is \<open>zero_time\<close>.
\<close>

text \<open>A line with the columns the joins add.\<close>

record EnrichedLog = CommandLog +
  Log_NodeID :: string
  Log_Hostname :: string
  Log_Action :: string

section \<open>Writing\<close>

definition logs_insert :: "CommandLog \<Rightarrow> unit res io" where
  "logs_insert l = exec (\<lambda>d. if Log_ID l \<in> Log_ID ` set (agent_command_logs d) then None
     else Some (d\<lparr>agent_command_logs := agent_command_logs d @ [l]\<rparr>))"

definition logs_Create :: "string \<Rightarrow> string \<Rightarrow> string \<Rightarrow> string \<Rightarrow> CommandLog res io" where
  "logs_Create commandID agentID level message = do {
     logID \<leftarrow> id_New;
     now \<leftarrow> time_now;
     let l = \<lparr>Log_ID = logID, Log_CommandID = commandID, Log_AgentID = agentID, Log_Level = level,
              Log_Message = message, Log_CreatedAt = now\<rparr>;
     try_do (logs_insert l) (\<lambda>e. Inl (wrap ''insert command log'' e)) (\<lambda>_. State_Monad.return (Inr l))
   }"

text \<open>One turn of the loop; the entry it fills in is visible to the caller through its pointer.\<close>

definition store_log :: "CommandLog \<Rightarrow> CommandLog res io" where
  "store_log l = do {
     i \<leftarrow> (if Log_ID l = [] then id_New else State_Monad.return (Log_ID l));
     t \<leftarrow> (if Log_CreatedAt l = zero_time then time_now else State_Monad.return (Log_CreatedAt l));
     let l' = l\<lparr>Log_ID := i, Log_CreatedAt := t\<rparr>;
     try_do (logs_insert l') (\<lambda>e. Inl (wrap ''insert command log row'' e)) (\<lambda>_. State_Monad.return (Inr l'))
   }"

fun store_logs :: "CommandLog list \<Rightarrow> CommandLog list res io" where
  "store_logs [] = State_Monad.return (Inr [])"
| "store_logs (l # ls) =
     try_do (store_log l) Inl (\<lambda>l'. try_do (store_logs ls) Inl (\<lambda>ls'. State_Monad.return (Inr (l' # ls'))))"

definition logs_CreateBatch :: "CommandLog list \<Rightarrow> CommandLog list res io" where
  "logs_CreateBatch ls =
     (if ls = [] then State_Monad.return (Inr [])
      else in_tx (\<lambda>e. Inl (wrap ''begin command log batch'' e)) (\<lambda>e. Inl (wrap ''commit command log batch'' e))
        (try_tx (query (\<lambda>_. ())) (\<lambda>e. Inl (wrap ''prepare command log insert'' e)) (\<lambda>_.
         try_tx (store_logs ls) Inl (\<lambda>ls'. State_Monad.return (Commit (Inr ls'))))))"

section \<open>Reading\<close>

definition enrich :: "db \<Rightarrow> CommandLog \<Rightarrow> EnrichedLog" where
  "enrich d l = (
     let c = List.find (\<lambda>c. Cmd_ID c = Log_CommandID l) (agent_commands d);
         n = (case c of None \<Rightarrow> None | Some x \<Rightarrow> List.find (\<lambda>n. Node_ID n = Cmd_NodeID x) (nodes d))
     in \<lparr>Log_ID = Log_ID l, Log_CommandID = Log_CommandID l, Log_AgentID = Log_AgentID l, Log_Level = Log_Level l,
         Log_Message = Log_Message l, Log_CreatedAt = Log_CreatedAt l,
         Log_NodeID = (case c of None \<Rightarrow> [] | Some x \<Rightarrow> Cmd_NodeID x),
         Log_Hostname = (case n of None \<Rightarrow> [] | Some x \<Rightarrow> Node_Hostname x),
         Log_Action = (case c of None \<Rightarrow> [] | Some x \<Rightarrow> Cmd_Action x)\<rparr>)"

definition clampLogLimit :: "int \<Rightarrow> int" where
  "clampLogLimit limit = (if limit \<le> 0 then 500 else if limit > 10000 then 10000 else limit)"

record LogFilter =
  Filter_Level :: string
  Filter_Since :: Time
  Filter_Until :: Time

definition LogFilter_apply :: "LogFilter \<Rightarrow> CommandLog \<Rightarrow> bool" where
  "LogFilter_apply f l \<longleftrightarrow>
     (Filter_Level f = [] \<or> Log_Level l = Filter_Level f) \<and>
     (Filter_Since f = zero_time \<or> Filter_Since f \<le> Log_CreatedAt l) \<and>
     (Filter_Until f = zero_time \<or> Log_CreatedAt l \<le> Filter_Until f)"

text \<open>
  The shared end of the three lists: \<open>ORDER BY created_at DESC, id DESC LIMIT ? OFFSET ?\<close>, then
  reversed by \<open>scanCommandLogs\<close>.
\<close>

definition newest_page :: "int \<Rightarrow> int \<Rightarrow> CommandLog list \<Rightarrow> CommandLog list" where
  "newest_page limit offset ls =
     rev (page (nat (if offset < 0 then 0 else offset)) (nat (clampLogLimit limit))
       (rev (sort_key (\<lambda>l. (Log_CreatedAt l, Log_ID l)) ls)))"

definition list_logs ::
  "string \<Rightarrow> (db \<Rightarrow> CommandLog \<Rightarrow> bool) \<Rightarrow> int \<Rightarrow> int \<Rightarrow> LogFilter \<Rightarrow> EnrichedLog list res io" where
  "list_logs msg p limit offset filt = wrap_err msg
     (query (\<lambda>d. map (enrich d) (newest_page limit offset (filter (\<lambda>l. p d l \<and> LogFilter_apply filt l) (agent_command_logs d)))))"

definition logs_ListByCommandID :: "string \<Rightarrow> int \<Rightarrow> int \<Rightarrow> LogFilter \<Rightarrow> EnrichedLog list res io" where
  "logs_ListByCommandID commandID =
     list_logs ''query command logs by command id'' (\<lambda>d l. Log_CommandID l = commandID)"

definition logs_ListByNodeID :: "string \<Rightarrow> int \<Rightarrow> int \<Rightarrow> LogFilter \<Rightarrow> EnrichedLog list res io" where
  "logs_ListByNodeID nodeID =
     list_logs ''query command logs by node id'' (\<lambda>d l.
       case List.find (\<lambda>c. Cmd_ID c = Log_CommandID l) (agent_commands d) of
         None \<Rightarrow> False | Some c \<Rightarrow> Cmd_NodeID c = nodeID)"

definition logs_ListByClusterID :: "string \<Rightarrow> int \<Rightarrow> int \<Rightarrow> LogFilter \<Rightarrow> EnrichedLog list res io" where
  "logs_ListByClusterID clusterID =
     list_logs ''query command logs by cluster id'' (\<lambda>d l.
       case List.find (\<lambda>c. Cmd_ID c = Log_CommandID l) (agent_commands d) of
         None \<Rightarrow> False
       | Some c \<Rightarrow> (case List.find (\<lambda>n. Node_ID n = Cmd_NodeID c) (nodes d) of
             None \<Rightarrow> False | Some n \<Rightarrow> in_cluster clusterID n))"

definition logs_GetEnrichedByIDs :: "string list \<Rightarrow> EnrichedLog list res io" where
  "logs_GetEnrichedByIDs ids =
     (if ids = [] then State_Monad.return (Inr [])
      else wrap_err ''query enriched command logs by ids''
        (query (\<lambda>d. map (enrich d) (filter (\<lambda>l. Log_ID l \<in> set ids) (agent_command_logs d)))))"

section \<open>What a batch stores\<close>

text \<open>The entry as the agent sent it, without the columns the server fills in.\<close>

definition log_content :: "CommandLog \<Rightarrow> string \<times> string \<times> string \<times> string" where
  "log_content l = (Log_CommandID l, Log_AgentID l, Log_Level l, Log_Message l)"

lemma wp_store_log:
  "wp (store_log l) (\<lambda>r w'. \<forall>l'. r = Inr l' \<longrightarrow>
     store w' = (store w)\<lparr>agent_command_logs := agent_command_logs (store w) @ [l']\<rparr> \<and>
     log_content l' = log_content l \<and> (Log_CreatedAt l \<noteq> zero_time \<longrightarrow> Log_CreatedAt l' = Log_CreatedAt l)) w"
  by (auto simp: store_log_def logs_insert_def log_content_def Let_def wp_simps split: option.splits)

definition stored_as :: "CommandLog \<Rightarrow> CommandLog \<Rightarrow> bool" where
  "stored_as l l' \<longleftrightarrow> log_content l' = log_content l \<and> (Log_CreatedAt l = zero_time \<or> Log_CreatedAt l' = Log_CreatedAt l)"

lemma wp_store_logs:
  "wp (store_logs ls) (\<lambda>r w'. \<forall>ls'. r = Inr ls' \<longrightarrow> list_all2 stored_as ls ls' \<and>
     store w' = (store w)\<lparr>agent_command_logs := agent_command_logs (store w) @ ls'\<rparr>) w"
proof (induction ls arbitrary: w)
  case (Cons l ls)
  show ?case
    unfolding store_logs.simps
    by (rule wp_try_doI [OF wp_store_log], simp, rule wp_try_doI [OF Cons.IH], simp)
      (auto simp: wp_return stored_as_def)
qed (simp add: wp_return)

lemma wp_logs_CreateBatch:
  "wp (logs_CreateBatch ls) (\<lambda>r w'. (\<exists>ls'. r = Inr ls' \<and> list_all2 stored_as ls ls' \<and>
       store w' = (store w)\<lparr>agent_command_logs := agent_command_logs (store w) @ ls'\<rparr>) \<or>
     isl r \<and> store w' = store w) w"
proof (cases "ls = []")
  case False
  show ?thesis
    unfolding logs_CreateBatch_def if_not_P [OF False]
    apply (rule wp_in_tx_outcome [where A = isl and C = "\<lambda>r d'. \<exists>ls'. r = Inr ls' \<and> list_all2 stored_as ls ls' \<and>
         d' = (store w)\<lparr>agent_command_logs := agent_command_logs (store w) @ ls'\<rparr>"])
      apply (simp add: wp_try_tx wp_query split: option.split)
      apply (intro impI wp_mono [OF wp_store_logs])
      apply (auto simp: wp_return split: sum.splits)
    done
qed (simp add: logs_CreateBatch_def wp_return)

lemma clampLogLimit_bounds: "1 \<le> clampLogLimit limit \<and> clampLogLimit limit \<le> 10000"
  by (simp add: clampLogLimit_def)

text \<open>The order of a page: by time, then by identifier.\<close>

abbreviation log_key :: "CommandLog \<Rightarrow> Time \<times> string" where
  "log_key l \<equiv> (Log_CreatedAt l, Log_ID l)"

lemma newest_page_sorted: "sorted (map log_key (newest_page limit offset ls))"
proof -
  have slice: "sorted (map f xs) \<Longrightarrow> sorted (map f (rev (page m n (rev xs))))" for f :: "CommandLog \<Rightarrow> Time \<times> string" and xs m n
    by (simp add: page_def rev_take rev_drop sorted_wrt_drop sorted_wrt_take flip: drop_map take_map)
  show ?thesis unfolding newest_page_def by (rule slice) simp
qed

lemma newest_page_length: "length (newest_page limit offset ls) \<le> nat (clampLogLimit limit)"
  by (simp add: newest_page_def length_page)

lemma newest_page_subset: "set (newest_page limit offset ls) \<subseteq> set ls"
  unfolding newest_page_def using set_page_subset by fastforce

lemma newest_page_newest:
  assumes "l \<in> set ls" "l \<notin> set (newest_page limit 0 ls)" "k \<in> set (newest_page limit 0 ls)"
  shows "log_key l \<le> log_key k"
proof -
  let ?s = "sort_key log_key ls" let ?n = "length ls - nat (clampLogLimit limit)"
  have page: "newest_page limit 0 ls = drop ?n ?s"
    by (simp add: newest_page_def page_def rev_take)
  then have "l \<in> set (take ?n ?s)"
    using assms(1,2) by (metis Un_iff append_take_drop_id set_append set_sort)
  moreover have "sorted (map log_key (take ?n ?s @ drop ?n ?s))" by simp
  ultimately show ?thesis
    using assms(3) unfolding page map_append sorted_append by force
qed

section \<open>Properties\<close>

text \<open>
  a batch of log lines is stored as a whole or not at all. On success the table has grown by
  exactly one line per entry, in order, with the command, agent, level, text and (unless it was zero)
  time of the entry; on any error it is unchanged.
\<close>

theorem log_batch_all_or_nothing:
  "case result (logs_CreateBatch ls) w of
     Inl _ \<Rightarrow> store (after (logs_CreateBatch ls) w) = store w
   | Inr ls' \<Rightarrow> list_all2 stored_as ls ls' \<and>
       store (after (logs_CreateBatch ls) w) = (store w)\<lparr>agent_command_logs := agent_command_logs (store w) @ ls'\<rparr>"
  using wp_logs_CreateBatch [of ls w] by (auto simp: wp_outcome split: sum.splits)

text \<open>
  a page of log lines has at most 10000 lines, in chronological order, and with offset 0 it is the
  newest page: a matching line that is left out is not younger than any line of the page.
\<close>

theorem log_page_bounded_and_newest:
  "length (newest_page limit offset ls) \<le> 10000 \<and>
   sorted (map Log_CreatedAt (newest_page limit offset ls)) \<and>
   (\<forall>l k. l \<in> set ls - set (newest_page limit 0 ls) \<longrightarrow> k \<in> set (newest_page limit 0 ls) \<longrightarrow>
      Log_CreatedAt l \<le> Log_CreatedAt k)"
proof (intro conjI allI impI)
  show "length (newest_page limit offset ls) \<le> 10000"
    using newest_page_length [of limit offset ls] clampLogLimit_bounds [of limit] by linarith
  have "sorted_wrt (\<lambda>k l. log_key k \<le> log_key l) (newest_page limit offset ls)"
    using newest_page_sorted [of limit offset ls] by (simp add: sorted_map)
  then show "sorted (map Log_CreatedAt (newest_page limit offset ls))"
    unfolding sorted_map by (rule sorted_wrt_mono_rel [rotated]) (auto simp: less_eq_prod_simp)
qed (use newest_page_newest [of _ ls limit] in \<open>force simp: less_eq_prod_simp\<close>)

definition sample_log :: "string \<Rightarrow> Time \<Rightarrow> CommandLog" where
  "sample_log i t = \<lparr>Log_ID = i, Log_CommandID = ''k1'', Log_AgentID = ''a1'', Log_Level = ''info'',
     Log_Message = ''m'', Log_CreatedAt = t\<rparr>"

theorem log_page_bounded_and_newest_witness:
  "map Log_ID (newest_page 2 0 [sample_log ''b'' 5, sample_log ''a'' 9, sample_log ''c'' 7]) = [''c'', ''a''] \<and>
   Log_CreatedAt (sample_log ''b'' 5) \<le> Log_CreatedAt (sample_log ''c'' 7)"
proof -
  let ?ls = "[sample_log ''b'' 5, sample_log ''a'' 9, sample_log ''c'' 7]"
  have page: "newest_page 2 0 ?ls = [sample_log ''c'' 7, sample_log ''a'' 9]"
    by (simp add: newest_page_def page_def clampLogLimit_def sample_log_def)
  have "sample_log ''b'' 5 \<in> set ?ls - set (newest_page 2 0 ?ls)" "sample_log ''c'' 7 \<in> set (newest_page 2 0 ?ls)"
    unfolding page by (simp_all add: sample_log_def)
  then have "Log_CreatedAt (sample_log ''b'' 5) \<le> Log_CreatedAt (sample_log ''c'' 7)"
    using log_page_bounded_and_newest [of 2 0 ?ls] by blast
  then show ?thesis unfolding page by (simp add: sample_log_def)
qed

end
