(* ===== verification/LogStream.thy ===== *)
theory LogStream
  imports Prelude "HOL-Library.Word" "HOL-Library.AList"
begin

text \<open>
  \<open>internal/server/logstream.go\<close>: the in-memory hub that fans command logs out to live subscribers.
  The map of subscribers is an association list, the identifiers are 64 bit counters that wrap, and a
  subscriber's buffered channel is the list of the messages it holds. Every operation runs under the
  broker's mutex, so the operations, and the receiving of a message by its subscriber, are the atomic
  steps of \<open>broker_step\<close>. Go iterates the map in any order; \<open>Publish\<close> treats each
  subscriber on its own, so the order does not matter.
\<close>

definition logSubscriberBuffer :: nat where
  "logSubscriberBuffer = 256"

text \<open>\<open>skylexv1.CommandLog\<close>\<close>

record ProtoLog =
  PL_Id :: string
  PL_CommandId :: string
  PL_NodeId :: string
  PL_Hostname :: string
  PL_Level :: string
  PL_Message :: string
  PL_TimestampMs :: int

record logSubscriber =
  Sub_id :: "64 word"
  Sub_clusterID :: string
  Sub_nodeID :: string
  Sub_commandID :: string
  Sub_ch :: "ProtoLog list"

definition matches :: "logSubscriber \<Rightarrow> ProtoLog \<Rightarrow> bool" where
  "matches s log =
     (if Sub_commandID s \<noteq> [] then Sub_commandID s = PL_CommandId log
      else if Sub_nodeID s \<noteq> [] then Sub_nodeID s = PL_NodeId log
      else True)"

record LogBroker =
  subscribers :: "(64 word \<times> logSubscriber) list"
  nextID :: "64 word"

definition NewLogBroker :: LogBroker where
  "NewLogBroker = \<lparr>subscribers = [], nextID = 0\<rparr>"

definition Subscribe :: "string \<Rightarrow> string \<Rightarrow> string \<Rightarrow> LogBroker \<Rightarrow> 64 word \<times> LogBroker" where
  "Subscribe clusterID nodeID commandID b = (
     let i = nextID b + 1;
         sub = \<lparr>Sub_id = i, Sub_clusterID = clusterID, Sub_nodeID = nodeID, Sub_commandID = commandID, Sub_ch = []\<rparr>
     in (i, b\<lparr>nextID := i, subscribers := AList.update i sub (subscribers b)\<rparr>))"

definition Unsubscribe :: "64 word \<Rightarrow> LogBroker \<Rightarrow> LogBroker" where
  "Unsubscribe i b = b\<lparr>subscribers := AList.delete i (subscribers b)\<rparr>"

text \<open>\<open>select { case sub.ch <- log: default: }\<close>: a full channel drops the message.\<close>

definition offer :: "logSubscriber \<Rightarrow> ProtoLog \<Rightarrow> logSubscriber" where
  "offer s log = (if length (Sub_ch s) < logSubscriberBuffer then s\<lparr>Sub_ch := Sub_ch s @ [log]\<rparr> else s)"

fun offer_all :: "ProtoLog list \<Rightarrow> logSubscriber \<Rightarrow> logSubscriber" where
  "offer_all [] s = s"
| "offer_all (log # logs) s = (if \<not> matches s log then offer_all logs s else offer_all logs (offer s log))"

definition publish_to :: "string \<Rightarrow> ProtoLog list \<Rightarrow> logSubscriber \<Rightarrow> logSubscriber" where
  "publish_to clusterID logs s =
     (if Sub_clusterID s \<noteq> [] \<and> Sub_clusterID s \<noteq> clusterID then s else offer_all logs s)"

definition Publish :: "string \<Rightarrow> ProtoLog list \<Rightarrow> LogBroker \<Rightarrow> LogBroker" where
  "Publish clusterID logs b =
     (if logs = [] then b
      else if subscribers b = [] then b
      else b\<lparr>subscribers := map (\<lambda>(i, s). (i, publish_to clusterID logs s)) (subscribers b)\<rparr>)"

definition SubscriberCount :: "LogBroker \<Rightarrow> nat" where
  "SubscriberCount b = length (subscribers b)"

text \<open>The subscriber takes the oldest message from its channel.\<close>

definition receive :: "64 word \<Rightarrow> LogBroker \<Rightarrow> (ProtoLog \<times> LogBroker) option" where
  "receive i b = (case map_of (subscribers b) i of
     None \<Rightarrow> None
   | Some s \<Rightarrow> (case Sub_ch s of
        [] \<Rightarrow> None
      | log # logs \<Rightarrow> Some (log, b\<lparr>subscribers := AList.update i (s\<lparr>Sub_ch := logs\<rparr>) (subscribers b)\<rparr>)))"

section \<open>What a publication delivers\<close>

lemma offer_matches [simp]: "matches (offer s l) log = matches s log"
  by (simp add: offer_def matches_def)

lemma offer_fields [simp]:
  "Sub_id (offer s l) = Sub_id s" "Sub_clusterID (offer s l) = Sub_clusterID s"
  by (simp_all add: offer_def)

lemma offer_all_ch:
  "length (Sub_ch s) \<le> logSubscriberBuffer \<Longrightarrow>
   Sub_ch (offer_all logs s) = take logSubscriberBuffer (Sub_ch s @ filter (matches s) logs)"
proof (induction logs arbitrary: s)
  case (Cons log logs)
  have m: "matches (offer s log) = matches s" by (rule ext) simp
  have "Sub_ch (offer_all logs (offer s log)) = take logSubscriberBuffer (Sub_ch (offer s log) @ filter (matches s) logs)"
  proof -
    have "length (Sub_ch (offer s log)) \<le> logSubscriberBuffer" using Cons.prems by (simp add: offer_def)
    from Cons.IH [OF this] show ?thesis by (simp only: m)
  qed
  then show ?case using Cons.prems Cons.IH [of s] by (cases "length (Sub_ch s) < logSubscriberBuffer") (auto simp: offer_def)
qed simp

lemma offer_all_fields [simp]:
  "Sub_id (offer_all logs s) = Sub_id s" "Sub_clusterID (offer_all logs s) = Sub_clusterID s"
  by (induction logs s rule: offer_all.induct) auto

text \<open>The messages of a batch that are addressed to a subscriber.\<close>

definition addressed :: "string \<Rightarrow> ProtoLog list \<Rightarrow> logSubscriber \<Rightarrow> ProtoLog list" where
  "addressed clusterID logs s =
     (if Sub_clusterID s = [] \<or> Sub_clusterID s = clusterID then filter (matches s) logs else [])"

lemma publish_to_ch:
  "length (Sub_ch s) \<le> logSubscriberBuffer \<Longrightarrow>
   Sub_ch (publish_to clusterID logs s) = take logSubscriberBuffer (Sub_ch s @ addressed clusterID logs s)"
  by (auto simp: publish_to_def addressed_def offer_all_ch)

lemma lookup_Publish:
  "map_of (subscribers (Publish clusterID logs b)) i = map_option (publish_to clusterID logs) (map_of (subscribers b) i)"
proof -
  have "publish_to clusterID [] = (\<lambda>s. s)" by (rule ext) (simp add: publish_to_def)
  moreover have "map_of (map (\<lambda>(i, s). (i, f s)) xs) i = map_option f (map_of xs i)" for f :: "logSubscriber \<Rightarrow> logSubscriber" and xs
    by (induction xs) auto
  ultimately show ?thesis by (auto simp: Publish_def option.map_ident)
qed

section \<open>The invariant\<close>

definition broker_ok :: "LogBroker \<Rightarrow> bool" where
  "broker_ok b \<longleftrightarrow> distinct (map fst (subscribers b)) \<and>
     list_all (\<lambda>(i, s). Sub_id s = i \<and> length (Sub_ch s) \<le> logSubscriberBuffer) (subscribers b)"

inductive broker_step :: "LogBroker \<Rightarrow> LogBroker \<Rightarrow> bool" where
  subscribe: "broker_step b (snd (Subscribe c n k b))"
| unsubscribe: "broker_step b (Unsubscribe i b)"
| publish: "broker_step b (Publish c logs b)"
| receive: "receive i b = Some (log, b') \<Longrightarrow> broker_step b b'"

lemma map_of_ok: "broker_ok b \<Longrightarrow> map_of (subscribers b) i = Some s \<Longrightarrow> Sub_id s = i \<and> length (Sub_ch s) \<le> logSubscriberBuffer"
  by (auto simp: broker_ok_def list_all_iff dest!: map_of_SomeD)

lemma update_ok:
  assumes "broker_ok b" "Sub_id s = i" "length (Sub_ch s) \<le> logSubscriberBuffer"
  shows "broker_ok (b\<lparr>subscribers := AList.update i s (subscribers b)\<rparr>)"
    "broker_ok (b\<lparr>nextID := j, subscribers := AList.update i s (subscribers b)\<rparr>)"
proof -
  have "set (AList.update i s xs) \<subseteq> insert (i, s) (set xs)" for xs
    by (induction xs) auto
  then show "broker_ok (b\<lparr>subscribers := AList.update i s (subscribers b)\<rparr>)"
    "broker_ok (b\<lparr>nextID := j, subscribers := AList.update i s (subscribers b)\<rparr>)"
    using assms by (fastforce simp: broker_ok_def list_all_iff intro: distinct_update)+
qed

lemma step_ok: "broker_step b b' \<Longrightarrow> broker_ok b \<Longrightarrow> broker_ok b'"
proof (induction rule: broker_step.induct)
  case (subscribe b c n k)
  then show ?case by (simp add: Subscribe_def Let_def update_ok)
next
  case (unsubscribe b i)
  then show ?case
    by (auto simp: broker_ok_def Unsubscribe_def list_all_iff AList.delete_eq distinct_map_filter)
next
  case (publish b c logs)
  have "length (Sub_ch s) \<le> logSubscriberBuffer \<Longrightarrow> length (Sub_ch (publish_to c logs s)) \<le> logSubscriberBuffer" for s
    by (simp add: publish_to_ch)
  moreover have "Sub_id (publish_to c logs s) = Sub_id s" for s by (simp add: publish_to_def)
  moreover have "fst \<circ> (\<lambda>(i :: 64 word, s). (i, publish_to c logs s)) = fst" by auto
  ultimately show ?case using publish by (auto simp: broker_ok_def Publish_def list_all_iff)
next
  case (receive i b log b')
  then show ?case
    by (auto simp: receive_def split: option.splits list.splits intro!: update_ok dest: map_of_ok)
qed

lemma reach_ok: "broker_step\<^sup>*\<^sup>* NewLogBroker b \<Longrightarrow> broker_ok b"
  by (induction rule: rtranclp_induct) (auto simp: broker_ok_def NewLogBroker_def dest: step_ok)

section \<open>Properties\<close>

text \<open>
  in every reachable state of the broker the identifiers of the subscribers are distinct and no
  subscriber holds more than 256 messages, however many are published and however slowly they are read.
\<close>

theorem broker_bounded:
  assumes "broker_step\<^sup>*\<^sup>* NewLogBroker b"
  shows "distinct (map fst (subscribers b)) \<and> list_all (\<lambda>(i, s). length (Sub_ch s) \<le> 256) (subscribers b)"
  using reach_ok [OF assms] by (auto simp: broker_ok_def list_all_iff logSubscriberBuffer_def)

theorem broker_bounded_witness:
  "SubscriberCount (snd (Subscribe ''c1'' [] [] NewLogBroker)) = 1 \<and>
   distinct (map fst (subscribers (snd (Subscribe ''c1'' [] [] NewLogBroker))))"
proof -
  have "broker_step\<^sup>*\<^sup>* NewLogBroker (snd (Subscribe ''c1'' [] [] NewLogBroker))"
    by (rule r_into_rtranclp) (rule broker_step.subscribe)
  from broker_bounded [OF this] show ?thesis
    by (simp add: SubscriberCount_def Subscribe_def Let_def NewLogBroker_def)
qed

text \<open>
  the loop of non-blocking sends is the bounded queue. In a reachable state a publication gives each
  subscriber what it had followed by the messages addressed to it, in order, cut at 256; this depends on
  that subscriber alone, so a slow one costs the others nothing, and a message is lost only for a
  subscriber whose buffer is full.
\<close>

theorem publish_is_bounded_append:
  assumes "broker_step\<^sup>*\<^sup>* NewLogBroker b" "map_of (subscribers b) i = Some s"
  shows "\<exists>s'. map_of (subscribers (Publish clusterID logs b)) i = Some s' \<and>
    Sub_ch s' = take 256 (Sub_ch s @ addressed clusterID logs s)"
  using map_of_ok [OF reach_ok [OF assms(1)] assms(2)] assms(2)
  by (auto simp: lookup_Publish publish_to_ch logSubscriberBuffer_def)

definition sample_message :: "string \<Rightarrow> ProtoLog" where
  "sample_message k = \<lparr>PL_Id = ''l1'', PL_CommandId = k, PL_NodeId = ''n1'', PL_Hostname = ''h'', PL_Level = ''info'',
     PL_Message = ''m'', PL_TimestampMs = 1\<rparr>"

theorem publish_is_bounded_append_witness:
  "\<exists>s'. map_of (subscribers (Publish ''c1'' [sample_message ''k1'', sample_message ''k2'']
       (snd (Subscribe ''c1'' [] ''k2'' NewLogBroker)))) 1 = Some s' \<and> Sub_ch s' = [sample_message ''k2'']"
proof -
  have reach: "broker_step\<^sup>*\<^sup>* NewLogBroker (snd (Subscribe ''c1'' [] ''k2'' NewLogBroker))"
    by (rule r_into_rtranclp) (rule broker_step.subscribe)
  have sub: "map_of (subscribers (snd (Subscribe ''c1'' [] ''k2'' NewLogBroker))) 1 =
      Some \<lparr>Sub_id = 1, Sub_clusterID = ''c1'', Sub_nodeID = [], Sub_commandID = ''k2'', Sub_ch = []\<rparr>"
    by (simp add: Subscribe_def Let_def NewLogBroker_def)
  from publish_is_bounded_append [OF reach sub, of "''c1''" "[sample_message ''k1'', sample_message ''k2'']"]
  show ?thesis by (simp add: addressed_def matches_def sample_message_def)
qed

end
