(* ===== verification/AgentService.thy ===== *)
theory AgentService
  imports UserRepo AdminBackfill FeatureRepos CommandLogs LogStream
begin

text \<open>
  \<open>internal/server/agent_service.go\<close>: what the agents call. An agent registers with a token, sends
  heartbeats and status reports for its node, fetches the oldest pending command with its secrets,
  and reports results and log lines. A result is offered to the repositories that settle commands one
  after the other; what none of them claims drives the provisioning and the lifecycle of the cluster.
  The repositories that \<open>server.go\<close> wires with setters may be absent; the cluster repository is always
  present. The log broker is passed along, since it lives in memory and not in the store. Failures
  that are only logged are dropped.
\<close>

record AgentService =
  AS_AgentToken :: string
  AS_aead :: aead
  AS_roleEncryptKey :: string
  AS_commandSecrets :: "SecretRepository option"
  AS_clusterSecrets :: "SecretRepository option"
  AS_postgresRoles :: bool
  AS_postgresDBs :: bool
  AS_postgresAccess :: bool
  AS_postgresTLS :: bool
  AS_postgresExt :: bool

section \<open>Registration\<close>

definition validateAgentToken :: "AgentService \<Rightarrow> string \<Rightarrow> bool res io" where
  "validateAgentToken s token =
     (if token = [] then State_Monad.return (Inr False)
      else do {
        r \<leftarrow> tokens_GetByTokenHash (HashToken (AS_aead s) token);
        (case r of
          Inl (DriverError e) \<Rightarrow> State_Monad.return (Inl e)
        | _ \<Rightarrow> do {
            valid \<leftarrow> (case r of
                Inr t \<Rightarrow> (case Token_ExpiresAt t of
                    None \<Rightarrow> State_Monad.return True
                  | Some x \<Rightarrow> do { now \<leftarrow> time_now; State_Monad.return (x > now) })
              | Inl _ \<Rightarrow> State_Monad.return False);
            State_Monad.return (Inr (valid \<or> AS_AgentToken s \<noteq> [] \<and> token = AS_AgentToken s))
          })
      })"

record Capabilities =
  Caps_PostgresAvailable :: bool
  Caps_PostgresVersion :: string
  Caps_DockerAvailable :: bool

record RegisterAgentRequest =
  Reg_AgentToken :: string
  Reg_Hostname :: string
  Reg_Address :: string
  Reg_Port :: int
  Reg_AgentVersion :: string
  Reg_Labels :: Labels
  Reg_Capabilities :: "Capabilities option"

text \<open>What both branches of \<open>RegisterAgent\<close> write to the node.\<close>

definition link_agent :: "string \<Rightarrow> string \<Rightarrow> Capabilities option \<Rightarrow> unit io" where
  "link_agent nodeID agentID caps = do {
     _ \<leftarrow> logged (nodes_UpdateAgentID nodeID agentID);
     _ \<leftarrow> logged (nodes_UpdateHeartbeat nodeID NodeStatusOnline 0);
     (case caps of
       None \<Rightarrow> State_Monad.return ()
     | Some c \<Rightarrow> do {
         _ \<leftarrow> logged (nodes_UpdatePostgresStatus nodeID (Caps_PostgresAvailable c) (Caps_PostgresVersion c) False);
         logged (nodes_UpdateDockerAvailable nodeID (Caps_DockerAvailable c))
       })
   }"

definition RegisterAgent :: "AgentService \<Rightarrow> RegisterAgentRequest \<Rightarrow> string rpc io" where
  "RegisterAgent s req =
     (if Reg_AgentToken req = [] then fail Unauthenticated ''agent token is required''
      else or_status Internal ''validate agent token'' (validateAgentToken s (Reg_AgentToken req)) (\<lambda>valid.
        if \<not> valid then fail Unauthenticated ''invalid or revoked agent token''
        else do {
          agentID \<leftarrow> GenerateToken;
          (node, _) \<leftarrow> nodes_GetByHostname (Reg_Hostname req);
          _ \<leftarrow> (case node of
              Some n \<Rightarrow> link_agent (Node_ID n) agentID (Reg_Capabilities req)
            | None \<Rightarrow> do {
                r \<leftarrow> nodes_Create [] (Reg_Hostname req) (Reg_Address req) (Reg_Port req) NodeRoleReplica
                       (Reg_AgentVersion req) (Reg_Labels req);
                (case r of
                  Inl _ \<Rightarrow> State_Monad.return ()
                | Inr n \<Rightarrow> link_agent (Node_ID n) agentID (Reg_Capabilities req))
              });
          reply agentID
        }))"

section \<open>The node of an agent\<close>

definition nodeForAgent :: "string \<Rightarrow> (Node \<Rightarrow> 'b rpc io) \<Rightarrow> 'b rpc io" where
  "nodeForAgent agentID k =
     (if agentID = [] then fail Unauthenticated ''agent_id is required''
      else or_status Internal ''lookup agent node'' (nodes_GetByAgentID agentID) (\<lambda>r. case r of
          None \<Rightarrow> fail Unauthenticated ''unknown agent''
        | Some node \<Rightarrow> k node))"

definition requireCommandForAgent :: "string \<Rightarrow> string \<Rightarrow> string \<Rightarrow> (unit \<Rightarrow> 'b rpc io) \<Rightarrow> 'b rpc io" where
  "requireCommandForAgent agentID nodeID commandID k =
     (if commandID = [] then fail InvalidArgument ''command_id is required''
      else or_status Internal ''get command'' (commands_GetByID commandID) (\<lambda>r. case r of
          None \<Rightarrow> fail NotFound ''command not found''
        | Some cmd \<Rightarrow>
            if Cmd_AgentID cmd \<noteq> agentID \<and> Cmd_NodeID cmd \<noteq> nodeID
            then fail PermissionDenied ''command does not belong to agent''
            else k ()))"

definition normalizeLatencyMS :: "int \<Rightarrow> int" where
  "normalizeLatencyMS latency = (if latency < 0 then 0 else latency)"

definition retired :: "Node \<Rightarrow> bool" where
  "retired n \<longleftrightarrow> Node_Status n = NodeStatusDrained \<or> Node_Status n = NodeStatusDeleting"

definition Heartbeat :: "string \<Rightarrow> int \<Rightarrow> unit rpc io" where
  "Heartbeat agentID observedLatencyMs = nodeForAgent agentID (\<lambda>node.
     if retired node then reply ()
     else do {
       _ \<leftarrow> logged (nodes_UpdateHeartbeat (Node_ID node) NodeStatusOnline (normalizeLatencyMS observedLatencyMs));
       reply ()
     })"

section \<open>Status reports\<close>

record NodeSystemMetrics =
  SM_Os :: string
  SM_Platform :: string
  SM_PlatformVersion :: string
  SM_KernelVersion :: string
  SM_Architecture :: string
  SM_CpuCores :: int
  SM_CpuUsagePercent :: int
  SM_LoadAverage1M :: int
  SM_LoadAverage5M :: int
  SM_LoadAverage15M :: int
  SM_MemoryTotalBytes :: int
  SM_MemoryUsedBytes :: int
  SM_MemoryAvailableBytes :: int
  SM_MemoryUsagePercent :: int
  SM_DiskTotalBytes :: int
  SM_DiskUsedBytes :: int
  SM_DiskAvailableBytes :: int
  SM_DiskUsagePercent :: int
  SM_UptimeSeconds :: int

record NodeStatusReport =
  Rep_NodeId :: string
  Rep_PostgresRunning :: bool
  Rep_PostgresInstalled :: bool
  Rep_PostgresBinVersion :: string
  Rep_PostgresVersion :: string
  Rep_PostgresDataInitialized :: bool
  Rep_NodeStatusDetail :: string
  Rep_InstallationState :: PInstallationState
  Rep_ConflictDetails :: string
  Rep_SystemMetrics :: "NodeSystemMetrics option"

definition nodeMetricsToModel :: "string \<Rightarrow> Time \<Rightarrow> NodeSystemMetrics \<Rightarrow> NodeMetric" where
  "nodeMetricsToModel nodeID now m = \<lparr>Metric_ID = [], Metric_NodeID = nodeID, Metric_RecordedAt = now,
     Metric_OS = SM_Os m, Metric_Platform = SM_Platform m, Metric_PlatformVersion = SM_PlatformVersion m,
     Metric_KernelVersion = SM_KernelVersion m, Metric_Architecture = SM_Architecture m, Metric_CPUCores = SM_CpuCores m,
     Metric_CPUUsagePercent = SM_CpuUsagePercent m, Metric_LoadAverage1M = SM_LoadAverage1M m,
     Metric_LoadAverage5M = SM_LoadAverage5M m, Metric_LoadAverage15M = SM_LoadAverage15M m,
     Metric_MemoryTotalBytes = SM_MemoryTotalBytes m, Metric_MemoryUsedBytes = SM_MemoryUsedBytes m,
     Metric_MemoryAvailableBytes = SM_MemoryAvailableBytes m, Metric_MemoryUsagePercent = SM_MemoryUsagePercent m,
     Metric_DiskTotalBytes = SM_DiskTotalBytes m, Metric_DiskUsedBytes = SM_DiskUsedBytes m,
     Metric_DiskAvailableBytes = SM_DiskAvailableBytes m, Metric_DiskUsagePercent = SM_DiskUsagePercent m,
     Metric_UptimeSeconds = SM_UptimeSeconds m\<rparr>"

definition dockerProvisioningInstalled :: "Node \<Rightarrow> bool" where
  "dockerProvisioningInstalled n \<longleftrightarrow> Node_ServiceLocation n = ServiceLocationDocker \<and>
     (Node_InstallationState n = InstallationStateInstalled \<or> Node_InstallationState n = InstallationStateAdopted)"

definition computeNodeStatusDetail :: "Node \<Rightarrow> NodeStatusReport \<Rightarrow> string" where
  "computeNodeStatusDetail node report =
     (if Rep_InstallationState report = INSTALLATION_STATE_CONFLICT then ''installation_conflict''
      else if \<not> Rep_PostgresInstalled report then ''waiting_for_postgres''
      else if \<not> Rep_PostgresDataInitialized report then ''initializing_data_directory''
      else if \<not> Rep_PostgresRunning report then ''stopped''
      else if Node_Role node = NodeRoleReplica then ''syncing_replica''
      else ''healthy'')"

primrec modelInstallationState :: "PInstallationState \<Rightarrow> InstallationState" where
  "modelInstallationState INSTALLATION_STATE_UNSPECIFIED = InstallationStateUnspecified"
| "modelInstallationState INSTALLATION_STATE_PENDING_PREFLIGHT = InstallationStatePendingPreflight"
| "modelInstallationState INSTALLATION_STATE_NOTHING_FOUND = InstallationStateNothingFound"
| "modelInstallationState INSTALLATION_STATE_CONFLICT = InstallationStateConflict"
| "modelInstallationState INSTALLATION_STATE_INSTALLING = InstallationStateInstalling"
| "modelInstallationState INSTALLATION_STATE_INSTALLED = InstallationStateInstalled"
| "modelInstallationState INSTALLATION_STATE_FAILED = InstallationStateFailed"
| "modelInstallationState INSTALLATION_STATE_ADOPTED = InstallationStateAdopted"

text \<open>The PostgreSQL columns of a report; a container that is installed overrides the agent's view of the host.\<close>

definition report_postgres :: "Node \<Rightarrow> NodeStatusReport \<Rightarrow> unit io" where
  "report_postgres node r =
     (if Rep_PostgresInstalled r \<or> Rep_PostgresBinVersion r \<noteq> [] \<or> dockerProvisioningInstalled node then
        (let version = (if Rep_PostgresBinVersion r = [] then Rep_PostgresVersion r else Rep_PostgresBinVersion r)
         in if dockerProvisioningInstalled node
            then logged (nodes_UpdatePostgresStatus (Node_ID node) True
                   (if version = [] then Node_PostgresVersion node else version)
                   (Rep_PostgresDataInitialized r \<or> Node_PostgresDataInitialized node))
            else logged (nodes_UpdatePostgresStatus (Node_ID node) (Rep_PostgresInstalled r) version
                   (Rep_PostgresDataInitialized r)))
      else State_Monad.return ())"

definition report_node :: "Node \<Rightarrow> NodeStatusReport \<Rightarrow> unit io" where
  "report_node node r =
     (if Rep_NodeId r \<noteq> [] \<and> Rep_NodeId r \<noteq> Node_ID node then State_Monad.return ()
      else if retired node then State_Monad.return ()
      else do {
        _ \<leftarrow> logged (nodes_UpdateStatus (Node_ID node) (if Rep_PostgresRunning r then NodeStatusOnline else NodeStatusOffline));
        _ \<leftarrow> report_postgres node r;
        let detail = (if Rep_NodeStatusDetail r = [] then computeNodeStatusDetail node r else Rep_NodeStatusDetail r);
        _ \<leftarrow> (if detail \<noteq> [] then logged (nodes_UpdateStatusDetail (Node_ID node) detail) else State_Monad.return ());
        let state = modelInstallationState (Rep_InstallationState r);
        _ \<leftarrow> (if state \<noteq> InstallationStateUnspecified
              then logged (nodes_UpdateInstallationState (Node_ID node) state (Rep_ConflictDetails r))
              else State_Monad.return ());
        (case Rep_SystemMetrics r of
          None \<Rightarrow> State_Monad.return ()
        | Some m \<Rightarrow> do {
            now \<leftarrow> time_now;
            logged (nodes_InsertMetric (nodeMetricsToModel (Node_ID node) now m))
          })
      })"

definition ReportStatus :: "string \<Rightarrow> NodeStatusReport list \<Rightarrow> unit rpc io" where
  "ReportStatus agentID reports = nodeForAgent agentID (\<lambda>agentNode. do {
     _ \<leftarrow> for_all_do reports (report_node agentNode);
     reply ()
   })"

section \<open>Fetching commands\<close>

record ProtoCommand =
  PCmd_Id :: string
  PCmd_NodeId :: string
  PCmd_Action :: string
  PCmd_Payload :: payload
  PCmd_Secrets :: "string \<rightharpoonup> string"

definition secret_bearing_actions :: "string list" where
  "secret_bearing_actions = [''pg_ensure_role'', ''pg_rotate_role_password'', ''pg_drop_role'', ''pg_apply_tls'',
     ''pg_adopt_native'', ''pg_create_repl_user'', ''pg_ensure_admin_role'', ''pg_apply_extensions'',
     ''pg_ensure_database'', ''pg_drop_database'', ''pg_grant_database_privileges'']"

definition isSecretBearingAction :: "string \<Rightarrow> bool" where
  "isSecretBearingAction action \<longleftrightarrow> action \<in> set secret_bearing_actions"

definition command_to_proto :: "AgentService \<Rightarrow> AgentCommand \<Rightarrow> ProtoCommand io" where
  "command_to_proto s c = do {
     let p = \<lparr>PCmd_Id = Cmd_ID c, PCmd_NodeId = Cmd_NodeID c, PCmd_Action = Cmd_Action c, PCmd_Payload = Cmd_Payload c,
              PCmd_Secrets = Map.empty\<rparr>;
     (case AS_commandSecrets s of
       Some repo \<Rightarrow>
         if isSecretBearingAction (Cmd_Action c)
         then try_do (secrets_ResolveAllForCommand repo (Cmd_ID c)) (\<lambda>_. p) (\<lambda>secrets.
                State_Monad.return (p\<lparr>PCmd_Secrets := secrets\<rparr>))
         else State_Monad.return p
     | None \<Rightarrow> State_Monad.return p)
   }"

fun commands_to_proto :: "AgentService \<Rightarrow> AgentCommand list \<Rightarrow> ProtoCommand list io" where
  "commands_to_proto s [] = State_Monad.return []"
| "commands_to_proto s (c # cs) = do { p \<leftarrow> command_to_proto s c; ps \<leftarrow> commands_to_proto s cs; State_Monad.return (p # ps) }"

definition FetchCommand :: "AgentService \<Rightarrow> string \<Rightarrow> ProtoCommand list rpc io" where
  "FetchCommand s agentID = nodeForAgent agentID (\<lambda>node.
     or_status Internal ''fetch commands'' (commands_ListPendingLimit agentID (Node_ID node) 1) (\<lambda>cmds. do {
       ps \<leftarrow> commands_to_proto s cmds;
       reply ps
     }))"

end
