(* ===== verification/AgentResults.thy ===== *)
theory AgentResults
  imports AgentService
begin

text \<open>
  The second half of \<open>internal/server/agent_service.go\<close>: results and log lines of commands.
  \<open>ReportCommandResult\<close> stores the result, offers it to each repository in turn, and otherwise moves
  the node and its cluster on: a finished preflight queues the installation, a finished start or stop
  settles the cluster's status, and a failure stops the provisioning.
\<close>

section \<open>Which actions belong to provisioning\<close>

definition isLifecycleOnlyAction :: "string \<Rightarrow> bool" where
  "isLifecycleOnlyAction action \<longleftrightarrow> action = ''pg_start'' \<or> action = ''pg_stop''"

definition isProvisioningAction :: "string \<Rightarrow> bool" where
  "isProvisioningAction action \<longleftrightarrow>
     action = ''pg_preflight'' \<or> action = ''pg_install_native'' \<or> action = ''pg_install_docker'' \<or>
     action = ''pg_purge_native'' \<or> action = ''pg_adopt_native'' \<or> action = ''pg_init'' \<or> action = ''pg_start'' \<or>
     action = ''pg_stop'' \<or> action = ''pg_create_repl_user'' \<or> action = ''pg_basebackup'' \<or> action = ''repoint_replica''"

definition provisioningActions :: "string list" where
  "provisioningActions = [''pg_preflight'', ''pg_install_native'', ''pg_install_docker'', ''pg_purge_native'',
     ''pg_adopt_native'', ''pg_init'', ''pg_start'', ''pg_stop'', ''pg_create_repl_user'', ''pg_basebackup'',
     ''repoint_replica'']"

section \<open>Results of managed roles, databases and features\<close>

definition not_wired :: "(bool \<times> string option) io" where
  "not_wired = State_Monad.return (False, None)"

definition handleRoleManagementCommandResult :: "AgentService \<Rightarrow> string \<Rightarrow> bool \<Rightarrow> string \<Rightarrow> (bool \<times> string option) io" where
  "handleRoleManagementCommandResult s commandID success errMsg =
     (if \<not> AS_postgresRoles s then not_wired
      else roles_HandleCommandResult commandID success (RedactStoredError errMsg))"

definition agent_allowPromotionForCluster :: "string \<Rightarrow> bool res io" where
  "agent_allowPromotionForCluster clusterID =
     try_do (nodes_ListByCluster clusterID 0 1000) (\<lambda>e. Inl (wrap ''list cluster nodes'' e)) (\<lambda>(ns, _).
     State_Monad.return (Inr (length ns = 1)))"

text \<open>\<open>MarkCreateFailed\<close> and the error the caller then returns.\<close>

definition fail_grant ::
  "DatabaseGrantRequest \<Rightarrow> string \<Rightarrow> (string \<Rightarrow> string) \<Rightarrow> string option \<Rightarrow> (bool \<times> string option) io" where
  "fail_grant g msg mark_failed otherwise = do {
     r \<leftarrow> databases_MarkCreateFailed (Grant_DatabaseID g) (Grant_OperationID g) msg;
     State_Monad.return (True, (case r of Inl e \<Rightarrow> Some (mark_failed e) | Inr _ \<Rightarrow> otherwise))
   }"

definition grant_ready :: "Node \<Rightarrow> bool" where
  "grant_ready n \<longleftrightarrow> Node_AgentID n \<noteq> [] \<and> Node_PostgresInstalled n \<and> Node_PostgresDataInitialized n"

definition grant_action :: "string \<Rightarrow> string io" where
  "grant_action clusterID = do {
     r \<leftarrow> clusters_GetByID clusterID;
     State_Monad.return (case r of
       Inr (Some cluster) \<Rightarrow> (case engine_For the_registry (Cluster_Engine cluster) of
           Inr provider \<Rightarrow> (case Prov_Action provider OpGrantDatabasePrivileges of
               Some action \<Rightarrow> action | None \<Rightarrow> ''pg_grant_database_privileges'')
         | Inl _ \<Rightarrow> ''pg_grant_database_privileges'')
     | _ \<Rightarrow> ''pg_grant_database_privileges'')
   }"

definition grant_payload :: "DatabaseGrantRequest \<Rightarrow> bool \<Rightarrow> payload" where
  "grant_payload g allowPromote =
     Json [(''allow_promote'', JBool allowPromote), (''database_id'', JStr (Grant_DatabaseID g)),
           (''database_name'', JStr (Grant_DatabaseName g)), (''grant_role_kind'', JStr (Grant_GrantRoleKind g)),
           (''grant_role_name'', JStr (Grant_GrantRoleName g)), (''operation_id'', JStr (Grant_OperationID g))]"

definition queue_grant :: "AgentService \<Rightarrow> DatabaseGrantRequest \<Rightarrow> Node \<Rightarrow> bool \<Rightarrow> (bool \<times> string option) io" where
  "queue_grant s g primary allowPromote = do {
     provisioned \<leftarrow> ensureSkylexAdminProvisioned (AS_clusterSecrets s) (AS_commandSecrets s) (Grant_ClusterID g) primary;
     (adminSecret, adminSecretKey) \<leftarrow> (if provisioned = Inr True then State_Monad.return ([], [])
        else resolveSkylexAdminCommandSecret (AS_clusterSecrets s) (AS_aead s) (AS_roleEncryptKey s) (Grant_ClusterID g));
     action \<leftarrow> grant_action (Grant_ClusterID g);
     now \<leftarrow> time_now;
     r \<leftarrow> databases_QueueGrantCommand \<lparr>GD_CommandID = [], GD_NodeID = Node_ID primary, GD_AgentID = Node_AgentID primary,
        GD_Payload = grant_payload g allowPromote,
        GD_EncryptedAdminSecret = adminSecret, GD_AdminSecretKey = adminSecretKey,
        GD_SecretExpiresAt = Some (now + day_ns), GD_GrantAction = action\<rparr>;
     (case r of
       Inr _ \<Rightarrow> State_Monad.return (True, None)
     | Inl e \<Rightarrow> fail_grant g e (\<lambda>me. ''queue database grant: '' @ e @ ''; mark failed: '' @ me) (Some e))
   }"

definition follow_up_grant :: "AgentService \<Rightarrow> DatabaseGrantRequest \<Rightarrow> (bool \<times> string option) io" where
  "follow_up_grant s g = do {
     r \<leftarrow> nodes_GetPrimary (Grant_ClusterID g);
     (case r of
       Inl e \<Rightarrow> fail_grant g (''resolve current primary for grant: '' @ e)
                  (\<lambda>me. ''resolve grant primary: '' @ e @ ''; mark failed: '' @ me) (Some (wrap ''resolve grant primary'' e))
     | Inr primary \<Rightarrow> (case (case primary of None \<Rightarrow> None | Some n \<Rightarrow> if grant_ready n then Some n else None) of
           None \<Rightarrow> fail_grant g ''current primary is not ready for database grant''
                     (wrap ''mark database create failed after grant primary check'') None
         | Some n \<Rightarrow> do {
             p \<leftarrow> agent_allowPromotionForCluster (Grant_ClusterID g);
             (case p of
               Inl e \<Rightarrow> fail_grant g e (\<lambda>me. ''allow promotion check: '' @ e @ ''; mark failed: '' @ me) (Some e)
             | Inr allowPromote \<Rightarrow> queue_grant s g n allowPromote)
           }))
   }"

definition handleDatabaseManagementCommandResult :: "AgentService \<Rightarrow> string \<Rightarrow> bool \<Rightarrow> string \<Rightarrow> (bool \<times> string option) io" where
  "handleDatabaseManagementCommandResult s commandID success errMsg =
     (if \<not> AS_postgresDBs s then not_wired
      else do {
        (handled, grant, err) \<leftarrow> databases_HandleCommandResult commandID success (RedactStoredError errMsg);
        (case grant of
          Some g \<Rightarrow> if err \<noteq> None \<or> \<not> handled then State_Monad.return (handled, err) else follow_up_grant s g
        | None \<Rightarrow> State_Monad.return (handled, err))
      })"

definition handlePostgresAccessCommandResult :: "AgentService \<Rightarrow> string \<Rightarrow> bool \<Rightarrow> string \<Rightarrow> (bool \<times> string option) io" where
  "handlePostgresAccessCommandResult s commandID success errMsg =
     (if \<not> AS_postgresAccess s then not_wired
      else access_HandleHBACommandResult commandID success (RedactStoredError errMsg))"

definition handlePostgresTLSCommandResult :: "AgentService \<Rightarrow> string \<Rightarrow> bool \<Rightarrow> string \<Rightarrow> (bool \<times> string option) io" where
  "handlePostgresTLSCommandResult s commandID success errMsg =
     (if \<not> AS_postgresTLS s then not_wired
      else tls_HandleCommandResult commandID success (RedactStoredError errMsg))"

definition handlePostgresExtensionCommandResult :: "AgentService \<Rightarrow> string \<Rightarrow> bool \<Rightarrow> string \<Rightarrow> (bool \<times> string option) io" where
  "handlePostgresExtensionCommandResult s commandID success errMsg =
     (if \<not> AS_postgresExt s then not_wired
      else ext_HandleCommandResult commandID success (RedactStoredError errMsg))"

definition failed_with :: "'a res \<Rightarrow> string option" where
  "failed_with r = (case r of Inl e \<Rightarrow> Some e | Inr _ \<Rightarrow> None)"

definition handleAgentLifecycleCommandResult :: "string \<Rightarrow> bool \<Rightarrow> (bool \<times> string option) io" where
  "handleAgentLifecycleCommandResult commandID success = do {
     r \<leftarrow> commands_GetByID commandID;
     (case r of
       Inl e \<Rightarrow> State_Monad.return (False, Some e)
     | Inr None \<Rightarrow> State_Monad.return (False, None)
     | Inr (Some cmd) \<Rightarrow>
         if Cmd_Action cmd \<noteq> ''agent_deactivate'' then State_Monad.return (False, None)
         else if success then do {
           d \<leftarrow> nodes_Delete (Cmd_NodeID cmd);
           State_Monad.return (True, failed_with d)
         }
         else do {
           u \<leftarrow> nodes_UpdateStatus (Cmd_NodeID cmd) NodeStatusOffline;
           (case u of
             Inl e \<Rightarrow> State_Monad.return (True, Some e)
           | Inr _ \<Rightarrow> do {
               v \<leftarrow> nodes_UpdateStatusDetail (Cmd_NodeID cmd) ''agent_deactivation_failed'';
               State_Monad.return (True, failed_with v)
             })
         })
   }"

section \<open>Status of the cluster\<close>

definition updateClusterStatus :: "string \<Rightarrow> ClusterStatus \<Rightarrow> unit res io" where
  "updateClusterStatus clusterID st = clusters_UpdateStatus clusterID st"

text \<open>The first loop over the nodes: the first node that is not settled decides.\<close>

datatype node_verdict = NodesWaiting | NodesFailed | NodesSettled

fun nodes_verdict :: "Node list \<Rightarrow> node_verdict" where
  "nodes_verdict [] = NodesSettled"
| "nodes_verdict (n # ns) =
     (if Node_InstallationState n \<in> {InstallationStateConflict, InstallationStatePendingPreflight, InstallationStateInstalling}
      then NodesWaiting
      else if Node_InstallationState n = InstallationStateFailed then NodesFailed
      else nodes_verdict ns)"

text \<open>The second loop over the commands: \<open>None\<close> when a failed one is met, else whether one is pending.\<close>

fun commands_verdict :: "Time \<Rightarrow> bool \<Rightarrow> AgentCommand list \<Rightarrow> bool option" where
  "commands_verdict since hasPending [] = Some hasPending"
| "commands_verdict since hasPending (c # cs) =
     (if Cmd_CreatedAt c < since \<or> \<not> isProvisioningAction (Cmd_Action c) then commands_verdict since hasPending cs
      else (case Cmd_Status c of
          CommandStatusFailed \<Rightarrow> None
        | CommandStatusPending \<Rightarrow> commands_verdict since True cs
        | CommandStatusCompleted \<Rightarrow> commands_verdict since hasPending cs))"

definition stop_provisioning :: "string \<Rightarrow> Node list \<Rightarrow> unit res io" where
  "stop_provisioning clusterID ns = do {
     _ \<leftarrow> logged (commands_MarkPendingFailedByNodeIDs (map Node_ID ns) provisioningActions ''skipped after provisioning failure'');
     updateClusterStatus clusterID ClusterStatusStopped
   }"

definition settle_provisioning :: "Cluster \<Rightarrow> Node list \<Rightarrow> unit res io" where
  "settle_provisioning cluster ns =
     (case nodes_verdict ns of
        NodesWaiting \<Rightarrow> State_Monad.return (Inr ())
      | NodesFailed \<Rightarrow> stop_provisioning (Cluster_ID cluster) ns
      | NodesSettled \<Rightarrow>
          try_do (commands_ListByNodeIDs (map Node_ID ns) 1000) Inl (\<lambda>cmds.
          case commands_verdict (Cluster_CreatedAt cluster) False cmds of
            None \<Rightarrow> stop_provisioning (Cluster_ID cluster) ns
          | Some hasPending \<Rightarrow>
              if \<not> hasPending then updateClusterStatus (Cluster_ID cluster) ClusterStatusRunning
              else State_Monad.return (Inr ())))"

definition updateClusterProvisioningStatus :: "string \<Rightarrow> unit res io" where
  "updateClusterProvisioningStatus commandID =
     try_do (commands_GetByID commandID) Inl (\<lambda>c. case c of
       None \<Rightarrow> State_Monad.return (Inr ())
     | Some cmd \<Rightarrow>
         if Cmd_NodeID cmd = [] then State_Monad.return (Inr ())
         else try_do (nodes_GetByID (Cmd_NodeID cmd)) Inl (\<lambda>r. case r of
             None \<Rightarrow> State_Monad.return (Inr ())
           | Some node \<Rightarrow>
               if Node_ClusterID node = [] then State_Monad.return (Inr ())
               else try_do (clusters_GetByID (Node_ClusterID node)) Inl (\<lambda>q. case q of
                   None \<Rightarrow> State_Monad.return (Inr ())
                 | Some cluster \<Rightarrow>
                     if Cluster_Status cluster \<noteq> ClusterStatusCreating then State_Monad.return (Inr ())
                     else try_do (nodes_ListByCluster (Node_ClusterID node) 0 1000) Inl (\<lambda>(ns, _).
                       if ns = [] then State_Monad.return (Inr ()) else settle_provisioning cluster ns))))"

definition is_up :: "NodeStatus \<Rightarrow> bool" where
  "is_up st \<longleftrightarrow> st = NodeStatusOnline \<or> st = NodeStatusPromoting \<or> st = NodeStatusSyncing"

definition is_down :: "NodeStatus \<Rightarrow> bool" where
  "is_down st \<longleftrightarrow> st = NodeStatusOffline \<or> st = NodeStatusDrained"

definition updateClusterLifecycleStatus :: "string \<Rightarrow> unit res io" where
  "updateClusterLifecycleStatus clusterID =
     (if clusterID = [] then State_Monad.return (Inr ())
      else try_do (clusters_GetByID clusterID) Inl (\<lambda>q. case q of
          None \<Rightarrow> State_Monad.return (Inr ())
        | Some cluster \<Rightarrow>
            if Cluster_Status cluster = ClusterStatusCreating \<or> Cluster_Status cluster = ClusterStatusDeleting
            then State_Monad.return (Inr ())
            else try_do (nodes_ListByCluster clusterID 0 1000) Inl (\<lambda>(ns, _).
              if ns = [] then State_Monad.return (Inr ())
              else try_do (commands_ListByNodeIDs (map Node_ID ns) 1000) Inl (\<lambda>cmds.
                if list_ex (\<lambda>c. isLifecycleOnlyAction (Cmd_Action c) \<and> Cmd_Status c = CommandStatusPending) cmds
                then State_Monad.return (Inr ())
                else if list_all (is_down \<circ> Node_Status) ns then updateClusterStatus clusterID ClusterStatusStopped
                else if list_ex (is_up \<circ> Node_Status) ns then updateClusterStatus clusterID ClusterStatusRunning
                else State_Monad.return (Inr ())))))"

section \<open>Results of provisioning commands\<close>

record preflightResult =
  PR_State :: string
  PR_Version :: string
  PR_DataDir :: string
  PR_DataPresent :: bool
  PR_DataInitialized :: bool

definition preflightResult_of :: "payload \<Rightarrow> preflightResult option" where
  "preflightResult_of p = do {
     st \<leftarrow> json_str ''state'' p;
     v \<leftarrow> json_str ''version'' p;
     dir \<leftarrow> json_str ''data_dir'' p;
     present \<leftarrow> json_bool ''data_present'' p;
     init \<leftarrow> json_bool ''data_initialized'' p;
     Some \<lparr>PR_State = st, PR_Version = v, PR_DataDir = dir, PR_DataPresent = present, PR_DataInitialized = init\<rparr>
   }"

definition preflight_details :: "preflightResult \<Rightarrow> string" where
  "preflight_details r =
     (if PR_State r = ''NOTHING_FOUND'' then ''no native PostgreSQL installation or data directory content found''
      else ''existing PostgreSQL/data detected: version='' @ (if PR_Version r = [] then ''unknown'' else PR_Version r)
        @ '' data_dir='' @ PR_DataDir r @ '' data_present='' @ bool_text (PR_DataPresent r)
        @ '' data_initialized='' @ bool_text (PR_DataInitialized r))"

definition nativeConflictDataInitialized :: "string \<Rightarrow> bool" where
  "nativeConflictDataInitialized details \<longleftrightarrow> strings_Index details ''data_initialized=true'' \<noteq> None"

definition with_cluster_version :: "Node \<Rightarrow> (string \<Rightarrow> unit res io) \<Rightarrow> unit res io" where
  "with_cluster_version node k =
     (if Node_PostgresVersion node = [] \<and> Node_ClusterID node \<noteq> []
      then try_do (clusters_GetByID (Node_ClusterID node)) (\<lambda>e. Inl (wrap ''get cluster version'' e)) (\<lambda>q.
        k (case q of None \<Rightarrow> Node_PostgresVersion node | Some cluster \<Rightarrow> Cluster_Version cluster))
      else k (Node_PostgresVersion node))"

definition markPostgresInstalled :: "Node \<Rightarrow> unit res io" where
  "markPostgresInstalled node = with_cluster_version node (\<lambda>version.
     nodes_UpdatePostgresStatus (Node_ID node) True version (Node_PostgresDataInitialized node))"

definition markPostgresDataInitialized :: "Node \<Rightarrow> unit res io" where
  "markPostgresDataInitialized node = with_cluster_version node (\<lambda>version.
     nodes_UpdatePostgresStatus (Node_ID node) True version True)"

definition queueNativeProvisioningContinuation :: "Node \<Rightarrow> string \<Rightarrow> bool \<Rightarrow> unit res io" where
  "queueNativeProvisioningContinuation node version skipInstall = (
     let install = (if skipInstall then [] else installCommands node version ServiceLocationNative True (Node_ClusterID node))
     in if Node_Role node = NodeRolePrimary then queueNodeCommands node (install @ primaryCommands)
        else try_do (nodes_GetPrimary (Node_ClusterID node)) (\<lambda>e. Inl (wrap ''get primary'' e)) (\<lambda>p. case p of
            None \<Rightarrow> State_Monad.return (Inl (''no primary found for cluster '' @ quote (Node_ClusterID node)))
          | Some primary \<Rightarrow> queueNodeCommands node (install @ replicaCommands primary)))"

definition handleLifecycleCommandFailure :: "Node \<Rightarrow> string \<Rightarrow> unit res io" where
  "handleLifecycleCommandFailure node action =
     try_do (nodes_UpdateStatusDetail (Node_ID node)
        (if action = ''pg_start'' then ''start_failed'' else if action = ''pg_stop'' then ''stop_failed'' else ''lifecycle_failed''))
       Inl (\<lambda>_.
     if Node_ClusterID node \<noteq> [] then updateClusterStatus (Node_ClusterID node) ClusterStatusDegraded
     else State_Monad.return (Inr ()))"

definition provisioning_failed :: "Node \<Rightarrow> string \<Rightarrow> string \<Rightarrow> unit res io" where
  "provisioning_failed node action errMsg =
     (if \<not> isProvisioningAction action then State_Monad.return (Inr ())
      else if Node_ClusterID node \<noteq> [] then
        try_do (clusters_GetByID (Node_ClusterID node)) Inl (\<lambda>q. case q of
          Some cluster \<Rightarrow>
            if Cluster_Status cluster \<noteq> ClusterStatusCreating then handleLifecycleCommandFailure node action
            else nodes_UpdateInstallationState (Node_ID node) InstallationStateFailed errMsg
        | None \<Rightarrow> nodes_UpdateInstallationState (Node_ID node) InstallationStateFailed errMsg)
      else nodes_UpdateInstallationState (Node_ID node) InstallationStateFailed errMsg)"

definition started_report :: NodeStatusReport where
  "started_report = \<lparr>Rep_NodeId = [], Rep_PostgresRunning = True, Rep_PostgresInstalled = True, Rep_PostgresBinVersion = [],
     Rep_PostgresVersion = [], Rep_PostgresDataInitialized = True, Rep_NodeStatusDetail = [],
     Rep_InstallationState = INSTALLATION_STATE_UNSPECIFIED, Rep_ConflictDetails = [], Rep_SystemMetrics = None\<rparr>"

definition preflight_finished :: "Node \<Rightarrow> payload \<Rightarrow> unit res io" where
  "preflight_finished node output =
     (case preflightResult_of output of
        None \<Rightarrow> do { e \<leftarrow> json_err output; State_Monad.return (Inl (wrap ''parse preflight result'' e)) }
      | Some r \<Rightarrow>
          if PR_State r = ''PG_EXISTS''
          then nodes_UpdateInstallationState (Node_ID node) InstallationStateConflict (preflight_details r)
          else if PR_State r = ''NOTHING_FOUND''
          then try_do (nodes_UpdateInstallationState (Node_ID node) InstallationStateInstalling []) Inl (\<lambda>_.
               try_do (clusters_GetByID (Node_ClusterID node)) Inl (\<lambda>q. case q of
                 None \<Rightarrow> State_Monad.return (Inr ())
               | Some cluster \<Rightarrow> queueNativeProvisioningContinuation node (Cluster_Version cluster) False))
          else State_Monad.return (Inl (''unknown preflight state '' @ quote (PR_State r))))"

definition provisioning_succeeded :: "Node \<Rightarrow> string \<Rightarrow> payload \<Rightarrow> unit res io" where
  "provisioning_succeeded node action output =
     (if action = ''pg_preflight'' then preflight_finished node output
      else if action = ''pg_install_native'' \<or> action = ''pg_install_docker'' then
        try_do (markPostgresInstalled node) Inl (\<lambda>_.
        nodes_UpdateInstallationState (Node_ID node) InstallationStateInstalled [])
      else if action = ''pg_init'' \<or> action = ''pg_basebackup'' then markPostgresDataInitialized node
      else if action = ''pg_start'' then
        try_do (markPostgresDataInitialized node) Inl (\<lambda>_.
        try_do (nodes_UpdateStatus (Node_ID node) NodeStatusOnline) Inl (\<lambda>_.
        try_do (nodes_UpdateStatusDetail (Node_ID node) (computeNodeStatusDetail node started_report)) Inl (\<lambda>_.
        updateClusterLifecycleStatus (Node_ClusterID node))))
      else if action = ''pg_stop'' then
        try_do (nodes_UpdateStatus (Node_ID node) NodeStatusOffline) Inl (\<lambda>_.
        try_do (nodes_UpdateStatusDetail (Node_ID node) ''stopped'') Inl (\<lambda>_.
        updateClusterLifecycleStatus (Node_ClusterID node)))
      else if action = ''pg_purge_native'' then nodes_UpdateInstallationState (Node_ID node) InstallationStateInstalling []
      else if action = ''pg_adopt_native'' then
        try_do (if nativeConflictDataInitialized (Node_ConflictDetails node) then markPostgresDataInitialized node
                else markPostgresInstalled node) Inl (\<lambda>_.
        nodes_UpdateInstallationState (Node_ID node) InstallationStateAdopted [])
      else State_Monad.return (Inr ()))"

definition handleProvisioningCommandResult :: "string \<Rightarrow> bool \<Rightarrow> payload \<Rightarrow> string \<Rightarrow> unit res io" where
  "handleProvisioningCommandResult commandID success output errMsg =
     try_do (commands_GetByID commandID) Inl (\<lambda>c. case c of
       None \<Rightarrow> State_Monad.return (Inr ())
     | Some cmd \<Rightarrow>
         if Cmd_NodeID cmd = [] then State_Monad.return (Inr ())
         else try_do (nodes_GetByID (Cmd_NodeID cmd)) Inl (\<lambda>r. case r of
             None \<Rightarrow> State_Monad.return (Inr ())
           | Some node \<Rightarrow>
               if \<not> success then provisioning_failed node (Cmd_Action cmd) errMsg
               else provisioning_succeeded node (Cmd_Action cmd) output))"

section \<open>Reporting a result\<close>

text \<open>
  The chain \<open>if handled, err := h(); err != nil { log } else if handled { return }\<close>: a handler that
  fails is logged and the next one is asked.
\<close>

fun offer_result :: "(bool \<times> string option) io list \<Rightarrow> unit io \<Rightarrow> unit io" where
  "offer_result [] rest = rest"
| "offer_result (h # hs) rest = do {
     (handled, err) \<leftarrow> h;
     (if err = None \<and> handled then State_Monad.return () else offer_result hs rest)
   }"

record ReportCommandResultRequest =
  Res_AgentId :: string
  Res_CommandId :: string
  Res_Success :: bool
  Res_Output :: payload
  Res_Error :: string

definition result_handlers :: "AgentService \<Rightarrow> ReportCommandResultRequest \<Rightarrow> (bool \<times> string option) io list" where
  "result_handlers s req = (let c = Res_CommandId req; ok = Res_Success req; msg = Res_Error req in
     [handleRoleManagementCommandResult s c ok msg,
      handleDatabaseManagementCommandResult s c ok msg,
      handlePostgresAccessCommandResult s c ok msg,
      handlePostgresTLSCommandResult s c ok msg,
      handlePostgresExtensionCommandResult s c ok msg,
      handleAgentLifecycleCommandResult c ok])"

definition continue_provisioning :: "ReportCommandResultRequest \<Rightarrow> unit io" where
  "continue_provisioning req = do {
     _ \<leftarrow> logged (handleProvisioningCommandResult (Res_CommandId req) (Res_Success req) (Res_Output req) (Res_Error req));
     logged (updateClusterProvisioningStatus (Res_CommandId req))
   }"

definition ReportCommandResult :: "AgentService \<Rightarrow> ReportCommandResultRequest \<Rightarrow> unit rpc io" where
  "ReportCommandResult s req = nodeForAgent (Res_AgentId req) (\<lambda>node.
     requireCommandForAgent (Res_AgentId req) (Node_ID node) (Res_CommandId req) (\<lambda>_.
     or_status Internal ''update command result''
       (commands_UpdateResult (Res_CommandId req) (Res_Success req) (Res_Output req) (Res_Error req)) (\<lambda>_. do {
         _ \<leftarrow> offer_result (result_handlers s req) (continue_provisioning req);
         _ \<leftarrow> (case AS_commandSecrets s of
             None \<Rightarrow> State_Monad.return ()
           | Some _ \<Rightarrow> logged (secrets_DeleteForCommand (Res_CommandId req)));
         reply ()
       })))"

section \<open>Log lines\<close>

record LogEntry =
  Entry_CommandId :: string
  Entry_Level :: string
  Entry_Message :: string
  Entry_TimestampMs :: int

definition timeFromMillis :: "int \<Rightarrow> Time io" where
  "timeFromMillis ms = (if ms \<le> 0 then time_now else State_Monad.return (ms * millisecond))"

text \<open>The loop over the entries; the commands already checked are not looked up again.\<close>

fun collect_logs :: "string \<Rightarrow> string \<Rightarrow> string list \<Rightarrow> LogEntry list \<Rightarrow> CommandLog list rpc io" where
  "collect_logs agentID nodeID validated [] = reply []"
| "collect_logs agentID nodeID validated (e # es) = (
     let rest = (\<lambda>_. do {
           t \<leftarrow> timeFromMillis (Entry_TimestampMs e);
           try_do (collect_logs agentID nodeID (Entry_CommandId e # validated) es) Inl (\<lambda>ls.
           reply (\<lparr>Log_ID = [], Log_CommandID = Entry_CommandId e, Log_AgentID = agentID,
                   Log_Level = (if Entry_Level e = [] then ''info'' else Entry_Level e),
                   Log_Message = Entry_Message e, Log_CreatedAt = t\<rparr> # ls))
         })
     in if Entry_CommandId e = [] then fail InvalidArgument ''command_id is required''
        else if Entry_CommandId e \<in> set validated then rest ()
        else requireCommandForAgent agentID nodeID (Entry_CommandId e) rest)"

definition log_to_proto :: "Node \<Rightarrow> EnrichedLog \<Rightarrow> ProtoLog" where
  "log_to_proto node l = \<lparr>PL_Id = Log_ID l, PL_CommandId = Log_CommandID l,
     PL_NodeId = (if Log_NodeID l = [] then Node_ID node else Log_NodeID l),
     PL_Hostname = (if Log_Hostname l = [] then Node_Hostname node else Log_Hostname l),
     PL_Level = Log_Level l, PL_Message = Log_Message l, PL_TimestampMs = Log_CreatedAt l div millisecond\<rparr>"

definition publishLiveLogs :: "LogBroker option \<Rightarrow> Node \<Rightarrow> CommandLog list \<Rightarrow> LogBroker option io" where
  "publishLiveLogs broker node ls =
     (case broker of
        None \<Rightarrow> State_Monad.return None
      | Some b \<Rightarrow>
          if ls = [] then State_Monad.return broker
          else try_do (logs_GetEnrichedByIDs (filter (\<lambda>i. i \<noteq> []) (map Log_ID ls))) (\<lambda>_. broker) (\<lambda>enriched.
            State_Monad.return (Some (Publish (Node_ClusterID node) (map (log_to_proto node) enriched) b))))"

text \<open>The broker after the call is part of the result; on an error it is the broker before.\<close>

definition ReportCommandLog :: "LogBroker option \<Rightarrow> string \<Rightarrow> LogEntry list \<Rightarrow> LogBroker option rpc io" where
  "ReportCommandLog broker agentID entries = nodeForAgent agentID (\<lambda>node.
     if entries = [] then reply broker
     else try_do (collect_logs agentID (Node_ID node) [] entries) Inl (\<lambda>ls.
       or_status Internal ''store command logs'' (logs_CreateBatch ls) (\<lambda>ls'. do {
         b \<leftarrow> publishLiveLogs broker node ls';
         reply b
       })))"

end
