(* ===== verification/ClusterHealth.thy ===== *)
theory ClusterHealth
  imports AgentResults
begin

text \<open>
  \<open>internal/server/cluster_health.go\<close> and the views of a node it uses from
  \<open>internal/server/node_service.go\<close>: the poll-friendly snapshot of a cluster, with the progress of the
  provisioning or lifecycle operation counted from the queued commands.
\<close>

section \<open>Views of a node\<close>

definition second :: Time where
  "second = 10 ^ 9"

definition applyAgentConnectionStatus :: "Node \<Rightarrow> Time \<Rightarrow> Node io" where
  "applyAgentConnectionStatus n statusTTL = (
     let ttl = (if statusTTL \<le> 0 then 30 * second else statusTTL)
     in if Node_LastSeen n = zero_time
        then State_Monad.return (n\<lparr>Node_AgentConnected := False, Node_AgentLatencyMS := 0\<rparr>)
        else do {
          now \<leftarrow> time_now;
          let latency = (if now - Node_LastSeen n < 0 then 0 else now - Node_LastSeen n);
          let connected = (latency \<le> ttl);
          State_Monad.return (n\<lparr>Node_AgentConnected := connected,
            Node_AgentLatencyMS := (if \<not> connected \<or> Node_AgentLatencyMS n < 0 then 0 else Node_AgentLatencyMS n)\<rparr>)
        })"

definition effectivePostgresInstalled :: "Node \<Rightarrow> bool" where
  "effectivePostgresInstalled n \<longleftrightarrow> Node_PostgresInstalled n \<or> Node_InstallationState n = InstallationStateInstalled \<or>
     Node_InstallationState n = InstallationStateAdopted"

definition effectivePostgresDataInitialized :: "Node \<Rightarrow> bool" where
  "effectivePostgresDataInitialized n = Node_PostgresDataInitialized n"

definition effectiveStatusDetail :: "Node \<Rightarrow> bool \<Rightarrow> bool \<Rightarrow> string" where
  "effectiveStatusDetail n postgresInstalled postgresDataInitialized =
     (if Node_StatusDetail n \<noteq> ''waiting_for_postgres'' \<and> Node_StatusDetail n \<noteq> ''initializing_data_directory''
      then Node_StatusDetail n
      else if \<not> postgresInstalled then Node_StatusDetail n
      else if \<not> postgresDataInitialized then ''initializing_data_directory''
      else if Node_Status n = NodeStatusOnline
      then (if Node_Role n = NodeRoleReplica then ''syncing_replica'' else ''healthy'')
      else ''stopped'')"

primrec protoInstallationState :: "InstallationState \<Rightarrow> PInstallationState" where
  "protoInstallationState InstallationStateUnspecified = INSTALLATION_STATE_UNSPECIFIED"
| "protoInstallationState InstallationStatePendingPreflight = INSTALLATION_STATE_PENDING_PREFLIGHT"
| "protoInstallationState InstallationStateNothingFound = INSTALLATION_STATE_NOTHING_FOUND"
| "protoInstallationState InstallationStateConflict = INSTALLATION_STATE_CONFLICT"
| "protoInstallationState InstallationStateInstalling = INSTALLATION_STATE_INSTALLING"
| "protoInstallationState InstallationStateInstalled = INSTALLATION_STATE_INSTALLED"
| "protoInstallationState InstallationStateFailed = INSTALLATION_STATE_FAILED"
| "protoInstallationState InstallationStateAdopted = INSTALLATION_STATE_ADOPTED"

primrec node_status_text :: "NodeStatus \<Rightarrow> string" where
  "node_status_text NodeStatusOnline = ''online''"
| "node_status_text NodeStatusOffline = ''offline''"
| "node_status_text NodeStatusDegraded = ''degraded''"
| "node_status_text NodeStatusSyncing = ''syncing''"
| "node_status_text NodeStatusPromoting = ''promoting''"
| "node_status_text NodeStatusDrained = ''drained''"
| "node_status_text NodeStatusDeleting = ''deleting''"

section \<open>Progress\<close>

record ClusterActionProgress =
  Progress_Operation :: string
  Progress_TotalSteps :: int
  Progress_CompletedSteps :: int
  Progress_FailedSteps :: int
  Progress_PendingSteps :: int
  Progress_Percent :: int
  Progress_InProgress :: bool

definition no_progress :: ClusterActionProgress where
  "no_progress = \<lparr>Progress_Operation = [], Progress_TotalSteps = 0, Progress_CompletedSteps = 0, Progress_FailedSteps = 0,
     Progress_PendingSteps = 0, Progress_Percent = 0, Progress_InProgress = False\<rparr>"

text \<open>The counters \<open>(tot, completed, failed, pending)\<close> of the loop.\<close>

fun count_steps :: "bool \<Rightarrow> Time \<Rightarrow> AgentCommand list \<Rightarrow> int \<times> int \<times> int \<times> int \<Rightarrow> int \<times> int \<times> int \<times> int" where
  "count_steps creating since [] acc = acc"
| "count_steps creating since (c # cs) (tot, completed, failed, pending) =
     (if (if creating then Cmd_CreatedAt c < since \<or> \<not> isProvisioningAction (Cmd_Action c)
          else \<not> isLifecycleOnlyAction (Cmd_Action c))
      then count_steps creating since cs (tot, completed, failed, pending)
      else count_steps creating since cs (case Cmd_Status c of
          CommandStatusCompleted \<Rightarrow> (tot + 1, completed + 1, failed, pending)
        | CommandStatusFailed \<Rightarrow> (tot + 1, completed, failed + 1, pending)
        | CommandStatusPending \<Rightarrow> (tot + 1, completed, failed, pending + 1)))"

definition computeActionProgress :: "Cluster \<Rightarrow> string list \<Rightarrow> ClusterActionProgress res io" where
  "computeActionProgress cluster nodeIDs =
     (if nodeIDs = [] then State_Monad.return (Inr no_progress)
      else try_do (commands_ListByNodeIDs nodeIDs (int maxClusterLifecycleNodes)) Inl (\<lambda>cmds.
        let creating = (Cluster_Status cluster = ClusterStatusCreating);
            (tot, completed, failed, pending) = count_steps creating (Cluster_CreatedAt cluster) cmds (0, 0, 0, 0)
        in State_Monad.return (Inr \<lparr>
             Progress_Operation = (if creating then ''create'' else if pending > 0 then ''lifecycle'' else []),
             Progress_TotalSteps = to_int32 tot, Progress_CompletedSteps = to_int32 completed,
             Progress_FailedSteps = to_int32 failed, Progress_PendingSteps = to_int32 pending,
             Progress_Percent = to_int32 (if tot > 0 then (completed * 100) div tot else 0),
             Progress_InProgress = pending > 0\<rparr>)))"

section \<open>The snapshot\<close>

record NodeHealth =
  NH_NodeId :: string
  NH_Hostname :: string
  NH_Role :: PNodeRole
  NH_Status :: string
  NH_StatusDetail :: string
  NH_InstallationState :: PInstallationState
  NH_PostgresInstalled :: bool
  NH_PostgresDataInitialized :: bool
  NH_AgentConnected :: bool
  NH_Ready :: bool
  NH_ConflictDetails :: string

record ClusterHealthResponse =
  CH_ClusterId :: string
  CH_Status :: PClusterStatus
  CH_Nodes :: "NodeHealth list"
  CH_Progress :: ClusterActionProgress
  CH_ReadyNodes :: int
  CH_TotalNodes :: int

definition node_health :: "Node \<Rightarrow> NodeHealth io" where
  "node_health node = do {
     n \<leftarrow> applyAgentConnectionStatus node 0;
     let installed = effectivePostgresInstalled n;
     let dataInitialized = effectivePostgresDataInitialized n;
     State_Monad.return \<lparr>NH_NodeId = Node_ID n, NH_Hostname = Node_Hostname n, NH_Role = nodeRoleToProto (Node_Role n),
       NH_Status = node_status_text (Node_Status n), NH_StatusDetail = effectiveStatusDetail n installed dataInitialized,
       NH_InstallationState = protoInstallationState (Node_InstallationState n), NH_PostgresInstalled = installed,
       NH_PostgresDataInitialized = dataInitialized, NH_AgentConnected = Node_AgentConnected n,
       NH_Ready = nodeEligibleForLifecycle n, NH_ConflictDetails = Node_ConflictDetails n\<rparr>
   }"

fun nodes_health :: "Node list \<Rightarrow> NodeHealth list io" where
  "nodes_health [] = State_Monad.return []"
| "nodes_health (n # ns) = do { h \<leftarrow> node_health n; hs \<leftarrow> nodes_health ns; State_Monad.return (h # hs) }"

definition GetClusterHealth :: "string \<Rightarrow> ClusterHealthResponse rpc io" where
  "GetClusterHealth i =
     (if i = [] then fail InvalidArgument ''id is required''
      else or_status Internal ''get cluster'' (clusters_GetByID i) (\<lambda>q. case q of
          None \<Rightarrow> fail NotFound (''cluster '' @ quote i @ '' not found'')
        | Some cluster \<Rightarrow>
            or_status Internal ''list cluster nodes'' (nodes_ListByCluster (Cluster_ID cluster) 0 maxClusterLifecycleNodes) (\<lambda>(ns, _). do {
              hs \<leftarrow> nodes_health ns;
              or_status Internal ''compute action progress'' (computeActionProgress cluster (map Node_ID ns)) (\<lambda>progress.
              reply \<lparr>CH_ClusterId = Cluster_ID cluster, CH_Status = clusterStatusToProto (Cluster_Status cluster), CH_Nodes = hs,
                     CH_Progress = progress, CH_ReadyNodes = to_int32 (int (length (filter NH_Ready hs))),
                     CH_TotalNodes = to_int32 (int (length ns))\<rparr>)
            })))"

section \<open>The counters add up\<close>

lemma count_steps_sum:
  assumes "count_steps cr since cs (t, c, f, p) = (t', c', f', p')"
  shows "t' - t = (c' - c) + (f' - f) + (p' - p) \<and> c \<le> c' \<and> f \<le> f' \<and> p \<le> p' \<and> t' - t \<le> int (length cs)"
  using assms
  by (induction cr since cs "(t, c, f, p)" arbitrary: t c f p rule: count_steps.induct)
    (fastforce split: if_splits CommandStatus.splits)+

lemma percent_bounds: "0 \<le> c \<Longrightarrow> c \<le> t \<Longrightarrow> 0 < t \<Longrightarrow> 0 \<le> c * 100 div t \<and> c * 100 div t \<le> (100 :: int)"
  using zdiv_mono1 [of "c * 100" "100 * t" t] by (auto intro: div_int_pos_iff [THEN iffD2])

text \<open>A progress report is consistent.\<close>

definition progress_ok :: "ClusterActionProgress \<Rightarrow> bool" where
  "progress_ok p \<longleftrightarrow>
     0 \<le> Progress_CompletedSteps p \<and> 0 \<le> Progress_FailedSteps p \<and> 0 \<le> Progress_PendingSteps p \<and>
     Progress_TotalSteps p = Progress_CompletedSteps p + Progress_FailedSteps p + Progress_PendingSteps p \<and>
     Progress_TotalSteps p \<le> 1000 \<and> 0 \<le> Progress_Percent p \<and> Progress_Percent p \<le> 100 \<and>
     (Progress_InProgress p \<longleftrightarrow> Progress_PendingSteps p > 0)"

lemma progress_counted:
  assumes "count_steps cr since cs (0, 0, 0, 0) = (t, c, f, p)" "length cs \<le> 1000"
  shows "progress_ok \<lparr>Progress_Operation = name, Progress_TotalSteps = to_int32 t, Progress_CompletedSteps = to_int32 c,
     Progress_FailedSteps = to_int32 f, Progress_PendingSteps = to_int32 p,
     Progress_Percent = to_int32 (if t > 0 then (c * 100) div t else 0), Progress_InProgress = p > 0\<rparr>"
proof -
  have s: "t = c + f + p" "0 \<le> c" "0 \<le> f" "0 \<le> p" "t \<le> 1000"
    using count_steps_sum [OF assms(1)] assms(2) by auto
  have q: "0 \<le> (if t > 0 then (c * 100) div t else 0)" "(if t > 0 then (c * 100) div t else 0) \<le> 100"
    using percent_bounds [of c t] s by auto
  have "to_int32 x = x" if "0 \<le> x" "x \<le> 1000" for x
    by (rule to_int32_id) (use that in auto)
  then show ?thesis using s q unfolding progress_ok_def by simp
qed

lemma oldest_length: "length (oldest_of_nodes ids n cs) \<le> n"
  by (simp add: oldest_of_nodes_def length_page)

lemma wp_ListByNodeIDs_bounded:
  "wp (commands_ListByNodeIDs ids (int 1000)) (\<lambda>r w'. \<forall>cs. r = Inr cs \<longrightarrow> length cs \<le> 1000) w"
  by (auto simp: commands_ListByNodeIDs_def wp_simps split: option.splits intro: oldest_length)

lemma wp_computeActionProgress:
  "wp (computeActionProgress c ids) (\<lambda>r w'. \<forall>p. r = Inr p \<longrightarrow> progress_ok p) w"
proof (cases "ids = []")
  case False
  show ?thesis
    unfolding computeActionProgress_def maxClusterLifecycleNodes_def Let_def if_not_P [OF False]
    by (rule wp_try_doI [OF wp_ListByNodeIDs_bounded])
      (simp_all add: wp_return progress_counted split: prod.split split del: if_split)
qed (simp add: computeActionProgress_def wp_return no_progress_def progress_ok_def)

lemma wp_attachLatestMetrics_ids:
  "wp (nodes_attachLatestMetrics ns) (\<lambda>r w'. \<forall>ns'. r = Inr ns' \<longrightarrow> map Node_ID ns' = map Node_ID ns) w"
  by (auto simp: nodes_attachLatestMetrics_def wp_simps attach_metric_def split: option.splits)

lemma wp_ListByCluster_bounded:
  "wp (nodes_ListByCluster cid off n) (\<lambda>r w'. \<forall>v. r = Inr v \<longrightarrow> length (fst v) \<le> n) w"
  unfolding nodes_ListByCluster_def Let_def
  by (rule wp_try_doI [where R = "\<lambda>_ _. True"], simp_all add: wp_always,
      rule wp_try_doI [where R = "\<lambda>ns _. length ns \<le> n"],
      auto simp: wp_simps length_page nodes_attachLatestMetrics_def split: option.splits)

lemma wp_nodes_health: "wp (nodes_health ns) (\<lambda>hs w'. map NH_NodeId hs = map Node_ID ns) w"
proof (induction ns arbitrary: w)
  case (Cons n ns)
  show ?case
    unfolding nodes_health.simps node_health_def applyAgentConnectionStatus_def Let_def
    by (auto simp: wp_simps intro!: wp_mono [OF Cons.IH])
qed (simp add: wp_return)

lemma keeps_health [keeps_intros]:
  "keeps_db I (nodes_health ns)" "keeps_db I (computeActionProgress c ids)" "keeps_db I (GetClusterHealth i)"
proof -
  show nodes: "keeps_db I (nodes_health ns)" for ns
    by (induction ns)
      (simp_all add: keeps_return, unfold node_health_def applyAgentConnectionStatus_def Let_def, intro keeps_intros)
  show progress: "keeps_db I (computeActionProgress c ids)" for c ids
    unfolding computeActionProgress_def Let_def by (intro keeps_intros)
  show "keeps_db I (GetClusterHealth i)"
    unfolding GetClusterHealth_def by (intro keeps_intros nodes progress)
qed

definition health_ok :: "ClusterHealthResponse \<Rightarrow> bool" where
  "health_ok h \<longleftrightarrow> progress_ok (CH_Progress h) \<and> CH_TotalNodes h = int (length (CH_Nodes h)) \<and>
     CH_ReadyNodes h = int (length (filter NH_Ready (CH_Nodes h))) \<and> CH_ReadyNodes h \<le> CH_TotalNodes h \<and> CH_TotalNodes h \<le> 1000"

lemma health_report:
  assumes "map NH_NodeId hs = ids" "length ids \<le> 1000" "progress_ok p"
  shows "health_ok \<lparr>CH_ClusterId = i, CH_Status = st, CH_Nodes = hs, CH_Progress = p,
     CH_ReadyNodes = to_int32 (int (length (filter NH_Ready hs))), CH_TotalNodes = to_int32 (int (length ids))\<rparr>"
proof -
  have n: "length hs \<le> 1000" "length (filter NH_Ready hs) \<le> length hs" "length hs = length ids"
    using assms(1,2) by (auto dest: arg_cong [where f = length])
  then have "to_int32 (int (length hs)) = int (length hs)"
    "to_int32 (int (length (filter NH_Ready hs))) = int (length (filter NH_Ready hs))"
    by (simp_all add: to_int32_id)
  then show ?thesis using n assms(3) by (simp add: health_ok_def)
qed

lemma wp_GetClusterHealth: "wp (GetClusterHealth i) (\<lambda>r w'. \<forall>h. r = Inr h \<longrightarrow> health_ok h) w"
proof (cases "i = []")
  case False
  have report: "wp (nodes_health ns \<bind> (\<lambda>hs. or_status Internal p (computeActionProgress c (map Node_ID ns)) (\<lambda>progress.
      reply \<lparr>CH_ClusterId = Cluster_ID c, CH_Status = clusterStatusToProto (Cluster_Status c), CH_Nodes = hs,
             CH_Progress = progress, CH_ReadyNodes = to_int32 (int (length (filter NH_Ready hs))),
             CH_TotalNodes = to_int32 (int (length ns))\<rparr>))) (\<lambda>r w'. \<forall>h. r = Inr h \<longrightarrow> health_ok h) w'"
    if "length ns \<le> 1000" for ns c p w'
    unfolding wp_bind
    by (rule wp_mono [OF wp_nodes_health], rule wp_or_statusI [OF wp_computeActionProgress])
      (use that in \<open>auto simp: wp_simps intro: health_report [of _ "map Node_ID _", simplified]\<close>)
  show ?thesis
    unfolding GetClusterHealth_def if_not_P [OF False] maxClusterLifecycleNodes_def
    by (rule wp_or_statusI [where R = "\<lambda>_ _. True"], simp_all add: wp_always wp_fail split: option.split,
        intro allI impI, rule wp_or_statusI [OF wp_ListByCluster_bounded])
      (auto intro: report)
qed (simp add: GetClusterHealth_def wp_fail)

section \<open>Property\<close>

text \<open>
  The snapshot of a cluster changes no table, and what it reports is consistent: the completed, failed and
  pending steps add up to the total, none of the counters overflows its 32 bits (the total is at most 1000), the percentage is
  between 0 and 100, the operation is in progress exactly while a step is pending, there is one health entry per node
  counted in \<open>total_nodes\<close>, and \<open>ready_nodes\<close> counts the entries that are ready.
\<close>

theorem cluster_health_consistent:
  "case run_state (GetClusterHealth i) w of (r, w') \<Rightarrow> store w' = store w \<and> (case r of Inl _ \<Rightarrow> True | Inr h \<Rightarrow>
     health_ok h)"
proof -
  have "wp (GetClusterHealth i) (\<lambda>r w'. store w' = store w \<and> (\<forall>h. r = Inr h \<longrightarrow> health_ok h)) w"
    unfolding wp_conj by (rule conjI [OF wp_keeps [OF keeps_health(3) [where I = "\<lambda>d. d = store w"]] wp_GetClusterHealth]) auto
  then show ?thesis by (auto simp: wp_def split: prod.splits sum.splits)
qed

end
