(* ===== verification/NodeService.thy ===== *)
theory NodeService
  imports ClusterHealth
begin

text \<open>
  \<open>internal/server/node_service.go\<close>: the handlers for nodes (listing, draining, rejoining, deleting,
  resolving an installation conflict) and for command logs.
\<close>

section \<open>Messages\<close>

record NodeService =
  NS_commandSecrets :: "SecretRepository option"
  NS_statusTTL :: Time

text \<open>
  The message of a metric has the fields of the row, with the number of cores as an \<open>int32\<close>. In the
  message of a node the fields from \<open>Os\<close> to \<open>UptimeSeconds\<close> are those of the latest metric, or zero
  values; here they are the one field \<open>PN_Metric\<close>.
\<close>

definition nodeMetricToProto :: "NodeMetric \<Rightarrow> NodeMetric" where
  "nodeMetricToProto m = m\<lparr>Metric_CPUCores := to_int32 (Metric_CPUCores m)\<rparr>"

definition zero_metric :: NodeMetric where
  "zero_metric = \<lparr>Metric_ID = [], Metric_NodeID = [], Metric_RecordedAt = zero_time, Metric_OS = [], Metric_Platform = [],
     Metric_PlatformVersion = [], Metric_KernelVersion = [], Metric_Architecture = [], Metric_CPUCores = 0,
     Metric_CPUUsagePercent = 0, Metric_LoadAverage1M = 0, Metric_LoadAverage5M = 0, Metric_LoadAverage15M = 0,
     Metric_MemoryTotalBytes = 0, Metric_MemoryUsedBytes = 0, Metric_MemoryAvailableBytes = 0, Metric_MemoryUsagePercent = 0,
     Metric_DiskTotalBytes = 0, Metric_DiskUsedBytes = 0, Metric_DiskAvailableBytes = 0, Metric_DiskUsagePercent = 0,
     Metric_UptimeSeconds = 0\<rparr>"

record ProtoNode =
  PN_Id :: string
  PN_ClusterId :: string
  PN_Hostname :: string
  PN_Role :: PNodeRole
  PN_Address :: string
  PN_Port :: int
  PN_Labels :: Labels
  PN_AgentVersion :: string
  PN_LastSeen :: Time
  PN_CreatedAt :: Time
  PN_UpdatedAt :: Time
  PN_Status :: string
  PN_PostgresInstalled :: bool
  PN_PostgresVersion :: string
  PN_PostgresDataInitialized :: bool
  PN_StatusDetail :: string
  PN_ServiceLocation :: PServiceLocation
  PN_DockerAvailable :: bool
  PN_InstallationState :: PInstallationState
  PN_ConflictDetails :: string
  PN_AgentConnected :: bool
  PN_AgentLatencyMs :: int
  PN_Metric :: NodeMetric
  PN_LatestMetric :: "NodeMetric option"

definition nodeToProto :: "NodeService \<Rightarrow> Node \<Rightarrow> ProtoNode io" where
  "nodeToProto s node = do {
     n \<leftarrow> applyAgentConnectionStatus node (NS_statusTTL s);
     let metric = (case Node_LatestMetrics n of None \<Rightarrow> zero_metric | Some m \<Rightarrow> m);
     let postgresInstalled = effectivePostgresInstalled n;
     let postgresDataInitialized = effectivePostgresDataInitialized n;
     State_Monad.return \<lparr>PN_Id = Node_ID n, PN_ClusterId = Node_ClusterID n, PN_Hostname = Node_Hostname n,
       PN_Role = nodeRoleToProto (Node_Role n), PN_Address = Node_Address n, PN_Port = to_int32 (Node_Port n),
       PN_Labels = Node_Labels n, PN_AgentVersion = Node_AgentVersion n, PN_LastSeen = Node_LastSeen n,
       PN_CreatedAt = Node_CreatedAt n, PN_UpdatedAt = Node_UpdatedAt n, PN_Status = node_status_text (Node_Status n),
       PN_PostgresInstalled = postgresInstalled, PN_PostgresVersion = Node_PostgresVersion n,
       PN_PostgresDataInitialized = postgresDataInitialized,
       PN_StatusDetail = effectiveStatusDetail n postgresInstalled postgresDataInitialized,
       PN_ServiceLocation = protoServiceLocation (Node_ServiceLocation n), PN_DockerAvailable = Node_DockerAvailable n,
       PN_InstallationState = protoInstallationState (Node_InstallationState n), PN_ConflictDetails = Node_ConflictDetails n,
       PN_AgentConnected = Node_AgentConnected n, PN_AgentLatencyMs = Node_AgentLatencyMS n,
       PN_Metric = nodeMetricToProto metric, PN_LatestMetric = map_option nodeMetricToProto (Node_LatestMetrics n)\<rparr>
   }"

fun nodesToProto :: "NodeService \<Rightarrow> Node list \<Rightarrow> ProtoNode list io" where
  "nodesToProto s [] = State_Monad.return []"
| "nodesToProto s (n # ns) = do { p \<leftarrow> nodeToProto s n; ps \<leftarrow> nodesToProto s ns; State_Monad.return (p # ps) }"

definition reply_node :: "NodeService \<Rightarrow> Node \<Rightarrow> ProtoNode rpc io" where
  "reply_node s n = do { p \<leftarrow> nodeToProto s n; reply p }"

section \<open>Reading\<close>

definition ListNodes :: "NodeService \<Rightarrow> string \<Rightarrow> int \<Rightarrow> int \<Rightarrow> (ProtoNode list \<times> Pagination) rpc io" where
  "ListNodes s clusterId req_page req_pageSize = (
     let pageSize = (if req_pageSize \<le> 0 then 20 else if req_pageSize > 100 then 100 else req_pageSize);
         pg = (if req_page \<le> 0 then 1 else req_page)
     in or_status Internal ''list nodes'' (nodes_ListByCluster clusterId (nat ((pg - 1) * pageSize)) (nat pageSize)) (\<lambda>(ns, n). do {
          ps \<leftarrow> nodesToProto s ns;
          reply (ps, \<lparr>Pag_Page = to_int32 pg, Pag_PageSize = to_int32 pageSize, Pag_Total = to_int32 (int n)\<rparr>)
        }))"

text \<open>The node with the requested identifier, as \<open>GetByID\<close> and the check that follows it in most handlers.\<close>

definition require_node :: "string \<Rightarrow> (Node \<Rightarrow> 'a rpc io) \<Rightarrow> 'a rpc io" where
  "require_node i k = or_status Internal ''get node'' (nodes_GetByID i) (\<lambda>r. case r of
      None \<Rightarrow> fail NotFound (''node '' @ quote i @ '' not found'')
    | Some node \<Rightarrow> k node)"

definition GetNode :: "NodeService \<Rightarrow> string \<Rightarrow> ProtoNode rpc io" where
  "GetNode s i = require_node i (reply_node s)"

definition ListNodeMetrics :: "string \<Rightarrow> Time option \<Rightarrow> int \<Rightarrow> NodeMetric list rpc io" where
  "ListNodeMetrics nodeId since req_limit =
     (if nodeId = [] then fail InvalidArgument ''node_id is required''
      else let limit = (if req_limit \<le> 0 then 300 else if req_limit > 1000 then 1000 else req_limit)
        in or_status Internal ''list node metrics''
             (nodes_ListMetrics nodeId (case since of None \<Rightarrow> zero_time | Some t \<Rightarrow> t) limit) (\<lambda>ms.
           reply (map nodeMetricToProto ms)))"

definition normalizeLogLevel :: "string \<Rightarrow> string" where
  "normalizeLogLevel level = (let l = strings_ToLower (TrimSpace level)
     in if l \<in> {''info'', ''warn'', ''error'', ''debug''} then l else [])"

definition command_log_to_proto :: "EnrichedLog \<Rightarrow> ProtoLog" where
  "command_log_to_proto l = \<lparr>PL_Id = Log_ID l, PL_CommandId = Log_CommandID l, PL_NodeId = Log_NodeID l,
     PL_Hostname = Log_Hostname l, PL_Level = Log_Level l, PL_Message = Log_Message l,
     PL_TimestampMs = Log_CreatedAt l div millisecond\<rparr>"

record ListNodeCommandLogsRequest =
  LL_ClusterId :: string
  LL_NodeId :: string
  LL_CommandId :: string
  LL_Page :: int
  LL_PageSize :: int
  LL_Level :: string
  LL_SinceMs :: int
  LL_UntilMs :: int

definition optional_millis :: "int \<Rightarrow> Time io" where
  "optional_millis ms = (if ms > 0 then timeFromMillis ms else State_Monad.return zero_time)"

definition ListNodeCommandLogs :: "ListNodeCommandLogsRequest \<Rightarrow> (ProtoLog list \<times> Pagination) rpc io" where
  "ListNodeCommandLogs req = (
     let pageSize = (if LL_PageSize req \<le> 0 then 50 else if LL_PageSize req > 1000 then 1000 else LL_PageSize req);
         pg = (if LL_Page req \<le> 0 then 1 else LL_Page req);
         offset = (pg - 1) * pageSize
     in do {
       since \<leftarrow> optional_millis (LL_SinceMs req);
       until \<leftarrow> optional_millis (LL_UntilMs req);
       let filt = \<lparr>Filter_Level = normalizeLogLevel (LL_Level req), Filter_Since = since, Filter_Until = until\<rparr>;
       let answer = (\<lambda>logs. let protoLogs = map command_log_to_proto logs in
         reply (protoLogs, \<lparr>Pag_Page = to_int32 pg, Pag_PageSize = to_int32 pageSize, Pag_Total = to_int32 (int (length protoLogs))\<rparr>));
       (if LL_CommandId req \<noteq> [] then or_status Internal ''list command logs'' (logs_ListByCommandID (LL_CommandId req) pageSize offset filt) answer
        else if LL_NodeId req \<noteq> [] then or_status Internal ''list command logs'' (logs_ListByNodeID (LL_NodeId req) pageSize offset filt) answer
        else if LL_ClusterId req \<noteq> [] then or_status Internal ''list command logs'' (logs_ListByClusterID (LL_ClusterId req) pageSize offset filt) answer
        else fail InvalidArgument ''cluster_id, node_id, or command_id is required'')
     })"

section \<open>Draining, rejoining, deleting\<close>

definition DrainNode :: "NodeService \<Rightarrow> string \<Rightarrow> ProtoNode rpc io" where
  "DrainNode s nodeId = require_node nodeId (\<lambda>node.
     or_status Internal ''update node status'' (nodes_UpdateStatus (Node_ID node) NodeStatusDrained) (\<lambda>_. do {
       _ \<leftarrow> logged (nodes_UpdateStatusDetail (Node_ID node) ''drained'');
       _ \<leftarrow> (if Node_AgentID node \<noteq> []
             then logged (commands_Create (Node_AgentID node) (Node_ID node) ''pg_stop'' (Text []))
             else State_Monad.return ());
       reply_node s (node\<lparr>Node_Status := NodeStatusDrained, Node_StatusDetail := ''drained''\<rparr>)
     }))"

definition queue_rejoin :: "Node \<Rightarrow> Node \<Rightarrow> unit io" where
  "queue_rejoin node primary =
     (if Node_AgentID node \<noteq> [] then do {
        _ \<leftarrow> logged (commands_Create (Node_AgentID node) (Node_ID node) ''repoint_replica'' (host_port (Node_Address primary) (Node_Port primary)));
        logged (commands_Create (Node_AgentID node) (Node_ID node) ''pg_start'' (Text []))
      } else State_Monad.return ())"

definition RejoinNode :: "NodeService \<Rightarrow> string \<Rightarrow> ProtoNode rpc io" where
  "RejoinNode s nodeId = require_node nodeId (\<lambda>node. do {
     r \<leftarrow> nodes_GetPrimary (Node_ClusterID node);
     (case r of
       Inr (Some primary) \<Rightarrow> do {
         _ \<leftarrow> queue_rejoin node primary;
         _ \<leftarrow> logged (nodes_UpdateStatus (Node_ID node) NodeStatusOnline);
         _ \<leftarrow> logged (nodes_UpdateStatusDetail (Node_ID node) ''rejoining'');
         reply_node s (node\<lparr>Node_Status := NodeStatusOnline, Node_StatusDetail := ''rejoining''\<rparr>)
       }
     | _ \<Rightarrow> fail FailedPrecondition (''no primary found for cluster '' @ quote (Node_ClusterID node)))
   })"

definition DeleteNode :: "string \<Rightarrow> unit rpc io" where
  "DeleteNode nodeId = require_node nodeId (\<lambda>node.
     if Node_ClusterID node \<noteq> []
     then fail FailedPrecondition (''node '' @ quote (Node_ID node)
       @ '' belongs to a cluster; drain or remove it from the cluster before deleting'')
     else if Node_AgentID node \<noteq> []
     then or_status Internal ''queue agent deactivation''
            (commands_Create (Node_AgentID node) (Node_ID node) ''agent_deactivate'' (Text [])) (\<lambda>_.
          or_status Internal ''mark node deleting'' (nodes_UpdateStatus (Node_ID node) NodeStatusDeleting) (\<lambda>_. do {
            _ \<leftarrow> logged (nodes_UpdateStatusDetail (Node_ID node) ''deactivating_agent'');
            reply ()
          }))
     else or_status Internal ''delete node'' (nodes_Delete (Node_ID node)) reply)"

section \<open>Installation conflicts\<close>

record nativeAdoptCredentials =
  AdminUser :: string
  AdminPassword :: string

datatype ResolveAction = RESOLVE_UNSPECIFIED | RESOLVE_ADOPT | RESOLVE_PURGE | RESOLVE_ABORT

record ResolveRequest =
  RC_NodeId :: string
  RC_Action :: ResolveAction
  RC_PostgresAdminUser :: string
  RC_PostgresAdminPassword :: string

text \<open>The validator's tags: both fields are required and the user matches \<open>roleNamePattern\<close>.\<close>

definition adopt_credentials :: "ResolveRequest \<Rightarrow> nativeAdoptCredentials rpc" where
  "adopt_credentials req = (
     let creds = \<lparr>AdminUser = TrimSpace (RC_PostgresAdminUser req), AdminPassword = RC_PostgresAdminPassword req\<rparr>
     in if AdminUser creds = [] \<or> \<not> roleNamePattern (AdminUser creds) \<or> AdminPassword creds = []
        then Inl (Status InvalidArgument ''postgres_admin_user and postgres_admin_password are required for ADOPT'')
        else Inr creds)"

definition nativeAdoptCredentialPayload :: "nativeAdoptCredentials \<Rightarrow> payload" where
  "nativeAdoptCredentialPayload creds = Json [(''password_secret_key'', JStr ''postgres_admin_password''),
     (''postgres_admin_user'', JStr (AdminUser creds))]"

definition queue_node_command :: "NodeService \<Rightarrow> Node \<Rightarrow> nativeAdoptCredentials option \<Rightarrow> provisioningCommand \<Rightarrow> unit res io" where
  "queue_node_command s node adoptCreds c =
     (case (adoptCreds, Prov_action c \<in> {''pg_adopt_native'', ''pg_create_repl_user''}) of
        (Some creds, True) \<Rightarrow> (case NS_commandSecrets s of
            None \<Rightarrow> State_Monad.return (Inl ''command secret repository is not configured'')
          | Some repo \<Rightarrow> do {
              now \<leftarrow> time_now;
              try_do (secrets_CreateCommandWithSecrets repo (Node_AgentID node) (Node_ID node) (Prov_action c) (Prov_payload c)
                  [(''postgres_admin_password'', AdminPassword creds)] (Some (now + day_ns)))
                (\<lambda>e. Inl (wrap (''queue '' @ Prov_action c @ '' with credentials'') e)) (\<lambda>_. State_Monad.return (Inr ()))
            })
      | _ \<Rightarrow> try_do (commands_Create (Node_AgentID node) (Node_ID node) (Prov_action c) (Prov_payload c))
               (\<lambda>e. Inl (wrap (''queue '' @ Prov_action c) e)) (\<lambda>_. State_Monad.return (Inr ())))"

definition node_queueNodeCommands :: "NodeService \<Rightarrow> Node \<Rightarrow> provisioningCommand list \<Rightarrow> nativeAdoptCredentials option \<Rightarrow> unit res io" where
  "node_queueNodeCommands s node cmds adoptCreds = for_each cmds (queue_node_command s node adoptCreds)"

text \<open>The commands after the installation: those of a primary, or of a replica of the current primary.\<close>

definition role_commands :: "Node \<Rightarrow> (provisioningCommand list \<Rightarrow> unit res io) \<Rightarrow> unit res io" where
  "role_commands node k =
     (if Node_Role node = NodeRolePrimary then k primaryCommands
      else try_do (nodes_GetPrimary (Node_ClusterID node)) (\<lambda>e. Inl (wrap ''get primary'' e)) (\<lambda>r. case r of
          None \<Rightarrow> State_Monad.return (Inl (''no primary found for cluster '' @ quote (Node_ClusterID node)))
        | Some primary \<Rightarrow> k (replicaCommands primary)))"

definition queueAdoptCommands :: "NodeService \<Rightarrow> Node \<Rightarrow> nativeAdoptCredentials \<Rightarrow> unit res io" where
  "queueAdoptCommands s node creds = (
     let payload = nativeAdoptCredentialPayload creds;
         cmds = [pcmd ''pg_adopt_native'' payload]
     in if nativeConflictDataInitialized (Node_ConflictDetails node)
        then node_queueNodeCommands s node
               (cmds @ (if Node_Role node = NodeRolePrimary then [pcmd ''pg_create_repl_user'' payload] else [])) (Some creds)
        else role_commands node (\<lambda>more. node_queueNodeCommands s node (cmds @ more) (Some creds)))"

definition queuePurgeCommands :: "NodeService \<Rightarrow> Node \<Rightarrow> string \<Rightarrow> unit res io" where
  "queuePurgeCommands s node version = (
     let cmds = pcmd ''pg_purge_native'' (Text []) #
           installCommands (node\<lparr>Node_PostgresInstalled := False\<rparr>) version ServiceLocationNative True (Node_ClusterID node)
     in role_commands node (\<lambda>more. node_queueNodeCommands s node (cmds @ more) None))"

definition resolve_action :: "NodeService \<Rightarrow> ResolveRequest \<Rightarrow> Node \<Rightarrow> Cluster \<Rightarrow> unit rpc io" where
  "resolve_action s req node cluster = (
     let set_state = (\<lambda>st details. nodes_UpdateInstallationState (Node_ID node) st details)
     in case RC_Action req of
       RESOLVE_ADOPT \<Rightarrow> (case adopt_credentials req of
           Inl e \<Rightarrow> State_Monad.return (Inl e)
         | Inr creds \<Rightarrow>
             or_status Internal ''update installation state'' (set_state InstallationStateInstalling []) (\<lambda>_.
             or_status Internal ''queue adopt commands'' (queueAdoptCommands s node creds) reply))
     | RESOLVE_PURGE \<Rightarrow>
         or_status Internal ''update installation state'' (set_state InstallationStateInstalling []) (\<lambda>_.
         or_status Internal ''queue purge commands'' (queuePurgeCommands s node (Cluster_Version cluster)) reply)
     | RESOLVE_ABORT \<Rightarrow>
         or_status Internal ''update installation state''
           (set_state InstallationStateFailed ''cluster creation aborted by user'') (\<lambda>_.
         or_status Internal ''mark cluster failed'' (clusters_UpdateStatus (Node_ClusterID node) ClusterStatusStopped) reply)
     | RESOLVE_UNSPECIFIED \<Rightarrow> fail InvalidArgument ''action must be ADOPT, PURGE, or ABORT'')"

definition ResolveInstallationConflict :: "NodeService \<Rightarrow> ResolveRequest \<Rightarrow> ProtoNode rpc io" where
  "ResolveInstallationConflict s req =
     (if RC_NodeId req = [] then fail InvalidArgument ''node_id is required''
      else require_node (RC_NodeId req) (\<lambda>node.
        if Node_ClusterID node = [] then fail FailedPrecondition ''node is not assigned to a cluster''
        else if Node_ServiceLocation node \<noteq> ServiceLocationNative
        then fail FailedPrecondition ''installation conflicts are only resolved for native nodes''
        else if Node_InstallationState node \<noteq> InstallationStateConflict
        then fail FailedPrecondition ''node is not in installation conflict state''
        else or_status Internal ''get cluster'' (clusters_GetByID (Node_ClusterID node)) (\<lambda>r. case r of
            None \<Rightarrow> fail NotFound (''cluster '' @ quote (Node_ClusterID node) @ '' not found'')
          | Some cluster \<Rightarrow>
              if Cluster_Status cluster \<noteq> ClusterStatusCreating then fail FailedPrecondition ''cluster is not creating''
              else if Node_AgentID node = []
              then fail FailedPrecondition (''node '' @ quote (Node_ID node) @ '' has no agent_id assigned'')
              else try_do (resolve_action s req node cluster) Inl (\<lambda>_.
                or_status Internal ''get updated node'' (nodes_GetByID (Node_ID node)) (\<lambda>u. case u of
                  None \<Rightarrow> State_Monad.return (Inl (Panic ''nil pointer dereference''))
                | Some updated \<Rightarrow> reply_node s updated)))))"

end
