(* ===== verification/AgentSafety.thy ===== *)
theory AgentSafety
  imports AgentResults ClusterLifecycle
begin

text \<open>
  What the agent service guarantees: an agent acts only on its own node and commands, a fetch hands out
  the oldest pending command, a registration needs a valid token, a result reaches the component it
  belongs to, and a cluster becomes running only when its provisioning is complete.
\<close>

section \<open>Lookups\<close>

text \<open>A node that is read is a stored row, up to the metrics attached to it.\<close>

definition same_node :: "Node \<Rightarrow> Node \<Rightarrow> bool" where
  "same_node n m \<longleftrightarrow> (\<exists>ms. n = attach_metric ms m)"

lemma same_node_fields:
  assumes "same_node n m"
  shows "Node_ID n = Node_ID m" "Node_ClusterID n = Node_ClusterID m" "Node_AgentID n = Node_AgentID m"
    "Node_Status n = Node_Status m" "Node_InstallationState n = Node_InstallationState m" "Node_Role n = Node_Role m"
  using assms by (auto simp: same_node_def)

lemma wp_one_node:
  "wp (checked (nodes_row p)) (\<lambda>r w'. store w' = store w \<and> the_env w' = the_env w \<and>
     (\<forall>n. r = Inr (Some n) \<longrightarrow> (\<exists>m. List.find p (nodes (store w)) = Some m \<and> same_node n m))) w"
  by (auto simp: checked_def nodes_row_def nodes_attachLatestMetrics_def same_node_def wp_simps split: option.splits)

lemma wp_nodeForAgent:
  assumes "\<And>e w'. store w' = store w \<Longrightarrow> Q (Inl e) w'"
    and "\<And>n m w'. store w' = store w \<Longrightarrow> the_env w' = the_env w \<Longrightarrow> a \<noteq> [] \<Longrightarrow>
           List.find (\<lambda>x. Node_AgentID x = a) (nodes (store w)) = Some m \<Longrightarrow> same_node n m \<Longrightarrow> wp (k n) Q w'"
  shows "wp (nodeForAgent a k) Q w"
proof (cases "a = []")
  case False
  show ?thesis
    unfolding nodeForAgent_def if_not_P [OF False] wp_or_status nodes_GetByAgentID_def
    by (rule wp_mono [OF wp_one_node]) (use False assms in \<open>auto simp: wp_fail split: sum.splits option.splits\<close>)
qed (simp add: nodeForAgent_def wp_fail assms(1))

lemma wp_requireCommandForAgent:
  assumes "\<And>e w'. store w' = store w \<Longrightarrow> Q (Inl e) w'"
    and "\<And>cmd w'. store w' = store w \<Longrightarrow> the_env w' = the_env w \<Longrightarrow>
           commands_table.by_key c (agent_commands (store w)) = Some cmd \<Longrightarrow>
           Cmd_AgentID cmd = a \<or> Cmd_NodeID cmd = n \<Longrightarrow> wp (k ()) Q w'"
  shows "wp (requireCommandForAgent a n c k) Q w"
  using assms
  by (auto simp: requireCommandForAgent_def commands_GetByID_def commands_table.by_key_def wp_simps split: option.splits)

section \<open>Only the agent of a command reports its result\<close>

definition belongs_to :: "string \<Rightarrow> string \<Rightarrow> db \<Rightarrow> bool" where
  "belongs_to agentID commandID d \<longleftrightarrow> (\<exists>node cmd.
     List.find (\<lambda>x. Node_AgentID x = agentID) (nodes d) = Some node \<and>
     commands_table.by_key commandID (agent_commands d) = Some cmd \<and>
     (Cmd_AgentID cmd = agentID \<or> Cmd_NodeID cmd = Node_ID node))"

lemma wp_UpdateResult_error:
  "wp (commands_UpdateResult i ok out msg) (\<lambda>r w'. \<forall>e. r = Inl e \<longrightarrow> store w' = store w) w"
  by (auto simp: commands_UpdateResult_def wp_simps split: option.splits)

lemma wp_report_authorised:
  "wp (ReportCommandResult s req) (\<lambda>r w'. case r of
     Inl _ \<Rightarrow> store w' = store w
   | Inr _ \<Rightarrow> belongs_to (Res_AgentId req) (Res_CommandId req) (store w)) w"
  unfolding ReportCommandResult_def
  apply (rule wp_nodeForAgent, simp)
  apply (rule wp_requireCommandForAgent, simp)
  apply (subst wp_or_status, rule wp_mono [OF wp_UpdateResult_error])
  apply (clarsimp split: sum.split simp: wp_bind wp_fail)
  apply (rule wp_mono [OF wp_True], subst wp_bind, rule wp_mono [OF wp_True])
  apply (auto simp: wp_fail belongs_to_def same_node_fields)
  done

section \<open>Fetching\<close>

text \<open>What an agent is given: at most one command, the oldest pending one of the agent or its node.\<close>

definition fetched :: "string \<Rightarrow> ProtoCommand list \<Rightarrow> db \<Rightarrow> bool" where
  "fetched agentID ps d \<longleftrightarrow> (\<exists>node. List.find (\<lambda>x. Node_AgentID x = agentID) (nodes d) = Some node \<and>
     (if ps = [] then filter (pending_for agentID (Node_ID node)) (agent_commands d) = []
      else \<exists>p c. ps = [p] \<and> c \<in> set (agent_commands d) \<and> pending_for agentID (Node_ID node) c \<and>
        PCmd_Id p = Cmd_ID c \<and> PCmd_Action p = Cmd_Action c \<and> PCmd_Payload p = Cmd_Payload c \<and>
        (\<forall>c'\<in>set (agent_commands d). pending_for agentID (Node_ID node) c' \<longrightarrow> Cmd_CreatedAt c \<le> Cmd_CreatedAt c') \<and>
        (isSecretBearingAction (Cmd_Action c) \<or> PCmd_Secrets p = Map.empty)))"

lemma wp_command_to_proto:
  "wp (command_to_proto s c) (\<lambda>p w'. store w' = store w \<and> PCmd_Id p = Cmd_ID c \<and> PCmd_Action p = Cmd_Action c \<and>
     PCmd_Payload p = Cmd_Payload c \<and> (isSecretBearingAction (Cmd_Action c) \<or> PCmd_Secrets p = Map.empty)) w"
proof -
  have "wp (secrets_ResolveAllForCommand repo (Cmd_ID c)) (\<lambda>r w'. store w' = store w) w" for repo
    by (rule wp_keeps [OF keeps_secret_getters(2) [where I = "\<lambda>d. d = store w"]]) simp_all
  from wp_mono [OF this] show ?thesis
    by (auto simp: command_to_proto_def Let_def wp_try_do wp_return split: option.splits sum.splits)
qed

lemma page_one: "page 0 (Suc 0) xs = (case xs of [] \<Rightarrow> [] | x # _ \<Rightarrow> [x])"
  by (simp add: page_def split: list.splits)

lemma wp_ListPending_one:
  "wp (commands_ListPendingLimit a n 1) (\<lambda>r w'. store w' = store w \<and> (\<forall>cs. r = Inr cs \<longrightarrow>
     cs = page 0 1 (sort_key Cmd_CreatedAt (filter (pending_for a n) (agent_commands (store w)))))) w"
  by (simp add: commands_ListPendingLimit_def commands_listPending_def wp_simps split: option.splits)

lemma wp_FetchCommand:
  "wp (FetchCommand s a) (\<lambda>r w'. store w' = store w \<and> (\<forall>ps. r = Inr ps \<longrightarrow> fetched a ps (store w))) w"
  unfolding FetchCommand_def
proof (rule wp_nodeForAgent, goal_cases)
  case (2 n m w1)
  let ?P = "filter (pending_for a (Node_ID n)) (agent_commands (store w))"
  have id: "Node_ID n = Node_ID m" using 2(5) by (rule same_node_fields)
  show ?case
  proof (subst wp_or_status, rule wp_mono [OF wp_ListPending_one], goal_cases)
    case (1 r w2)
    show ?case
    proof (cases r)
      case (Inr cs)
      then have cs: "cs = page 0 1 (sort_key Cmd_CreatedAt ?P)" using 1 2(1) by simp
      show ?thesis
      proof (cases "sort_key Cmd_CreatedAt ?P")
        case Nil
        then have "?P = []" by (metis set_empty set_sort)
        then show ?thesis using 1 2 Inr cs Nil
          by (auto simp: wp_bind wp_return wp_fail fetched_def id page_one)
      next
        case (Cons c rest)
        then have "c \<in> set ?P" by (metis list.set_intros(1) set_sort)
        moreover have "\<forall>c'\<in>set ?P. Cmd_CreatedAt c \<le> Cmd_CreatedAt c'" using hd_sort_key_min [OF Cons] by blast
        ultimately have pick: "c \<in> set (agent_commands (store w))" "pending_for a (Node_ID m) c"
          "\<forall>c'\<in>set (agent_commands (store w)). pending_for a (Node_ID m) c' \<longrightarrow> Cmd_CreatedAt c \<le> Cmd_CreatedAt c'"
          by (auto simp: id)
        show ?thesis using 1 2 Inr cs Cons
          by (auto simp: wp_bind wp_return wp_fail fetched_def id page_one intro!: wp_mono [OF wp_command_to_proto]
              exI [of _ c] pick)
      qed
    qed (use 1 2 in simp)
  qed
qed simp

section \<open>When a cluster becomes running\<close>

definition relevant :: "Time \<Rightarrow> AgentCommand \<Rightarrow> bool" where
  "relevant since c \<longleftrightarrow> since \<le> Cmd_CreatedAt c \<and> isProvisioningAction (Cmd_Action c)"

lemma commands_verdict_Some:
  "commands_verdict since hp cs = Some b \<Longrightarrow>
   (\<forall>c\<in>set cs. relevant since c \<longrightarrow> Cmd_Status c \<noteq> CommandStatusFailed) \<and>
   (b \<longleftrightarrow> hp \<or> (\<exists>c\<in>set cs. relevant since c \<and> Cmd_Status c = CommandStatusPending))"
  by (induction since hp cs rule: commands_verdict.induct)
    (auto simp: relevant_def split: if_splits CommandStatus.splits)

lemma nodes_verdict_settled:
  "nodes_verdict ns = NodesSettled \<longleftrightarrow> (\<forall>n\<in>set ns. Node_InstallationState n \<notin>
     {InstallationStateConflict, InstallationStatePendingPreflight, InstallationStateInstalling, InstallationStateFailed})"
  by (induction ns) auto

text \<open>The nodes the server looks at (a cluster has at most 1000), and their commands of this generation.\<close>

definition listed_nodes :: "string \<Rightarrow> db \<Rightarrow> Node list" where
  "listed_nodes cid d = page 0 1000 (by_role_then_age (filter (in_cluster cid) (nodes d)))"

definition provisioned :: "Cluster \<Rightarrow> db \<Rightarrow> bool" where
  "provisioned c d \<longleftrightarrow>
     listed_nodes (Cluster_ID c) d \<noteq> [] \<and>
     (\<forall>n\<in>set (listed_nodes (Cluster_ID c) d). Node_InstallationState n \<notin>
        {InstallationStateConflict, InstallationStatePendingPreflight, InstallationStateInstalling, InstallationStateFailed}) \<and>
     (\<forall>k\<in>set (oldest_of_nodes (map Node_ID (listed_nodes (Cluster_ID c) d)) 1000 (agent_commands d)).
        relevant (Cluster_CreatedAt c) k \<longrightarrow> Cmd_Status k = CommandStatusCompleted)"

text \<open>The effect of \<open>updateClusterProvisioningStatus\<close> on the statuses of the clusters.\<close>

definition status_change :: "string \<Rightarrow> ClusterStatus \<Rightarrow> db \<Rightarrow> db \<Rightarrow> bool" where
  "status_change cid st d d' \<longleftrightarrow> (\<exists>now. clusters d' = upd_where (\<lambda>c. Cluster_ID c = cid)
     (\<lambda>c. c\<lparr>Cluster_Status := st, Cluster_UpdatedAt := now\<rparr>) (clusters d))"

definition provisioning_effect :: "db \<Rightarrow> db \<Rightarrow> bool" where
  "provisioning_effect d d' \<longleftrightarrow> clusters d' = clusters d \<or>
     (\<exists>c. clusters_table.by_key (Cluster_ID c) (clusters d) = Some c \<and> Cluster_Status c = ClusterStatusCreating \<and>
        (status_change (Cluster_ID c) ClusterStatusStopped d d' \<or>
         status_change (Cluster_ID c) ClusterStatusRunning d d' \<and> provisioned c d))"

lemma wp_updateClusterStatus:
  "wp (updateClusterStatus i st) (\<lambda>_ w'. clusters (store w') = clusters (store w) \<or> status_change i st (store w) (store w')) w"
  by (auto simp: updateClusterStatus_def clusters_UpdateStatus_def status_change_def wp_simps split: option.splits)

lemma wp_MarkPendingFailed_clusters:
  "wp (commands_MarkPendingFailedByNodeIDs ids acts msg) (\<lambda>_ w'. clusters (store w') = clusters (store w)) w"
  by (simp add: commands_MarkPendingFailedByNodeIDs_def wp_simps split: option.splits)

lemma wp_stop_provisioning:
  "wp (stop_provisioning i ns) (\<lambda>_ w'. clusters (store w') = clusters (store w) \<or> status_change i ClusterStatusStopped (store w) (store w')) w"
  unfolding stop_provisioning_def wp_bind wp_logged
  by (rule wp_mono [OF wp_MarkPendingFailed_clusters], rule wp_mono [OF wp_updateClusterStatus])
    (auto simp: status_change_def)

lemma wp_ListByNodeIDs:
  "wp (commands_ListByNodeIDs ids 1000) (\<lambda>r w'. store w' = store w \<and> (\<forall>cs. r = Inr cs \<longrightarrow>
     cs = oldest_of_nodes ids 1000 (agent_commands (store w)))) w"
  by (auto simp: commands_ListByNodeIDs_def oldest_of_nodes_def page_def wp_simps Let_def split: option.splits)

lemma wp_settle_provisioning:
  assumes "clusters_table.by_key (Cluster_ID c) (clusters d) = Some c" "Cluster_Status c = ClusterStatusCreating"
    and "ns = map (attach_metric ms) (listed_nodes (Cluster_ID c) d)" "ns \<noteq> []" "store w = d"
  shows "wp (settle_provisioning c ns) (\<lambda>_ w'. provisioning_effect d (store w')) w"
proof -
  have stop: "wp (stop_provisioning (Cluster_ID c) ns) (\<lambda>_ w'. provisioning_effect d (store w')) w1" if "store w1 = d" for w1
    by (rule wp_mono [OF wp_stop_provisioning]) (use assms(1,2) that in \<open>auto simp: provisioning_effect_def\<close>)
  show ?thesis
  proof (cases "nodes_verdict ns")
    case NodesSettled
    have settled: "\<forall>n\<in>set (listed_nodes (Cluster_ID c) d). Node_InstallationState n \<notin>
        {InstallationStateConflict, InstallationStatePendingPreflight, InstallationStateInstalling, InstallationStateFailed}"
      using NodesSettled unfolding nodes_verdict_settled assms(3) by auto
    have ids: "map Node_ID ns = map Node_ID (listed_nodes (Cluster_ID c) d)" unfolding assms(3) by simp
    show ?thesis
      unfolding settle_provisioning_def NodesSettled node_verdict.case wp_try_do
    proof (rule wp_mono [OF wp_ListByNodeIDs], goal_cases)
      case (1 r w1)
      then have w1: "store w1 = d" using assms(5) by simp
      show ?case
      proof (cases r)
        case (Inr cs)
        then have cs: "cs = oldest_of_nodes (map Node_ID (listed_nodes (Cluster_ID c) d)) 1000 (agent_commands d)"
          using 1 assms(5) by (simp add: ids)
        have ok: "provisioned c d" if "commands_verdict (Cluster_CreatedAt c) False cs = Some False"
          using commands_verdict_Some [OF that] settled assms(3,4) unfolding cs provisioned_def
          by (metis (full_types) CommandStatus.exhaust list.map_disc_iff)
        show ?thesis
        proof (cases "commands_verdict (Cluster_CreatedAt c) False cs")
          case None
          then show ?thesis using stop [OF w1] Inr by simp
        next
          case (Some b)
          then show ?thesis using Inr w1 ok assms(1,2)
            by (cases b) (auto simp: wp_return provisioning_effect_def intro!: wp_mono [OF wp_updateClusterStatus])
        qed
      qed (use w1 in \<open>simp add: wp_return provisioning_effect_def\<close>)
    qed
  next
    case NodesFailed
    then show ?thesis using stop [OF assms(5)] by (simp add: settle_provisioning_def)
  next
    case NodesWaiting
    then show ?thesis using assms(5) by (simp add: settle_provisioning_def wp_return provisioning_effect_def)
  qed
qed

lemma wp_commands_GetByID:
  "wp (commands_GetByID i) (\<lambda>r w'. store w' = store w \<and> (\<forall>c. r = Inr c \<longrightarrow> c = commands_table.by_key i (agent_commands (store w)))) w"
  by (auto simp: commands_GetByID_def commands_table.by_key_def wp_simps split: option.splits)

lemma wp_clusters_GetByID:
  "wp (clusters_GetByID i) (\<lambda>r w'. store w' = store w \<and> (\<forall>c. r = Inr c \<longrightarrow> c = clusters_table.by_key i (clusters (store w)))) w"
  by (auto simp: clusters_GetByID_def clusters_table.by_key_def wp_simps split: option.splits)

lemma wp_updateClusterProvisioningStatus:
  "wp (updateClusterProvisioningStatus i) (\<lambda>_ w'. provisioning_effect (store w) (store w')) w"
proof -
  let ?d = "store w"
  have same: "store w' = ?d \<Longrightarrow> provisioning_effect ?d (store w')" for w' :: world
    by (simp add: provisioning_effect_def)
  have nodes: "wp (try_do (nodes_ListByCluster cid 0 1000) Inl (\<lambda>(ns, _).
      if ns = [] then State_Monad.return (Inr ()) else settle_provisioning c ns)) (\<lambda>_ w'. provisioning_effect ?d (store w')) w3"
    if "cid \<noteq> []" "clusters_table.by_key cid (clusters ?d) = Some c" "Cluster_Status c = ClusterStatusCreating" "store w3 = ?d"
    for cid c w3
  proof (subst wp_try_do, rule wp_mono [OF wp_ListByCluster [OF \<open>cid \<noteq> []\<close>]], goal_cases)
    case (1 r w4)
    note there = that(2,3,4)
    have cid: "Cluster_ID c = cid" using clusters_table.by_key_Some [OF there(1)] by simp
    show ?case
    proof (cases r)
      case (Inr x)
      then obtain ns t ms where x: "x = (ns, t)" "ns = map (attach_metric ms) (listed_nodes cid ?d)"
        using 1 there(3) by (cases x) (auto simp: listed_nodes_def)
      show ?thesis
        using Inr x 1 there(3)
        by (cases "ns = []") (auto simp: wp_return same intro!: wp_settle_provisioning [where ms = ms] there(1,2) simp: cid there(1))
    qed (use 1 there(3) in \<open>simp add: wp_return same\<close>)
  qed
  show ?thesis
    unfolding updateClusterProvisioningStatus_def
    apply (subst wp_try_do, rule wp_mono [OF wp_commands_GetByID])
    apply (clarsimp simp: wp_return same split: sum.split option.split)
    apply (subst wp_try_do, unfold nodes_GetByID_def, rule wp_mono [OF wp_one_node])
    apply (clarsimp simp: wp_return same split: sum.split option.split)
    apply (subst wp_try_do, rule wp_mono [OF wp_clusters_GetByID])
    apply (clarsimp simp: wp_return same split: sum.split option.split)
    apply (rule nodes)
       apply simp_all
    done
qed

lemma status_change_lookup:
  assumes "status_change i st d d'"
  shows "map_option Cluster_Status (clusters_table.by_key j (clusters d')) =
    (if i = j then map_option (\<lambda>_. st) (clusters_table.by_key j (clusters d)) else map_option Cluster_Status (clusters_table.by_key j (clusters d)))"
proof -
  have "map_option Cluster_Status (clusters_table.by_key j (upd_where (\<lambda>c. Cluster_ID c = i) (\<lambda>c. c\<lparr>Cluster_Status := st, Cluster_UpdatedAt := t\<rparr>) rows)) =
    (if i = j then map_option (\<lambda>_. st) (clusters_table.by_key j rows) else map_option Cluster_Status (clusters_table.by_key j rows))" for rows t
    unfolding clusters_table.by_key_def by (induction rows) auto
  then show ?thesis using assms by (auto simp: status_change_def)
qed

section \<open>What a heartbeat or a status report touches\<close>

text \<open>
  \<open>only_node i d d'\<close>: the tables differ in the row of the node \<open>i\<close>, and not in its role and cluster, and in metrics
  of that node that were appended.
\<close>

definition own_metrics :: "string \<Rightarrow> db \<Rightarrow> db \<Rightarrow> bool" where
  "own_metrics i d d' \<longleftrightarrow> (\<exists>ms. node_metrics d' = node_metrics d @ ms \<and> (\<forall>m\<in>set ms. Metric_NodeID m = i))"

definition only_node :: "string \<Rightarrow> db \<Rightarrow> db \<Rightarrow> bool" where
  "only_node i d d' \<longleftrightarrow> filter (\<lambda>n. Node_ID n \<noteq> i) (nodes d') = filter (\<lambda>n. Node_ID n \<noteq> i) (nodes d) \<and>
     role_view d' = role_view d \<and> own_metrics i d d' \<and>
     d'\<lparr>nodes := [], node_metrics := []\<rparr> = d\<lparr>nodes := [], node_metrics := []\<rparr>"

lemma own_metrics_refl [simp]: "node_metrics d' = node_metrics d \<Longrightarrow> own_metrics i d d'"
  by (simp add: own_metrics_def)

lemma own_metrics_trans: "own_metrics i d d1 \<Longrightarrow> own_metrics i d1 d2 \<Longrightarrow> own_metrics i d d2"
  by (force simp: own_metrics_def)

lemma only_node_refl [simp]: "only_node i d d"
  by (simp add: only_node_def)

lemma only_node_trans: "only_node i d d1 \<Longrightarrow> only_node i d1 d2 \<Longrightarrow> only_node i d d2"
  by (auto simp: only_node_def intro: own_metrics_trans)

lemma only_node_upd:
  assumes "\<And>n. Node_ID (f n) = Node_ID n \<and> Node_ClusterID (f n) = Node_ClusterID n \<and> Node_Role (f n) = Node_Role n"
  shows "only_node i d (d\<lparr>nodes := upd_where (\<lambda>n. Node_ID n = i) f (nodes d)\<rparr>)"
  unfolding only_node_def using assms by (simp add: filter_upd_where_other role_view_update)

abbreviation touches :: "string \<Rightarrow> 'a io \<Rightarrow> bool" where
  "touches i m \<equiv> \<forall>d. keeps_db (only_node i d) m"

lemma touches_update_node:
  assumes "\<And>now n. Node_ID (f now n) = Node_ID n \<and> Node_ClusterID (f now n) = Node_ClusterID n \<and> Node_Role (f now n) = Node_Role n"
  shows "keeps_db (only_node i d) (update_node i f)"
  by (rule keeps_update_node) (rule only_node_trans [OF _ only_node_upd], assumption, rule assms)

lemma keeps_only_node [keeps_intros]:
  "keeps_db (only_node i d) (nodes_UpdateStatus i st)" "keeps_db (only_node i d) (nodes_UpdateHeartbeat i st ms)"
  "keeps_db (only_node i d) (nodes_UpdatePostgresStatus i b v c)" "keeps_db (only_node i d) (nodes_UpdateStatusDetail i det)"
  "keeps_db (only_node i d) (nodes_UpdateInstallationState i ist det)"
  unfolding node_updates by (intro keeps_intros touches_update_node; simp)+

lemma keeps_only_node_metric [keeps_intros]: 
  assumes "Metric_NodeID m = i"
  shows "keeps_db (only_node i d) (nodes_InsertMetric m)"
proof -
  have add: "only_node i d d1 \<Longrightarrow> Metric_NodeID m' = i \<Longrightarrow> only_node i d (d1\<lparr>node_metrics := node_metrics d1 @ [m']\<rparr>)" for d1 m'
    by (erule only_node_trans) (simp add: only_node_def role_view_def own_metrics_def)
  show ?thesis
    unfolding nodes_InsertMetric_def
    by (rule keeps_wpI) (use assms in \<open>auto simp: wp_simps add split: option.splits\<close>)
qed

lemma metric_node [simp]: "Metric_NodeID (nodeMetricsToModel i now m) = i"
  by (simp add: nodeMetricsToModel_def)

lemma keeps_report_node [keeps_intros]: "keeps_db (only_node (Node_ID n) d) (report_node n r)"
  unfolding report_node_def report_postgres_def Let_def by (intro keeps_intros metric_node)

text \<open>A retired node is not touched at all.\<close>

lemma keeps_report_retired: "retired n \<Longrightarrow> keeps_db I (report_node n r)"
  by (simp add: report_node_def keeps_return)

definition reports_own_node :: "string \<Rightarrow> db \<Rightarrow> db \<Rightarrow> bool" where
  "reports_own_node agentID d d' \<longleftrightarrow> d' = d \<or> (\<exists>node. List.find (\<lambda>x. Node_AgentID x = agentID) (nodes d) = Some node \<and>
     \<not> retired node \<and> only_node (Node_ID node) d d')"

lemma wp_Heartbeat: "wp (Heartbeat a ms) (\<lambda>_ w'. reports_own_node a (store w) (store w')) w"
  unfolding Heartbeat_def
proof (rule wp_nodeForAgent, goal_cases)
  case (2 n m w1)
  have "wp (nodes_UpdateHeartbeat (Node_ID n) NodeStatusOnline l) (\<lambda>_ w'. only_node (Node_ID n) (store w) (store w')) w1" for l
    by (rule wp_keeps [OF keeps_only_node(2)]) (use 2 in simp_all)
  from wp_mono [OF this] show ?case
    using 2 same_node_fields(1,4) [OF 2(5)] by (auto simp: retired_def reports_own_node_def wp_bind wp_logged wp_fail)
qed (simp add: reports_own_node_def)

lemma wp_ReportStatus: "wp (ReportStatus a rs) (\<lambda>_ w'. reports_own_node a (store w) (store w')) w"
  unfolding ReportStatus_def
proof (rule wp_nodeForAgent, goal_cases)
  case (2 n m w1)
  have only: "wp (for_all_do rs (report_node n)) (\<lambda>_ w'. only_node (Node_ID n) (store w) (store w')) w1"
    by (rule wp_keeps [where I = "\<lambda>w'. only_node (Node_ID n) (store w) (store w')"], intro keeps_intros) (use 2 in simp_all)
  have none: "wp (for_all_do rs (report_node n)) (\<lambda>_ w'. store w' = store w) w1" if "retired n"
    by (rule wp_keeps [where I = "\<lambda>w'. store w' = store w"], intro keeps_intros keeps_report_retired that) (use 2 in simp_all)
  show ?case unfolding wp_bind
    by (cases "retired n", rule wp_mono [OF none], simp, simp add: wp_fail reports_own_node_def, rule wp_mono [OF only])
      (use 2 same_node_fields(1,4) [OF 2(5)] in \<open>auto simp: wp_fail reports_own_node_def retired_def\<close>)
qed (simp add: reports_own_node_def)

section \<open>Registration\<close>

text \<open>A token is accepted when an unexpired stored token has its hash, or when it is the configured one.\<close>

definition token_accepted :: "AgentService \<Rightarrow> string \<Rightarrow> Time \<Rightarrow> db \<Rightarrow> bool" where
  "token_accepted s token now d \<longleftrightarrow> token \<noteq> [] \<and>
     ((\<exists>t. List.find (\<lambda>t. Token_TokenHash t = HashToken (AS_aead s) token) (agent_tokens d) = Some t \<and>
          (case Token_ExpiresAt t of None \<Rightarrow> True | Some x \<Rightarrow> x > now)) \<or>
      AS_AgentToken s \<noteq> [] \<and> token = AS_AgentToken s)"

lemma wp_validateAgentToken:
  "wp (validateAgentToken s token) (\<lambda>r w'. store w' = store w \<and>
     (\<forall>v. r = Inr v \<longrightarrow> v = token_accepted s token (clock (the_env w) (n_now w)) (store w))) w"
  by (auto simp: validateAgentToken_def tokens_GetByTokenHash_def token_accepted_def wp_simps split: option.splits)

lemma wp_RegisterAgent:
  "wp (RegisterAgent s req) (\<lambda>r w'. case r of
     Inl _ \<Rightarrow> store w' = store w
   | Inr _ \<Rightarrow> token_accepted s (Reg_AgentToken req) (clock (the_env w) (n_now w)) (store w)) w"
proof (cases "Reg_AgentToken req = []")
  case False
  show ?thesis
    unfolding RegisterAgent_def if_not_P [OF False] wp_or_status
    apply (rule wp_mono [OF wp_validateAgentToken])
    apply (clarsimp split: sum.split simp: wp_fail wp_bind)
    apply (rule wp_mono [OF wp_True], subst wp_bind, rule wp_mono [OF wp_True])
    apply (clarsimp simp: wp_bind)
    apply (rule wp_mono [OF wp_True])
    apply (simp add: wp_fail)
    done
qed (simp add: RegisterAgent_def wp_fail)

section \<open>Routing\<close>

lemma provisioning_foreign:
  assumes "isProvisioningAction a"
  shows "operationTypeForRoleAction a = []" "operationTypeForDatabaseAction a = []"
    "LogicalOpForAction the_registry a \<noteq> Some OpApplyHBA" "LogicalOpForAction the_registry a \<noteq> Some OpApplyTLS"
    "LogicalOpForAction the_registry a \<noteq> Some OpApplyExtensions"
  using assms
  by (auto simp: isProvisioningAction_def operationTypeForRoleAction_def operationTypeForDatabaseAction_def op_for_action_iff)

lemma isProvisioningAction_iff: "isProvisioningAction a \<longleftrightarrow> a \<in> set provisioningActions"
  by (auto simp: isProvisioningAction_def provisioningActions_def)

section \<open>Properties\<close>

text \<open>
  C5: an agent can report results only for its own commands. The call succeeds only when the caller is
  the agent of a known node and the command is addressed to that agent or that node; every refused or
  failed call leaves all tables unchanged.
\<close>

theorem report_result_authorised:
  "case result (ReportCommandResult s req) w of
     Inl _ \<Rightarrow> store (after (ReportCommandResult s req) w) = store w
   | Inr _ \<Rightarrow> belongs_to (Res_AgentId req) (Res_CommandId req) (store w)"
  using wp_report_authorised [of s req w] by (simp add: wp_outcome split: sum.splits)

text \<open>
  C26: fetching changes no table and hands out at most one command: the oldest pending one addressed to
  the agent or its node, with its action and payload unchanged, and with secrets only when its action
  carries protected material; an empty answer means that nothing is pending.
\<close>

theorem fetch_command_oldest:
  "store (after (FetchCommand s agentID) w) = store w \<and>
   (case result (FetchCommand s agentID) w of Inl _ \<Rightarrow> True | Inr ps \<Rightarrow> fetched agentID ps (store w))"
  using wp_FetchCommand [of s agentID w] by (auto simp: wp_outcome split: sum.splits)

text \<open>
  C9: a cluster in creation becomes running only when it is provisioned: it has nodes, none of them is
  waiting for a preflight, installing, in conflict or failed, and every provisioning command queued for
  them since the cluster was created is completed (among the 1000 oldest commands the server reads).
\<close>

theorem cluster_running_only_when_provisioned:
  assumes "clusters_table.by_key cid (clusters (store w)) = Some c" "Cluster_Status c = ClusterStatusCreating"
    and "clusters_table.by_key cid (clusters (store (after (updateClusterProvisioningStatus commandID) w))) = Some c'"
    and "Cluster_Status c' = ClusterStatusRunning"
  shows "provisioned c (store w)"
proof -
  let ?d = "store w" and ?d' = "store (after (updateClusterProvisioningStatus commandID) w)"
  have "provisioning_effect ?d ?d'" using wp_updateClusterProvisioningStatus [of commandID w] by (simp add: wp_outcome)
  moreover have "clusters ?d' \<noteq> clusters ?d" using assms by auto
  moreover have stopped: "status_change i st ?d ?d' \<Longrightarrow> i = cid \<and> st = ClusterStatusRunning" for i st
    using status_change_lookup [of i st ?d ?d' cid] assms by (auto split: if_splits)
  ultimately obtain b where "clusters_table.by_key (Cluster_ID b) (clusters ?d) = Some b" "Cluster_ID b = cid" "provisioned b ?d"
    unfolding provisioning_effect_def by blast
  then show ?thesis using assms(1) by simp
qed

definition creating_db :: db where
  "creating_db = empty_db\<lparr>clusters := [sample_cluster ''c1'' ClusterStatusCreating],
     nodes := [sample_node ''n1'' ''c1'' NodeRolePrimary NodeStatusOnline 10],
     agent_commands := [sample_command ''k1'' ''agent-n1'' ''n1'' ''pg_start'' CommandStatusCompleted 5]\<rparr>"

lemma creating_run:
  "wp (updateClusterProvisioningStatus ''k1'') (\<lambda>_ w'. map Cluster_Status (clusters (store w')) = [ClusterStatusRunning] \<and>
     map Cluster_ID (clusters (store w')) = [''c1'']) (world_of creating_db)"
  by (simp add: updateClusterProvisioningStatus_def commands_GetByID_def nodes_GetByID_def checked_def nodes_row_def
      nodes_attachLatestMetrics_def clusters_GetByID_def nodes_ListByCluster_def Let_def in_cluster_def by_role_then_age_def
      page_def settle_provisioning_def commands_ListByNodeIDs_def oldest_of_nodes_def isProvisioningAction_def
      updateClusterStatus_def clusters_UpdateStatus_def creating_db_def sample_cluster_def sample_node_def sample_command_def
      attach_metric_def latest_metric_def wp_simps)

theorem cluster_running_only_when_provisioned_witness: "provisioned (sample_cluster ''c1'' ClusterStatusCreating) creating_db"
proof -
  obtain c' where c': "clusters (store (after (updateClusterProvisioningStatus ''k1'') (world_of creating_db))) = [c']"
    "Cluster_Status c' = ClusterStatusRunning" "Cluster_ID c' = ''c1''"
    using creating_run by (auto simp: wp_outcome map_eq_Cons_conv)
  have "provisioned (sample_cluster ''c1'' ClusterStatusCreating) (store (world_of creating_db))"
    by (rule cluster_running_only_when_provisioned [where cid = "''c1''" and commandID = "''k1''" and c' = c'])
      (use c' in \<open>simp_all add: clusters_table.by_key_def creating_db_def sample_cluster_def\<close>)
  then show ?thesis by simp
qed

text \<open>
  C17: heartbeats and status reports are confined to the caller's own node. They change no table but the
  nodes and the metrics, no row of a node but that of the node the agent is linked to, and neither the cluster
  nor the role of any node; they only append metrics, all of that node. A drained or deleting node is not
  touched at all, so no report revives it.
\<close>

theorem reports_touch_own_node:
  "reports_own_node agentID (store w) (store (after (Heartbeat agentID ms) w)) \<and>
   reports_own_node agentID (store w) (store (after (ReportStatus agentID reports) w))"
  using wp_Heartbeat [of agentID ms w] wp_ReportStatus [of agentID reports w] by (simp add: wp_outcome)

text \<open>
  C25: registration needs a valid token. It succeeds only with a token whose hash is stored and not
  expired, or with the configured development token; otherwise, and on every error, no table changes
  and no agent identifier is issued.
\<close>

theorem register_requires_token:
  "case result (RegisterAgent s req) w of
     Inl _ \<Rightarrow> store (after (RegisterAgent s req) w) = store w
   | Inr _ \<Rightarrow> token_accepted s (Reg_AgentToken req) (clock (the_env w) (n_now w)) (store w)"
  using wp_RegisterAgent [of s req w] by (simp add: wp_outcome split: sum.splits)

text \<open>
  the result of a provisioning command is claimed by none of the repositories it is offered to
  first: each answers that it is not its business and changes nothing, so it reaches the provisioning
  step, whatever the order of the handlers.
\<close>

theorem provisioning_results_not_claimed:
  assumes "commands_table.by_key c (agent_commands (store w)) = Some cmd" "isProvisioningAction (Cmd_Action cmd)"
  shows "list_all (\<lambda>h. \<not> fst (result h w) \<and> store (after h w) = store w)
    [roles_HandleCommandResult c ok msg, database_result c ok msg, access_HandleHBACommandResult c ok msg,
     tls_HandleCommandResult c ok msg, ext_HandleCommandResult c ok msg]"
  using role_results.foreign [OF assms(1), of ok msg] database_results.foreign [OF assms(1), of ok msg]
    hba.foreign [OF assms(1), of ok msg] tls.foreign [OF assms(1), of ok msg] ext.foreign [OF assms(1), of ok msg]
    provisioning_foreign [OF assms(2)]
  by (simp add: wp_outcome)

theorem provisioning_results_not_claimed_witness:
  "\<not> fst (result (roles_HandleCommandResult ''k1'' True []) (world_of creating_db))"
proof -
  have "list_all (\<lambda>h. \<not> fst (result h (world_of creating_db)) \<and> store (after h (world_of creating_db)) = store (world_of creating_db))
    [roles_HandleCommandResult ''k1'' True [], database_result ''k1'' True [], access_HandleHBACommandResult ''k1'' True [],
     tls_HandleCommandResult ''k1'' True [], ext_HandleCommandResult ''k1'' True []]"
    by (rule provisioning_results_not_claimed [where cmd = "sample_command ''k1'' ''agent-n1'' ''n1'' ''pg_start'' CommandStatusCompleted 5"])
      (simp_all add: commands_table.by_key_def creating_db_def sample_command_def isProvisioningAction_def)
  then show ?thesis by simp
qed

end
