(* ===== verification/NodeSafety.thy ===== *)
theory NodeSafety
  imports NodeService AgentSafety
begin

text \<open>
  What the handlers of \<open>NodeService\<close> guarantee, and how draining interacts with the results the agent
  reports later.
\<close>

lemma wp_require_node:
  assumes "\<And>e w'. store w' = store w \<Longrightarrow> Q (Inl e) w'"
    and "\<And>n m w'. store w' = store w \<Longrightarrow> the_env w' = the_env w \<Longrightarrow>
       List.find (\<lambda>x. Node_ID x = i) (nodes (store w)) = Some m \<Longrightarrow> same_node n m \<Longrightarrow> wp (k n) Q w'"
  shows "wp (require_node i k) Q w"
  unfolding require_node_def wp_or_status nodes_GetByID_def
  by (rule wp_mono [OF wp_one_node]) (use assms in \<open>auto simp: wp_fail split: sum.splits option.splits\<close>)

section \<open>Deleting\<close>

definition deactivation_for :: "Node \<Rightarrow> AgentCommand \<Rightarrow> bool" where
  "deactivation_for m c \<longleftrightarrow> Cmd_Action c = ''agent_deactivate'' \<and> Cmd_Status c = CommandStatusPending \<and>
     Cmd_AgentID c = Node_AgentID m \<and> Cmd_NodeID c = Node_ID m"

definition delete_requested :: "Node \<Rightarrow> db \<Rightarrow> db \<Rightarrow> bool" where
  "delete_requested m d d' \<longleftrightarrow> Node_ClusterID m = [] \<and>
     (if Node_AgentID m = [] then d' = d\<lparr>nodes := del_where (\<lambda>n. Node_ID n = Node_ID m) (nodes d)\<rparr>
      else (\<exists>c. agent_commands d' = agent_commands d @ [c] \<and> deactivation_for m c) \<and>
           (\<forall>n\<in>set (nodes d'). Node_ID n = Node_ID m \<longrightarrow> Node_Status n = NodeStatusDeleting) \<and>
           map Node_ID (nodes d') = map Node_ID (nodes d))"

text \<open>What an error may leave behind: nothing, or a deactivation that was queued before the node could be marked.\<close>

definition delete_failed :: "Node \<Rightarrow> db \<Rightarrow> db \<Rightarrow> bool" where
  "delete_failed m d d' \<longleftrightarrow> d' = d \<or>
     Node_AgentID m \<noteq> [] \<and> (\<exists>c. deactivation_for m c \<and> d' = d\<lparr>agent_commands := agent_commands d @ [c]\<rparr>)"

definition delete_effect :: "string \<Rightarrow> unit rpc \<Rightarrow> db \<Rightarrow> db \<Rightarrow> bool" where
  "delete_effect i r d d' \<longleftrightarrow>
     filter (\<lambda>n. Node_ID n \<noteq> i) (nodes d') = filter (\<lambda>n. Node_ID n \<noteq> i) (nodes d) \<and>
     d'\<lparr>nodes := [], agent_commands := []\<rparr> = d\<lparr>nodes := [], agent_commands := []\<rparr> \<and>
     (case List.find (\<lambda>n. Node_ID n = i) (nodes d) of
        None \<Rightarrow> isl r \<and> d' = d
      | Some m \<Rightarrow> (Node_ClusterID m \<noteq> [] \<longrightarrow> isl r \<and> d' = d) \<and>
          (if isl r then delete_failed m d d' else delete_requested m d d'))"

lemma find_node_id: "List.find (\<lambda>x. Node_ID x = i) ns = Some m \<Longrightarrow> Node_ID m = i"
  by (auto simp: find_Some_iff)

lemma filter_other_upd:
  assumes "\<And>n. Node_ID (f n) = Node_ID n"
  shows "filter (\<lambda>n. Node_ID n \<noteq> i) (upd_where (\<lambda>n. Node_ID n = i) f ns) = filter (\<lambda>n. Node_ID n \<noteq> i) ns"
  using assms by (induction ns) (auto simp: upd_where_def)

lemma filter_other_del: "filter (\<lambda>n. Node_ID n \<noteq> i) (del_where (\<lambda>n. Node_ID n = i) ns) = filter (\<lambda>n. Node_ID n \<noteq> i) ns"
  by (induction ns) (auto simp: del_where_def)

lemma wp_update_node_cases:
  "wp (update_node i f) (\<lambda>r w'. isl r \<and> store w' = store w \<or>
     r = Inr () \<and> (\<exists>now. store w' = (store w)\<lparr>nodes := upd_where (\<lambda>n. Node_ID n = i) (f now) (nodes (store w))\<rparr>)) w"
  by (auto simp: update_node_def wp_simps split: option.splits)

lemma wp_node_status_cases:
  "wp (nodes_UpdateStatus i st) (\<lambda>r w'. isl r \<and> store w' = store w \<or> r = Inr () \<and> (\<exists>now. store w' = (store w)\<lparr>nodes :=
     upd_where (\<lambda>n. Node_ID n = i) (\<lambda>n. n\<lparr>Node_Status := st, Node_UpdatedAt := now\<rparr>) (nodes (store w))\<rparr>)) w"
  "wp (nodes_UpdateStatusDetail i det) (\<lambda>r w'. isl r \<and> store w' = store w \<or> r = Inr () \<and> (\<exists>now. store w' = (store w)\<lparr>nodes :=
     upd_where (\<lambda>n. Node_ID n = i) (\<lambda>n. n\<lparr>Node_StatusDetail := det, Node_UpdatedAt := now\<rparr>) (nodes (store w))\<rparr>)) w"
  unfolding nodes_UpdateStatus_def nodes_UpdateStatusDetail_def
  by (auto simp: wp_wrap_err split: sum.split intro!: wp_mono [OF wp_update_node_cases])

lemma wp_commands_Create_cases:
  "wp (commands_Create a n act p) (\<lambda>r w'. isl r \<and> store w' = store w \<or>
     (\<exists>c. r = Inr c \<and> store w' = (store w)\<lparr>agent_commands := agent_commands (store w) @ [c]\<rparr> \<and>
        (\<exists>i now. c = command_row i a n act p now))) w"
  by (auto simp: commands_Create_def commands_insert_def wp_simps Let_def split: option.splits)

lemma Ball_upd_where: "(\<forall>n\<in>set (upd_where p f ns). P n) \<longleftrightarrow> (\<forall>n\<in>set ns. P (if p n then f n else n))"
  by (auto simp: set_upd_where)

lemma deleting_rows:
  fixes ns :: "Node list" and i :: string
  defines "marked \<equiv> (\<lambda>now. upd_where (\<lambda>n. Node_ID n = i) (\<lambda>n. n\<lparr>Node_Status := NodeStatusDeleting, Node_UpdatedAt := now\<rparr>) ns)"
  shows "filter (\<lambda>n. Node_ID n \<noteq> i) (marked now) = filter (\<lambda>n. Node_ID n \<noteq> i) ns"
    "\<forall>n\<in>set (marked now). Node_ID n = i \<longrightarrow> Node_Status n = NodeStatusDeleting" "map Node_ID (marked now) = map Node_ID ns"
    "filter (\<lambda>n. Node_ID n \<noteq> i) (upd_where (\<lambda>n. Node_ID n = i) (\<lambda>n. n\<lparr>Node_StatusDetail := det, Node_UpdatedAt := t\<rparr>) (marked now))
      = filter (\<lambda>n. Node_ID n \<noteq> i) ns"
    "\<forall>n\<in>set (upd_where (\<lambda>n. Node_ID n = i) (\<lambda>n. n\<lparr>Node_StatusDetail := det, Node_UpdatedAt := t\<rparr>) (marked now)).
       Node_ID n = i \<longrightarrow> Node_Status n = NodeStatusDeleting"
    "map Node_ID (upd_where (\<lambda>n. Node_ID n = i) (\<lambda>n. n\<lparr>Node_StatusDetail := det, Node_UpdatedAt := t\<rparr>) (marked now)) = map Node_ID ns"
  unfolding marked_def by (simp_all add: filter_other_upd map_upd_where Ball_upd_where)

lemma delete_failed_queued:
  "Node_AgentID m \<noteq> [] \<Longrightarrow> Node_ID m = i \<Longrightarrow> delete_failed m d (d\<lparr>agent_commands := agent_commands d @
     [command_row k (Node_AgentID m) i ''agent_deactivate'' p now]\<rparr>)"
  unfolding delete_failed_def
  by (intro disjI2 conjI exI [of _ "command_row k (Node_AgentID m) i ''agent_deactivate'' p now"] refl)
    (simp_all add: deactivation_for_def command_row_def)

lemma delete_failed_refl [simp]: "delete_failed m d d"
  by (simp add: delete_failed_def)

lemma wp_DeleteNode: "wp (DeleteNode i) (\<lambda>r w'. delete_effect i r (store w) (store w')) w"
  unfolding DeleteNode_def
proof (rule wp_require_node, goal_cases)
  case (2 n m w')
  note f = 2(3) and m = same_node_fields [OF 2(4)] and id = find_node_id [OF 2(3)]
  consider "Node_ClusterID m \<noteq> []" | (gone) "Node_ClusterID m = []" "Node_AgentID m = []" | (agent) "Node_ClusterID m = []" "Node_AgentID m \<noteq> []"
    by blast
  then show ?case
  proof cases
    case gone
    then show ?thesis using 2(1) f m id
      by (auto simp: nodes_Delete_def wp_simps delete_effect_def delete_failed_def delete_requested_def filter_other_del split: option.splits)
  next
    case agent
    show ?thesis
      using agent m id 2(1) f
      apply (simp add: wp_or_status wp_bind)
      apply (rule wp_mono [OF wp_commands_Create_cases], clarsimp split: sum.split, intro conjI)
       apply (clarsimp simp: delete_effect_def delete_failed_def)
      apply (clarsimp simp: wp_or_status wp_bind)
      apply (rule wp_mono [OF wp_node_status_cases(1)], clarsimp split: sum.split, intro conjI)
       apply (clarsimp simp: delete_effect_def delete_failed_queued)
      apply (clarsimp simp: wp_bind wp_logged)
      apply (rule wp_mono [OF wp_node_status_cases(2)])
      apply (auto simp: delete_effect_def delete_requested_def deactivation_for_def wp_simps deleting_rows command_row_def)
      done
  qed (use 2(1) f m id in \<open>auto simp: wp_fail delete_effect_def\<close>)
qed (auto simp: delete_effect_def split: option.splits)

section \<open>Draining and the result of the stop command\<close>

definition wired_agents :: AgentService where
  "wired_agents = \<lparr>AS_AgentToken = [], AS_aead = sample_aead, AS_roleEncryptKey = ''0123456789abcdef'',
     AS_commandSecrets = Some sample_repo, AS_clusterSecrets = Some sample_repo, AS_postgresRoles = True, AS_postgresDBs = True,
     AS_postgresAccess = True, AS_postgresTLS = True, AS_postgresExt = True\<rparr>"

definition node_status :: "string \<Rightarrow> db \<Rightarrow> NodeStatus option" where
  "node_status i d = map_option Node_Status (List.find (\<lambda>n. Node_ID n = i) (nodes d))"

definition observe :: "string \<Rightarrow> NodeStatus option io" where
  "observe i = do { w \<leftarrow> State_Monad.get; State_Monad.return (node_status i (store w)) }"

text \<open>An operator drains a node; its agent fetches and completes the stop command and sends a heartbeat.\<close>

definition drain_run :: "NodeService \<Rightarrow> AgentService \<Rightarrow> string \<Rightarrow> string \<Rightarrow> NodeStatus option list io" where
  "drain_run ns s nodeID agentID = do {
     _ \<leftarrow> DrainNode ns nodeID;
     drained \<leftarrow> observe nodeID;
     fetched \<leftarrow> FetchCommand s agentID;
     _ \<leftarrow> (case fetched of
        Inr (c # _) \<Rightarrow> ReportCommandResult s \<lparr>Res_AgentId = agentID, Res_CommandId = PCmd_Id c, Res_Success = True,
            Res_Output = Text [], Res_Error = []\<rparr>
      | _ \<Rightarrow> reply ());
     stopped \<leftarrow> observe nodeID;
     _ \<leftarrow> Heartbeat agentID 5;
     back \<leftarrow> observe nodeID;
     State_Monad.return [drained, stopped, back]
   }"

definition drain_db :: db where
  "drain_db = empty_db\<lparr>clusters := [sample_cluster ''c1'' ClusterStatusRunning],
     nodes := [sample_node ''n1'' ''c1'' NodeRoleReplica NodeStatusOnline 10]\<rparr>"

definition sample_nodes_service :: NodeService where
  "sample_nodes_service = \<lparr>NS_commandSecrets = None, NS_statusTTL = 0\<rparr>"

section \<open>Properties\<close>

text \<open>
  C32: a node is deleted only when it belongs to no cluster. Whatever statement fails, \<open>DeleteNode\<close> changes
  no other node, and nothing at all when the node is unknown or assigned; when it succeeds, a node without
  agent is removed and nothing else changes, and for a node with an agent exactly one deactivation
  command is queued and the node is marked as being deleted. An error leaves every table as it was, but for
  one case: the statement that marks the node fails after the deactivation of its agent has been queued, and
  the command stays although the node is not being deleted.
\<close>

theorem delete_node_guarded:
  "delete_effect i (result (DeleteNode i) w) (store w) (store (after (DeleteNode i) w))"
  using wp_DeleteNode [of i w] by (simp add: wp_outcome)

text \<open>
  draining undoes itself. \<open>DrainNode\<close> marks the node drained, which heartbeats and status reports
  respect, and queues a stop command; but the result of that very command marks the node offline, and the
  next heartbeat brings the node that was to be drained back online.
\<close>

theorem drain_undone_by_its_stop:
  "result (drain_run sample_nodes_service wired_agents ''n1'' ''agent-n1'') (world_of drain_db) =
     [Some NodeStatusDrained, Some NodeStatusOffline, Some NodeStatusOnline]"
  by code_simp

end
