(* ===== verification/Auth.thy ===== *)
theory Auth
  imports UserRepo AuditRepo Crypto Proto Samples
begin

text \<open>
  Who may call what: \<open>internal/server/jwt.go\<close>, \<open>auth_interceptor.go\<close>, \<open>audit_interceptor.go\<close> and the
  part of \<open>connect.go\<close> that guards the HTTP routes. The libraries golang-jwt and bcrypt are parameters:
  \<open>jwt_sign secret claims\<close> is the token signed with HS256, \<open>jwt_parse keyfunc now token\<close> the claims of a
  token whose signature verifies under the key the key function returns for its algorithm and whose
  time claims hold. The salt of bcrypt is the next value of the random source.
\<close>

section \<open>Tokens\<close>

record jwt_lib =
  jwt_sign :: "string \<Rightarrow> payload \<Rightarrow> string res"
  jwt_parse :: "(string \<Rightarrow> string res) \<Rightarrow> Time \<Rightarrow> string \<Rightarrow> payload res"

record JWTClaims =
  Claims_UserID :: string
  Claims_Email :: string
  Claims_Role :: Role

record JWTManager =
  jwt_library :: jwt_lib
  jwt_secret :: string
  tokenExpiry :: Time
  refreshExpiry :: Time

primrec role_name :: "Role \<Rightarrow> string" where
  "role_name RoleAdmin = ''admin''"
| "role_name RoleOperator = ''operator''"
| "role_name RoleViewer = ''viewer''"
| "role_name RoleNone = []"

text \<open>The code compares a role only with the three constants; every other text is \<open>RoleNone\<close>.\<close>

definition role_of_name :: "string \<Rightarrow> Role" where
  "role_of_name s = (if s = ''admin'' then RoleAdmin else if s = ''operator'' then RoleOperator
     else if s = ''viewer'' then RoleViewer else RoleNone)"

lemma role_of_role_name [simp]: "role_of_name (role_name r) = r"
  by (cases r) (simp_all add: role_of_name_def)

text \<open>\<open>jwt.NewNumericDate\<close> keeps whole seconds.\<close>

definition NewNumericDate :: "Time \<Rightarrow> jval" where
  "NewNumericDate t = JInt (t div 10 ^ 9)"

definition access_claims :: "JWTManager \<Rightarrow> User \<Rightarrow> Time \<Rightarrow> payload" where
  "access_claims m user now = Json [(''user_id'', JStr (User_ID user)), (''email'', JStr (User_Email user)),
     (''role'', JStr (role_name (User_Role user))), (''iss'', JStr ''skylex''), (''sub'', JStr (User_ID user)),
     (''exp'', NewNumericDate (now + tokenExpiry m)), (''nbf'', NewNumericDate now), (''iat'', NewNumericDate now)]"

definition refresh_claims :: "JWTManager \<Rightarrow> User \<Rightarrow> Time \<Rightarrow> payload" where
  "refresh_claims m user now = Json [(''iss'', JStr ''skylex''), (''sub'', JStr (User_ID user)),
     (''exp'', NewNumericDate (now + refreshExpiry m)), (''iat'', NewNumericDate now)]"

definition GenerateAccessToken :: "JWTManager \<Rightarrow> User \<Rightarrow> string res io" where
  "GenerateAccessToken m user = do {
     now \<leftarrow> time_now;
     State_Monad.return (jwt_sign (jwt_library m) (jwt_secret m) (access_claims m user now))
   }"

definition GenerateRefreshToken :: "JWTManager \<Rightarrow> User \<Rightarrow> string res io" where
  "GenerateRefreshToken m user = do {
     now \<leftarrow> time_now;
     State_Monad.return (jwt_sign (jwt_library m) (jwt_secret m) (refresh_claims m user now))
   }"

definition hmac_key :: "string \<Rightarrow> string \<Rightarrow> string res" where
  "hmac_key secret alg =
     (if alg \<in> {''HS256'', ''HS384'', ''HS512''} then Inr secret else Inl (''unexpected signing method: '' @ alg))"

definition JWTClaims_of :: "payload \<Rightarrow> JWTClaims option" where
  "JWTClaims_of p =
     (case (json_str ''user_id'' p, json_str ''email'' p, json_str ''role'' p) of
        (Some i, Some e, Some r) \<Rightarrow> Some \<lparr>Claims_UserID = i, Claims_Email = e, Claims_Role = role_of_name r\<rparr>
      | _ \<Rightarrow> None)"

definition ValidateToken :: "JWTManager \<Rightarrow> string \<Rightarrow> JWTClaims res io" where
  "ValidateToken m token = do {
     now \<leftarrow> time_now;
     (case jwt_parse (jwt_library m) (hmac_key (jwt_secret m)) now token of
       Inl e \<Rightarrow> State_Monad.return (Inl e)
     | Inr p \<Rightarrow> (case JWTClaims_of p of
          None \<Rightarrow> do { e \<leftarrow> json_err p; State_Monad.return (Inl e) }
        | Some claims \<Rightarrow> State_Monad.return (Inr claims)))
   }"

definition ValidateRefreshToken :: "JWTManager \<Rightarrow> string \<Rightarrow> string res io" where
  "ValidateRefreshToken m token = do {
     now \<leftarrow> time_now;
     State_Monad.return (case jwt_parse (jwt_library m) (hmac_key (jwt_secret m)) now token of
       Inl e \<Rightarrow> Inl e
     | Inr p \<Rightarrow> (case json_str ''sub'' p of
          None \<Rightarrow> Inl ''missing subject in refresh token''
        | Some sub \<Rightarrow> Inr sub))
   }"

section \<open>The interceptor of the gRPC server\<close>

record AuthInterceptor =
  AI_jwtManager :: JWTManager
  AI_aead :: aead

definition unauthenticatedMethods :: "string list" where
  "unauthenticatedMethods = [''/skylex.v1.AuthService/Login'', ''/skylex.v1.AuthService/RefreshToken'',
     ''/skylex.v1.AgentService/RegisterAgent'', ''/skylex.v1.AgentService/Heartbeat'', ''/skylex.v1.AgentService/ReportStatus'',
     ''/skylex.v1.AgentService/FetchCommand'', ''/skylex.v1.AgentService/ReportCommandResult'',
     ''/skylex.v1.AgentService/ReportCommandLog'']"

definition viewerAllowedMethods :: "string list" where
  "viewerAllowedMethods = [''/skylex.v1.ClusterService/GetCluster'', ''/skylex.v1.ClusterService/ListClusters'',
     ''/skylex.v1.ClusterService/GetClusterSettings'', ''/skylex.v1.NodeService/ListNodes'', ''/skylex.v1.NodeService/GetNode'',
     ''/skylex.v1.NodeService/ListNodeMetrics'', ''/skylex.v1.NodeService/ListNodeCommandLogs'',
     ''/skylex.v1.PostgresManagementService/GetConnectionProfile'', ''/skylex.v1.PostgresManagementService/GetNetworkAccess'',
     ''/skylex.v1.PostgresManagementService/ListRoles'', ''/skylex.v1.PostgresManagementService/ListDatabases'',
     ''/skylex.v1.BackupService/GetBackup'', ''/skylex.v1.BackupService/ListBackups'', ''/skylex.v1.AuthService/ListUsers'',
     ''/skylex.v1.AuthService/ListAPIKeys'']"

text \<open>The context values of a request; without credentials the accessors return empty values.\<close>

definition anonymous :: request_context where
  "anonymous = \<lparr>UserIDFromContext = [], UserRoleFromContext = RoleNone, UserEmailFromContext = []\<rparr>"

definition context_of :: "JWTClaims \<Rightarrow> request_context" where
  "context_of c = \<lparr>UserIDFromContext = Claims_UserID c, UserRoleFromContext = Claims_Role c,
     UserEmailFromContext = Claims_Email c\<rparr>"

definition expired_key :: "APIKey \<Rightarrow> bool" where
  "expired_key k = (case Key_ExpiresAt k of None \<Rightarrow> False | Some t \<Rightarrow> t < Key_CreatedAt k)"

definition authenticateAPIKey :: "AuthInterceptor \<Rightarrow> string \<Rightarrow> JWTClaims res io" where
  "authenticateAPIKey i key = do {
     r \<leftarrow> apikeys_GetByKeyHash (HashToken (AI_aead i) key);
     (case r of
       Inl _ \<Rightarrow> State_Monad.return (Inl ''invalid api key'')
     | Inr apiKey \<Rightarrow>
         if expired_key apiKey then State_Monad.return (Inl ''expired api key'')
         else do {
           u \<leftarrow> users_GetByID (Key_UserID apiKey);
           (case u of
             Inl _ \<Rightarrow> State_Monad.return (Inl ''user not found for api key'')
           | Inr user \<Rightarrow> State_Monad.return (Inr \<lparr>Claims_UserID = User_ID user, Claims_Email = User_Email user,
                Claims_Role = User_Role user\<rparr>))
         })
   }"

text \<open>\<open>md\<close> is the incoming metadata, if any: the values of its \<open>authorization\<close> header.\<close>

definition authenticate :: "AuthInterceptor \<Rightarrow> string list option \<Rightarrow> JWTClaims res io" where
  "authenticate i md = (case md of
     None \<Rightarrow> State_Monad.return (Inl ''missing metadata'')
   | Some [] \<Rightarrow> State_Monad.return (Inl ''missing authorization header'')
   | Some (authHeader # _) \<Rightarrow>
       if strings_HasPrefix authHeader ''Bearer '' then ValidateToken (AI_jwtManager i) (strings_TrimPrefix authHeader ''Bearer '')
       else if strings_HasPrefix authHeader ''ApiKey '' then authenticateAPIKey i (strings_TrimPrefix authHeader ''ApiKey '')
       else State_Monad.return (Inl ''invalid authorization scheme''))"

definition UnaryInterceptor ::
  "AuthInterceptor \<Rightarrow> string \<Rightarrow> string list option \<Rightarrow> (request_context \<Rightarrow> 'a rpc io) \<Rightarrow> 'a rpc io" where
  "UnaryInterceptor i fullMethod md handler =
     (if fullMethod \<in> set unauthenticatedMethods then handler anonymous
      else do {
        r \<leftarrow> authenticate i md;
        (case r of
          Inl _ \<Rightarrow> fail Unauthenticated ''authentication required''
        | Inr claims \<Rightarrow>
            if Claims_Role claims = RoleViewer \<and> fullMethod \<notin> set viewerAllowedMethods
            then fail PermissionDenied ''insufficient permissions''
            else handler (context_of claims))
      })"

section \<open>The audit interceptor\<close>

definition audit_actions :: "(string \<times> string) list" where
  "audit_actions = [
     (''/skylex.v1.ClusterService/CreateCluster'', ''cluster.create''),
     (''/skylex.v1.ClusterService/UpdateCluster'', ''cluster.update''),
     (''/skylex.v1.ClusterService/DeleteCluster'', ''cluster.delete''),
     (''/skylex.v1.ClusterService/StartCluster'', ''cluster.lifecycle''),
     (''/skylex.v1.ClusterService/PauseCluster'', ''cluster.lifecycle''),
     (''/skylex.v1.ClusterService/RestartCluster'', ''cluster.lifecycle''),
     (''/skylex.v1.ClusterService/FailoverCluster'', ''cluster.failover''),
     (''/skylex.v1.ClusterService/ScaleCluster'', ''cluster.update''),
     (''/skylex.v1.NodeService/DrainNode'', ''node.drain''),
     (''/skylex.v1.NodeService/RejoinNode'', ''node.rejoin''),
     (''/skylex.v1.NodeService/DeleteNode'', ''node.delete''),
     (''/skylex.v1.NodeService/ResolveInstallationConflict'', ''node.resolve_conflict''),
     (''/skylex.v1.PostgresManagementService/CreateRole'', ''postgres_role.create''),
     (''/skylex.v1.PostgresManagementService/RotateRolePassword'', ''postgres_role.rotate''),
     (''/skylex.v1.PostgresManagementService/DeleteRole'', ''postgres_role.delete''),
     (''/skylex.v1.PostgresManagementService/CreateDatabase'', ''postgres_database.create''),
     (''/skylex.v1.PostgresManagementService/DeleteDatabase'', ''postgres_database.delete''),
     (''/skylex.v1.PostgresManagementService/UpdateNetworkAccess'', ''postgres_access.update''),
     (''/skylex.v1.PostgresManagementService/ApplyHBA'', ''postgres_access.update''),
     (''/skylex.v1.PostgresManagementService/GenerateTLSCA'', ''postgres_tls.update''),
     (''/skylex.v1.PostgresManagementService/UpdateTLSConfig'', ''postgres_tls.update''),
     (''/skylex.v1.PostgresManagementService/ApplyTLS'', ''postgres_tls.update''),
     (''/skylex.v1.BackupService/CreateBackup'', ''backup.create''),
     (''/skylex.v1.BackupService/DeleteBackup'', ''backup.delete''),
     (''/skylex.v1.BackupService/CreateRestoreJob'', ''restore.create''),
     (''/skylex.v1.AuthService/Login'', ''auth.login''),
     (''/skylex.v1.AuthService/CreateUser'', ''user.create''),
     (''/skylex.v1.AuthService/DeleteUser'', ''user.delete''),
     (''/skylex.v1.AuthService/CreateAPIKey'', ''token.create''),
     (''/skylex.v1.AuthService/DeleteAPIKey'', ''token.delete'')]"

definition methodToAuditAction :: "string \<Rightarrow> string" where
  "methodToAuditAction m = (case map_of audit_actions m of None \<Rightarrow> [] | Some a \<Rightarrow> a)"

primrec code_name :: "code \<Rightarrow> string" where
  "code_name InvalidArgument = ''InvalidArgument''"
| "code_name NotFound = ''NotFound''"
| "code_name AlreadyExists = ''AlreadyExists''"
| "code_name PermissionDenied = ''PermissionDenied''"
| "code_name FailedPrecondition = ''FailedPrecondition''"
| "code_name Unimplemented = ''Unimplemented''"
| "code_name Internal = ''Internal''"
| "code_name Unavailable = ''Unavailable''"
| "code_name Unauthenticated = ''Unauthenticated''"

text \<open>
  \<open>AuditInterceptor.UnaryInterceptor\<close>: the entry is written after the handler has returned, with the
  text of its error; a panic unwinds past it. A failing insert is only logged.
\<close>

definition audit_detail :: "string \<Rightarrow> 'a rpc \<Rightarrow> string" where
  "audit_detail fullMethod r = (case r of
     Inl (Status c msg) \<Rightarrow> ''method='' @ fullMethod @ '' error=rpc error: code = '' @ code_name c @ '' desc = '' @ msg
   | _ \<Rightarrow> ''method='' @ fullMethod)"

definition is_panic :: "'a rpc \<Rightarrow> bool" where
  "is_panic r = (case r of Inl (Panic _) \<Rightarrow> True | _ \<Rightarrow> False)"

definition AuditUnaryInterceptor ::
  "string \<Rightarrow> (request_context \<Rightarrow> 'a rpc io) \<Rightarrow> request_context \<Rightarrow> 'a rpc io" where
  "AuditUnaryInterceptor fullMethod handler ctx = do {
     r \<leftarrow> handler ctx;
     (if is_panic r \<or> methodToAuditAction fullMethod = [] then State_Monad.return r
      else do {
        now \<leftarrow> time_now;
        _ \<leftarrow> audit_Log \<lparr>Audit_ID = 0, Audit_UserID = UserIDFromContext ctx, Audit_Action = methodToAuditAction fullMethod,
               Audit_Resource = fullMethod, Audit_Detail = audit_detail fullMethod r, Audit_IPAddress = [], Audit_CreatedAt = now\<rparr>;
        State_Monad.return r
      })
   }"

text \<open>The chain of interceptors \<open>NewGRPCServer\<close> puts around every handler.\<close>

definition grpc_call ::
  "AuthInterceptor \<Rightarrow> string \<Rightarrow> string list option \<Rightarrow> (request_context \<Rightarrow> 'a rpc io) \<Rightarrow> 'a rpc io" where
  "grpc_call i fullMethod md handler = UnaryInterceptor i fullMethod md (AuditUnaryInterceptor fullMethod handler)"

section \<open>The guard of the HTTP routes\<close>

definition unauthenticatedPaths :: "string list" where
  "unauthenticatedPaths = [''/skylex.v1.AuthService/Login'', ''/skylex.v1.AuthService/RefreshToken'', ''/version'']"

definition writeMethods :: "string list" where
  "writeMethods = [
     ''/skylex.v1.PostgresManagementService/UpdateConnectionProfile'', ''/skylex.v1.PostgresManagementService/UpdateNetworkAccess'',
     ''/skylex.v1.PostgresManagementService/ApplyHBA'', ''/skylex.v1.PostgresManagementService/CreateRole'',
     ''/skylex.v1.PostgresManagementService/RotateRolePassword'', ''/skylex.v1.PostgresManagementService/DeleteRole'',
     ''/skylex.v1.PostgresManagementService/CreateDatabase'', ''/skylex.v1.PostgresManagementService/DeleteDatabase'',
     ''/skylex.v1.PostgresManagementService/SetExtension'', ''/skylex.v1.PostgresManagementService/ApplyExtensions'',
     ''/skylex.v1.ClusterService/CreateCluster'', ''/skylex.v1.ClusterService/UpdateCluster'', ''/skylex.v1.ClusterService/DeleteCluster'',
     ''/skylex.v1.ClusterService/StartCluster'', ''/skylex.v1.ClusterService/PauseCluster'', ''/skylex.v1.ClusterService/RestartCluster'',
     ''/skylex.v1.ClusterService/FailoverCluster'', ''/skylex.v1.ClusterService/RestartNode'', ''/skylex.v1.ClusterService/ScaleCluster'',
     ''/skylex.v1.ClusterService/UpdateClusterSettings'', ''/skylex.v1.NodeService/DrainNode'', ''/skylex.v1.NodeService/RejoinNode'',
     ''/skylex.v1.NodeService/DeleteNode'', ''/skylex.v1.NodeService/ResolveInstallationConflict'',
     ''/skylex.v1.BackupService/CreateBackup'', ''/skylex.v1.BackupService/DeleteBackup'', ''/skylex.v1.BackupService/CreateRestoreJob'',
     ''/skylex.v1.ScheduleService/CreateSchedule'', ''/skylex.v1.ScheduleService/UpdateSchedule'', ''/skylex.v1.ScheduleService/DeleteSchedule'',
     ''/skylex.v1.StorageService/CreateStorageConfig'', ''/skylex.v1.StorageService/DeleteStorageConfig'',
     ''/skylex.v1.StorageService/ValidateStorageConfig'', ''/skylex.v1.AuthService/CreateUser'', ''/skylex.v1.AuthService/DeleteUser'',
     ''/skylex.v1.AuthService/CreateAPIKey'', ''/skylex.v1.AuthService/DeleteAPIKey'', ''/skylex.v1.AuthService/CreateAgentToken'',
     ''/skylex.v1.AuthService/DeleteAgentToken'']"

definition isUnauthenticated :: "bool \<Rightarrow> string \<Rightarrow> bool" where
  "isUnauthenticated devMode path =
     (if path = ''/install-agent.sh'' \<or> path = ''/skylex-agent'' then devMode
      else if path = ''/'' \<or> path = ''/panel'' \<or> strings_HasPrefix path ''/panel/'' then True
      else path \<in> set unauthenticatedPaths)"

definition isWriteMethod :: "string \<Rightarrow> bool" where
  "isWriteMethod path \<longleftrightarrow> path \<in> set writeMethods"

text \<open>
  What the guard answers: a status of its own, the response of the handler, or the panic of slicing an
  authorization header of another scheme that is shorter than 20 bytes (\<open>authHeader[:20]\<close>).
\<close>

datatype 'a http_reply = StatusNoContent | StatusUnauthorized | StatusForbidden | Served 'a | HandlerPanic string

definition extractHTTPAuth :: "JWTManager \<Rightarrow> string \<Rightarrow> JWTClaims rpc io" where
  "extractHTTPAuth m authHeader =
     (if authHeader = [] then fail Unauthenticated ''missing authorization header''
      else if strings_HasPrefix authHeader ''Bearer ''
      then or_status Unauthenticated ''invalid bearer token'' (ValidateToken m (strings_TrimPrefix authHeader ''Bearer '')) reply
      else if length authHeader < 20 then State_Monad.return (Inl (Panic ''slice bounds out of range''))
      else fail Unauthenticated ''unsupported auth scheme'')"

definition served :: "'a io \<Rightarrow> 'a http_reply io" where
  "served m = do { a \<leftarrow> m; State_Monad.return (Served a) }"

definition connectInterceptors ::
  "JWTManager \<Rightarrow> bool \<Rightarrow> string \<Rightarrow> string \<Rightarrow> string \<Rightarrow> (request_context \<Rightarrow> 'a io) \<Rightarrow> 'a http_reply io" where
  "connectInterceptors m devMode httpMethod path authHeader h =
     (if httpMethod = ''OPTIONS'' then State_Monad.return StatusNoContent
      else if isUnauthenticated devMode path then served (h anonymous)
      else do {
        r \<leftarrow> extractHTTPAuth m authHeader;
        (case r of
          Inl (Panic msg) \<Rightarrow> State_Monad.return (HandlerPanic msg)
        | Inl (Status _ _) \<Rightarrow> State_Monad.return StatusUnauthorized
        | Inr claims \<Rightarrow>
            if Claims_Role claims = RoleViewer \<and> isWriteMethod path then State_Monad.return StatusForbidden
            else served (h (context_of claims)))
      })"

section \<open>The guards\<close>

definition claims_of_user :: "User \<Rightarrow> JWTClaims" where
  "claims_of_user u = \<lparr>Claims_UserID = User_ID u, Claims_Email = User_Email u, Claims_Role = User_Role u\<rparr>"

definition token_claims :: "JWTManager \<Rightarrow> Time \<Rightarrow> string \<Rightarrow> JWTClaims \<Rightarrow> bool" where
  "token_claims m now token c \<longleftrightarrow>
     (\<exists>p. jwt_parse (jwt_library m) (hmac_key (jwt_secret m)) now token = Inr p \<and> JWTClaims_of p = Some c)"

definition key_claims :: "aead \<Rightarrow> string \<Rightarrow> db \<Rightarrow> JWTClaims \<Rightarrow> bool" where
  "key_claims A key d c \<longleftrightarrow> (\<exists>k u.
     List.find (\<lambda>k. Key_KeyHash k = HashToken A key) (api_keys d) = Some k \<and>
     List.find (\<lambda>u. User_ID u = Key_UserID k) (users d) = Some u \<and> c = claims_of_user u)"

text \<open>The claims the credentials of a request prove.\<close>

definition identified :: "AuthInterceptor \<Rightarrow> string list option \<Rightarrow> Time \<Rightarrow> db \<Rightarrow> JWTClaims \<Rightarrow> bool" where
  "identified i md now d c \<longleftrightarrow>
     (\<exists>token rest. md = Some ((''Bearer '' @ token) # rest) \<and> token_claims (AI_jwtManager i) now token c) \<or>
     (\<exists>key rest. md = Some ((''ApiKey '' @ key) # rest) \<and> key_claims (AI_aead i) key d c)"

text \<open>The contexts in which a method may run.\<close>

definition admitted :: "AuthInterceptor \<Rightarrow> string \<Rightarrow> string list option \<Rightarrow> Time \<Rightarrow> db \<Rightarrow> request_context \<Rightarrow> bool" where
  "admitted i m md now d ctx \<longleftrightarrow>
     m \<in> set unauthenticatedMethods \<and> ctx = anonymous \<or>
     (\<exists>c. identified i md now d c \<and> ctx = context_of c \<and> (Claims_Role c = RoleViewer \<longrightarrow> m \<in> set viewerAllowedMethods))"

lemma HasPrefix_split: "strings_HasPrefix s p \<Longrightarrow> s = p @ strings_TrimPrefix s p"
  by (metis append_take_drop_id strings_HasPrefix_def strings_TrimPrefix_def)

lemma wp_ValidateToken:
  "wp (ValidateToken m token) (\<lambda>r w'. store w' = store w \<and> the_env w' = the_env w \<and>
     (\<forall>c. r = Inr c \<longleftrightarrow> token_claims m (clock (the_env w) (n_now w)) token c)) w"
  by (auto simp: ValidateToken_def token_claims_def wp_simps split: sum.splits option.splits)

lemma wp_authenticateAPIKey:
  "wp (authenticateAPIKey i key) (\<lambda>r w'. store w' = store w \<and> the_env w' = the_env w \<and>
     (\<forall>c. r = Inr c \<longrightarrow> key_claims (AI_aead i) key (store w) c)) w"
  by (auto simp: authenticateAPIKey_def apikeys_GetByKeyHash_def users_GetByID_def key_claims_def claims_of_user_def
      wp_simps split: sum.splits option.splits)

lemma wp_authenticate:
  "wp (authenticate i md) (\<lambda>r w'. store w' = store w \<and> the_env w' = the_env w \<and>
     (\<forall>c. r = Inr c \<longrightarrow> identified i md (clock (the_env w) (n_now w)) (store w) c)) w"
proof -
  consider "md = None" | "md = Some []" | (bearer) token rest where "md = Some ((''Bearer '' @ token) # rest)"
    | (key) key rest where "md = Some ((''ApiKey '' @ key) # rest)"
    | (other) h rest where "md = Some (h # rest)" "\<not> strings_HasPrefix h ''Bearer ''" "\<not> strings_HasPrefix h ''ApiKey ''"
    by (metis HasPrefix_split list.exhaust option.exhaust)
  then show ?thesis
  proof cases
    case bearer
    have "authenticate i md = ValidateToken (AI_jwtManager i) token"
      by (simp add: authenticate_def bearer del: append_Cons)
    then show ?thesis
      using wp_ValidateToken [of "AI_jwtManager i" token w] bearer
      by (auto simp: identified_def elim!: wp_mono)
  next
    case key
    have "authenticate i md = authenticateAPIKey i key"
      by (simp add: authenticate_def key strings_HasPrefix_def del: append_Cons)
    then show ?thesis
      using wp_authenticateAPIKey [of i key w] key by (auto simp: identified_def elim!: wp_mono)
  qed (simp_all add: authenticate_def wp_return)
qed

lemma wp_UnaryInterceptor:
  assumes "\<And>c msg w'. store w' = store w \<Longrightarrow> c \<in> {Unauthenticated, PermissionDenied} \<Longrightarrow> Q (Inl (Status c msg)) w'"
    and "\<And>ctx w'. store w' = store w \<Longrightarrow> the_env w' = the_env w \<Longrightarrow>
      admitted i m md (clock (the_env w) (n_now w)) (store w) ctx \<Longrightarrow> wp (h ctx) Q w'"
  shows "wp (UnaryInterceptor i m md h) Q w"
proof (cases "m \<in> set unauthenticatedMethods")
  case True
  then show ?thesis unfolding UnaryInterceptor_def by (simp add: admitted_def assms(2))
next
  case False
  show ?thesis
    unfolding UnaryInterceptor_def if_not_P [OF False] wp_bind
    by (rule wp_mono [OF wp_authenticate])
      (auto simp: wp_simps admitted_def intro!: assms split: sum.splits)
qed

section \<open>Properties\<close>

text \<open>
  C3: the gate of the gRPC server. For every handler and method, either the call is refused with
  \<open>Unauthenticated\<close> or \<open>PermissionDenied\<close> and no table changes, or the handler runs once on the same tables
  in a context that is admitted: the method is one of those open to everyone and the context is empty, or
  the context holds the identity proved by a bearer token the library accepts or by a stored API key of an
  existing user, and a viewer only runs the methods viewers may call.
\<close>

theorem interceptor_admits:
  "case run_state (UnaryInterceptor i m md h) w of (r, w') \<Rightarrow>
     (store w' = store w \<and> (\<exists>c msg. r = Inl (Status c msg) \<and> c \<in> {Unauthenticated, PermissionDenied})) \<or>
     (\<exists>ctx w1. admitted i m md (clock (the_env w) (n_now w)) (store w) ctx \<and> store w1 = store w \<and>
        run_state (h ctx) w1 = (r, w'))"
proof -
  have "wp (UnaryInterceptor i m md h) (\<lambda>r w'.
     (store w' = store w \<and> (\<exists>c msg. r = Inl (Status c msg) \<and> c \<in> {Unauthenticated, PermissionDenied})) \<or>
     (\<exists>ctx w1. admitted i m md (clock (the_env w) (n_now w)) (store w) ctx \<and> store w1 = store w \<and>
        run_state (h ctx) w1 = (r, w'))) w"
    by (rule wp_UnaryInterceptor) (auto simp: wp_def split: prod.splits)
  then show ?thesis by (simp add: wp_def split: prod.splits)
qed

text \<open>
  What the documentation of golang-jwt promises: a signed token parses, while its time claims hold and the key
  function returns the secret it was signed with, to the claims it was made of.
\<close>

definition times_hold :: "Time \<Rightarrow> payload \<Rightarrow> bool" where
  "times_hold now p = (case p of Text _ \<Rightarrow> False | Json fs \<Rightarrow>
     (case map_of fs ''exp'' of Some (JInt e) \<Rightarrow> now < e * 10 ^ 9 | _ \<Rightarrow> True) \<and>
     (case map_of fs ''nbf'' of Some (JInt e) \<Rightarrow> e * 10 ^ 9 \<le> now | _ \<Rightarrow> True))"

definition jwt_ok :: "jwt_lib \<Rightarrow> bool" where
  "jwt_ok L \<longleftrightarrow> (\<forall>secret p t kf now. jwt_sign L secret p = Inr t \<longrightarrow> kf ''HS256'' = Inr secret \<longrightarrow> times_hold now p \<longrightarrow>
     jwt_parse L kf now t = Inr p)"

lemma signed_token_claims:
  assumes "jwt_ok (jwt_library m)" "jwt_sign (jwt_library m) (jwt_secret m) p = Inr t" "times_hold now p" "JWTClaims_of p = Some c"
  shows "token_claims m now t c"
  using assms by (auto simp: jwt_ok_def token_claims_def hmac_key_def)

lemma bearer_admits:
  assumes "token_claims (AI_jwtManager i) (clock (the_env w) (n_now w)) token c"
    and "m \<notin> set unauthenticatedMethods" "Claims_Role c \<noteq> RoleViewer \<or> m \<in> set viewerAllowedMethods"
  shows "\<exists>w1. store w1 = store w \<and>
     run_state (UnaryInterceptor i m (Some [''Bearer '' @ token]) h) w = run_state (h (context_of c)) w1"
proof -
  obtain r w1 where v: "run_state (ValidateToken (AI_jwtManager i) token) w = (r, w1)" by fastforce
  then have r: "r = Inr c" and w1: "store w1 = store w"
    using wp_ValidateToken [of "AI_jwtManager i" token w] assms(1) by (auto simp: wp_def)
  have "authenticate i (Some [''Bearer '' @ token]) = ValidateToken (AI_jwtManager i) token"
    by (simp add: authenticate_def del: append_Cons)
  then have "run_state (UnaryInterceptor i m (Some [''Bearer '' @ token]) h) w = run_state (h (context_of c)) w1"
    using v r assms(2,3) by (auto simp: UnaryInterceptor_def State_Monad.bind_def)
  then show ?thesis using w1 by blast
qed

text \<open>
  C30: a refresh token opens every method. The server signs access and refresh tokens with the same secret and
  checks neither their kind nor their audience: presented as a bearer token, the refresh token of any user, a
  viewer for instance, is accepted until it expires, with an empty identity and an empty role, and since
  only the role \<open>viewer\<close> is restricted the handler of every method runs.
\<close>

theorem refresh_token_opens_all_methods:
  assumes "jwt_ok (jwt_library (AI_jwtManager i))"
    and "jwt_sign (jwt_library (AI_jwtManager i)) (jwt_secret (AI_jwtManager i)) (refresh_claims (AI_jwtManager i) user t) = Inr token"
    and "clock (the_env w) (n_now w) + 10 ^ 9 \<le> t + refreshExpiry (AI_jwtManager i)"
  shows "\<exists>w1. store w1 = store w \<and>
     run_state (UnaryInterceptor i m (Some [''Bearer '' @ token]) h) w = run_state (h anonymous) w1"
proof (cases "m \<in> set unauthenticatedMethods")
  case True
  then show ?thesis by (auto simp: UnaryInterceptor_def)
next
  case False
  let ?c = "\<lparr>Claims_UserID = [], Claims_Email = [], Claims_Role = RoleNone\<rparr>"
  have "token_claims (AI_jwtManager i) (clock (the_env w) (n_now w)) token ?c"
    by (rule signed_token_claims [OF assms(1,2)])
      (use assms(3) in \<open>simp_all add: refresh_claims_def times_hold_def NewNumericDate_def JWTClaims_of_def json_str_def role_of_name_def\<close>)
  from bearer_admits [OF this False, of h] show ?thesis by (simp add: context_of_def anonymous_def)
qed

text \<open>A library that signs the one token of the table.\<close>

definition sample_jwt :: "payload \<Rightarrow> string \<Rightarrow> jwt_lib" where
  "sample_jwt p token = \<lparr>
     jwt_sign = (\<lambda>secret q. if secret = ''s3cret'' \<and> q = p then Inr token else Inl ''unsupported claims''),
     jwt_parse = (\<lambda>kf now t. if t = token \<and> kf ''HS256'' = Inr ''s3cret'' \<and> times_hold now p then Inr p else Inl ''token is invalid'')\<rparr>"

lemma sample_jwt_ok [simp]: "jwt_ok (sample_jwt p token)"
  by (auto simp: jwt_ok_def sample_jwt_def split: if_splits)

definition sample_user :: "Role \<Rightarrow> User" where
  "sample_user r = \<lparr>User_ID = ''u1'', User_Email = ''u1@example.org'', User_PasswordHash = ''h'', User_DisplayName = ''U'',
     User_Role = r, User_CreatedAt = 0, User_UpdatedAt = 0\<rparr>"

definition sample_manager :: "(JWTManager \<Rightarrow> payload) \<Rightarrow> JWTManager" where
  "sample_manager f = (
     let m = \<lparr>jwt_library = sample_jwt (Json []) [], jwt_secret = ''s3cret'', tokenExpiry = 900 * 10 ^ 9, refreshExpiry = 86400 * 10 ^ 9\<rparr>
     in m\<lparr>jwt_library := sample_jwt (f m) ''token''\<rparr>)"

definition refresh_manager :: JWTManager where
  "refresh_manager = sample_manager (\<lambda>m. refresh_claims m (sample_user RoleViewer) 0)"

theorem refresh_token_opens_all_methods_witness:
  "\<exists>w1. store w1 = store (world_of empty_db) \<and>
     run_state (UnaryInterceptor \<lparr>AI_jwtManager = refresh_manager, AI_aead = sample_aead\<rparr> ''/skylex.v1.ClusterService/DeleteCluster''
        (Some [''Bearer token'']) (\<lambda>ctx. reply ctx)) (world_of empty_db) = run_state (reply anonymous) w1"
proof -
  let ?i = "\<lparr>AI_jwtManager = refresh_manager, AI_aead = sample_aead\<rparr>"
  have "\<exists>w1. store w1 = store (world_of empty_db) \<and>
     run_state (UnaryInterceptor ?i ''/skylex.v1.ClusterService/DeleteCluster'' (Some [''Bearer '' @ ''token'']) (\<lambda>ctx. reply ctx)) (world_of empty_db)
     = run_state (reply anonymous) w1"
    by (rule refresh_token_opens_all_methods [where t = 0 and user = "sample_user RoleViewer"])
      (simp_all add: refresh_manager_def sample_manager_def Let_def refresh_claims_def, simp_all add: sample_jwt_def sample_env_def)
  then show ?thesis by simp
qed

text \<open>
  API keys do not expire. The expiry of a key is compared with the time the key was created instead
  of the current time: a key whose expiry lies after its creation is accepted at every later time.
\<close>

theorem api_key_never_expires:
  assumes "List.find (\<lambda>k. Key_KeyHash k = HashToken (AI_aead i) key) (api_keys (store w)) = Some k"
    and "List.find (\<lambda>u. User_ID u = Key_UserID k) (users (store w)) = Some u"
    and "Key_ExpiresAt k = Some t" "Key_CreatedAt k \<le> t" "\<forall>n. t < clock (the_env w) n" "no_faults w"
  shows "result (authenticateAPIKey i key) w = Inr (claims_of_user u)"
proof -
  have "wp (authenticateAPIKey i key) (\<lambda>r _. r = Inr (claims_of_user u)) w"
    using assms by (auto simp: authenticateAPIKey_def apikeys_GetByKeyHash_def users_GetByID_def expired_key_def
        claims_of_user_def wp_simps no_faultsD)
  then show ?thesis by (simp add: wp_outcome)
qed

definition keyed_db :: db where
  "keyed_db = empty_db\<lparr>users := [sample_user RoleAdmin], api_keys := [\<lparr>Key_ID = ''k1'', Key_UserID = ''u1'', Key_Name = ''ci'',
     Key_KeyHash = HashToken sample_aead ''key'', Key_ExpiresAt = Some (- 5), Key_CreatedAt = - 10\<rparr>]\<rparr>"

theorem api_key_never_expires_witness:
  "result (authenticateAPIKey \<lparr>AI_jwtManager = refresh_manager, AI_aead = sample_aead\<rparr> ''key'') (world_of keyed_db) =
     Inr (claims_of_user (sample_user RoleAdmin))"
  by (rule api_key_never_expires [where k = "hd (api_keys keyed_db)" and t = "- 5"])
    (simp_all add: keyed_db_def sample_user_def sample_env_def fault_free_def)

text \<open>The changes that only the gRPC guard protects.\<close>

definition unguarded :: "string list" where
  "unguarded = [''/skylex.v1.PostgresManagementService/GenerateTLSCA'', ''/skylex.v1.PostgresManagementService/UpdateTLSConfig'',
     ''/skylex.v1.PostgresManagementService/ApplyTLS'', ''/skylex.v1.AuthService/GetAgentInstallCommand'']"

lemma unguarded_paths:
  assumes "path \<in> set unguarded"
  shows "\<not> isUnauthenticated dev path" "\<not> isWriteMethod path" "path \<notin> set viewerAllowedMethods" "path \<notin> set unauthenticatedMethods"
proof -
  have "list_all (\<lambda>p. \<not> isUnauthenticated True p \<and> \<not> isUnauthenticated False p \<and> \<not> isWriteMethod p \<and>
      p \<notin> set viewerAllowedMethods \<and> p \<notin> set unauthenticatedMethods) unguarded"
    by code_simp
  then show "\<not> isUnauthenticated dev path" "\<not> isWriteMethod path" "path \<notin> set viewerAllowedMethods" "path \<notin> set unauthenticatedMethods"
    using assms by (cases dev; simp add: list_all_iff)+
qed

lemma ValidateToken_run:
  assumes "token_claims m (clock (the_env w) (n_now w)) token c"
  obtains w1 where "run_state (ValidateToken m token) w = (Inr c, w1)" "store w1 = store w"
  using wp_ValidateToken [of m token w] assms by (cases "run_state (ValidateToken m token) w") (auto simp: wp_def)

text \<open>
  C31: the two guards disagree. Over HTTP the guard passes a viewer on to the three methods that change the TLS
  configuration and to the install command, while the gRPC guard refuses all four. Apart from these and the sign-in, every audited method is one the HTTP guard refuses
  to viewers.
\<close>

theorem viewer_changes_over_http:
  assumes "token_claims m (clock (the_env w) (n_now w)) token c" "Claims_Role c = RoleViewer" "path \<in> set unguarded"
  shows "result (connectInterceptors m dev ''POST'' path (''Bearer '' @ token) (\<lambda>ctx. State_Monad.return ctx)) w = Served (context_of c) \<and>
    result (UnaryInterceptor \<lparr>AI_jwtManager = m, AI_aead = A\<rparr> path (Some [''Bearer '' @ token]) (\<lambda>ctx. reply ctx)) w
      = Inl (Status PermissionDenied ''insufficient permissions'') \<and>
    filter (\<lambda>p. \<not> isWriteMethod p) (map fst audit_actions) = butlast unguarded @ [''/skylex.v1.AuthService/Login'']"
proof -
  obtain w1 where v: "run_state (ValidateToken m token) w = (Inr c, w1)"
    using ValidateToken_run [OF assms(1)] by blast
  note path = unguarded_paths [OF assms(3)]
  have "authenticate \<lparr>AI_jwtManager = m, AI_aead = A\<rparr> (Some [''Bearer '' @ token]) = ValidateToken m token"
    by (simp add: authenticate_def del: append_Cons)
  then have grpc: "result (UnaryInterceptor \<lparr>AI_jwtManager = m, AI_aead = A\<rparr> path (Some [''Bearer '' @ token]) (\<lambda>ctx. reply ctx)) w
      = Inl (Status PermissionDenied ''insufficient permissions'')"
    using v path assms(2) by (simp add: UnaryInterceptor_def State_Monad.bind_def fail_def State_Monad.return_def result_def)
  have "extractHTTPAuth m (''Bearer '' @ token) = or_status Unauthenticated ''invalid bearer token'' (ValidateToken m token) reply"
    by (simp add: extractHTTPAuth_def del: append_Cons)
  then have "result (connectInterceptors m dev ''POST'' path (''Bearer '' @ token) (\<lambda>ctx. State_Monad.return ctx)) w = Served (context_of c)"
    using v path by (simp add: connectInterceptors_def served_def or_status_def try_do_def reply_def State_Monad.bind_def State_Monad.return_def result_def)
  moreover have "filter (\<lambda>p. \<not> isWriteMethod p) (map fst audit_actions) = butlast unguarded @ [''/skylex.v1.AuthService/Login'']"
    by code_simp
  ultimately show ?thesis using grpc by blast
qed

definition viewer_manager :: JWTManager where
  "viewer_manager = sample_manager (\<lambda>m. access_claims m (sample_user RoleViewer) 0)"

theorem viewer_changes_over_http_witness:
  "result (connectInterceptors viewer_manager False ''POST'' ''/skylex.v1.AuthService/GetAgentInstallCommand'' (''Bearer '' @ ''token'')
     (\<lambda>ctx. State_Monad.return ctx)) (world_of empty_db) = Served (context_of (claims_of_user (sample_user RoleViewer)))"
proof -
  have "token_claims viewer_manager (clock (the_env (world_of empty_db)) (n_now (world_of empty_db))) ''token''
     (claims_of_user (sample_user RoleViewer))"
    by (rule signed_token_claims [where p = "access_claims viewer_manager (sample_user RoleViewer) 0"])
      (simp_all add: viewer_manager_def sample_manager_def Let_def access_claims_def,
       simp_all add: sample_jwt_def times_hold_def sample_env_def NewNumericDate_def JWTClaims_of_def json_str_def sample_user_def
         role_of_name_def claims_of_user_def)
  from viewer_changes_over_http [OF this, of "''/skylex.v1.AuthService/GetAgentInstallCommand''" False sample_aead]
  show ?thesis by (simp add: claims_of_user_def sample_user_def unguarded_def)
qed

end
