(* ===== verification/AuthService.thy ===== *)
theory AuthService
  imports Auth "HOL-Library.Countable"
begin

text \<open>
  \<open>internal/server/auth_service.go\<close> (sign-in, users, API keys, agent tokens), the password functions of
  \<open>internal/crypto/crypto.go\<close> and \<open>ensureDefaultAdmin\<close> of \<open>server.go\<close>.
\<close>

section \<open>Passwords\<close>

record bcrypt_lib =
  bcrypt_GenerateFromPassword :: "string \<Rightarrow> string \<Rightarrow> string res"
  bcrypt_CompareHashAndPassword :: "string \<Rightarrow> string \<Rightarrow> string option"

definition HashPassword :: "bcrypt_lib \<Rightarrow> string \<Rightarrow> string res io" where
  "HashPassword B password = do {
     salt \<leftarrow> read_nonce;
     State_Monad.return (case bcrypt_GenerateFromPassword B salt password of
       Inl e \<Rightarrow> Inl (wrap ''hash password'' e)
     | Inr h \<Rightarrow> Inr h)
   }"

definition VerifyPassword :: "bcrypt_lib \<Rightarrow> string \<Rightarrow> string \<Rightarrow> bool" where
  "VerifyPassword B password hash = (bcrypt_CompareHashAndPassword B hash password = None)"

section \<open>The service and its messages\<close>

record AuthService =
  Auth_jwtManager :: JWTManager
  Auth_bcrypt :: bcrypt_lib
  Auth_aead :: aead
  Auth_DevMode :: bool
  Auth_HTTPPort :: int
  Auth_AdvertiseAddr :: string
  Auth_version :: string

record ProtoUser =
  PUser_Id :: string
  PUser_Email :: string
  PUser_DisplayName :: string
  PUser_Role :: PRole
  PUser_CreatedAt :: Time

record ProtoAPIKey =
  PKey_Id :: string
  PKey_Name :: string
  PKey_CreatedAt :: Time
  PKey_ExpiresAt :: "Time option"

record ProtoAgentToken =
  PToken_Id :: string
  PToken_Name :: string
  PToken_Role :: PRole
  PToken_CreatedAt :: Time
  PToken_ExpiresAt :: "Time option"

record LoginResponse =
  Login_AccessToken :: string
  Login_RefreshToken :: string
  Login_User :: ProtoUser

record CreateUserRequest =
  CU_Email :: string
  CU_Password :: string
  CU_DisplayName :: string
  CU_Role :: PRole

record InstallCommand =
  Inst_ScriptUrl :: string
  Inst_ServerAddr :: string
  Inst_Token :: string

definition role_to_proto :: "Role \<Rightarrow> PRole" where
  "role_to_proto r = (case r of RoleAdmin \<Rightarrow> ROLE_ADMIN | RoleOperator \<Rightarrow> ROLE_OPERATOR | _ \<Rightarrow> ROLE_VIEWER)"

definition userToProto :: "User \<Rightarrow> ProtoUser" where
  "userToProto u = \<lparr>PUser_Id = User_ID u, PUser_Email = User_Email u, PUser_DisplayName = User_DisplayName u,
     PUser_Role = role_to_proto (User_Role u), PUser_CreatedAt = User_CreatedAt u\<rparr>"

definition apiKeyToProto :: "APIKey \<Rightarrow> ProtoAPIKey" where
  "apiKeyToProto k = \<lparr>PKey_Id = Key_ID k, PKey_Name = Key_Name k, PKey_CreatedAt = Key_CreatedAt k,
     PKey_ExpiresAt = Key_ExpiresAt k\<rparr>"

definition agentTokenToProto :: "AgentToken \<Rightarrow> ProtoAgentToken" where
  "agentTokenToProto t = \<lparr>PToken_Id = Token_ID t, PToken_Name = Token_Name t, PToken_Role = role_to_proto (Token_Role t),
     PToken_CreatedAt = Token_CreatedAt t, PToken_ExpiresAt = Token_ExpiresAt t\<rparr>"

section \<open>Signing in\<close>

definition issue_tokens :: "JWTManager \<Rightarrow> User \<Rightarrow> (string \<Rightarrow> string \<Rightarrow> 'a rpc io) \<Rightarrow> 'a rpc io" where
  "issue_tokens m user k =
     or_status Internal ''generate access token'' (GenerateAccessToken m user) (\<lambda>accessToken.
     or_status Internal ''generate refresh token'' (GenerateRefreshToken m user) (\<lambda>refreshToken.
     k accessToken refreshToken))"

definition Login :: "AuthService \<Rightarrow> string \<Rightarrow> string \<Rightarrow> LoginResponse rpc io" where
  "Login s email password = do {
     r \<leftarrow> users_GetByEmail email;
     (case r of
       Inl _ \<Rightarrow> fail Unauthenticated ''invalid email or password''
     | Inr user \<Rightarrow>
         if \<not> VerifyPassword (Auth_bcrypt s) password (User_PasswordHash user)
         then fail Unauthenticated ''invalid email or password''
         else issue_tokens (Auth_jwtManager s) user (\<lambda>accessToken refreshToken.
           reply \<lparr>Login_AccessToken = accessToken, Login_RefreshToken = refreshToken, Login_User = userToProto user\<rparr>))
   }"

definition RefreshToken :: "AuthService \<Rightarrow> string \<Rightarrow> (string \<times> string) rpc io" where
  "RefreshToken s token = do {
     v \<leftarrow> ValidateRefreshToken (Auth_jwtManager s) token;
     (case v of
       Inl _ \<Rightarrow> fail Unauthenticated ''invalid refresh token''
     | Inr userID \<Rightarrow> do {
         r \<leftarrow> users_GetByID userID;
         (case r of
           Inl _ \<Rightarrow> fail Unauthenticated ''user not found''
         | Inr user \<Rightarrow> issue_tokens (Auth_jwtManager s) user (\<lambda>accessToken refreshToken.
             reply (accessToken, refreshToken)))
       })
   }"

section \<open>Users\<close>

definition ListUsers :: "int \<Rightarrow> int \<Rightarrow> (ProtoUser list \<times> Pagination) rpc io" where
  "ListUsers req_page req_pageSize = (
     let pg = (if req_page < 1 then 1 else req_page);
         pageSize = (if req_pageSize < 1 \<or> req_pageSize > 100 then 20 else req_pageSize)
     in or_status Internal ''list users'' (users_List pg pageSize) (\<lambda>(us, n).
        reply (map userToProto us, \<lparr>Pag_Page = to_int32 pg, Pag_PageSize = to_int32 pageSize, Pag_Total = to_int32 (int n)\<rparr>)))"

definition new_user_role :: "PRole \<Rightarrow> Role" where
  "new_user_role r = (case r of ROLE_ADMIN \<Rightarrow> RoleAdmin | ROLE_OPERATOR \<Rightarrow> RoleOperator | _ \<Rightarrow> RoleViewer)"

definition CreateUser :: "AuthService \<Rightarrow> CreateUserRequest \<Rightarrow> ProtoUser rpc io" where
  "CreateUser s req =
     (if CU_Email req = [] \<or> CU_Password req = [] then fail InvalidArgument ''email and password are required''
      else or_status Internal ''hash password'' (HashPassword (Auth_bcrypt s) (CU_Password req)) (\<lambda>passwordHash. do {
        now \<leftarrow> time_now;
        uid \<leftarrow> id_New;
        let user = \<lparr>User_ID = uid, User_Email = CU_Email req, User_PasswordHash = passwordHash,
               User_DisplayName = CU_DisplayName req, User_Role = new_user_role (CU_Role req),
               User_CreatedAt = now, User_UpdatedAt = now\<rparr>;
        or_status Internal ''create user'' (users_Create user) (\<lambda>_. reply (userToProto user))
      }))"

definition DeleteUser :: "string \<Rightarrow> unit rpc io" where
  "DeleteUser i = or_status Internal ''delete user'' (users_Delete i) reply"

definition ensureDefaultAdmin :: "bcrypt_lib \<Rightarrow> unit res io" where
  "ensureDefaultAdmin B =
     try_do (users_List 1 1) (\<lambda>e. Inl (wrap ''count users'' e)) (\<lambda>(_, n).
     if n > 0 then State_Monad.return (Inr ())
     else try_do (HashPassword B ''admin'') (\<lambda>e. Inl (wrap ''hash default admin password'' e)) (\<lambda>hash. do {
       now \<leftarrow> time_now;
       uid \<leftarrow> id_New;
       try_do (users_Create \<lparr>User_ID = uid, User_Email = ''admin@skylex.local'', User_PasswordHash = hash,
           User_DisplayName = ''Administrator'', User_Role = RoleAdmin, User_CreatedAt = now, User_UpdatedAt = now\<rparr>)
         (\<lambda>e. Inl (wrap ''create default admin'' e)) (\<lambda>_. State_Monad.return (Inr ()))
     }))"

section \<open>API keys and agent tokens\<close>

definition CreateAPIKey :: "AuthService \<Rightarrow> request_context \<Rightarrow> string \<Rightarrow> Time option \<Rightarrow> (ProtoAPIKey \<times> string) rpc io" where
  "CreateAPIKey s ctx name expiresAt =
     (if UserIDFromContext ctx = [] then fail Unauthenticated ''authentication required''
      else do {
        rawKey \<leftarrow> GenerateToken;
        kid \<leftarrow> id_New;
        now \<leftarrow> time_now;
        let apiKey = \<lparr>Key_ID = kid, Key_UserID = UserIDFromContext ctx, Key_Name = name,
               Key_KeyHash = HashToken (Auth_aead s) rawKey, Key_ExpiresAt = expiresAt, Key_CreatedAt = now\<rparr>;
        or_status Internal ''create api key'' (apikeys_Create apiKey) (\<lambda>_. reply (apiKeyToProto apiKey, rawKey))
      })"

definition ListAPIKeys :: "request_context \<Rightarrow> ProtoAPIKey list rpc io" where
  "ListAPIKeys ctx =
     (if UserIDFromContext ctx = [] then fail Unauthenticated ''authentication required''
      else or_status Internal ''list api keys'' (apikeys_ListByUserID (UserIDFromContext ctx)) (\<lambda>ks.
        reply (map apiKeyToProto ks)))"

definition DeleteAPIKey :: "string \<Rightarrow> unit rpc io" where
  "DeleteAPIKey i = or_status Internal ''delete api key'' (apikeys_Delete i) reply"

definition agent_token_role :: "PRole \<Rightarrow> Role" where
  "agent_token_role r = (case r of ROLE_ADMIN \<Rightarrow> RoleAdmin | ROLE_VIEWER \<Rightarrow> RoleViewer | _ \<Rightarrow> RoleOperator)"

definition CreateAgentToken :: "AuthService \<Rightarrow> string \<Rightarrow> PRole \<Rightarrow> Time option \<Rightarrow> (ProtoAgentToken \<times> string) rpc io" where
  "CreateAgentToken s name role expiresAt =
     (if name = [] then fail InvalidArgument ''name is required''
      else do {
        rawToken \<leftarrow> GenerateToken;
        let rawToken = ''sklx_at_'' @ rawToken;
        tid \<leftarrow> id_New;
        now \<leftarrow> time_now;
        let token = \<lparr>Token_ID = tid, Token_Name = name, Token_TokenHash = HashToken (Auth_aead s) rawToken,
               Token_Role = agent_token_role role, Token_ExpiresAt = expiresAt, Token_CreatedAt = now\<rparr>;
        or_status Internal ''create agent token'' (tokens_Create token) (\<lambda>_. reply (agentTokenToProto token, rawToken))
      })"

definition ListAgentTokens :: "ProtoAgentToken list rpc io" where
  "ListAgentTokens = or_status Internal ''list agent tokens'' tokens_List (\<lambda>ts. reply (map agentTokenToProto ts))"

definition DeleteAgentToken :: "string \<Rightarrow> unit rpc io" where
  "DeleteAgentToken i = or_status Internal ''delete agent token'' (tokens_Delete i) reply"

definition GetAgentInstallCommand :: "AuthService \<Rightarrow> InstallCommand rpc io" where
  "GetAgentInstallCommand s =
     try_do (CreateAgentToken s ''node-install'' ROLE_OPERATOR None) Inl (\<lambda>(_, token).
     reply \<lparr>Inst_ScriptUrl = (if Auth_DevMode s then ''http://localhost:'' @ dec (Auth_HTTPPort s) @ ''/install-agent.sh''
              else ''https://github.com/zhinea/skylex/releases/download/v'' @ Auth_version s @ ''/install-agent.sh''),
            Inst_ServerAddr = Auth_AdvertiseAddr s, Inst_Token = token\<rparr>)"

section \<open>Properties\<close>

text \<open>What bcrypt documents: a hash it generated compares equal with its password.\<close>

definition bcrypt_ok :: "bcrypt_lib \<Rightarrow> bool" where
  "bcrypt_ok B \<longleftrightarrow> (\<forall>salt pw h. bcrypt_GenerateFromPassword B salt pw = Inr h \<longrightarrow> bcrypt_CompareHashAndPassword B h pw = None)"

lemma find_new: "k \<notin> f ` set xs \<Longrightarrow> f y = k \<Longrightarrow> List.find (\<lambda>x. f x = k) (xs @ [y]) = Some y"
  by (induction xs) auto

lemma seconds_bounds: "t - 10 ^ 9 < t div 10 ^ 9 * 10 ^ 9 \<and> t div 10 ^ 9 * 10 ^ 9 \<le> (t :: int)"
proof -
  have "0 \<le> t mod 10 ^ 9" "t mod 10 ^ 9 < 10 ^ 9" by simp_all
  then show ?thesis using div_mult_mod_eq [of t "10 ^ 9"] by linarith
qed

lemma wp_CreateUser:
  assumes "bcrypt_ok (Auth_bcrypt s)"
  shows "wp (CreateUser s req) (\<lambda>r w'. \<forall>pu. r = Inr pu \<longrightarrow> (\<exists>u. userToProto u = pu \<and> User_Email u = CU_Email req \<and>
     VerifyPassword (Auth_bcrypt s) (CU_Password req) (User_PasswordHash u) \<and>
     List.find (\<lambda>u. User_Email u = CU_Email req) (users (store w')) = Some u)) w"
  using assms
  by (auto simp: CreateUser_def HashPassword_def users_Create_def VerifyPassword_def bcrypt_ok_def wp_simps Let_def
      find_new split: sum.splits option.splits)

lemma access_token_claims:
  assumes "jwt_ok (jwt_library m)" "jwt_sign (jwt_library m) (jwt_secret m) (access_claims m u t) = Inr token"
    and "t \<le> now" "now + 10 ^ 9 \<le> t + tokenExpiry m"
  shows "token_claims m now token (claims_of_user u)"
  by (rule signed_token_claims [OF assms(1,2)])
    (use assms(3,4) seconds_bounds [of t] seconds_bounds [of "t + tokenExpiry m"] in \<open>simp_all add: access_claims_def times_hold_def NewNumericDate_def JWTClaims_of_def json_str_def claims_of_user_def\<close>)

lemma wp_Login:
  assumes "jwt_ok (jwt_library (Auth_jwtManager s))"
    and signs: "\<And>p. \<exists>t. jwt_sign (jwt_library (Auth_jwtManager s)) (jwt_secret (Auth_jwtManager s)) p = Inr t"
    and u: "List.find (\<lambda>u. User_Email u = email) (users (store w)) = Some u" "VerifyPassword (Auth_bcrypt s) password (User_PasswordHash u)"
    and "no_faults w"
  shows "wp (Login s email password) (\<lambda>r w'. \<exists>resp. r = Inr resp \<and> Login_User resp = userToProto u \<and>
     (\<forall>now. clock (the_env w) (n_now w) \<le> now \<and> now + 10 ^ 9 \<le> clock (the_env w) (n_now w) + tokenExpiry (Auth_jwtManager s) \<longrightarrow>
        token_claims (Auth_jwtManager s) now (Login_AccessToken resp) (claims_of_user u))) w"
proof -
  let ?m = "Auth_jwtManager s" and ?t = "clock (the_env w) (n_now w)"
  obtain a r where a: "jwt_sign (jwt_library ?m) (jwt_secret ?m) (access_claims ?m u ?t) = Inr a"
    and r: "jwt_sign (jwt_library ?m) (jwt_secret ?m) (refresh_claims ?m u (clock (the_env w) (Suc (n_now w)))) = Inr r"
    using signs by metis
  show ?thesis
    using access_token_claims [OF assms(1) a] u assms(5)
    by (simp add: Login_def users_GetByEmail_def issue_tokens_def GenerateAccessToken_def GenerateRefreshToken_def
        wp_simps no_faultsD a r)
qed

text \<open>
  C29: an account that was created can be used. Once \<open>CreateUser\<close> has succeeded, signing in with the same
  address and password succeeds on the resulting tables while no statement fails, returns the created
  user, and its access token proves the identity and the role of that user from the moment it was issued
  until less than a second before its expiry.
\<close>

theorem created_user_can_sign_in:
  assumes "bcrypt_ok (Auth_bcrypt s)" "jwt_ok (jwt_library (Auth_jwtManager s))"
    and "\<And>p. \<exists>t. jwt_sign (jwt_library (Auth_jwtManager s)) (jwt_secret (Auth_jwtManager s)) p = Inr t"
    and "result (CreateUser s req) w = Inr pu"
    and "store w2 = store (after (CreateUser s req) w)" "no_faults w2"
  shows "\<exists>resp u. result (Login s (CU_Email req) (CU_Password req)) w2 = Inr resp \<and> Login_User resp = pu \<and> userToProto u = pu \<and>
    (\<forall>now. clock (the_env w2) (n_now w2) \<le> now \<and> now + 10 ^ 9 \<le> clock (the_env w2) (n_now w2) + tokenExpiry (Auth_jwtManager s) \<longrightarrow>
       token_claims (Auth_jwtManager s) now (Login_AccessToken resp) (claims_of_user u))"
proof -
  obtain u where u: "userToProto u = pu" "VerifyPassword (Auth_bcrypt s) (CU_Password req) (User_PasswordHash u)"
    "List.find (\<lambda>u. User_Email u = CU_Email req) (users (store w2)) = Some u"
    using wp_CreateUser [OF assms(1), of req w] assms(4,5) by (auto simp: wp_outcome)
  from wp_Login [OF assms(2,3) u(3,2) assms(6)] u(1) show ?thesis by (auto simp: wp_outcome)
qed

text \<open>Libraries that keep their promises: a token is a numbering of its claims, a hash the password itself.\<close>

instance jval :: countable
  by countable_datatype

instance payload :: countable
  by countable_datatype

definition numbering_jwt :: jwt_lib where
  "numbering_jwt = \<lparr>jwt_sign = (\<lambda>secret p. Inr (replicate (to_nat p) CHR ''x'')),
     jwt_parse = (\<lambda>kf now t. if isl (kf ''HS256'') \<or> \<not> times_hold now (from_nat (length t)) then Inl ''token is invalid''
        else Inr (from_nat (length t)))\<rparr>"

definition plain_bcrypt :: bcrypt_lib where
  "plain_bcrypt = \<lparr>bcrypt_GenerateFromPassword = (\<lambda>salt pw. Inr pw),
     bcrypt_CompareHashAndPassword = (\<lambda>h pw. if h = pw then None else Some ''hashedPassword is not the hash of the given password'')\<rparr>"

definition sample_auth :: AuthService where
  "sample_auth = \<lparr>Auth_jwtManager = \<lparr>jwt_library = numbering_jwt, jwt_secret = ''s3cret'', tokenExpiry = 900 * 10 ^ 9,
       refreshExpiry = 86400 * 10 ^ 9\<rparr>, Auth_bcrypt = plain_bcrypt, Auth_aead = sample_aead, Auth_DevMode = False,
     Auth_HTTPPort = 8080, Auth_AdvertiseAddr = ''skylex.local'', Auth_version = ''1''\<rparr>"

definition alice :: CreateUserRequest where
  "alice = \<lparr>CU_Email = ''alice@example.org'', CU_Password = ''pw'', CU_DisplayName = ''Alice'', CU_Role = ROLE_OPERATOR\<rparr>"

lemma create_alice: "\<exists>pu. result (CreateUser sample_auth alice) (world_of empty_db) = Inr pu"
  unfolding wp_outcome [of _ "\<lambda>r _. \<exists>pu. r = Inr pu", symmetric]
  by (simp add: CreateUser_def HashPassword_def users_Create_def wp_simps Let_def alice_def sample_auth_def plain_bcrypt_def
      sample_env_def)

theorem created_user_can_sign_in_witness:
  "\<exists>resp. result (Login sample_auth ''alice@example.org'' ''pw'') ((world_of (store (after (CreateUser sample_auth alice) (world_of empty_db))))) = Inr resp"
proof -
  obtain pu where pu: "result (CreateUser sample_auth alice) (world_of empty_db) = Inr pu" using create_alice by blast
  let ?w2 = "world_of (store (after (CreateUser sample_auth alice) (world_of empty_db)))"
  have "bcrypt_ok (Auth_bcrypt sample_auth)" "jwt_ok (jwt_library (Auth_jwtManager sample_auth))"
    by (auto simp: sample_auth_def bcrypt_ok_def plain_bcrypt_def jwt_ok_def numbering_jwt_def isl_def)
  moreover have "\<exists>t. jwt_sign (jwt_library (Auth_jwtManager sample_auth)) (jwt_secret (Auth_jwtManager sample_auth)) p = Inr t" for p
    by (simp add: sample_auth_def numbering_jwt_def)
  ultimately show ?thesis
    using created_user_can_sign_in [of sample_auth alice "world_of empty_db" pu ?w2] pu
    by (auto simp: alice_def)
qed

end
