(* ===== verification/ConnectionProfiles.thy ===== *)
theory ConnectionProfiles
  imports FeatureRepos
begin

text \<open>
  \<open>internal/db/connection_profile_repo.go\<close> and \<open>internal/db/service_tls_ca_repo.go\<close>: how a cluster is
  reached, and the certificate authority the server keeps for it. A cluster without a stored profile has
  the default one. \<open>Upsert\<close> replaces the row in a transaction, keeping the time of its creation; a nil
  slice cannot reach it, so every stored list is a list.
\<close>

section \<open>Connection profiles\<close>

definition DefaultEndpointMode :: string where
  "DefaultEndpointMode = ''direct_primary''"

definition DefaultPublicPort :: int where
  "DefaultPublicPort = 5432"

definition DefaultSSLMode :: string where
  "DefaultSSLMode = ''disabled''"

definition default_profile :: "string \<Rightarrow> ConnectionProfile" where
  "default_profile clusterID = \<lparr>CP_ClusterID = clusterID, CP_EndpointMode = DefaultEndpointMode, CP_PublicHost = [],
     CP_PublicPort = DefaultPublicPort, CP_SSLMode = DefaultSSLMode, CP_AllowedCIDRs = [], CP_AllowedAdminCIDRs = [],
     CP_AllowedReplicationCIDRs = [], CP_TLSCertFile = [], CP_TLSKeyFile = [], CP_TLSCAFile = [],
     CP_CreatedAt = zero_time, CP_UpdatedAt = zero_time\<rparr>"

definition unmarshalCIDRs :: "string list option \<Rightarrow> string list" where
  "unmarshalCIDRs raw = (case raw of None \<Rightarrow> [] | Some cidrs \<Rightarrow> cidrs)"

definition scan_profile :: "ConnectionProfileRow \<Rightarrow> ConnectionProfile" where
  "scan_profile r = \<lparr>CP_ClusterID = Row_ClusterID r, CP_EndpointMode = Row_EndpointMode r, CP_PublicHost = Row_PublicHost r,
     CP_PublicPort = Row_PublicPort r, CP_SSLMode = Row_SSLMode r, CP_AllowedCIDRs = unmarshalCIDRs (Row_AllowedCIDRs r),
     CP_AllowedAdminCIDRs = unmarshalCIDRs (Row_AllowedAdminCIDRs r),
     CP_AllowedReplicationCIDRs = unmarshalCIDRs (Row_AllowedReplicationCIDRs r),
     CP_TLSCertFile = Row_TLSCertFile r, CP_TLSKeyFile = Row_TLSKeyFile r, CP_TLSCAFile = Row_TLSCAFile r,
     CP_CreatedAt = Row_CreatedAt r, CP_UpdatedAt = Row_UpdatedAt r\<rparr>"

definition profile_row :: "ConnectionProfile \<Rightarrow> Time \<Rightarrow> Time \<Rightarrow> ConnectionProfileRow" where
  "profile_row p createdAt now = \<lparr>Row_ClusterID = CP_ClusterID p, Row_EndpointMode = CP_EndpointMode p,
     Row_PublicHost = CP_PublicHost p, Row_PublicPort = CP_PublicPort p, Row_SSLMode = CP_SSLMode p,
     Row_AllowedCIDRs = Some (CP_AllowedCIDRs p), Row_AllowedAdminCIDRs = Some (CP_AllowedAdminCIDRs p),
     Row_AllowedReplicationCIDRs = Some (CP_AllowedReplicationCIDRs p), Row_TLSCertFile = CP_TLSCertFile p,
     Row_TLSKeyFile = CP_TLSKeyFile p, Row_TLSCAFile = CP_TLSCAFile p, Row_CreatedAt = createdAt, Row_UpdatedAt = now\<rparr>"

definition profile_of :: "db \<Rightarrow> string \<Rightarrow> ConnectionProfileRow option" where
  "profile_of d clusterID = List.find (\<lambda>r. Row_ClusterID r = clusterID) (cluster_connection_profiles d)"

definition profiles_GetByClusterID :: "string \<Rightarrow> ConnectionProfile res io" where
  "profiles_GetByClusterID clusterID =
     try_do (wrap_err ''scan connection profile'' (query (\<lambda>d. profile_of d clusterID))) Inl (\<lambda>row.
     State_Monad.return (Inr (case row of None \<Rightarrow> default_profile clusterID | Some r \<Rightarrow> scan_profile r)))"

definition profiles_insert :: "ConnectionProfileRow \<Rightarrow> unit res io" where
  "profiles_insert r = exec (\<lambda>d.
     if Row_ClusterID r \<in> Row_ClusterID ` set (cluster_connection_profiles d) then None
     else Some (d\<lparr>cluster_connection_profiles := cluster_connection_profiles d @ [r]\<rparr>))"

definition profiles_Upsert :: "ConnectionProfile \<Rightarrow> ConnectionProfile res io" where
  "profiles_Upsert p = do {
     now \<leftarrow> time_now;
     in_tx (\<lambda>e. Inl (wrap ''begin upsert connection profile'' e)) (\<lambda>e. Inl (wrap ''commit upsert connection profile'' e))
       (try_tx (query (\<lambda>d. profile_of d (CP_ClusterID p))) (\<lambda>e. Inl (wrap ''check existing profile'' e)) (\<lambda>row.
        let createdAt = (case row of None \<Rightarrow> now | Some r \<Rightarrow> Row_CreatedAt r) in
        try_tx (sql_write (\<lambda>d. d\<lparr>cluster_connection_profiles :=
                  del_where (\<lambda>r. Row_ClusterID r = CP_ClusterID p) (cluster_connection_profiles d)\<rparr>))
          (\<lambda>e. Inl (wrap ''delete old connection profile'' e)) (\<lambda>_.
        try_tx (profiles_insert (profile_row p createdAt now)) (\<lambda>e. Inl (wrap ''insert connection profile'' e)) (\<lambda>_.
        State_Monad.return (Commit (Inr (p\<lparr>CP_CreatedAt := createdAt, CP_UpdatedAt := now\<rparr>)))))))
   }"

section \<open>Certificate authorities\<close>

definition authority_of :: "db \<Rightarrow> string \<Rightarrow> ServiceTLSCA option" where
  "authority_of d clusterID = List.find (\<lambda>r. CA_ClusterID r = clusterID) (service_tls_authorities d)"

definition tlsca_GetByClusterID :: "string \<Rightarrow> ServiceTLSCA option res io" where
  "tlsca_GetByClusterID clusterID = wrap_err ''scan postgres tls ca'' (query (\<lambda>d. authority_of d clusterID))"

text \<open>\<open>INSERT ... ON CONFLICT (cluster_id) DO UPDATE\<close>.\<close>

definition upsert_authority :: "ServiceTLSCA \<Rightarrow> ServiceTLSCA list \<Rightarrow> ServiceTLSCA list" where
  "upsert_authority ca rows =
     (if CA_ClusterID ca \<in> CA_ClusterID ` set rows
      then upd_where (\<lambda>r. CA_ClusterID r = CA_ClusterID ca) (\<lambda>r. r\<lparr>CA_CACertPEM := CA_CACertPEM ca,
             CA_EncryptedCAKeyPEM := CA_EncryptedCAKeyPEM ca, CA_UpdatedAt := CA_UpdatedAt ca\<rparr>) rows
      else rows @ [ca])"

definition tlsca_Upsert :: "SecretRepository \<Rightarrow> string \<Rightarrow> string \<Rightarrow> string \<Rightarrow> ServiceTLSCA option res io" where
  "tlsca_Upsert r clusterID caCertPEM caKeyPEM =
     try_do (EncryptAES256GCM (repo_aead r) caKeyPEM (encryptKey r)) (\<lambda>e. Inl (wrap ''encrypt ca key'' e)) (\<lambda>ciphertext. do {
       now \<leftarrow> time_now;
       try_do (sql_write (\<lambda>d. d\<lparr>service_tls_authorities := upsert_authority
            \<lparr>CA_ClusterID = clusterID, CA_CACertPEM = caCertPEM, CA_EncryptedCAKeyPEM = base64_EncodeToString ciphertext,
             CA_CreatedAt = now, CA_UpdatedAt = now\<rparr> (service_tls_authorities d)\<rparr>))
         (\<lambda>e. Inl (wrap ''upsert postgres tls ca'' e)) (\<lambda>_.
       tlsca_GetByClusterID clusterID)
     })"

definition tlsca_DecryptCAKey :: "SecretRepository \<Rightarrow> ServiceTLSCA option \<Rightarrow> string res io" where
  "tlsca_DecryptCAKey r ca =
     (case ca of
        None \<Rightarrow> State_Monad.return (Inl ''ca is nil'')
      | Some c \<Rightarrow> open_secret r ''decode ca key'' ''decrypt ca key'' (CA_EncryptedCAKeyPEM c))"

section \<open>Properties\<close>

definition created_at :: "ConnectionProfileRow option \<Rightarrow> Time \<Rightarrow> Time" where
  "created_at row now = (case row of None \<Rightarrow> now | Some r \<Rightarrow> Row_CreatedAt r)"

definition profile_written :: "ConnectionProfile \<Rightarrow> Time \<Rightarrow> db \<Rightarrow> db" where
  "profile_written p now d = d\<lparr>cluster_connection_profiles :=
     del_where (\<lambda>r. Row_ClusterID r = CP_ClusterID p) (cluster_connection_profiles d)
       @ [profile_row p (created_at (profile_of d (CP_ClusterID p)) now) now]\<rparr>"

lemma wp_profiles_Upsert:
  "wp (profiles_Upsert p) (\<lambda>r w'. the_env w' = the_env w \<and>
     (case r of Inl _ \<Rightarrow> store w' = store w
      | Inr q \<Rightarrow> \<exists>now. store w' = profile_written p now (store w) \<and>
          q = p\<lparr>CP_CreatedAt := created_at (profile_of (store w) (CP_ClusterID p)) now, CP_UpdatedAt := now\<rparr>)) w"
  by (auto simp: profiles_Upsert_def wp_simps wp_in_tx Let_def profiles_insert_def profile_written_def created_at_def
      profile_row_def del_where_def split: option.splits)

lemma wp_profiles_GetByClusterID:
  "wp (profiles_GetByClusterID c) (\<lambda>r w'. the_env w' = the_env w \<and> store w' = store w \<and>
     (\<forall>p. r = Inr p \<longrightarrow> p = (case profile_of (store w) c of None \<Rightarrow> default_profile c | Some x \<Rightarrow> scan_profile x))) w"
  by (auto simp: profiles_GetByClusterID_def wp_simps split: option.splits)

lemma scan_profile_row:
  "scan_profile (profile_row p c n) = p\<lparr>CP_CreatedAt := c, CP_UpdatedAt := n\<rparr>"
  by (simp add: scan_profile_def profile_row_def unmarshalCIDRs_def)

lemma Row_ClusterID_profile_row [simp]: "Row_ClusterID (profile_row p c n) = CP_ClusterID p"
  by (simp add: profile_row_def)

lemma profile_of_written:
  "profile_of (profile_written p now d) c =
     (if c = CP_ClusterID p then Some (profile_row p (created_at (profile_of d c) now) now) else profile_of d c)"
proof -
  have gone: "List.find (\<lambda>r. Row_ClusterID r = CP_ClusterID p) (del_where (\<lambda>r. Row_ClusterID r = CP_ClusterID p) xs) = None"
    and other: "c \<noteq> CP_ClusterID p \<Longrightarrow> List.find (\<lambda>r. Row_ClusterID r = c)
      (del_where (\<lambda>r. Row_ClusterID r = CP_ClusterID p) xs) = List.find (\<lambda>r. Row_ClusterID r = c) xs" for xs
    by (induction xs) (auto simp: del_where_def)
  have app: "List.find q (xs @ ys) = (case List.find q xs of None \<Rightarrow> List.find q ys | Some x \<Rightarrow> Some x)" for q xs and ys :: "'z list"
    by (induction xs) auto
  show ?thesis
    by (auto simp: profile_of_def profile_written_def app gone other split: option.splits)
qed

end
