(* ===== verification/NetIP.thy ===== *)
theory NetIP
  imports ClusterSettings "HOL-Library.Word"
begin

text \<open>
  What \<open>postgres_management_service.go\<close> uses of \<open>net/netip\<close>: addresses, prefixes in CIDR notation and
  their canonical form. The syntax of a single address (dotted or hexadecimal groups) is left to the two
  functions of \<open>netip\<close>, of which only the documented round trip is assumed (\<open>netip_ok\<close>); prefixes are
  parsed, masked and printed here. A prefix never carries a zone.
\<close>

datatype Addr = Addr4 "32 word" | Addr6 "128 word" string

type_synonym Prefix = "Addr \<times> nat"

record netip =
  ParseAddr :: "string \<Rightarrow> string + Addr"
  AddrString :: "Addr \<Rightarrow> string"

fun BitLen :: "Addr \<Rightarrow> nat" where
  "BitLen (Addr4 _) = 32"
| "BitLen (Addr6 _ _) = 128"

fun Zone :: "Addr \<Rightarrow> string" where
  "Zone (Addr4 _) = []"
| "Zone (Addr6 _ z) = z"

fun WithoutZone :: "Addr \<Rightarrow> Addr" where
  "WithoutZone (Addr4 a) = Addr4 a"
| "WithoutZone (Addr6 a _) = Addr6 a []"

definition PrefixFrom :: "Addr \<Rightarrow> nat \<Rightarrow> Prefix" where
  "PrefixFrom a n = (WithoutZone a, n)"

definition keep_top :: "nat \<Rightarrow> 'a::len word \<Rightarrow> 'a word" where
  "keep_top k w = push_bit k (drop_bit k w)"

fun Masked :: "Prefix \<Rightarrow> Prefix" where
  "Masked (Addr4 a, n) = (Addr4 (keep_top (32 - n) a), n)"
| "Masked (Addr6 a z, n) = (Addr6 (keep_top (128 - n) a) z, n)"

definition PrefixString :: "netip \<Rightarrow> Prefix \<Rightarrow> string" where
  "PrefixString N p = AddrString N (fst p) @ ''/'' @ dec (int (snd p))"

definition prefix_error :: "string \<Rightarrow> string \<Rightarrow> string" where
  "prefix_error s msg = ''netip.ParsePrefix('' @ quote s @ ''): '' @ msg"

definition bad_bits :: "string \<Rightarrow> bool" where
  "bad_bits b \<longleftrightarrow> (case b of c # _ # _ \<Rightarrow> of_char c < (49::nat) \<or> (57::nat) < of_char c | _ \<Rightarrow> False) \<or> Atoi b = None"

text \<open>The text is split at its last slash.\<close>

definition ParsePrefix :: "netip \<Rightarrow> string \<Rightarrow> string + Prefix" where
  "ParsePrefix N s = (
     if CHR ''/'' \<notin> set s then Inl (prefix_error s (''no '' @ [CHR 0x27] @ ''/'' @ [CHR 0x27]))
     else let b = rev (takeWhile (\<lambda>c. c \<noteq> CHR ''/'') (rev s));
              a = take (length s - Suc (length b)) s
     in case ParseAddr N a of
          Inl e \<Rightarrow> Inl (prefix_error s e)
        | Inr ip \<Rightarrow>
            if Zone ip \<noteq> [] then Inl (prefix_error s ''IPv6 zones cannot be present in a prefix'')
            else if bad_bits b then Inl (prefix_error s (''bad bits after slash: '' @ quote b))
            else (case Atoi b of
                None \<Rightarrow> Inl (prefix_error s (''bad bits after slash: '' @ quote b))
              | Some n \<Rightarrow>
                  if n < 0 \<or> n > int (BitLen ip) then Inl (prefix_error s ''prefix length out of range'')
                  else Inr (PrefixFrom ip (nat n))))"

section \<open>Printing and parsing\<close>

text \<open>
  The documented behaviour: a printed address without zone parses to itself, and consists of digits, letters,
  dots and colons, in particular of no white space.
\<close>

definition netip_ok :: "netip \<Rightarrow> bool" where
  "netip_ok N \<longleftrightarrow> (\<forall>a. Zone a = [] \<longrightarrow> ParseAddr N (AddrString N a) = Inr a \<and> list_all (\<lambda>c. \<not> is_space c) (AddrString N a))"

lemma digit_less: "n mod 10 \<in> set [0..<10]" for n :: nat
  by simp

lemma of_char_digit: "of_char (digit n) = (48 + n mod 10 :: nat)"
proof -
  have "\<forall>k\<in>set [0..<10]. of_char (digit k) = (48 + k mod 10 :: nat)" by code_simp
  moreover have "digit n = digit (n mod 10)" by (simp add: digit_def)
  ultimately show ?thesis using digit_less [of n] by (metis mod_mod_trivial)
qed

lemma is_digit_digit: "is_digit (digit n)"
  using mod_less_divisor [of 10 n] by (simp add: is_digit_def of_char_digit)

lemma dec_nat_digits: "list_all is_digit (dec_nat n)" "dec_nat n \<noteq> []" "digits_val (dec_nat n) = int n"
    "0 < n \<Longrightarrow> hd (dec_nat n) \<noteq> CHR ''0''"
proof (induction n rule: dec_nat.induct)
  case (1 n)
  case 1 show ?case using "1.IH" by (subst dec_nat.simps) (simp add: is_digit_digit)
  case 2 show ?case by (subst dec_nat.simps) simp
  case 3 show ?case
  proof (cases "n < 10")
    case True then show ?thesis by (subst dec_nat.simps) (simp add: digits_val_def of_char_digit)
  next
    case False
    then have "digits_val (dec_nat n) = 10 * int (n div 10) + int (n mod 10)"
      using "1.IH"(3) by (subst dec_nat.simps) (simp add: digits_val_def of_char_digit)
    then show ?thesis by presburger
  qed
  case 4
  then show ?case using "1.IH"(2,4)
    by (subst dec_nat.simps) (auto simp: hd_append dest: arg_cong [where f = "of_char :: char \<Rightarrow> nat"] simp: of_char_digit)
qed

lemma digits_small:
  assumes "n \<le> 128"
  shows "\<not> bad_bits (dec (int n))" "Atoi (dec (int n)) = Some (int n)" "CHR ''/'' \<notin> set (dec (int n))"
proof -
  have "list_all is_digit (dec_nat n)" "dec_nat n \<noteq> []" "digits_val (dec_nat n) = int n" "0 < n \<Longrightarrow> hd (dec_nat n) \<noteq> CHR ''0''"
    by (rule dec_nat_digits; assumption?)+
  obtain c cs where d: "dec_nat n = c # cs" using dec_nat_digits(2) by (cases "dec_nat n") auto
  have sign: "c \<noteq> CHR ''-'' \<and> c \<noteq> CHR ''+''" using dec_nat_digits(1) [of n] by (auto simp: d is_digit_def)
  show at: "Atoi (dec (int n)) = Some (int n)"
    using dec_nat_digits(1,3) [of n] d sign assms by (auto simp: Atoi_def dec_def Let_def split: list.splits)
  show "CHR ''/'' \<notin> set (dec (int n))"
    using dec_nat_digits(1) [of n] by (auto simp: dec_def list_all_iff is_digit_def)
  have "0 < n" if "cs \<noteq> []"
    using that d by (cases n) (simp_all add: dec_nat.simps [of 0])
  moreover have "49 \<le> (of_char c :: nat)" "of_char c \<le> (57::nat)" if "c \<noteq> CHR ''0''"
    using dec_nat_digits(1) [of n] d that of_char_eq_iff [where 'a = nat, of c "CHR ''0''"] by (auto simp: is_digit_def)
  ultimately show "\<not> bad_bits (dec (int n))"
    using at dec_nat_digits(4) [of n] d by (fastforce simp: bad_bits_def dec_def split: list.splits)
qed

lemma takeWhile_suffix:
  assumes "x \<notin> set b"
  shows "rev (takeWhile (\<lambda>c. c \<noteq> x) (rev (a @ x # b))) = b"
proof -
  have "takeWhile (\<lambda>c. c \<noteq> x) (rev b @ x # rev a) = rev b"
    using assms by (subst takeWhile_append2) auto
  then show ?thesis by simp
qed

lemma ParsePrefix_PrefixString:
  assumes "netip_ok N" "Zone a = []" "n \<le> BitLen a"
  shows "ParsePrefix N (PrefixString N (a, n)) = Inr (a, n)"
proof -
  have "BitLen a \<le> 128" by (cases a) simp_all
  then have d: "\<not> bad_bits (dec (int n))" "Atoi (dec (int n)) = Some (int n)" "CHR ''/'' \<notin> set (dec (int n))"
    using digits_small [of n] assms(3) by simp_all
  have "WithoutZone a = a" using assms(2) by (cases a) simp_all
  then show ?thesis
    using assms d takeWhile_suffix [OF d(3), of "AddrString N a"]
    by (simp add: ParsePrefix_def PrefixString_def netip_ok_def PrefixFrom_def Let_def)
qed

lemma keep_top_idem [simp]: "keep_top k (keep_top k w) = keep_top k w"
  by (rule bit_eqI) (auto simp: keep_top_def bit_simps)

lemma ParsePrefix_shape:
  assumes "ParsePrefix N s = Inr p"
  shows "Zone (fst p) = []" "snd p \<le> BitLen (fst p)"
proof -
  have bl: "BitLen (WithoutZone a) = BitLen a" "Zone (WithoutZone a) = []" for a by (cases a; simp)+
  show "Zone (fst p) = []" "snd p \<le> BitLen (fst p)"
    using assms by (auto simp: ParsePrefix_def Let_def PrefixFrom_def bl split: if_splits sum.splits option.splits)
qed

lemma Masked_shape: "Zone (fst (Masked p)) = Zone (fst p)" "BitLen (fst (Masked p)) = BitLen (fst p)" "snd (Masked p) = snd p"
    "Masked (Masked p) = Masked p"
  by (cases p rule: Masked.cases; simp)+

text \<open>The canonical text of a prefix is its own canonical text.\<close>

lemma ParsePrefix_canonical:
  assumes "netip_ok N" "ParsePrefix N s = Inr p"
  shows "ParsePrefix N (PrefixString N (Masked p)) = Inr (Masked p)"
proof (cases "Masked p")
  case (Pair a n)
  then show ?thesis
    using ParsePrefix_PrefixString [OF assms(1), of a n] ParsePrefix_shape [OF assms(2)] Masked_shape [of p] by simp
qed

end
