(* ===== verification/PostgresManagement.thy ===== *)
theory PostgresManagement
  imports AdminBackfill ConnectionProfiles NetIP
begin

text \<open>
  \<open>internal/server/postgres_management_service.go\<close>: the service record, what its handlers share, and the
  handlers for managed roles and databases. A repository that is not wired is \<open>False\<close> or \<open>None\<close>. The
  handlers run one at a time, so the lock per cluster needs no model. Errors of the Connect protocol have
  the codes of gRPC.
\<close>

text \<open>
  The generation of certificates by \<open>crypto/x509\<close> (from the name of the cluster or the hosts, and randomness)
  and the texts of the struct validator are functions of the service, like the syntax of addresses.
\<close>

record x509 =
  x509_authority :: "string \<Rightarrow> string \<Rightarrow> string + (string \<times> string)"
  x509_sign :: "string \<Rightarrow> string \<Rightarrow> string \<Rightarrow> string list \<Rightarrow> string \<Rightarrow> string + (string \<times> string)"

record PostgresManagementService =
  PM_databases :: bool
  PM_access :: bool
  PM_tls :: "SecretRepository option"
  PM_tlsCA :: "SecretRepository option"
  PM_extensions :: bool
  PM_clusterSecrets :: "SecretRepository option"
  PM_commandSecrets :: "SecretRepository option"
  PM_audit :: bool
  PM_aead :: aead
  PM_roleEncryptKey :: string
  PM_netip :: netip
  PM_x509 :: x509
  PM_validation_error :: "string list \<Rightarrow> string"

section \<open>What the handlers share\<close>

definition pm_requireCluster :: "string \<Rightarrow> 'b rpc io \<Rightarrow> 'b rpc io" where
  "pm_requireCluster clusterID k =
     or_status Internal ''get cluster'' (clusters_GetByID clusterID) (\<lambda>c. case c of
         None \<Rightarrow> fail NotFound (''cluster '' @ quote clusterID @ '' not found'')
       | Some _ \<Rightarrow> k)"

definition providerForCluster :: "string \<Rightarrow> (Provider \<Rightarrow> 'b rpc io) \<Rightarrow> 'b rpc io" where
  "providerForCluster clusterID k =
     or_status Internal ''get cluster'' (clusters_GetByID clusterID) (\<lambda>c. case c of
         None \<Rightarrow> fail NotFound (''cluster '' @ quote clusterID @ '' not found'')
       | Some cluster \<Rightarrow> (case engine_For the_registry (Cluster_Engine cluster) of
             Inl e \<Rightarrow> fail FailedPrecondition e
           | Inr provider \<Rightarrow> k provider))"

definition requireModule :: "string \<Rightarrow> ModuleID \<Rightarrow> (Provider \<Rightarrow> 'b rpc io) \<Rightarrow> 'b rpc io" where
  "requireModule clusterID module k = providerForCluster clusterID (\<lambda>provider.
     if \<not> Prov_Supports provider module
     then fail FailedPrecondition (''engine '' @ quote (engine_text (Prov_Engine provider)) @ '' does not support the ''
            @ quote (module_text module) @ '' module'')
     else k provider)"

definition resolveManagementPrimary :: "string \<Rightarrow> (Node \<Rightarrow> 'b rpc io) \<Rightarrow> 'b rpc io" where
  "resolveManagementPrimary clusterID k =
     or_status Internal ''resolve primary'' (nodes_GetPrimary clusterID) (\<lambda>r. case r of
         None \<Rightarrow> fail FailedPrecondition (''no primary node found for cluster '' @ quote clusterID)
       | Some primary \<Rightarrow>
           if Node_AgentID primary = [] then fail FailedPrecondition ''primary node has no linked agent''
           else if \<not> Node_PostgresInstalled primary \<or> \<not> Node_PostgresDataInitialized primary
           then fail FailedPrecondition ''primary node is not ready for PostgreSQL management''
           else k primary)"

definition pm_allowPromotionForCluster :: "string \<Rightarrow> (bool \<Rightarrow> 'b rpc io) \<Rightarrow> 'b rpc io" where
  "pm_allowPromotionForCluster clusterID k =
     or_status Internal ''list cluster nodes'' (nodes_ListByCluster clusterID 0 1000) (\<lambda>(ns, _). k (length ns = 1))"

definition managementBeforeAction :: "bool \<Rightarrow> string" where
  "managementBeforeAction allowPromote = (if allowPromote then ''pg_promote'' else [])"

definition skylexAdminCommandSecret :: "PostgresManagementService \<Rightarrow> string \<Rightarrow> (string \<times> string) io" where
  "skylexAdminCommandSecret s clusterID =
     resolveSkylexAdminCommandSecret (PM_clusterSecrets s) (PM_aead s) (PM_roleEncryptKey s) clusterID"

text \<open>
  The backfill of the administrator's role, and the secret for the command that is about to be queued:
  none when the role has just been requested.
\<close>

definition with_admin_secret ::
  "PostgresManagementService \<Rightarrow> string \<Rightarrow> Node \<Rightarrow> (string \<Rightarrow> string \<Rightarrow> 'b rpc io) \<Rightarrow> 'b rpc io" where
  "with_admin_secret s clusterID primary k =
     or_status Internal ''ensure skylex_admin provisioned''
       (ensureSkylexAdminProvisioned (PM_clusterSecrets s) (PM_commandSecrets s) clusterID primary) (\<lambda>newlyProvisioned. do {
         (adminSecret, adminSecretKey) \<leftarrow>
           (if newlyProvisioned then State_Monad.return ([], []) else skylexAdminCommandSecret s clusterID);
         k adminSecret adminSecretKey
       })"

definition no_viewer :: "request_context \<Rightarrow> string \<Rightarrow> 'b rpc io \<Rightarrow> 'b rpc io" where
  "no_viewer ctx what k =
     (if UserRoleFromContext ctx = RoleViewer then fail PermissionDenied (''viewer role cannot '' @ what) else k)"

definition optional_time :: "Time \<Rightarrow> Time option" where
  "optional_time t = (if t = zero_time then None else Some t)"

section \<open>Roles\<close>

definition validRoleKinds :: "string set" where
  "validRoleKinds = {''admin'', ''read_write'', ''read_only'', ''custom''}"

record PostgresRole =
  PR_Id :: string
  PR_ClusterId :: string
  PR_RoleName :: string
  PR_RoleKind :: string
  PR_PasswordVersion :: int
  PR_Status :: string
  PR_CreatedAt :: "Time option"
  PR_UpdatedAt :: "Time option"
  PR_ExpiresAt :: "Time option"

definition roleToProto :: "ManagedRole \<Rightarrow> PostgresRole" where
  "roleToProto r = \<lparr>PR_Id = MRole_ID r, PR_ClusterId = MRole_ClusterID r, PR_RoleName = MRole_RoleName r,
     PR_RoleKind = MRole_RoleKind r, PR_PasswordVersion = to_int32 (MRole_PasswordVersion r), PR_Status = MRole_Status r,
     PR_CreatedAt = optional_time (MRole_CreatedAt r), PR_UpdatedAt = optional_time (MRole_UpdatedAt r),
     PR_ExpiresAt = MRole_ExpiresAt r\<rparr>"

definition ListRoles :: "string \<Rightarrow> PostgresRole list rpc io" where
  "ListRoles clusterID =
     (if clusterID = [] then fail InvalidArgument ''cluster_id is required''
      else pm_requireCluster clusterID (
        or_status Internal ''list roles'' (roles_ListByCluster clusterID) (\<lambda>roles. reply (map roleToProto roles))))"

text \<open>A new password: the plain text, its form at rest, and its form as a secret of the command.\<close>

definition fresh_password :: "PostgresManagementService \<Rightarrow> (string \<Rightarrow> string \<Rightarrow> string \<Rightarrow> 'b rpc io) \<Rightarrow> 'b rpc io" where
  "fresh_password s k = do {
     plainPassword \<leftarrow> GenerateToken;
     or_status Internal ''encrypt password'' (EncryptAES256GCM (PM_aead s) plainPassword (PM_roleEncryptKey s)) (\<lambda>encryptedBytes.
     or_status Internal ''encrypt command secret'' (EncryptAES256GCM (PM_aead s) plainPassword (PM_roleEncryptKey s)) (\<lambda>commandSecret.
     k plainPassword (base64_EncodeToString encryptedBytes) commandSecret))
   }"

record CreateRoleRequest =
  CRR_ClusterId :: string
  CRR_RoleName :: string
  CRR_RoleKind :: string
  CRR_ExpiresAt :: "Time option"

definition create_role_payload :: "string \<Rightarrow> string \<Rightarrow> string \<Rightarrow> string \<Rightarrow> bool \<Rightarrow> payload" where
  "create_role_payload roleID opID roleName roleKind allowPromote =
     Json [(''allow_promote'', JBool allowPromote), (''operation_id'', JStr opID), (''password_secret_key'', JStr ''password''),
           (''role_id'', JStr roleID), (''role_kind'', JStr roleKind), (''role_name'', JStr roleName)]"

definition create_role_input ::
  "string \<Rightarrow> string \<Rightarrow> string \<Rightarrow> string \<Rightarrow> Node \<Rightarrow> string \<Rightarrow> string \<Rightarrow> string \<Rightarrow> bool \<Rightarrow> string \<Rightarrow> Time \<Rightarrow> string \<Rightarrow> string
   \<Rightarrow> Time option \<Rightarrow> string \<Rightarrow> CreateRoleTxInput" where
  "create_role_input roleID opID cmdID clusterID primary roleName roleKind storedPassword allowPromote commandSecret
     secretExpiresAt adminSecret adminSecretKey expiresAt ensureAction =
     \<lparr>CR_RoleID = roleID, CR_OperationID = opID, CR_CommandID = cmdID, CR_ClusterID = clusterID,
      CR_NodeID = Node_ID primary, CR_AgentID = Node_AgentID primary, CR_RoleName = roleName, CR_RoleKind = roleKind,
      CR_EncryptedPassword = storedPassword, CR_Payload = create_role_payload roleID opID roleName roleKind allowPromote,
      CR_BeforeAction = managementBeforeAction allowPromote, CR_BeforePayload = Text [],
      CR_EncryptedCommandSecret = commandSecret, CR_SecretExpiresAt = Some secretExpiresAt,
      CR_ExpiresAt = expiresAt, CR_EncryptedAdminSecret = adminSecret, CR_AdminSecretKey = adminSecretKey,
      CR_EnsureAction = ensureAction\<rparr>"

definition action_or_empty :: "Provider \<Rightarrow> LogicalOp \<Rightarrow> string" where
  "action_or_empty provider op = (case Prov_Action provider op of None \<Rightarrow> [] | Some a \<Rightarrow> a)"

text \<open>\<open>CreateRole\<close> after its checks: \<open>existing\<close> is the failed role that is tried again.\<close>

definition create_role ::
  "PostgresManagementService \<Rightarrow> CreateRoleRequest \<Rightarrow> string \<Rightarrow> string \<Rightarrow> Provider \<Rightarrow> Node \<Rightarrow> bool \<Rightarrow> ManagedRole option
   \<Rightarrow> (PostgresRole \<times> string) rpc io" where
  "create_role s req roleName roleKind provider primary allowPromote existing =
     fresh_password s (\<lambda>plainPassword storedPassword commandSecret. do {
       roleID \<leftarrow> id_New;
       opID \<leftarrow> id_New;
       cmdID \<leftarrow> id_New;
       let retryRoleID = (case existing of None \<Rightarrow> roleID | Some r \<Rightarrow> MRole_ID r);
       now \<leftarrow> time_now;
       with_admin_secret s (CRR_ClusterId req) primary (\<lambda>adminSecret adminSecretKey.
         let inp = create_role_input retryRoleID opID cmdID (CRR_ClusterId req) primary roleName roleKind storedPassword
               allowPromote commandSecret (now + day_ns) adminSecret adminSecretKey (CRR_ExpiresAt req)
               (action_or_empty provider OpEnsureRole)
         in or_status Internal ''create role and queue command''
              (case existing of None \<Rightarrow> roles_CreateWithCommand inp | Some _ \<Rightarrow> roles_RetryCreateWithCommand inp) (\<lambda>tx.
            reply (roleToProto (Tx_Role tx), plainPassword)))
     })"

definition CreateRole ::
  "PostgresManagementService \<Rightarrow> request_context \<Rightarrow> CreateRoleRequest \<Rightarrow> (PostgresRole \<times> string) rpc io" where
  "CreateRole s ctx req = no_viewer ctx ''create roles'' (
     let clusterID = CRR_ClusterId req;
         roleName = TrimSpace (CRR_RoleName req);
         roleKind = (if CRR_RoleKind req = [] then ''custom'' else CRR_RoleKind req)
     in if clusterID = [] then fail InvalidArgument ''cluster_id is required''
        else pm_requireCluster clusterID (requireModule clusterID ModuleRoles (\<lambda>provider.
          case Prov_ValidateRoleName provider roleName of
            Some e \<Rightarrow> fail InvalidArgument (wrap ''invalid create role request'' e)
          | None \<Rightarrow>
              if roleKind \<notin> validRoleKinds
              then fail InvalidArgument (''invalid role_kind '' @ quote roleKind
                     @ '': must be one of admin, read_write, read_only, custom'')
              else resolveManagementPrimary clusterID (\<lambda>primary.
                pm_allowPromotionForCluster clusterID (\<lambda>allowPromote.
                or_status Internal ''check existing role'' (roles_GetByClusterAndName clusterID roleName) (\<lambda>existing.
                if (case existing of None \<Rightarrow> False | Some r \<Rightarrow> MRole_Status r \<noteq> ''failed'')
                then fail AlreadyExists (''role '' @ quote roleName @ '' already exists in cluster '' @ quote clusterID)
                else create_role s req roleName roleKind provider primary allowPromote existing))))))"

text \<open>The role a request names.\<close>

definition require_role :: "string \<Rightarrow> (ManagedRole \<Rightarrow> 'b rpc io) \<Rightarrow> 'b rpc io" where
  "require_role roleID k =
     (if roleID = [] then fail InvalidArgument ''role_id is required''
      else or_status Internal ''get role'' (roles_GetByID roleID) (\<lambda>r. case r of
          None \<Rightarrow> fail NotFound (''role '' @ quote roleID @ '' not found'')
        | Some role \<Rightarrow> k role))"

definition rotate_payload :: "ManagedRole \<Rightarrow> string \<Rightarrow> bool \<Rightarrow> payload" where
  "rotate_payload role opID allowPromote =
     Json [(''allow_promote'', JBool allowPromote), (''operation_id'', JStr opID), (''password_secret_key'', JStr ''password''),
           (''role_id'', JStr (MRole_ID role)), (''role_name'', JStr (MRole_RoleName role))]"

definition RotateRolePassword ::
  "PostgresManagementService \<Rightarrow> request_context \<Rightarrow> string \<Rightarrow> (PostgresRole \<times> string) rpc io" where
  "RotateRolePassword s ctx roleID = no_viewer ctx ''rotate role passwords'' (require_role roleID (\<lambda>role.
     if MRole_Status role = ''deleting'' then fail FailedPrecondition ''role is being deleted''
     else resolveManagementPrimary (MRole_ClusterID role) (\<lambda>primary.
       pm_allowPromotionForCluster (MRole_ClusterID role) (\<lambda>allowPromote.
       fresh_password s (\<lambda>plainPassword storedPassword commandSecret. do {
         opID \<leftarrow> id_New;
         cmdID \<leftarrow> id_New;
         now \<leftarrow> time_now;
         requireModule (MRole_ClusterID role) ModuleRoles (\<lambda>provider.
           with_admin_secret s (MRole_ClusterID role) primary (\<lambda>adminSecret adminSecretKey.
             or_status Internal ''rotate password and queue command'' (roles_RotateWithCommand
               \<lparr>RR_RoleID = MRole_ID role, RR_OperationID = opID, RR_CommandID = cmdID, RR_NodeID = Node_ID primary,
                RR_AgentID = Node_AgentID primary, RR_EncryptedPassword = storedPassword,
                RR_Payload = rotate_payload role opID allowPromote, RR_BeforeAction = managementBeforeAction allowPromote,
                RR_BeforePayload = Text [], RR_EncryptedCommandSecret = commandSecret, RR_SecretExpiresAt = Some (now + day_ns),
                RR_EncryptedAdminSecret = adminSecret, RR_AdminSecretKey = adminSecretKey,
                RR_RotateAction = action_or_empty provider OpRotateRolePassword\<rparr>) (\<lambda>tx.
             reply (roleToProto (Tx_Role tx), plainPassword))))
       })))))"

definition delete_role_payload :: "ManagedRole \<Rightarrow> string \<Rightarrow> bool \<Rightarrow> payload" where
  "delete_role_payload role opID allowPromote =
     Json [(''allow_promote'', JBool allowPromote), (''operation_id'', JStr opID),
           (''role_id'', JStr (MRole_ID role)), (''role_name'', JStr (MRole_RoleName role))]"

definition role_owns_databases :: "PostgresManagementService \<Rightarrow> ManagedRole \<Rightarrow> bool res io" where
  "role_owns_databases s role =
     (if PM_databases s then databases_HasByOwnerRole (MRole_ID role) else State_Monad.return (Inr False))"

definition DeleteRole :: "PostgresManagementService \<Rightarrow> request_context \<Rightarrow> string \<Rightarrow> unit rpc io" where
  "DeleteRole s ctx roleID = no_viewer ctx ''delete roles'' (require_role roleID (\<lambda>role.
     if MRole_Status role = ''deleting'' then reply ()
     else or_status Internal ''check databases owned by role'' (role_owns_databases s role) (\<lambda>hasDatabases.
       if hasDatabases then fail FailedPrecondition ''role owns one or more managed databases''
       else resolveManagementPrimary (MRole_ClusterID role) (\<lambda>primary.
         pm_allowPromotionForCluster (MRole_ClusterID role) (\<lambda>allowPromote. do {
           opID \<leftarrow> id_New;
           cmdID \<leftarrow> id_New;
           requireModule (MRole_ClusterID role) ModuleRoles (\<lambda>provider.
             with_admin_secret s (MRole_ClusterID role) primary (\<lambda>adminSecret adminSecretKey. do {
               now \<leftarrow> time_now;
               or_status Internal ''mark role deleting and queue command'' (roles_DeleteWithCommand
                 \<lparr>DR_RoleID = MRole_ID role, DR_OperationID = opID, DR_CommandID = cmdID, DR_NodeID = Node_ID primary,
                  DR_AgentID = Node_AgentID primary, DR_Payload = delete_role_payload role opID allowPromote,
                  DR_BeforeAction = managementBeforeAction allowPromote, DR_BeforePayload = Text [],
                  DR_EncryptedAdminSecret = adminSecret, DR_AdminSecretKey = adminSecretKey,
                  DR_SecretExpiresAt = Some (now + day_ns), DR_DropAction = action_or_empty provider OpDropRole\<rparr>)
                 (\<lambda>_. reply ())
             }))
         })))))"

section \<open>Databases\<close>

record PostgresDatabase =
  PD_Id :: string
  PD_ClusterId :: string
  PD_DatabaseName :: string
  PD_OwnerRoleId :: string
  PD_OwnerRoleName :: string
  PD_Status :: string
  PD_CreatedAt :: "Time option"
  PD_UpdatedAt :: "Time option"

definition databaseToProto :: "ManagedDatabase \<Rightarrow> string \<Rightarrow> PostgresDatabase" where
  "databaseToProto d ownerRoleName = \<lparr>PD_Id = MDb_ID d, PD_ClusterId = MDb_ClusterID d, PD_DatabaseName = MDb_DatabaseName d,
     PD_OwnerRoleId = (case MDb_OwnerRoleID d of None \<Rightarrow> [] | Some r \<Rightarrow> r), PD_OwnerRoleName = ownerRoleName,
     PD_Status = MDb_Status d, PD_CreatedAt = optional_time (MDb_CreatedAt d), PD_UpdatedAt = optional_time (MDb_UpdatedAt d)\<rparr>"

definition isReservedDatabaseName :: "string \<Rightarrow> bool" where
  "isReservedDatabaseName name \<longleftrightarrow> strings_ToLower name \<in> {''postgres'', ''template0'', ''template1''}"

text \<open>The map from role identifiers to names; a later row overwrites an earlier one.\<close>

definition role_names :: "ManagedRole list \<Rightarrow> string \<rightharpoonup> string" where
  "role_names roles = map_of (rev (map (\<lambda>r. (MRole_ID r, MRole_RoleName r)) roles))"

definition owner_name :: "(string \<rightharpoonup> string) \<Rightarrow> ManagedDatabase \<Rightarrow> string" where
  "owner_name names d = (case MDb_OwnerRoleID d of
     None \<Rightarrow> [] | Some r \<Rightarrow> (case names r of None \<Rightarrow> [] | Some n \<Rightarrow> n))"

definition ListDatabases :: "PostgresManagementService \<Rightarrow> string \<Rightarrow> PostgresDatabase list rpc io" where
  "ListDatabases s clusterID =
     (if clusterID = [] then fail InvalidArgument ''cluster_id is required''
      else pm_requireCluster clusterID (
        if \<not> PM_databases s then fail Internal ''database repository is not configured''
        else or_status Internal ''list databases'' (databases_ListByCluster clusterID) (\<lambda>dbs.
          or_status Internal ''list owner roles'' (roles_ListByCluster clusterID) (\<lambda>roles.
          reply (map (\<lambda>d. databaseToProto d (owner_name (role_names roles) d)) dbs)))))"

text \<open>The role that is to own a new database, when the request names one.\<close>

definition owner_role :: "string \<Rightarrow> string \<Rightarrow> (ManagedRole option \<Rightarrow> 'b rpc io) \<Rightarrow> 'b rpc io" where
  "owner_role clusterID ownerRoleID k =
     (if ownerRoleID = [] then k None
      else or_status Internal ''get owner role'' (roles_GetByID ownerRoleID) (\<lambda>r. case r of
          None \<Rightarrow> fail NotFound (''owner role '' @ quote ownerRoleID @ '' not found'')
        | Some role \<Rightarrow>
            if MRole_ClusterID role \<noteq> clusterID then fail InvalidArgument ''owner role belongs to a different cluster''
            else if MRole_Status role \<noteq> ''ready'' then fail FailedPrecondition ''owner role must be ready''
            else if MRole_RoleKind role = ''read_only'' then fail InvalidArgument ''read-only roles cannot own databases''
            else k (Some role)))"

definition create_database_payload :: "string \<Rightarrow> string \<Rightarrow> string \<Rightarrow> bool \<Rightarrow> ManagedRole option \<Rightarrow> payload" where
  "create_database_payload databaseID opID databaseName allowPromote ownerRole = Json (
     [(''allow_promote'', JBool allowPromote), (''database_id'', JStr databaseID), (''database_name'', JStr databaseName),
      (''operation_id'', JStr opID)] @
     (case ownerRole of None \<Rightarrow> []
      | Some r \<Rightarrow> [(''owner_role_kind'', JStr (MRole_RoleKind r)), (''owner_role_name'', JStr (MRole_RoleName r))]))"

definition CreateDatabase ::
  "PostgresManagementService \<Rightarrow> request_context \<Rightarrow> string \<Rightarrow> string \<Rightarrow> string \<Rightarrow> PostgresDatabase rpc io" where
  "CreateDatabase s ctx clusterID rawName rawOwner = no_viewer ctx ''create databases'' (
     let databaseName = TrimSpace rawName; ownerRoleID = TrimSpace rawOwner
     in if \<not> PM_databases s then fail Internal ''database repository is not configured''
        else if clusterID = [] then fail InvalidArgument ''cluster_id is required''
        else requireModule clusterID ModuleDatabases (\<lambda>provider.
          case Prov_ValidateDatabaseName provider databaseName of
            Some e \<Rightarrow> fail InvalidArgument (wrap ''invalid create database request'' e)
          | None \<Rightarrow>
              if isReservedDatabaseName databaseName
              then fail InvalidArgument (''database '' @ quote databaseName @ '' is reserved'')
              else owner_role clusterID ownerRoleID (\<lambda>ownerRole.
                resolveManagementPrimary clusterID (\<lambda>primary.
                pm_allowPromotionForCluster clusterID (\<lambda>allowPromote.
                or_status Internal ''check existing database'' (databases_GetByClusterAndName clusterID databaseName) (\<lambda>existing.
                if existing \<noteq> None
                then fail AlreadyExists (''database '' @ quote databaseName @ '' already exists in cluster '' @ quote clusterID)
                else do {
                  databaseID \<leftarrow> id_New;
                  opID \<leftarrow> id_New;
                  cmdID \<leftarrow> id_New;
                  with_admin_secret s clusterID primary (\<lambda>adminSecret adminSecretKey. do {
                    now \<leftarrow> time_now;
                    or_status Internal ''create database and queue command'' (databases_CreateWithCommand
                      \<lparr>CD_DatabaseID = databaseID, CD_OperationID = opID, CD_CommandID = cmdID, CD_ClusterID = clusterID,
                       CD_NodeID = Node_ID primary, CD_AgentID = Node_AgentID primary, CD_DatabaseName = databaseName,
                       CD_OwnerRoleID = ownerRoleID,
                       CD_Payload = create_database_payload databaseID opID databaseName allowPromote ownerRole,
                       CD_BeforeAction = managementBeforeAction allowPromote, CD_BeforePayload = Text [],
                       CD_EncryptedAdminSecret = adminSecret, CD_AdminSecretKey = adminSecretKey,
                       CD_SecretExpiresAt = Some (now + day_ns), CD_EnsureAction = action_or_empty provider OpEnsureDatabase\<rparr>)
                      (\<lambda>tx. reply (databaseToProto (DbTx_Database tx)
                          (case ownerRole of None \<Rightarrow> [] | Some r \<Rightarrow> MRole_RoleName r)))
                  })
                }))))))"

definition delete_database_payload :: "ManagedDatabase \<Rightarrow> string \<Rightarrow> bool \<Rightarrow> payload" where
  "delete_database_payload d opID allowPromote =
     Json [(''allow_promote'', JBool allowPromote), (''database_id'', JStr (MDb_ID d)),
           (''database_name'', JStr (MDb_DatabaseName d)), (''operation_id'', JStr opID)]"

definition DeleteDatabase :: "PostgresManagementService \<Rightarrow> request_context \<Rightarrow> string \<Rightarrow> unit rpc io" where
  "DeleteDatabase s ctx databaseID = no_viewer ctx ''delete databases'' (
     if \<not> PM_databases s then fail Internal ''database repository is not configured''
     else if databaseID = [] then fail InvalidArgument ''database_id is required''
     else or_status Internal ''get database'' (databases_GetByID databaseID) (\<lambda>r. case r of
         None \<Rightarrow> fail NotFound (''database '' @ quote databaseID @ '' not found'')
       | Some database \<Rightarrow>
           if MDb_Status database = ''deleting'' then reply ()
           else resolveManagementPrimary (MDb_ClusterID database) (\<lambda>primary.
             pm_allowPromotionForCluster (MDb_ClusterID database) (\<lambda>allowPromote. do {
               opID \<leftarrow> id_New;
               cmdID \<leftarrow> id_New;
               requireModule (MDb_ClusterID database) ModuleDatabases (\<lambda>provider.
                 with_admin_secret s (MDb_ClusterID database) primary (\<lambda>adminSecret adminSecretKey. do {
                   now \<leftarrow> time_now;
                   or_status Internal ''mark database deleting and queue command'' (databases_DeleteWithCommand
                     \<lparr>DD_DatabaseID = MDb_ID database, DD_OperationID = opID, DD_CommandID = cmdID,
                      DD_NodeID = Node_ID primary, DD_AgentID = Node_AgentID primary,
                      DD_Payload = delete_database_payload database opID allowPromote,
                      DD_BeforeAction = managementBeforeAction allowPromote, DD_BeforePayload = Text [],
                      DD_EncryptedAdminSecret = adminSecret, DD_AdminSecretKey = adminSecretKey,
                      DD_SecretExpiresAt = Some (now + day_ns), DD_DropAction = action_or_empty provider OpDropDatabase\<rparr>)
                     (\<lambda>_. reply ())
                 }))
             }))))"

end
