(* ===== verification/PostgresAccess.thy ===== *)
theory PostgresAccess
  imports PostgresManagement
begin

text \<open>
  The handlers of \<open>postgres_management_service.go\<close> for the connection profile, network access and TLS of a
  cluster, with \<open>postgres_tls_certs.go\<close>, and those of \<open>postgres_extensions.go\<close>. Where Go iterates over a map
  to build an error (the endpoint modes, the three paths), the model takes the order of the source text.
\<close>

section \<open>Endpoints\<close>

record NodeEndpoint =
  EP_NodeId :: string
  EP_Hostname :: string
  EP_Host :: string
  EP_Port :: int
  EP_Role :: string

definition endpoint :: "Node \<Rightarrow> NodeEndpoint" where
  "endpoint n = \<lparr>EP_NodeId = Node_ID n, EP_Hostname = Node_Hostname n,
     EP_Host = (if Node_Address n = [] then Node_Hostname n else Node_Address n),
     EP_Port = to_int32 (if Node_Port n = 0 then 5432 else Node_Port n), EP_Role = role_text (Node_Role n)\<rparr>"

fun endpoints_from :: "NodeEndpoint option \<Rightarrow> Node list \<Rightarrow> NodeEndpoint option \<times> NodeEndpoint list" where
  "endpoints_from primary [] = (primary, [])"
| "endpoints_from primary (n # ns) =
     (if \<not> Node_PostgresInstalled n \<or> \<not> Node_PostgresDataInitialized n then endpoints_from primary ns
      else if Node_Role n = NodeRolePrimary \<and> primary = None then endpoints_from (Some (endpoint n)) ns
      else if Node_Role n = NodeRoleReplica
      then (let (p, rs) = endpoints_from primary ns in (p, endpoint n # rs))
      else endpoints_from primary ns)"

definition computeEndpoints :: "Node list \<Rightarrow> NodeEndpoint option \<times> NodeEndpoint list" where
  "computeEndpoints ns = endpoints_from None ns"

definition computeEffectiveEndpoint :: "ConnectionProfile \<Rightarrow> NodeEndpoint option \<Rightarrow> string \<times> int" where
  "computeEffectiveEndpoint profile primary =
     (if CP_EndpointMode profile = ''manual_stable_endpoint'' \<and> CP_PublicHost profile \<noteq> []
      then (CP_PublicHost profile, CP_PublicPort profile)
      else (case primary of Some p \<Rightarrow> (EP_Host p, EP_Port p) | None \<Rightarrow> ([], 0)))"

section \<open>TLS: statuses, warnings, validation\<close>

definition normalizeTLSMode :: "string \<Rightarrow> string" where
  "normalizeTLSMode mode =
     (if TrimSpace mode = ''disable'' then ''disabled''
      else if TrimSpace mode = ''require'' then ''required''
      else TrimSpace mode)"

definition validSSLModes :: "string set" where
  "validSSLModes = {''disabled'', ''prefer'', ''required''}"

definition validEndpointModes :: "string set" where
  "validEndpointModes = {''direct_primary'', ''manual_stable_endpoint''}"

record PTLSApplyStatus =
  PT_ClusterId :: string
  PT_NodeId :: string
  PT_CommandId :: string
  PT_RequestedTlsMode :: string
  PT_Status :: string
  PT_Error :: string
  PT_TlsActive :: bool
  PT_AppliedAt :: "Time option"
  PT_UpdatedAt :: "Time option"

definition tlsStatusToProto :: "TLSApplyStatus \<Rightarrow> PTLSApplyStatus" where
  "tlsStatusToProto s = \<lparr>PT_ClusterId = TLS_ClusterID s, PT_NodeId = TLS_NodeID s, PT_CommandId = TLS_CommandID s,
     PT_RequestedTlsMode = TLS_RequestedTLSMode s, PT_Status = TLS_Status s, PT_Error = TLS_Error s,
     PT_TlsActive = TLS_TLSActive s, PT_AppliedAt = TLS_AppliedAt s, PT_UpdatedAt = optional_time (TLS_UpdatedAt s)\<rparr>"

definition tlsStatuses :: "PostgresManagementService \<Rightarrow> string \<Rightarrow> PTLSApplyStatus list rpc io" where
  "tlsStatuses s clusterID =
     (case PM_tls s of
        None \<Rightarrow> reply []
      | Some _ \<Rightarrow> or_status Internal ''list tls apply status'' (tls_ListStatusByCluster clusterID) (\<lambda>rows.
          reply (map tlsStatusToProto rows)))"

definition tlsCAForCluster :: "PostgresManagementService \<Rightarrow> string \<Rightarrow> ServiceTLSCA option rpc io" where
  "tlsCAForCluster s clusterID =
     (case PM_tlsCA s of
        None \<Rightarrow> reply None
      | Some _ \<Rightarrow> or_status Internal ''get TLS CA'' (tlsca_GetByClusterID clusterID) reply)"

text \<open>The warnings that depend on the statuses: the loop stops at the first one.\<close>

fun status_warnings :: "string \<Rightarrow> PTLSApplyStatus list \<Rightarrow> string list" where
  "status_warnings tlsMode [] = []"
| "status_warnings tlsMode (st # sts) =
     (if PT_Status st \<noteq> ''succeeded'' then [''TLS configuration is not active on all ready nodes.'']
      else if tlsMode = ''required'' \<and> \<not> PT_TlsActive st
      then [''TLS required mode is waiting for PostgreSQL to confirm SSL is active on all nodes.'']
      else status_warnings tlsMode sts)"

definition tlsWarnings :: "ConnectionProfile \<Rightarrow> PTLSApplyStatus list \<Rightarrow> ServiceTLSCA option \<Rightarrow> string list" where
  "tlsWarnings p statuses ca = (let tlsMode = normalizeTLSMode (CP_SSLMode p) in
     (if tlsMode \<noteq> ''disabled'' \<and> CP_TLSCertFile p = [] \<and> CP_TLSKeyFile p = []
      then (if ca = None then [''Generate a TLS CA before applying Skylex-managed certificates.'']
            else [''TLS will use Skylex-managed CA-signed certificates unless certificate and key paths are configured.''])
      else []) @
     (if tlsMode \<noteq> ''disabled'' \<and> (CP_TLSCertFile p = []) \<noteq> (CP_TLSKeyFile p = [])
      then [''TLS manual certificate paths are incomplete; set both certificate and key paths, or clear both for Skylex-managed certificates.'']
      else []) @
     (if tlsMode = ''required'' \<and> statuses = []
      then [''TLS required mode is configured but has not been applied to any ready node yet.''] else []) @
     status_warnings tlsMode statuses)"

record TLSConfig =
  TC_ClusterId :: string
  TC_TlsMode :: string
  TC_CertFile :: string
  TC_KeyFile :: string
  TC_CaFile :: string
  TC_Statuses :: "PTLSApplyStatus list"
  TC_Warnings :: "string list"
  TC_CaGenerated :: bool
  TC_CaCreatedAt :: "Time option"

definition tlsConfigToProto ::
  "ConnectionProfile \<Rightarrow> PTLSApplyStatus list \<Rightarrow> string list \<Rightarrow> ServiceTLSCA option \<Rightarrow> TLSConfig" where
  "tlsConfigToProto p statuses warnings ca = \<lparr>TC_ClusterId = CP_ClusterID p, TC_TlsMode = normalizeTLSMode (CP_SSLMode p),
     TC_CertFile = CP_TLSCertFile p, TC_KeyFile = CP_TLSKeyFile p, TC_CaFile = CP_TLSCAFile p, TC_Statuses = statuses,
     TC_Warnings = warnings, TC_CaGenerated = (ca \<noteq> None),
     TC_CaCreatedAt = (case ca of None \<Rightarrow> None | Some c \<Rightarrow> optional_time (CA_CreatedAt c))\<rparr>"

text \<open>\<open>unicode.IsControl\<close> on ASCII texts.\<close>

definition is_control :: "char \<Rightarrow> bool" where
  "is_control c \<longleftrightarrow> of_char c < (32::nat) \<or> of_char c = (127::nat)"

definition validateHostname :: "string \<Rightarrow> string option" where
  "validateHostname h =
     (if list_ex (\<lambda>c. is_control c \<or> is_space c) h
      then Some ''hostname must not contain control characters or whitespace''
      else if CHR 0x00 \<in> set h then Some ''hostname must not contain null bytes'' else None)"

definition validateAgentPath :: "string \<Rightarrow> string option" where
  "validateAgentPath path =
     (if path = [] then None
      else if list_ex (\<lambda>c. c \<in> {CHR 0x00, CHR 0x0D, CHR 0x0A}) path then Some ''path must not contain control characters''
      else if \<not> strings_HasPrefix path ''/'' then Some ''path must be absolute'' else None)"

section \<open>Audit\<close>

definition pm_audit :: "PostgresManagementService \<Rightarrow> request_context \<Rightarrow> string \<Rightarrow> string \<Rightarrow> string \<Rightarrow> unit io" where
  "pm_audit s ctx action resource detail =
     (if \<not> PM_audit s then State_Monad.return ()
      else do {
        now \<leftarrow> time_now;
        logged (audit_Log \<lparr>Audit_ID = 0, Audit_UserID = UserIDFromContext ctx, Audit_Action = action,
          Audit_Resource = resource, Audit_Detail = detail, Audit_IPAddress = [], Audit_CreatedAt = now\<rparr>)
      })"

definition sprint_bool :: "bool \<Rightarrow> string" where
  "sprint_bool b = (if b then ''true'' else ''false'')"

definition auditTLSChange ::
  "PostgresManagementService \<Rightarrow> request_context \<Rightarrow> string \<Rightarrow> string \<Rightarrow> ConnectionProfile \<Rightarrow> unit io" where
  "auditTLSChange s ctx clusterID action profile = pm_audit s ctx ''postgres_tls.update'' ''PostgresManagementService.TLS''
     (''action='' @ action @ '' cluster_id='' @ clusterID @ '' tls_mode='' @ normalizeTLSMode (CP_SSLMode profile)
        @ '' ca_configured='' @ sprint_bool (CP_TLSCAFile profile \<noteq> []))"

definition auditAccessChange ::
  "PostgresManagementService \<Rightarrow> request_context \<Rightarrow> string \<Rightarrow> string \<Rightarrow> ConnectionProfile \<Rightarrow> unit io" where
  "auditAccessChange s ctx clusterID action profile =
     pm_audit s ctx ''postgres_access.update'' ''PostgresManagementService.NetworkAccess''
       (''action='' @ action @ '' cluster_id='' @ clusterID
          @ '' application_cidrs='' @ dec (int (length (CP_AllowedCIDRs profile)))
          @ '' admin_cidrs='' @ dec (int (length (CP_AllowedAdminCIDRs profile)))
          @ '' replication_cidrs='' @ dec (int (length (CP_AllowedReplicationCIDRs profile))))"

definition auditExtensionChange ::
  "PostgresManagementService \<Rightarrow> request_context \<Rightarrow> string \<Rightarrow> string \<Rightarrow> string \<Rightarrow> unit io" where
  "auditExtensionChange s ctx clusterID action name =
     pm_audit s ctx ''postgres_extensions.update'' ''PostgresManagementService.Extensions''
       (''action='' @ action @ '' cluster_id='' @ clusterID @ '' extension='' @ name)"

section \<open>The connection profile\<close>

record PConnectionProfile =
  PCP_ClusterId :: string
  PCP_EndpointMode :: string
  PCP_PublicHost :: string
  PCP_PublicPort :: int
  PCP_SslMode :: string
  PCP_AllowedCidrs :: "string list"
  PCP_AllowedAdminCidrs :: "string list"
  PCP_AllowedReplicationCidrs :: "string list"
  PCP_TlsCertFile :: string
  PCP_TlsKeyFile :: string
  PCP_TlsCaFile :: string
  PCP_CreatedAt :: "Time option"
  PCP_UpdatedAt :: "Time option"

definition profileToProto :: "ConnectionProfile \<Rightarrow> PConnectionProfile" where
  "profileToProto p = \<lparr>PCP_ClusterId = CP_ClusterID p, PCP_EndpointMode = CP_EndpointMode p, PCP_PublicHost = CP_PublicHost p,
     PCP_PublicPort = to_int32 (CP_PublicPort p), PCP_SslMode = CP_SSLMode p, PCP_AllowedCidrs = CP_AllowedCIDRs p,
     PCP_AllowedAdminCidrs = CP_AllowedAdminCIDRs p, PCP_AllowedReplicationCidrs = CP_AllowedReplicationCIDRs p,
     PCP_TlsCertFile = CP_TLSCertFile p, PCP_TlsKeyFile = CP_TLSKeyFile p, PCP_TlsCaFile = CP_TLSCAFile p,
     PCP_CreatedAt = optional_time (CP_CreatedAt p), PCP_UpdatedAt = optional_time (CP_UpdatedAt p)\<rparr>"

record ConnectionProfileReply =
  CPR_Profile :: PConnectionProfile
  CPR_PrimaryEndpoint :: "NodeEndpoint option"
  CPR_ReplicaEndpoints :: "NodeEndpoint list"
  CPR_EffectiveHost :: string
  CPR_EffectivePort :: int
  CPR_Warnings :: "string list"
  CPR_TlsConfig :: TLSConfig
  CPR_TlsStatuses :: "PTLSApplyStatus list"

definition connection_reply ::
  "ConnectionProfile \<Rightarrow> Node list \<Rightarrow> PTLSApplyStatus list \<Rightarrow> ServiceTLSCA option \<Rightarrow> ConnectionProfileReply" where
  "connection_reply profile ns statuses ca = (
     let (primary, replicas) = computeEndpoints ns;
         (host, port) = computeEffectiveEndpoint profile primary;
         warnings = tlsWarnings profile statuses ca
     in \<lparr>CPR_Profile = profileToProto profile, CPR_PrimaryEndpoint = primary, CPR_ReplicaEndpoints = replicas,
         CPR_EffectiveHost = host, CPR_EffectivePort = to_int32 port, CPR_Warnings = warnings,
         CPR_TlsConfig = tlsConfigToProto profile statuses warnings ca, CPR_TlsStatuses = statuses\<rparr>)"

definition GetConnectionProfile :: "PostgresManagementService \<Rightarrow> string \<Rightarrow> ConnectionProfileReply rpc io" where
  "GetConnectionProfile s clusterID =
     (if clusterID = [] then fail InvalidArgument ''cluster_id is required''
      else pm_requireCluster clusterID (
        or_status Internal ''get connection profile'' (profiles_GetByClusterID clusterID) (\<lambda>profile.
        or_status Internal ''list nodes'' (nodes_ListByCluster clusterID 0 100) (\<lambda>(ns, _).
        try_do (tlsStatuses s clusterID) Inl (\<lambda>statuses.
        try_do (tlsCAForCluster s clusterID) Inl (\<lambda>ca.
        reply (connection_reply profile ns statuses ca)))))))"

record UpdateConnectionProfileRequest =
  UCP_ClusterId :: string
  UCP_EndpointMode :: string
  UCP_PublicHost :: string
  UCP_PublicPort :: int
  UCP_SslMode :: string
  UCP_AllowedCidrs :: "string list"

fun bad_cidr :: "netip \<Rightarrow> string list \<Rightarrow> (string \<times> string) option" where
  "bad_cidr N [] = None"
| "bad_cidr N (c # cs) = (case ParsePrefix N c of Inl e \<Rightarrow> Some (c, e) | Inr _ \<Rightarrow> bad_cidr N cs)"

text \<open>The fields of the request after the defaults, or the error of the first unacceptable one.\<close>

definition checked_profile :: "netip \<Rightarrow> UpdateConnectionProfileRequest \<Rightarrow> string + (string \<times> int \<times> string)" where
  "checked_profile N req = (
     let endpointMode = (if UCP_EndpointMode req = [] then DefaultEndpointMode else UCP_EndpointMode req);
         publicPort = (if UCP_PublicPort req = 0 then DefaultPublicPort else UCP_PublicPort req);
         sslMode = normalizeTLSMode (if UCP_SslMode req = [] then DefaultSSLMode else UCP_SslMode req);
         badHost = (if UCP_PublicHost req = [] then None else validateHostname (UCP_PublicHost req))
     in if endpointMode \<notin> validEndpointModes
        then Inl (''invalid endpoint_mode '' @ quote endpointMode @ '': must be one of [direct_primary manual_stable_endpoint]'')
        else if badHost \<noteq> None then Inl (wrap ''invalid public_host'' (the badHost))
        else if publicPort < 1 \<or> publicPort > 65535
        then Inl (''invalid public_port '' @ dec publicPort @ '': must be in range 1'' @ [CHR 0xE2, CHR 0x80, CHR 0x93] @ ''65535'')
        else if sslMode \<notin> validSSLModes
        then Inl (''invalid ssl_mode '' @ quote sslMode @ '': must be one of disabled, prefer, required'')
        else (case bad_cidr N (UCP_AllowedCidrs req) of
            Some (cidr, e) \<Rightarrow> Inl (wrap (''invalid CIDR '' @ quote cidr) e)
          | None \<Rightarrow> Inr (endpointMode, publicPort, sslMode)))"

definition UpdateConnectionProfile ::
  "PostgresManagementService \<Rightarrow> request_context \<Rightarrow> UpdateConnectionProfileRequest \<Rightarrow> PConnectionProfile rpc io" where
  "UpdateConnectionProfile s ctx req = no_viewer ctx ''update connection profiles'' (
     let clusterID = UCP_ClusterId req
     in if clusterID = [] then fail InvalidArgument ''cluster_id is required''
        else pm_requireCluster clusterID (case checked_profile (PM_netip s) req of
            Inl e \<Rightarrow> fail InvalidArgument e
          | Inr (endpointMode, publicPort, sslMode) \<Rightarrow>
              or_status Internal ''get existing connection profile'' (profiles_GetByClusterID clusterID) (\<lambda>current.
              or_status Internal ''upsert connection profile'' (profiles_Upsert (current\<lparr>CP_ClusterID := clusterID,
                  CP_EndpointMode := endpointMode, CP_PublicHost := UCP_PublicHost req, CP_PublicPort := publicPort,
                  CP_SSLMode := sslMode, CP_AllowedCIDRs := UCP_AllowedCidrs req,
                  CP_CreatedAt := zero_time, CP_UpdatedAt := zero_time\<rparr>)) (\<lambda>updated.
              reply (profileToProto updated)))))"

section \<open>Network access\<close>

record PHBAApplyStatus =
  PH_ClusterId :: string
  PH_NodeId :: string
  PH_CommandId :: string
  PH_Status :: string
  PH_Error :: string
  PH_AppliedAt :: "Time option"
  PH_UpdatedAt :: "Time option"

definition hbaStatusToProto :: "HBAApplyStatus \<Rightarrow> PHBAApplyStatus" where
  "hbaStatusToProto s = \<lparr>PH_ClusterId = HBA_ClusterID s, PH_NodeId = HBA_NodeID s, PH_CommandId = HBA_CommandID s,
     PH_Status = HBA_Status s, PH_Error = HBA_Error s, PH_AppliedAt = HBA_AppliedAt s,
     PH_UpdatedAt = optional_time (HBA_UpdatedAt s)\<rparr>"

definition hbaStatuses :: "PostgresManagementService \<Rightarrow> string \<Rightarrow> PHBAApplyStatus list rpc io" where
  "hbaStatuses s clusterID =
     (if \<not> PM_access s then reply []
      else or_status Internal ''list hba apply status'' (access_ListHBAStatusByCluster clusterID) (\<lambda>rows.
        reply (map hbaStatusToProto rows)))"

record NetworkAccess =
  NA_ApplicationCidrs :: "string list"
  NA_AdminCidrs :: "string list"
  NA_ReplicationCidrs :: "string list"

definition network_access :: "ConnectionProfile \<Rightarrow> NetworkAccess" where
  "network_access p = \<lparr>NA_ApplicationCidrs = CP_AllowedCIDRs p, NA_AdminCidrs = CP_AllowedAdminCIDRs p,
     NA_ReplicationCidrs = CP_AllowedReplicationCIDRs p\<rparr>"

definition GetNetworkAccess ::
  "PostgresManagementService \<Rightarrow> string \<Rightarrow> (NetworkAccess \<times> PHBAApplyStatus list) rpc io" where
  "GetNetworkAccess s rawClusterID = (
     let clusterID = TrimSpace rawClusterID
     in if clusterID = [] then fail InvalidArgument ''cluster_id is required''
        else pm_requireCluster clusterID (
          or_status Internal ''get connection profile'' (profiles_GetByClusterID clusterID) (\<lambda>profile.
          try_do (hbaStatuses s clusterID) Inl (\<lambda>statuses.
          reply (network_access profile, statuses)))))"

text \<open>The loop of \<open>normalizeCIDRs\<close>: \<open>seen\<close> are the canonical texts met so far, \<open>out\<close> the same in order.\<close>

fun normalize_from :: "netip \<Rightarrow> string \<Rightarrow> string list \<Rightarrow> string list \<Rightarrow> string list res" where
  "normalize_from N field out [] = Inr out"
| "normalize_from N field out (value # rest) = (
     let cidr = TrimSpace value
     in if cidr = [] then normalize_from N field out rest
        else (case ParsePrefix N cidr of
            Inl e \<Rightarrow> Inl (wrap (''invalid '' @ field @ '' CIDR '' @ quote cidr) e)
          | Inr prefix \<Rightarrow> (
              let canonical = PrefixString N (Masked prefix)
              in if canonical \<in> set out then normalize_from N field out rest
                 else normalize_from N field (out @ [canonical]) rest)))"

definition normalizeCIDRs :: "netip \<Rightarrow> string list \<Rightarrow> string \<Rightarrow> string list res" where
  "normalizeCIDRs N raw field = normalize_from N field [] raw"

definition or_invalid :: "'a res \<Rightarrow> ('a \<Rightarrow> 'b rpc io) \<Rightarrow> 'b rpc io" where
  "or_invalid r k = (case r of Inl e \<Rightarrow> fail InvalidArgument e | Inr a \<Rightarrow> k a)"

definition UpdateNetworkAccess ::
  "PostgresManagementService \<Rightarrow> request_context \<Rightarrow> string \<Rightarrow> NetworkAccess \<Rightarrow> NetworkAccess rpc io" where
  "UpdateNetworkAccess s ctx rawClusterID req = no_viewer ctx ''update network access'' (
     let clusterID = TrimSpace rawClusterID; N = PM_netip s
     in if clusterID = []
        then fail InvalidArgument (wrap ''invalid network access request'' (PM_validation_error s [''ClusterID'']))
        else pm_requireCluster clusterID (
          or_invalid (normalizeCIDRs N (NA_ApplicationCidrs req) ''allowed_application_cidrs'') (\<lambda>applicationCIDRs.
          or_invalid (normalizeCIDRs N (NA_AdminCidrs req) ''allowed_admin_cidrs'') (\<lambda>adminCIDRs.
          or_invalid (normalizeCIDRs N (NA_ReplicationCidrs req) ''internal_replication_cidrs'') (\<lambda>replicationCIDRs.
          or_status Internal ''get connection profile'' (profiles_GetByClusterID clusterID) (\<lambda>current.
          or_status Internal ''upsert network access'' (profiles_Upsert (current\<lparr>CP_ClusterID := clusterID,
              CP_AllowedCIDRs := applicationCIDRs, CP_AllowedAdminCIDRs := adminCIDRs,
              CP_AllowedReplicationCIDRs := replicationCIDRs, CP_CreatedAt := zero_time, CP_UpdatedAt := zero_time\<rparr>)) (\<lambda>updated. do {
            _ \<leftarrow> auditAccessChange s ctx clusterID ''update'' updated;
            reply (network_access updated)
          })))))))"

definition hostToHostCIDR :: "netip \<Rightarrow> string \<Rightarrow> string" where
  "hostToHostCIDR N host =
     (case ParseAddr N (TrimSpace host) of
        Inl _ \<Rightarrow> []
      | Inr a \<Rightarrow> PrefixString N (PrefixFrom a (BitLen a)))"

fun add_hosts :: "netip \<Rightarrow> string list \<Rightarrow> string list \<Rightarrow> string list" where
  "add_hosts N replication [] = replication"
| "add_hosts N replication (host # hosts) = (
     let cidr = hostToHostCIDR N host
     in if cidr = [] \<or> cidr \<in> set replication then add_hosts N replication hosts
        else add_hosts N (replication @ [cidr]) hosts)"

definition hbaRuleSets :: "netip \<Rightarrow> ConnectionProfile \<Rightarrow> Node list \<Rightarrow> string list \<times> string list \<times> string list" where
  "hbaRuleSets N profile ns = (CP_AllowedCIDRs profile, CP_AllowedAdminCIDRs profile,
     add_hosts N (CP_AllowedReplicationCIDRs profile) (concat (map (\<lambda>n. [Node_Address n, Node_Hostname n]) ns)))"

definition readyAdminRoleNames :: "ManagedRole list \<Rightarrow> string list" where
  "readyAdminRoleNames roles =
     map MRole_RoleName (filter (\<lambda>r. \<not> (MRole_Status r \<noteq> ''ready'' \<or> MRole_RoleKind r \<noteq> ''admin'')) roles)"

definition readyApplicationRoleNames :: "ManagedRole list \<Rightarrow> string list" where
  "readyApplicationRoleNames roles =
     map MRole_RoleName (filter (\<lambda>r. \<not> (MRole_Status r \<noteq> ''ready'' \<or> MRole_RoleKind r = ''admin'')) roles)"

definition readyApplicationDatabaseNames :: "ManagedDatabase list \<Rightarrow> string list" where
  "readyApplicationDatabaseNames dbs = map MDb_DatabaseName (filter (\<lambda>d. MDb_Status d = ''ready'') dbs)"

definition node_ready :: "Node \<Rightarrow> bool" where
  "node_ready n \<longleftrightarrow> \<not> (Node_AgentID n = [] \<or> \<not> Node_PostgresInstalled n \<or> \<not> Node_PostgresDataInitialized n)"

definition hba_command ::
  "string \<Rightarrow> string list \<times> string list \<times> string list \<Rightarrow> ManagedRole list \<Rightarrow> ManagedDatabase list \<Rightarrow> nat \<Rightarrow> Node \<Rightarrow> ApplyHBANodeCommand" where
  "hba_command clusterID rules roles dbs readyCount node = (case rules of (appRules, adminRules, replicationRules) \<Rightarrow>
     \<lparr>AH_NodeID = Node_ID node, AH_AgentID = Node_AgentID node, AH_CommandID = [],
      AH_Payload = Json [(''admin_cidrs'', JList adminRules), (''admin_roles'', JList (readyAdminRoleNames roles)),
        (''allow_promote'', JBool (Node_Role node = NodeRolePrimary \<and> readyCount = 1)),
        (''application_cidrs'', JList appRules), (''application_databases'', JList (readyApplicationDatabaseNames dbs)),
        (''application_roles'', JList (readyApplicationRoleNames roles)), (''cluster_id'', JStr clusterID),
        (''node_id'', JStr (Node_ID node)), (''replication_cidrs'', JList replicationRules)]\<rparr>)"

definition ApplyHBA :: "PostgresManagementService \<Rightarrow> request_context \<Rightarrow> string \<Rightarrow> PHBAApplyStatus list rpc io" where
  "ApplyHBA s ctx rawClusterID = no_viewer ctx ''apply HBA'' (
     let clusterID = TrimSpace rawClusterID
     in if \<not> PM_access s then fail Internal ''postgres access repository is not configured''
        else if clusterID = [] then fail InvalidArgument ''cluster_id is required''
        else pm_requireCluster clusterID (
          or_status Internal ''get connection profile'' (profiles_GetByClusterID clusterID) (\<lambda>profile.
          or_status Internal ''list cluster nodes'' (nodes_ListByCluster clusterID 0 1000) (\<lambda>(ns, _).
          let ready = filter node_ready ns
          in if ready = [] then fail FailedPrecondition ''no ready nodes found for HBA apply''
             else or_status Internal ''list managed roles'' (roles_ListByCluster clusterID) (\<lambda>roles.
               or_status Internal ''list managed databases'' (databases_ListByCluster clusterID) (\<lambda>dbs.
               let cmds = map (hba_command clusterID (hbaRuleSets (PM_netip s) profile ready) roles dbs (length ready)) ready
               in or_status Internal ''queue hba apply commands'' (access_QueueApplyHBACommands clusterID cmds) (\<lambda>statuses. do {
                    _ \<leftarrow> auditAccessChange s ctx clusterID ''apply_hba'' profile;
                    reply (map hbaStatusToProto statuses)
                  })))))))"

section \<open>Certificates\<close>

text \<open>The hosts of a certificate, trimmed and without repetitions; \<open>add\<close> appends one unless it is empty or known.\<close>

definition add_host :: "string list \<Rightarrow> string \<Rightarrow> string list" where
  "add_host hosts value = (let v = TrimSpace value in if v = [] \<or> v \<in> set hosts then hosts else hosts @ [v])"

definition tlsCertificateHosts :: "ConnectionProfile \<Rightarrow> Node \<Rightarrow> string list" where
  "tlsCertificateHosts profile node = foldl add_host []
     ([Node_Hostname node, Node_Address node]
       @ (if CP_EndpointMode profile = ''manual_stable_endpoint'' then [CP_PublicHost profile] else [])
       @ [''localhost'', ''127.0.0.1'', ''::1''])"

definition canonicalCertHosts :: "string list \<Rightarrow> string list" where
  "canonicalCertHosts hosts = (let out = foldl add_host [] hosts
     in if ''localhost'' \<in> set out then out else out @ [''localhost''])"

definition firstCertHost :: "string list \<Rightarrow> string" where
  "firstCertHost hosts = (case hosts of [] \<Rightarrow> ''localhost'' | h # _ \<Rightarrow> h)"

definition generateClusterCA :: "x509 \<Rightarrow> string \<Rightarrow> (string \<times> string) res io" where
  "generateClusterCA X clusterID = do {
     entropy \<leftarrow> read_nonce;
     State_Monad.return (x509_authority X (''Skylex PostgreSQL CA '' @ clusterID) entropy)
   }"

definition generateServerCertificate :: "x509 \<Rightarrow> string \<Rightarrow> string \<Rightarrow> string list \<Rightarrow> (string \<times> string) res io" where
  "generateServerCertificate X caCertPEM caKeyPEM hosts = do {
     entropy \<leftarrow> read_nonce;
     let canonicalHosts = canonicalCertHosts hosts;
     State_Monad.return (x509_sign X caCertPEM caKeyPEM (firstCertHost canonicalHosts) canonicalHosts entropy)
   }"

section \<open>TLS\<close>

definition tls_config_of ::
  "ConnectionProfile \<Rightarrow> PTLSApplyStatus list \<Rightarrow> ServiceTLSCA option \<Rightarrow> TLSConfig" where
  "tls_config_of profile statuses ca = tlsConfigToProto profile statuses (tlsWarnings profile statuses ca) ca"

definition GetTLSConfig :: "PostgresManagementService \<Rightarrow> string \<Rightarrow> TLSConfig rpc io" where
  "GetTLSConfig s rawClusterID = (
     let clusterID = TrimSpace rawClusterID
     in if clusterID = [] then fail InvalidArgument ''cluster_id is required''
        else pm_requireCluster clusterID (
          or_status Internal ''get connection profile'' (profiles_GetByClusterID clusterID) (\<lambda>profile.
          try_do (tlsStatuses s clusterID) Inl (\<lambda>statuses.
          try_do (tlsCAForCluster s clusterID) Inl (\<lambda>ca.
          reply (tls_config_of profile statuses ca))))))"

text \<open>A missing row right after the upsert is a nil pointer that the handler dereferences.\<close>

definition GenerateTLSCA :: "PostgresManagementService \<Rightarrow> request_context \<Rightarrow> string \<Rightarrow> (TLSConfig \<times> string) rpc io" where
  "GenerateTLSCA s ctx rawClusterID = no_viewer ctx ''generate TLS CA'' (
     case PM_tlsCA s of
       None \<Rightarrow> fail Internal ''postgres TLS CA repository is not configured''
     | Some repo \<Rightarrow> (let clusterID = TrimSpace rawClusterID
         in if clusterID = [] then fail InvalidArgument ''cluster_id is required''
            else pm_requireCluster clusterID (
              try_do (generateClusterCA (PM_x509 s) clusterID) (\<lambda>e. Inl (Status Internal e)) (\<lambda>(caCertPEM, caKeyPEM).
              or_status Internal ''store TLS CA'' (tlsca_Upsert repo clusterID caCertPEM caKeyPEM) (\<lambda>ca.
              or_status Internal ''get connection profile'' (profiles_GetByClusterID clusterID) (\<lambda>profile.
              try_do (tlsStatuses s clusterID) Inl (\<lambda>statuses. do {
                _ \<leftarrow> auditTLSChange s ctx clusterID ''generate_ca'' profile;
                (case ca of
                  None \<Rightarrow> State_Monad.return (Inl (Panic ''nil pointer dereference''))
                | Some c \<Rightarrow> reply (tls_config_of profile statuses ca, CA_CACertPEM c))
              })))))))"

definition GetTLSCACert :: "PostgresManagementService \<Rightarrow> string \<Rightarrow> string rpc io" where
  "GetTLSCACert s rawClusterID = (
     let clusterID = TrimSpace rawClusterID
     in if clusterID = [] then fail InvalidArgument ''cluster_id is required''
        else pm_requireCluster clusterID (
          try_do (tlsCAForCluster s clusterID) Inl (\<lambda>ca. case ca of
            None \<Rightarrow> fail NotFound (''TLS CA has not been generated for cluster '' @ quote clusterID)
          | Some c \<Rightarrow> reply (CA_CACertPEM c))))"

record UpdateTLSConfigRequest =
  UTC_ClusterId :: string
  UTC_TlsMode :: string
  UTC_CertFile :: string
  UTC_KeyFile :: string
  UTC_CaFile :: string

fun bad_path :: "(string \<times> string) list \<Rightarrow> string option" where
  "bad_path [] = None"
| "bad_path ((field, path) # rest) =
     (case validateAgentPath path of Some e \<Rightarrow> Some (wrap (''invalid '' @ field) e) | None \<Rightarrow> bad_path rest)"

definition UpdateTLSConfig ::
  "PostgresManagementService \<Rightarrow> request_context \<Rightarrow> UpdateTLSConfigRequest \<Rightarrow> TLSConfig rpc io" where
  "UpdateTLSConfig s ctx req = no_viewer ctx ''update TLS configuration'' (
     let clusterID = TrimSpace (UTC_ClusterId req);
         tlsMode = (if normalizeTLSMode (UTC_TlsMode req) = [] then DefaultSSLMode else normalizeTLSMode (UTC_TlsMode req));
         certFile = TrimSpace (UTC_CertFile req);
         keyFile = TrimSpace (UTC_KeyFile req);
         caFile = TrimSpace (UTC_CaFile req);
         invalid = (if clusterID = [] then [''ClusterID''] else []) @ (if tlsMode \<notin> validSSLModes then [''TLSMode''] else [])
     in if invalid \<noteq> [] then fail InvalidArgument (wrap ''invalid TLS config request'' (PM_validation_error s invalid))
        else pm_requireCluster clusterID (
          if tlsMode \<noteq> ''disabled'' \<and> (certFile = []) \<noteq> (keyFile = [])
          then fail InvalidArgument ''cert_file and key_file must both be set for manual TLS certificates, or both left empty for Skylex-managed certificates''
          else (case bad_path [(''cert_file'', certFile), (''key_file'', keyFile), (''ca_file'', caFile)] of
              Some e \<Rightarrow> fail InvalidArgument e
            | None \<Rightarrow>
                or_status Internal ''get connection profile'' (profiles_GetByClusterID clusterID) (\<lambda>current.
                or_status Internal ''upsert TLS config'' (profiles_Upsert (current\<lparr>CP_ClusterID := clusterID,
                    CP_SSLMode := tlsMode, CP_TLSCertFile := certFile, CP_TLSKeyFile := keyFile, CP_TLSCAFile := caFile,
                    CP_CreatedAt := zero_time, CP_UpdatedAt := zero_time\<rparr>)) (\<lambda>updated.
                try_do (tlsStatuses s clusterID) Inl (\<lambda>statuses.
                try_do (tlsCAForCluster s clusterID) Inl (\<lambda>ca. do {
                  _ \<leftarrow> auditTLSChange s ctx clusterID ''update'' updated;
                  reply (tls_config_of updated statuses ca)
                })))))))"

text \<open>Whether the server issues the certificates itself.\<close>

definition skylex_managed :: "string \<Rightarrow> ConnectionProfile \<Rightarrow> bool" where
  "skylex_managed tlsMode profile \<longleftrightarrow> tlsMode \<noteq> ''disabled'' \<and> CP_TLSCertFile profile = [] \<and> CP_TLSKeyFile profile = []"

definition tls_payload_for :: "string \<Rightarrow> string \<Rightarrow> ConnectionProfile \<Rightarrow> Node \<Rightarrow> bool \<Rightarrow> payload" where
  "tls_payload_for clusterID tlsMode profile node managed = (let key = (\<lambda>k. if managed then k else []) in
     Json [(''ca_cert_secret_key'', JStr (key ''ca_cert_pem'')), (''ca_file'', JStr (CP_TLSCAFile profile)),
       (''cert_file'', JStr (CP_TLSCertFile profile)), (''cert_hosts'', JList (tlsCertificateHosts profile node)),
       (''cert_secret_key'', JStr (key ''server_cert_pem'')), (''cluster_id'', JStr clusterID),
       (''key_file'', JStr (CP_TLSKeyFile profile)), (''key_secret_key'', JStr (key ''server_key_pem'')),
       (''node_id'', JStr (Node_ID node)), (''tls_mode'', JStr tlsMode)])"

definition tls_command ::
  "PostgresManagementService \<Rightarrow> string \<Rightarrow> string \<Rightarrow> ConnectionProfile \<Rightarrow> ServiceTLSCA option \<Rightarrow> string \<Rightarrow> Node
   \<Rightarrow> ApplyTLSNodeCommand rpc io" where
  "tls_command s clusterID tlsMode profile ca caKeyPEM node = (
     let cmd = \<lparr>AT_NodeID = Node_ID node, AT_AgentID = Node_AgentID node, AT_CommandID = [],
           AT_Payload = tls_payload_for clusterID tlsMode profile node (skylex_managed tlsMode profile), AT_Secrets = []\<rparr>
     in if \<not> skylex_managed tlsMode profile then reply cmd
        else (case ca of
            None \<Rightarrow> State_Monad.return (Inl (Panic ''nil pointer dereference''))
          | Some c \<Rightarrow>
              or_status Internal (''generate server certificate for node '' @ quote (Node_ID node))
                (generateServerCertificate (PM_x509 s) (CA_CACertPEM c) caKeyPEM (tlsCertificateHosts profile node)) (\<lambda>(certPEM, keyPEM).
              reply (cmd\<lparr>AT_Secrets := [(''server_cert_pem'', certPEM), (''server_key_pem'', keyPEM), (''ca_cert_pem'', CA_CACertPEM c)]\<rparr>))))"

definition ca_key :: "PostgresManagementService \<Rightarrow> string \<Rightarrow> ConnectionProfile \<Rightarrow> ServiceTLSCA option \<Rightarrow> string rpc io" where
  "ca_key s tlsMode profile ca =
     (if \<not> skylex_managed tlsMode profile then reply []
      else (case PM_tlsCA s of
          None \<Rightarrow> State_Monad.return (Inl (Panic ''nil pointer dereference''))
        | Some repo \<Rightarrow> or_status Internal ''decrypt TLS CA key'' (tlsca_DecryptCAKey repo ca) reply))"

definition ApplyTLS :: "PostgresManagementService \<Rightarrow> request_context \<Rightarrow> string \<Rightarrow> PTLSApplyStatus list rpc io" where
  "ApplyTLS s ctx rawClusterID = no_viewer ctx ''apply TLS configuration'' (
     case PM_tls s of
       None \<Rightarrow> fail Internal ''postgres TLS repository is not configured''
     | Some repo \<Rightarrow> (let clusterID = TrimSpace rawClusterID
         in if clusterID = [] then fail InvalidArgument ''cluster_id is required''
            else pm_requireCluster clusterID (
              or_status Internal ''get connection profile'' (profiles_GetByClusterID clusterID) (\<lambda>profile.
              let tlsMode = normalizeTLSMode (CP_SSLMode profile)
              in if tlsMode \<notin> validSSLModes then fail InvalidArgument (''invalid TLS mode '' @ quote (CP_SSLMode profile))
                 else try_do (tlsCAForCluster s clusterID) Inl (\<lambda>ca.
                   if skylex_managed tlsMode profile \<and> ca = None
                   then fail FailedPrecondition ''generate a TLS CA before applying Skylex-managed TLS''
                   else try_do (ca_key s tlsMode profile ca) Inl (\<lambda>caKeyPEM.
                     or_status Internal ''list cluster nodes'' (nodes_ListByCluster clusterID 0 1000) (\<lambda>(ns, _).
                     let ready = filter node_ready ns
                     in if ready = [] then fail FailedPrecondition ''no ready nodes found for TLS apply''
                        else try_do (for_collect ready (tls_command s clusterID tlsMode profile ca caKeyPEM)) Inl (\<lambda>cmds.
                          or_status Internal ''queue tls apply commands'' (tls_QueueApplyTLSCommands repo clusterID tlsMode cmds) (\<lambda>statuses. do {
                            _ \<leftarrow> auditTLSChange s ctx clusterID ''apply_tls'' profile;
                            reply (map tlsStatusToProto statuses)
                          })))))))))"

end
