(* ===== verification/PostgresExtensions.thy ===== *)
theory PostgresExtensions
  imports PostgresAccess
begin

text \<open>
  \<open>internal/server/postgres_extensions.go\<close>: the catalog of extensions merged with the state a cluster keeps,
  toggling one of them, and the command that makes the toggles take effect.
\<close>

record PExtension =
  PX_Name :: string
  PX_Label :: string
  PX_Description :: string
  PX_Enabled :: bool
  PX_Status :: string
  PX_Error :: string
  PX_AppliedAt :: "Time option"
  PX_UpdatedAt :: "Time option"

definition extensionToProto :: "Extension \<Rightarrow> ClusterExtension option \<Rightarrow> PExtension" where
  "extensionToProto meta state =
     (let off = \<lparr>PX_Name = Extn_Name meta, PX_Label = Extn_Label meta, PX_Description = Extn_Description meta,
            PX_Enabled = False, PX_Status = ''off'', PX_Error = [], PX_AppliedAt = None, PX_UpdatedAt = None\<rparr>
      in case state of
           None \<Rightarrow> off
         | Some x \<Rightarrow> off\<lparr>PX_Enabled := Ext_Enabled x, PX_Status := Ext_Status x, PX_Error := Ext_Error x,
             PX_AppliedAt := Ext_AppliedAt x, PX_UpdatedAt := optional_time (Ext_UpdatedAt x)\<rparr>)"

definition ext_by_name :: "ClusterExtension list \<Rightarrow> string \<rightharpoonup> ClusterExtension" where
  "ext_by_name stored = map_of (rev (map (\<lambda>x. (Ext_ExtensionName x, x)) stored))"

definition merge_extensions :: "Extension list \<Rightarrow> ClusterExtension list \<Rightarrow> PExtension list" where
  "merge_extensions catalog stored = map (\<lambda>c. extensionToProto c (ext_by_name stored (Extn_Name c))) catalog"

text \<open>The type assertion \<open>provider.(engine.ExtensionCatalog)\<close>: the PostgreSQL provider has a catalog.\<close>

definition provider_catalog :: "Provider \<Rightarrow> Extension list option" where
  "provider_catalog p = (if Prov_Engine p = EnginePostgreSQL then Some availableExtensions else None)"

definition extensionCatalog :: "string \<Rightarrow> (Extension list \<Rightarrow> 'b rpc io) \<Rightarrow> 'b rpc io" where
  "extensionCatalog clusterID k = requireModule clusterID ModuleExtensions (\<lambda>provider.
     case provider_catalog provider of
       None \<Rightarrow> fail FailedPrecondition (''engine '' @ quote (engine_text (Prov_Engine provider))
                 @ '' advertises extensions but provides no catalog'')
     | Some catalog \<Rightarrow> k catalog)"

definition GetExtensions :: "PostgresManagementService \<Rightarrow> string \<Rightarrow> PExtension list rpc io" where
  "GetExtensions s rawClusterID = (
     let clusterID = TrimSpace rawClusterID
     in if clusterID = [] then fail InvalidArgument ''cluster_id is required''
        else extensionCatalog clusterID (\<lambda>catalog.
          if \<not> PM_extensions s then fail Internal ''extension repository is not configured''
          else or_status Internal ''list cluster extensions'' (ext_ListByCluster clusterID) (\<lambda>stored.
            reply (merge_extensions catalog stored))))"

definition catalog_entry :: "Extension list \<Rightarrow> string \<Rightarrow> Extension" where
  "catalog_entry catalog name = (case List.find (\<lambda>c. Extn_Name c = name) catalog of
     Some c \<Rightarrow> c | None \<Rightarrow> \<lparr>Extn_Name = [], Extn_Label = [], Extn_Description = []\<rparr>)"

definition SetExtension ::
  "PostgresManagementService \<Rightarrow> request_context \<Rightarrow> string \<Rightarrow> string \<Rightarrow> bool \<Rightarrow> PExtension rpc io" where
  "SetExtension s ctx rawClusterID rawName enabled = no_viewer ctx ''change extensions'' (
     let clusterID = TrimSpace rawClusterID; name = TrimSpace rawName
     in if clusterID = [] \<or> name = [] then fail InvalidArgument ''cluster_id and name are required''
        else extensionCatalog clusterID (\<lambda>catalog.
          case pg_ValidateExtensionName name of
            Some e \<Rightarrow> fail InvalidArgument e
          | None \<Rightarrow>
              if \<not> PM_extensions s then fail Internal ''extension repository is not configured''
              else or_status Internal ''set extension'' (ext_SetEnabled clusterID name enabled) (\<lambda>updated. do {
                _ \<leftarrow> auditExtensionChange s ctx clusterID ''set'' name;
                reply (extensionToProto (catalog_entry catalog name) updated)
              })))"

definition mergedExtensions :: "string \<Rightarrow> Extension list option \<Rightarrow> PExtension list io" where
  "mergedExtensions clusterID catalog =
     (case catalog of
        None \<Rightarrow> State_Monad.return []
      | Some cs \<Rightarrow> do {
          r \<leftarrow> ext_ListByCluster clusterID;
          State_Monad.return (merge_extensions cs (case r of Inl _ \<Rightarrow> [] | Inr stored \<Rightarrow> stored))
        })"

definition extensions_payload :: "string \<Rightarrow> Node \<Rightarrow> string list \<Rightarrow> string list \<Rightarrow> string list \<Rightarrow> bool \<Rightarrow> payload" where
  "extensions_payload clusterID primary dbNames enable disable allowPromote =
     Json [(''allow_promote'', JBool allowPromote), (''cluster_id'', JStr clusterID), (''databases'', JList dbNames),
           (''disable'', JList disable), (''enable'', JList enable), (''node_id'', JStr (Node_ID primary))]"

definition ApplyExtensions :: "PostgresManagementService \<Rightarrow> request_context \<Rightarrow> string \<Rightarrow> PExtension list rpc io" where
  "ApplyExtensions s ctx rawClusterID = no_viewer ctx ''apply extensions'' (
     let clusterID = TrimSpace rawClusterID
     in if clusterID = [] then fail InvalidArgument ''cluster_id is required''
        else requireModule clusterID ModuleExtensions (\<lambda>provider.
          if \<not> PM_extensions s \<or> \<not> PM_databases s then fail Internal ''extension repository is not configured''
          else resolveManagementPrimary clusterID (\<lambda>primary.
            pm_allowPromotionForCluster clusterID (\<lambda>allowPromote.
            or_status Internal ''list cluster extensions'' (ext_ListByCluster clusterID) (\<lambda>stored.
            let enable = map Ext_ExtensionName (filter Ext_Enabled stored);
                disable = map Ext_ExtensionName (filter (\<lambda>x. \<not> Ext_Enabled x) stored)
            in if enable = [] \<and> disable = [] then fail FailedPrecondition ''no extensions toggled to apply''
               else or_status Internal ''list managed databases'' (databases_ListByCluster clusterID) (\<lambda>dbs.
                 if action_or_empty provider OpApplyExtensions = []
                 then fail FailedPrecondition (''engine '' @ quote (engine_text (Prov_Engine provider))
                        @ '' does not support applying extensions'')
                 else with_admin_secret s clusterID primary (\<lambda>adminSecret adminSecretKey. do {
                   now \<leftarrow> time_now;
                   or_status Internal ''queue apply extensions command'' (ext_QueueApplyCommand
                     \<lparr>AE_ClusterID = clusterID, AE_NodeID = Node_ID primary, AE_AgentID = Node_AgentID primary, AE_CommandID = [],
                      AE_Payload = extensions_payload clusterID primary (readyApplicationDatabaseNames dbs) enable disable allowPromote,
                      AE_EncryptedAdminSecret = adminSecret, AE_AdminSecretKey = adminSecretKey,
                      AE_SecretExpiresAt = Some (now + day_ns)\<rparr>) (\<lambda>_. do {
                     _ \<leftarrow> auditExtensionChange s ctx clusterID ''apply'' [];
                     merged \<leftarrow> mergedExtensions clusterID (provider_catalog provider);
                     reply merged
                   })
                 })))))))"

end
