(* ===== verification/AccessSafety.thy ===== *)
theory AccessSafety
  imports PostgresExtensions AgentSafety
begin

text \<open>
  What is shown of the handlers for network access: the lists of networks they store are canonical, and an
  update is read back as it was answered. The end has a syntax of addresses that satisfies the assumed law and
  a service with its database for concrete instances.
\<close>

section \<open>Canonical lists of prefixes\<close>

definition canonical_cidr :: "netip \<Rightarrow> string \<Rightarrow> bool" where
  "canonical_cidr N c \<longleftrightarrow> TrimSpace c = c \<and> c \<noteq> [] \<and> (\<exists>p. ParsePrefix N c = Inr p \<and> PrefixString N (Masked p) = c)"

lemma TrimSpace_plain: "list_all (\<lambda>c. \<not> is_space c) s \<Longrightarrow> TrimSpace s = s"
proof -
  have d: "dropWhile is_space xs = xs" if "list_all (\<lambda>c. \<not> is_space c) xs" for xs
    using that by (cases xs) simp_all
  assume "list_all (\<lambda>c. \<not> is_space c) s"
  then show ?thesis by (simp add: TrimSpace_def d list_all_rev)
qed

lemma PrefixString_canonical:
  assumes "netip_ok N" "ParsePrefix N s = Inr p"
  shows "canonical_cidr N (PrefixString N (Masked p))"
proof -
  have z: "Zone (fst (Masked p)) = []" using ParsePrefix_shape [OF assms(2)] by (simp add: Masked_shape)
  have "list_all (\<lambda>c. \<not> is_space c) (dec (int n))" for n
    using dec_nat_digits(1) [of n] by (auto simp: dec_def list_all_iff is_digit_def is_space_def)
  then have "TrimSpace (PrefixString N (Masked p)) = PrefixString N (Masked p)"
    using assms(1) z by (intro TrimSpace_plain) (auto simp: PrefixString_def netip_ok_def is_space_def)
  then show ?thesis
    using ParsePrefix_canonical [OF assms] by (auto simp: canonical_cidr_def Masked_shape PrefixString_def)
qed

definition denoted :: "netip \<Rightarrow> string \<Rightarrow> string set" where
  "denoted N v = (case ParsePrefix N (TrimSpace v) of Inr p \<Rightarrow> {PrefixString N (Masked p)} | Inl _ \<Rightarrow> {})"

lemma normalize_from_sound:
  assumes "netip_ok N" "normalize_from N f acc raw = Inr cs" "distinct acc" "list_all (canonical_cidr N) acc"
  shows "distinct cs" "list_all (canonical_cidr N) cs"
    "set cs = set acc \<union> (\<Union>v\<in>{v \<in> set raw. TrimSpace v \<noteq> []}. denoted N v)"
  using assms(2-)
proof (induction raw arbitrary: acc)
  case (Cons v raw)
  { case 1 then show ?case using Cons.IH(1) PrefixString_canonical [OF assms(1)]
      by (force simp: Let_def split: if_splits sum.splits) }
  { case 2 then show ?case using Cons.IH(2) PrefixString_canonical [OF assms(1)]
      by (force simp: Let_def split: if_splits sum.splits) }
  { case 3
    show ?case
    proof (cases "TrimSpace v = []")
      case True
      have "{x \<in> set (v # raw). TrimSpace x \<noteq> []} = {x \<in> set raw. TrimSpace x \<noteq> []}" using True by auto
      then show ?thesis using 3 Cons.IH(3) [of acc] True by simp
    next
      case False
      then obtain p where p: "ParsePrefix N (TrimSpace v) = Inr p"
        using 3(1) by (auto simp: Let_def split: sum.splits)
      have all: "{x \<in> set (v # raw). TrimSpace x \<noteq> []} = insert v {x \<in> set raw. TrimSpace x \<noteq> []}" using False by auto
      have can: "canonical_cidr N (PrefixString N (Masked p))" by (rule PrefixString_canonical [OF assms(1) p])
      let ?c = "PrefixString N (Masked p)"
      have v: "denoted N v = {?c}" using p by (simp add: denoted_def)
      show ?thesis
      proof (cases "?c \<in> set acc")
        case True
        then have "normalize_from N f acc raw = Inr cs" using 3(1) False p by (simp add: Let_def)
        with True show ?thesis using 3(2,3) Cons.IH(3) [of acc] unfolding all by (auto simp: v)
      next
        case fresh: False
        then have "normalize_from N f (acc @ [?c]) raw = Inr cs" using 3(1) False p by (simp add: Let_def)
        with fresh show ?thesis using 3(2,3) can Cons.IH(3) [of "acc @ [?c]"] unfolding all by (auto simp: v)
      qed
    qed }
qed auto

lemma normalize_canonical:
  assumes "list_all (canonical_cidr N) cs" "distinct (acc @ cs)"
  shows "normalize_from N f acc cs = Inr (acc @ cs)"
  using assms
proof (induction cs arbitrary: acc)
  case (Cons c cs)
  then have "normalize_from N f (acc @ [c]) cs = Inr ((acc @ [c]) @ cs)" by (intro Cons.IH) simp_all
  then show ?case using Cons.prems by (auto simp: canonical_cidr_def)
qed simp

text \<open>
  C35: the lists of networks the server stores are canonical. When \<open>normalizeCIDRs\<close> accepts a list, its
  result has no repetitions, holds exactly the masked networks of the non-blank entries, and normalizing
  it again, for whatever field, gives the same list.
\<close>

theorem normalized_cidrs_canonical:
  assumes "netip_ok N" "normalizeCIDRs N raw field = Inr cidrs"
  shows "distinct cidrs \<and> set cidrs = (\<Union>v\<in>{v \<in> set raw. TrimSpace v \<noteq> []}. denoted N v)
    \<and> normalizeCIDRs N cidrs field' = Inr cidrs"
proof -
  note n = normalize_from_sound [OF assms(1), of field "[]" raw cidrs] assms(2)
  have "distinct cidrs" "list_all (canonical_cidr N) cidrs"
      "set cidrs = (\<Union>v\<in>{v \<in> set raw. TrimSpace v \<noteq> []}. denoted N v)"
    using n by (simp_all add: normalizeCIDRs_def)
  then show ?thesis
    using normalize_canonical [of N cidrs "[]" field'] by (simp add: normalizeCIDRs_def)
qed

section \<open>Updating and reading network access\<close>

text \<open>The profile a cluster has, stored or by default.\<close>

definition stored_profile :: "db \<Rightarrow> string \<Rightarrow> ConnectionProfile" where
  "stored_profile d c = (case profile_of d c of None \<Rightarrow> default_profile c | Some x \<Rightarrow> scan_profile x)"

definition with_access :: "NetworkAccess \<Rightarrow> ConnectionProfile \<Rightarrow> ConnectionProfile" where
  "with_access na p = p\<lparr>CP_AllowedCIDRs := NA_ApplicationCidrs na, CP_AllowedAdminCIDRs := NA_AdminCidrs na,
     CP_AllowedReplicationCIDRs := NA_ReplicationCidrs na\<rparr>"

text \<open>Only the profile of one cluster and the audit log differ.\<close>

definition only_profile :: "string \<Rightarrow> db \<Rightarrow> db \<Rightarrow> bool" where
  "only_profile c d d' \<longleftrightarrow> (\<forall>c'. c' \<noteq> c \<longrightarrow> profile_of d' c' = profile_of d c') \<and>
     d'\<lparr>cluster_connection_profiles := cluster_connection_profiles d, audit_logs := audit_logs d\<rparr> = d"

lemma wp_pm_requireCluster:
  assumes "\<And>e w'. the_env w' = the_env w \<Longrightarrow> store w' = store w \<Longrightarrow> Q (Inl e) w'"
    and "\<And>w'. the_env w' = the_env w \<Longrightarrow> store w' = store w \<Longrightarrow>
       List.find (\<lambda>x. Cluster_ID x = c) (clusters (store w)) \<noteq> None \<Longrightarrow> wp k Q w'"
  shows "wp (pm_requireCluster c k) Q w"
  using assms by (auto simp: pm_requireCluster_def clusters_GetByID_def wp_simps split: option.splits)

lemma wp_pm_audit:
  "wp (pm_audit s ctx a r t) (\<lambda>_ w'. the_env w' = the_env w \<and> (\<exists>logs. store w' = (store w)\<lparr>audit_logs := logs\<rparr>)) w"
proof -
  have [intro]: "\<exists>logs. store w = (store w)\<lparr>audit_logs := logs\<rparr>"
    by (rule exI [of _ "audit_logs (store w)"]) simp
  show ?thesis unfolding pm_audit_def by (auto simp: wp_simps intro!: wp_audit_Log)
qed

lemma profile_of_frame [simp]: "profile_of (d\<lparr>audit_logs := l\<rparr>) c = profile_of d c"
  by (simp add: profile_of_def)

lemma stored_profile_id [simp]: "CP_ClusterID (stored_profile d c) = c"
  by (auto simp: stored_profile_def default_profile_def scan_profile_def profile_of_def find_Some_iff split: option.splits)

lemma stored_profile_set_id [simp]: "(stored_profile d c)\<lparr>CP_ClusterID := c\<rparr> = stored_profile d c"
proof -
  have "p\<lparr>CP_ClusterID := CP_ClusterID p\<rparr> = p" for p :: ConnectionProfile by simp
  from this [of "stored_profile d c"] show ?thesis by simp
qed

lemma profile_written_only:
  "CP_ClusterID p = c \<Longrightarrow> only_profile c d ((profile_written p now d)\<lparr>audit_logs := l\<rparr>)"
  by (simp add: only_profile_def profile_of_written) (simp add: profile_written_def)

lemma stored_profile_written:
  "CP_ClusterID p = c \<Longrightarrow> stored_profile ((profile_written p now d)\<lparr>audit_logs := l\<rparr>) c =
     p\<lparr>CP_CreatedAt := created_at (profile_of d c) now, CP_UpdatedAt := now\<rparr>"
  by (simp add: stored_profile_def profile_of_written scan_profile_row)

definition access_updated :: "netip \<Rightarrow> NetworkAccess \<Rightarrow> NetworkAccess \<Rightarrow> string \<Rightarrow> db \<Rightarrow> db \<Rightarrow> bool" where
  "access_updated N req na c d d' \<longleftrightarrow> only_profile c d d' \<and>
     (\<exists>created now. stored_profile d' c =
        (with_access na (stored_profile d c))\<lparr>CP_CreatedAt := created, CP_UpdatedAt := now\<rparr>) \<and>
     normalizeCIDRs N (NA_ApplicationCidrs req) ''allowed_application_cidrs'' = Inr (NA_ApplicationCidrs na) \<and>
     normalizeCIDRs N (NA_AdminCidrs req) ''allowed_admin_cidrs'' = Inr (NA_AdminCidrs na) \<and>
     normalizeCIDRs N (NA_ReplicationCidrs req) ''internal_replication_cidrs'' = Inr (NA_ReplicationCidrs na)"

lemma network_access_with:
  "network_access ((with_access na p)\<lparr>CP_CreatedAt := a, CP_UpdatedAt := b\<rparr>) = na"
  by (simp add: network_access_def with_access_def)

lemma wp_stored_profile:
  "wp (profiles_GetByClusterID c) (\<lambda>r w'. the_env w' = the_env w \<and> store w' = store w \<and>
     (\<forall>p. r = Inr p \<longrightarrow> p = stored_profile (store w) c)) w"
  by (rule wp_mono [OF wp_profiles_GetByClusterID]) (simp add: stored_profile_def)

text \<open>A change of the stored profile: read it, change it, write it back.\<close>

definition rewrite_profile ::
  "string \<Rightarrow> string \<Rightarrow> string \<Rightarrow> (ConnectionProfile \<Rightarrow> ConnectionProfile) \<Rightarrow> (ConnectionProfile \<Rightarrow> 'b rpc io) \<Rightarrow> 'b rpc io" where
  "rewrite_profile m1 m2 c f k =
     or_status Internal m1 (profiles_GetByClusterID c) (\<lambda>current.
     or_status Internal m2 (profiles_Upsert ((f current)\<lparr>CP_CreatedAt := zero_time, CP_UpdatedAt := zero_time\<rparr>)) k)"

lemma wp_rewrite_profile:
  assumes "\<And>e w'. the_env w' = the_env w \<Longrightarrow> Q (Inl e) w'" "\<And>p. CP_ClusterID p = c \<Longrightarrow> CP_ClusterID (f p) = c"
    and "\<And>created now w' q. the_env w' = the_env w \<Longrightarrow>
      q = (f (stored_profile (store w) c))\<lparr>CP_CreatedAt := created, CP_UpdatedAt := now\<rparr> \<Longrightarrow>
      (\<And>logs. only_profile c (store w) ((store w')\<lparr>audit_logs := logs\<rparr>) \<and> stored_profile ((store w')\<lparr>audit_logs := logs\<rparr>) c = q) \<Longrightarrow>
      wp (k q) Q w'"
  shows "wp (rewrite_profile m1 m2 c f k) Q w"
proof -
  let ?p = "(f (stored_profile (store w) c))\<lparr>CP_CreatedAt := zero_time, CP_UpdatedAt := zero_time\<rparr>"
  have id: "CP_ClusterID ?p = c" using assms(2) [of "stored_profile (store w) c"] by simp
  have k: "wp (k q) Q w2" if "the_env w2 = the_env w" "store w2 = profile_written ?p now (store w)"
      "q = ?p\<lparr>CP_CreatedAt := created_at (profile_of (store w) (CP_ClusterID ?p)) now, CP_UpdatedAt := now\<rparr>" for q now w2
    using assms(3) [OF that(1)] that profile_written_only [OF id] stored_profile_written [OF id] id by simp
  have up: "wp (profiles_Upsert ?p) (\<lambda>r w'. case r of Inl e \<Rightarrow> Q (Inl (Status Internal (wrap m2 e))) w' | Inr a \<Rightarrow> wp (k a) Q w') w1"
    if "the_env w1 = the_env w" "store w1 = store w" for w1
    by (rule wp_mono [OF wp_profiles_Upsert]) (auto simp: that assms(1) split: sum.splits intro: k)
  show ?thesis
    unfolding rewrite_profile_def wp_or_status
  proof (rule wp_mono [OF wp_stored_profile])
    fix r :: "ConnectionProfile res" and w1 :: world
    assume "the_env w1 = the_env w \<and> store w1 = store w \<and> (\<forall>p. r = Inr p \<longrightarrow> p = stored_profile (store w) c)"
    then show "case r of Inl e \<Rightarrow> Q (Inl (Status Internal (wrap m1 e))) w1
        | Inr a \<Rightarrow> wp (profiles_Upsert ((f a)\<lparr>CP_CreatedAt := zero_time, CP_UpdatedAt := zero_time\<rparr>))
            (\<lambda>r w'. case r of Inl e \<Rightarrow> Q (Inl (Status Internal (wrap m2 e))) w' | Inr a \<Rightarrow> wp (k a) Q w') w1"
      using up by (cases r) (simp_all add: assms(1))
  qed
qed

lemma UpdateNetworkAccess_rewrite:
  "UpdateNetworkAccess s ctx rawClusterID req = no_viewer ctx ''update network access'' (
     let clusterID = TrimSpace rawClusterID; N = PM_netip s
     in if clusterID = []
        then fail InvalidArgument (wrap ''invalid network access request'' (PM_validation_error s [''ClusterID'']))
        else pm_requireCluster clusterID (
          or_invalid (normalizeCIDRs N (NA_ApplicationCidrs req) ''allowed_application_cidrs'') (\<lambda>ac.
          or_invalid (normalizeCIDRs N (NA_AdminCidrs req) ''allowed_admin_cidrs'') (\<lambda>bc.
          or_invalid (normalizeCIDRs N (NA_ReplicationCidrs req) ''internal_replication_cidrs'') (\<lambda>cc.
          rewrite_profile ''get connection profile'' ''upsert network access'' clusterID
            (\<lambda>p. with_access \<lparr>NA_ApplicationCidrs = ac, NA_AdminCidrs = bc, NA_ReplicationCidrs = cc\<rparr> (p\<lparr>CP_ClusterID := clusterID\<rparr>))
            (\<lambda>updated. do {
              _ \<leftarrow> auditAccessChange s ctx clusterID ''update'' updated;
              reply (network_access updated)
            }))))))"
  by (simp add: UpdateNetworkAccess_def rewrite_profile_def with_access_def Let_def)

lemma wp_UpdateNetworkAccess:
  "wp (UpdateNetworkAccess s ctx c req) (\<lambda>r w'. the_env w' = the_env w \<and> (\<forall>na. r = Inr na \<longrightarrow>
     TrimSpace c \<noteq> [] \<and> List.find (\<lambda>x. Cluster_ID x = TrimSpace c) (clusters (store w)) \<noteq> None \<and>
     access_updated (PM_netip s) req na (TrimSpace c) (store w) (store w'))) w"
  unfolding UpdateNetworkAccess_rewrite no_viewer_def Let_def or_invalid_def
  by (auto simp: wp_simps network_access_def access_updated_def auditAccessChange_def with_access_def
      split: sum.splits intro!: wp_pm_requireCluster wp_rewrite_profile wp_mono [OF wp_pm_audit]) blast


lemma wp_GetNetworkAccess:
  assumes "no_faults w" "TrimSpace c \<noteq> []" "List.find (\<lambda>x. Cluster_ID x = TrimSpace c) (clusters (store w)) \<noteq> None"
  shows "wp (GetNetworkAccess s c) (\<lambda>r w'. \<exists>st. r = Inr (network_access (stored_profile (store w) (TrimSpace c)), st)) w"
  using assms unfolding GetNetworkAccess_def Let_def pm_requireCluster_def
  by (auto simp: wp_simps clusters_GetByID_def profiles_GetByClusterID_def hbaStatuses_def access_ListHBAStatusByCluster_def
      stored_profile_def split: option.splits)

lemma only_profile_clusters: "only_profile c d d' \<Longrightarrow> clusters d' = clusters d"
  unfolding only_profile_def by (metis (no_types, lifting) db.select_convs(1) db.surjective db.update_convs)

text \<open>
  C36: network access that was updated is what is read back. After a successful \<open>UpdateNetworkAccess\<close> the
  stored profile has the normalized lists of the request and is otherwise the profile the cluster had
  before, no other cluster and no other table has changed (but for the audit log), and
  \<open>GetNetworkAccess\<close> returns the lists the update answered with.
\<close>

theorem network_access_round_trip:
  assumes "no_faults w" "result (UpdateNetworkAccess s ctx c req) w = Inr na"
  shows "access_updated (PM_netip s) req na (TrimSpace c) (store w) (store (after (UpdateNetworkAccess s ctx c req) w))
    \<and> map_sum id fst (result (GetNetworkAccess s c) (after (UpdateNetworkAccess s ctx c req) w)) = Inr na"
proof -
  let ?w = "after (UpdateNetworkAccess s ctx c req) w"
  have u: "the_env ?w = the_env w" "TrimSpace c \<noteq> []" "List.find (\<lambda>x. Cluster_ID x = TrimSpace c) (clusters (store w)) \<noteq> None"
      "access_updated (PM_netip s) req na (TrimSpace c) (store w) (store ?w)"
    using wp_UpdateNetworkAccess [of s ctx c req w] assms(2) by (auto simp: wp_outcome)
  then have "clusters (store ?w) = clusters (store w)" and na: "network_access (stored_profile (store ?w) (TrimSpace c)) = na"
    by (auto simp: access_updated_def network_access_with dest: only_profile_clusters)
  with u have "wp (GetNetworkAccess s c) (\<lambda>r w'. \<exists>st. r = Inr (na, st)) ?w"
    using wp_GetNetworkAccess [of ?w c s] assms(1) by simp
  then show ?thesis using u(4) by (auto simp: wp_outcome)
qed

section \<open>Concrete instances\<close>

text \<open>A syntax of addresses that satisfies the law: the family and the bits, the lowest first.\<close>

definition bits_text :: "bool list \<Rightarrow> string" where
  "bits_text bs = map (\<lambda>b. if b then CHR ''1'' else CHR ''0'') bs"

definition text_bits :: "string \<Rightarrow> bool list" where
  "text_bits cs = map (\<lambda>c. c = CHR ''1'') cs"

fun sample_addr_string :: "Addr \<Rightarrow> string" where
  "sample_addr_string (Addr4 a) = ''v4:'' @ bits_text (map (bit a) [0..<32])"
| "sample_addr_string (Addr6 a z) = ''v6:'' @ bits_text (map (bit a) [0..<128]) @ z"

definition sample_parse_addr :: "string \<Rightarrow> string + Addr" where
  "sample_parse_addr s =
     (if take 3 s = ''v4:'' \<and> length s = 35 then Inr (Addr4 (horner_sum of_bool 2 (text_bits (drop 3 s))))
      else if take 3 s = ''v6:'' \<and> 131 \<le> length s
      then Inr (Addr6 (horner_sum of_bool 2 (text_bits (take 128 (drop 3 s)))) (drop 131 s))
      else Inl ''unable to parse IP'')"

definition sample_netip :: netip where
  "sample_netip = \<lparr>ParseAddr = sample_parse_addr, AddrString = sample_addr_string\<rparr>"

lemma text_bits_text [simp]: "text_bits (bits_text bs) = bs"
  by (simp add: text_bits_def bits_text_def comp_def)

lemma take3: "take 3 (a # b # c # xs) = [a, b, c]" "drop 3 (a # b # c # xs) = xs" "drop 131 (a # b # c # xs) = drop 128 xs"
  by simp_all

lemma plain_bits: "list_all (\<lambda>c. \<not> is_space c) (bits_text bs)"
  by (auto simp: list_all_iff bits_text_def is_space_def)

lemma sample_netip_ok: "netip_ok sample_netip"
proof -
  have "sample_parse_addr (sample_addr_string a) = Inr a \<and> list_all (\<lambda>c. \<not> is_space c) (sample_addr_string a)"
    if "Zone a = []" for a
  proof (cases a)
    case (Addr4 x)
    have "length (bits_text (map (bit x) [0..<32])) = 32" by (simp add: bits_text_def)
    then show ?thesis
      using plain_bits [of "map (bit x) [0..<32]"]
      by (simp add: Addr4 sample_parse_addr_def take3 horner_sum_bit_eq_take_bit is_space_def take_bit_word_eq_self del: upt_rec_numeral)
  next
    case (Addr6 x z)
    have "length (bits_text (map (bit x) [0..<128])) = 128" by (simp add: bits_text_def)
    then show ?thesis
      using plain_bits [of "map (bit x) [0..<128]"] that
      by (simp add: Addr6 sample_parse_addr_def take3 horner_sum_bit_eq_take_bit is_space_def take_bit_word_eq_self del: upt_rec_numeral)
  qed
  then show ?thesis by (simp add: netip_ok_def sample_netip_def)
qed

text \<open>An address with its 24 lowest bits set, as a request with white space may spell it.\<close>

definition sample_host :: string where
  "sample_host = ''v4:'' @ replicate 24 (CHR ''1'') @ ''01010000''"

definition sample_net :: string where
  "sample_net = ''v4:'' @ replicate 24 (CHR ''0'') @ ''01010000/8''"

lemma sample_normalize:
  "normalizeCIDRs sample_netip [sample_host @ ''/8'', '' '' @ sample_net, ''''] f = Inr [sample_net]"
  by code_simp

theorem normalized_cidrs_canonical_witness:
  "distinct [sample_net] \<and> normalizeCIDRs sample_netip [sample_net] ''allowed_admin_cidrs'' = Inr [sample_net]"
  using normalized_cidrs_canonical [OF sample_netip_ok sample_normalize] by blast

definition sample_x509 :: x509 where
  "sample_x509 = \<lparr>x509_authority = (\<lambda>name r. Inr (''CERT '' @ name, ''KEY '' @ r)),
     x509_sign = (\<lambda>cert key name hosts r. Inr (''CERT '' @ name @ '' BY '' @ cert, ''KEY '' @ r))\<rparr>"

definition sample_pm :: PostgresManagementService where
  "sample_pm = \<lparr>PM_databases = True, PM_access = True, PM_tls = Some sample_repo, PM_tlsCA = Some sample_repo,
     PM_extensions = True, PM_clusterSecrets = Some sample_repo, PM_commandSecrets = Some sample_repo, PM_audit = True,
     PM_aead = sample_aead, PM_roleEncryptKey = ''0123456789abcdef'', PM_netip = sample_netip, PM_x509 = sample_x509,
     PM_validation_error = (\<lambda>_. ''validation failed'')\<rparr>"

definition sample_operator :: request_context where
  "sample_operator = \<lparr>UserIDFromContext = ''u1'', UserRoleFromContext = RoleOperator, UserEmailFromContext = ''op@example.com''\<rparr>"

definition managed_db :: db where
  "managed_db = empty_db\<lparr>clusters := [sample_cluster ''c1'' ClusterStatusRunning],
     nodes := [sample_node ''n1'' ''c1'' NodeRolePrimary NodeStatusOnline 10]\<rparr>"

definition sample_access :: NetworkAccess where
  "sample_access = \<lparr>NA_ApplicationCidrs = [sample_host @ ''/8''], NA_AdminCidrs = [], NA_ReplicationCidrs = ['' '']\<rparr>"

lemma sample_update:
  "result (UpdateNetworkAccess sample_pm sample_operator '' c1'' sample_access) (world_of managed_db) =
     Inr \<lparr>NA_ApplicationCidrs = [sample_net], NA_AdminCidrs = [], NA_ReplicationCidrs = []\<rparr>"
  by code_simp

theorem network_access_round_trip_witness:
  "map_sum id fst (result (GetNetworkAccess sample_pm '' c1'')
     (after (UpdateNetworkAccess sample_pm sample_operator '' c1'' sample_access) (world_of managed_db))) =
   Inr \<lparr>NA_ApplicationCidrs = [sample_net], NA_AdminCidrs = [], NA_ReplicationCidrs = []\<rparr>"
  using network_access_round_trip [OF _ sample_update] by simp

end
