(* ===== verification/ManagementSafety.thy ===== *)
theory ManagementSafety
  imports AccessSafety
begin

text \<open>
  What is shown of the handlers for roles and databases: when the commands they queue may promote a node, and
  where the one-time password goes that they answer with.
\<close>

section \<open>Commands that may promote\<close>

text \<open>
  A command can turn a standby into a primary by its action or by the flag in its payload. \<open>lone ns i\<close> says
  that the node \<open>i\<close> is the only one of its cluster.
\<close>

definition promoting :: "AgentCommand \<Rightarrow> bool" where
  "promoting c \<longleftrightarrow> Cmd_Action c = ''pg_promote'' \<or> json_bool ''allow_promote'' (Cmd_Payload c) = Some True"

definition lone :: "Node list \<Rightarrow> string \<Rightarrow> bool" where
  "lone ns i \<longleftrightarrow> (\<exists>n\<in>set ns. Node_ID n = i \<and> length (filter (in_cluster (Node_ClusterID n)) ns) = 1)"

definition no_new_promotion :: "Node list \<Rightarrow> AgentCommand list \<Rightarrow> db \<Rightarrow> bool" where
  "no_new_promotion ns old d \<longleftrightarrow> nodes d = ns \<and>
     (\<forall>c\<in>set (agent_commands d). promoting c \<longrightarrow> c \<in> set old \<or> lone ns (Cmd_NodeID c))"

lemma keeps_promotion_insert:
  assumes "promoting c \<Longrightarrow> lone ns (Cmd_NodeID c)"
  shows "keeps_db (no_new_promotion ns old) (commands_insert c)"
  unfolding commands_insert_def using assms by (intro keeps_exec) (auto simp: no_new_promotion_def split: if_splits)

definition may_promote :: "string \<Rightarrow> payload \<Rightarrow> bool" where
  "may_promote act p \<longleftrightarrow> act = ''pg_promote'' \<or> json_bool ''allow_promote'' p = Some True"

lemma keeps_promotion_command:
  assumes "may_promote act p \<Longrightarrow> lone ns n"
  shows "keeps_db (no_new_promotion ns old) (insertAgentCommand i a n act p now)"
  unfolding insertAgentCommand_def Let_def
  by (intro keeps_intros keeps_promotion_insert) (use assms in \<open>simp add: promoting_def may_promote_def command_row_def\<close>)

lemma keeps_promotion_secrets [keeps_intros]:
  "keeps_db (no_new_promotion ns old) (insertCommandSecret c k ct x now)"
  "keeps_db (no_new_promotion ns old) (insertAdminCommandSecret c k ct x now)"
  "keeps_db (no_new_promotion ns old) (csecrets_StoreSecret r cid k pt)"
  "keeps_db (no_new_promotion ns old) (attach_secrets r c' ss x now)"
  unfolding insertAdminCommandSecret_def csecrets_StoreSecret_def attach_secrets_def Let_def
  by (intro keeps_intros keeps_exec keeps_insertCommandSecret; auto simp: no_new_promotion_def split: if_splits)+

lemma keeps_promotion_with_secrets:
  assumes "may_promote act p \<Longrightarrow> lone ns n"
  shows "keeps_db (no_new_promotion ns old) (secrets_CreateCommandWithSecrets r a n act p ss x)"
  unfolding secrets_CreateCommandWithSecrets_def Let_def
  by (intro keeps_intros keeps_promotion_insert) (use assms in \<open>simp add: promoting_def may_promote_def command_row_def\<close>)

lemma keeps_promotion_backfill [keeps_intros]:
  "keeps_db (no_new_promotion ns old) (ensureSkylexAdminProvisioned cs ks cid p)"
  "keeps_db I (resolveSkylexAdminCommandSecret cs A key cid)"
  unfolding ensureSkylexAdminProvisioned_def resolveSkylexAdminCommandSecret_def
  by (intro keeps_intros keeps_promotion_with_secrets; simp add: may_promote_def admin_role_payload_def json_bool_def)+

lemma keeps_promotion_operation [keeps_intros]:
  "keeps_db (no_new_promotion ns old) (insertServiceOperation i c n t now)"
  "keeps_db (no_new_promotion ns old) (mark_operation_running i now)"
  "keeps_db (no_new_promotion ns old) (roles_insert r)"
  "keeps_db (no_new_promotion ns old) (update_role i f)"
  "keeps_db (no_new_promotion ns old) (databases_insert d)"
  "keeps_db (no_new_promotion ns old) (update_database i g)"
  unfolding insertServiceOperation_def operations_insert_def mark_operation_running_def roles_insert_def update_role_def
    databases_insert_def update_database_def Let_def
  by (intro keeps_intros keeps_exec keeps_sql_write; auto simp: no_new_promotion_def split: if_splits)+

lemma keeps_promotion_queue:
  assumes "may_promote (Q_Action q) (Q_Payload q) \<Longrightarrow> lone ns (Q_NodeID q)"
    and "may_promote (Q_BeforeAction q) (Q_BeforePayload q) \<Longrightarrow> lone ns (Q_NodeID q)"
  shows "keeps_db (no_new_promotion ns old) (queue_operation q now)"
  unfolding queue_operation_def queue_before_def
  by (intro keeps_intros keeps_promotion_command) (use assms in auto)


text \<open>The primary of a cluster, with the flag that is set only for a cluster of one node.\<close>

lemma lone_node:
  assumes "in_cluster c n" "n \<in> set ns" "length (page 0 1000 (by_role_then_age (filter (in_cluster c) ns))) = 1"
  shows "lone ns (Node_ID n)"
proof -
  have "length (filter (in_cluster c) ns) = 1"
    using assms(3) by (simp add: page_def by_role_then_age_def)
  then show ?thesis using assms(1,2) by (auto simp: lone_def in_cluster_def)
qed

lemma wp_GetPrimary_any:
  "wp (nodes_GetPrimary c) (\<lambda>r w'. store w' = store w \<and> (\<forall>p. r = Inr (Some p) \<longrightarrow> (\<exists>q ms. p = attach_metric ms q \<and>
     List.find (\<lambda>n. in_cluster c n \<and> Node_Role n = NodeRolePrimary) (nodes (store w)) = Some q))) w"
  by (auto simp: nodes_GetPrimary_def checked_def nodes_row_def nodes_attachLatestMetrics_def wp_simps split: option.splits)

lemma registered_provider: "engine_For the_registry e = Inr pr \<Longrightarrow> pr = pg_provider"
  by (auto simp: the_registry_def Register_def engine_For_def empty_registry_def split: sum.splits if_splits option.splits)

lemma keeps_promotion_primary:
  assumes "\<And>p b. (b \<Longrightarrow> lone ns (Node_ID p)) \<Longrightarrow> keeps_db (no_new_promotion ns old) (k p b)"
  shows "keeps_db (no_new_promotion ns old) (resolveManagementPrimary c (\<lambda>p. pm_allowPromotionForCluster c (k p)))"
proof (rule keeps_wpI)
  fix w :: world assume I: "no_new_promotion ns old (store w)"
  let ?Q = "\<lambda>(_ :: 'a rpc) w'. no_new_promotion ns old (store w')"
  have step: "wp (pm_allowPromotionForCluster c (k p)) ?Q w1"
    if w1: "store w1 = store w" and p: "in_cluster c n" "n \<in> set ns" "Node_ID p = Node_ID n" for w1 :: world and p n
  proof -
    have "c \<noteq> []" using p(1) by (simp add: in_cluster_def)
    have ns: "nodes (store w) = ns" using I by (simp add: no_new_promotion_def)
    have k: "wp (k p (length (page 0 1000 (by_role_then_age (filter (in_cluster c) ns))) = Suc 0)) ?Q w2"
      if "store w2 = store w" for w2 :: world
      using assms [of "length (page 0 1000 (by_role_then_age (filter (in_cluster c) ns))) = 1" p] lone_node [OF p(1,2)] p(3) I that
      by (auto simp: keeps_wp)
    show ?thesis
      unfolding pm_allowPromotionForCluster_def wp_or_status
      by (rule wp_mono [OF wp_ListByCluster [OF \<open>c \<noteq> []\<close>]])
        (auto simp: I w1 ns split: sum.splits intro!: k)
  qed
  have "wp (nodes_GetPrimary c) (\<lambda>r w'. store w' = store w \<and> (\<forall>p. r = Inr (Some p) \<longrightarrow>
      (\<exists>n. in_cluster c n \<and> n \<in> set ns \<and> Node_ID p = Node_ID n))) w"
  proof (rule wp_mono [OF wp_GetPrimary_any])
    fix r :: "Node option res" and w' :: world
    have ns: "nodes (store w) = ns" using I by (simp add: no_new_promotion_def)
    assume "store w' = store w \<and> (\<forall>p. r = Inr (Some p) \<longrightarrow> (\<exists>q ms. p = attach_metric ms q \<and>
        List.find (\<lambda>n. in_cluster c n \<and> Node_Role n = NodeRolePrimary) (nodes (store w)) = Some q))"
    then show "store w' = store w \<and> (\<forall>p. r = Inr (Some p) \<longrightarrow> (\<exists>n. in_cluster c n \<and> n \<in> set ns \<and> Node_ID p = Node_ID n))"
      unfolding ns by (auto simp: attach_metric_def dest!: find_Some_iff_mem split: option.splits) blast+
  qed
  then show "wp (resolveManagementPrimary c (\<lambda>p. pm_allowPromotionForCluster c (k p))) ?Q w"
    unfolding resolveManagementPrimary_def wp_or_status
    by (rule wp_mono) (use I step in \<open>auto simp: wp_simps split: sum.splits option.splits\<close>)
qed


text \<open>What remains of the handlers, whose payloads carry the flag and whose preceding action depends on it.\<close>

lemma keeps_promotion_checks [keeps_intros]:
  "keeps_db J m \<Longrightarrow> keeps_db J (no_viewer ctx what m)"
  "keeps_db J m \<Longrightarrow> keeps_db J (pm_requireCluster cid m)"
  "(\<And>ro. keeps_db J (k2 ro)) \<Longrightarrow> keeps_db J (require_role rid k2)"
  "(\<And>ow. keeps_db J (k3 ow)) \<Longrightarrow> keeps_db J (owner_role cid oid k3)"
  "(\<And>a b c. keeps_db J (k4 a b c)) \<Longrightarrow> keeps_db J (fresh_password s k4)"
  "(\<And>a b. keeps_db (no_new_promotion ns old) (k5 a b)) \<Longrightarrow> keeps_db (no_new_promotion ns old) (with_admin_secret s cid p k5)"
  "keeps_db J (role_owns_databases s r)"
  unfolding no_viewer_def pm_requireCluster_def require_role_def owner_role_def
    fresh_password_def with_admin_secret_def skylexAdminCommandSecret_def role_owns_databases_def roles_GetByID_def role_by_id_def
    databases_HasByOwnerRole_def
  by (intro keeps_intros; assumption)+

lemma keeps_requireModule [keeps_intros]:
  assumes "keeps_db J (k pg_provider)"
  shows "keeps_db J (requireModule cid md k)"
proof -
  have "keeps_db J (case engine_For the_registry e of Inl x \<Rightarrow> fail FailedPrecondition x
      | Inr pr \<Rightarrow> if \<not> Prov_Supports pr md then fail FailedPrecondition (msg pr) else k pr)" for e msg
    using assms registered_provider by (cases "engine_For the_registry e") (auto intro: keeps_intros)
  then show ?thesis
    unfolding requireModule_def providerForCluster_def
    by (intro keeps_or_status keeps_cluster_getters keeps_case_option keeps_fail)
qed

lemma may_promote_payloads [simp]:
  "may_promote (action_or_empty pg_provider op) p \<longleftrightarrow> json_bool ''allow_promote'' p = Some True"
  "may_promote (managementBeforeAction b) (Text []) \<longleftrightarrow> b"
  "json_bool ''allow_promote'' (create_role_payload r o1 n kd b) = Some b"
  "json_bool ''allow_promote'' (rotate_payload ro o1 b) = Some b"
  "json_bool ''allow_promote'' (delete_role_payload ro o1 b) = Some b"
  "json_bool ''allow_promote'' (create_database_payload di o1 n b ow) = Some b"
  "json_bool ''allow_promote'' (delete_database_payload da o1 b) = Some b"
  by (cases op; auto simp: may_promote_def action_or_empty_def pg_provider_def managementBeforeAction_def json_bool_def
      create_role_payload_def rotate_payload_def delete_role_payload_def create_database_payload_def delete_database_payload_def
      split: option.splits)+


lemma keeps_promotion_transactions:
  "(b \<Longrightarrow> lone ns (Node_ID p)) \<Longrightarrow> keeps_db (no_new_promotion ns old)
     (roles_CreateWithCommand (create_role_input r o1 c cid p n kd sp b cs x as ak ex (action_or_empty pg_provider op)))"
  "(b \<Longrightarrow> lone ns (Node_ID p)) \<Longrightarrow> keeps_db (no_new_promotion ns old)
     (roles_RetryCreateWithCommand (create_role_input r o1 c cid p n kd sp b cs x as ak ex (action_or_empty pg_provider op)))"
  unfolding roles_CreateWithCommand_def roles_RetryCreateWithCommand_def Let_def role_by_id_def
  by (intro keeps_intros keeps_promotion_queue;
      auto simp: create_queue_input_def create_role_input_def)+

lemma keeps_promotion_changes:
  "may_promote (RR_RotateAction inp) (RR_Payload inp) \<or> may_promote (RR_BeforeAction inp) (RR_BeforePayload inp) \<longrightarrow> lone ns (RR_NodeID inp) \<Longrightarrow>
   keeps_db (no_new_promotion ns old) (roles_RotateWithCommand inp)"
  "may_promote (DR_DropAction di) (DR_Payload di) \<or> may_promote (DR_BeforeAction di) (DR_BeforePayload di) \<longrightarrow> lone ns (DR_NodeID di) \<Longrightarrow>
   keeps_db (no_new_promotion ns old) (roles_DeleteWithCommand di)"
  "may_promote (CD_EnsureAction ci) (CD_Payload ci) \<or> may_promote (CD_BeforeAction ci) (CD_BeforePayload ci) \<longrightarrow> lone ns (CD_NodeID ci) \<Longrightarrow>
   keeps_db (no_new_promotion ns old) (databases_CreateWithCommand ci)"
  "may_promote (DD_DropAction ddi) (DD_Payload ddi) \<or> may_promote (DD_BeforeAction ddi) (DD_BeforePayload ddi) \<longrightarrow> lone ns (DD_NodeID ddi) \<Longrightarrow>
   keeps_db (no_new_promotion ns old) (databases_DeleteWithCommand ddi)"
  unfolding roles_RotateWithCommand_def roles_DeleteWithCommand_def databases_CreateWithCommand_def databases_DeleteWithCommand_def
    Let_def role_by_id_def database_by_id_def
  by (intro keeps_intros keeps_promotion_queue;
      simp add: rotate_queue_input_def delete_queue_input_def create_db_queue_input_def delete_db_queue_input_def)+

lemma keeps_promotion_handlers:
  "keeps_db (no_new_promotion ns old) (CreateRole s ctx req)"
  "keeps_db (no_new_promotion ns old) (RotateRolePassword s ctx rid)"
  "keeps_db (no_new_promotion ns old) (DeleteRole s ctx rid)"
  "keeps_db (no_new_promotion ns old) (CreateDatabase s ctx cid dn ow)"
  "keeps_db (no_new_promotion ns old) (DeleteDatabase s ctx did)"
  unfolding CreateRole_def create_role_def RotateRolePassword_def DeleteRole_def CreateDatabase_def DeleteDatabase_def Let_def
    roles_GetByClusterAndName_def databases_GetByClusterAndName_def databases_GetByID_def
  by (intro keeps_promotion_primary keeps_promotion_transactions keeps_promotion_changes keeps_intros; simp)+


definition promotes_safely :: "world \<Rightarrow> 'a io \<Rightarrow> bool" where
  "promotes_safely w m \<longleftrightarrow> (\<forall>c\<in>set (agent_commands (store (after m w))).
     promoting c \<longrightarrow> c \<in> set (agent_commands (store w)) \<or> lone (nodes (store w)) (Cmd_NodeID c))"

lemma promotes_safelyI:
  assumes "\<And>ns old. keeps_db (no_new_promotion ns old) m"
  shows "promotes_safely w m"
proof -
  have "no_new_promotion (nodes (store w)) (agent_commands (store w)) (store (after m w))"
    by (rule keeps_after [OF assms]) (simp add: no_new_promotion_def)
  then show ?thesis by (simp add: promotes_safely_def no_new_promotion_def)
qed

text \<open>
  C34: managing roles and databases never promotes a member of a larger cluster. Whatever fails, every
  command that these handlers add and that may promote its node (by its action or by the flag in its
  payload) is for a node that is the only one of its cluster, so metadata that is out of date cannot
  cause a second primary.
\<close>

theorem management_promotes_only_lone_nodes:
  "promotes_safely w (CreateRole s ctx req) \<and> promotes_safely w (RotateRolePassword s ctx roleID) \<and>
   promotes_safely w (DeleteRole s ctx roleID) \<and> promotes_safely w (CreateDatabase s ctx clusterID name owner) \<and>
   promotes_safely w (DeleteDatabase s ctx databaseID)"
  by (intro conjI promotes_safelyI keeps_promotion_handlers)

definition half_ready_db :: db where
  "half_ready_db = managed_db\<lparr>nodes := nodes managed_db @
     [(sample_node ''n2'' ''c1'' NodeRoleReplica NodeStatusOnline 10)\<lparr>Node_PostgresDataInitialized := False\<rparr>]\<rparr>"

text \<open>
  applying the network rules is not that careful. \<open>ApplyHBA\<close> sets the flag when the primary is the only
  node that is \<^emph>\<open>ready\<close>: in a cluster of two nodes whose replica is still being initialized the command for
  the primary is allowed to promote it.
\<close>

theorem hba_promotes_in_larger_cluster:
  "\<not> promotes_safely (world_of half_ready_db) (ApplyHBA sample_pm sample_operator ''c1'')"
  by code_simp

section \<open>One-time passwords\<close>

definition decrypts_to :: "PostgresManagementService \<Rightarrow> string \<Rightarrow> string \<Rightarrow> bool" where
  "decrypts_to s txt pw \<longleftrightarrow>
     (case base64_DecodeString txt of None \<Rightarrow> False | Some ct \<Rightarrow> DecryptAES256GCM (PM_aead s) ct (PM_roleEncryptKey s) = Inr pw)"

text \<open>
  \<open>delivered s act r d\<close>: in \<open>d\<close> the role the answer \<open>r\<close> describes is stored with a password that decrypts to the
  one in the answer, and a command with the action \<open>act\<close> for that role has that password as its secret.
\<close>

definition delivered :: "PostgresManagementService \<Rightarrow> string \<Rightarrow> PostgresRole \<times> string \<Rightarrow> db \<Rightarrow> bool" where
  "delivered s act r d \<longleftrightarrow>
     (\<exists>role\<in>set (managed_roles d). roleToProto role = fst r \<and> MRole_Status role = ''pending'' \<and>
        decrypts_to s (MRole_EncryptedPassword role) (snd r)) \<and>
     (\<exists>cmd\<in>set (agent_commands d). \<exists>x\<in>set (agent_command_secrets d).
        Cmd_Action cmd = act \<and> Cmd_Status cmd = CommandStatusPending \<and>
        json_str ''role_id'' (Cmd_Payload cmd) = Some (PR_Id (fst r)) \<and>
        Secret_CommandID x = Cmd_ID cmd \<and> Secret_Key x = ''password'' \<and> decrypts_to s (Secret_Ciphertext x) (snd r))"

lemma wp_encrypt_decrypts:
  assumes "aead_ok (PM_aead s)" "nonces12 e" "the_env w = e"
  shows "wp (EncryptAES256GCM (PM_aead s) pw (PM_roleEncryptKey s)) (\<lambda>r w'. \<forall>ct. r = Inr ct \<longrightarrow>
     the_env w' = e \<and> decrypts_to s (base64_EncodeToString ct) pw) w"
proof (cases "length (PM_roleEncryptKey s) \<in> {16, 24, 32}")
  case True
  have "nonces_ok w" using assms by simp
  show ?thesis by (rule wp_mono [OF wp_Encrypt [OF assms(1) \<open>nonces_ok w\<close> True]]) (auto simp: decrypts_to_def assms(3))
qed (simp add: EncryptAES256GCM_def aes_NewCipher_def wp_simps)

lemma wp_fresh_password:
  assumes "aead_ok (PM_aead s)" "nonces12 e" "\<And>e w'. Q (Inl e) w'"
    and "\<And>pw sp cs w'. the_env w' = e \<Longrightarrow> decrypts_to s sp pw \<Longrightarrow> decrypts_to s (base64_EncodeToString cs) pw \<Longrightarrow> wp (k pw sp cs) Q w'"
    and "the_env w = e"
  shows "wp (fresh_password s k) Q w"
  unfolding fresh_password_def wp_bind wp_GenerateToken
  apply (rule wp_or_statusI [OF wp_encrypt_decrypts [OF assms(1,2)]])
    apply (simp add: assms(5))
   apply (rule assms(3))
  apply (elim conjE)
  apply (rule wp_or_statusI [OF wp_encrypt_decrypts [OF assms(1,2)]], assumption)
  using assms(3,4) by auto

text \<open>Steps whose outcome does not matter: the rest is right from every world.\<close>

lemma wp_or_status_any: "(\<And>e s'. Q (Inl e) s') \<Longrightarrow> (\<And>a s'. wp (k a) Q s') \<Longrightarrow> wp (or_status c p m k) Q s"
  by (rule wp_or_statusI [where R = "\<lambda>_ _. True"]) (simp_all add: wp_True)

lemma wp_with_admin_secret_any:
  "(\<And>e w'. Q (Inl e) w') \<Longrightarrow> (\<And>a b w'. wp (k a b) Q w') \<Longrightarrow> wp (with_admin_secret s c p k) Q w"
  unfolding with_admin_secret_def
  by (rule wp_or_status_any, assumption, simp only: wp_bind, rule wp_mono [OF wp_True], simp split: prod.splits)

definition queued_password :: "PostgresManagementService \<Rightarrow> QueueInput \<Rightarrow> string \<Rightarrow> bool" where
  "queued_password s q pw \<longleftrightarrow> (\<exists>cs. Q_Password q = Some cs \<and> decrypts_to s (base64_EncodeToString cs) pw)"

lemma queued_delivered:
  assumes "queued q now d d' op cmd" "queued_password s q pw"
  shows "managed_roles d' = managed_roles d \<and> (\<exists>cmd\<in>set (agent_commands d'). \<exists>x\<in>set (agent_command_secrets d').
        Cmd_Action cmd = Q_Action q \<and> Cmd_Status cmd = CommandStatusPending \<and> Cmd_Payload cmd = Q_Payload q \<and>
        Secret_CommandID x = Cmd_ID cmd \<and> Secret_Key x = ''password'' \<and> decrypts_to s (Secret_Ciphertext x) pw)"
proof -
  obtain cs ss where d': "d' = d\<lparr>service_operations := service_operations d @ [op],
      agent_commands := agent_commands d @ cs, agent_command_secrets := agent_command_secrets d @ ss\<rparr>"
    and c: "queued_commands q now cmd cs" and ss: "map secret_triple ss = queued_secrets q (Cmd_ID cmd)"
    using assms(1) by (auto simp: queued_def)
  obtain ct where ct: "Q_Password q = Some ct" "decrypts_to s (base64_EncodeToString ct) pw"
    using assms(2) by (auto simp: queued_password_def)
  have "(Cmd_ID cmd, ''password'', base64_EncodeToString ct) \<in> set (map secret_triple ss)"
    unfolding ss by (simp add: queued_secrets_def ct)
  then obtain x where x: "x \<in> set ss" "Secret_CommandID x = Cmd_ID cmd" "Secret_Key x = ''password''"
      "Secret_Ciphertext x = base64_EncodeToString ct"
    by (auto simp: secret_triple_def)
  have cmd: "cmd \<in> set cs" "cmd = command_row (Cmd_ID cmd) (Q_AgentID q) (Q_NodeID q) (Q_Action q) (Q_Payload q) now"
    using c by (auto simp: queued_commands_def split: if_splits)
  then have "Cmd_Action cmd = Q_Action q" "Cmd_Payload cmd = Q_Payload q" "Cmd_Status cmd = CommandStatusPending"
    by (metis (no_types) command_row_def AgentCommand.select_convs)+
  with cmd(1) x ct(2) show ?thesis unfolding d' by (auto intro!: bexI [of _ cmd] bexI [of _ x])
qed


lemma changed_delivered:
  assumes "changed_role i f q old tx d d'" "queued_password s q pw"
    and "\<And>now. MRole_Status (f now old) = ''pending'' \<and> decrypts_to s (MRole_EncryptedPassword (f now old)) pw \<and>
      MRole_ID (f now old) = i" "json_str ''role_id'' (Q_Payload q) = Some i"
  shows "delivered s (Q_Action q) (roleToProto (Tx_Role tx), pw) d'"
proof -
  obtain now where old: "roles_table.by_key i (managed_roles d) = Some old" "Tx_Role tx = f now old"
    and q: "queued q now (d\<lparr>managed_roles := upd_where (\<lambda>r. MRole_ID r = i) (f now) (managed_roles d)\<rparr>) d' (Tx_Operation tx) (Tx_Command tx)"
    using assms(1) by (auto simp: changed_role_def)
  have "f now old \<in> set (upd_where (\<lambda>r. MRole_ID r = i) (f now) (managed_roles d))"
    using old(1) by (force simp: set_upd_where roles_table.by_key_def dest!: find_Some_iff_mem)
  with queued_delivered [OF q assms(2)] show ?thesis
    using old(2) assms(3) [of now] assms(4) by (auto simp: delivered_def roleToProto_def)
qed

lemma created_delivered:
  assumes "created_role inp tx d d'" "decrypts_to s (CR_EncryptedPassword inp) pw"
    "decrypts_to s (base64_EncodeToString (CR_EncryptedCommandSecret inp)) pw"
    "json_str ''role_id'' (CR_Payload inp) = Some (MRole_ID (Tx_Role tx))"
  shows "delivered s (CR_EnsureAction inp) (roleToProto (Tx_Role tx), pw) d'"
proof -
  obtain now where r: "Tx_Role tx = role_row (MRole_ID (Tx_Role tx)) (CR_ClusterID inp) (CR_RoleName inp) (CR_RoleKind inp)
        (CR_EncryptedPassword inp) (CR_ExpiresAt inp) now"
    and q: "queued (create_queue_input inp ''mark operation running'') now
       (d\<lparr>managed_roles := managed_roles d @ [Tx_Role tx]\<rparr>) d' (Tx_Operation tx) (Tx_Command tx)"
    using assms(1) by (auto simp: created_role_def)
  have "MRole_Status (Tx_Role tx) = ''pending''" "MRole_EncryptedPassword (Tx_Role tx) = CR_EncryptedPassword inp"
    by (subst r, simp add: role_row_def)+
  moreover have "queued_password s (create_queue_input inp ''mark operation running'') pw"
    using assms(3) by (simp add: queued_password_def create_queue_input_def)
  from queued_delivered [OF q this] have "managed_roles d' = managed_roles d @ [Tx_Role tx]"
      "\<exists>cmd\<in>set (agent_commands d'). \<exists>x\<in>set (agent_command_secrets d').
        Cmd_Action cmd = CR_EnsureAction inp \<and> Cmd_Status cmd = CommandStatusPending \<and> Cmd_Payload cmd = CR_Payload inp \<and>
        Secret_CommandID x = Cmd_ID cmd \<and> Secret_Key x = ''password'' \<and> decrypts_to s (Secret_Ciphertext x) pw"
    by (simp_all add: create_queue_input_def)
  ultimately show ?thesis using assms(2,4) by (auto simp: delivered_def roleToProto_def)
qed


lemma pg_role_actions [simp]:
  "action_or_empty pg_provider OpEnsureRole = ''pg_ensure_role''"
  "action_or_empty pg_provider OpRotateRolePassword = ''pg_rotate_role_password''"
  by (simp_all add: action_or_empty_def pg_provider_def)

lemma payload_role_id [simp]:
  "json_str ''role_id'' (create_role_payload r o1 n k b) = Some r"
  "json_str ''role_id'' (rotate_payload role o1 b) = Some (MRole_ID role)"
  by (simp_all add: json_str_def create_role_payload_def rotate_payload_def)

lemma wp_create_given_id:
  assumes "CR_RoleID inp \<noteq> []"
  shows "wp (roles_CreateWithCommand inp) (\<lambda>r w'. \<forall>tx. r = Inr tx \<longrightarrow> MRole_ID (Tx_Role tx) = CR_RoleID inp) w"
proof -
  have "wp (roles_CreateWithCommand inp) (\<lambda>res w'. (\<forall>tx. res = Inr tx \<longrightarrow> MRole_ID (Tx_Role tx) = CR_RoleID inp) \<or>
     isl res \<and> store w' = store w) w"
    unfolding roles_CreateWithCommand_def
    apply (rule wp_in_tx_outcome [where A = isl and C = "\<lambda>res d'. \<forall>tx. res = Inr tx \<longrightarrow> MRole_ID (Tx_Role tx) = CR_RoleID inp"])
      apply (simp only: wp_bind wp_time_now Let_def if_not_P [OF assms] wp_return)
      apply (rule wp_try_txI [where R = "\<lambda>_ _. True"], simp add: wp_True, simp)
      apply (rule wp_try_txI [where R = "\<lambda>_ _. True"], simp add: wp_True, simp)
      apply (auto simp: wp_return role_row_def split: prod.splits)
    done
  then show ?thesis by (rule wp_mono) auto
qed

lemma wp_create_role_tx:
  assumes "decrypts_to s (CR_EncryptedPassword inp) pw" "decrypts_to s (base64_EncodeToString (CR_EncryptedCommandSecret inp)) pw"
    "json_str ''role_id'' (CR_Payload inp) = Some (CR_RoleID inp)" "existing = None \<longrightarrow> CR_RoleID inp \<noteq> []"
  shows "wp (case existing of None \<Rightarrow> roles_CreateWithCommand inp | Some _ \<Rightarrow> roles_RetryCreateWithCommand inp)
     (\<lambda>r w'. \<forall>tx. r = Inr tx \<longrightarrow> delivered s (CR_EnsureAction inp) (roleToProto (Tx_Role tx), pw) (store w')) w"
proof (cases existing)
  case None
  then have "CR_RoleID inp \<noteq> []" using assms(4) by simp
  have "wp (roles_CreateWithCommand inp) (\<lambda>r w'. \<forall>tx. r = Inr tx \<longrightarrow> created_role inp tx (store w) (store w') \<and> MRole_ID (Tx_Role tx) = CR_RoleID inp) w"
    by (rule wp_mono [OF wp_conj [THEN iffD2, OF conjI [OF wp_CreateWithCommand wp_create_given_id [OF \<open>CR_RoleID inp \<noteq> []\<close>]]]]) auto
  then show ?thesis
    unfolding None option.case by (rule wp_mono) (auto intro!: created_delivered assms(1,2) simp: assms(3))
next
  case (Some r)
  have "delivered s (CR_EnsureAction inp) (roleToProto (Tx_Role tx), pw) d'" if "retried_role inp tx d d'" for tx d d'
  proof -
    obtain old where c: "changed_role (CR_RoleID inp) (retry_row inp (MRole_PasswordVersion old + 1))
       (create_queue_input inp ''mark retry operation running'') old tx d d'"
      using \<open>retried_role inp tx d d'\<close> by (auto simp: retried_role_def)
    then have "MRole_ID old = CR_RoleID inp" by (auto simp: changed_role_def roles_table.by_key_def dest!: find_Some_iff_mem)
    then show ?thesis
      using changed_delivered [OF c, of s pw] assms
      by (simp add: queued_password_def create_queue_input_def retry_row_def)
  qed
  then show ?thesis
    unfolding Some by (auto intro!: wp_mono [OF wp_RetryCreateWithCommand])
qed


text \<open>The checks of a handler leave the environment as it is and pass control on or fail.\<close>

lemma wp_or_status_env:
  assumes "\<And>P. keeps_env P m" "\<And>e w'. Q (Inl e) w'" "\<And>a w'. the_env w' = e \<Longrightarrow> wp (k a) Q w'" "the_env w = e"
  shows "wp (or_status c p m k) Q w"
proof (rule wp_or_statusI)
  show "wp m (\<lambda>r s'. \<forall>a. r = Inr a \<longrightarrow> the_env s' = e) w"
    by (rule wp_keeps [where I = "\<lambda>w. the_env w = e"]) (use assms(1) [of "\<lambda>x. x = e"] assms(4) in auto)
qed (use assms in auto)

lemma wp_checks_any:
  assumes "\<And>e w'. Q (Inl e) w'"
  shows "(\<And>w'. the_env w' = e \<Longrightarrow> wp k Q w') \<Longrightarrow> the_env w = e \<Longrightarrow> wp (pm_requireCluster c k) Q w"
    "(\<And>w'. the_env w' = e \<Longrightarrow> wp (k1 pg_provider) Q w') \<Longrightarrow> the_env w = e \<Longrightarrow> wp (requireModule c md k1) Q w"
    "(\<And>r w'. the_env w' = e \<Longrightarrow> wp (k2 r) Q w') \<Longrightarrow> the_env w = e \<Longrightarrow> wp (require_role i k2) Q w"
    "(\<And>p w'. the_env w' = e \<Longrightarrow> wp (k3 p) Q w') \<Longrightarrow> the_env w = e \<Longrightarrow> wp (resolveManagementPrimary c k3) Q w"
    "(\<And>b w'. the_env w' = e \<Longrightarrow> wp (k4 b) Q w') \<Longrightarrow> the_env w = e \<Longrightarrow> wp (pm_allowPromotionForCluster c k4) Q w"
  unfolding pm_requireCluster_def requireModule_def providerForCluster_def require_role_def resolveManagementPrimary_def
    pm_allowPromotionForCluster_def roles_GetByID_def role_by_id_def
  by (auto simp: assms wp_fail(1) split: option.split sum.split dest!: registered_provider
      intro!: wp_or_status_env keeps_intros)

definition uuids_ok :: "env \<Rightarrow> bool" where
  "uuids_ok e \<longleftrightarrow> (\<forall>n. uuid e n \<noteq> [])"

lemma wp_CreateRole_delivers:
  assumes "aead_ok (PM_aead s)" "nonces_ok w" "uuids_ok (the_env w)"
  shows "wp (CreateRole s ctx req) (\<lambda>r w'. \<forall>v. r = Inr v \<longrightarrow> delivered s ''pg_ensure_role'' v (store w')) w"
    (is "wp _ ?Q w")
proof -
  have tx: "wp (create_role s req rn rk pg_provider primary b existing) ?Q w'"
    if "the_env w' = the_env w" for rn rk primary b existing w'
    unfolding create_role_def Let_def
    apply (rule wp_fresh_password [OF assms(1,2) _ _ that], simp)
    apply (simp only: wp_bind wp_id_New wp_time_now)
    apply (rule wp_with_admin_secret_any, simp)
    apply (rule wp_or_statusI [OF wp_create_role_tx])
    using assms(3) by (auto simp: create_role_input_def uuids_ok_def wp_fail(3) split: option.splits)
  show ?thesis
    unfolding CreateRole_def no_viewer_def Let_def roles_GetByClusterAndName_def
    by (auto simp: wp_fail(1) split: option.split simp del: split_paired_All intro!: wp_checks_any [where e = "the_env w"]
        wp_or_status_env [where e = "the_env w"] tx keeps_intros)
qed

lemma rotated_delivered:
  assumes "rotated_role inp tx d d'" "decrypts_to s (RR_EncryptedPassword inp) pw"
    "decrypts_to s (base64_EncodeToString (RR_EncryptedCommandSecret inp)) pw"
    "json_str ''role_id'' (RR_Payload inp) = Some (RR_RoleID inp)"
  shows "delivered s (RR_RotateAction inp) (roleToProto (Tx_Role tx), pw) d'"
proof -
  obtain old where c: "changed_role (RR_RoleID inp) (rotate_row inp (MRole_PasswordVersion old + 1))
       (rotate_queue_input inp (MRole_ClusterID old)) old tx d d'"
    using assms(1) by (auto simp: rotated_role_def)
  then have "MRole_ID old = RR_RoleID inp" by (auto simp: changed_role_def roles_table.by_key_def dest!: find_Some_iff_mem)
  then show ?thesis
    using changed_delivered [OF c, of s pw] assms by (simp add: queued_password_def rotate_queue_input_def rotate_row_def)
qed

lemma wp_rotate_tx:
  assumes "decrypts_to s (RR_EncryptedPassword inp) pw"
    "decrypts_to s (base64_EncodeToString (RR_EncryptedCommandSecret inp)) pw"
    "json_str ''role_id'' (RR_Payload inp) = Some (RR_RoleID inp)"
  shows "wp (roles_RotateWithCommand inp)
     (\<lambda>r w'. \<forall>tx. r = Inr tx \<longrightarrow> delivered s (RR_RotateAction inp) (roleToProto (Tx_Role tx), pw) (store w')) w"
  by (rule wp_mono [OF wp_RotateWithCommand]) (auto intro: rotated_delivered assms)

lemma wp_RotateRole_delivers:
  assumes "aead_ok (PM_aead s)" "nonces_ok w"
  shows "wp (RotateRolePassword s ctx i) (\<lambda>r w'. \<forall>v. r = Inr v \<longrightarrow> delivered s ''pg_rotate_role_password'' v (store w')) w"
    (is "wp _ ?Q w")
  unfolding RotateRolePassword_def no_viewer_def
  apply (auto simp: wp_fail(1) wp_bind wp_id_New wp_time_now simp del: split_paired_All intro!: wp_checks_any [where e = "the_env w"]
      wp_fresh_password [OF assms] wp_with_admin_secret_any)
  apply (rule wp_or_statusI [OF wp_rotate_tx])
      apply (auto simp: wp_fail(3))
  done

text \<open>
  C33: the one-time password that creating or rotating a role answers with is the password of that role. Both
  the row of the role and the secret of the command that sets it on the database server decrypt to it, and the
  command is pending and names the role.
\<close>

theorem one_time_password_delivered:
  assumes "aead_ok (PM_aead s)" "nonces_ok w" "uuids_ok (the_env w)"
  shows "(case result (CreateRole s ctx req) w of Inl _ \<Rightarrow> True
      | Inr v \<Rightarrow> delivered s ''pg_ensure_role'' v (store (after (CreateRole s ctx req) w))) \<and>
    (case result (RotateRolePassword s ctx i) w of Inl _ \<Rightarrow> True
      | Inr v \<Rightarrow> delivered s ''pg_rotate_role_password'' v (store (after (RotateRolePassword s ctx i) w)))"
  using wp_CreateRole_delivers [OF assms, of ctx req] wp_RotateRole_delivers [OF assms(1,2), of ctx i]
  by (simp add: wp_outcome split: sum.splits)


definition sample_create_role :: CreateRoleRequest where
  "sample_create_role = \<lparr>CRR_ClusterId = ''c1'', CRR_RoleName = ''app'', CRR_RoleKind = ''read_write'', CRR_ExpiresAt = None\<rparr>"

theorem one_time_password_delivered_witness:
  "case result (CreateRole sample_pm sample_operator sample_create_role) (world_of managed_db) of
     Inl _ \<Rightarrow> False
   | Inr v \<Rightarrow> delivered sample_pm ''pg_ensure_role'' v
       (store (after (CreateRole sample_pm sample_operator sample_create_role) (world_of managed_db)))"
proof -
  have "aead_ok (PM_aead sample_pm)" "nonces_ok (world_of managed_db)" "uuids_ok (the_env (world_of managed_db))"
    by (simp_all add: sample_pm_def uuids_ok_def sample_env_def nonces12_def gcm_NonceSize_def)
  moreover have "map_sum id snd (result (CreateRole sample_pm sample_operator sample_create_role) (world_of managed_db)) = Inr ''token-0''"
    by code_simp
  ultimately show ?thesis
    using one_time_password_delivered [of sample_pm "world_of managed_db" sample_operator sample_create_role "[]"]
    by (auto split: sum.splits)
qed

end
