(* ===== verification/BackupRepo.thy ===== *)
theory BackupRepo
  imports ClusterRepo Secrets
begin

text \<open>
  \<open>internal/db/backup_repo.go\<close> and \<open>internal/db/storage_config_repo.go\<close>: backups, restore jobs, backup
  schedules and the object stores backups go to. The credentials of a store are encrypted before they are
  written and only \<open>GetDecryptedCredentials\<close> reads them back. A null text column is read as the empty
  string, so it is that string here.
\<close>

section \<open>Storage configurations\<close>

definition storage_insert :: "StorageConfig \<Rightarrow> unit res io" where
  "storage_insert c = exec (\<lambda>d.
     if Stor_ID c \<in> Stor_ID ` set (storage_configs d) \<or> Stor_Name c \<in> Stor_Name ` set (storage_configs d)
     then None else Some (d\<lparr>storage_configs := storage_configs d @ [c]\<rparr>))"

text \<open>The value \<open>Create\<close> returns has no credentials.\<close>

definition storage_Create :: "SecretRepository \<Rightarrow> string \<Rightarrow> string \<Rightarrow> string \<Rightarrow> string \<Rightarrow> string \<Rightarrow> string \<Rightarrow> string \<Rightarrow> bool
    \<Rightarrow> StorageConfig res io" where
  "storage_Create r name storageType endpoint bucket region accessKeyID secretKey useSSL = do {
     cfgID \<leftarrow> id_New;
     now \<leftarrow> time_now;
     try_do (EncryptAES256GCM (repo_aead r) accessKeyID (encryptKey r)) (\<lambda>e. Inl (wrap ''encrypt access key'' e)) (\<lambda>encAccessKey.
     try_do (EncryptAES256GCM (repo_aead r) secretKey (encryptKey r)) (\<lambda>e. Inl (wrap ''encrypt secret key'' e)) (\<lambda>encSecretKey.
     let cfg = \<lparr>Stor_ID = cfgID, Stor_Name = name, Stor_Type = storageType, Stor_Endpoint = endpoint,
           Stor_Bucket = bucket, Stor_Region = region, Stor_AccessKeyID = [], Stor_SecretKey = [],
           Stor_UseSSL = useSSL, Stor_CreatedAt = now, Stor_UpdatedAt = now\<rparr>
     in try_do (storage_insert (cfg\<lparr>Stor_AccessKeyID := encAccessKey, Stor_SecretKey := encSecretKey\<rparr>))
          (\<lambda>e. Inl (wrap ''insert storage config'' e)) (\<lambda>_.
        State_Monad.return (Inr cfg))))
   }"

definition storage_of :: "db \<Rightarrow> string \<Rightarrow> StorageConfig option" where
  "storage_of d i = List.find (\<lambda>c. Stor_ID c = i) (storage_configs d)"

definition storage_GetByID :: "string \<Rightarrow> StorageConfig option res io" where
  "storage_GetByID i = wrap_err ''scan storage config'' (query (\<lambda>d. storage_of d i))"

definition storage_GetByName :: "string \<Rightarrow> StorageConfig option res io" where
  "storage_GetByName name = wrap_err ''scan storage config''
     (query (\<lambda>d. List.find (\<lambda>c. Stor_Name c = name) (storage_configs d)))"

definition storage_List :: "nat \<Rightarrow> nat \<Rightarrow> (StorageConfig list \<times> nat) res io" where
  "storage_List offset limit =
     try_do (wrap_err ''count storage configs'' (query (\<lambda>d. length (storage_configs d)))) Inl (\<lambda>total.
     try_do (wrap_err ''query storage configs'' (query (\<lambda>d.
         page offset limit (sort_key (\<lambda>c. - Stor_CreatedAt c) (storage_configs d))))) Inl (\<lambda>cs.
     State_Monad.return (Inr (cs, total))))"

definition storage_Delete :: "string \<Rightarrow> unit res io" where
  "storage_Delete i = wrap_err ''delete storage config''
     (sql_write (\<lambda>d. d\<lparr>storage_configs := del_where (\<lambda>c. Stor_ID c = i) (storage_configs d)\<rparr>))"

definition storage_GetDecryptedCredentials :: "SecretRepository \<Rightarrow> string \<Rightarrow> (string \<times> string) res io" where
  "storage_GetDecryptedCredentials r i =
     try_do (query (\<lambda>d. storage_of d i)) (\<lambda>e. Inl (wrap ''scan credentials'' e)) (\<lambda>row.
     State_Monad.return (case row of
        None \<Rightarrow> Inl (wrap ''scan credentials'' ''sql: no rows in result set'')
      | Some c \<Rightarrow> (case DecryptAES256GCM (repo_aead r) (Stor_AccessKeyID c) (encryptKey r) of
            Inl e \<Rightarrow> Inl (wrap ''decrypt access key'' e)
          | Inr accessKey \<Rightarrow> (case DecryptAES256GCM (repo_aead r) (Stor_SecretKey c) (encryptKey r) of
              Inl e \<Rightarrow> Inl (wrap ''decrypt secret key'' e)
            | Inr secretKey \<Rightarrow> Inr (accessKey, secretKey)))))"

section \<open>Backups\<close>

definition backups_insert :: "Backup \<Rightarrow> unit res io" where
  "backups_insert b = exec (\<lambda>d. if Bak_ID b \<in> Bak_ID ` set (backups d) then None
     else Some (d\<lparr>backups := backups d @ [b]\<rparr>))"

definition backups_CreateBackup :: "string \<Rightarrow> string \<Rightarrow> string \<Rightarrow> BackupType \<Rightarrow> string \<Rightarrow> Backup res io" where
  "backups_CreateBackup clusterID nodeID storageConfigID backupType storagePath = do {
     backupID \<leftarrow> id_New;
     now \<leftarrow> time_now;
     let b = \<lparr>Bak_ID = backupID, Bak_ClusterID = clusterID, Bak_NodeID = nodeID, Bak_Type = backupType,
           Bak_StoragePath = storagePath, Bak_StorageConfigID = storageConfigID, Bak_WALStart = [], Bak_WALStop = [],
           Bak_LSN = [], Bak_SizeBytes = 0, Bak_Status = BackupStatusRunning, Bak_CreatedAt = now, Bak_CompletedAt = None\<rparr>;
     try_do (backups_insert b) (\<lambda>e. Inl (wrap ''insert backup'' e)) (\<lambda>_. State_Monad.return (Inr b))
   }"

definition backup_of :: "db \<Rightarrow> string \<Rightarrow> Backup option" where
  "backup_of d i = List.find (\<lambda>b. Bak_ID b = i) (backups d)"

definition backups_GetBackup :: "string \<Rightarrow> Backup option res io" where
  "backups_GetBackup i = wrap_err ''scan backup'' (query (\<lambda>d. backup_of d i))"

definition backups_ListBackups :: "string \<Rightarrow> nat \<Rightarrow> nat \<Rightarrow> (Backup list \<times> nat) res io" where
  "backups_ListBackups clusterID offset limit =
     try_do (wrap_err ''count backups'' (query (\<lambda>d. length (filter (\<lambda>b. Bak_ClusterID b = clusterID) (backups d))))) Inl (\<lambda>total.
     try_do (wrap_err ''query backups'' (query (\<lambda>d.
         page offset limit (sort_key (\<lambda>b. - Bak_CreatedAt b) (filter (\<lambda>b. Bak_ClusterID b = clusterID) (backups d)))))) Inl (\<lambda>bs.
     State_Monad.return (Inr (bs, total))))"

definition backup_completed :: "string \<Rightarrow> string \<Rightarrow> string \<Rightarrow> int \<Rightarrow> Time \<Rightarrow> Backup \<Rightarrow> Backup" where
  "backup_completed walStart walStop lsn sizeBytes now b = b\<lparr>Bak_Status := BackupStatusCompleted, Bak_WALStart := walStart,
     Bak_WALStop := walStop, Bak_LSN := lsn, Bak_SizeBytes := sizeBytes, Bak_CompletedAt := Some now\<rparr>"

definition backup_failed :: "Time \<Rightarrow> Backup \<Rightarrow> Backup" where
  "backup_failed now b = b\<lparr>Bak_Status := BackupStatusFailed, Bak_CompletedAt := Some now\<rparr>"

definition backups_set :: "string \<Rightarrow> (Backup \<Rightarrow> Backup) \<Rightarrow> unit res io" where
  "backups_set i f = sql_write (\<lambda>d. d\<lparr>backups := upd_where (\<lambda>b. Bak_ID b = i) f (backups d)\<rparr>)"

definition backups_CompleteBackup :: "string \<Rightarrow> string \<Rightarrow> string \<Rightarrow> string \<Rightarrow> int \<Rightarrow> unit res io" where
  "backups_CompleteBackup i walStart walStop lsn sizeBytes = do {
     now \<leftarrow> time_now;
     wrap_err ''complete backup'' (backups_set i (backup_completed walStart walStop lsn sizeBytes now))
   }"

definition backups_FailBackup :: "string \<Rightarrow> unit res io" where
  "backups_FailBackup i = do {
     now \<leftarrow> time_now;
     wrap_err ''fail backup'' (backups_set i (backup_failed now))
   }"

definition backups_DeleteBackup :: "string \<Rightarrow> unit res io" where
  "backups_DeleteBackup i = wrap_err ''delete backup''
     (sql_write (\<lambda>d. d\<lparr>backups := del_where (\<lambda>b. Bak_ID b = i) (backups d)\<rparr>))"

section \<open>Restore jobs\<close>

definition restores_insert :: "RestoreJob \<Rightarrow> unit res io" where
  "restores_insert j = exec (\<lambda>d. if Rst_ID j \<in> Rst_ID ` set (restore_jobs d) then None
     else Some (d\<lparr>restore_jobs := restore_jobs d @ [j]\<rparr>))"

definition backups_CreateRestoreJob :: "string \<Rightarrow> string \<Rightarrow> RestoreTargetType \<Rightarrow> string \<Rightarrow> string \<Rightarrow> RestoreJob res io" where
  "backups_CreateRestoreJob sourceClusterID backupID targetType targetValue targetNodeID = do {
     jobID \<leftarrow> id_New;
     now \<leftarrow> time_now;
     let j = \<lparr>Rst_ID = jobID, Rst_SourceClusterID = sourceClusterID, Rst_BackupID = backupID, Rst_TargetType = targetType,
           Rst_TargetValue = targetValue, Rst_TargetNodeID = targetNodeID, Rst_Status = RestoreStatusRunning,
           Rst_CreatedAt = now, Rst_CompletedAt = None\<rparr>;
     try_do (restores_insert j) (\<lambda>e. Inl (wrap ''insert restore job'' e)) (\<lambda>_. State_Monad.return (Inr j))
   }"

definition restore_of :: "db \<Rightarrow> string \<Rightarrow> RestoreJob option" where
  "restore_of d i = List.find (\<lambda>j. Rst_ID j = i) (restore_jobs d)"

definition backups_GetRestoreJob :: "string \<Rightarrow> RestoreJob option res io" where
  "backups_GetRestoreJob i = wrap_err ''scan restore job'' (query (\<lambda>d. restore_of d i))"

definition backups_ListRestoreJobs :: "string \<Rightarrow> nat \<Rightarrow> nat \<Rightarrow> (RestoreJob list \<times> nat) res io" where
  "backups_ListRestoreJobs clusterID offset limit =
     try_do (wrap_err ''count restore jobs'' (query (\<lambda>d.
         length (filter (\<lambda>j. Rst_SourceClusterID j = clusterID) (restore_jobs d))))) Inl (\<lambda>total.
     try_do (wrap_err ''query restore jobs'' (query (\<lambda>d. page offset limit
         (sort_key (\<lambda>j. - Rst_CreatedAt j) (filter (\<lambda>j. Rst_SourceClusterID j = clusterID) (restore_jobs d)))))) Inl (\<lambda>js.
     State_Monad.return (Inr (js, total))))"

definition restores_finish :: "string \<Rightarrow> RestoreStatus \<Rightarrow> Time \<Rightarrow> unit res io" where
  "restores_finish i st now = sql_write (\<lambda>d. d\<lparr>restore_jobs := upd_where (\<lambda>j. Rst_ID j = i)
     (\<lambda>j. j\<lparr>Rst_Status := st, Rst_CompletedAt := Some now\<rparr>) (restore_jobs d)\<rparr>)"

definition backups_CompleteRestoreJob :: "string \<Rightarrow> unit res io" where
  "backups_CompleteRestoreJob i = do {
     now \<leftarrow> time_now;
     wrap_err ''complete restore job'' (restores_finish i RestoreStatusCompleted now)
   }"

definition backups_FailRestoreJob :: "string \<Rightarrow> unit res io" where
  "backups_FailRestoreJob i = do {
     now \<leftarrow> time_now;
     wrap_err ''fail restore job'' (restores_finish i RestoreStatusFailed now)
   }"

section \<open>Schedules\<close>

definition schedules_insert :: "BackupSchedule \<Rightarrow> unit res io" where
  "schedules_insert s = exec (\<lambda>d. if Sch_ID s \<in> Sch_ID ` set (backup_schedules d) then None
     else Some (d\<lparr>backup_schedules := backup_schedules d @ [s]\<rparr>))"

definition backups_CreateSchedule :: "string \<Rightarrow> string \<Rightarrow> BackupType \<Rightarrow> int \<Rightarrow> int \<Rightarrow> string \<Rightarrow> BackupSchedule res io" where
  "backups_CreateSchedule clusterID cron backupType retentionCount retentionDays storageConfigID = do {
     scheduleID \<leftarrow> id_New;
     now \<leftarrow> time_now;
     let s = \<lparr>Sch_ID = scheduleID, Sch_ClusterID = clusterID, Sch_Cron = cron, Sch_Type = backupType,
           Sch_RetentionCount = retentionCount, Sch_RetentionDays = retentionDays, Sch_StorageConfigID = storageConfigID,
           Sch_Enabled = True, Sch_CreatedAt = now, Sch_UpdatedAt = now\<rparr>;
     try_do (schedules_insert s) (\<lambda>e. Inl (wrap ''insert schedule'' e)) (\<lambda>_. State_Monad.return (Inr s))
   }"

definition backups_ListSchedules :: "string \<Rightarrow> BackupSchedule list res io" where
  "backups_ListSchedules clusterID = wrap_err ''query schedules''
     (query (\<lambda>d. sort_key Sch_CreatedAt (filter (\<lambda>s. Sch_ClusterID s = clusterID) (backup_schedules d))))"

text \<open>
  \<open>UpdateSchedule\<close> answers with a value it builds from its arguments: it has no cluster and the zero time
  of creation, and a missing row is no error.
\<close>

definition backups_UpdateSchedule :: "string \<Rightarrow> string \<Rightarrow> BackupType \<Rightarrow> int \<Rightarrow> int \<Rightarrow> string \<Rightarrow> bool \<Rightarrow> BackupSchedule res io" where
  "backups_UpdateSchedule i cron backupType retentionCount retentionDays storageConfigID enabled = do {
     now \<leftarrow> time_now;
     try_do (sql_write (\<lambda>d. d\<lparr>backup_schedules := upd_where (\<lambda>s. Sch_ID s = i)
         (\<lambda>s. s\<lparr>Sch_Cron := cron, Sch_Type := backupType, Sch_RetentionCount := retentionCount,
              Sch_RetentionDays := retentionDays, Sch_StorageConfigID := storageConfigID, Sch_Enabled := enabled,
              Sch_UpdatedAt := now\<rparr>) (backup_schedules d)\<rparr>)) (\<lambda>e. Inl (wrap ''update schedule'' e)) (\<lambda>_.
     State_Monad.return (Inr \<lparr>Sch_ID = i, Sch_ClusterID = [], Sch_Cron = cron, Sch_Type = backupType,
         Sch_RetentionCount = retentionCount, Sch_RetentionDays = retentionDays, Sch_StorageConfigID = storageConfigID,
         Sch_Enabled = enabled, Sch_CreatedAt = zero_time, Sch_UpdatedAt = now\<rparr>))
   }"

definition backups_DeleteSchedule :: "string \<Rightarrow> unit res io" where
  "backups_DeleteSchedule i = wrap_err ''delete schedule''
     (sql_write (\<lambda>d. d\<lparr>backup_schedules := del_where (\<lambda>s. Sch_ID s = i) (backup_schedules d)\<rparr>))"

section \<open>Properties\<close>

lemma keeps_backup_reads [keeps_intros]:
  "keeps_db I (storage_GetByID i)" "keeps_db I (storage_GetByName n)" "keeps_db I (storage_List off lim)"
  "keeps_db I (storage_GetDecryptedCredentials r i)" "keeps_db I (backups_GetBackup i)"
  "keeps_db I (backups_ListBackups c off lim)" "keeps_db I (backups_GetRestoreJob i)"
  "keeps_db I (backups_ListRestoreJobs c off lim)" "keeps_db I (backups_ListSchedules c)"
  unfolding storage_GetByID_def storage_GetByName_def storage_List_def storage_GetDecryptedCredentials_def
    backups_GetBackup_def backups_ListBackups_def backups_GetRestoreJob_def backups_ListRestoreJobs_def
    backups_ListSchedules_def
  by (intro keeps_intros)+

lemma keeps_env_backups [keeps_intros]:
  "keeps_env P (storage_GetByID i)" "keeps_env P (storage_GetByName n)" "keeps_env P (storage_List off lim)"
  "keeps_env P (storage_GetDecryptedCredentials r i)" "keeps_env P (backups_GetBackup i)"
  "keeps_env P (backups_ListBackups c off lim)" "keeps_env P (backups_GetRestoreJob i)"
  "keeps_env P (backups_ListRestoreJobs c off lim)" "keeps_env P (backups_ListSchedules c)"
  "keeps_env P (storage_Create r a b c1 d e f g h)" "keeps_env P (storage_Delete i)"
  "keeps_env P (backups_CreateBackup c n sc ty p)" "keeps_env P (backups_CompleteBackup i a b l z)"
  "keeps_env P (backups_FailBackup i)" "keeps_env P (backups_DeleteBackup i)"
  "keeps_env P (backups_CreateRestoreJob c b tt tv tn)" "keeps_env P (backups_CompleteRestoreJob i)"
  "keeps_env P (backups_FailRestoreJob i)" "keeps_env P (backups_CreateSchedule c cr ty rc rd sc)"
  "keeps_env P (backups_UpdateSchedule i cr ty rc rd sc en)" "keeps_env P (backups_DeleteSchedule i)"
  unfolding storage_GetByID_def storage_GetByName_def storage_List_def storage_GetDecryptedCredentials_def
    backups_GetBackup_def backups_ListBackups_def backups_GetRestoreJob_def backups_ListRestoreJobs_def
    backups_ListSchedules_def storage_Create_def storage_insert_def storage_Delete_def backups_CreateBackup_def
    backups_insert_def backups_CompleteBackup_def backups_FailBackup_def backups_DeleteBackup_def backups_set_def
    backups_CreateRestoreJob_def restores_insert_def backups_CompleteRestoreJob_def backups_FailRestoreJob_def
    restores_finish_def backups_CreateSchedule_def schedules_insert_def backups_UpdateSchedule_def
    backups_DeleteSchedule_def Let_def
  by (intro keeps_intros)+

text \<open>The keys of the four tables are kept, whatever fails.\<close>

lemma keeps_pk_storage [keeps_intros]:
  "keeps_db storage_table.pk (storage_Create r a b c1 d e f g h)" "keeps_db storage_table.pk (storage_Delete i)"
  unfolding storage_Create_def storage_insert_def storage_Delete_def Let_def
  by (intro keeps_intros storage_table.keeps_pk_insert_unless storage_table.keeps_pk_delete)+

lemma keeps_pk_backups [keeps_intros]:
  "keeps_db backups_table.pk (backups_CreateBackup c n sc ty p)"
  "keeps_db backups_table.pk (backups_CompleteBackup i a b l z)" "keeps_db backups_table.pk (backups_FailBackup i)"
  "keeps_db backups_table.pk (backups_DeleteBackup i)"
  unfolding backups_CreateBackup_def backups_insert_def backups_CompleteBackup_def backups_FailBackup_def
    backups_DeleteBackup_def backups_set_def Let_def
  by (intro keeps_intros backups_table.keeps_pk_insert backups_table.keeps_pk_delete backups_table.keeps_pk_update;
      simp add: backup_completed_def backup_failed_def)+

lemma keeps_pk_restores [keeps_intros]:
  "keeps_db restores_table.pk (backups_CreateRestoreJob c b tt tv tn)"
  "keeps_db restores_table.pk (backups_CompleteRestoreJob i)" "keeps_db restores_table.pk (backups_FailRestoreJob i)"
  unfolding backups_CreateRestoreJob_def restores_insert_def backups_CompleteRestoreJob_def backups_FailRestoreJob_def
    restores_finish_def Let_def
  by (intro keeps_intros restores_table.keeps_pk_insert restores_table.keeps_pk_update; simp)+

lemma keeps_pk_schedules [keeps_intros]:
  "keeps_db schedules_table.pk (backups_CreateSchedule c cr ty rc rd sc)"
  "keeps_db schedules_table.pk (backups_UpdateSchedule i cr ty rc rd sc en)"
  "keeps_db schedules_table.pk (backups_DeleteSchedule i)"
  unfolding backups_CreateSchedule_def schedules_insert_def backups_UpdateSchedule_def backups_DeleteSchedule_def Let_def
  by (intro keeps_intros schedules_table.keeps_pk_insert schedules_table.keeps_pk_update schedules_table.keeps_pk_delete;
      simp)+

end
