(* ===== verification/BackupEngine.thy ===== *)
theory BackupEngine
  imports BackupRepo
begin

text \<open>
  \<open>internal/pgbackrest/pgbackrest.go\<close> (the command lines the server gives to the \<open>pgbackrest\<close> program),
  \<open>internal/backup/engine.go\<close> (running a backup or a restore and recording how it ended) and
  \<open>internal/backup/worker.go\<close> (the jobs of the cron scheduler that run backups on time). The program is a
  parameter: what it prints and whether it fails may depend on its arguments and on the state it runs in.
  So is the cron library, an abstract state with the operations the worker calls.
\<close>

section \<open>Dates\<close>

text \<open>
  The layouts \<open>20060102T150405Z\<close> and RFC 3339 of a time in UTC. \<open>civil_of_days\<close> counts in eras of 400
  years that begin on the first of March.
\<close>

fun pad_left :: "nat \<Rightarrow> string \<Rightarrow> string" where
  "pad_left n s = replicate (n - length s) (CHR ''0'') @ s"

definition pad_int :: "nat \<Rightarrow> int \<Rightarrow> string" where
  "pad_int n i = (if i < 0 then CHR ''-'' # pad_left n (dec (- i)) else pad_left n (dec i))"

definition civil_of_days :: "int \<Rightarrow> int \<times> int \<times> int" where
  "civil_of_days days = (
     let z = days + 719468;
         era = z div 146097;
         doe = z mod 146097;
         yoe = (doe - doe div 1460 + doe div 36524 - doe div 146096) div 365;
         doy = doe - (365 * yoe + yoe div 4 - yoe div 100);
         mp = (5 * doy + 2) div 153;
         d = doy - (153 * mp + 2) div 5 + 1;
         m = (if mp < 10 then mp + 3 else mp - 9)
     in (yoe + era * 400 + (if m \<le> 2 then 1 else 0), m, d))"

definition second_ns :: Time where
  "second_ns = 10 ^ 9"

definition format_compact :: "Time \<Rightarrow> string" where
  "format_compact t = (
     let secs = t div second_ns; (y, m, d) = civil_of_days (secs div 86400); s = secs mod 86400
     in pad_int 4 y @ pad_int 2 m @ pad_int 2 d @ ''T'' @ pad_int 2 (s div 3600) @ pad_int 2 (s mod 3600 div 60)
        @ pad_int 2 (s mod 60) @ ''Z'')"

definition format_rfc3339 :: "Time \<Rightarrow> string" where
  "format_rfc3339 t = (
     let secs = t div second_ns; (y, m, d) = civil_of_days (secs div 86400); s = secs mod 86400
     in pad_int 4 y @ ''-'' @ pad_int 2 m @ ''-'' @ pad_int 2 d @ ''T'' @ pad_int 2 (s div 3600) @ '':''
        @ pad_int 2 (s mod 3600 div 60) @ '':'' @ pad_int 2 (s mod 60) @ ''Z'')"

section \<open>The program pgbackrest\<close>

record PgBackRest =
  pgbackrest_binPath :: string
  pgbackrest_command :: "world \<Rightarrow> string \<Rightarrow> string list \<Rightarrow> string \<times> string option"

text \<open>\<open>exec.CommandContext(...).CombinedOutput()\<close> and the error each method makes of a failure.\<close>

definition run_pgbackrest :: "PgBackRest \<Rightarrow> string \<Rightarrow> string list \<Rightarrow> string res io" where
  "run_pgbackrest p what args = do {
     w \<leftarrow> State_Monad.get;
     let (output, err) = pgbackrest_command p w (pgbackrest_binPath p) args;
     State_Monad.return (case err of
        None \<Rightarrow> Inr output
      | Some e \<Rightarrow> Inl (''pgbackrest '' @ what @ '' failed: '' @ e @ [CHR 0x0A] @ output))
   }"

definition optional_args :: "string \<Rightarrow> string \<Rightarrow> string list" where
  "optional_args repoPath pgDataDir =
     (if repoPath \<noteq> [] then [''--repo1-path'', repoPath] else []) @
     (if pgDataDir \<noteq> [] then [''--pg1-path'', pgDataDir] else [])"

definition pgbackrest_Backup :: "PgBackRest \<Rightarrow> string \<Rightarrow> string \<Rightarrow> string \<Rightarrow> string \<Rightarrow> string res io" where
  "pgbackrest_Backup p stanza backupType repoPath pgDataDir = run_pgbackrest p ''backup''
     ([''--stanza'', stanza, ''--type'', backupType, ''backup''] @ optional_args repoPath pgDataDir)"

definition pgbackrest_Restore :: "PgBackRest \<Rightarrow> string \<Rightarrow> string \<Rightarrow> string \<Rightarrow> string \<Rightarrow> string \<Rightarrow> string res io" where
  "pgbackrest_Restore p stanza targetTime targetLSN repoPath pgDataDir = run_pgbackrest p ''restore''
     ([''--stanza'', stanza, ''restore'']
      @ (if targetTime \<noteq> [] then [''--type'', ''time'', ''--target'', targetTime]
         else if targetLSN \<noteq> [] then [''--type'', ''lsn'', ''--target'', targetLSN] else [])
      @ optional_args repoPath pgDataDir)"

definition pgbackrest_StanzaCreate :: "PgBackRest \<Rightarrow> string \<Rightarrow> string \<Rightarrow> string \<Rightarrow> string res io" where
  "pgbackrest_StanzaCreate p stanza repoPath pgDataDir = run_pgbackrest p ''stanza-create''
     ([''--stanza'', stanza, ''stanza-create''] @ optional_args repoPath pgDataDir)"

definition pgbackrest_StanzaCheck :: "PgBackRest \<Rightarrow> string \<Rightarrow> string \<Rightarrow> string \<Rightarrow> string res io" where
  "pgbackrest_StanzaCheck p stanza repoPath pgDataDir = run_pgbackrest p ''check''
     ([''--stanza'', stanza, ''check''] @ optional_args repoPath pgDataDir)"

definition pgbackrest_Info :: "PgBackRest \<Rightarrow> string \<Rightarrow> string \<Rightarrow> string res io" where
  "pgbackrest_Info p stanza repoPath = run_pgbackrest p ''info'' ([''--stanza'', stanza, ''info''] @ optional_args repoPath [])"

definition pgbackrest_Expire :: "PgBackRest \<Rightarrow> string \<Rightarrow> int \<Rightarrow> int \<Rightarrow> string \<Rightarrow> string res io" where
  "pgbackrest_Expire p stanza retentionCount retentionDays repoPath = run_pgbackrest p ''expire''
     ([''--stanza'', stanza]
      @ (if retentionCount > 0 then [''--retention-full'', dec retentionCount] else [])
      @ (if retentionDays > 0 then [''--repo1-retention-full'', dec retentionDays] else [])
      @ optional_args repoPath [] @ [''expire''])"

section \<open>The engine\<close>

primrec backup_type_text :: "BackupType \<Rightarrow> string" where
  "backup_type_text BackupTypeFull = ''full''"
| "backup_type_text BackupTypeIncremental = ''incremental''"
| "backup_type_text BackupTypeDifferential = ''differential''"

definition BuildStoragePath :: "string \<Rightarrow> BackupType \<Rightarrow> Time \<Rightarrow> string" where
  "BuildStoragePath clusterID backupType timestamp =
     ''backups/'' @ clusterID @ ''/'' @ backup_type_text backupType @ ''/'' @ format_compact timestamp"

text \<open>An error of \<open>FailBackup\<close> is dropped.\<close>

definition give_up :: "unit res io \<Rightarrow> string \<Rightarrow> unit res io" where
  "give_up record e = do { _ \<leftarrow> record; State_Monad.return (Inl e) }"

definition ensure_stanza :: "PgBackRest \<Rightarrow> string \<Rightarrow> unit res io" where
  "ensure_stanza p stanza = do {
     checked \<leftarrow> pgbackrest_StanzaCheck p stanza [] [];
     (case checked of
        Inr _ \<Rightarrow> State_Monad.return (Inr ())
      | Inl _ \<Rightarrow> try_do (pgbackrest_StanzaCreate p stanza [] []) Inl (\<lambda>_. State_Monad.return (Inr ())))
   }"

definition ExecuteBackup :: "PgBackRest \<Rightarrow> string \<Rightarrow> unit res io" where
  "ExecuteBackup p backupID =
     try_do (backups_GetBackup backupID) (\<lambda>e. Inl (wrap ''get backup'' e)) (\<lambda>found.
     case found of
       None \<Rightarrow> State_Monad.return (Inl (''backup '' @ backupID @ '' not found''))
     | Some backup \<Rightarrow> do {
         let stanza = ''skylex-'' @ Bak_ClusterID backup;
         ready \<leftarrow> ensure_stanza p stanza;
         (case ready of
            Inl e \<Rightarrow> give_up (backups_FailBackup backupID) (wrap ''stanza create'' e)
          | Inr _ \<Rightarrow> do {
              done \<leftarrow> pgbackrest_Backup p stanza (backup_type_text (Bak_Type backup)) [] [];
              (case done of
                 Inl e \<Rightarrow> give_up (backups_FailBackup backupID) (wrap ''backup execution'' e)
               | Inr output \<Rightarrow> wrap_err ''complete backup record''
                   (backups_CompleteBackup backupID ''wal_start'' ''wal_stop'' ''lsn'' (int (length output))))
            })
       })"

definition restore_target :: "RestoreJob \<Rightarrow> string \<times> string" where
  "restore_target job = (case Rst_TargetType job of
      RestoreTargetTime \<Rightarrow> (Rst_TargetValue job, [])
    | RestoreTargetLSN \<Rightarrow> ([], Rst_TargetValue job)
    | _ \<Rightarrow> ([], []))"

definition ExecuteRestore :: "PgBackRest \<Rightarrow> string \<Rightarrow> unit res io" where
  "ExecuteRestore p restoreJobID =
     try_do (backups_GetRestoreJob restoreJobID) (\<lambda>e. Inl (wrap ''get restore job'' e)) (\<lambda>found.
     case found of
       None \<Rightarrow> State_Monad.return (Inl (''restore job '' @ restoreJobID @ '' not found''))
     | Some job \<Rightarrow> do {
         let (targetTime, targetLSN) = restore_target job;
         restored \<leftarrow> pgbackrest_Restore p (''skylex-'' @ Rst_SourceClusterID job) targetTime targetLSN [] [];
         (case restored of
            Inl e \<Rightarrow> give_up (backups_FailRestoreJob restoreJobID) (wrap ''restore execution'' e)
          | Inr _ \<Rightarrow> wrap_err ''complete restore record'' (backups_CompleteRestoreJob restoreJobID))
       })"

definition CleanupExpired :: "PgBackRest \<Rightarrow> string \<Rightarrow> int \<Rightarrow> int \<Rightarrow> unit res io" where
  "CleanupExpired p clusterID retentionCount retentionDays =
     try_do (pgbackrest_Expire p (''skylex-'' @ clusterID) retentionCount retentionDays []) Inl (\<lambda>_. State_Monad.return (Inr ()))"

section \<open>The worker\<close>

text \<open>
  The scheduler of \<open>robfig/cron\<close>: \<open>AddFunc\<close> refuses a malformed specification or gives the identifier of a
  new entry, \<open>Remove\<close> takes an entry out, \<open>Entries\<close> are those that run when their time comes. The function
  the worker adds runs \<open>createScheduledBackup\<close> on the schedule it was made from, so an entry carries that
  schedule. \<open>cron_ok\<close> is what the library documents.
\<close>

record 'c cron =
  cron_AddFunc :: "'c \<Rightarrow> string \<Rightarrow> BackupSchedule \<Rightarrow> string + (int \<times> 'c)"
  cron_Remove :: "'c \<Rightarrow> int \<Rightarrow> 'c"
  cron_Entries :: "'c \<Rightarrow> (int \<times> BackupSchedule) list"

definition cron_ok :: "'c cron \<Rightarrow> bool" where
  "cron_ok C \<longleftrightarrow>
     (\<forall>c spec job i c'. cron_AddFunc C c spec job = Inr (i, c') \<longrightarrow>
        i \<notin> fst ` set (cron_Entries C c) \<and> set (cron_Entries C c') = insert (i, job) (set (cron_Entries C c))) \<and>
     (\<forall>c i. set (cron_Entries C (cron_Remove C c i)) = {e \<in> set (cron_Entries C c). fst e \<noteq> i})"

record 'c Worker =
  Wk_cron :: 'c
  Wk_jobs :: "string \<rightharpoonup> int"

definition UnscheduleBackup :: "'c cron \<Rightarrow> string \<Rightarrow> 'c Worker \<Rightarrow> 'c Worker" where
  "UnscheduleBackup C scheduleID k = (case Wk_jobs k scheduleID of
      None \<Rightarrow> k
    | Some entryID \<Rightarrow> k\<lparr>Wk_cron := cron_Remove C (Wk_cron k) entryID, Wk_jobs := (Wk_jobs k)(scheduleID := None)\<rparr>)"

definition ScheduleBackup :: "'c cron \<Rightarrow> BackupSchedule \<Rightarrow> 'c Worker \<Rightarrow> unit res \<times> 'c Worker" where
  "ScheduleBackup C schedule k = (
     let k1 = UnscheduleBackup C (Sch_ID schedule) k
     in if \<not> Sch_Enabled schedule then (Inr (), k1)
        else (case cron_AddFunc C (Wk_cron k1) (Sch_Cron schedule) schedule of
            Inl e \<Rightarrow> (Inl e, k1)
          | Inr (entryID, c) \<Rightarrow> (Inr (), k1\<lparr>Wk_cron := c, Wk_jobs := (Wk_jobs k1)(Sch_ID schedule \<mapsto> entryID)\<rparr>)))"

text \<open>A cluster that is not found ends the job without an error.\<close>

definition createScheduledBackup :: "PgBackRest \<Rightarrow> BackupSchedule \<Rightarrow> unit res io" where
  "createScheduledBackup p schedule =
     try_do (clusters_GetByID (Sch_ClusterID schedule)) Inl (\<lambda>cluster.
     case cluster of
       None \<Rightarrow> State_Monad.return (Inr ())
     | Some _ \<Rightarrow> do {
         now \<leftarrow> time_now;
         try_do (backups_CreateBackup (Sch_ClusterID schedule) [] (Sch_StorageConfigID schedule) (Sch_Type schedule)
             (BuildStoragePath (Sch_ClusterID schedule) (Sch_Type schedule) now)) Inl (\<lambda>backup.
         ExecuteBackup p (Bak_ID backup))
       })"

section \<open>Properties of the engine\<close>

lemma wp_run_pgbackrest:
  "wp (run_pgbackrest p what args) Q w =
     (case snd (pgbackrest_command p w (pgbackrest_binPath p) args) of
        None \<Rightarrow> Q (Inr (fst (pgbackrest_command p w (pgbackrest_binPath p) args))) w
      | Some e \<Rightarrow> Q (Inl (''pgbackrest '' @ what @ '' failed: '' @ e @ [CHR 0x0A] @
                        fst (pgbackrest_command p w (pgbackrest_binPath p) args))) w)"
  by (simp add: run_pgbackrest_def wp_simps Let_def case_prod_unfold split: option.splits)

lemma wp_tool: "(\<And>r. Q r w) \<Longrightarrow> wp (run_pgbackrest p what args) Q w"
  by (simp add: wp_run_pgbackrest split: option.splits)

lemma wp_ensure_stanza: "(\<And>r. Q r w) \<Longrightarrow> wp (ensure_stanza p stanza) Q w"
  by (auto simp: ensure_stanza_def pgbackrest_StanzaCheck_def pgbackrest_StanzaCreate_def wp_simps
      intro!: wp_tool split: sum.splits)

lemma keeps_tools [keeps_intros]: "keeps I (run_pgbackrest p what args)" "keeps I (ensure_stanza p stanza)"
  "keeps I (pgbackrest_Backup p a b c d)" "keeps I (pgbackrest_Restore p a b c d e)"
  "keeps I (pgbackrest_Info p a c)" "keeps I (CleanupExpired p a m n)"
  unfolding pgbackrest_Backup_def pgbackrest_Restore_def pgbackrest_Info_def CleanupExpired_def pgbackrest_Expire_def
  by (auto intro!: keeps_wpI wp_tool wp_ensure_stanza simp: wp_simps split: sum.splits)

lemma keeps_give_up [keeps_intros]: "keeps I m \<Longrightarrow> keeps I (give_up m e)"
  unfolding give_up_def by (intro keeps_intros)

lemma keeps_Execute [keeps_intros]:
  "keeps_db backups_table.pk (ExecuteBackup p i)" "keeps_db restores_table.pk (ExecuteRestore p j)"
  "keeps_env P (ExecuteBackup p i)" "keeps_env P (ExecuteRestore p j)"
  unfolding ExecuteBackup_def ExecuteRestore_def Let_def by (intro keeps_intros)+

text \<open>What a run of the engine leaves of the backup: nothing changed, or the backup is completed or failed.\<close>

definition row_ended :: "string \<Rightarrow> bool \<Rightarrow> db \<Rightarrow> db \<Rightarrow> bool" where
  "row_ended i ok d d' \<longleftrightarrow> (\<exists>f. d' = d\<lparr>backups := upd_where (\<lambda>b. Bak_ID b = i) f (backups d)\<rparr> \<and>
     (\<forall>b. Bak_ID (f b) = Bak_ID b \<and> Bak_ClusterID (f b) = Bak_ClusterID b \<and>
       Bak_Status (f b) = (if ok then BackupStatusCompleted else BackupStatusFailed) \<and> Bak_CompletedAt (f b) \<noteq> None))"

lemma wp_CompleteBackup:
  "wp (backups_CompleteBackup i a b l z) (\<lambda>r w'. the_env w' = the_env w \<and>
     (case r of Inl _ \<Rightarrow> store w' = store w \<and> \<not> no_faults w | Inr _ \<Rightarrow> row_ended i True (store w) (store w'))) w"
  by (auto simp: backups_CompleteBackup_def backups_set_def wp_simps row_ended_def fault_free_def backup_completed_def
      split: option.splits)

lemma wp_FailBackup:
  "wp (backups_FailBackup i) (\<lambda>r w'. the_env w' = the_env w \<and>
     (case r of Inl _ \<Rightarrow> store w' = store w \<and> \<not> no_faults w | Inr _ \<Rightarrow> row_ended i False (store w) (store w'))) w"
  by (auto simp: backups_FailBackup_def backups_set_def wp_simps row_ended_def fault_free_def backup_failed_def
      split: option.splits)

lemma wp_give_up_backup:
  "wp (give_up (backups_FailBackup i) e) (\<lambda>r w'. r = Inl e \<and> the_env w' = the_env w \<and>
     (store w' = store w \<and> \<not> no_faults w \<or> row_ended i False (store w) (store w'))) w"
  unfolding give_up_def wp_bind
  by (rule wp_mono [OF wp_FailBackup]) (auto simp: wp_simps split: sum.splits)

definition execution_outcome :: "string \<Rightarrow> world \<Rightarrow> unit res \<Rightarrow> world \<Rightarrow> bool" where
  "execution_outcome i w r w' \<longleftrightarrow> the_env w' = the_env w \<and>
     ((\<exists>e. r = Inl e) \<and> store w' = store w \<and> (no_faults w \<longrightarrow> backup_of (store w) i = None)
      \<or> (\<exists>e. r = Inl e) \<and> row_ended i False (store w) (store w')
      \<or> r = Inr () \<and> row_ended i True (store w) (store w'))"

lemma wp_ExecuteBackup: "wp (ExecuteBackup p i) (execution_outcome i w) w"
proof -
  have run: "wp (give_up (backups_FailBackup i) e) (execution_outcome i w) w1"
    if "the_env w1 = the_env w" "store w1 = store w" for e w1
    by (rule wp_mono [OF wp_give_up_backup]) (use that in \<open>auto simp: execution_outcome_def\<close>)
  have completed: "wp (wrap_err q (backups_CompleteBackup i a b l z)) (execution_outcome i w) w1"
    if "the_env w1 = the_env w" "store w1 = store w" for q a b l z w1
    unfolding wp_wrap_err
    by (rule wp_mono [OF wp_CompleteBackup]) (use that in \<open>auto simp: execution_outcome_def split: sum.splits\<close>)
  have tool: "wp (pgbackrest_Backup p s ty [] []) (\<lambda>r. wp (case r of
       Inl e \<Rightarrow> give_up (backups_FailBackup i) (wrap ''backup execution'' e)
     | Inr out \<Rightarrow> wrap_err ''complete backup record'' (backups_CompleteBackup i ''wal_start'' ''wal_stop'' ''lsn'' (int (length out))))
       (execution_outcome i w)) w1" if "the_env w1 = the_env w" "store w1 = store w" for s ty w1
    unfolding pgbackrest_Backup_def
    by (rule wp_tool) (use that run completed in \<open>auto split: sum.splits\<close>)
  have missing: "execution_outcome i w (Inl e) (w\<lparr>n_stmt := Suc (n_stmt w)\<rparr>)"
    if "no_faults w \<longrightarrow> backup_of (store w) i = None" for e
    using that by (auto simp: execution_outcome_def)
  show ?thesis
    unfolding ExecuteBackup_def backups_GetBackup_def Let_def
    by (auto simp: wp_simps fault_free_def split: option.splits sum.splits intro!: missing wp_ensure_stanza tool run)
qed

section \<open>Properties of the worker\<close>

text \<open>
  What the worker promises: a partial map from schedules to the job that runs for them. The job table and the
  entries of the scheduler implement it when every entry is recorded under the schedule it runs.
\<close>

definition worker_inv :: "'c cron \<Rightarrow> 'c Worker \<Rightarrow> bool" where
  "worker_inv C k \<longleftrightarrow> inj_on fst (set (cron_Entries C (Wk_cron k))) \<and>
     (\<forall>e\<in>set (cron_Entries C (Wk_cron k)). Wk_jobs k (Sch_ID (snd e)) = Some (fst e)) \<and>
     (\<forall>s i. Wk_jobs k s = Some i \<longrightarrow> (\<exists>job. (i, job) \<in> set (cron_Entries C (Wk_cron k)) \<and> Sch_ID job = s))"

definition active :: "'c cron \<Rightarrow> 'c Worker \<Rightarrow> BackupSchedule set" where
  "active C k = snd ` set (cron_Entries C (Wk_cron k))"

text \<open>The abstract operations: forget the job of a schedule, or replace it.\<close>

definition without :: "string \<Rightarrow> BackupSchedule set \<Rightarrow> BackupSchedule set" where
  "without s A = {job \<in> A. Sch_ID job \<noteq> s}"

lemma cron_RemoveD: "cron_ok C \<Longrightarrow> set (cron_Entries C (cron_Remove C c i)) = {e \<in> set (cron_Entries C c). fst e \<noteq> i}"
  by (simp add: cron_ok_def)

lemma cron_AddFuncD:
  assumes "cron_ok C" "cron_AddFunc C c spec job = Inr (i, c')"
  shows "i \<notin> fst ` set (cron_Entries C c)" "set (cron_Entries C c') = insert (i, job) (set (cron_Entries C c))"
  using assms unfolding cron_ok_def by blast+

lemma worker_entryD: "worker_inv C k \<Longrightarrow> e \<in> set (cron_Entries C (Wk_cron k)) \<Longrightarrow> Wk_jobs k (Sch_ID (snd e)) = Some (fst e)"
  by (auto simp: worker_inv_def)

lemma worker_jobD:
  "worker_inv C k \<Longrightarrow> Wk_jobs k s = Some i \<Longrightarrow> \<exists>job. (i, job) \<in> set (cron_Entries C (Wk_cron k)) \<and> Sch_ID job = s"
  unfolding worker_inv_def by blast

lemma worker_inv_inj: "worker_inv C k \<Longrightarrow> inj_on fst (set (cron_Entries C (Wk_cron k)))"
  by (simp add: worker_inv_def)

lemma worker_invI:
  assumes "inj_on fst (set (cron_Entries C (Wk_cron k)))"
    "\<And>i job. (i, job) \<in> set (cron_Entries C (Wk_cron k)) \<Longrightarrow> Wk_jobs k (Sch_ID job) = Some i"
    "\<And>s i. Wk_jobs k s = Some i \<Longrightarrow> \<exists>job. (i, job) \<in> set (cron_Entries C (Wk_cron k)) \<and> Sch_ID job = s"
  shows "worker_inv C k"
  using assms unfolding worker_inv_def by auto

lemma UnscheduleBackup_refines:
  assumes "cron_ok C" "worker_inv C k"
  shows "worker_inv C (UnscheduleBackup C s k)"
    and "active C (UnscheduleBackup C s k) = without s (active C k)"
    and "Wk_jobs (UnscheduleBackup C s k) = (Wk_jobs k)(s := None)"
proof -
  have "worker_inv C (UnscheduleBackup C s k) \<and> active C (UnscheduleBackup C s k) = without s (active C k) \<and>
    Wk_jobs (UnscheduleBackup C s k) = (Wk_jobs k)(s := None)"
  proof (cases "Wk_jobs k s")
    case None
    then have "\<forall>e\<in>set (cron_Entries C (Wk_cron k)). Sch_ID (snd e) \<noteq> s"
      using assms(2) by (auto dest: worker_entryD)
    with None assms(2) show ?thesis
      by (auto simp: UnscheduleBackup_def active_def without_def fun_eq_iff)
  next
    case (Some i)
    have same: "Sch_ID (snd e) = s \<longleftrightarrow> fst e = i" if "e \<in> set (cron_Entries C (Wk_cron k))" for e
    proof -
      obtain job where "(i, job) \<in> set (cron_Entries C (Wk_cron k))" "Sch_ID job = s"
        using assms(2) Some unfolding worker_inv_def by blast
      moreover have "inj_on fst (set (cron_Entries C (Wk_cron k)))"
        using assms(2) by (simp add: worker_inv_def)
      ultimately show ?thesis
        using that Some worker_entryD [OF assms(2) that] by (cases e) (auto dest: inj_onD [where x = "(i, _)" and y = "(i, job)"])
    qed
    have k': "UnscheduleBackup C s k = k\<lparr>Wk_cron := cron_Remove C (Wk_cron k) i, Wk_jobs := (Wk_jobs k)(s := None)\<rparr>"
      using Some by (simp add: UnscheduleBackup_def)
    have entries: "set (cron_Entries C (Wk_cron (UnscheduleBackup C s k))) = {e \<in> set (cron_Entries C (Wk_cron k)). fst e \<noteq> i}"
      by (simp add: k' cron_RemoveD [OF assms(1)])
    have "worker_inv C (UnscheduleBackup C s k)"
    proof (rule worker_invI, unfold entries)
      show "inj_on fst {e \<in> set (cron_Entries C (Wk_cron k)). fst e \<noteq> i}"
        by (rule inj_on_subset [OF worker_inv_inj [OF assms(2)]]) auto
      show "Wk_jobs (UnscheduleBackup C s k) (Sch_ID job) = Some j"
        if "(j, job) \<in> {e \<in> set (cron_Entries C (Wk_cron k)). fst e \<noteq> i}" for j job
        using that same [of "(j, job)"] worker_entryD [OF assms(2), of "(j, job)"] by (auto simp: k')
      show "\<exists>job. (j, job) \<in> {e \<in> set (cron_Entries C (Wk_cron k)). fst e \<noteq> i} \<and> Sch_ID job = t"
        if "Wk_jobs (UnscheduleBackup C s k) t = Some j" for t j
        using that worker_jobD [OF assms(2), of t j] same [of "(j, _)"] by (fastforce simp: k' split: if_splits)
    qed
    moreover have "active C (UnscheduleBackup C s k) = without s (active C k)"
      using same unfolding active_def without_def entries by force
    ultimately show ?thesis by (simp add: k')
  qed
  then show "worker_inv C (UnscheduleBackup C s k)" "active C (UnscheduleBackup C s k) = without s (active C k)"
    "Wk_jobs (UnscheduleBackup C s k) = (Wk_jobs k)(s := None)" by simp_all
qed

lemma ScheduleBackup_refines:
  assumes "cron_ok C" "worker_inv C k" "ScheduleBackup C s k = (r, k')"
  shows "worker_inv C k'"
    and "active C k' = (if Sch_Enabled s \<and> r = Inr () then insert s (without (Sch_ID s) (active C k))
                        else without (Sch_ID s) (active C k))"
proof -
  let ?k1 = "UnscheduleBackup C (Sch_ID s) k"
  note un = UnscheduleBackup_refines [OF assms(1,2), of "Sch_ID s"]
  have other: "Sch_ID (snd e) \<noteq> Sch_ID s" if "e \<in> set (cron_Entries C (Wk_cron ?k1))" for e
    using worker_entryD [OF un(1) that] un(3) by auto
  have "worker_inv C k' \<and> active C k' = (if Sch_Enabled s \<and> r = Inr () then insert s (without (Sch_ID s) (active C k))
                        else without (Sch_ID s) (active C k))"
  proof (cases "\<not> Sch_Enabled s \<or> (\<exists>e. cron_AddFunc C (Wk_cron ?k1) (Sch_Cron s) s = Inl e)")
    case True
    then have "k' = ?k1 \<and> \<not> (Sch_Enabled s \<and> r = Inr ())"
      using assms(3) by (elim disjE exE) (simp_all add: ScheduleBackup_def Let_def, auto split: if_splits)
    then show ?thesis using un by auto
  next
    case False
    then obtain i c where a: "cron_AddFunc C (Wk_cron ?k1) (Sch_Cron s) s = Inr (i, c)" "Sch_Enabled s"
      by (metis sum.exhaust surj_pair)
    then have k': "k' = ?k1\<lparr>Wk_cron := c, Wk_jobs := (Wk_jobs ?k1)(Sch_ID s \<mapsto> i)\<rparr>" "r = Inr ()"
      using assms(3) by (auto simp: ScheduleBackup_def Let_def)
    note add = cron_AddFuncD [OF assms(1) a(1)]
    have entries: "set (cron_Entries C (Wk_cron k')) = insert (i, s) (set (cron_Entries C (Wk_cron ?k1)))"
      by (simp add: k' add(2))
    have "worker_inv C k'"
    proof (rule worker_invI, unfold entries)
      show "inj_on fst (insert (i, s) (set (cron_Entries C (Wk_cron ?k1))))"
        using worker_inv_inj [OF un(1)] add(1) by auto
      show "Wk_jobs k' (Sch_ID job) = Some j"
        if "(j, job) \<in> insert (i, s) (set (cron_Entries C (Wk_cron ?k1)))" for j job
        using that other [of "(j, job)"] worker_entryD [OF un(1), of "(j, job)"] by (auto simp: k')
      show "\<exists>job. (j, job) \<in> insert (i, s) (set (cron_Entries C (Wk_cron ?k1))) \<and> Sch_ID job = t"
        if "Wk_jobs k' t = Some j" for t j
        using that worker_jobD [OF un(1), of t j] by (auto simp: k' split: if_splits)
    qed
    moreover have "active C k' = insert s (active C ?k1)"
      unfolding active_def entries by simp
    ultimately show ?thesis using un(2) a(2) k'(2) by simp
  qed
  then show "worker_inv C k'"
    and "active C k' = (if Sch_Enabled s \<and> r = Inr () then insert s (without (Sch_ID s) (active C k))
                        else without (Sch_ID s) (active C k))" by simp_all
qed

text \<open>So a schedule never has two jobs.\<close>

lemma one_job_per_schedule: "worker_inv C k \<Longrightarrow> inj_on (Sch_ID \<circ> snd) (set (cron_Entries C (Wk_cron k)))"
proof (rule inj_onI)
  fix e e' assume inv: "worker_inv C k" and e: "e \<in> set (cron_Entries C (Wk_cron k))" "e' \<in> set (cron_Entries C (Wk_cron k))"
    and same: "(Sch_ID \<circ> snd) e = (Sch_ID \<circ> snd) e'"
  have "fst e = fst e'"
    using worker_entryD [OF inv e(1)] worker_entryD [OF inv e(2)] same by simp
  then show "e = e'" using inj_onD [OF worker_inv_inj [OF inv] _ e] by simp
qed

end
