(* ===== verification/BackupService.thy ===== *)
theory BackupService
  imports BackupEngine Proto
begin

text \<open>
  \<open>server/backup_service.go\<close> and \<open>server/storage_service.go\<close>. A handler that starts a goroutine gives the
  work it starts as a \<open>background\<close> value; \<open>run_background\<close> is that goroutine. The worker's state is passed
  through the handlers that change it. The object store is a parameter: whether a client can be made, and
  what the calls to it answer.
\<close>

section \<open>Messages\<close>

datatype ProtoBackupType = BACKUP_TYPE_UNSPECIFIED | BACKUP_TYPE_FULL | BACKUP_TYPE_INCREMENTAL | BACKUP_TYPE_DIFFERENTIAL
datatype ProtoBackupStatus = BACKUP_STATUS_UNSPECIFIED | BACKUP_STATUS_RUNNING | BACKUP_STATUS_COMPLETED | BACKUP_STATUS_FAILED
datatype ProtoRestoreStatus =
  RESTORE_STATUS_UNSPECIFIED | RESTORE_STATUS_RUNNING | RESTORE_STATUS_COMPLETED | RESTORE_STATUS_FAILED

record ProtoBackup =
  PB_Id :: string
  PB_ClusterId :: string
  PB_NodeId :: string
  PB_Type :: ProtoBackupType
  PB_StoragePath :: string
  PB_WalStart :: string
  PB_WalStop :: string
  PB_Lsn :: string
  PB_SizeBytes :: int
  PB_Status :: ProtoBackupStatus
  PB_CreatedAt :: Time
  PB_CompletedAt :: "Time option"

record ProtoRestoreJob =
  PJ_Id :: string
  PJ_ClusterId :: string
  PJ_TargetNode :: string
  PJ_Status :: ProtoRestoreStatus
  PJ_CreatedAt :: Time
  PJ_CompletedAt :: "Time option"

record ProtoSchedule =
  PS_Id :: string
  PS_ClusterId :: string
  PS_Cron :: string
  PS_Type :: ProtoBackupType
  PS_RetentionCount :: int
  PS_RetentionDays :: int
  PS_StorageConfigId :: string
  PS_Enabled :: bool
  PS_CreatedAt :: Time
  PS_UpdatedAt :: Time

record ProtoStorageConfig =
  PSt_Id :: string
  PSt_Name :: string
  PSt_Type :: string
  PSt_Endpoint :: string
  PSt_Bucket :: string
  PSt_Region :: string
  PSt_UseTls :: bool
  PSt_CreatedAt :: Time
  PSt_UpdatedAt :: Time

primrec convertBackupType :: "ProtoBackupType \<Rightarrow> BackupType" where
  "convertBackupType BACKUP_TYPE_INCREMENTAL = BackupTypeIncremental"
| "convertBackupType BACKUP_TYPE_DIFFERENTIAL = BackupTypeDifferential"
| "convertBackupType BACKUP_TYPE_FULL = BackupTypeFull"
| "convertBackupType BACKUP_TYPE_UNSPECIFIED = BackupTypeFull"

primrec convertBackupTypeToProto :: "BackupType \<Rightarrow> ProtoBackupType" where
  "convertBackupTypeToProto BackupTypeIncremental = BACKUP_TYPE_INCREMENTAL"
| "convertBackupTypeToProto BackupTypeDifferential = BACKUP_TYPE_DIFFERENTIAL"
| "convertBackupTypeToProto BackupTypeFull = BACKUP_TYPE_FULL"

primrec convertBackupStatusToProto :: "BackupStatus \<Rightarrow> ProtoBackupStatus" where
  "convertBackupStatusToProto BackupStatusCompleted = BACKUP_STATUS_COMPLETED"
| "convertBackupStatusToProto BackupStatusFailed = BACKUP_STATUS_FAILED"
| "convertBackupStatusToProto BackupStatusRunning = BACKUP_STATUS_RUNNING"
| "convertBackupStatusToProto BackupStatusDeleting = BACKUP_STATUS_RUNNING"

primrec convertRestoreStatusToProto :: "RestoreStatus \<Rightarrow> ProtoRestoreStatus" where
  "convertRestoreStatusToProto RestoreStatusCompleted = RESTORE_STATUS_COMPLETED"
| "convertRestoreStatusToProto RestoreStatusFailed = RESTORE_STATUS_FAILED"
| "convertRestoreStatusToProto RestoreStatusRunning = RESTORE_STATUS_RUNNING"

definition backupToProto :: "Backup \<Rightarrow> ProtoBackup" where
  "backupToProto b = \<lparr>PB_Id = Bak_ID b, PB_ClusterId = Bak_ClusterID b, PB_NodeId = Bak_NodeID b,
     PB_Type = convertBackupTypeToProto (Bak_Type b), PB_StoragePath = Bak_StoragePath b, PB_WalStart = Bak_WALStart b,
     PB_WalStop = Bak_WALStop b, PB_Lsn = Bak_LSN b, PB_SizeBytes = Bak_SizeBytes b,
     PB_Status = convertBackupStatusToProto (Bak_Status b), PB_CreatedAt = Bak_CreatedAt b, PB_CompletedAt = Bak_CompletedAt b\<rparr>"

definition restoreJobToProto :: "RestoreJob \<Rightarrow> ProtoRestoreJob" where
  "restoreJobToProto j = \<lparr>PJ_Id = Rst_ID j, PJ_ClusterId = Rst_SourceClusterID j, PJ_TargetNode = Rst_TargetNodeID j,
     PJ_Status = convertRestoreStatusToProto (Rst_Status j), PJ_CreatedAt = Rst_CreatedAt j, PJ_CompletedAt = Rst_CompletedAt j\<rparr>"

definition scheduleToProto :: "BackupSchedule \<Rightarrow> ProtoSchedule" where
  "scheduleToProto s = \<lparr>PS_Id = Sch_ID s, PS_ClusterId = Sch_ClusterID s, PS_Cron = Sch_Cron s,
     PS_Type = convertBackupTypeToProto (Sch_Type s), PS_RetentionCount = to_int32 (Sch_RetentionCount s),
     PS_RetentionDays = to_int32 (Sch_RetentionDays s), PS_StorageConfigId = Sch_StorageConfigID s,
     PS_Enabled = Sch_Enabled s, PS_CreatedAt = Sch_CreatedAt s, PS_UpdatedAt = Sch_UpdatedAt s\<rparr>"

definition storageConfigToProto :: "StorageConfig \<Rightarrow> ProtoStorageConfig" where
  "storageConfigToProto c = \<lparr>PSt_Id = Stor_ID c, PSt_Name = Stor_Name c, PSt_Type = Stor_Type c,
     PSt_Endpoint = Stor_Endpoint c, PSt_Bucket = Stor_Bucket c, PSt_Region = Stor_Region c, PSt_UseTls = Stor_UseSSL c,
     PSt_CreatedAt = Stor_CreatedAt c, PSt_UpdatedAt = Stor_UpdatedAt c\<rparr>"

section \<open>Backups and restores\<close>

datatype background = RunBackup string | RunRestore string

primrec run_background :: "PgBackRest \<Rightarrow> background \<Rightarrow> unit res io" where
  "run_background p (RunBackup i) = ExecuteBackup p i"
| "run_background p (RunRestore i) = ExecuteRestore p i"

text \<open>An error of \<open>GetByID\<close> is answered like a missing cluster.\<close>

definition backup_cluster :: "string \<Rightarrow> (Cluster \<Rightarrow> 'a rpc io) \<Rightarrow> 'a rpc io" where
  "backup_cluster clusterId k = do {
     r \<leftarrow> clusters_GetByID clusterId;
     (case r of
        Inr (Some cluster) \<Rightarrow> k cluster
      | _ \<Rightarrow> fail NotFound (''cluster '' @ quote clusterId @ '' not found''))
   }"

definition CreateBackup :: "string \<Rightarrow> ProtoBackupType \<Rightarrow> (ProtoBackup \<times> background) rpc io" where
  "CreateBackup clusterId req_type = backup_cluster clusterId (\<lambda>cluster. do {
     let backupType = convertBackupType req_type;
     now \<leftarrow> time_now;
     or_status Internal ''create backup''
       (backups_CreateBackup clusterId [] (Cluster_StorageConfigID cluster) backupType (BuildStoragePath clusterId backupType now))
       (\<lambda>b. reply (backupToProto b, RunBackup (Bak_ID b)))
   })"

definition ListBackups :: "string \<Rightarrow> int \<Rightarrow> int \<Rightarrow> (ProtoBackup list \<times> Pagination) rpc io" where
  "ListBackups clusterId req_page req_pageSize = (
     let pageSize = (if req_pageSize \<le> 0 then 20 else if req_pageSize > 100 then 100 else req_pageSize);
         pg = (if req_page \<le> 0 then 1 else req_page)
     in or_status Internal ''list backups'' (backups_ListBackups clusterId (nat ((pg - 1) * pageSize)) (nat pageSize)) (\<lambda>(bs, total).
        reply (map backupToProto bs,
          \<lparr>Pag_Page = to_int32 pg, Pag_PageSize = to_int32 pageSize, Pag_Total = to_int32 (int total)\<rparr>)))"

definition GetBackup :: "string \<Rightarrow> ProtoBackup rpc io" where
  "GetBackup i = or_status Internal ''get backup'' (backups_GetBackup i) (\<lambda>r. case r of
      None \<Rightarrow> fail NotFound (''backup '' @ quote i @ '' not found'')
    | Some b \<Rightarrow> reply (backupToProto b))"

definition DeleteBackup :: "string \<Rightarrow> unit rpc io" where
  "DeleteBackup i = do {
     r \<leftarrow> backups_GetBackup i;
     (case r of
        Inr (Some _) \<Rightarrow> or_status Internal ''delete backup'' (backups_DeleteBackup i) reply
      | _ \<Rightarrow> fail NotFound (''backup '' @ quote i @ '' not found''))
   }"

record CreateRestoreJobRequest =
  CR_ClusterId :: string
  CR_BackupId :: string
  CR_TargetTime :: "Time option"
  CR_TargetLsn :: string
  CR_TargetNode :: string

definition convertRestoreTarget :: "CreateRestoreJobRequest \<Rightarrow> RestoreTargetType \<times> string" where
  "convertRestoreTarget req = (case CR_TargetTime req of
      Some t \<Rightarrow> (RestoreTargetTime, format_rfc3339 t)
    | None \<Rightarrow> if CR_TargetLsn req \<noteq> [] then (RestoreTargetLSN, CR_TargetLsn req) else (RestoreTargetLatest, []))"

definition CreateRestoreJob :: "CreateRestoreJobRequest \<Rightarrow> (ProtoRestoreJob \<times> background) rpc io" where
  "CreateRestoreJob req = backup_cluster (CR_ClusterId req) (\<lambda>_.
     let (targetType, targetValue) = convertRestoreTarget req
     in or_status Internal ''create restore job''
          (backups_CreateRestoreJob (CR_ClusterId req) (CR_BackupId req) targetType targetValue (CR_TargetNode req))
          (\<lambda>j. reply (restoreJobToProto j, RunRestore (Rst_ID j))))"

definition ListRestoreJobs :: "string \<Rightarrow> int \<Rightarrow> int \<Rightarrow> (ProtoRestoreJob list \<times> Pagination) rpc io" where
  "ListRestoreJobs clusterId req_page req_pageSize = (
     let pageSize = (if req_pageSize \<le> 0 then 20 else if req_pageSize > 100 then 100 else req_pageSize);
         pg = (if req_page \<le> 0 then 1 else req_page)
     in or_status Internal ''list restore jobs'' (backups_ListRestoreJobs clusterId (nat ((pg - 1) * pageSize)) (nat pageSize)) (\<lambda>(js, total).
        reply (map restoreJobToProto js,
          \<lparr>Pag_Page = to_int32 pg, Pag_PageSize = to_int32 pageSize, Pag_Total = to_int32 (int total)\<rparr>)))"

section \<open>Schedules\<close>

record CreateScheduleRequest =
  CSch_ClusterId :: string
  CSch_Cron :: string
  CSch_Type :: ProtoBackupType
  CSch_RetentionCount :: int
  CSch_RetentionDays :: int
  CSch_StorageConfigId :: string

record UpdateScheduleRequest =
  USch_Id :: string
  USch_Cron :: string
  USch_Type :: ProtoBackupType
  USch_RetentionCount :: int
  USch_RetentionDays :: int
  USch_StorageConfigId :: string
  USch_Enabled :: bool

text \<open>An error of \<open>ScheduleBackup\<close> is only logged.\<close>

definition CreateSchedule :: "'c cron \<Rightarrow> CreateScheduleRequest \<Rightarrow> 'c Worker \<Rightarrow> (ProtoSchedule rpc \<times> 'c Worker) io" where
  "CreateSchedule C req k = do {
     r \<leftarrow> backup_cluster (CSch_ClusterId req) (\<lambda>_.
       or_status Internal ''create schedule'' (backups_CreateSchedule (CSch_ClusterId req) (CSch_Cron req)
         (convertBackupType (CSch_Type req)) (CSch_RetentionCount req) (CSch_RetentionDays req) (CSch_StorageConfigId req)) reply);
     State_Monad.return (case r of
        Inl e \<Rightarrow> (Inl e, k)
      | Inr schedule \<Rightarrow> (Inr (scheduleToProto schedule), snd (ScheduleBackup C schedule k)))
   }"

definition ListSchedules :: "string \<Rightarrow> ProtoSchedule list rpc io" where
  "ListSchedules clusterId = or_status Internal ''list schedules'' (backups_ListSchedules clusterId) (\<lambda>ss.
     reply (map scheduleToProto ss))"

definition UpdateSchedule :: "'c cron \<Rightarrow> UpdateScheduleRequest \<Rightarrow> 'c Worker \<Rightarrow> (ProtoSchedule rpc \<times> 'c Worker) io" where
  "UpdateSchedule C req k = do {
     r \<leftarrow> or_status Internal ''update schedule'' (backups_UpdateSchedule (USch_Id req) (USch_Cron req)
            (convertBackupType (USch_Type req)) (USch_RetentionCount req) (USch_RetentionDays req) (USch_StorageConfigId req)
            (USch_Enabled req)) reply;
     State_Monad.return (case r of
        Inl e \<Rightarrow> (Inl e, k)
      | Inr schedule \<Rightarrow> (Inr (scheduleToProto schedule), snd (ScheduleBackup C schedule k)))
   }"

definition DeleteSchedule :: "'c cron \<Rightarrow> string \<Rightarrow> 'c Worker \<Rightarrow> (unit rpc \<times> 'c Worker) io" where
  "DeleteSchedule C i k = do {
     let k1 = UnscheduleBackup C i k;
     r \<leftarrow> or_status Internal ''delete schedule'' (backups_DeleteSchedule i) reply;
     State_Monad.return (r, k1)
   }"

section \<open>Object stores\<close>

record S3Config =
  S3_Endpoint :: string
  S3_Bucket :: string
  S3_Region :: string
  S3_AccessKey :: string
  S3_SecretKey :: string
  S3_UseSSL :: bool

text \<open>The calls of the client of \<open>minio\<close>, by the number of the call in a handler.\<close>

record s3_library =
  minio_New :: "S3Config \<Rightarrow> string option"
  minio_BucketExists :: "world \<Rightarrow> nat \<Rightarrow> S3Config \<Rightarrow> string + bool"
  minio_MakeBucket :: "world \<Rightarrow> nat \<Rightarrow> S3Config \<Rightarrow> string option"

definition NewS3Client :: "s3_library \<Rightarrow> S3Config \<Rightarrow> S3Config res io" where
  "NewS3Client L cfg = do {
     w \<leftarrow> State_Monad.get;
     State_Monad.return (case minio_New L cfg of
        Some e \<Rightarrow> Inl (wrap ''create s3 client'' e)
      | None \<Rightarrow> (case minio_BucketExists L w 0 cfg of
          Inl e \<Rightarrow> Inl (wrap ''check bucket'' e)
        | Inr True \<Rightarrow> Inr cfg
        | Inr False \<Rightarrow> (case minio_MakeBucket L w 1 cfg of
            Some e \<Rightarrow> Inl (wrap ''create bucket'' e)
          | None \<Rightarrow> Inr cfg)))
   }"

definition s3_Validate :: "s3_library \<Rightarrow> S3Config \<Rightarrow> unit res io" where
  "s3_Validate L client = do {
     w \<leftarrow> State_Monad.get;
     State_Monad.return (case minio_BucketExists L w 2 client of
        Inl e \<Rightarrow> Inl (wrap ''validate s3'' e)
      | Inr _ \<Rightarrow> Inr ())
   }"

record CreateStorageConfigRequest =
  CSt_Name :: string
  CSt_Type :: string
  CSt_Endpoint :: string
  CSt_Bucket :: string
  CSt_Region :: string
  CSt_AccessKey :: string
  CSt_SecretKey :: string
  CSt_UseTls :: bool

definition CreateStorageConfig :: "SecretRepository \<Rightarrow> CreateStorageConfigRequest \<Rightarrow> ProtoStorageConfig rpc io" where
  "CreateStorageConfig r req =
     or_status Internal ''check name'' (storage_GetByName (CSt_Name req)) (\<lambda>existing. case existing of
       Some _ \<Rightarrow> fail AlreadyExists (''storage config '' @ quote (CSt_Name req) @ '' already exists'')
     | None \<Rightarrow> or_status Internal ''create storage config'' (storage_Create r (CSt_Name req) (CSt_Type req) (CSt_Endpoint req)
           (CSt_Bucket req) (CSt_Region req) (CSt_AccessKey req) (CSt_SecretKey req) (CSt_UseTls req)) (\<lambda>cfg.
         reply (storageConfigToProto cfg)))"

definition ListStorageConfigs :: "int \<Rightarrow> int \<Rightarrow> (ProtoStorageConfig list \<times> Pagination) rpc io" where
  "ListStorageConfigs req_page req_pageSize = (
     let pageSize = (if req_pageSize \<le> 0 then 20 else if req_pageSize > 100 then 100 else req_pageSize);
         pg = (if req_page \<le> 0 then 1 else req_page)
     in or_status Internal ''list storage configs'' (storage_List (nat ((pg - 1) * pageSize)) (nat pageSize)) (\<lambda>(cs, total).
        reply (map storageConfigToProto cs,
          \<lparr>Pag_Page = to_int32 pg, Pag_PageSize = to_int32 pageSize, Pag_Total = to_int32 (int total)\<rparr>)))"

definition require_storage :: "string \<Rightarrow> (StorageConfig \<Rightarrow> 'a rpc io) \<Rightarrow> 'a rpc io" where
  "require_storage i k = or_status Internal ''get storage config'' (storage_GetByID i) (\<lambda>r. case r of
      None \<Rightarrow> fail NotFound (''storage config '' @ quote i @ '' not found'')
    | Some cfg \<Rightarrow> k cfg)"

definition GetStorageConfig :: "string \<Rightarrow> ProtoStorageConfig rpc io" where
  "GetStorageConfig i = require_storage i (\<lambda>cfg. reply (storageConfigToProto cfg))"

definition DeleteStorageConfig :: "string \<Rightarrow> unit rpc io" where
  "DeleteStorageConfig i = require_storage i (\<lambda>_. or_status Internal ''delete storage config'' (storage_Delete i) reply)"

text \<open>The answer of \<open>ValidateStorageConfig\<close>: whether the store can be used, and a message; it is never an error.\<close>

definition ValidateStorageConfig :: "SecretRepository \<Rightarrow> s3_library \<Rightarrow> string \<Rightarrow> (bool \<times> string) io" where
  "ValidateStorageConfig r L i = do {
     found \<leftarrow> storage_GetByID i;
     (case found of
        Inr (Some cfg) \<Rightarrow> do {
          creds \<leftarrow> storage_GetDecryptedCredentials r i;
          (case creds of
             Inl _ \<Rightarrow> State_Monad.return (False, ''failed to decrypt credentials'')
           | Inr (accessKey, secretKey) \<Rightarrow>
               try_do (NewS3Client L \<lparr>S3_Endpoint = Stor_Endpoint cfg, S3_Bucket = Stor_Bucket cfg, S3_Region = Stor_Region cfg,
                   S3_AccessKey = accessKey, S3_SecretKey = secretKey, S3_UseSSL = Stor_UseSSL cfg\<rparr>) (\<lambda>e. (False, e)) (\<lambda>client.
               try_do (s3_Validate L client) (\<lambda>e. (False, e)) (\<lambda>_.
               State_Monad.return (True, ''storage config is valid''))))
        }
      | _ \<Rightarrow> State_Monad.return (False, ''storage config not found''))
   }"

end
