(* ===== verification/BackupSafety.thy ===== *)
theory BackupSafety
  imports BackupService
begin

text \<open>
  What the backup and storage services guarantee: that backups end, how the jobs of schedules follow the
  operations, and that credentials are read back as they were stored.
\<close>

section \<open>Backups end\<close>

lemma wp_backup_cluster:
  assumes "\<And>e w'. the_env w' = the_env w \<Longrightarrow> store w' = store w \<Longrightarrow> Q (Inl e) w'"
    and "\<And>c w'. the_env w' = the_env w \<Longrightarrow> store w' = store w \<Longrightarrow> c \<in> set (clusters (store w)) \<Longrightarrow> Cluster_ID c = i
      \<Longrightarrow> wp (k c) Q w'"
  shows "wp (backup_cluster i k) Q w"
  unfolding backup_cluster_def clusters_GetByID_def
  by (auto simp: wp_simps split: option.splits dest!: find_Some_iff_mem intro: assms)

lemma find_append_new: "\<not> (\<exists>x\<in>set xs. p x) \<Longrightarrow> p y \<Longrightarrow> List.find p (xs @ [y]) = Some y"
  by (induction xs) auto

lemma wp_backups_CreateBackup:
  "wp (backups_CreateBackup c n sc ty path) (\<lambda>r w'. the_env w' = the_env w \<and> (case r of Inl _ \<Rightarrow> store w' = store w
     | Inr b \<Rightarrow> backup_of (store w) (Bak_ID b) = None \<and> store w' = (store w)\<lparr>backups := backups (store w) @ [b]\<rparr> \<and>
         Bak_ClusterID b = c \<and> Bak_Type b = ty \<and> Bak_StorageConfigID b = sc \<and>
         Bak_Status b = BackupStatusRunning \<and> Bak_CompletedAt b = None)) w"
  by (auto simp: backups_CreateBackup_def backups_insert_def wp_simps Let_def backup_of_def find_None_iff_mem image_iff
      split: option.splits)

definition backup_begun :: "string \<Rightarrow> world \<Rightarrow> (ProtoBackup \<times> background) rpc \<Rightarrow> world \<Rightarrow> bool" where
  "backup_begun c w r w' \<longleftrightarrow> the_env w' = the_env w \<and> (case r of Inl _ \<Rightarrow> store w' = store w
     | Inr (pb, bg) \<Rightarrow> bg = RunBackup (PB_Id pb) \<and> (\<exists>b. backup_of (store w') (PB_Id pb) = Some b \<and>
         store w' = (store w)\<lparr>backups := backups (store w) @ [b]\<rparr> \<and> Bak_ID b = PB_Id pb \<and> Bak_ClusterID b = c \<and>
         Bak_Status b = BackupStatusRunning))"

lemma wp_CreateBackup: "wp (CreateBackup c ty) (backup_begun c w) w"
proof -
  have "wp (backups_CreateBackup c n sc t path) (\<lambda>r w2. case r of
        Inl e \<Rightarrow> backup_begun c w (Inl (Status Internal (wrap ''create backup'' e))) w2
      | Inr b \<Rightarrow> backup_begun c w (Inr (backupToProto b, RunBackup (Bak_ID b))) w2) w1"
    if "the_env w1 = the_env w" "store w1 = store w" for n sc t path and w1 :: world
    by (rule wp_mono [OF wp_backups_CreateBackup])
      (use that in \<open>auto simp: backup_begun_def backupToProto_def backup_of_def find_append_new find_None_iff_mem
         split: sum.splits\<close>)
  then show ?thesis
    unfolding CreateBackup_def
    by (intro wp_backup_cluster) (simp add: backup_begun_def, simp add: wp_simps Let_def cong: sum.case_cong)
qed

lemma row_ended_backup_of:
  assumes "row_ended i ok d d'" "backup_of d i = Some b"
  shows "\<exists>b'. backup_of d' i = Some b' \<and> Bak_ClusterID b' = Bak_ClusterID b \<and> Bak_CompletedAt b' \<noteq> None \<and>
    Bak_Status b' = (if ok then BackupStatusCompleted else BackupStatusFailed)"
proof -
  obtain f where f: "d' = d\<lparr>backups := upd_where (\<lambda>b. Bak_ID b = i) f (backups d)\<rparr>"
    "\<And>b. Bak_ID (f b) = Bak_ID b \<and> Bak_ClusterID (f b) = Bak_ClusterID b \<and>
       Bak_Status (f b) = (if ok then BackupStatusCompleted else BackupStatusFailed) \<and> Bak_CompletedAt (f b) \<noteq> None"
    using assms(1) unfolding row_ended_def by blast
  have "backup_of d' i = Some (f b)"
    using assms(2) f(2) find_upd_where [of "\<lambda>b. Bak_ID b = i" f "backups d"] unfolding f(1) backup_of_def by auto
  then show ?thesis using f(2) by blast
qed

text \<open>
  C27: A backup that was requested ends. When no statement fails, the run that \<open>CreateBackup\<close> starts leaves the
  backup it recorded completed, if pgbackrest succeeded, or failed otherwise, with the time of its end: it never
  stays running, whatever pgbackrest does.
\<close>

theorem created_backup_ends:
  assumes "no_faults w" "result (CreateBackup clusterId ty) w = Inr (pb, bg)"
  shows "\<exists>b. backup_of (store (after (run_background p bg) (after (CreateBackup clusterId ty) w))) (PB_Id pb) = Some b \<and>
    Bak_ClusterID b = clusterId \<and> Bak_CompletedAt b \<noteq> None \<and>
    Bak_Status b = (if result (run_background p bg) (after (CreateBackup clusterId ty) w) = Inr ()
                    then BackupStatusCompleted else BackupStatusFailed)"
proof -
  let ?w1 = "after (CreateBackup clusterId ty) w"
  have "backup_begun clusterId w (Inr (pb, bg)) ?w1"
    using wp_CreateBackup [of clusterId ty w] assms(2) by (simp add: wp_outcome)
  then obtain b where b: "bg = RunBackup (PB_Id pb)" "backup_of (store ?w1) (PB_Id pb) = Some b"
      "Bak_ClusterID b = clusterId" "the_env ?w1 = the_env w"
    by (auto simp: backup_begun_def)
  let ?r = "result (run_background p bg) ?w1" and ?w2 = "after (run_background p bg) ?w1"
  have "execution_outcome (PB_Id pb) ?w1 ?r ?w2"
    using wp_ExecuteBackup [of p "PB_Id pb" ?w1] b(1) by (simp add: wp_outcome)
  then have "row_ended (PB_Id pb) (?r = Inr ()) (store ?w1) (store ?w2)"
    using b(2,4) assms(1) by (auto simp: execution_outcome_def)
  from row_ended_backup_of [OF this b(2)] b(3) show ?thesis by auto
qed

definition sample_pgbackrest :: PgBackRest where
  "sample_pgbackrest = \<lparr>pgbackrest_binPath = ''pgbackrest'', pgbackrest_command = (\<lambda>_ _ args.
     if ''check'' \<in> set args then ('''', Some ''exit status 28'') else (''done'', None))\<rparr>"

definition backup_world :: world where
  "backup_world = world_of (empty_db\<lparr>clusters := [sample_cluster ''c1'' ClusterStatusRunning]\<rparr>)"

theorem created_backup_ends_witness:
  "\<exists>pb bg. result (CreateBackup ''c1'' BACKUP_TYPE_FULL) backup_world = Inr (pb, bg) \<and>
     (\<exists>b. backup_of (store (after (run_background sample_pgbackrest bg) (after (CreateBackup ''c1'' BACKUP_TYPE_FULL) backup_world)))
        (PB_Id pb) = Some b \<and> Bak_ClusterID b = ''c1'' \<and> Bak_CompletedAt b \<noteq> None)"
proof -
  have "\<not> isl (result (CreateBackup ''c1'' BACKUP_TYPE_FULL) backup_world)"
    by code_simp
  then obtain pb bg where "result (CreateBackup ''c1'' BACKUP_TYPE_FULL) backup_world = Inr (pb, bg)"
    by (metis isl_def sum.exhaust surj_pair)
  then show ?thesis
    using created_backup_ends [of backup_world "''c1''" BACKUP_TYPE_FULL pb bg sample_pgbackrest]
    by (auto simp: backup_world_def)
qed

section \<open>A run that cannot record its end\<close>

text \<open>
  The run of a backup whose first statement reads the row and whose second statement fails returns an error
  and leaves the backup as it was, running and without a time of its end, whether pgbackrest succeeded or not. The second
  statement fails whenever the thirty minutes of the run's context are over when pgbackrest ends, since it is
  executed with the same context. Nothing resumes such a backup.
\<close>

theorem overdue_backup_stays_running:
  assumes "backup_of (store w) i = Some b"
    and "fault (the_env w) (n_stmt w) = None" "fault (the_env w) (Suc (n_stmt w)) = Some e"
  shows "backup_of (store (after (ExecuteBackup p i) w)) i = Some b \<and> (\<exists>msg. result (ExecuteBackup p i) w = Inl msg)"
proof -
  define stuck where "stuck = (\<lambda>(r :: unit res) (w' :: world). store w' = store w \<and> (\<exists>msg. r = Inl msg))"
  let ?w1 = "w\<lparr>n_stmt := Suc (n_stmt w)\<rparr>"
  have gave_up: "wp (give_up (backups_FailBackup i) msg) stuck ?w1" for msg
    using assms(3) by (simp add: give_up_def backups_FailBackup_def backups_set_def wp_simps stuck_def)
  have completed: "wp (wrap_err q (backups_CompleteBackup i a c l z)) stuck ?w1" for q a c l z
    using assms(3) by (simp add: backups_CompleteBackup_def backups_set_def wp_simps stuck_def)
  have tool: "wp (pgbackrest_Backup p s ty [] []) (\<lambda>r. wp (case r of
       Inl e \<Rightarrow> give_up (backups_FailBackup i) (wrap ''backup execution'' e)
     | Inr out \<Rightarrow> wrap_err ''complete backup record'' (backups_CompleteBackup i ''wal_start'' ''wal_stop'' ''lsn'' (int (length out))))
       stuck) ?w1" for s ty
    unfolding pgbackrest_Backup_def by (rule wp_tool) (auto split: sum.splits intro: gave_up completed)
  have "wp (ExecuteBackup p i) stuck w"
    unfolding ExecuteBackup_def backups_GetBackup_def Let_def using assms(1,2)
    by (auto simp: wp_simps split: sum.splits intro!: wp_ensure_stanza tool gave_up)
  then show ?thesis
    using assms(1) by (simp add: wp_outcome stuck_def)
qed

definition overdue_world :: world where
  "overdue_world = (after (CreateBackup ''c1'' BACKUP_TYPE_FULL) backup_world)
     \<lparr>the_env := sample_env\<lparr>fault := (\<lambda>n. if n < 3 then None else Some ''context deadline exceeded'')\<rparr>\<rparr>"

theorem overdue_backup_stays_running_witness:
  "map_option Bak_Status (backup_of (store (after (ExecuteBackup sample_pgbackrest ''id-0'') overdue_world)) ''id-0'')
     = Some BackupStatusRunning"
proof -
  obtain b where b: "backup_of (store overdue_world) ''id-0'' = Some b" "Bak_Status b = BackupStatusRunning"
  proof -
    have "map_option Bak_Status (backup_of (store overdue_world) ''id-0'') = Some BackupStatusRunning" by code_simp
    then show thesis using that by auto
  qed
  have "n_stmt overdue_world = 2" by code_simp
  then have "fault (the_env overdue_world) (n_stmt overdue_world) = None"
    "fault (the_env overdue_world) (Suc (n_stmt overdue_world)) = Some ''context deadline exceeded''"
    by (simp_all add: overdue_world_def)
  from overdue_backup_stays_running [OF b(1) this] b(2) show ?thesis by simp
qed

section \<open>Schedules\<close>

text \<open>The operations on schedules, with everything the database may do: a transition system on both states.\<close>

inductive schedule_step :: "'c cron \<Rightarrow> world \<times> 'c Worker \<Rightarrow> world \<times> 'c Worker \<Rightarrow> bool" for C where
  step_create: "run_state (CreateSchedule C req k) w = ((r, k'), w') \<Longrightarrow> schedule_step C (w, k) (w', k')"
| step_update: "run_state (UpdateSchedule C ureq k) w = ((r, k'), w') \<Longrightarrow> schedule_step C (w, k) (w', k')"
| step_delete: "run_state (DeleteSchedule C i k) w = ((u, k'), w') \<Longrightarrow> schedule_step C (w, k) (w', k')"
| step_fire: "(n, job) \<in> set (cron_Entries C (Wk_cron k)) \<Longrightarrow> run_state (createScheduledBackup p job) w = (v, w')
    \<Longrightarrow> schedule_step C (w, k) (w', k)"

lemma wp_schedule_handlers:
  "wp (CreateSchedule C req k) (\<lambda>x _. snd x = k \<or> (\<exists>s. snd x = snd (ScheduleBackup C s k))) w"
  "wp (UpdateSchedule C ureq k) (\<lambda>x _. snd x = k \<or> (\<exists>s. snd x = snd (ScheduleBackup C s k))) w"
  "wp (DeleteSchedule C i k) (\<lambda>x _. snd x = UnscheduleBackup C i k) w"
  unfolding CreateSchedule_def UpdateSchedule_def DeleteSchedule_def Let_def wp_bind
  by (rule wp_mono [OF wp_True], auto simp: wp_simps split: sum.splits)+

lemmas schedule_handlers_worker = wp_schedule_handlers [THEN wp_run, of _ _ _ _ "(r, k')" for r k', simplified]

lemma worker_inv_step:
  assumes "cron_ok C" "schedule_step C s s'" "worker_inv C (snd s)"
  shows "worker_inv C (snd s')"
proof -
  have scheduled: "worker_inv C (snd (ScheduleBackup C x k))" if "worker_inv C k" for x k
    using ScheduleBackup_refines(1) [OF assms(1) that] by (metis prod.collapse)
  show ?thesis
    using assms(2,3)
    by (cases rule: schedule_step.cases)
      (auto dest!: schedule_handlers_worker intro: scheduled UnscheduleBackup_refines(1) [OF assms(1)])
qed

definition no_jobs :: "'c cron \<Rightarrow> 'c \<Rightarrow> 'c Worker" where
  "no_jobs C c = \<lparr>Wk_cron = c, Wk_jobs = Map.empty\<rparr>"

lemma worker_inv_reachable:
  assumes "cron_ok C" "cron_Entries C c = []" "(schedule_step C)\<^sup>*\<^sup>* (w, no_jobs C c) s"
  shows "worker_inv C (snd s)"
  using assms(3)
proof (induction rule: rtranclp_induct)
  case base
  then show ?case using assms(2) by (simp add: worker_inv_def no_jobs_def)
next
  case (step s s')
  then show ?case using worker_inv_step [OF assms(1)] by blast
qed

text \<open>
  C28: In every state the schedule operations lead to from a new worker, whatever fails on the way, a schedule has at most one job,
  and \<open>DeleteSchedule\<close> leaves it none, even when the row cannot be deleted.
\<close>

theorem schedules_have_one_job:
  assumes "cron_ok C" "cron_Entries C c = []" "(schedule_step C)\<^sup>*\<^sup>* (w0, no_jobs C c) (w, k)"
  shows "inj_on (Sch_ID \<circ> snd) (set (cron_Entries C (Wk_cron k))) \<and>
    active C (snd (result (DeleteSchedule C i k) w)) = without i (active C k)"
proof -
  have inv: "worker_inv C k"
    using worker_inv_reachable [OF assms] by simp
  then show ?thesis
    using one_job_per_schedule UnscheduleBackup_refines(2) [OF assms(1) inv] wp_schedule_handlers(3) [of C i k w]
    by (auto simp: wp_outcome)
qed

definition sample_cron :: "(int \<times> BackupSchedule) list cron" where
  "sample_cron = \<lparr>cron_AddFunc = (\<lambda>es spec job. if spec = [] then Inl ''empty spec string''
       else Inr (1 + fold max (map fst es) 0, (1 + fold max (map fst es) 0, job) # es)),
     cron_Remove = (\<lambda>es i. filter (\<lambda>e. fst e \<noteq> i) es), cron_Entries = (\<lambda>es. es)\<rparr>"

lemma fold_max_bound: "x \<in> set xs \<or> x \<le> m \<Longrightarrow> x \<le> fold max xs (m :: int)"
  by (induction xs arbitrary: m) (simp, fastforce simp: le_max_iff_disj)

lemma sample_cron_ok [simp]: "cron_ok sample_cron"
proof -
  have "(1 + fold max (map fst es) 0, job) \<notin> set es" for es :: "(int \<times> BackupSchedule) list" and job
    using fold_max_bound [of "1 + fold max (map fst es) 0" "map fst es" 0] by force
  then show ?thesis
    by (auto simp: cron_ok_def sample_cron_def split: if_splits)
qed

definition sample_schedule_request :: CreateScheduleRequest where
  "sample_schedule_request = \<lparr>CSch_ClusterId = ''c1'', CSch_Cron = ''0 0 3 * * *'', CSch_Type = BACKUP_TYPE_FULL,
     CSch_RetentionCount = 7, CSch_RetentionDays = 30, CSch_StorageConfigId = ''st1''\<rparr>"

definition scheduled_worker :: "(int \<times> BackupSchedule) list Worker" where
  "scheduled_worker = snd (result (CreateSchedule sample_cron sample_schedule_request (no_jobs sample_cron [])) backup_world)"

definition scheduled_world :: world where
  "scheduled_world = after (CreateSchedule sample_cron sample_schedule_request (no_jobs sample_cron [])) backup_world"

lemma scheduled_reachable:
  "(schedule_step sample_cron)\<^sup>*\<^sup>* (backup_world, no_jobs sample_cron []) (scheduled_world, scheduled_worker)"
  unfolding scheduled_world_def scheduled_worker_def result_def after_def
  by (rule r_into_rtranclp, rule step_create) (simp add: prod_eq_iff)

theorem schedules_have_one_job_witness:
  "map (Sch_ID \<circ> snd) (cron_Entries sample_cron (Wk_cron scheduled_worker)) = [''id-0''] \<and>
   active sample_cron (snd (result (DeleteSchedule sample_cron ''id-0'' scheduled_worker) scheduled_world)) = {}"
proof -
  have entries: "map (Sch_ID \<circ> snd) (cron_Entries sample_cron (Wk_cron scheduled_worker)) = [''id-0'']"
    by code_simp
  have "active sample_cron (snd (result (DeleteSchedule sample_cron ''id-0'' scheduled_worker) scheduled_world))
     = without ''id-0'' (active sample_cron scheduled_worker)"
    using schedules_have_one_job [OF sample_cron_ok _ scheduled_reachable, of "''id-0''"]
    by (simp add: sample_cron_def)
  with entries show ?thesis by (auto simp: without_def active_def)
qed

section \<open>Updated schedules\<close>

lemma wp_UpdateSchedule_jobs:
  assumes "cron_ok C" "worker_inv C k"
  shows "wp (UpdateSchedule C req k) (\<lambda>x _. fst x = Inr ps \<longrightarrow>
     (\<forall>job\<in>active C (snd x). Sch_ID job = USch_Id req \<longrightarrow> Sch_ClusterID job = [])) w"
proof -
  have "Sch_ClusterID job = []"
    if "job \<in> active C (snd (ScheduleBackup C s k))" "Sch_ID job = Sch_ID s" "Sch_ClusterID s = []" for s job
    using ScheduleBackup_refines(2) [OF assms, of s] that
    by (cases "ScheduleBackup C s k") (auto simp: without_def split: if_splits)
  then show ?thesis
    by (auto simp: UpdateSchedule_def backups_UpdateSchedule_def wp_simps Let_def split: option.splits sum.splits)
qed

lemma wp_createScheduledBackup_lost:
  assumes "List.find (\<lambda>c. Cluster_ID c = Sch_ClusterID job) (clusters (store w)) = None"
  shows "wp (createScheduledBackup p job) (\<lambda>r w'. store w' = store w \<and> (no_faults w \<longrightarrow> r = Inr ())) w"
  using assms by (auto simp: createScheduledBackup_def clusters_GetByID_def wp_simps fault_free_def split: option.splits)

text \<open>
  An updated schedule makes no more backups. \<open>UpdateSchedule\<close> hands the worker the value the repository
  answers with, which has no cluster; so in every state the schedule operations lead to, the job it leaves for
  the schedule, fired at any later time, finds no cluster, leaves every table as it is and reports no error.
\<close>

theorem updated_schedule_never_backs_up:
  assumes "cron_ok C" "cron_Entries C c = []" "(schedule_step C)\<^sup>*\<^sup>* (w0, no_jobs C c) (w, k)"
    and "fst (result (UpdateSchedule C req k) w) = Inr ps"
    and "job \<in> active C (snd (result (UpdateSchedule C req k) w))" "Sch_ID job = USch_Id req"
    and "no_faults w'" "[] \<notin> Cluster_ID ` set (clusters (store w'))"
  shows "result (createScheduledBackup p job) w' = Inr () \<and> store (after (createScheduledBackup p job) w') = store w'"
proof -
  have "worker_inv C k"
    using worker_inv_reachable [OF assms(1-3)] by simp
  then have "Sch_ClusterID job = []"
    using wp_UpdateSchedule_jobs [OF assms(1), of k req ps w] assms(4-6) by (simp add: wp_outcome)
  then have "List.find (\<lambda>c. Cluster_ID c = Sch_ClusterID job) (clusters (store w')) = None"
    using assms(8) by (auto simp: find_None_iff_mem image_iff)
  from wp_createScheduledBackup_lost [OF this, of p] assms(7) show ?thesis
    by (simp add: wp_outcome)
qed

definition sample_update_request :: UpdateScheduleRequest where
  "sample_update_request = \<lparr>USch_Id = ''id-0'', USch_Cron = ''0 0 4 * * *'', USch_Type = BACKUP_TYPE_FULL,
     USch_RetentionCount = 7, USch_RetentionDays = 30, USch_StorageConfigId = ''st1'', USch_Enabled = True\<rparr>"

text \<open>The same schedule makes a backup when it fires before the update, and none after it.\<close>

theorem updated_schedule_never_backs_up_witness:
  "length (backups (store (after (createScheduledBackup sample_pgbackrest (snd (hd (Wk_cron scheduled_worker)))) scheduled_world))) = 1 \<and>
   (\<exists>job. job \<in> active sample_cron (snd (result (UpdateSchedule sample_cron sample_update_request scheduled_worker) scheduled_world)) \<and>
      Sch_ID job = ''id-0'' \<and> backups (store (after (createScheduledBackup sample_pgbackrest job) scheduled_world)) = [])"
proof -
  let ?r = "result (UpdateSchedule sample_cron sample_update_request scheduled_worker) scheduled_world"
  have before: "length (backups (store (after (createScheduledBackup sample_pgbackrest (snd (hd (Wk_cron scheduled_worker))))
      scheduled_world))) = 1"
    by code_simp
  have "\<not> isl (fst ?r)" by code_simp
  then obtain ps where ps: "fst ?r = Inr ps" by (metis isl_def sum.exhaust)
  have jobs: "map (Sch_ID \<circ> snd) (Wk_cron (snd ?r)) = [''id-0'']" by code_simp
  then obtain job where job: "job \<in> active sample_cron (snd ?r)" "Sch_ID job = ''id-0''"
    by (auto simp: active_def sample_cron_def)
  have w: "map Cluster_ID (clusters (store scheduled_world)) = [''c1'']" "backups (store scheduled_world) = []"
    by code_simp+
  have nf: "no_faults scheduled_world"
    unfolding scheduled_world_def
    by (rule keeps_after [where I = "\<lambda>w. fault_free (the_env w)"]) (auto simp: CreateSchedule_def backup_cluster_def backup_world_def intro!: keeps_intros split: option.splits)
  have "[] \<notin> Cluster_ID ` set (clusters (store scheduled_world))"
    using w(1) by auto
  then have "store (after (createScheduledBackup sample_pgbackrest job) scheduled_world) = store scheduled_world"
    using updated_schedule_never_backs_up [OF sample_cron_ok _ scheduled_reachable ps job(1) _ nf] job(2)
    by (simp add: sample_cron_def sample_update_request_def)
  with before job w(2) show ?thesis by auto
qed

section \<open>Credentials of object stores\<close>

lemma wp_storage_insert:
  "wp (storage_insert c) (\<lambda>r w'. the_env w' = the_env w \<and> (r = Inr () \<longrightarrow> storage_of (store w') (Stor_ID c) = Some c)) w"
proof -
  have "storage_of (d\<lparr>storage_configs := storage_configs d @ [c]\<rparr>) (Stor_ID c) = Some c"
    if "Stor_ID c \<notin> Stor_ID ` set (storage_configs d)" for d
    unfolding storage_of_def using that by (auto simp: image_iff intro!: find_append_new)
  then show ?thesis by (auto simp: storage_insert_def wp_simps split: option.splits)
qed

definition holds_keys :: "SecretRepository \<Rightarrow> string \<Rightarrow> string \<Rightarrow> StorageConfig \<Rightarrow> bool" where
  "holds_keys r ak sk row \<longleftrightarrow> DecryptAES256GCM (repo_aead r) (Stor_AccessKeyID row) (encryptKey r) = Inr ak \<and>
     DecryptAES256GCM (repo_aead r) (Stor_SecretKey row) (encryptKey r) = Inr sk"

lemma wp_storage_Create:
  assumes "aead_ok (repo_aead r)" "nonces_ok w"
  shows "wp (storage_Create r name ty ep bu re ak sk ssl) (\<lambda>x w'. the_env w' = the_env w \<and> (\<forall>cfg. x = Inr cfg \<longrightarrow>
     (\<exists>row. storage_of (store w') (Stor_ID cfg) = Some row \<and> holds_keys r ak sk row))) w"
proof (cases "length (encryptKey r) \<in> {16, 24, 32}")
  case True
  then have dec: "DecryptAES256GCM (repo_aead r) (random_nonce (the_env w) n @ gcm_Seal (repo_aead r) (encryptKey r)
      (random_nonce (the_env w) n) p) (encryptKey r) = Inr p" for n p
    using assms by (simp add: DecryptAES256GCM_def aes_NewCipher_def nonces12_def aead_ok_def)
  have insert: "wp (storage_insert c) (\<lambda>x w'. case x of Inl e \<Rightarrow> the_env w' = the_env w
      | Inr _ \<Rightarrow> the_env w' = the_env w \<and> (\<exists>row. storage_of (store w') (Stor_ID c) = Some row \<and> holds_keys r ak sk row)) w1"
    if "the_env w1 = the_env w" "holds_keys r ak sk c" for c and w1 :: world
    by (rule wp_mono [OF wp_storage_insert]) (use that in \<open>auto split: sum.splits\<close>)
  show ?thesis
    using True unfolding storage_Create_def EncryptAES256GCM_def aes_NewCipher_def Let_def
    by (auto simp: wp_simps holds_keys_def dec intro!: wp_mono [OF insert] split: sum.splits)
next
  case False
  then show ?thesis
    by (auto simp: storage_Create_def EncryptAES256GCM_def aes_NewCipher_def wp_simps)
qed

text \<open>
  The credentials of an object store come back as they were given. After \<open>CreateStorageConfig\<close> has answered with a new
  configuration, \<open>GetDecryptedCredentials\<close> on its identifier gives the access key and the secret key of the
  request, when no statement fails.
\<close>

theorem storage_credentials_round_trip:
  assumes "aead_ok (repo_aead r)" "nonces_ok w" "no_faults w" "result (CreateStorageConfig r req) w = Inr cfg"
  shows "result (storage_GetDecryptedCredentials r (PSt_Id cfg)) (after (CreateStorageConfig r req) w)
    = Inr (CSt_AccessKey req, CSt_SecretKey req)"
proof -
  define stored where "stored = (\<lambda>i (w' :: world). the_env w' = the_env w \<and> (\<exists>row. storage_of (store w') i = Some row \<and>
        holds_keys r (CSt_AccessKey req) (CSt_SecretKey req) row))"
  have "wp (storage_Create r (CSt_Name req) (CSt_Type req) (CSt_Endpoint req) (CSt_Bucket req) (CSt_Region req)
      (CSt_AccessKey req) (CSt_SecretKey req) (CSt_UseTls req)) (\<lambda>x w'. \<forall>cfg. x = Inr cfg \<longrightarrow> stored (Stor_ID cfg) w') w1"
    if "the_env w1 = the_env w" for w1 :: world
    by (rule wp_mono [OF wp_storage_Create]) (use assms that in \<open>auto simp: stored_def\<close>)
  then have "wp (CreateStorageConfig r req) (\<lambda>x w'. \<forall>cfg. x = Inr cfg \<longrightarrow> stored (PSt_Id cfg) w') w"
    unfolding CreateStorageConfig_def storage_GetByName_def
    by (auto simp: wp_simps storageConfigToProto_def split: option.splits sum.splits intro!: wp_mono)
  then have "stored (PSt_Id cfg) (after (CreateStorageConfig r req) w)"
    using assms(4) by (simp add: wp_outcome)
  then have "wp (storage_GetDecryptedCredentials r (PSt_Id cfg)) (\<lambda>x _. x = Inr (CSt_AccessKey req, CSt_SecretKey req))
      (after (CreateStorageConfig r req) w)"
    using assms(3) by (auto simp: storage_GetDecryptedCredentials_def wp_simps stored_def holds_keys_def)
  then show ?thesis by (simp add: wp_outcome)
qed

definition sample_storage_request :: CreateStorageConfigRequest where
  "sample_storage_request = \<lparr>CSt_Name = ''main'', CSt_Type = ''s3'', CSt_Endpoint = ''s3.local:9000'', CSt_Bucket = ''backups'',
     CSt_Region = [], CSt_AccessKey = ''AKIA'', CSt_SecretKey = ''hunter2'', CSt_UseTls = True\<rparr>"

theorem storage_credentials_round_trip_witness:
  "map_sum id PSt_Name (result (CreateStorageConfig sample_repo sample_storage_request) backup_world) = Inr ''main'' \<and>
   result (storage_GetDecryptedCredentials sample_repo ''id-0'') (after (CreateStorageConfig sample_repo sample_storage_request) backup_world)
     = Inr (''AKIA'', ''hunter2'')"
proof -
  have answer: "map_sum id (\<lambda>c. (PSt_Id c, PSt_Name c)) (result (CreateStorageConfig sample_repo sample_storage_request) backup_world)
      = Inr (''id-0'', ''main'')"
    by code_simp
  then obtain cfg where cfg: "result (CreateStorageConfig sample_repo sample_storage_request) backup_world = Inr cfg"
      "PSt_Id cfg = ''id-0''" "PSt_Name cfg = ''main''"
    by (cases "result (CreateStorageConfig sample_repo sample_storage_request) backup_world") auto
  have "aead_ok (repo_aead sample_repo)" "nonces_ok backup_world" "no_faults backup_world"
    by (simp_all add: sample_repo_def backup_world_def)
  from storage_credentials_round_trip [OF this cfg(1)] cfg show ?thesis
    by (simp add: sample_storage_request_def)
qed

end
