(* ===== verification/AgentHost.thy ===== *)
theory AgentHost
  imports BackupEngine
begin

text \<open>
  The machine an agent runs on, as the code of \<open>internal/postgres\<close> and \<open>internal/agent\<close> uses it: files, programs
  that are run (\<open>pg_ctl\<close>, \<open>initdb\<close>, \<open>docker\<close>), and statements that are sent to the local PostgreSQL server over
  the driver \<open>pgx\<close>. Files are a map from paths to contents. Whether a file operation fails, what a program
  prints, whether it fails and what it does to the files, and how the server answers are functions in the
  environment that get the number of the call, so a theorem covers all of them. Programs and statements are
  recorded in \<open>events\<close>, oldest first: they are what the agent does to its surroundings.
\<close>

section \<open>State\<close>

record Process =
  Proc_Path :: string
  Proc_Args :: "string list"
  Proc_Env :: "string list"

record SqlConnection =
  Conn_Port :: int
  Conn_User :: string
  Conn_Password :: string
  Conn_Database :: string

datatype SqlCall = SqlConnect SqlConnection | SqlStatement SqlConnection string "string list"

datatype SqlValue = SqlBool bool | SqlText string

datatype event = Ran Process | Sent SqlCall

text \<open>A write that fails leaves the file as it was (\<open>None\<close>) or with some other content.\<close>

datatype fs_error = NotExist | FsError string

text \<open>An entry of a directory: \<open>Info()\<close> fails when there is no time.\<close>

record DirEntry =
  De_Name :: string
  De_IsDir :: bool
  De_ModTime :: "Time option"

record host_env =
  io_error :: "nat \<Rightarrow> string option"
  failed_write :: "nat \<Rightarrow> string option option"
  run_process :: "nat \<Rightarrow> Process \<Rightarrow> (string \<rightharpoonup> string) \<Rightarrow> (string \<times> string option) \<times> (string \<rightharpoonup> string)"
  sql_reply :: "nat \<Rightarrow> SqlCall \<Rightarrow> (string \<rightharpoonup> string) \<Rightarrow> (string + SqlValue) \<times> (string \<rightharpoonup> string)"
  look_path :: "nat \<Rightarrow> string \<Rightarrow> (string \<rightharpoonup> string) \<Rightarrow> string option"
  read_dir :: "nat \<Rightarrow> string \<Rightarrow> (string \<rightharpoonup> string) \<Rightarrow> fs_error + DirEntry list"
  removed :: "nat \<Rightarrow> string \<Rightarrow> bool"
  temp_name :: "nat \<Rightarrow> string"
  host_clock :: "nat \<Rightarrow> Time"
  host_euid :: int
  host_egid :: int
  host_user :: "string + string"
  host_os :: string
  pgx_Sanitize :: "string \<Rightarrow> string"
  unmarshal_error :: "payload \<Rightarrow> string"
  json_text :: "(string \<times> jval) list \<Rightarrow> string"

record host =
  files :: "string \<rightharpoonup> string"
  host_environment :: host_env
  n_call :: nat
  events :: "event list"

type_synonym 'a act = "(host, 'a) state"

definition tick :: "nat act" where
  "tick = do {
     h \<leftarrow> State_Monad.get;
     _ \<leftarrow> State_Monad.set (h\<lparr>n_call := Suc (n_call h)\<rparr>);
     State_Monad.return (n_call h)
   }"

lemma wp_tick [wp_simps]: "wp tick Q h = Q (n_call h) (h\<lparr>n_call := Suc (n_call h)\<rparr>)"
  by (simp add: tick_def wp_simps)

section \<open>Files\<close>

definition fs_error_text :: "string \<Rightarrow> fs_error \<Rightarrow> string" where
  "fs_error_text path e = (case e of
      NotExist \<Rightarrow> ''open '' @ path @ '': no such file or directory''
    | FsError msg \<Rightarrow> msg)"

definition os_ReadFile :: "string \<Rightarrow> (fs_error + string) act" where
  "os_ReadFile path = do {
     h \<leftarrow> State_Monad.get;
     n \<leftarrow> tick;
     State_Monad.return (case io_error (host_environment h) n of
        Some e \<Rightarrow> Inl (FsError e)
      | None \<Rightarrow> (case files h path of None \<Rightarrow> Inl NotExist | Some content \<Rightarrow> Inr content))
   }"

definition os_WriteFile :: "string \<Rightarrow> string \<Rightarrow> unit res act" where
  "os_WriteFile path content = do {
     n \<leftarrow> tick;
     h \<leftarrow> State_Monad.get;
     (case io_error (host_environment h) n of
        None \<Rightarrow> do {
          _ \<leftarrow> State_Monad.set (h\<lparr>files := (files h)(path \<mapsto> content)\<rparr>);
          State_Monad.return (Inr ())
        }
      | Some e \<Rightarrow> do {
          _ \<leftarrow> State_Monad.set (case failed_write (host_environment h) n of
                 None \<Rightarrow> h
               | Some left \<Rightarrow> h\<lparr>files := (files h)(path := left)\<rparr>);
          State_Monad.return (Inl e)
        })
   }"

definition os_Remove :: "string \<Rightarrow> (fs_error + unit) act" where
  "os_Remove path = do {
     n \<leftarrow> tick;
     h \<leftarrow> State_Monad.get;
     (case io_error (host_environment h) n of
        Some e \<Rightarrow> State_Monad.return (Inl (FsError e))
      | None \<Rightarrow> if files h path = None then State_Monad.return (Inl NotExist)
          else do {
            _ \<leftarrow> State_Monad.set (h\<lparr>files := (files h)(path := None)\<rparr>);
            State_Monad.return (Inr ())
          })
   }"

text \<open>Calls that only succeed or fail here: \<open>os.MkdirAll\<close> and the like; directories are not modelled.\<close>

definition os_try :: "unit res act" where
  "os_try = do {
     n \<leftarrow> tick;
     h \<leftarrow> State_Monad.get;
     State_Monad.return (case io_error (host_environment h) n of Some e \<Rightarrow> Inl e | None \<Rightarrow> Inr ())
   }"

text \<open>\<open>os.Stat\<close> of a regular file, as far as callers look at it.\<close>

definition os_Stat :: "string \<Rightarrow> (fs_error + unit) act" where
  "os_Stat path = do {
     r \<leftarrow> os_ReadFile path;
     State_Monad.return (map_sum id (\<lambda>_. ()) r)
   }"

lemma wp_os_ReadFile [wp_simps]:
  "wp (os_ReadFile path) Q h =
   Q (case io_error (host_environment h) (n_call h) of
        Some e \<Rightarrow> Inl (FsError e)
      | None \<Rightarrow> (case files h path of None \<Rightarrow> Inl NotExist | Some content \<Rightarrow> Inr content))
     (h\<lparr>n_call := Suc (n_call h)\<rparr>)"
  by (simp add: os_ReadFile_def wp_simps)

lemma wp_os_Stat [wp_simps]:
  "wp (os_Stat path) Q h =
   Q (case io_error (host_environment h) (n_call h) of
        Some e \<Rightarrow> Inl (FsError e)
      | None \<Rightarrow> (case files h path of None \<Rightarrow> Inl NotExist | Some content \<Rightarrow> Inr ()))
     (h\<lparr>n_call := Suc (n_call h)\<rparr>)"
  by (auto simp: os_Stat_def wp_simps split: option.splits)

lemma wp_os_WriteFile:
  "wp (os_WriteFile path content) Q h =
   (case io_error (host_environment h) (n_call h) of
      None \<Rightarrow> Q (Inr ()) (h\<lparr>n_call := Suc (n_call h), files := (files h)(path \<mapsto> content)\<rparr>)
    | Some e \<Rightarrow> Q (Inl e) (case failed_write (host_environment h) (n_call h) of
          None \<Rightarrow> h\<lparr>n_call := Suc (n_call h)\<rparr>
        | Some left \<Rightarrow> h\<lparr>n_call := Suc (n_call h), files := (files h)(path := left)\<rparr>))"
  by (auto simp: os_WriteFile_def wp_simps split: option.splits)

lemma wp_os_try [wp_simps]:
  "wp os_try Q h = Q (case io_error (host_environment h) (n_call h) of Some e \<Rightarrow> Inl e | None \<Rightarrow> Inr ())
     (h\<lparr>n_call := Suc (n_call h)\<rparr>)"
  by (simp add: os_try_def wp_simps)

lemma wp_os_Remove:
  "wp (os_Remove path) Q h =
   (case io_error (host_environment h) (n_call h) of
      Some e \<Rightarrow> Q (Inl (FsError e)) (h\<lparr>n_call := Suc (n_call h)\<rparr>)
    | None \<Rightarrow> if files h path = None then Q (Inl NotExist) (h\<lparr>n_call := Suc (n_call h)\<rparr>)
        else Q (Inr ()) (h\<lparr>n_call := Suc (n_call h), files := (files h)(path := None)\<rparr>))"
  by (auto simp: os_Remove_def wp_simps split: option.splits)

section \<open>Programs and statements\<close>

text \<open>\<open>runStreamingCmd\<close>: the output of the program and its error; the lines it prints are only logged.\<close>

definition runStreamingCmd :: "Process \<Rightarrow> (string \<times> string option) act" where
  "runStreamingCmd cmd = do {
     n \<leftarrow> tick;
     h \<leftarrow> State_Monad.get;
     let (answer, files') = run_process (host_environment h) n cmd (files h);
     _ \<leftarrow> State_Monad.set (h\<lparr>files := files', events := events h @ [Ran cmd]\<rparr>);
     State_Monad.return answer
   }"

definition sql_call :: "SqlCall \<Rightarrow> (string + SqlValue) act" where
  "sql_call c = do {
     n \<leftarrow> tick;
     h \<leftarrow> State_Monad.get;
     let (answer, files') = sql_reply (host_environment h) n c (files h);
     _ \<leftarrow> State_Monad.set (h\<lparr>files := files', events := events h @ [Sent c]\<rparr>);
     State_Monad.return answer
   }"

lemma wp_runStreamingCmd [wp_simps]:
  "wp (runStreamingCmd cmd) Q h =
   (let r = run_process (host_environment h) (n_call h) cmd (files h)
    in Q (fst r) (h\<lparr>n_call := Suc (n_call h), files := snd r, events := events h @ [Ran cmd]\<rparr>))"
  by (simp add: runStreamingCmd_def wp_simps Let_def case_prod_unfold)

lemma wp_sql_call [wp_simps]:
  "wp (sql_call c) Q h =
   (let r = sql_reply (host_environment h) (n_call h) c (files h)
    in Q (fst r) (h\<lparr>n_call := Suc (n_call h), files := snd r, events := events h @ [Sent c]\<rparr>))"
  by (simp add: sql_call_def wp_simps Let_def case_prod_unfold)

text \<open>\<open>QueryRow(...).Scan(&b)\<close> and \<open>Exec\<close>.\<close>

definition query_bool :: "SqlConnection \<Rightarrow> string \<Rightarrow> string list \<Rightarrow> bool res act" where
  "query_bool conn stmt args = try_do (sql_call (SqlStatement conn stmt args)) Inl (\<lambda>v.
     State_Monad.return (case v of SqlBool b \<Rightarrow> Inr b | SqlText _ \<Rightarrow> Inl ''cannot scan text into *bool''))"

definition query_text :: "SqlConnection \<Rightarrow> string \<Rightarrow> string list \<Rightarrow> string res act" where
  "query_text conn stmt args = try_do (sql_call (SqlStatement conn stmt args)) Inl (\<lambda>v.
     State_Monad.return (case v of SqlText s \<Rightarrow> Inr s | SqlBool _ \<Rightarrow> Inl ''cannot scan bool into *string''))"

definition conn_Exec :: "SqlConnection \<Rightarrow> string \<Rightarrow> string list \<Rightarrow> unit res act" where
  "conn_Exec conn stmt args = try_do (sql_call (SqlStatement conn stmt args)) Inl (\<lambda>_. State_Monad.return (Inr ()))"

definition host_now :: "Time act" where
  "host_now = do {
     n \<leftarrow> tick;
     h \<leftarrow> State_Monad.get;
     State_Monad.return (host_clock (host_environment h) n)
   }"

lemma wp_host_now [wp_simps]: "wp host_now Q h = Q (host_clock (host_environment h) (n_call h)) (h\<lparr>n_call := Suc (n_call h)\<rparr>)"
  by (simp add: host_now_def wp_simps)

text \<open>\<open>exec.LookPath\<close> and \<open>os.ReadDir\<close>.\<close>

definition exec_LookPath :: "string \<Rightarrow> string option act" where
  "exec_LookPath name = do {
     n \<leftarrow> tick;
     h \<leftarrow> State_Monad.get;
     State_Monad.return (look_path (host_environment h) n name (files h))
   }"

definition os_ReadDir :: "string \<Rightarrow> (fs_error + DirEntry list) act" where
  "os_ReadDir path = do {
     n \<leftarrow> tick;
     h \<leftarrow> State_Monad.get;
     State_Monad.return (read_dir (host_environment h) n path (files h))
   }"

lemma wp_exec_LookPath [wp_simps]:
  "wp (exec_LookPath name) Q h = Q (look_path (host_environment h) (n_call h) name (files h)) (h\<lparr>n_call := Suc (n_call h)\<rparr>)"
  by (simp add: exec_LookPath_def wp_simps)

lemma wp_os_ReadDir [wp_simps]:
  "wp (os_ReadDir path) Q h = Q (read_dir (host_environment h) (n_call h) path (files h)) (h\<lparr>n_call := Suc (n_call h)\<rparr>)"
  by (simp add: os_ReadDir_def wp_simps)

section \<open>Paths and texts\<close>

text \<open>\<open>strings.Split(s, sep)\<close> for a separator of one character.\<close>

fun strings_Split :: "string \<Rightarrow> char \<Rightarrow> string list" where
  "strings_Split [] c = [[]]"
| "strings_Split (x # xs) c = (if x = c then [] # strings_Split xs c
     else (case strings_Split xs c of [] \<Rightarrow> [[x]] | p # ps \<Rightarrow> (x # p) # ps))"

definition strings_Contains :: "string \<Rightarrow> string \<Rightarrow> bool" where
  "strings_Contains s sub \<longleftrightarrow> strings_Index s sub \<noteq> None"

text \<open>\<open>filepath.Clean\<close> on the parts of a path, \<open>acc\<close> the cleaned parts in reverse.\<close>

fun clean_parts :: "bool \<Rightarrow> string list \<Rightarrow> string list \<Rightarrow> string list" where
  "clean_parts rooted acc [] = rev acc"
| "clean_parts rooted acc (p # ps) =
     (if p = [] \<or> p = ''.'' then clean_parts rooted acc ps
      else if p = ''..'' then (case acc of
          [] \<Rightarrow> clean_parts rooted (if rooted then [] else [''..'']) ps
        | a # as \<Rightarrow> if a = ''..'' then clean_parts rooted (''..'' # acc) ps else clean_parts rooted as ps)
      else clean_parts rooted (p # acc) ps)"

definition filepath_Clean :: "string \<Rightarrow> string" where
  "filepath_Clean path = (
     let rooted = strings_HasPrefix path ''/''; parts = clean_parts rooted [] (strings_Split path (CHR ''/''))
     in if rooted then ''/'' @ join ''/'' parts else if parts = [] then ''.'' else join ''/'' parts)"

definition filepath_Join :: "string \<Rightarrow> string \<Rightarrow> string" where
  "filepath_Join a b =
     (if a = [] then (if b = [] then [] else filepath_Clean b)
      else if b = [] then filepath_Clean a else filepath_Clean (a @ ''/'' @ b))"

definition filepath_Dir :: "string \<Rightarrow> string" where
  "filepath_Dir path = filepath_Clean (rev (dropWhile (\<lambda>c. c \<noteq> CHR ''/'') (rev path)))"

text \<open>
  \<open>os.RemoveAll\<close>: the file and everything below it; after an error some of the files may be gone. It refuses a
  path that ends in a dot. \<open>os.CreateTemp\<close> makes an empty file with a name that the system chooses.
\<close>

definition below :: "string \<Rightarrow> string \<Rightarrow> bool" where
  "below dir path \<longleftrightarrow> (let d = filepath_Clean dir in path = d \<or> strings_HasPrefix path (if d = ''/'' then d else d @ ''/''))"

definition ends_with_dot :: "string \<Rightarrow> bool" where
  "ends_with_dot path \<longleftrightarrow> path = ''.'' \<or> strings_HasPrefix (rev path) ''./''"

definition os_RemoveAll :: "string \<Rightarrow> unit res act" where
  "os_RemoveAll path = do {
     n \<leftarrow> tick;
     h \<leftarrow> State_Monad.get;
     if path = [] then State_Monad.return (Inr ())
     else if ends_with_dot path then State_Monad.return (Inl (''RemoveAll '' @ path @ '': invalid argument''))
     else (case io_error (host_environment h) n of
         None \<Rightarrow> do {
           _ \<leftarrow> State_Monad.set (h\<lparr>files := (\<lambda>f. if below path f then None else files h f)\<rparr>);
           State_Monad.return (Inr ())
         }
       | Some e \<Rightarrow> do {
           _ \<leftarrow> State_Monad.set (h\<lparr>files := (\<lambda>f. if below path f \<and> removed (host_environment h) n f then None else files h f)\<rparr>);
           State_Monad.return (Inl e)
         })
   }"

definition os_CreateTemp :: "string res act" where
  "os_CreateTemp = do {
     n \<leftarrow> tick;
     h \<leftarrow> State_Monad.get;
     (case io_error (host_environment h) n of
        Some e \<Rightarrow> State_Monad.return (Inl e)
      | None \<Rightarrow> do {
          let name = temp_name (host_environment h) n;
          _ \<leftarrow> State_Monad.set (h\<lparr>files := (files h)(name \<mapsto> [])\<rparr>);
          State_Monad.return (Inr name)
        })
   }"

text \<open>The verb \<open>%-ns\<close>, \<open>strings.TrimLeft(s, "\n")\<close> and \<open>strings.ReplaceAll(s, "'", "''")\<close>.\<close>

definition pad_right :: "nat \<Rightarrow> string \<Rightarrow> string" where
  "pad_right n s = s @ replicate (n - length s) (CHR '' '')"

definition newline :: string where
  "newline = [CHR 0x0A]"

definition trim_left_newlines :: "string \<Rightarrow> string" where
  "trim_left_newlines s = dropWhile (\<lambda>c. c = CHR 0x0A) s"

definition double_quotes :: "string \<Rightarrow> string" where
  "double_quotes s = concat (map (\<lambda>c. if c = CHR 0x27 then [c, c] else [c]) s)"

text \<open>Where \<open>strings.Index\<close> finds a text: the first position at which it stands.\<close>

lemma strings_Index_append: "strings_Index (sub @ s) sub = Some 0"
  by (cases sub; cases s) auto

lemma strings_Index_skip:
  assumes "\<And>j. j < length p \<Longrightarrow> take (length sub) (drop j (p @ s)) \<noteq> sub"
  shows "strings_Index (p @ s) sub = map_option (\<lambda>i. length p + i) (strings_Index s sub)"
  using assms
proof (induction p)
  case Nil
  then show ?case by (simp add: option.map_ident)
next
  case (Cons c p)
  have "strings_Index (p @ s) sub = map_option (\<lambda>i. length p + i) (strings_Index s sub)"
    by (rule Cons.IH) (use Cons.prems [of "Suc _"] in auto)
  moreover have "take (length sub) (c # p @ s) \<noteq> sub"
    using Cons.prems [of 0] by simp
  ultimately show ?case by (simp add: option.map_comp comp_def)
qed

end
