(* ===== verification/PgInstance.thy ===== *)
theory PgInstance
  imports AgentHost
begin

text \<open>
  The PostgreSQL instance an agent controls: the fields of \<open>postgres.Instance\<close>, the command lines it builds for
  the server's programs (in a container when one is used) and the questions it asks, from
  \<open>internal/postgres/postgres.go\<close>.
\<close>

record DockerRuntime =
  Dock_Image :: string
  Dock_ContainerName :: string
  Dock_ComposeFile :: string
  Dock_ServiceName :: string

record Instance =
  Inst_DataDir :: string
  Inst_BinDir :: string
  Inst_Version :: string
  Inst_Port :: int
  Inst_Superuser :: string
  Inst_SuperuserPassword :: string
  Inst_ReplUser :: string
  Inst_ReplPass :: string
  Inst_Docker :: "DockerRuntime option"

definition postgres_New :: "string \<Rightarrow> string \<Rightarrow> string \<Rightarrow> int \<Rightarrow> string \<Rightarrow> string \<Rightarrow> string \<Rightarrow> Instance" where
  "postgres_New dataDir binDir version port superuser replUser replPass = \<lparr>Inst_DataDir = dataDir, Inst_BinDir = binDir,
     Inst_Version = version, Inst_Port = port, Inst_Superuser = superuser, Inst_SuperuserPassword = replPass,
     Inst_ReplUser = replUser, Inst_ReplPass = replPass, Inst_Docker = None\<rparr>"

definition SetSuperuserCredentials :: "string \<Rightarrow> string \<Rightarrow> Instance \<Rightarrow> Instance" where
  "SetSuperuserCredentials username password p = p\<lparr>Inst_Superuser := username, Inst_SuperuserPassword := password\<rparr>"

definition UseDocker :: "string \<Rightarrow> string \<Rightarrow> string \<Rightarrow> string \<Rightarrow> Instance \<Rightarrow> Instance" where
  "UseDocker img containerName composeFile serviceName p = p\<lparr>Inst_Docker :=
     Some \<lparr>Dock_Image = img, Dock_ContainerName = containerName, Dock_ComposeFile = composeFile, Dock_ServiceName = serviceName\<rparr>\<rparr>"

definition UseNative :: "string \<Rightarrow> string \<Rightarrow> Instance \<Rightarrow> Instance" where
  "UseNative binDir version p = p\<lparr>Inst_BinDir := binDir, Inst_Version := version, Inst_Docker := None\<rparr>"

definition docker_of :: "Instance \<Rightarrow> DockerRuntime option" where
  "docker_of p = (case Inst_Docker p of
      None \<Rightarrow> None
    | Some d \<Rightarrow> if Dock_ContainerName d \<noteq> [] \<and> Dock_Image d \<noteq> [] then Some d else None)"

section \<open>Command lines\<close>

definition docker_cmd :: "string list \<Rightarrow> Process" where
  "docker_cmd args = \<lparr>Proc_Path = ''docker'', Proc_Args = args, Proc_Env = []\<rparr>"

definition pgCmdWithPassword :: "Instance \<Rightarrow> string \<Rightarrow> string \<Rightarrow> string list \<Rightarrow> Process" where
  "pgCmdWithPassword p password binary args = (case docker_of p of
      None \<Rightarrow> \<lparr>Proc_Path = filepath_Join (Inst_BinDir p) binary, Proc_Args = args,
               Proc_Env = (if password \<noteq> [] then [''PGPASSWORD='' @ password] else [])\<rparr>
    | Some d \<Rightarrow> docker_cmd ([''exec'', ''-u'', ''postgres'', ''-e'', ''PGDATA=/var/lib/postgresql/data'']
        @ (if password \<noteq> [] then [''-e'', ''PGPASSWORD='' @ password] else []) @ [Dock_ContainerName d, binary] @ args))"

definition pgCmd :: "Instance \<Rightarrow> string \<Rightarrow> string list \<Rightarrow> Process" where
  "pgCmd p binary args = pgCmdWithPassword p (Inst_SuperuserPassword p) binary args"

definition pgDataDir :: "Instance \<Rightarrow> string" where
  "pgDataDir p = (if docker_of p \<noteq> None then ''/var/lib/postgresql/data'' else Inst_DataDir p)"

definition dockerCompose :: "DockerRuntime \<Rightarrow> string list \<Rightarrow> Process" where
  "dockerCompose d args = docker_cmd ([''compose'', ''-f'', Dock_ComposeFile d] @ args)"

definition psql_args :: "Instance \<Rightarrow> string list" where
  "psql_args p = [''-h'', ''127.0.0.1'', ''-p'', dec (Inst_Port p), ''-U'', Inst_Superuser p]"

text \<open>A program whose failure is the only thing that matters: \<open>fmt.Errorf("what: %w\n%s", err, output)\<close>.\<close>

definition must_run :: "string \<Rightarrow> Process \<Rightarrow> string res act" where
  "must_run what cmd = do {
     r \<leftarrow> runStreamingCmd cmd;
     State_Monad.return (case r of
        (output, None) \<Rightarrow> Inr output
      | (output, Some e) \<Rightarrow> Inl (what @ '': '' @ e @ newline @ output))
   }"

lemma wp_must_run [wp_simps]:
  "wp (must_run what cmd) Q h =
   (let r = run_process (host_environment h) (n_call h) cmd (files h)
    in Q (case fst r of (output, None) \<Rightarrow> Inr output | (output, Some e) \<Rightarrow> Inl (what @ '': '' @ e @ newline @ output))
         (h\<lparr>n_call := Suc (n_call h), files := snd r, events := events h @ [Ran cmd]\<rparr>))"
  by (simp add: must_run_def wp_simps Let_def)

section \<open>Questions\<close>

definition data_path :: "Instance \<Rightarrow> string \<Rightarrow> string" where
  "data_path p name = filepath_Join (Inst_DataDir p) name"

definition IsInitialized :: "Instance \<Rightarrow> bool act" where
  "IsInitialized p = do {
     r \<leftarrow> os_Stat (data_path p ''PG_VERSION'');
     (case r of
        Inr _ \<Rightarrow> State_Monad.return True
      | Inl _ \<Rightarrow> (case docker_of p of
          None \<Rightarrow> State_Monad.return False
        | Some d \<Rightarrow> do {
            a \<leftarrow> runStreamingCmd (docker_cmd [''exec'', Dock_ContainerName d, ''test'', ''-f'', filepath_Join (pgDataDir p) ''PG_VERSION'']);
            State_Monad.return (snd a = None)
          }))
   }"

definition IsRunning :: "Instance \<Rightarrow> bool act" where
  "IsRunning p = (case docker_of p of
      Some d \<Rightarrow> do {
        composed \<leftarrow> (if Dock_ComposeFile d \<noteq> [] then do {
            a \<leftarrow> runStreamingCmd (dockerCompose d [''ps'', ''--status'', ''running'', ''--format'', ''json'']);
            State_Monad.return (snd a = None \<and> fst a \<noteq> [] \<and> fst a \<noteq> ''[]'' \<and> fst a \<noteq> ''null'')
          } else State_Monad.return False);
        if composed then State_Monad.return True
        else do {
          a \<leftarrow> runStreamingCmd (docker_cmd [''inspect'', ''-f'', ''{{.State.Running}}'', Dock_ContainerName d]);
          State_Monad.return (snd a = None \<and> TrimSpace (fst a) = ''true'')
        }
      }
    | None \<Rightarrow> do {
        r \<leftarrow> os_ReadFile (data_path p ''postmaster.pid'');
        (case r of
           Inl _ \<Rightarrow> State_Monad.return False
         | Inr content \<Rightarrow> do {
             s \<leftarrow> os_Stat (''/proc/'' @ TrimSpace (hd (strings_Split content (CHR 0x0A))));
             State_Monad.return (\<not> isl s)
           })
      })"

definition Reload :: "Instance \<Rightarrow> unit res act" where
  "Reload p = try_do (must_run ''pg_ctl reload failed'' (pgCmd p ''pg_ctl'' [''reload'', ''-D'', pgDataDir p])) Inl (\<lambda>_.
     State_Monad.return (Inr ()))"

end
