(* ===== verification/PgHba.thy ===== *)
theory PgHba
  imports PgInstance
begin

text \<open>
  \<open>internal/postgres/hba.go\<close>: the rules of network access. The agent renders them into a file of its own,
  includes that file from a managed block at the beginning of \<open>pg_hba.conf\<close>, followed by rules that reject
  everything else, and puts both files back when PostgreSQL does not reload.
\<close>

section \<open>Rendering\<close>

definition skylexHBAFileName :: string where
  "skylexHBAFileName = ''skylex.pg_hba.conf''"

definition skylexHBABegin :: string where
  "skylexHBABegin = ''# BEGIN SKYLEX MANAGED HBA''"

definition skylexHBAEnd :: string where
  "skylexHBAEnd = ''# END SKYLEX MANAGED HBA''"

record HBAPolicy =
  Pol_AdminCIDRs :: "string list"
  Pol_ReplicationCIDRs :: "string list"
  Pol_ApplicationCIDRs :: "string list"
  Pol_AdminRoles :: "string list"
  Pol_ApplicationRoles :: "string list"
  Pol_ApplicationDBs :: "string list"

text \<open>The trimmed values that are not empty, each once, in the order of \<open>sort.Strings\<close>.\<close>

fun first_occurrences :: "string list \<Rightarrow> string list \<Rightarrow> string list" where
  "first_occurrences out [] = out"
| "first_occurrences out (value # values) = (
     let v = TrimSpace value
     in if v = [] \<or> v \<in> set out then first_occurrences out values else first_occurrences (out @ [v]) values)"

definition canonicalStrings :: "string list \<Rightarrow> string list" where
  "canonicalStrings values = sort (first_occurrences [] values)"

definition hbaField :: "string \<Rightarrow> string" where
  "hbaField v = (if v = [] then ''all'' else v)"

definition hbaList :: "string list \<Rightarrow> string" where
  "hbaList values = join '','' (canonicalStrings values)"

definition gap :: "nat \<Rightarrow> string" where
  "gap n = replicate n (CHR '' '')"

definition hba_line :: "string \<Rightarrow> string \<Rightarrow> string \<Rightarrow> string" where
  "hba_line database role cidr = ''host'' @ gap 4 @ database @ gap 13 @ role @ gap 13 @ pad_right 22 cidr @ '' scram-sha-256'' @ newline"

definition RenderHBAPolicy :: "HBAPolicy \<Rightarrow> string \<Rightarrow> string \<Rightarrow> string" where
  "RenderHBAPolicy policy superuser replUser = (
     let admin = canonicalStrings (Pol_AdminCIDRs policy);
         replication = canonicalStrings (Pol_ReplicationCIDRs policy);
         application = canonicalStrings (Pol_ApplicationCIDRs policy);
         adminRoles = hbaField superuser # canonicalStrings (Pol_AdminRoles policy);
         applicationRoles = hbaList (Pol_ApplicationRoles policy);
         applicationDBs = hbaList (Pol_ApplicationDBs policy)
     in ''# Managed by Skylex. Do not edit manually.'' @ newline
        @ ''# Local administrative access for the PostgreSQL service account.'' @ newline
        @ ''local   all             all                                     scram-sha-256'' @ newline
        @ ''host    all             '' @ hbaField superuser @ ''             127.0.0.1/32            scram-sha-256'' @ newline
        @ ''host    all             '' @ hbaField superuser @ ''             ::1/128                 scram-sha-256'' @ newline
        @ concat (map (\<lambda>cidr. concat (map (\<lambda>role. ''host    all             '' @ role @ gap 13 @ pad_right 22 cidr
             @ '' scram-sha-256'' @ newline) adminRoles)) admin)
        @ concat (map (\<lambda>cidr. ''host    replication     '' @ hbaField replUser @ gap 13 @ pad_right 22 cidr
             @ '' scram-sha-256'' @ newline) replication)
        @ (if applicationRoles \<noteq> [] \<and> applicationDBs \<noteq> []
           then concat (map (hba_line applicationDBs applicationRoles) application) else []))"

section \<open>The managed block\<close>

definition managed_lines :: "string \<Rightarrow> string list" where
  "managed_lines superuser =
     [''local   all             '' @ pad_right 39 (hbaField superuser) @ '' scram-sha-256'',
      ''host    all             '' @ pad_right 16 (hbaField superuser) @ '' 127.0.0.1/32            scram-sha-256'',
      ''host    all             '' @ pad_right 16 (hbaField superuser) @ '' ::1/128                 scram-sha-256'',
      ''include_if_exists '' @ skylexHBAFileName,
      ''host    all             all             0.0.0.0/0               reject'',
      ''host    all             all             ::/0                    reject'',
      ''host    replication     all             0.0.0.0/0               reject'',
      ''host    replication     all             ::/0                    reject'']"

definition managed_block :: "string \<Rightarrow> string" where
  "managed_block superuser = join newline (skylexHBABegin # managed_lines superuser @ [skylexHBAEnd, []])"

definition removeManagedHBAPrefix :: "string \<Rightarrow> string" where
  "removeManagedHBAPrefix content = (case strings_Index content skylexHBABegin of
      None \<Rightarrow> content
    | Some begin \<Rightarrow> (case strings_Index (drop begin content) skylexHBAEnd of
        None \<Rightarrow> content
      | Some off \<Rightarrow>
          let end = off + begin + length skylexHBAEnd;
              end' = (if end < length content \<and> content ! end = CHR 0x0A then end + 1 else end)
          in take begin content @ drop end' content))"

definition withManagedHBAPrefix :: "string \<Rightarrow> string \<Rightarrow> string" where
  "withManagedHBAPrefix content superuser =
     managed_block superuser @ trim_left_newlines (removeManagedHBAPrefix content)"

section \<open>Applying\<close>

definition restoreHBAInclude :: "string \<Rightarrow> string option \<Rightarrow> unit act" where
  "restoreHBAInclude path previous = (case previous of
      Some content \<Rightarrow> do { _ \<leftarrow> os_WriteFile path content; State_Monad.return () }
    | None \<Rightarrow> do { _ \<leftarrow> os_Remove path; State_Monad.return () })"

text \<open>A file that does not exist is \<open>None\<close>; another error of reading ends the operation.\<close>

definition read_previous :: "string \<Rightarrow> string \<Rightarrow> string option res act" where
  "read_previous what path = do {
     r \<leftarrow> os_ReadFile path;
     State_Monad.return (case r of
        Inr content \<Rightarrow> Inr (Some content)
      | Inl NotExist \<Rightarrow> Inr None
      | Inl (FsError e) \<Rightarrow> Inl (wrap what e))
   }"

text \<open>Writing the two files and reloading; what follows a failure puts the old contents back, ignoring errors.\<close>

definition write_hba :: "Instance \<Rightarrow> string \<Rightarrow> string \<Rightarrow> string option \<Rightarrow> string \<Rightarrow> string \<Rightarrow> string \<Rightarrow> unit res act" where
  "write_hba p includePath next previousInclude mainPath nextMain previousMain =
     try_do (os_WriteFile includePath next) (\<lambda>e. Inl (wrap ''write hba include'' e)) (\<lambda>_. do {
       w \<leftarrow> os_WriteFile mainPath nextMain;
       (case w of
          Inl e \<Rightarrow> do {
            _ \<leftarrow> restoreHBAInclude includePath previousInclude;
            State_Monad.return (Inl (wrap ''write pg_hba.conf managed prefix'' e))
          }
        | Inr _ \<Rightarrow> do {
            r \<leftarrow> Reload p;
            (case r of
               Inr _ \<Rightarrow> State_Monad.return (Inr ())
             | Inl e \<Rightarrow> do {
                 _ \<leftarrow> restoreHBAInclude includePath previousInclude;
                 _ \<leftarrow> os_WriteFile mainPath previousMain;
                 State_Monad.return (Inl (wrap ''reload after hba apply failed; previous HBA configuration restored'' e))
               })
          })
     })"

definition instance_ApplyHBA :: "Instance \<Rightarrow> HBAPolicy \<Rightarrow> unit res act" where
  "instance_ApplyHBA p policy = do {
     init \<leftarrow> IsInitialized p;
     if \<not> init then State_Monad.return (Inl ''data directory is not initialized'')
     else do {
       let includePath = data_path p skylexHBAFileName;
       let mainPath = data_path p ''pg_hba.conf'';
       try_do (read_previous ''read previous hba include'' includePath) Inl (\<lambda>previousInclude.
       try_do (os_ReadFile mainPath) (\<lambda>e. Inl (wrap ''read pg_hba.conf'' (fs_error_text mainPath e))) (\<lambda>previousMain.
       let next = RenderHBAPolicy policy (Inst_Superuser p) (Inst_ReplUser p);
           nextMain = withManagedHBAPrefix previousMain (Inst_Superuser p)
       in if previousInclude = Some next \<and> previousMain = nextMain then State_Monad.return (Inr ())
          else write_hba p includePath next previousInclude mainPath nextMain previousMain))
     }
   }"

definition ensureManagedHBAPrefixCurrent :: "Instance \<Rightarrow> bool res act" where
  "ensureManagedHBAPrefixCurrent p = do {
     let mainPath = data_path p ''pg_hba.conf'';
     r \<leftarrow> os_ReadFile mainPath;
     (case r of
        Inl NotExist \<Rightarrow> State_Monad.return (Inr False)
      | Inl (FsError e) \<Rightarrow> State_Monad.return (Inl (wrap ''read pg_hba.conf'' e))
      | Inr previousMain \<Rightarrow>
          if \<not> strings_Contains previousMain skylexHBABegin then State_Monad.return (Inr False)
          else let nextMain = withManagedHBAPrefix previousMain (Inst_Superuser p)
            in if previousMain = nextMain then State_Monad.return (Inr False)
               else try_do (os_WriteFile mainPath nextMain) (\<lambda>e. Inl (wrap ''write pg_hba.conf managed prefix'' e)) (\<lambda>_.
                    State_Monad.return (Inr True)))
   }"

definition refreshManagedHBAPrefix :: "Instance \<Rightarrow> bool \<Rightarrow> unit res act" where
  "refreshManagedHBAPrefix p reload =
     try_do (ensureManagedHBAPrefixCurrent p) Inl (\<lambda>changed.
     if \<not> changed \<or> \<not> reload then State_Monad.return (Inr ())
     else try_do (Reload p) (\<lambda>e. Inl (wrap ''reload after managed hba prefix refresh'' e)) (\<lambda>_. State_Monad.return (Inr ())))"

end
