(* ===== verification/HbaSafety.thy ===== *)
theory HbaSafety
  imports PgHba
begin

text \<open>
  What \<open>ApplyHBA\<close> promises: the rendered rules depend on the sets of networks, roles and databases only, the
  managed block is replaced and never repeated, and a failure leaves every file as it was.
\<close>

section \<open>Files of the data directory\<close>

text \<open>Two plain names in a directory are two paths.\<close>

definition plain_name :: "string \<Rightarrow> bool" where
  "plain_name x \<longleftrightarrow> CHR ''/'' \<notin> set x \<and> x \<noteq> [] \<and> x \<noteq> ''.'' \<and> x \<noteq> ''..''"

lemma Split_not_Nil [simp]: "strings_Split s c \<noteq> []"
  by (induction s) (auto split: list.splits)

lemma Split_plain: "c \<notin> set x \<Longrightarrow> strings_Split x c = [x]"
  by (induction x) auto

lemma Split_append: "strings_Split (d @ c # x) c = strings_Split d c @ strings_Split x c"
  by (induction d) (auto split: list.splits)

lemma clean_parts_plain: "plain_name x \<Longrightarrow> clean_parts rooted acc (ps @ [x]) = clean_parts rooted acc ps @ [x]"
  by (induction rooted acc ps rule: clean_parts.induct) (auto simp: plain_name_def split: list.splits)

lemma join_snoc: "join sep (ps @ [x]) = concat (map (\<lambda>p. p @ sep) ps) @ x"
proof (induction ps)
  case (Cons p ps)
  then show ?case by (cases "ps @ [x]") simp_all
qed simp

lemma filepath_Join_plain: "\<exists>pre. \<forall>x. plain_name x \<longrightarrow> filepath_Join d x = pre @ x"
proof (cases "d = []")
  case True
  have "filepath_Join d x = [] @ x" if "plain_name x" for x
    using that True Split_plain [of "CHR ''/''" x]
    by (auto simp: filepath_Join_def filepath_Clean_def strings_HasPrefix_def plain_name_def Let_def take_Suc_conv_app_nth
        split: list.splits) (cases x; auto)
  then show ?thesis by blast
next
  case False
  let ?rooted = "strings_HasPrefix (d @ ''/'') ''/''"
  let ?pre = "concat (map (\<lambda>p. p @ ''/'') (clean_parts ?rooted [] (strings_Split d (CHR ''/''))))"
  have "filepath_Join d x = (if ?rooted then ''/'' @ ?pre else ?pre) @ x" if "plain_name x" for x
  proof -
    have "strings_HasPrefix (d @ ''/'' @ x) ''/'' = ?rooted"
      using False by (cases d) (auto simp: strings_HasPrefix_def)
    moreover have "clean_parts r [] (strings_Split (d @ ''/'' @ x) (CHR ''/'')) = clean_parts r [] (strings_Split d (CHR ''/'')) @ [x]" for r
      using that Split_append [of d "CHR ''/''" x] by (simp add: Split_plain plain_name_def clean_parts_plain)
    ultimately show ?thesis
      using that False by (simp add: filepath_Join_def filepath_Clean_def Let_def join_snoc plain_name_def)
  qed
  then show ?thesis by blast
qed

lemma data_path_eq: "plain_name x \<Longrightarrow> plain_name y \<Longrightarrow> data_path p x = data_path p y \<longleftrightarrow> x = y"
  using filepath_Join_plain [of "Inst_DataDir p"] unfolding data_path_def by (metis same_append_eq)

section \<open>Rendering is canonical\<close>

definition names :: "string list \<Rightarrow> string set" where
  "names xs = {TrimSpace x | x. x \<in> set xs \<and> TrimSpace x \<noteq> []}"

lemma first_occurrences_set: "set (first_occurrences out xs) = set out \<union> names xs"
  by (induction xs arbitrary: out) (auto simp: names_def Let_def)

lemma first_occurrences_distinct: "distinct out \<Longrightarrow> distinct (first_occurrences out xs)"
  by (induction xs arbitrary: out) (auto simp: Let_def)

lemma canonicalStrings_facts:
  "set (canonicalStrings xs) = names xs" "distinct (canonicalStrings xs)" "sorted (canonicalStrings xs)"
  by (simp_all add: canonicalStrings_def first_occurrences_set first_occurrences_distinct)

lemma canonicalStrings_cong: "names xs = names ys \<Longrightarrow> canonicalStrings xs = canonicalStrings ys"
  by (metis canonicalStrings_facts sorted_distinct_set_unique)

definition same_policy :: "HBAPolicy \<Rightarrow> HBAPolicy \<Rightarrow> bool" where
  "same_policy a b \<longleftrightarrow> names (Pol_AdminCIDRs a) = names (Pol_AdminCIDRs b) \<and>
     names (Pol_ReplicationCIDRs a) = names (Pol_ReplicationCIDRs b) \<and>
     names (Pol_ApplicationCIDRs a) = names (Pol_ApplicationCIDRs b) \<and>
     names (Pol_AdminRoles a) = names (Pol_AdminRoles b) \<and>
     names (Pol_ApplicationRoles a) = names (Pol_ApplicationRoles b) \<and>
     names (Pol_ApplicationDBs a) = names (Pol_ApplicationDBs b)"

lemma Render_same_policy:
  assumes "same_policy a b"
  shows "RenderHBAPolicy a su repl = RenderHBAPolicy b su repl"
proof -
  note same = assms [unfolded same_policy_def] 
  have c: "canonicalStrings (Pol_AdminCIDRs a) = canonicalStrings (Pol_AdminCIDRs b)"
    "canonicalStrings (Pol_ReplicationCIDRs a) = canonicalStrings (Pol_ReplicationCIDRs b)"
    "canonicalStrings (Pol_ApplicationCIDRs a) = canonicalStrings (Pol_ApplicationCIDRs b)"
    "canonicalStrings (Pol_AdminRoles a) = canonicalStrings (Pol_AdminRoles b)"
    "canonicalStrings (Pol_ApplicationRoles a) = canonicalStrings (Pol_ApplicationRoles b)"
    "canonicalStrings (Pol_ApplicationDBs a) = canonicalStrings (Pol_ApplicationDBs b)"
    using same canonicalStrings_cong by blast+
  show ?thesis
    by (simp only: c RenderHBAPolicy_def hbaList_def)
qed

section \<open>The managed block is replaced, not repeated\<close>

definition block_head :: "string \<Rightarrow> string" where
  "block_head su = tl skylexHBABegin @ newline @ concat (map (\<lambda>l. l @ newline) (managed_lines su))"

lemma managed_block_split: "managed_block su = CHR ''#'' # block_head su @ skylexHBAEnd @ newline"
  by (simp add: managed_block_def block_head_def managed_lines_def skylexHBABegin_def)

lemma pad_right_set: "set (pad_right n s) \<subseteq> insert (CHR '' '') (set s)"
  by (auto simp: pad_right_def)

lemma block_head_no_hash: "CHR ''#'' \<notin> set su \<Longrightarrow> CHR ''#'' \<notin> set (block_head su)"
  using pad_right_set [of 39 "hbaField su"] pad_right_set [of 16 "hbaField su"]
  by (auto simp: block_head_def managed_lines_def skylexHBABegin_def skylexHBAFileName_def newline_def hbaField_def
      split: if_splits)

lemma End_not_before:
  assumes "CHR ''#'' \<notin> set su" "j < length (CHR ''#'' # block_head su)"
  shows "take (length skylexHBAEnd) (drop j ((CHR ''#'' # block_head su) @ s)) \<noteq> skylexHBAEnd"
proof (cases j)
  case 0
  then show ?thesis
    by (simp add: block_head_def skylexHBABegin_def skylexHBAEnd_def)
next
  case (Suc i)
  then have "i < length (block_head su)" using assms(2) by simp
  then have "drop j ((CHR ''#'' # block_head su) @ s) = block_head su ! i # drop (Suc i) (block_head su) @ s"
    using Suc by (simp add: Cons_nth_drop_Suc)
  moreover have "block_head su ! i \<noteq> CHR ''#''"
    using block_head_no_hash [OF assms(1)] \<open>i < length (block_head su)\<close> by (metis nth_mem)
  ultimately show ?thesis by (simp add: skylexHBAEnd_def)
qed

lemma remove_leading_block:
  assumes "strings_Index c skylexHBABegin = Some 0" "strings_Index c skylexHBAEnd = Some n"
    and "n + length skylexHBAEnd < length c" "c ! (n + length skylexHBAEnd) = CHR 0x0A"
  shows "removeManagedHBAPrefix c = drop (Suc (n + length skylexHBAEnd)) c"
  using assms by (simp add: removeManagedHBAPrefix_def)

lemma remove_managed_block:
  assumes "CHR ''#'' \<notin> set su"
  shows "removeManagedHBAPrefix (managed_block su @ rest) = rest"
proof -
  let ?content = "managed_block su @ rest" and ?head = "CHR ''#'' # block_head su"
  have begins: "strings_Index ?content skylexHBABegin = Some 0"
    using strings_Index_append [of skylexHBABegin]
    by (simp add: managed_block_def managed_lines_def skylexHBABegin_def)
  have "?content = ?head @ skylexHBAEnd @ newline @ rest"
    by (simp add: managed_block_split)
  then have "strings_Index ?content skylexHBAEnd
      = map_option (\<lambda>i. length ?head + i) (strings_Index (skylexHBAEnd @ newline @ rest) skylexHBAEnd)"
    using strings_Index_skip [OF End_not_before [OF assms]] by simp
  then have "strings_Index ?content skylexHBAEnd = Some (length ?head)"
    by (simp add: strings_Index_append)
  moreover have "?content ! (length ?head + length skylexHBAEnd) = CHR 0x0A"
    by (simp add: managed_block_split nth_append newline_def)
  moreover have "length (managed_block su) = Suc (length ?head + length skylexHBAEnd)"
    by (simp add: managed_block_split newline_def)
  ultimately show ?thesis
    using remove_leading_block [OF begins] by simp
qed

lemma trim_left_idem [simp]: "trim_left_newlines (trim_left_newlines s) = trim_left_newlines s"
  by (simp add: trim_left_newlines_def)

lemma withManaged_replaces:
  assumes "CHR ''#'' \<notin> set su'"
  shows "withManagedHBAPrefix (withManagedHBAPrefix content su') su = withManagedHBAPrefix content su"
  using remove_managed_block [OF assms] by (simp add: withManagedHBAPrefix_def)

section \<open>Applying is all or nothing\<close>

definition no_io_errors :: "host_env \<Rightarrow> bool" where
  "no_io_errors e \<longleftrightarrow> (\<forall>n. io_error e n = None)"

definition quiet :: "host_env \<Rightarrow> Process \<Rightarrow> bool" where
  "quiet e cmd \<longleftrightarrow> (\<forall>n f. snd (run_process e n cmd f) = f)"

lemma no_io_errorsD [simp]: "no_io_errors e \<Longrightarrow> io_error e n = None"
  by (simp add: no_io_errors_def)

lemma quietD [simp]: "quiet e cmd \<Longrightarrow> snd (run_process e n cmd f) = f"
  by (simp add: quiet_def)

definition reload_cmd :: "Instance \<Rightarrow> Process" where
  "reload_cmd p = pgCmd p ''pg_ctl'' [''reload'', ''-D'', pgDataDir p]"

definition probe_cmd :: "Instance \<Rightarrow> DockerRuntime \<Rightarrow> Process" where
  "probe_cmd p d = docker_cmd [''exec'', Dock_ContainerName d, ''test'', ''-f'', filepath_Join (pgDataDir p) ''PG_VERSION'']"

text \<open>Neither reloading nor looking for a file in the container changes a file.\<close>

definition reload_quiet :: "Instance \<Rightarrow> host_env \<Rightarrow> bool" where
  "reload_quiet p e \<longleftrightarrow> quiet e (reload_cmd p) \<and> (\<forall>d. docker_of p = Some d \<longrightarrow> quiet e (probe_cmd p d))"

definition same_env :: "host \<Rightarrow> host \<Rightarrow> bool" where
  "same_env h h' \<longleftrightarrow> host_environment h' = host_environment h"

lemma wp_IsInitialized:
  assumes "reload_quiet p (host_environment h)"
  shows "wp (IsInitialized p) (\<lambda>_ h'. host_environment h' = host_environment h \<and> files h' = files h) h"
  using assms unfolding reload_quiet_def probe_cmd_def
  by (auto simp: IsInitialized_def wp_simps Let_def split: option.splits sum.splits)

lemma wp_Reload:
  assumes "reload_quiet p (host_environment h)"
  shows "wp (Reload p) (\<lambda>_ h'. host_environment h' = host_environment h \<and> files h' = files h \<and>
     events h' = events h @ [Ran (reload_cmd p)]) h"
  using assms by (auto simp: Reload_def reload_quiet_def reload_cmd_def wp_simps Let_def split: option.splits sum.splits prod.splits)

lemma wp_restoreHBAInclude:
  assumes "no_io_errors (host_environment h)"
  shows "wp (restoreHBAInclude path previous) (\<lambda>_ h'. host_environment h' = host_environment h \<and>
     files h' = (files h)(path := previous)) h"
  using assms by (cases previous) (auto simp: restoreHBAInclude_def wp_simps wp_os_WriteFile wp_os_Remove)

lemma wp_write:
  assumes "no_io_errors (host_environment h)"
    and "Q (Inr ()) (h\<lparr>n_call := Suc (n_call h), files := (files h)(path \<mapsto> content)\<rparr>)"
  shows "wp (os_WriteFile path content) Q h"
  using assms by (simp add: wp_os_WriteFile)

definition hba_applied :: "Instance \<Rightarrow> HBAPolicy \<Rightarrow> (string \<rightharpoonup> string) \<Rightarrow> (string \<rightharpoonup> string) \<Rightarrow> bool" where
  "hba_applied p policy f f' \<longleftrightarrow> (\<exists>main. f (data_path p ''pg_hba.conf'') = Some main \<and>
     f' = f(data_path p skylexHBAFileName \<mapsto> RenderHBAPolicy policy (Inst_Superuser p) (Inst_ReplUser p),
            data_path p ''pg_hba.conf'' \<mapsto> withManagedHBAPrefix main (Inst_Superuser p)))"

definition hba_outcome :: "Instance \<Rightarrow> HBAPolicy \<Rightarrow> host \<Rightarrow> unit res \<Rightarrow> host \<Rightarrow> bool" where
  "hba_outcome p policy h r h' \<longleftrightarrow> host_environment h' = host_environment h \<and>
     (r = Inr () \<and> hba_applied p policy (files h) (files h') \<or> (\<exists>e. r = Inl e) \<and> files h' = files h)"

lemma wp_rollback:
  assumes "no_io_errors (host_environment h)" "files h = f(a \<mapsto> u, b \<mapsto> v)" "f a = previous" "f b = Some main"
    and "\<And>h'. host_environment h' = host_environment h \<Longrightarrow> files h' = f \<Longrightarrow> Q (Inl e) h'"
  shows "wp (do { _ \<leftarrow> restoreHBAInclude a previous; _ \<leftarrow> os_WriteFile b main; State_Monad.return (Inl e) }) Q h"
proof -
  have undone: "(files h)(a := previous, b \<mapsto> main) = f"
    using assms(2-4) by (auto simp: fun_eq_iff)
  show ?thesis
    unfolding wp_bind
    by (rule wp_mono [OF wp_restoreHBAInclude [OF assms(1)]])
      (use assms(1) undone in \<open>auto simp: wp_return intro!: wp_write assms(5)\<close>)
qed

lemma wp_write_hba:
  assumes "no_io_errors (host_environment h)" "reload_quiet p (host_environment h)"
    and "files h a = previous" "files h b = Some main"
    and "\<And>h'. host_environment h' = host_environment h \<Longrightarrow> files h' = (files h)(a \<mapsto> u, b \<mapsto> v) \<Longrightarrow> Q (Inr ()) h'"
    and "\<And>e h'. host_environment h' = host_environment h \<Longrightarrow> files h' = files h \<Longrightarrow> Q (Inl e) h'"
  shows "wp (write_hba p a u previous b v main) Q h"
proof -
  let ?h1 = "h\<lparr>n_call := Suc (Suc (n_call h)), files := (files h)(a \<mapsto> u, b \<mapsto> v)\<rparr>"
  have "wp (Reload p) (\<lambda>r. wp (case r of
                    Inr _ \<Rightarrow> State_Monad.return (Inr ())
                  | Inl e \<Rightarrow> do {
                      _ \<leftarrow> restoreHBAInclude a previous;
                      _ \<leftarrow> os_WriteFile b main;
                      State_Monad.return (Inl (wrap ''reload after hba apply failed; previous HBA configuration restored'' e))
                    }) Q) ?h1"
    by (rule wp_mono [OF wp_Reload])
      (use assms in \<open>auto simp: wp_return split: sum.splits intro!: wp_rollback [where f = "files h" and u = u and v = v]\<close>)
  then show ?thesis
    by (simp add: write_hba_def wp_try_do wp_bind wp_os_WriteFile assms(1))
qed

lemma wp_ApplyHBA:
  assumes "no_io_errors (host_environment h)" "reload_quiet p (host_environment h)"
  shows "wp (instance_ApplyHBA p policy) (hba_outcome p policy h) h"
  unfolding instance_ApplyHBA_def wp_bind
proof (rule wp_mono [OF wp_IsInitialized [OF assms(2)]], goal_cases)
  case (1 init h1)
  then show ?case
    using assms unfolding read_previous_def Let_def
    by (auto simp: wp_bind wp_try_do wp_os_ReadFile wp_return hba_outcome_def hba_applied_def fun_upd_idem_iff
        split: option.splits intro!: wp_write_hba)
qed

text \<open>
  C10: Applying network rules is all or nothing. When file operations do not fail and the programs involved write
  no file themselves, \<open>ApplyHBA\<close> either succeeds with the rendered rules in the agent's file and the managed
  block in front of \<open>pg_hba.conf\<close>, or reports an error and leaves every file as it was, also when PostgreSQL
  did not reload.
\<close>

theorem hba_all_or_nothing:
  assumes "no_io_errors (host_environment h)" "reload_quiet p (host_environment h)"
  shows "result (instance_ApplyHBA p policy) h = Inr () \<and> hba_applied p policy (files h) (files (after (instance_ApplyHBA p policy) h)) \<or>
    (\<exists>e. result (instance_ApplyHBA p policy) h = Inl e) \<and> files (after (instance_ApplyHBA p policy) h) = files h"
  using wp_ApplyHBA [OF assms, of policy] by (auto simp: wp_outcome hba_outcome_def)

lemma plain_hba_names: "plain_name skylexHBAFileName" "plain_name ''pg_hba.conf''" "plain_name ''PG_VERSION''"
  "skylexHBAFileName \<noteq> ''pg_hba.conf''" "skylexHBAFileName \<noteq> ''PG_VERSION''"
  by (simp_all add: plain_name_def skylexHBAFileName_def)

lemma wp_ApplyHBA_again:
  assumes "no_io_errors (host_environment h)" "files h (data_path p ''PG_VERSION'') \<noteq> None"
    and "files h (data_path p skylexHBAFileName) = Some (RenderHBAPolicy policy (Inst_Superuser p) (Inst_ReplUser p))"
    and "files h (data_path p ''pg_hba.conf'') = Some main" "withManagedHBAPrefix main (Inst_Superuser p) = main"
  shows "wp (instance_ApplyHBA p policy) (\<lambda>r h'. r = Inr () \<and> files h' = files h \<and> events h' = events h) h"
  using assms
  by (auto simp: instance_ApplyHBA_def IsInitialized_def read_previous_def wp_bind wp_try_do wp_os_ReadFile wp_os_Stat wp_return Let_def
      split: option.splits)

text \<open>
  C12: Applying network rules converges. After a successful \<open>ApplyHBA\<close> on an initialized instance, applying a
  policy with the same networks, roles and databases, in whatever order, with whatever repetitions and
  surrounding blanks, succeeds at once: no file changes and no program runs. So the rendering depends on the
  sets only, and the managed block is replaced and never repeated.
\<close>

theorem hba_converges:
  assumes "no_io_errors (host_environment h)" "reload_quiet p (host_environment h)"
    and "files h (data_path p ''PG_VERSION'') \<noteq> None" "CHR ''#'' \<notin> set (Inst_Superuser p)"
    and "result (instance_ApplyHBA p policy) h = Inr ()" "same_policy policy' policy"
  shows "result (instance_ApplyHBA p policy') (after (instance_ApplyHBA p policy) h) = Inr () \<and>
    files (after (instance_ApplyHBA p policy') (after (instance_ApplyHBA p policy) h)) = files (after (instance_ApplyHBA p policy) h) \<and>
    events (after (instance_ApplyHBA p policy') (after (instance_ApplyHBA p policy) h)) = events (after (instance_ApplyHBA p policy) h)"
proof -
  let ?h1 = "after (instance_ApplyHBA p policy) h"
  have "hba_outcome p policy h (Inr ()) ?h1"
    using wp_ApplyHBA [OF assms(1,2), of policy] assms(5) by (simp add: wp_outcome)
  then obtain main where env: "host_environment ?h1 = host_environment h" and
    f: "files ?h1 = (files h)(data_path p skylexHBAFileName \<mapsto> RenderHBAPolicy policy (Inst_Superuser p) (Inst_ReplUser p),
            data_path p ''pg_hba.conf'' \<mapsto> withManagedHBAPrefix main (Inst_Superuser p))"
    by (auto simp: hba_outcome_def hba_applied_def)
  have "wp (instance_ApplyHBA p policy') (\<lambda>r h'. r = Inr () \<and> files h' = files ?h1 \<and> events h' = events ?h1) ?h1"
    by (rule wp_ApplyHBA_again [where main = "withManagedHBAPrefix main (Inst_Superuser p)"])
      (use assms(1,3) plain_hba_names Render_same_policy [OF assms(6)] withManaged_replaces [OF assms(4)]
        in \<open>simp_all add: env f data_path_eq\<close>)
  then show ?thesis by (simp add: wp_outcome)
qed

section \<open>A sample machine\<close>

definition sample_host_env :: host_env where
  "sample_host_env = \<lparr>io_error = (\<lambda>_. None), failed_write = (\<lambda>_. None), run_process = (\<lambda>_ _ f. (([], None), f)),
     sql_reply = (\<lambda>_ c f. (Inr (SqlBool False), f)), look_path = (\<lambda>_ name _. Some (''/usr/bin/'' @ name)), read_dir = (\<lambda>_ _ _. Inr []),
     removed = (\<lambda>_ _. True), temp_name = (\<lambda>_. ''/tmp/skylex-initdb-password-1''),
     host_clock = (\<lambda>n. int n), host_euid = 0, host_egid = 0, host_user = Inr ''root'', host_os = ''linux'',
     pgx_Sanitize = (\<lambda>s. CHR 0x22 # s @ [CHR 0x22]), unmarshal_error = (\<lambda>_. ''invalid character''),
     json_text = (\<lambda>_. ''{}'')\<rparr>"

definition sample_instance :: Instance where
  "sample_instance = postgres_New ''/var/lib/pg'' ''/usr/lib/pg'' ''16'' 5432 ''postgres'' ''replicator'' ''secret''"

definition sample_machine :: host where
  "sample_machine = \<lparr>files = [''/var/lib/pg/PG_VERSION'' \<mapsto> ''16'', ''/var/lib/pg/pg_hba.conf'' \<mapsto> ''host all all 10.0.0.0/8 md5''],
     host_environment = sample_host_env, n_call = 0, events = []\<rparr>"

definition sample_policy :: "string list \<Rightarrow> HBAPolicy" where
  "sample_policy cidrs = \<lparr>Pol_AdminCIDRs = cidrs, Pol_ReplicationCIDRs = [], Pol_ApplicationCIDRs = [], Pol_AdminRoles = [],
     Pol_ApplicationRoles = [], Pol_ApplicationDBs = []\<rparr>"

lemma sample_host_facts:
  "no_io_errors (host_environment sample_machine)" "reload_quiet sample_instance (host_environment sample_machine)"
  by (simp_all add: no_io_errors_def reload_quiet_def quiet_def sample_machine_def sample_host_env_def)

lemma names_filter: "names xs = set (filter (\<lambda>x. x \<noteq> []) (map TrimSpace xs))"
  by (auto simp: names_def)

theorem hba_all_or_nothing_witness:
  "hba_applied sample_instance (sample_policy [''10.1.0.0/16'']) (files sample_machine)
     (files (after (instance_ApplyHBA sample_instance (sample_policy [''10.1.0.0/16''])) sample_machine))"
proof -
  have "result (instance_ApplyHBA sample_instance (sample_policy [''10.1.0.0/16''])) sample_machine = Inr ()"
    by code_simp
  with hba_all_or_nothing [OF sample_host_facts, of "sample_policy [''10.1.0.0/16'']"] show ?thesis by simp
qed

theorem hba_converges_witness:
  "let first = instance_ApplyHBA sample_instance (sample_policy [''10.1.0.0/16'']);
       again = instance_ApplyHBA sample_instance (sample_policy ['' 10.1.0.0/16'', ''10.1.0.0/16'', '''']);
       h1 = after first sample_machine
   in result again h1 = Inr () \<and> files (after again h1) = files h1 \<and> length (events h1) = 1 \<and> events (after again h1) = events h1"
proof -
  let ?p1 = "sample_policy [''10.1.0.0/16'']" and ?p2 = "sample_policy ['' 10.1.0.0/16'', ''10.1.0.0/16'', '''']"
  have 1: "result (instance_ApplyHBA sample_instance ?p1) sample_machine = Inr ()"
    "length (events (after (instance_ApplyHBA sample_instance ?p1) sample_machine)) = 1"
    by code_simp+
  have "data_path sample_instance ''PG_VERSION'' = ''/var/lib/pg/PG_VERSION''" "CHR ''#'' \<notin> set (Inst_Superuser sample_instance)"
    by code_simp+
  moreover have "names ['' 10.1.0.0/16'', ''10.1.0.0/16'', ''''] = names [''10.1.0.0/16'']"
    unfolding names_filter by code_simp
  ultimately show ?thesis
    using hba_converges [OF sample_host_facts _ _ 1(1), of ?p2] 1(2)
    by (simp add: Let_def same_policy_def sample_policy_def sample_machine_def)
qed

end
