(* ===== verification/PgObjects.thy ===== *)
theory PgObjects
  imports PgInstance
begin

text \<open>
  \<open>internal/postgres/roles.go\<close>, \<open>databases.go\<close> and \<open>extensions.go\<close>: the statements that create, change and drop
  roles, databases and extensions on the local server. Names are quoted by \<open>pgx\<close> (\<open>pgx_Sanitize\<close>), passwords
  and names that are compared travel as arguments. Every operation first asks whether the server is in
  recovery. The connection's defaults that play no part here are left out, and closing it is not an effect.
\<close>

section \<open>Connections\<close>

text \<open>The text of an error up to the first mention of a password.\<close>

definition redactPGError :: "string \<Rightarrow> string" where
  "redactPGError msg = (case strings_Index (strings_ToLower msg) ''password'' of
      None \<Rightarrow> msg
    | Some idx \<Rightarrow> take idx msg @ ''[REDACTED]'')"

definition local_connection :: "Instance \<Rightarrow> string \<Rightarrow> SqlConnection" where
  "local_connection p database = \<lparr>Conn_Port = Inst_Port p, Conn_User = Inst_Superuser p, Conn_Password = Inst_SuperuserPassword p,
     Conn_Database = database\<rparr>"

definition connect_to :: "Instance \<Rightarrow> string \<Rightarrow> string \<Rightarrow> SqlConnection res act" where
  "connect_to p database what =
     try_do (sql_call (SqlConnect (local_connection p database))) (\<lambda>e. Inl (wrap what (redactPGError e))) (\<lambda>_.
     State_Monad.return (Inr (local_connection p database)))"

definition localConnect :: "Instance \<Rightarrow> SqlConnection res act" where
  "localConnect p = connect_to p ''postgres'' ''connect to local postgres''"

definition localConnectDatabase :: "Instance \<Rightarrow> string \<Rightarrow> SqlConnection res act" where
  "localConnectDatabase p databaseName = connect_to p databaseName ''connect to local postgres database''"

definition postgresWritable :: "SqlConnection \<Rightarrow> bool res act" where
  "postgresWritable conn =
     try_do (query_bool conn ''SELECT pg_is_in_recovery()'' []) (\<lambda>e. Inl (wrap ''check recovery state'' (redactPGError e))) (\<lambda>inRecovery.
     State_Monad.return (Inr (\<not> inRecovery)))"

definition read_only_text :: "string \<Rightarrow> bool \<Rightarrow> string" where
  "read_only_text what allowPromote =
     (if \<not> allowPromote then ''postgresql is in recovery/read-only; '' @ what @ '' management must run on the writable primary''
      else ''postgresql is in recovery/read-only after promotion command; retry after promotion completes'')"

text \<open>A connection to a server that accepts writes, given to the rest of the operation.\<close>

definition on_writable :: "SqlConnection res act \<Rightarrow> string \<Rightarrow> bool \<Rightarrow> (SqlConnection \<Rightarrow> unit res act) \<Rightarrow> unit res act" where
  "on_writable connect what allowPromote k =
     try_do connect Inl (\<lambda>conn.
     try_do (postgresWritable conn) Inl (\<lambda>w.
     if w then k conn else State_Monad.return (Inl (read_only_text what allowPromote))))"

definition connectWritable :: "Instance \<Rightarrow> bool \<Rightarrow> (SqlConnection \<Rightarrow> unit res act) \<Rightarrow> unit res act" where
  "connectWritable p allowPromote k = on_writable (localConnect p) ''PostgreSQL'' allowPromote k"

definition connectWritableDatabase :: "Instance \<Rightarrow> string \<Rightarrow> bool \<Rightarrow> (SqlConnection \<Rightarrow> unit res act) \<Rightarrow> unit res act" where
  "connectWritableDatabase p databaseName allowPromote k = on_writable (localConnectDatabase p databaseName) ''extension'' allowPromote k"

text \<open>\<open>quoteIdent\<close>; \<open>pgx\<close> quotes the same way in every call.\<close>

definition quoteIdent :: "string \<Rightarrow> string act" where
  "quoteIdent name = do { h \<leftarrow> State_Monad.get; State_Monad.return (pgx_Sanitize (host_environment h) name) }"

text \<open>\<open>conn.Exec\<close> with an error text around the redacted error.\<close>

definition exec_or :: "SqlConnection \<Rightarrow> string \<Rightarrow> string list \<Rightarrow> string \<Rightarrow> (unit \<Rightarrow> unit res act) \<Rightarrow> unit res act" where
  "exec_or conn stmt args what k = try_do (conn_Exec conn stmt args) (\<lambda>e. Inl (wrap what (redactPGError e))) k"

definition finish_ok :: "unit \<Rightarrow> unit res act" where
  "finish_ok _ = State_Monad.return (Inr ())"

section \<open>Roles\<close>

datatype RoleKind = RoleKindAdmin | RoleKindReadWrite | RoleKindReadOnly | RoleKindCustom | RoleKindOther string

definition RoleKind_of :: "string \<Rightarrow> RoleKind" where
  "RoleKind_of s = (if s = ''admin'' then RoleKindAdmin else if s = ''read_write'' then RoleKindReadWrite
     else if s = ''read_only'' then RoleKindReadOnly else if s = ''custom'' then RoleKindCustom else RoleKindOther s)"

definition alterRolePasswordFunction :: string where
  "alterRolePasswordFunction =
     ''CREATE OR REPLACE FUNCTION pg_temp.skylex_alter_role_password(role_name text, role_password text)'' @ newline
     @ ''RETURNS void'' @ newline @ ''LANGUAGE plpgsql'' @ newline @ ''AS $$'' @ newline @ ''BEGIN'' @ newline
     @ ''  EXECUTE format('' @ [CHR 0x27] @ ''ALTER ROLE %I WITH ENCRYPTED PASSWORD %L'' @ [CHR 0x27]
     @ '', role_name, role_password);'' @ newline @ ''END;'' @ newline @ ''$$''"

primrec roleAttributes :: "RoleKind \<Rightarrow> string" where
  "roleAttributes RoleKindAdmin = ''SUPERUSER LOGIN''"
| "roleAttributes RoleKindReadWrite = ''NOSUPERUSER LOGIN''"
| "roleAttributes RoleKindReadOnly = ''NOSUPERUSER LOGIN''"
| "roleAttributes RoleKindCustom = ''NOSUPERUSER LOGIN''"
| "roleAttributes (RoleKindOther s) = ''NOSUPERUSER LOGIN''"

definition setRolePassword :: "SqlConnection \<Rightarrow> string \<Rightarrow> string \<Rightarrow> unit res act" where
  "setRolePassword conn roleName password =
     exec_or conn alterRolePasswordFunction [] ''prepare password helper'' (\<lambda>_.
     try_do (conn_Exec conn ''SELECT pg_temp.skylex_alter_role_password($1, $2)'' [roleName, password]) (\<lambda>e. Inl (redactPGError e)) finish_ok)"

definition EnsureRole :: "Instance \<Rightarrow> string \<Rightarrow> RoleKind \<Rightarrow> string \<Rightarrow> bool \<Rightarrow> unit res act" where
  "EnsureRole p roleName kind password allowPromote = connectWritable p allowPromote (\<lambda>conn.
     try_do (query_bool conn ''SELECT EXISTS(SELECT 1 FROM pg_catalog.pg_roles WHERE rolname = $1)'' [roleName])
       (\<lambda>e. Inl (wrap ''check role existence'' (redactPGError e))) (\<lambda>found. do {
     quotedRole \<leftarrow> quoteIdent roleName;
     let attrs = roleAttributes kind;
     exec_or conn ((if found then ''ALTER ROLE '' else ''CREATE ROLE '') @ quotedRole @ '' WITH '' @ attrs) []
       ((if found then ''alter role '' else ''create role '') @ quote roleName) (\<lambda>_.
     try_do (setRolePassword conn roleName password) (\<lambda>e. Inl (wrap (''set password for role '' @ quote roleName) e)) finish_ok)
   }))"

definition instance_RotateRolePassword :: "Instance \<Rightarrow> string \<Rightarrow> string \<Rightarrow> bool \<Rightarrow> unit res act" where
  "instance_RotateRolePassword p roleName newPassword allowPromote = connectWritable p allowPromote (\<lambda>conn.
     try_do (setRolePassword conn roleName newPassword)
       (\<lambda>e. Inl (wrap (''rotate password for role '' @ quote roleName) e)) finish_ok)"

definition DropRole :: "Instance \<Rightarrow> string \<Rightarrow> bool \<Rightarrow> unit res act" where
  "DropRole p roleName allowPromote = connectWritable p allowPromote (\<lambda>conn. do {
     q \<leftarrow> quoteIdent roleName;
     exec_or conn (''DROP ROLE IF EXISTS '' @ q) [] (''drop role '' @ quote roleName) finish_ok
   })"

section \<open>Databases\<close>

definition isReservedDatabase :: "string \<Rightarrow> bool" where
  "isReservedDatabase name \<longleftrightarrow> strings_ToLower name \<in> {''postgres'', ''template0'', ''template1''}"

definition reserved_text :: "string \<Rightarrow> string" where
  "reserved_text databaseName = ''database '' @ quote databaseName @ '' is reserved''"

definition database_found :: "SqlConnection \<Rightarrow> string \<Rightarrow> string \<Rightarrow> (bool \<Rightarrow> unit res act) \<Rightarrow> unit res act" where
  "database_found conn databaseName what k =
     try_do (query_bool conn ''SELECT EXISTS(SELECT 1 FROM pg_database WHERE datname = $1)'' [databaseName])
       (\<lambda>e. Inl (wrap what (redactPGError e))) k"

definition EnsureDatabase :: "Instance \<Rightarrow> string \<Rightarrow> string \<Rightarrow> bool \<Rightarrow> unit res act" where
  "EnsureDatabase p databaseName ownerRoleName allowPromote =
     (if isReservedDatabase databaseName then State_Monad.return (Inl (reserved_text databaseName))
      else connectWritable p allowPromote (\<lambda>conn. database_found conn databaseName ''check database existence'' (\<lambda>found. do {
        quotedDB \<leftarrow> quoteIdent databaseName;
        quotedOwner \<leftarrow> quoteIdent ownerRoleName;
        if \<not> found then exec_or conn (''CREATE DATABASE '' @ quotedDB @ (if ownerRoleName \<noteq> [] then '' OWNER '' @ quotedOwner else [])) []
            (''create database '' @ quote databaseName) finish_ok
        else if ownerRoleName = [] then finish_ok ()
        else try_do (query_text conn
               ''SELECT r.rolname FROM pg_database d JOIN pg_roles r ON r.oid = d.datdba WHERE d.datname = $1'' [databaseName])
               (\<lambda>e. Inl (wrap ''check database owner'' (redactPGError e))) (\<lambda>currentOwner.
             if currentOwner = ownerRoleName then finish_ok ()
             else exec_or conn (''ALTER DATABASE '' @ quotedDB @ '' OWNER TO '' @ quotedOwner) []
                    (''alter database '' @ quote databaseName @ '' owner'') finish_ok)
      })))"

definition DropDatabase :: "Instance \<Rightarrow> string \<Rightarrow> bool \<Rightarrow> unit res act" where
  "DropDatabase p databaseName allowPromote =
     (if isReservedDatabase databaseName then State_Monad.return (Inl (reserved_text databaseName))
      else connectWritable p allowPromote (\<lambda>conn.
        exec_or conn ''SELECT pg_terminate_backend(pid) FROM pg_stat_activity WHERE datname = $1 AND pid <> pg_backend_pid()''
          [databaseName] ''terminate database sessions'' (\<lambda>_. do {
        q \<leftarrow> quoteIdent databaseName;
        exec_or conn (''DROP DATABASE IF EXISTS '' @ q @ '' WITH (FORCE)'') [] (''drop database '' @ quote databaseName) finish_ok
      })))"

definition databaseLevelGrantStatements :: "string \<Rightarrow> string \<Rightarrow> RoleKind \<Rightarrow> string list" where
  "databaseLevelGrantStatements quotedDB quotedRole roleKind =
     (if roleKind = RoleKindReadOnly then [''GRANT CONNECT ON DATABASE '' @ quotedDB @ '' TO '' @ quotedRole]
      else [''GRANT CONNECT, CREATE ON DATABASE '' @ quotedDB @ '' TO '' @ quotedRole])"

definition schemaGrantStatements :: "string \<Rightarrow> RoleKind \<Rightarrow> string list" where
  "schemaGrantStatements quotedRole roleKind =
     (if roleKind = RoleKindReadOnly
      then [''GRANT USAGE ON SCHEMA public TO '' @ quotedRole,
            ''GRANT SELECT ON ALL TABLES IN SCHEMA public TO '' @ quotedRole,
            ''GRANT SELECT ON ALL SEQUENCES IN SCHEMA public TO '' @ quotedRole,
            ''ALTER DEFAULT PRIVILEGES IN SCHEMA public GRANT SELECT ON TABLES TO '' @ quotedRole,
            ''ALTER DEFAULT PRIVILEGES IN SCHEMA public GRANT SELECT ON SEQUENCES TO '' @ quotedRole]
      else [''GRANT USAGE, CREATE ON SCHEMA public TO '' @ quotedRole,
            ''GRANT ALL PRIVILEGES ON ALL TABLES IN SCHEMA public TO '' @ quotedRole,
            ''GRANT ALL PRIVILEGES ON ALL SEQUENCES IN SCHEMA public TO '' @ quotedRole,
            ''GRANT ALL PRIVILEGES ON ALL FUNCTIONS IN SCHEMA public TO '' @ quotedRole,
            ''ALTER DEFAULT PRIVILEGES IN SCHEMA public GRANT ALL PRIVILEGES ON TABLES TO '' @ quotedRole,
            ''ALTER DEFAULT PRIVILEGES IN SCHEMA public GRANT ALL PRIVILEGES ON SEQUENCES TO '' @ quotedRole,
            ''ALTER DEFAULT PRIVILEGES IN SCHEMA public GRANT ALL PRIVILEGES ON FUNCTIONS TO '' @ quotedRole])"

definition execGrantStatements :: "SqlConnection \<Rightarrow> string list \<Rightarrow> unit res act" where
  "execGrantStatements conn statements = for_each statements (\<lambda>stmt. exec_or conn stmt [] ''execute grant statement'' finish_ok)"

definition GrantDatabasePrivileges :: "Instance \<Rightarrow> string \<Rightarrow> string \<Rightarrow> RoleKind \<Rightarrow> bool \<Rightarrow> unit res act" where
  "GrantDatabasePrivileges p databaseName roleName roleKind allowPromote =
     (if isReservedDatabase databaseName then State_Monad.return (Inl (reserved_text databaseName))
      else if roleName = [] then State_Monad.return (Inl ''role name is required'')
      else connectWritable p allowPromote (\<lambda>adminConn.
        database_found adminConn databaseName ''check database existence before grant'' (\<lambda>found.
        if \<not> found then State_Monad.return (Inl (''database '' @ quote databaseName @ '' does not exist''))
        else do {
          quotedDB \<leftarrow> quoteIdent databaseName;
          quotedRole \<leftarrow> quoteIdent roleName;
          try_do (execGrantStatements adminConn (databaseLevelGrantStatements quotedDB quotedRole roleKind)) Inl (\<lambda>_.
          try_do (localConnectDatabase p databaseName) Inl (\<lambda>databaseConn.
          try_do (postgresWritable databaseConn) Inl (\<lambda>w.
          if \<not> w then State_Monad.return (Inl ''postgresql is in recovery/read-only; database grants must run on the writable primary'')
          else execGrantStatements databaseConn (schemaGrantStatements quotedRole roleKind))))
        })))"

section \<open>Extensions\<close>

definition in_database :: "string \<Rightarrow> string \<Rightarrow> string \<Rightarrow> string" where
  "in_database what extensionName databaseName = what @ '' extension '' @ quote extensionName @ '' in database '' @ quote databaseName"

definition EnsureExtension :: "Instance \<Rightarrow> string \<Rightarrow> string \<Rightarrow> bool \<Rightarrow> unit res act" where
  "EnsureExtension p databaseName extensionName allowPromote = connectWritableDatabase p databaseName allowPromote (\<lambda>conn. do {
     q \<leftarrow> quoteIdent extensionName;
     exec_or conn (''CREATE EXTENSION IF NOT EXISTS '' @ q) [] (in_database ''create'' extensionName databaseName) finish_ok
   })"

definition DropExtension :: "Instance \<Rightarrow> string \<Rightarrow> string \<Rightarrow> bool \<Rightarrow> unit res act" where
  "DropExtension p databaseName extensionName allowPromote = connectWritableDatabase p databaseName allowPromote (\<lambda>conn. do {
     q \<leftarrow> quoteIdent extensionName;
     exec_or conn (''DROP EXTENSION IF EXISTS '' @ q) [] (in_database ''drop'' extensionName databaseName) finish_ok
   })"

end
