(* ===== verification/AgentLog.thy ===== *)
theory AgentLog
  imports PgInstance CommandLogs
begin

text \<open>
  \<open>internal/agent/log.go\<close>: what the agent removes from the lines it sends to the server, and how it sends them in
  batches. The regular expressions are sequences of steps. Each of their repeated classes excludes the
  character that has to follow, so taking the longest run is what the \<open>regexp\<close> package does.
\<close>

section \<open>Regular expressions\<close>

datatype re_step = Lit string | Spaces | Spaces1 | Class1 "char \<Rightarrow> bool" | Class0 "char \<Rightarrow> bool" | WordBoundary

definition re_space :: "char \<Rightarrow> bool" where
  "re_space c \<longleftrightarrow> c \<in> {CHR 0x20, CHR 0x09, CHR 0x0A, CHR 0x0C, CHR 0x0D}"

definition word_char :: "char \<Rightarrow> bool" where
  "word_char c \<longleftrightarrow> (let n = of_char c in 48 \<le> n \<and> n \<le> (57 :: nat) \<or> 65 \<le> n \<and> n \<le> 90 \<or> 97 \<le> n \<and> n \<le> 122 \<or> n = 95)"

text \<open>
  A letter matches in both cases under \<open>(?i)\<close>. Unicode folds \<open>s\<close> with the long s and \<open>k\<close> with the Kelvin sign as
  well: their bytes are accepted too.
\<close>

definition fold_char :: "char \<Rightarrow> string \<Rightarrow> string option" where
  "fold_char c s = (
     if s \<noteq> [] \<and> lower_char (hd s) = lower_char c then Some (tl s)
     else if lower_char c = CHR ''s'' \<and> strings_HasPrefix s [CHR 0xC5, CHR 0xBF] then Some (drop 2 s)
     else if lower_char c = CHR ''k'' \<and> strings_HasPrefix s [CHR 0xE2, CHR 0x84, CHR 0xAA] then Some (drop 3 s)
     else None)"

fun fold_lit :: "string \<Rightarrow> string \<Rightarrow> string option" where
  "fold_lit [] s = Some s"
| "fold_lit (c # cs) s = (case fold_char c s of None \<Rightarrow> None | Some rest \<Rightarrow> fold_lit cs rest)"

text \<open>The rest of the text after a match at its beginning; \<open>prev\<close> is the character before it.\<close>

fun match_steps :: "re_step list \<Rightarrow> char option \<Rightarrow> string \<Rightarrow> string option" where
  "match_steps [] prev s = Some s"
| "match_steps (Lit l # steps) prev s = (case fold_lit l s of None \<Rightarrow> None | Some rest \<Rightarrow> match_steps steps None rest)"
| "match_steps (Spaces # steps) prev s = match_steps steps None (dropWhile re_space s)"
| "match_steps (Spaces1 # steps) prev s =
     (if s \<noteq> [] \<and> re_space (hd s) then match_steps steps None (dropWhile re_space s) else None)"
| "match_steps (Class1 p # steps) prev s = (if s \<noteq> [] \<and> p (hd s) then match_steps steps None (dropWhile p s) else None)"
| "match_steps (Class0 p # steps) prev s = match_steps steps None (dropWhile p s)"
| "match_steps (WordBoundary # steps) prev s =
     (if (case prev of None \<Rightarrow> False | Some c \<Rightarrow> word_char c) \<noteq> (s \<noteq> [] \<and> word_char (hd s))
      then match_steps steps prev s else None)"

fun match_any :: "re_step list list \<Rightarrow> char option \<Rightarrow> string \<Rightarrow> string option" where
  "match_any [] prev s = None"
| "match_any (r # rs) prev s = (case match_steps r prev s of Some rest \<Rightarrow> Some rest | None \<Rightarrow> match_any rs prev s)"

text \<open>
  \<open>ReplaceAllStringFunc\<close>: the leftmost matches that do not overlap. A match is not empty here; the first argument
  counts the characters that are left, which is where the loop ends.
\<close>

fun replace_all :: "nat \<Rightarrow> re_step list list \<Rightarrow> (string \<Rightarrow> string) \<Rightarrow> char option \<Rightarrow> string \<Rightarrow> string" where
  "replace_all n res f prev [] = []"
| "replace_all 0 res f prev (c # s) = c # s"
| "replace_all (Suc n) res f prev (c # s) = (case match_any res prev (c # s) of
      None \<Rightarrow> c # replace_all n res f (Some c) s
    | Some rest \<Rightarrow>
        let matched = take (length (c # s) - length rest) (c # s)
        in f matched @ replace_all n res f (Some (last matched)) rest)"

definition ReplaceAll :: "re_step list list \<Rightarrow> (string \<Rightarrow> string) \<Rightarrow> string \<Rightarrow> string" where
  "ReplaceAll res f s = replace_all (length s) res f None s"

section \<open>Redaction\<close>

definition not_space :: "char \<Rightarrow> bool" where "not_space c \<longleftrightarrow> \<not> re_space c"
definition sq :: string where "sq = [CHR 0x27]"
definition dq :: string where "dq = [CHR 0x22]"

definition assignment :: "string \<Rightarrow> re_step list" where
  "assignment name = [Lit name, Spaces, Lit ''='', Spaces, Class1 not_space]"

definition sql_password :: "re_step list" where
  "sql_password = [Lit ''PASSWORD'', Spaces1, Lit sq, Class0 (\<lambda>c. c \<noteq> CHR 0x27), Lit sq]"

definition url_of :: "string \<Rightarrow> re_step list" where
  "url_of scheme = [Lit scheme, Lit ''://'', Class1 (\<lambda>c. c \<noteq> CHR '':'' \<and> c \<noteq> CHR ''@'' \<and> not_space c), Lit '':'',
     Class1 (\<lambda>c. c \<noteq> CHR ''@'' \<and> not_space c), Lit ''@'']"

definition json_field :: "string \<Rightarrow> re_step list" where
  "json_field name = [Lit dq, Lit name, Lit dq, Spaces, Lit '':'', Spaces, Lit dq, Class0 (\<lambda>c. c \<noteq> CHR 0x22), Lit dq]"

definition redact_url :: "string \<Rightarrow> string" where
  "redact_url match = (case strings_Index match ''://'' of None \<Rightarrow> match | Some i \<Rightarrow> take (i + 3) match @ ''***:***@'')"

definition redact_json :: "string \<Rightarrow> string" where
  "redact_json match = (case strings_Index match '':'' of
      None \<Rightarrow> match
    | Some i \<Rightarrow> take (Suc i) match @ '' '' @ dq @ ''***'' @ dq)"

definition RedactSecrets :: "string \<Rightarrow> string" where
  "RedactSecrets input = (
     let s = ReplaceAll [assignment ''PGPASSWORD''] (\<lambda>_. ''PGPASSWORD=***'') input;
         s = ReplaceAll [assignment ''POSTGRES_PASSWORD''] (\<lambda>_. ''POSTGRES_PASSWORD=***'') s;
         s = ReplaceAll [assignment ''repl_pass''] (\<lambda>_. ''repl_pass=***'') s;
         s = ReplaceAll [WordBoundary # assignment ''password''] (\<lambda>_. ''password=***'') s;
         s = ReplaceAll [[Lit ''ENCRYPTED'', Spaces1] @ sql_password] (\<lambda>_. ''ENCRYPTED PASSWORD '' @ sq @ ''***'' @ sq) s;
         s = ReplaceAll [url_of ''postgresql'', url_of ''postgres''] redact_url s;
         s = ReplaceAll [WordBoundary # sql_password] (\<lambda>_. ''PASSWORD '' @ sq @ ''***'' @ sq) s
     in ReplaceAll [json_field ''password'', json_field ''secret'', json_field ''token''] redact_json s)"

end
