(* ===== verification/CommandLogger.thy ===== *)
theory CommandLogger
  imports AgentLog AgentResults
begin

text \<open>
  \<open>commandLogger\<close> of \<open>internal/agent/log.go\<close>: lines are redacted, buffered and handed over in batches, when fifty
  have come together, when a timer fires and when the logger is closed. Every operation returns the logger and
  the batch that a goroutine of its own then sends to the server; the lock makes the operations atomic.
\<close>

record commandLogger =
  CL_AgentID :: string
  CL_CommandID :: string
  CL_Entries :: "LogEntry list"
  CL_Timer :: bool
  CL_Closed :: bool

definition newCommandLogger :: "string \<Rightarrow> string \<Rightarrow> commandLogger" where
  "newCommandLogger agentID commandID = \<lparr>CL_AgentID = agentID, CL_CommandID = commandID, CL_Entries = [], CL_Timer = False,
     CL_Closed = False\<rparr>"

definition flushLocked :: "commandLogger \<Rightarrow> commandLogger \<times> LogEntry list option" where
  "flushLocked l = (if CL_Entries l = [] then (l, None)
     else (l\<lparr>CL_Timer := False, CL_Entries := []\<rparr>, Some (CL_Entries l)))"

definition log_entry :: "commandLogger \<Rightarrow> string \<Rightarrow> string \<Rightarrow> int \<Rightarrow> LogEntry" where
  "log_entry l level message ms = \<lparr>Entry_CommandId = CL_CommandID l, Entry_Level = level, Entry_Message = RedactSecrets message,
     Entry_TimestampMs = ms\<rparr>"

definition logger_Log :: "string \<Rightarrow> string \<Rightarrow> int \<Rightarrow> commandLogger \<Rightarrow> commandLogger \<times> LogEntry list option" where
  "logger_Log level message ms l = (if CL_Closed l then (l, None)
     else let l' = l\<lparr>CL_Entries := CL_Entries l @ [log_entry l level message ms]\<rparr>
       in if length (CL_Entries l') \<ge> 50 then flushLocked l' else (l'\<lparr>CL_Timer := True\<rparr>, None))"

definition logger_Flush :: "commandLogger \<Rightarrow> commandLogger \<times> LogEntry list option" where
  "logger_Flush l = flushLocked l"

definition logger_Close :: "commandLogger \<Rightarrow> commandLogger \<times> LogEntry list option" where
  "logger_Close l = flushLocked (l\<lparr>CL_Closed := True\<rparr>)"

section \<open>Runs\<close>

datatype log_op = LogLine string string int | TimerFires | CloseLogger

primrec log_step :: "log_op \<Rightarrow> commandLogger \<Rightarrow> commandLogger \<times> LogEntry list option" where
  "log_step (LogLine level message ms) l = logger_Log level message ms l"
| "log_step TimerFires l = logger_Flush l"
| "log_step CloseLogger l = logger_Close l"

text \<open>The batches of a run, in the order in which they are handed over, and the logger at its end.\<close>

fun log_run :: "log_op list \<Rightarrow> commandLogger \<Rightarrow> commandLogger \<times> LogEntry list list" where
  "log_run [] l = (l, [])"
| "log_run (x # xs) l = (case log_step x l of (l1, b) \<Rightarrow>
     case log_run xs l1 of (l2, bs) \<Rightarrow> (l2, (case b of None \<Rightarrow> bs | Some es \<Rightarrow> es # bs)))"

text \<open>The lines of a run up to its first \<open>Close\<close>.\<close>

fun lines_of :: "commandLogger \<Rightarrow> log_op list \<Rightarrow> LogEntry list" where
  "lines_of l [] = []"
| "lines_of l (LogLine level message ms # xs) = log_entry l level message ms # lines_of l xs"
| "lines_of l (TimerFires # xs) = lines_of l xs"
| "lines_of l (CloseLogger # xs) = []"

definition logger_ok :: "commandLogger \<Rightarrow> bool" where
  "logger_ok l \<longleftrightarrow> length (CL_Entries l) < 50 \<and> (CL_Closed l \<longrightarrow> CL_Entries l = []) \<and> (CL_Entries l \<noteq> [] \<longrightarrow> CL_Timer l)"

lemma logger_ok_new: "logger_ok (newCommandLogger a c)"
  by (simp add: logger_ok_def newCommandLogger_def)

lemma new_logger: "\<not> CL_Closed (newCommandLogger a c)" "CL_Entries (newCommandLogger a c) = []"
  by (simp_all add: newCommandLogger_def)

lemma log_step_ok:
  assumes "logger_ok l" "log_step x l = (l', b)"
  shows "logger_ok l'" "CL_CommandID l' = CL_CommandID l"
  using assms
  by (cases x; auto simp: logger_ok_def logger_Log_def logger_Flush_def logger_Close_def flushLocked_def Let_def split: if_splits)+

lemma lines_of_cong: "CL_CommandID l = CL_CommandID l' \<Longrightarrow> lines_of l xs = lines_of l' xs"
  by (induction l xs rule: lines_of.induct) (auto simp: log_entry_def)

lemma log_run_closed: "CL_Closed l \<Longrightarrow> CL_Entries l = [] \<Longrightarrow> snd (log_run xs l) = [] \<and> CL_Entries (fst (log_run xs l)) = []"
proof (induction xs arbitrary: l)
  case (Cons x xs)
  have "log_step x l = (l\<lparr>CL_Closed := True\<rparr>, None)"
    using Cons.prems by (cases x) (simp_all add: logger_Log_def logger_Flush_def logger_Close_def flushLocked_def)
  then show ?case using Cons.IH [of "l\<lparr>CL_Closed := True\<rparr>"] Cons.prems by (simp split: prod.splits)
qed simp

definition handed :: "LogEntry list option \<Rightarrow> LogEntry list" where
  "handed b = (case b of None \<Rightarrow> [] | Some es \<Rightarrow> es)"

lemma log_run_Cons:
  "log_step x l = (l1, b) \<Longrightarrow> fst (log_run (x # xs) l) = fst (log_run xs l1)"
  "log_step x l = (l1, b) \<Longrightarrow> concat (snd (log_run (x # xs) l)) = handed b @ concat (snd (log_run xs l1))"
  "log_step x l = (l1, b) \<Longrightarrow> set (snd (log_run (x # xs) l)) = set_option b \<union> set (snd (log_run xs l1))"
  by (auto simp: case_prod_unfold handed_def split: option.splits)

text \<open>One step: what it hands over and what it keeps are what was there and the line.\<close>

lemma log_step_lines:
  assumes "logger_ok l" "\<not> CL_Closed l" "log_step x l = (l1, b)"
  shows "handed b @ CL_Entries l1 = CL_Entries l @ lines_of l [x]" "\<And>es. b = Some es \<Longrightarrow> es \<noteq> [] \<and> length es \<le> 50"
    "CL_Closed l1 \<longleftrightarrow> x = CloseLogger" "x = CloseLogger \<Longrightarrow> CL_Entries l1 = []"
  using assms
  by (cases x; auto simp: logger_Log_def logger_Flush_def logger_Close_def flushLocked_def logger_ok_def Let_def handed_def
      split: if_splits)+

lemma lines_of_Cons: "x \<noteq> CloseLogger \<Longrightarrow> lines_of l (x # xs) = lines_of l [x] @ lines_of l xs"
  by (cases x) simp_all

lemma log_run_lines:
  assumes "logger_ok l" "\<not> CL_Closed l"
  shows "concat (snd (log_run xs l)) @ CL_Entries (fst (log_run xs l)) = CL_Entries l @ lines_of l xs \<and>
    (\<forall>b\<in>set (snd (log_run xs l)). b \<noteq> [] \<and> length b \<le> 50) \<and>
    (CloseLogger \<in> set xs \<longrightarrow> CL_Entries (fst (log_run xs l)) = [])"
  using assms
proof (induction xs arbitrary: l)
  case (Cons x xs)
  obtain l1 b where step: "log_step x l = (l1, b)" by fastforce
  note ok = log_step_ok [OF Cons.prems(1) step] and lines = log_step_lines [OF Cons.prems step]
  show ?case
  proof (cases "x = CloseLogger")
    case True
    then have "snd (log_run xs l1) = [] \<and> CL_Entries (fst (log_run xs l1)) = []"
      using lines(3,4) by (intro log_run_closed) simp_all
    then show ?thesis
      unfolding log_run_Cons [OF step] using lines(1,2,4) True by auto
  next
    case False
    have IH: "concat (snd (log_run xs l1)) @ CL_Entries (fst (log_run xs l1)) = CL_Entries l1 @ lines_of l xs"
      "\<forall>b\<in>set (snd (log_run xs l1)). b \<noteq> [] \<and> length b \<le> 50"
      "CloseLogger \<in> set xs \<longrightarrow> CL_Entries (fst (log_run xs l1)) = []"
      using Cons.IH [OF ok(1)] lines(3) False lines_of_cong [OF ok(2), of xs] by auto
    have "(handed b @ concat (snd (log_run xs l1))) @ CL_Entries (fst (log_run xs l1)) = CL_Entries l @ lines_of l (x # xs)"
      unfolding append_assoc IH(1) lines_of_Cons [OF False, of l xs] using lines(1) by (metis append_assoc)
    then show ?thesis
      unfolding log_run_Cons [OF step] using IH(2,3) lines(2) False by auto
  qed
qed simp

text \<open>
  C21: No line of a command is lost or sent twice by its logger. Over any run of lines, timer events and a \<open>Close\<close>,
  the batches that are handed over are, one after the other, exactly the redacted lines logged before the first
  \<open>Close\<close>, in their order; no batch is empty or has more than fifty lines.
\<close>

theorem logger_hands_over_every_line:
  assumes "CloseLogger \<in> set ops"
  shows "concat (snd (log_run ops (newCommandLogger agentID commandID))) = lines_of (newCommandLogger agentID commandID) ops \<and>
    list_all (\<lambda>b. b \<noteq> [] \<and> length b \<le> 50) (snd (log_run ops (newCommandLogger agentID commandID)))"
  using log_run_lines [OF logger_ok_new [of agentID commandID] new_logger(1), of ops] assms
  by (auto simp: new_logger(2) list_all_iff)

theorem logger_hands_over_every_line_witness:
  "concat (snd (log_run [LogLine ''info'' ''a'' 1, TimerFires, LogLine ''error'' ''b'' 2, CloseLogger, LogLine ''info'' ''c'' 3]
      (newCommandLogger ''agent'' ''cmd''))) =
   [\<lparr>Entry_CommandId = ''cmd'', Entry_Level = ''info'', Entry_Message = ''a'', Entry_TimestampMs = 1\<rparr>,
    \<lparr>Entry_CommandId = ''cmd'', Entry_Level = ''error'', Entry_Message = ''b'', Entry_TimestampMs = 2\<rparr>]"
proof -
  let ?ops = "[LogLine ''info'' ''a'' 1, TimerFires, LogLine ''error'' ''b'' 2, CloseLogger, LogLine ''info'' ''c'' 3]"
  have "lines_of (newCommandLogger ''agent'' ''cmd'') ?ops =
   [\<lparr>Entry_CommandId = ''cmd'', Entry_Level = ''info'', Entry_Message = ''a'', Entry_TimestampMs = 1\<rparr>,
    \<lparr>Entry_CommandId = ''cmd'', Entry_Level = ''error'', Entry_Message = ''b'', Entry_TimestampMs = 2\<rparr>]"
    by code_simp
  moreover have "CloseLogger \<in> set ?ops" by simp
  ultimately show ?thesis
    using logger_hands_over_every_line [of ?ops "''agent''" "''cmd''"] by simp
qed

end
