(* ===== verification/PgControl.thy ===== *)
theory PgControl
  imports PgHba PgObjects "HOL-Library.AList"
begin

text \<open>
  \<open>internal/postgres/postgres.go\<close>: creating, starting, stopping, cloning and promoting the instance and writing its
  configuration. A configuration map is an association list with distinct keys. The deadline of a context
  shows as an error of the call it cuts short.
\<close>

section \<open>Finding an installation\<close>

definition plain_cmd :: "string \<Rightarrow> string list \<Rightarrow> Process" where
  "plain_cmd name args = \<lparr>Proc_Path = name, Proc_Args = args, Proc_Env = []\<rparr>"

definition version_of :: "string \<Rightarrow> string option act" where
  "version_of name = do {
     r \<leftarrow> runStreamingCmd (plain_cmd name [''--version'']);
     let ver = TrimSpace (fst r);
     State_Monad.return (if snd r = None \<and> ver \<noteq> [] then Some ver else None)
   }"

definition DetectInstallation :: "(bool \<times> string) act" where
  "DetectInstallation = do {
     a \<leftarrow> version_of ''pg_config'';
     (case a of
        Some ver \<Rightarrow> State_Monad.return (True, ver)
      | None \<Rightarrow> do {
          b \<leftarrow> version_of ''postgres'';
          State_Monad.return (case b of Some ver \<Rightarrow> (True, ver) | None \<Rightarrow> (False, []))
        })
   }"

section \<open>Configuration files\<close>

definition includeFileName :: string where
  "includeFileName = ''skylex.conf.include''"

definition single_quoted :: "string \<Rightarrow> string" where
  "single_quoted s = [CHR 0x27] @ s @ [CHR 0x27]"

definition includeDirective :: string where
  "includeDirective = ''include_if_exists = '' @ single_quoted includeFileName"

definition text_lines :: "string list \<Rightarrow> string" where
  "text_lines ls = concat (map (\<lambda>l. l @ newline) ls)"

definition conf_head :: "Instance \<Rightarrow> string list" where
  "conf_head p = [includeDirective, [], ''listen_addresses = '' @ single_quoted ''*'', ''port = '' @ dec (Inst_Port p),
     ''unix_socket_directories = '' @ single_quoted (Inst_DataDir p), ''max_connections = 200'', ''shared_buffers = 128MB'',
     ''wal_level = replica'', ''max_wal_senders = 10'', ''max_replication_slots = 10'', ''wal_keep_size = 1024'', ''hot_standby = on'']"

definition conf_logging :: "string list" where
  "conf_logging = [''log_directory = '' @ single_quoted ''pg_log'', ''log_filename = '' @ single_quoted ''postgresql-%a.log'',
     ''log_truncate_on_rotation = on'', ''log_rotation_age = 1d'', ''log_rotation_size = 0'', ''logging_collector = on'']"

definition writePostgresqlConf :: "Instance \<Rightarrow> unit res act" where
  "writePostgresqlConf p = os_WriteFile (data_path p ''postgresql.conf'') (text_lines (conf_head p @ conf_logging))"

definition WriteSyncReplicationConf :: "Instance \<Rightarrow> unit res act" where
  "WriteSyncReplicationConf p = os_WriteFile (data_path p ''postgresql.conf'')
     (text_lines (conf_head p @ [''synchronous_commit = on'', ''synchronous_standby_names = '' @ single_quoted ''skylex_replica'']
        @ conf_logging))"

definition writePgHBAConf :: "Instance \<Rightarrow> unit res act" where
  "writePgHBAConf p = os_WriteFile (data_path p ''pg_hba.conf'') (text_lines [[],
     ''local   all             all                                     scram-sha-256'',
     ''host    all             all             127.0.0.1/32            scram-sha-256'',
     ''host    all             all             ::1/128                 scram-sha-256'',
     CHR 0x09 # ''host    all             all             0.0.0.0/0               scram-sha-256'',
     CHR 0x09 # ''host    replication     all             0.0.0.0/0               scram-sha-256''])"

definition standby_text :: "Instance \<Rightarrow> string \<Rightarrow> int \<Rightarrow> string" where
  "standby_text p primaryHost primaryPort = text_lines
     [''primary_conninfo = '' @ single_quoted (''host='' @ primaryHost @ '' port='' @ dec primaryPort @ '' user='' @ Inst_ReplUser p
        @ '' password='' @ Inst_ReplPass p @ '' application_name=skylex_replica''),
      ''primary_slot_name = '' @ single_quoted ''skylex_replica'']"

definition UpdateStandbySignal :: "Instance \<Rightarrow> string \<Rightarrow> int \<Rightarrow> unit res act" where
  "UpdateStandbySignal p primaryHost primaryPort =
     os_WriteFile (data_path p ''standby.signal'') (standby_text p primaryHost primaryPort)"

definition writeStandbySignal :: "Instance \<Rightarrow> unit res act" where
  "writeStandbySignal p = UpdateStandbySignal p ''primary'' (Inst_Port p)"

definition IsReplicating :: "Instance \<Rightarrow> bool act" where
  "IsReplicating p = do { r \<leftarrow> os_Stat (data_path p ''standby.signal''); State_Monad.return (\<not> isl r) }"

definition ignore :: "('e + 'a) act \<Rightarrow> unit act" where
  "ignore m = do { _ \<leftarrow> m; State_Monad.return () }"

definition removeRecoveryMarkers :: "Instance \<Rightarrow> unit act" where
  "removeRecoveryMarkers p = for_all_do [''standby.signal'', ''standby.signal.backup'', ''recovery.conf'', ''recovery.conf.backup'']
     (\<lambda>name. ignore (os_Remove (data_path p name)))"

section \<open>Creating the data directory\<close>

text \<open>The password file; what follows a failure removes it. The second component is the deferred cleanup's path.\<close>

definition writeInitPasswordFile :: "Instance \<Rightarrow> string res act" where
  "writeInitPasswordFile p = try_do os_CreateTemp (\<lambda>e. Inl (wrap ''create initdb password file'' e)) (\<lambda>name.
     let undo = (\<lambda>what e. do { _ \<leftarrow> ignore (os_Remove name); State_Monad.return (Inl (wrap what e)) })
     in do {
       c \<leftarrow> os_try;
       (case c of Inl e \<Rightarrow> undo ''secure initdb password file'' e
        | Inr _ \<Rightarrow> do {
            w \<leftarrow> os_WriteFile name (Inst_ReplPass p @ newline);
            (case w of Inl e \<Rightarrow> undo ''write initdb password file'' e
             | Inr _ \<Rightarrow> do {
                 f \<leftarrow> os_try;
                 (case f of Inl e \<Rightarrow> undo ''close initdb password file'' e
                  | Inr _ \<Rightarrow> State_Monad.return (Inr name))
               })
          })
     })"

definition initdb_cmd :: "Instance \<Rightarrow> string \<Rightarrow> Process" where
  "initdb_cmd p passwordFile = pgCmd p ''initdb'' [''-D'', pgDataDir p, ''--username'', Inst_Superuser p, ''--auth'', ''scram-sha-256'',
     ''--pwfile'', passwordFile]"

definition initdb_body :: "Instance \<Rightarrow> string \<Rightarrow> unit res act" where
  "initdb_body p passwordFile =
     try_do (must_run ''initdb failed'' (initdb_cmd p passwordFile)) Inl (\<lambda>_.
     try_do (writePostgresqlConf p) (\<lambda>e. Inl (wrap ''write postgresql.conf'' e)) (\<lambda>_.
     try_do (writePgHBAConf p) (\<lambda>e. Inl (wrap ''write pg_hba.conf'' e)) (\<lambda>_.
     State_Monad.return (Inr ()))))"

definition InitDB :: "Instance \<Rightarrow> unit res act" where
  "InitDB p = do {
     init \<leftarrow> IsInitialized p;
     if init then State_Monad.return (Inr ())
     else if docker_of p \<noteq> None
     then State_Monad.return (Inl ''postgresql container is not initialized; check Docker provisioning logs'')
     else try_do os_try (\<lambda>e. Inl (wrap ''create data dir'' e)) (\<lambda>_.
       try_do (writeInitPasswordFile p) Inl (\<lambda>passwordFile. do {
         r \<leftarrow> initdb_body p passwordFile;
         _ \<leftarrow> ignore (os_Remove passwordFile);
         State_Monad.return r
       }))
   }"

section \<open>Starting and stopping\<close>

definition maxStartupLogBytes :: nat where
  "maxStartupLogBytes = 16 * 1024"

definition readLastBytes :: "string \<Rightarrow> nat \<Rightarrow> (fs_error + string) act" where
  "readLastBytes path limit = do {
     r \<leftarrow> os_ReadFile path;
     State_Monad.return (map_sum id (\<lambda>content. drop (length content - limit) content) r)
   }"

text \<open>The most recently modified file; \<open>newest\<close> is empty before the first one.\<close>

fun newest_entry :: "string \<Rightarrow> DirEntry list \<Rightarrow> string \<Rightarrow> Time \<Rightarrow> string" where
  "newest_entry dir [] newest newestMod = newest"
| "newest_entry dir (entry # entries) newest newestMod = (case De_ModTime entry of
      None \<Rightarrow> newest_entry dir entries newest newestMod
    | Some modified \<Rightarrow>
        if \<not> De_IsDir entry \<and> (newest = [] \<or> newestMod < modified)
        then newest_entry dir entries (filepath_Join dir (De_Name entry)) modified
        else newest_entry dir entries newest newestMod)"

definition latestLogFile :: "string \<Rightarrow> string act" where
  "latestLogFile dir = do {
     r \<leftarrow> os_ReadDir dir;
     State_Monad.return (case r of Inl _ \<Rightarrow> [] | Inr entries \<Rightarrow> newest_entry dir entries [] zero_time)
   }"

definition log_part :: "string \<Rightarrow> string \<Rightarrow> string act" where
  "log_part what path = do {
     r \<leftarrow> readLastBytes path maxStartupLogBytes;
     State_Monad.return (case r of
        Inr content \<Rightarrow> if content \<noteq> [] then newline @ what @ '' log ('' @ path @ ''):'' @ newline @ TrimSpace content else []
      | Inl _ \<Rightarrow> [])
   }"

definition startupLogSnippet :: "string \<Rightarrow> string act" where
  "startupLogSnippet path = do {
     a \<leftarrow> log_part ''startup'' path;
     collectorPath \<leftarrow> latestLogFile (filepath_Join (filepath_Dir path) ''pg_log'');
     b \<leftarrow> (if collectorPath \<noteq> [] then log_part ''collector'' collectorPath else State_Monad.return []);
     State_Monad.return (a @ b)
   }"

definition refresh_or :: "Instance \<Rightarrow> bool \<Rightarrow> string \<Rightarrow> (unit \<Rightarrow> unit res act) \<Rightarrow> unit res act" where
  "refresh_or p reload what k = try_do (refreshManagedHBAPrefix p reload) (\<lambda>e. Inl (wrap what e)) k"

definition docker_run_args :: "Instance \<Rightarrow> DockerRuntime \<Rightarrow> string list" where
  "docker_run_args p d = [''run'', ''-d'', ''--name'', Dock_ContainerName d, ''--restart'', ''unless-stopped'',
     ''-p'', dec (Inst_Port p) @ '':5432'', ''-e'', ''POSTGRES_USER='' @ Inst_Superuser p,
     ''-e'', ''POSTGRES_PASSWORD='' @ Inst_ReplPass p,
     ''-v'', filepath_Clean (Inst_DataDir p) @ '':/var/lib/postgresql/data'', Dock_Image d]"

text \<open>Starting the container by its name, and creating it when that fails.\<close>

definition start_container :: "Instance \<Rightarrow> DockerRuntime \<Rightarrow> unit res act" where
  "start_container p d = do {
     r \<leftarrow> runStreamingCmd (docker_cmd [''start'', Dock_ContainerName d]);
     if snd r = None then refresh_or p True ''refresh managed hba prefix after docker start'' finish_ok
     else try_do (must_run ''docker run failed'' (docker_cmd (docker_run_args p d))) Inl (\<lambda>_.
       refresh_or p True ''refresh managed hba prefix after docker run'' finish_ok)
   }"

definition start_docker :: "Instance \<Rightarrow> DockerRuntime \<Rightarrow> unit res act" where
  "start_docker p d =
     (if Dock_ComposeFile d \<noteq> [] then do {
        r \<leftarrow> runStreamingCmd (dockerCompose d [''start'']);
        if snd r = None then refresh_or p True ''refresh managed hba prefix after compose start'' finish_ok
        else start_container p d
      } else start_container p d)"

definition start_native :: "Instance \<Rightarrow> unit res act" where
  "start_native p = do {
     let logPath = data_path p ''pg.log'';
     r \<leftarrow> runStreamingCmd (pgCmd p ''pg_ctl'' [''start'', ''-D'', pgDataDir p, ''-l'', logPath, ''-o'', ''-p '' @ dec (Inst_Port p),
            ''-w'', ''-t'', ''60'']);
     (case snd r of
        Some e \<Rightarrow> do {
          snippet \<leftarrow> startupLogSnippet logPath;
          State_Monad.return (Inl (''pg_ctl start failed: '' @ e @ newline @ fst r @ snippet))
        }
      | None \<Rightarrow> refresh_or p True ''refresh managed hba prefix after start'' finish_ok)
   }"

definition Start :: "Instance \<Rightarrow> unit res act" where
  "Start p = do {
     running \<leftarrow> IsRunning p;
     if running then refresh_or p True ''refresh managed hba prefix'' finish_ok
     else refresh_or p False ''refresh managed hba prefix'' (\<lambda>_. case docker_of p of
         Some d \<Rightarrow> start_docker p d
       | None \<Rightarrow> start_native p)
   }"

definition done_if_run :: "string \<Rightarrow> Process \<Rightarrow> unit res act" where
  "done_if_run what cmd = try_do (must_run what cmd) Inl (\<lambda>_. State_Monad.return (Inr ()))"

definition Stop :: "Instance \<Rightarrow> unit res act" where
  "Stop p = do {
     running \<leftarrow> IsRunning p;
     if \<not> running then State_Monad.return (Inr ())
     else (case docker_of p of
         Some d \<Rightarrow> do {
           stopped \<leftarrow> (if Dock_ComposeFile d \<noteq> [] then do {
               r \<leftarrow> runStreamingCmd (dockerCompose d [''stop'']);
               State_Monad.return (snd r = None)
             } else State_Monad.return False);
           if stopped then State_Monad.return (Inr ())
           else done_if_run ''docker stop failed'' (docker_cmd [''stop'', Dock_ContainerName d])
         }
       | None \<Rightarrow> done_if_run ''pg_ctl stop failed'' (pgCmd p ''pg_ctl'' [''stop'', ''-D'', pgDataDir p, ''-m'', ''fast'', ''-w'', ''-t'', ''60'']))
   }"

section \<open>Replication\<close>

definition basebackup_args :: "string \<Rightarrow> int \<Rightarrow> string \<Rightarrow> string \<Rightarrow> string list" where
  "basebackup_args primaryHost primaryPort replUser dataDir = [''-h'', primaryHost, ''-p'', dec primaryPort, ''-U'', replUser,
     ''-D'', dataDir, ''-P'', ''-v'', ''--wal-method'', ''stream'']"

definition basebackup_cmd :: "Instance \<Rightarrow> string \<Rightarrow> int \<Rightarrow> string \<Rightarrow> string \<Rightarrow> Process" where
  "basebackup_cmd p primaryHost primaryPort replUser replPass = (case docker_of p of
      None \<Rightarrow> (pgCmdWithPassword p replPass ''pg_basebackup'' (basebackup_args primaryHost primaryPort replUser (pgDataDir p)))
                \<lparr>Proc_Env := [''PGPASSWORD='' @ replPass]\<rparr>
    | Some d \<Rightarrow>
        let opts = [''run'', ''--rm'', ''-e'', ''PGPASSWORD='' @ replPass,
                    ''-v'', filepath_Clean (Inst_DataDir p) @ '':/var/lib/postgresql/data''];
            tail = ''pg_basebackup'' # basebackup_args primaryHost primaryPort replUser ''/var/lib/postgresql/data''
        in if Dock_ComposeFile d \<noteq> [] then dockerCompose d (opts @ [Dock_ServiceName d] @ tail)
           else docker_cmd (opts @ [Dock_Image d] @ tail))"

definition BaseBackup :: "Instance \<Rightarrow> string \<Rightarrow> int \<Rightarrow> string \<Rightarrow> string \<Rightarrow> unit res act" where
  "BaseBackup p primaryHost primaryPort replUser replPass = do {
     init \<leftarrow> IsInitialized p;
     if init then State_Monad.return (Inr ())
     else try_do (os_RemoveAll (Inst_DataDir p)) (\<lambda>e. Inl (wrap ''remove existing data dir'' e)) (\<lambda>_.
       try_do (must_run ''pg_basebackup failed'' (basebackup_cmd p primaryHost primaryPort replUser replPass)) Inl (\<lambda>_.
       try_do (writePostgresqlConf p) (\<lambda>e. Inl (wrap ''write postgresql.conf'' e)) (\<lambda>_.
       try_do (writeStandbySignal p) (\<lambda>e. Inl (wrap ''write standby signal'' e)) (\<lambda>_.
       State_Monad.return (Inr ())))))
   }"

definition psql :: "Instance \<Rightarrow> string list \<Rightarrow> Process" where
  "psql p args = pgCmd p ''psql'' (psql_args p @ args)"

definition CreateReplicationSlot :: "Instance \<Rightarrow> string \<Rightarrow> unit res act" where
  "CreateReplicationSlot p slotName = done_if_run ''create replication slot'' (psql p [''-v'', ''slot='' @ slotName,
     ''-c'', ''SELECT pg_create_physical_replication_slot(:'' @ single_quoted ''slot''
       @ '', true) WHERE NOT EXISTS (SELECT 1 FROM pg_replication_slots WHERE slot_name = :'' @ single_quoted ''slot'' @ '')''])"

definition pqQuoteLiteral :: "string \<Rightarrow> string" where
  "pqQuoteLiteral value = single_quoted (double_quotes value)"

definition create_user_sql :: "Instance \<Rightarrow> string" where
  "create_user_sql p = ''DO $$ BEGIN IF NOT EXISTS (SELECT FROM pg_catalog.pg_roles WHERE rolname = '' @ pqQuoteLiteral (Inst_ReplUser p)
     @ '') THEN EXECUTE format('' @ single_quoted ''CREATE ROLE %I WITH LOGIN REPLICATION ENCRYPTED PASSWORD %L'' @ '', ''
     @ pqQuoteLiteral (Inst_ReplUser p) @ '', '' @ pqQuoteLiteral (Inst_ReplPass p) @ ''); END IF; END $$''"

definition CreateReplicationUser :: "Instance \<Rightarrow> unit res act" where
  "CreateReplicationUser p = done_if_run ''create replication user'' (psql p [''-c'', create_user_sql p])"

definition HealthCheck :: "Instance \<Rightarrow> unit res act" where
  "HealthCheck p = done_if_run ''health check failed'' (psql p [''-c'', ''SELECT 1'', ''-t''])"

definition ask_psql :: "Instance \<Rightarrow> string \<Rightarrow> string \<Rightarrow> string res act" where
  "ask_psql p what stmt = try_do (must_run what (psql p [''-t'', ''-A'', ''-c'', stmt])) Inl (\<lambda>output.
     State_Monad.return (Inr (TrimSpace output)))"

definition GetReplicationLag :: "Instance \<Rightarrow> string res act" where
  "GetReplicationLag p = ask_psql p ''replication lag check'' (''SELECT COALESCE(pg_wal_lsn_diff(pg_current_wal_lsn(), replay_lsn), 0)''
     @ '' FROM pg_stat_replication WHERE application_name = '' @ single_quoted ''skylex_replica'')"

definition GetVersion :: "Instance \<Rightarrow> string res act" where
  "GetVersion p = ask_psql p ''version check'' ''SELECT version()''"

definition Promote :: "Instance \<Rightarrow> unit res act" where
  "Promote p = do {
     running \<leftarrow> IsRunning p;
     if \<not> running then State_Monad.return (Inl ''postgresql is not running, cannot promote'')
     else try_do (localConnect p) (\<lambda>e. Inl (wrap ''connect for promotion'' e)) (\<lambda>conn.
       try_do (query_bool conn ''SELECT pg_is_in_recovery()'' []) (\<lambda>e. Inl (wrap ''check recovery state before promote'' (redactPGError e))) (\<lambda>inRecovery.
       if \<not> inRecovery then do { _ \<leftarrow> removeRecoveryMarkers p; State_Monad.return (Inr ()) }
       else try_do (query_bool conn ''SELECT pg_promote(true, 60)'' []) (\<lambda>e. Inl (wrap ''sql promote failed'' (redactPGError e))) (\<lambda>promoted.
         if \<not> promoted then State_Monad.return (Inl ''sql promote did not complete within timeout'')
         else do { _ \<leftarrow> removeRecoveryMarkers p; State_Monad.return (Inr ()) })))
   }"

definition Rewind :: "Instance \<Rightarrow> string \<Rightarrow> int \<Rightarrow> string \<Rightarrow> string \<Rightarrow> unit res act" where
  "Rewind p targetHost targetPort replUser replPass =
     try_do (must_run ''pg_rewind failed'' (pgCmd p ''pg_rewind'' [''--target-pgdata'', pgDataDir p,
        ''--source-server'', ''host='' @ targetHost @ '' port='' @ dec targetPort @ '' user='' @ replUser @ '' password='' @ replPass
          @ '' dbname=postgres'', ''-P''])) Inl (\<lambda>_.
     try_do (UpdateStandbySignal p targetHost targetPort) (\<lambda>e. Inl (wrap ''update standby signal after rewind'' e)) (\<lambda>_.
     State_Monad.return (Inr ())))"

text \<open>
  The loop of \<open>WaitForReady\<close>: every round looks at the clock, asks the server and sleeps a second. \<open>fuel\<close> bounds
  the rounds; \<open>None\<close> says it was not enough. The context is one that is never cancelled.
\<close>

fun wait_ready :: "nat \<Rightarrow> Instance \<Rightarrow> Time \<Rightarrow> string \<Rightarrow> unit res option act" where
  "wait_ready 0 p deadline timeout = State_Monad.return None"
| "wait_ready (Suc fuel) p deadline timeout = do {
     now \<leftarrow> host_now;
     if now < deadline then do {
       r \<leftarrow> HealthCheck p;
       (case r of
          Inr _ \<Rightarrow> State_Monad.return (Some (Inr ()))
        | Inl _ \<Rightarrow> wait_ready fuel p deadline timeout)
     } else State_Monad.return (Some (Inl (''postgresql did not become ready within '' @ timeout)))
   }"

definition WaitForReady :: "nat \<Rightarrow> Instance \<Rightarrow> Time \<Rightarrow> string \<Rightarrow> unit res option act" where
  "WaitForReady fuel p timeout timeout_text = do {
     now \<leftarrow> host_now;
     wait_ready fuel p (now + timeout) timeout_text
   }"

section \<open>Cluster settings\<close>

type_synonym conf = "(string \<times> string) list"

definition setting_line :: "string \<times> string \<Rightarrow> string" where
  "setting_line kv = fst kv @ '' = '' @ snd kv @ newline"

definition render_include :: "Time \<Rightarrow> conf \<Rightarrow> string" where
  "render_include now settings = ''# Managed by Skylex. Last updated: '' @ format_rfc3339 now @ newline
     @ concat (map setting_line (sort_key fst settings))"

definition writeSkylexInclude :: "Instance \<Rightarrow> conf \<Rightarrow> unit res act" where
  "writeSkylexInclude p settings =
     (if settings = [] then os_WriteFile (data_path p includeFileName) []
      else do {
        now \<leftarrow> host_now;
        os_WriteFile (data_path p includeFileName) (render_include now settings)
      })"

definition restoreIncludeFile :: "string \<Rightarrow> string option \<Rightarrow> unit act" where
  "restoreIncludeFile path previous = (case previous of
      Some content \<Rightarrow> ignore (os_WriteFile path content)
    | None \<Rightarrow> ignore (os_Remove path))"

definition ensureIncludeDirective :: "Instance \<Rightarrow> unit res act" where
  "ensureIncludeDirective p = do {
     let confPath = data_path p ''postgresql.conf'';
     try_do (os_ReadFile confPath) (\<lambda>e. Inl (wrap ''read postgresql.conf'' (fs_error_text confPath e))) (\<lambda>content.
     if strings_Contains content includeDirective then State_Monad.return (Inr ())
     else os_WriteFile confPath (includeDirective @ newline @ content))
   }"

definition reloadableSettings :: "string set" where
  "reloadableSettings = {''work_mem''}"

definition ApplySettings :: "Instance \<Rightarrow> conf \<Rightarrow> string res act" where
  "ApplySettings p settings = do {
     init \<leftarrow> IsInitialized p;
     if \<not> init then State_Monad.return (Inl ''data directory is not initialized'')
     else try_do (writeSkylexInclude p settings) (\<lambda>e. Inl (wrap ''write include file'' e)) (\<lambda>_.
       try_do (ensureIncludeDirective p) (\<lambda>e. Inl (wrap ''ensure include directive'' e)) (\<lambda>_.
       if list_ex (\<lambda>kv. fst kv \<notin> reloadableSettings) settings
       then try_do (Stop p) (\<lambda>e. Inl (wrap ''stop before restart'' e)) (\<lambda>_.
            try_do (Start p) (\<lambda>e. Inl (wrap ''start after restart'' e)) (\<lambda>_.
            State_Monad.return (Inr ''restart'')))
       else try_do (Reload p) (\<lambda>e. Inl (wrap ''reload settings'' e)) (\<lambda>_.
            State_Monad.return (Inr ''reload''))))
   }"

end
