(* ===== verification/PgTls.thy ===== *)
theory PgTls
  imports PgControl
begin

text \<open>
  \<open>internal/postgres/tls.go\<close> and \<open>ApplyTLS\<close>: where the server's certificate comes from, the settings it needs and
  how they are put into force. Making an RSA key and a self-signed certificate (\<open>crypto/rsa\<close>, \<open>crypto/certificate_issuer\<close>,
  \<open>encoding/pem\<close>) and \<open>net.ParseIP\<close> are parameters.
\<close>

record ServerTLS =
  STLS_Mode :: string
  STLS_CertFile :: string
  STLS_KeyFile :: string
  STLS_CAFile :: string
  STLS_CertPEM :: string
  STLS_KeyPEM :: string
  STLS_CAPEM :: string
  STLS_Hosts :: "string list"

record CertificateTemplate =
  Tmpl_CommonName :: string
  Tmpl_NotBefore :: Time
  Tmpl_ValidFrom :: Time
  Tmpl_DNSNames :: "string list"
  Tmpl_IPAddresses :: "string list"

record certificate_issuer =
  issue :: "nat \<Rightarrow> CertificateTemplate \<Rightarrow> string + string \<times> string"
  parse_ip :: "string \<Rightarrow> bool"

definition TLSModeDisabled :: string where "TLSModeDisabled = ''disabled''"
definition TLSModePrefer :: string where "TLSModePrefer = ''prefer''"
definition TLSModeRequired :: string where "TLSModeRequired = ''required''"

section \<open>Validation\<close>

definition tls_bad_path :: "string \<Rightarrow> bool" where
  "tls_bad_path path \<longleftrightarrow> list_ex (\<lambda>c. c \<in> {CHR 0x00, CHR 0x0D, CHR 0x0A}) path \<or> \<not> strings_HasPrefix path ''/''"

definition check_path :: "string \<times> string \<Rightarrow> unit res act" where
  "check_path lp = (case lp of (label, path) \<Rightarrow>
     if path = [] then State_Monad.return (Inr ())
     else if tls_bad_path path then State_Monad.return (Inl (label @ '' must be an absolute path without control characters''))
     else try_do (os_Stat path) (\<lambda>e. Inl (label @ '' '' @ quote path @ '' is not readable: '' @ fs_error_text path e)) (\<lambda>_.
       State_Monad.return (Inr ())))"

text \<open>Go visits the three paths in any order; the model takes the one they are written in.\<close>

definition tls_Validate :: "ServerTLS \<Rightarrow> unit res act" where
  "tls_Validate c =
     (if STLS_Mode c \<notin> {TLSModeDisabled, TLSModePrefer, TLSModeRequired}
      then State_Monad.return (Inl (''invalid TLS mode '' @ quote (STLS_Mode c)))
      else if STLS_Mode c = TLSModeDisabled then State_Monad.return (Inr ())
      else if STLS_CertPEM c \<noteq> [] \<or> STLS_KeyPEM c \<noteq> []
      then State_Monad.return (if STLS_CertPEM c = [] \<or> STLS_KeyPEM c = []
             then Inl ''certificate and key secrets must both be present'' else Inr ())
      else if (STLS_CertFile c = []) \<noteq> (STLS_KeyFile c = [])
      then State_Monad.return (Inl (''cert_file and key_file must both be set for manual TLS certificates, ''
             @ ''or both left empty for Skylex-managed certificates''))
      else for_each [(''cert_file'', STLS_CertFile c), (''key_file'', STLS_KeyFile c), (''ca_file'', STLS_CAFile c)] check_path)"

section \<open>Certificates\<close>

definition tls_resolved :: "string \<Rightarrow> ServerTLS \<Rightarrow> ServerTLS \<times> bool" where
  "tls_resolved dataDir c =
     (if STLS_Mode c = TLSModeDisabled \<or> STLS_CertFile c \<noteq> [] \<and> STLS_KeyFile c \<noteq> [] then (c, False)
      else let managedDir = filepath_Join dataDir ''skylex-tls'';
               r = c\<lparr>STLS_CertFile := filepath_Join managedDir ''server.crt'', STLS_KeyFile := filepath_Join managedDir ''server.key''\<rparr>
           in (if STLS_CAPEM c \<noteq> [] then r\<lparr>STLS_CAFile := filepath_Join managedDir ''ca.crt''\<rparr> else r, True))"

definition canonicalCertificateHosts :: "string list \<Rightarrow> string list" where
  "canonicalCertificateHosts hosts = (
     let out = first_occurrences [] hosts
     in if ''localhost'' \<in> set out then out else out @ [''localhost''])"

definition firstCertificateHost :: "string list \<Rightarrow> string" where
  "firstCertificateHost hosts = (case canonicalCertificateHosts hosts of [] \<Rightarrow> ''localhost'' | host # _ \<Rightarrow> host)"

definition certificate_template :: "certificate_issuer \<Rightarrow> string list \<Rightarrow> Time \<Rightarrow> Time \<Rightarrow> CertificateTemplate" where
  "certificate_template x hosts now now' = (
     let names = canonicalCertificateHosts hosts;
         ips = filter (parse_ip x) names; dns = filter (\<lambda>h. \<not> parse_ip x h) names
     in \<lparr>Tmpl_CommonName = firstCertificateHost hosts, Tmpl_NotBefore = now - 5 * 60 * 10 ^ 9, Tmpl_ValidFrom = now',
         Tmpl_DNSNames = (if dns = [] \<and> ips = [] then [''localhost''] else dns), Tmpl_IPAddresses = ips\<rparr>)"

definition write_or :: "string \<Rightarrow> string \<Rightarrow> string \<Rightarrow> (unit \<Rightarrow> unit res act) \<Rightarrow> unit res act" where
  "write_or path content what k = try_do (os_WriteFile path content) (\<lambda>e. Inl (wrap what e)) k"

definition make_tls_dir :: "ServerTLS \<Rightarrow> (unit \<Rightarrow> unit res act) \<Rightarrow> unit res act" where
  "make_tls_dir c k = try_do os_try (\<lambda>e. Inl (wrap ''create managed tls directory'' e)) k"

text \<open>The certificate and the key that the server delivered.\<close>

definition write_delivered :: "ServerTLS \<Rightarrow> unit res act" where
  "write_delivered c = make_tls_dir c (\<lambda>_.
     write_or (STLS_CertFile c) (STLS_CertPEM c) ''write managed certificate'' (\<lambda>_.
     write_or (STLS_KeyFile c) (STLS_KeyPEM c) ''write managed private key'' (\<lambda>_.
     if STLS_CAPEM c \<noteq> []
     then write_or (filepath_Join (filepath_Dir (STLS_CertFile c)) ''ca.crt'') (STLS_CAPEM c) ''write managed ca certificate'' finish_ok
     else finish_ok ())))"

definition generate_certificate :: "certificate_issuer \<Rightarrow> ServerTLS \<Rightarrow> unit res act" where
  "generate_certificate x c = make_tls_dir c (\<lambda>_. do {
     now \<leftarrow> host_now;
     now' \<leftarrow> host_now;
     n \<leftarrow> tick;
     (case issue x n (certificate_template x (STLS_Hosts c) now now') of
        Inl e \<Rightarrow> State_Monad.return (Inl e)
      | Inr (certPEM, keyPEM) \<Rightarrow>
          write_or (STLS_CertFile c) certPEM ''write managed certificate'' (\<lambda>_.
          write_or (STLS_KeyFile c) keyPEM ''write managed private key'' finish_ok))
   })"

definition ensureManagedCertificate :: "certificate_issuer \<Rightarrow> ServerTLS \<Rightarrow> unit res act" where
  "ensureManagedCertificate x c =
     (if STLS_CertFile c = [] \<or> STLS_KeyFile c = [] then State_Monad.return (Inl ''managed certificate paths are empty'')
      else if STLS_CertPEM c \<noteq> [] \<or> STLS_KeyPEM c \<noteq> []
      then (if STLS_CertPEM c = [] \<or> STLS_KeyPEM c = [] then State_Monad.return (Inl ''certificate and key secrets must both be present'')
            else write_delivered c)
      else do {
        cert \<leftarrow> os_Stat (STLS_CertFile c);
        (case cert of
           Inl (FsError e) \<Rightarrow> State_Monad.return (Inl (wrap ''stat managed certificate'' e))
         | Inl NotExist \<Rightarrow> generate_certificate x c
         | Inr _ \<Rightarrow> do {
             key \<leftarrow> os_Stat (STLS_KeyFile c);
             (case key of Inr _ \<Rightarrow> State_Monad.return (Inr ()) | Inl _ \<Rightarrow> generate_certificate x c)
           })
      })"

section \<open>Settings\<close>

text \<open>One line of the include file: a comment, or a key and a value around the first equals sign.\<close>

definition parse_setting :: "string \<Rightarrow> (string \<times> string) option" where
  "parse_setting line = (
     let trimmed = TrimSpace line
     in if trimmed = [] \<or> strings_HasPrefix trimmed ''#'' then None
        else case strings_Index trimmed ''='' of
            None \<Rightarrow> None
          | Some i \<Rightarrow> Some (TrimSpace (take i trimmed), TrimSpace (drop (Suc i) trimmed)))"

definition parse_settings :: "string \<Rightarrow> conf" where
  "parse_settings content = fold (\<lambda>line settings. case parse_setting line of
       None \<Rightarrow> settings
     | Some (k, v) \<Rightarrow> AList.update k v settings) (strings_Split content (CHR 0x0A)) []"

definition readSkylexIncludeSettings :: "string \<Rightarrow> conf act" where
  "readSkylexIncludeSettings path =
     (if path = [] then State_Monad.return []
      else do {
        r \<leftarrow> os_ReadFile path;
        State_Monad.return (case r of Inl _ \<Rightarrow> [] | Inr content \<Rightarrow> parse_settings content)
      })"

definition quoteConfigValue :: "string \<Rightarrow> string" where
  "quoteConfigValue value = single_quoted (double_quotes value)"

definition tls_settings :: "ServerTLS \<Rightarrow> conf \<Rightarrow> conf" where
  "tls_settings c settings =
     (if STLS_Mode c = TLSModeDisabled
      then AList.update ''ssl'' ''off'' (AList.delete ''ssl_ca_file'' (AList.delete ''ssl_key_file'' (AList.delete ''ssl_cert_file'' settings)))
      else let on = AList.update ''ssl_key_file'' (quoteConfigValue (STLS_KeyFile c))
                 (AList.update ''ssl_cert_file'' (quoteConfigValue (STLS_CertFile c)) (AList.update ''ssl'' ''on'' settings))
           in if STLS_CAFile c \<noteq> [] then AList.update ''ssl_ca_file'' (quoteConfigValue (STLS_CAFile c)) on
              else AList.delete ''ssl_ca_file'' on)"

definition tls_Settings :: "ServerTLS \<Rightarrow> string \<Rightarrow> conf act" where
  "tls_Settings c existingPath = do {
     settings \<leftarrow> readSkylexIncludeSettings existingPath;
     State_Monad.return (tls_settings c settings)
   }"

section \<open>Applying\<close>

definition expected_ssl :: "string \<Rightarrow> string option" where
  "expected_ssl mode = (if mode = TLSModeDisabled then Some ''off''
     else if mode \<in> {TLSModePrefer, TLSModeRequired} then Some ''on'' else None)"

definition verifyTLSActive :: "Instance \<Rightarrow> string \<Rightarrow> unit res act" where
  "verifyTLSActive p mode =
     try_do (must_run ''show ssl'' (psql p [''-t'', ''-A'', ''-c'', ''SHOW ssl''])) Inl (\<lambda>output.
     State_Monad.return (case expected_ssl mode of
        None \<Rightarrow> Inl (''invalid TLS mode '' @ quote mode)
      | Some want \<Rightarrow>
          if strings_ToLower (TrimSpace output) = want then Inr ()
          else Inl (''expected ssl='' @ want @ '', got '' @ TrimSpace output)))"

definition restore_and_fail :: "string \<Rightarrow> string option \<Rightarrow> string \<Rightarrow> unit res act" where
  "restore_and_fail includePath previous msg = do {
     _ \<leftarrow> restoreIncludeFile includePath previous;
     State_Monad.return (Inl msg)
   }"

text \<open>What \<open>pg_ApplyTLS\<close> does once the include file is written; \<open>previous\<close> is the file before.\<close>

definition activate_tls :: "Instance \<Rightarrow> string \<Rightarrow> string option \<Rightarrow> string \<Rightarrow> unit res act" where
  "activate_tls p includePath previous mode = do {
     d \<leftarrow> ensureIncludeDirective p;
     (case d of
        Inl e \<Rightarrow> restore_and_fail includePath previous (wrap ''ensure include directive'' e)
      | Inr _ \<Rightarrow> do {
          r \<leftarrow> Reload p;
          (case r of
             Inl e \<Rightarrow> restore_and_fail includePath previous (wrap ''reload after tls apply failed; previous TLS configuration restored'' e)
           | Inr _ \<Rightarrow> do {
               v \<leftarrow> verifyTLSActive p mode;
               (case v of
                  Inr _ \<Rightarrow> State_Monad.return (Inr ())
                | Inl e \<Rightarrow> do {
                    _ \<leftarrow> restoreIncludeFile includePath previous;
                    _ \<leftarrow> ignore (Reload p);
                    State_Monad.return (Inl (wrap ''verify tls configuration failed; previous TLS configuration restored'' e))
                  })
             })
        })
   }"

definition pg_ApplyTLS :: "certificate_issuer \<Rightarrow> Instance \<Rightarrow> ServerTLS \<Rightarrow> unit res act" where
  "pg_ApplyTLS x p cfg = do {
     init \<leftarrow> IsInitialized p;
     if \<not> init then State_Monad.return (Inl ''data directory is not initialized'')
     else try_do (tls_Validate cfg) Inl (\<lambda>_.
       case tls_resolved (Inst_DataDir p) cfg of (resolvedCfg, managedCert) \<Rightarrow>
       try_do (if managedCert then ensureManagedCertificate x resolvedCfg else finish_ok ())
         (\<lambda>e. Inl (wrap ''ensure managed TLS certificate'' e)) (\<lambda>_.
       let includePath = data_path p includeFileName in
       try_do (read_previous ''read previous include file'' includePath) Inl (\<lambda>previousInclude. do {
         settings \<leftarrow> tls_Settings resolvedCfg includePath;
         try_do (writeSkylexInclude p settings) (\<lambda>e. Inl (wrap ''write tls include file'' e)) (\<lambda>_.
           activate_tls p includePath previousInclude (STLS_Mode resolvedCfg))
       })))
   }"

end
