(* ===== verification/Installers.thy ===== *)
theory Installers
  imports PgControl
begin

text \<open>
  \<open>internal/agent/installer\<close>: installing and removing PostgreSQL with the system's package manager or in a container.
  Commands need root: they run as they are for root and through \<open>sudo\<close> for another user. Lines for the log
  are left out.
\<close>

record InstallConfig =
  IC_Version :: string
  IC_DataDir :: string
  IC_BinDir :: string
  IC_Port :: int
  IC_Superuser :: string
  IC_Password :: string
  IC_ClusterID :: string

section \<open>Running commands\<close>

definition commandExists :: "string \<Rightarrow> bool act" where
  "commandExists name = do { r \<leftarrow> exec_LookPath name; State_Monad.return (r \<noteq> None) }"

definition installer_run :: "string \<Rightarrow> string list \<Rightarrow> unit res act" where
  "installer_run name args = do {
     r \<leftarrow> runStreamingCmd (plain_cmd name args);
     State_Monad.return (case snd r of
        None \<Rightarrow> Inr ()
      | Some e \<Rightarrow> Inl (name @ '' failed: '' @ e @ '': '' @ TrimSpace (fst r)))
   }"

definition privilegedCommand :: "int \<Rightarrow> bool \<Rightarrow> string \<Rightarrow> string list \<Rightarrow> string + string \<times> string list" where
  "privilegedCommand euid sudoExists name args =
     (if euid = 0 then Inr (name, args)
      else if \<not> sudoExists
      then Inl (name @ '' requires root privileges; install sudo or run skylex-agent with package installation privileges'')
      else Inr (''sudo'', [''-n'', name] @ args))"

definition runPrivileged :: "string \<Rightarrow> string list \<Rightarrow> unit res act" where
  "runPrivileged name args = do {
     sudo \<leftarrow> commandExists ''sudo'';
     h \<leftarrow> State_Monad.get;
     (case privilegedCommand (host_euid (host_environment h)) sudo name args of
        Inl e \<Rightarrow> State_Monad.return (Inl e)
      | Inr (cmdName, cmdArgs) \<Rightarrow> installer_run cmdName cmdArgs)
   }"

text \<open>\<open>output(ctx, name, "--version")\<close> when it succeeds with some text.\<close>

definition output_version :: "string \<Rightarrow> string option act" where
  "output_version name = do {
     r \<leftarrow> runStreamingCmd (plain_cmd name [''--version'']);
     let out = TrimSpace (fst r);
     State_Monad.return (if snd r = None \<and> out \<noteq> [] then Some out else None)
   }"

section \<open>Preflight\<close>

record PreflightResult =
  Pre_State :: string
  Pre_Version :: string
  Pre_DataDir :: string
  Pre_DataPresent :: bool
  Pre_DataInitialized :: bool

definition PreflightNothingFound :: string where "PreflightNothingFound = ''NOTHING_FOUND''"
definition PreflightPGExists :: string where "PreflightPGExists = ''PG_EXISTS''"

definition preflight_Details :: "PreflightResult \<Rightarrow> string" where
  "preflight_Details r =
     (if Pre_State r = PreflightNothingFound then ''no native PostgreSQL installation or data directory content found''
      else ''existing PostgreSQL/data detected: version='' @ (if Pre_Version r = [] then ''unknown'' else Pre_Version r)
        @ '' data_dir='' @ Pre_DataDir r @ '' data_present='' @ bool_text (Pre_DataPresent r)
        @ '' data_initialized='' @ bool_text (Pre_DataInitialized r))"

definition inspectDataDir :: "string \<Rightarrow> (bool \<times> bool) res act" where
  "inspectDataDir dataDir = (
     let clean = filepath_Clean dataDir
     in if clean = ''.'' \<or> clean = ''/'' then State_Monad.return (Inl (''unsafe data directory: '' @ quote dataDir))
        else do {
          v \<leftarrow> os_Stat (filepath_Join clean ''PG_VERSION'');
          (case v of
             Inr _ \<Rightarrow> State_Monad.return (Inr (True, True))
           | Inl (FsError e) \<Rightarrow> State_Monad.return (Inl (wrap ''inspect PG_VERSION'' e))
           | Inl NotExist \<Rightarrow> do {
               entries \<leftarrow> os_ReadDir clean;
               State_Monad.return (case entries of
                  Inl NotExist \<Rightarrow> Inr (False, False)
                | Inl (FsError e) \<Rightarrow> Inl (wrap ''inspect data dir'' e)
                | Inr es \<Rightarrow> Inr (es \<noteq> [], False))
             })
        })"

definition installed_version :: "string option act" where
  "installed_version = do {
     a \<leftarrow> output_version ''pg_config'';
     (case a of Some v \<Rightarrow> State_Monad.return (Some v) | None \<Rightarrow> output_version ''postgres'')
   }"

definition native_Preflight :: "InstallConfig \<Rightarrow> PreflightResult res act" where
  "native_Preflight cfg = do {
     version \<leftarrow> installed_version;
     try_do (inspectDataDir (IC_DataDir cfg)) Inl (\<lambda>(dataPresent, dataInitialized).
       State_Monad.return (Inr \<lparr>
         Pre_State = (if version \<noteq> None \<or> dataPresent then PreflightPGExists else PreflightNothingFound),
         Pre_Version = (case version of None \<Rightarrow> [] | Some v \<Rightarrow> v),
         Pre_DataDir = filepath_Clean (IC_DataDir cfg),
         Pre_DataPresent = dataPresent, Pre_DataInitialized = dataInitialized\<rparr>))
   }"

section \<open>Native packages\<close>

fun first_command :: "string list \<Rightarrow> string option act" where
  "first_command [] = State_Monad.return None"
| "first_command (name # names) = do {
     found \<leftarrow> commandExists name;
     if found then State_Monad.return (Some name) else first_command names
   }"

definition detectPackageManager :: "string res act" where
  "detectPackageManager = do {
     r \<leftarrow> first_command [''apt-get'', ''dnf'', ''apk'', ''zypper''];
     State_Monad.return (case r of
        Some pm \<Rightarrow> Inr pm
      | None \<Rightarrow> Inl ''no supported package manager found (supported: apt-get, dnf, apk, zypper)'')
   }"

definition commandAt :: "string \<Rightarrow> bool act" where
  "commandAt path = (if path = [] then State_Monad.return False else commandExists path)"

definition DetectNativeBinDir :: "string \<Rightarrow> string act" where
  "DetectNativeBinDir configuredBinDir = do {
     configured \<leftarrow> (if configuredBinDir \<noteq> [] then commandAt (filepath_Join configuredBinDir ''postgres'') else State_Monad.return False);
     if configured then State_Monad.return configuredBinDir
     else do {
       a \<leftarrow> exec_LookPath ''postgres'';
       (case a of
          Some path \<Rightarrow> State_Monad.return (filepath_Dir path)
        | None \<Rightarrow> do {
            b \<leftarrow> exec_LookPath ''pg_ctl'';
            State_Monad.return (case b of Some path \<Rightarrow> filepath_Dir path | None \<Rightarrow> configuredBinDir)
          })
     }
   }"

definition DetectNativeVersion :: "string \<Rightarrow> string act" where
  "DetectNativeVersion fallback = do {
     a \<leftarrow> output_version ''pg_config'';
     (case a of
        Some out \<Rightarrow> State_Monad.return (strings_TrimPrefix out ''PostgreSQL '')
      | None \<Rightarrow> do {
          b \<leftarrow> output_version ''postgres'';
          State_Monad.return (case b of
             Some out \<Rightarrow> strings_TrimPrefix (strings_TrimPrefix out ''postgres (PostgreSQL) '') ''postgres ''
           | None \<Rightarrow> fallback)
        })
   }"

definition stopNativePostgres :: "InstallConfig \<Rightarrow> unit act" where
  "stopNativePostgres cfg = do {
     binDir \<leftarrow> DetectNativeBinDir (IC_BinDir cfg);
     stopped \<leftarrow> (if binDir = [] then State_Monad.return False
        else do {
          there \<leftarrow> commandAt (filepath_Join binDir ''pg_ctl'');
          if \<not> there then State_Monad.return False
          else do {
            r \<leftarrow> installer_run (filepath_Join binDir ''pg_ctl'')
                   [''stop'', ''-D'', filepath_Clean (IC_DataDir cfg), ''-m'', ''fast'', ''-w'', ''-t'', ''30''];
            State_Monad.return (\<not> isl r)
          }
        });
     if stopped then State_Monad.return ()
     else do {
       systemd \<leftarrow> commandExists ''systemctl'';
       if systemd then do {
         _ \<leftarrow> runPrivileged ''systemctl'' [''stop'', ''postgresql''];
         ignore (runPrivileged ''systemctl'' [''stop'', ''postgresql@'' @ IC_Version cfg @ ''-main''])
       } else State_Monad.return ()
     }
   }"

definition ensureDataDirWritable :: "string \<Rightarrow> unit res act" where
  "ensureDataDirWritable dataDir = (
     let clean = filepath_Clean dataDir
     in if clean = ''.'' \<or> clean = ''/'' \<or> \<not> strings_HasPrefix clean ''/''
        then State_Monad.return (Inl (''unsafe data directory: '' @ quote dataDir))
        else do {
          h \<leftarrow> State_Monad.get;
          try_do (runPrivileged ''install'' [''-d'', ''-o'', dec (host_euid (host_environment h)),
              ''-g'', dec (host_egid (host_environment h)), ''-m'', ''0700'', clean])
            (\<lambda>e. Inl (wrap ''create writable PostgreSQL data directory'' e)) finish_ok
        })"

definition install_packages :: "string \<Rightarrow> string \<Rightarrow> unit res act" where
  "install_packages pm version =
     (if pm = ''apt-get'' then try_do (runPrivileged ''apt-get'' [''update'']) Inl (\<lambda>_.
        runPrivileged ''apt-get'' [''install'', ''-y'', ''--no-install-recommends'', ''postgresql-'' @ version, ''postgresql-client-'' @ version])
      else if pm = ''dnf'' then runPrivileged ''dnf'' [''install'', ''-y'', ''postgresql'' @ version, ''postgresql'' @ version @ ''-server'']
      else if pm = ''apk'' then runPrivileged ''apk'' [''add'', ''--no-cache'', ''postgresql'' @ version, ''postgresql'' @ version @ ''-client'']
      else if pm = ''zypper''
      then runPrivileged ''zypper'' [''--non-interactive'', ''install'', ''postgresql'' @ version, ''postgresql'' @ version @ ''-server'']
      else State_Monad.return (Inl (''unsupported package manager: '' @ pm)))"

definition native_Install :: "InstallConfig \<Rightarrow> unit res act" where
  "native_Install cfg =
     try_do detectPackageManager Inl (\<lambda>pm.
     try_do (install_packages pm (IC_Version cfg)) Inl (\<lambda>_. do {
       _ \<leftarrow> stopNativePostgres cfg;
       ensureDataDirWritable (IC_DataDir cfg)
     }))"

definition purge_packages :: "string \<Rightarrow> string \<Rightarrow> unit res act" where
  "purge_packages pm version =
     (if pm = ''apt-get'' then runPrivileged ''apt-get'' [''purge'', ''-y'', ''postgresql-'' @ version, ''postgresql-client-'' @ version]
      else if pm = ''dnf'' then runPrivileged ''dnf'' [''remove'', ''-y'', ''postgresql'' @ version, ''postgresql'' @ version @ ''-server'']
      else if pm = ''apk'' then runPrivileged ''apk'' [''del'', ''postgresql'' @ version, ''postgresql'' @ version @ ''-client'']
      else if pm = ''zypper''
      then runPrivileged ''zypper'' [''--non-interactive'', ''remove'', ''postgresql'' @ version, ''postgresql'' @ version @ ''-server'']
      else State_Monad.return (Inl (''unsupported package manager: '' @ pm)))"

definition protected_dirs :: "string set" where
  "protected_dirs = {''/'', ''.'', '''', ''/etc'', ''/home'', ''/tmp'', ''/usr'', ''/var'', ''/var/lib'', ''/var/lib/postgresql''}"

definition removeDataDir :: "string \<Rightarrow> unit res act" where
  "removeDataDir dataDir = (
     let clean = filepath_Clean dataDir
     in if \<not> strings_HasPrefix clean ''/'' \<or> clean \<in> protected_dirs
        then State_Monad.return (Inl (''refusing to remove unsafe data directory '' @ quote dataDir))
        else runPrivileged ''rm'' [''-rf'', ''--'', clean])"

definition native_Purge :: "InstallConfig \<Rightarrow> unit res act" where
  "native_Purge cfg = try_do detectPackageManager Inl (\<lambda>pm. do {
     _ \<leftarrow> stopNativePostgres cfg;
     try_do (purge_packages pm (IC_Version cfg)) Inl (\<lambda>_. removeDataDir (IC_DataDir cfg))
   })"

section \<open>Docker\<close>

definition dockerReady :: "bool act" where
  "dockerReady = do {
     r \<leftarrow> runStreamingCmd (plain_cmd ''docker'' [''version'', ''--format'', ''{{.Server.Version}}'']);
     State_Monad.return (snd r = None)
   }"

definition installDockerEngine :: "string \<Rightarrow> unit res act" where
  "installDockerEngine pm =
     (if pm = ''apt-get'' then try_do (installer_run ''apt-get'' [''update'']) Inl (\<lambda>_.
        installer_run ''apt-get'' [''install'', ''-y'', ''--no-install-recommends'', ''docker.io''])
      else if pm = ''dnf'' then do {
        r \<leftarrow> installer_run ''dnf'' [''install'', ''-y'', ''docker''];
        if isl r then installer_run ''dnf'' [''install'', ''-y'', ''moby-engine''] else State_Monad.return (Inr ())
      }
      else if pm = ''apk'' then installer_run ''apk'' [''add'', ''--no-cache'', ''docker'']
      else if pm = ''zypper'' then installer_run ''zypper'' [''--non-interactive'', ''install'', ''docker'']
      else State_Monad.return (Inl (''unsupported package manager: '' @ pm)))"

datatype docker_error = DockerNeedsRestart | DockerError string

definition docker_error_text :: "docker_error \<Rightarrow> string" where
  "docker_error_text e = (case e of
      DockerNeedsRestart \<Rightarrow> ''docker setup completed; restart the skylex-agent service to apply docker group membership''
    | DockerError msg \<Rightarrow> msg)"

definition docker_group_step :: "(docker_error + unit) act" where
  "docker_group_step = do {
     ready \<leftarrow> dockerReady;
     if ready then State_Monad.return (Inr ())
     else do {
       h \<leftarrow> State_Monad.get;
       (case host_user (host_environment h) of
          Inl e \<Rightarrow> State_Monad.return (Inl (DockerError (wrap ''detect current user'' e)))
        | Inr username \<Rightarrow>
            if username = ''root''
            then State_Monad.return (Inl (DockerError ''docker engine is present but the daemon is not reachable; check docker service status''))
            else do {
              _ \<leftarrow> installer_run ''usermod'' [''-aG'', ''docker'', username];
              ready' \<leftarrow> dockerReady;
              State_Monad.return (if ready' then Inr () else Inl DockerNeedsRestart)
            })
     }
   }"

definition install_engine_if_missing :: "(docker_error + unit) act" where
  "install_engine_if_missing = do {
     binaryExists \<leftarrow> commandExists ''docker'';
     if binaryExists then State_Monad.return (Inr ())
     else try_do detectPackageManager (\<lambda>e. Inl (DockerError (wrap ''cannot install docker engine'' e))) (\<lambda>pm.
       try_do (installDockerEngine pm) (\<lambda>e. Inl (DockerError (wrap ''install docker engine'' e))) (\<lambda>_.
       State_Monad.return (Inr ())))
   }"

definition EnsureDockerEngine :: "(docker_error + unit) act" where
  "EnsureDockerEngine = do {
     ready \<leftarrow> dockerReady;
     h \<leftarrow> State_Monad.get;
     if ready then State_Monad.return (Inr ())
     else if host_os (host_environment h) \<noteq> ''linux''
     then State_Monad.return (Inl (DockerError ''automatic docker engine installation is only supported on Linux''))
     else try_do install_engine_if_missing Inl (\<lambda>_. do {
       systemd \<leftarrow> commandExists ''systemctl'';
       _ \<leftarrow> (if systemd then do {
              _ \<leftarrow> installer_run ''systemctl'' [''enable'', ''docker''];
              installer_run ''systemctl'' [''start'', ''docker'']
            } else State_Monad.return (Inr ()));
       docker_group_step
     })
   }"

definition ComposeDir :: "string \<Rightarrow> string" where
  "ComposeDir clusterID = filepath_Clean (join ''/'' (filter (\<lambda>e. e \<noteq> []) [''/etc'', ''skylex'', ''clusters'', clusterID]))"

definition ComposeFilePath :: "string \<Rightarrow> string" where
  "ComposeFilePath clusterID = filepath_Join (ComposeDir clusterID) ''docker-compose.yaml''"

definition DockerContainerName :: "string \<Rightarrow> string" where
  "DockerContainerName clusterID = ''skylex-postgres-'' @ take 12 clusterID"

definition em_dash :: string where
  "em_dash = [CHR 0xE2, CHR 0x80, CHR 0x94]"

definition compose_content :: "InstallConfig \<Rightarrow> string" where
  "compose_content cfg = text_lines [''# Managed by Skylex '' @ em_dash @ '' do not edit manually.'', ''services:'', ''  postgres:'',
     ''    image: postgres:'' @ IC_Version cfg, ''    container_name: '' @ DockerContainerName (IC_ClusterID cfg),
     ''    restart: unless-stopped'', ''    ports:'', ''      - '' @ [CHR 0x22] @ dec (IC_Port cfg) @ '':5432'' @ [CHR 0x22],
     ''    environment:'', ''      POSTGRES_USER: '' @ IC_Superuser cfg, ''      POSTGRES_PASSWORD: '' @ IC_Password cfg,
     ''    volumes:'', ''      - '' @ filepath_Clean (IC_DataDir cfg) @ '':/var/lib/postgresql/data'']"

definition docker_Install :: "InstallConfig \<Rightarrow> (docker_error + unit) act" where
  "docker_Install cfg =
     (if IC_ClusterID cfg = [] then State_Monad.return (Inl (DockerError ''cluster_id is required for docker install''))
      else try_do EnsureDockerEngine (\<lambda>e. Inl (case e of
          DockerNeedsRestart \<Rightarrow> DockerNeedsRestart
        | DockerError msg \<Rightarrow> DockerError (wrap ''ensure docker engine'' msg))) (\<lambda>_.
      let err = (\<lambda>what e. Inl (DockerError (wrap what e))); composeFile = ComposeFilePath (IC_ClusterID cfg)
      in try_do os_try (err ''create data dir'') (\<lambda>_.
         try_do os_try (err ''create compose dir'') (\<lambda>_.
         try_do (os_WriteFile composeFile (compose_content cfg)) (err ''write compose file'') (\<lambda>_.
         try_do (installer_run ''docker'' [''pull'', ''postgres:'' @ IC_Version cfg]) (\<lambda>e. Inl (DockerError e)) (\<lambda>_.
         try_do (installer_run ''docker'' [''compose'', ''-f'', composeFile, ''up'', ''-d'']) (\<lambda>e. Inl (DockerError e)) (\<lambda>_.
         State_Monad.return (Inr ()))))))))"

definition docker_Purge :: "InstallConfig \<Rightarrow> unit res act" where
  "docker_Purge cfg = do {
     there \<leftarrow> commandExists ''docker'';
     if \<not> there then State_Monad.return (Inl ''docker binary not found'')
     else if IC_ClusterID cfg = [] then State_Monad.return (Inl ''cluster_id is required for docker purge'')
     else do {
       let composeFile = ComposeFilePath (IC_ClusterID cfg);
       _ \<leftarrow> installer_run ''docker'' [''compose'', ''-f'', composeFile, ''down'', ''-v''];
       _ \<leftarrow> installer_run ''docker'' [''rm'', ''-f'', DockerContainerName (IC_ClusterID cfg)];
       _ \<leftarrow> os_Remove composeFile;
       State_Monad.return (Inr ())
     }
   }"

end
