(* ===== verification/AgentCommands.thy ===== *)
theory AgentCommands
  imports PgTls Installers AgentLog AgentResults
begin

text \<open>
  \<open>internal/agent\<close>: the state of the agent and what it does with a command (\<open>agent.go\<close>, \<open>role_commands.go\<close>,
  \<open>database_commands.go\<close>, \<open>extension_commands.go\<close>, \<open>config.go\<close>). A command ends with a flag, an output and an error
  text. The lines a command logs are left out; the logger is in \<open>AgentLog\<close>.
\<close>

section \<open>State\<close>

record AgentConfig =
  AC_ServerAddr :: string
  AC_AgentToken :: string
  AC_Hostname :: string
  AC_Address :: string
  AC_Port :: int
  AC_Labels :: Labels
  AC_HeartbeatInterval :: Time
  AC_LogLevel :: string
  AC_LogFormat :: string
  AC_LogFile :: string
  AC_PGDataDir :: string
  AC_PGBinDir :: string
  AC_PGVersion :: string
  AC_PGSuperuser :: string
  AC_PGReplUser :: string
  AC_PGReplPass :: string
  AC_PGBackRestPath :: string

definition DefaultConfig :: AgentConfig where
  "DefaultConfig = \<lparr>AC_ServerAddr = ''localhost:9090'', AC_AgentToken = [], AC_Hostname = [], AC_Address = [], AC_Port = 5432,
     AC_Labels = Map.empty, AC_HeartbeatInterval = 10 * 10 ^ 9, AC_LogLevel = ''info'', AC_LogFormat = ''json'',
     AC_LogFile = ''/var/log/skylex/agent.log'', AC_PGDataDir = ''/var/lib/postgresql/data'',
     AC_PGBinDir = ''/usr/lib/postgresql/16/bin'', AC_PGVersion = ''16'', AC_PGSuperuser = ''postgres'',
     AC_PGReplUser = ''replicator'', AC_PGReplPass = ''replicator'', AC_PGBackRestPath = ''/usr/bin/pgbackrest''\<rparr>"

record Agent =
  Ag_Config :: AgentConfig
  Ag_AgentID :: string
  Ag_NodeID :: string
  Ag_Pg :: Instance
  Ag_InstallationState :: PInstallationState
  Ag_ConflictDetails :: string
  Ag_HeartbeatLatencyMS :: int
  Ag_Shutdown :: bool

text \<open>\<open>New\<close>, with the host name already in the configuration.\<close>

definition agent_New :: "AgentConfig \<Rightarrow> Agent" where
  "agent_New cfg = \<lparr>Ag_Config = cfg, Ag_AgentID = [], Ag_NodeID = [],
     Ag_Pg = postgres_New (AC_PGDataDir cfg) (AC_PGBinDir cfg) (AC_PGVersion cfg) (AC_Port cfg) (AC_PGSuperuser cfg)
       (AC_PGReplUser cfg) (AC_PGReplPass cfg),
     Ag_InstallationState = INSTALLATION_STATE_PENDING_PREFLIGHT, Ag_ConflictDetails = [], Ag_HeartbeatLatencyMS = 0,
     Ag_Shutdown = False\<rparr>"

type_synonym outcome = "bool \<times> string \<times> string"

text \<open>A command handler: the agent may change, on the host things happen.\<close>

type_synonym command_act = "(Agent \<times> outcome) act"

definition succeeded :: "Agent \<Rightarrow> string \<Rightarrow> command_act" where
  "succeeded a output = State_Monad.return (a, True, output, [])"

definition failed :: "Agent \<Rightarrow> string \<Rightarrow> command_act" where
  "failed a msg = State_Monad.return (a, False, [], msg)"

text \<open>The last step of a command: its error in a text, or its output.\<close>

definition finish :: "'b res act \<Rightarrow> Agent \<Rightarrow> (string \<Rightarrow> string) \<Rightarrow> ('b \<Rightarrow> string) \<Rightarrow> command_act" where
  "finish m a onerr output = do {
     r \<leftarrow> m;
     (case r of Inl e \<Rightarrow> failed a (onerr e) | Inr b \<Rightarrow> succeeded a (output b))
   }"

definition setInstallationReport :: "PInstallationState \<Rightarrow> string \<Rightarrow> Agent \<Rightarrow> Agent" where
  "setInstallationReport st details a = a\<lparr>Ag_InstallationState := st, Ag_ConflictDetails := details\<rparr>"

definition set_pg :: "(Instance \<Rightarrow> Instance) \<Rightarrow> Agent \<Rightarrow> Agent" where
  "set_pg f a = a\<lparr>Ag_Pg := f (Ag_Pg a)\<rparr>"

definition installConfig :: "Agent \<Rightarrow> InstallConfig" where
  "installConfig a = (let c = Ag_Config a in \<lparr>IC_Version = AC_PGVersion c, IC_DataDir = AC_PGDataDir c, IC_BinDir = AC_PGBinDir c,
     IC_Port = AC_Port c, IC_Superuser = AC_PGSuperuser c, IC_Password = AC_PGReplPass c, IC_ClusterID = []\<rparr>)"

section \<open>Payloads\<close>

text \<open>
  \<open>json.Unmarshal\<close> into a struct or a map: \<open>null\<close> sets nothing. A key names a field when it is equal to it up to
  the case of its letters; the last such entry counts.
\<close>

definition object_fields :: "payload \<Rightarrow> (string \<times> jval) list option" where
  "object_fields p = (case p of
      Json fs \<Rightarrow> Some fs
    | Text t \<Rightarrow> if t = ''null'' then Some [] else None)"

definition names_field :: "string \<Rightarrow> string \<Rightarrow> bool" where
  "names_field field key \<longleftrightarrow> fold_lit field key = Some []"

definition field_value :: "string \<Rightarrow> (string \<times> jval) list \<Rightarrow> jval option" where
  "field_value field fs = map_option snd (List.find (\<lambda>kv. names_field field (fst kv)) (rev fs))"

definition str_field :: "string \<Rightarrow> (string \<times> jval) list \<Rightarrow> string option" where
  "str_field field fs = (case field_value field fs of None \<Rightarrow> Some [] | Some (JStr s) \<Rightarrow> Some s | Some _ \<Rightarrow> None)"

definition bool_field :: "string \<Rightarrow> (string \<times> jval) list \<Rightarrow> bool option" where
  "bool_field field fs = (case field_value field fs of None \<Rightarrow> Some False | Some (JBool b) \<Rightarrow> Some b | Some _ \<Rightarrow> None)"

definition list_field :: "string \<Rightarrow> (string \<times> jval) list \<Rightarrow> string list option" where
  "list_field field fs = (case field_value field fs of None \<Rightarrow> Some [] | Some (JList l) \<Rightarrow> Some l | Some _ \<Rightarrow> None)"

record roleCommandPayload =
  RCP_RoleName :: string
  RCP_RoleKind :: string
  RCP_PasswordSecretKey :: string
  RCP_AllowPromote :: bool

definition decode_role :: "payload \<Rightarrow> roleCommandPayload option" where
  "decode_role p = do {
     fs \<leftarrow> object_fields p;
     name \<leftarrow> str_field ''role_name'' fs;
     kind \<leftarrow> str_field ''role_kind'' fs;
     key \<leftarrow> str_field ''password_secret_key'' fs;
     promote \<leftarrow> bool_field ''allow_promote'' fs;
     Some \<lparr>RCP_RoleName = name, RCP_RoleKind = kind, RCP_PasswordSecretKey = key, RCP_AllowPromote = promote\<rparr>
   }"

record agentDatabasePayload =
  DCP_DatabaseName :: string
  DCP_OwnerRoleName :: string
  DCP_OwnerRoleKind :: string
  DCP_GrantRoleName :: string
  DCP_GrantRoleKind :: string
  DCP_AllowPromote :: bool

definition decode_database :: "payload \<Rightarrow> agentDatabasePayload option" where
  "decode_database p = do {
     fs \<leftarrow> object_fields p;
     name \<leftarrow> str_field ''database_name'' fs;
     owner \<leftarrow> str_field ''owner_role_name'' fs;
     ownerKind \<leftarrow> str_field ''owner_role_kind'' fs;
     grantee \<leftarrow> str_field ''grant_role_name'' fs;
     granteeKind \<leftarrow> str_field ''grant_role_kind'' fs;
     promote \<leftarrow> bool_field ''allow_promote'' fs;
     Some \<lparr>DCP_DatabaseName = name, DCP_OwnerRoleName = owner, DCP_OwnerRoleKind = ownerKind, DCP_GrantRoleName = grantee,
           DCP_GrantRoleKind = granteeKind, DCP_AllowPromote = promote\<rparr>
   }"

definition decode_hba :: "payload \<Rightarrow> (HBAPolicy \<times> bool) option" where
  "decode_hba p = do {
     fs \<leftarrow> object_fields p;
     admin \<leftarrow> list_field ''admin_cidrs'' fs;
     replication \<leftarrow> list_field ''replication_cidrs'' fs;
     application \<leftarrow> list_field ''application_cidrs'' fs;
     adminRoles \<leftarrow> list_field ''admin_roles'' fs;
     applicationRoles \<leftarrow> list_field ''application_roles'' fs;
     applicationDBs \<leftarrow> list_field ''application_databases'' fs;
     promote \<leftarrow> bool_field ''allow_promote'' fs;
     Some (\<lparr>Pol_AdminCIDRs = admin, Pol_ReplicationCIDRs = replication, Pol_ApplicationCIDRs = application,
            Pol_AdminRoles = adminRoles, Pol_ApplicationRoles = applicationRoles, Pol_ApplicationDBs = applicationDBs\<rparr>, promote)
   }"

record tlsCommandPayload =
  TCP_TLSMode :: string
  TCP_CertFile :: string
  TCP_KeyFile :: string
  TCP_CAFile :: string
  TCP_CertSecretKey :: string
  TCP_KeySecretKey :: string
  TCP_CACertSecretKey :: string
  TCP_CertHosts :: "string list"

definition decode_tls :: "payload \<Rightarrow> tlsCommandPayload option" where
  "decode_tls p = do {
     fs \<leftarrow> object_fields p;
     mode \<leftarrow> str_field ''tls_mode'' fs;
     cert \<leftarrow> str_field ''cert_file'' fs;
     key \<leftarrow> str_field ''key_file'' fs;
     ca \<leftarrow> str_field ''ca_file'' fs;
     certKey \<leftarrow> str_field ''cert_secret_key'' fs;
     keyKey \<leftarrow> str_field ''key_secret_key'' fs;
     caKey \<leftarrow> str_field ''ca_cert_secret_key'' fs;
     hosts \<leftarrow> list_field ''cert_hosts'' fs;
     Some \<lparr>TCP_TLSMode = mode, TCP_CertFile = cert, TCP_KeyFile = key, TCP_CAFile = ca, TCP_CertSecretKey = certKey,
           TCP_KeySecretKey = keyKey, TCP_CACertSecretKey = caKey, TCP_CertHosts = hosts\<rparr>
   }"

record extensionsCommandPayload =
  ECP_ClusterID :: string
  ECP_NodeID :: string
  ECP_Databases :: "string list"
  ECP_Enable :: "string list"
  ECP_Disable :: "string list"
  ECP_AllowPromote :: bool

definition decode_extensions :: "payload \<Rightarrow> extensionsCommandPayload option" where
  "decode_extensions p = do {
     fs \<leftarrow> object_fields p;
     c \<leftarrow> str_field ''cluster_id'' fs;
     n \<leftarrow> str_field ''node_id'' fs;
     dbs \<leftarrow> list_field ''databases'' fs;
     enable \<leftarrow> list_field ''enable'' fs;
     disable \<leftarrow> list_field ''disable'' fs;
     promote \<leftarrow> bool_field ''allow_promote'' fs;
     Some \<lparr>ECP_ClusterID = c, ECP_NodeID = n, ECP_Databases = dbs, ECP_Enable = enable, ECP_Disable = disable, ECP_AllowPromote = promote\<rparr>
   }"

text \<open>Into a \<open>map[string]string\<close> the keys are taken as they are.\<close>

fun decode_settings :: "(string \<times> jval) list \<Rightarrow> conf \<Rightarrow> conf option" where
  "decode_settings [] settings = Some settings"
| "decode_settings ((k, v) # fs) settings = (case v of
      JStr s \<Rightarrow> decode_settings fs (AList.update k s settings)
    | _ \<Rightarrow> None)"

text \<open>A decoded payload, or the command's text around the decoder's error.\<close>

definition with_payload :: "Agent \<Rightarrow> payload \<Rightarrow> 'p option \<Rightarrow> string \<Rightarrow> ('p \<Rightarrow> command_act) \<Rightarrow> command_act" where
  "with_payload a raw decoded what k = (case decoded of
      Some p \<Rightarrow> k p
    | None \<Rightarrow> do { h \<leftarrow> State_Monad.get; failed a (what @ '': '' @ unmarshal_error (host_environment h) raw) })"

definition secret_of :: "ProtoCommand \<Rightarrow> string \<Rightarrow> string" where
  "secret_of cmd key = (case PCmd_Secrets cmd key of None \<Rightarrow> [] | Some s \<Rightarrow> s)"

section \<open>Credentials\<close>

definition SkylexAdminRole :: string where "SkylexAdminRole = ''skylex_admin''"

definition applySkylexAdminCredentialsIfPresent :: "ProtoCommand \<Rightarrow> Agent \<Rightarrow> Agent" where
  "applySkylexAdminCredentialsIfPresent cmd a = (
     let secret = secret_of cmd ''skylex_admin_password''
     in if secret = [] then a else set_pg (SetSuperuserCredentials SkylexAdminRole secret) a)"

definition admin_credentials :: "ProtoCommand \<Rightarrow> (string \<times> string \<times> string) option" where
  "admin_credentials cmd = do {
     fs \<leftarrow> object_fields (PCmd_Payload cmd);
     user \<leftarrow> str_field ''postgres_admin_user'' fs;
     key \<leftarrow> str_field ''password_secret_key'' fs;
     key' \<leftarrow> str_field ''postgres_admin_secret_key'' fs;
     Some (user, key, key')
   }"

definition applyPostgresAdminCredentials :: "host_env \<Rightarrow> ProtoCommand \<Rightarrow> Agent \<Rightarrow> Agent res" where
  "applyPostgresAdminCredentials e cmd a =
     (if PCmd_Payload cmd = Text [] then Inr a
      else case admin_credentials cmd of
          None \<Rightarrow> Inl (wrap ''invalid credential payload'' (unmarshal_error e (PCmd_Payload cmd)))
        | Some (user, key, key') \<Rightarrow>
            let secretKey = (if key \<noteq> [] then key else if key' \<noteq> [] then key' else ''postgres_admin_password'');
                password = secret_of cmd secretKey
            in if user = [] \<or> password = [] then Inl ''PostgreSQL admin credentials are required''
               else Inr (set_pg (SetSuperuserCredentials user password) a))"

section \<open>Roles\<close>

definition key_or :: "string \<Rightarrow> string \<Rightarrow> string" where
  "key_or d s = (if s = [] then d else s)"

definition executeEnsureRole :: "ProtoCommand \<Rightarrow> Agent \<Rightarrow> command_act" where
  "executeEnsureRole cmd a0 = (let a = applySkylexAdminCredentialsIfPresent cmd a0 in
     with_payload a (PCmd_Payload cmd) (decode_role (PCmd_Payload cmd)) ''pg_ensure_role: invalid payload'' (\<lambda>p.
     if RCP_RoleName p = [] then failed a ''pg_ensure_role: role_name is required''
     else let kind = key_or ''custom'' (RCP_RoleKind p);
              password = secret_of cmd (key_or ''password'' (RCP_PasswordSecretKey p))
       in if password = [] then failed a ''pg_ensure_role: password secret not resolved''
          else finish (EnsureRole (Ag_Pg a) (RCP_RoleName p) (RoleKind_of kind) password (RCP_AllowPromote p)) a
            (\<lambda>e. wrap ''pg_ensure_role failed'' e) (\<lambda>_. ''role '' @ quote (RCP_RoleName p) @ '' ensured (kind='' @ kind @ '')'')))"

definition executeEnsureAdminRole :: "ProtoCommand \<Rightarrow> Agent \<Rightarrow> command_act" where
  "executeEnsureAdminRole cmd a =
     with_payload a (PCmd_Payload cmd) (decode_role (PCmd_Payload cmd)) ''pg_ensure_admin_role: invalid payload'' (\<lambda>p.
     let password = secret_of cmd (key_or ''skylex_admin_password'' (RCP_PasswordSecretKey p))
     in if password = [] then failed a ''pg_ensure_admin_role: password secret not resolved''
        else finish (EnsureRole (Ag_Pg a) SkylexAdminRole RoleKindAdmin password (RCP_AllowPromote p)) a
          (\<lambda>e. wrap ''pg_ensure_admin_role failed'' e) (\<lambda>_. ''cluster-owned admin role '' @ quote SkylexAdminRole @ '' provisioned''))"

definition executeRotateRolePassword :: "ProtoCommand \<Rightarrow> Agent \<Rightarrow> command_act" where
  "executeRotateRolePassword cmd a0 = (let a = applySkylexAdminCredentialsIfPresent cmd a0 in
     with_payload a (PCmd_Payload cmd) (decode_role (PCmd_Payload cmd)) ''pg_rotate_role_password: invalid payload'' (\<lambda>p.
     if RCP_RoleName p = [] then failed a ''pg_rotate_role_password: role_name is required''
     else let newPassword = secret_of cmd (key_or ''password'' (RCP_PasswordSecretKey p))
       in if newPassword = [] then failed a ''pg_rotate_role_password: password secret not resolved''
          else finish (instance_RotateRolePassword (Ag_Pg a) (RCP_RoleName p) newPassword (RCP_AllowPromote p)) a
            (\<lambda>e. wrap ''pg_rotate_role_password failed'' e) (\<lambda>_. ''password rotated for role '' @ quote (RCP_RoleName p))))"

definition executeDropRole :: "ProtoCommand \<Rightarrow> Agent \<Rightarrow> command_act" where
  "executeDropRole cmd a0 = (let a = applySkylexAdminCredentialsIfPresent cmd a0 in
     with_payload a (PCmd_Payload cmd) (decode_role (PCmd_Payload cmd)) ''pg_drop_role: invalid payload'' (\<lambda>p.
     if RCP_RoleName p = [] then failed a ''pg_drop_role: role_name is required''
     else finish (DropRole (Ag_Pg a) (RCP_RoleName p) (RCP_AllowPromote p)) a
       (\<lambda>e. wrap ''pg_drop_role failed'' e) (\<lambda>_. ''role '' @ quote (RCP_RoleName p) @ '' dropped'')))"

section \<open>Databases\<close>

definition executeEnsureDatabase :: "ProtoCommand \<Rightarrow> Agent \<Rightarrow> command_act" where
  "executeEnsureDatabase cmd a0 = (let a = applySkylexAdminCredentialsIfPresent cmd a0 in
     with_payload a (PCmd_Payload cmd) (decode_database (PCmd_Payload cmd)) ''pg_ensure_database: invalid payload'' (\<lambda>p.
     if DCP_DatabaseName p = [] then failed a ''pg_ensure_database: database_name is required''
     else finish (EnsureDatabase (Ag_Pg a) (DCP_DatabaseName p) (DCP_OwnerRoleName p) (DCP_AllowPromote p)) a
       (\<lambda>e. wrap ''pg_ensure_database failed'' e) (\<lambda>_. ''database '' @ quote (DCP_DatabaseName p) @ '' ensured'')))"

definition executeDropDatabase :: "ProtoCommand \<Rightarrow> Agent \<Rightarrow> command_act" where
  "executeDropDatabase cmd a0 = (let a = applySkylexAdminCredentialsIfPresent cmd a0 in
     with_payload a (PCmd_Payload cmd) (decode_database (PCmd_Payload cmd)) ''pg_drop_database: invalid payload'' (\<lambda>p.
     if DCP_DatabaseName p = [] then failed a ''pg_drop_database: database_name is required''
     else finish (DropDatabase (Ag_Pg a) (DCP_DatabaseName p) (DCP_AllowPromote p)) a
       (\<lambda>e. wrap ''pg_drop_database failed'' e) (\<lambda>_. ''database '' @ quote (DCP_DatabaseName p) @ '' dropped'')))"

definition executeGrantDatabasePrivileges :: "ProtoCommand \<Rightarrow> Agent \<Rightarrow> command_act" where
  "executeGrantDatabasePrivileges cmd a0 = (let a = applySkylexAdminCredentialsIfPresent cmd a0 in
     with_payload a (PCmd_Payload cmd) (decode_database (PCmd_Payload cmd)) ''pg_grant_database_privileges: invalid payload'' (\<lambda>p.
     if DCP_DatabaseName p = [] then failed a ''pg_grant_database_privileges: database_name is required''
     else if DCP_GrantRoleName p = [] then failed a ''pg_grant_database_privileges: grant_role_name is required''
     else finish (GrantDatabasePrivileges (Ag_Pg a) (DCP_DatabaseName p) (DCP_GrantRoleName p)
              (RoleKind_of (key_or ''custom'' (DCP_GrantRoleKind p))) (DCP_AllowPromote p)) a
       (\<lambda>e. wrap ''pg_grant_database_privileges failed'' e)
       (\<lambda>_. ''database privileges granted on '' @ quote (DCP_DatabaseName p) @ '' to '' @ quote (DCP_GrantRoleName p))))"

section \<open>Network rules and TLS\<close>

definition executeApplyHBA :: "ProtoCommand \<Rightarrow> Agent \<Rightarrow> command_act" where
  "executeApplyHBA cmd a =
     with_payload a (PCmd_Payload cmd) (decode_hba (PCmd_Payload cmd)) ''pg_apply_hba: invalid payload'' (\<lambda>(policy, allowPromote). do {
       promoted \<leftarrow> (if allowPromote then Promote (Ag_Pg a) else finish_ok ());
       (case promoted of
          Inl e \<Rightarrow> failed a (wrap ''pg_apply_hba promote failed'' e)
        | Inr _ \<Rightarrow> finish (instance_ApplyHBA (Ag_Pg a) policy) a (\<lambda>e. wrap ''pg_apply_hba failed'' e)
            (\<lambda>_. ''HBA allowlists applied and PostgreSQL reloaded''))
     })"

text \<open>A secret that the payload names has to be there; without a name there is none.\<close>

definition named_secret :: "ProtoCommand \<Rightarrow> string \<Rightarrow> string option" where
  "named_secret cmd key = (if key = [] then Some [] else if secret_of cmd key = [] then None else Some (secret_of cmd key))"

definition tls_outcome :: "string \<Rightarrow> string" where
  "tls_outcome mode = (if mode = TLSModeDisabled then ''PostgreSQL TLS disabled and configuration verified''
     else ''PostgreSQL TLS configuration applied and verified active'')"

definition executeApplyTLS :: "certificate_issuer \<Rightarrow> ProtoCommand \<Rightarrow> Agent \<Rightarrow> command_act" where
  "executeApplyTLS x cmd a =
     with_payload a (PCmd_Payload cmd) (decode_tls (PCmd_Payload cmd)) ''pg_apply_tls: invalid payload'' (\<lambda>p.
     if TCP_TLSMode p = [] then failed a ''pg_apply_tls: tls_mode is required''
     else case named_secret cmd (TCP_CertSecretKey p) of
         None \<Rightarrow> failed a ''pg_apply_tls: certificate secret not resolved''
       | Some certPEM \<Rightarrow> (case named_secret cmd (TCP_KeySecretKey p) of
           None \<Rightarrow> failed a ''pg_apply_tls: key secret not resolved''
         | Some keyPEM \<Rightarrow> (case named_secret cmd (TCP_CACertSecretKey p) of
             None \<Rightarrow> failed a ''pg_apply_tls: CA certificate secret not resolved''
           | Some caPEM \<Rightarrow> finish (pg_ApplyTLS x (Ag_Pg a) \<lparr>STLS_Mode = TCP_TLSMode p, STLS_CertFile = TCP_CertFile p,
                 STLS_KeyFile = TCP_KeyFile p, STLS_CAFile = TCP_CAFile p, STLS_CertPEM = certPEM, STLS_KeyPEM = keyPEM,
                 STLS_CAPEM = caPEM, STLS_Hosts = TCP_CertHosts p\<rparr>) a
               (\<lambda>e. wrap ''pg_apply_tls failed'' e) (\<lambda>_. tls_outcome (TCP_TLSMode p)))))"

section \<open>Extensions\<close>

datatype ext_op = EnableExt string string | DisableExt string string

definition extension_ops :: "extensionsCommandPayload \<Rightarrow> ext_op list" where
  "extension_ops p = concat (map (\<lambda>db. if db = [] then []
     else map (EnableExt db) (ECP_Enable p) @ map (DisableExt db) (ECP_Disable p)) (ECP_Databases p))"

definition run_extension_op :: "Instance \<Rightarrow> bool \<Rightarrow> ext_op \<Rightarrow> unit res act" where
  "run_extension_op pg allowPromote op = (case op of
      EnableExt db ext \<Rightarrow> try_do (EnsureExtension pg db ext allowPromote)
        (\<lambda>e. Inl (''pg_apply_extensions failed enabling '' @ quote ext @ '' in '' @ quote db @ '': '' @ e)) finish_ok
    | DisableExt db ext \<Rightarrow> try_do (DropExtension pg db ext allowPromote)
        (\<lambda>e. Inl (''pg_apply_extensions failed disabling '' @ quote ext @ '' in '' @ quote db @ '': '' @ e)) finish_ok)"

definition executeApplyExtensions :: "ProtoCommand \<Rightarrow> Agent \<Rightarrow> command_act" where
  "executeApplyExtensions cmd a =
     with_payload a (PCmd_Payload cmd) (decode_extensions (PCmd_Payload cmd)) ''pg_apply_extensions: invalid payload'' (\<lambda>p.
     if ECP_Databases p = [] then succeeded a ''no target databases; extension state recorded''
     else let ops = extension_ops p
       in finish (for_each ops (run_extension_op (Ag_Pg a) (ECP_AllowPromote p))) a (\<lambda>e. e)
            (\<lambda>_. ''extensions converged across '' @ dec (int (length (ECP_Databases p))) @ '' database(s) ('' @ dec (int (length ops))
                 @ '' change(s))''))"

end
