(* ===== verification/AgentExec.thy ===== *)
theory AgentExec
  imports AgentCommands
begin

text \<open>
  \<open>agent.go\<close>: the dispatch of a command, the hints its errors get and the deactivation of the agent
  (with the markers of \<open>config.go\<close>).
\<close>

section \<open>Error texts\<close>

definition dash :: string where
  "dash = '' '' @ em_dash @ '' ''"

definition enrich_start :: "AgentConfig \<Rightarrow> string \<Rightarrow> string" where
  "enrich_start cfg msg = (let has = strings_Contains (strings_ToLower msg) in
     if has ''permission denied''
     then ''pg_start failed: permission denied'' @ dash @ ''check that the data directory '' @ msg @ '' is owned by the postgres user''
     else if has ''port'' \<or> has ''already in use'' \<or> has ''address already in use''
     then ''pg_start failed: port is already in use'' @ dash @ ''stop the existing PostgreSQL process on port '' @ dec (AC_Port cfg)
        @ '' or change the port''
     else if has ''no such file'' \<or> has ''not found''
     then ''pg_start failed: PostgreSQL binary not found'' @ dash @ ''ensure PostgreSQL is installed and PGBinDir ('' @ AC_PGBinDir cfg
        @ '') is correct''
     else ''pg_start failed: '' @ msg @ dash @ ''check pg_log for details'')"

definition enrich_install :: "string \<Rightarrow> string \<Rightarrow> string" where
  "enrich_install action msg = (let has = strings_Contains (strings_ToLower msg) in
     if action = ''pg_install_native'' then
       (if has ''permission denied'' \<or> has ''operation not permitted''
        then ''native install failed: insufficient permissions'' @ dash @ ''run the agent with package installation privileges: '' @ msg
        else if has ''no supported package manager''
        then ''native install failed: unsupported operating system package manager: '' @ msg
        else ''native install failed: '' @ msg)
     else if has ''restart'' \<and> has ''docker group''
     then ''docker engine was installed and the agent user was added to the docker group; restart the skylex-agent service''
        @ '' to apply the new group membership and retry the cluster creation''
     else if has ''docker binary not found'' \<or> has ''permission denied''
     then ''docker install failed: Docker is unavailable or the agent cannot access the Docker daemon'' @ dash
        @ ''ensure the agent user is in the docker group or has sufficient privileges: '' @ msg
     else ''docker install failed: '' @ msg)"

definition enrichError :: "AgentConfig \<Rightarrow> string \<Rightarrow> string \<Rightarrow> string" where
  "enrichError cfg action msg = (let has = strings_Contains (strings_ToLower msg) in
     if action = ''pg_preflight'' then wrap ''preflight failed'' msg
     else if action = ''pg_init'' then
       (if has ''permission denied''
        then ''initdb failed: permission denied'' @ dash @ ''check that the data directory '' @ msg @ '' is owned by the current user''
        else if has ''exists'' \<and> has ''not empty''
        then ''initdb failed: data directory is not empty'' @ dash @ ''remove or clear '' @ msg @ '' before initializing''
        else ''initdb failed: '' @ msg @ dash @ ''check that PostgreSQL binaries are in PATH and disk space is available'')
     else if action = ''pg_start'' then enrich_start cfg msg
     else if action = ''pg_stop'' then ''pg_stop failed: '' @ msg @ dash @ ''the process may need to be terminated manually''
     else if action = ''agent_deactivate'' then wrap ''agent_deactivate failed'' msg
     else if action = ''pg_basebackup'' then
       (if has ''connection refused'' \<or> has ''no route to host''
        then ''pg_basebackup failed: cannot connect to primary'' @ dash @ ''ensure the primary is running and reachable on the network''
        else if has ''password authentication failed''
        then ''pg_basebackup failed: authentication failed'' @ dash @ ''verify the replication user credentials in pg_hba.conf on the primary''
        else ''pg_basebackup failed: '' @ msg @ dash @ ''verify the primary is running and the replication user is configured'')
     else if action = ''pg_apply_settings''
     then ''pg_apply_settings failed: '' @ msg @ dash @ ''check the parameter values and ensure PostgreSQL can reload''
     else if action \<in> {''pg_install_native'', ''pg_install_docker''} then enrich_install action msg
     else if action = ''pg_purge_native'' then wrap ''native purge failed'' msg
     else action @ '' failed: '' @ msg)"

definition enriched :: "Agent \<Rightarrow> string \<Rightarrow> 'b res act \<Rightarrow> ('b \<Rightarrow> string) \<Rightarrow> command_act" where
  "enriched a action m output = finish m a (enrichError (Ag_Config a) action) output"

section \<open>Deactivation\<close>

definition deactivationMarkerPaths :: "AgentConfig \<Rightarrow> string list" where
  "deactivationMarkerPaths cfg = [''/etc/skylex/.skylex-agent-deactivated'', ''/var/lib/skylex/.skylex-agent-deactivated'',
     ''/tmp/skylex-agent-deactivated''] @
     (if AC_PGDataDir cfg \<noteq> [] then [filepath_Join (AC_PGDataDir cfg) ''.skylex-agent-deactivated''] else [])"

fun any_exists :: "string list \<Rightarrow> bool act" where
  "any_exists [] = State_Monad.return False"
| "any_exists (path # paths) = do {
     r \<leftarrow> os_Stat path;
     if isl r then any_exists paths else State_Monad.return True
   }"

definition IsDeactivated :: "AgentConfig \<Rightarrow> bool act" where
  "IsDeactivated cfg = any_exists (deactivationMarkerPaths cfg)"

fun write_first :: "string list \<Rightarrow> unit res \<Rightarrow> unit res act" where
  "write_first [] lastErr = State_Monad.return lastErr"
| "write_first (path # paths) lastErr = do {
     d \<leftarrow> os_try;
     (case d of
        Inl e \<Rightarrow> write_first paths (Inl e)
      | Inr _ \<Rightarrow> do {
          w \<leftarrow> os_WriteFile path (''deactivated'' @ newline);
          (case w of Inl e \<Rightarrow> write_first paths (Inl e) | Inr _ \<Rightarrow> State_Monad.return (Inr ()))
        })
   }"

definition WriteDeactivationMarker :: "AgentConfig \<Rightarrow> unit res act" where
  "WriteDeactivationMarker cfg = write_first (deactivationMarkerPaths cfg) (Inr ())"

definition runAgentLifecycleCommand :: "string \<Rightarrow> string list \<Rightarrow> unit res act" where
  "runAgentLifecycleCommand name args = do {
     r \<leftarrow> runStreamingCmd (plain_cmd name args);
     State_Monad.return (case snd r of
        None \<Rightarrow> Inr ()
      | Some e \<Rightarrow> Inl (name @ '' failed: '' @ e @ '': '' @ TrimSpace (fst r)))
   }"

definition disableSystemdAgent :: "unit act" where
  "disableSystemdAgent = do {
     there \<leftarrow> commandExists ''systemctl'';
     if \<not> there then State_Monad.return ()
     else do {
       _ \<leftarrow> runAgentLifecycleCommand ''systemctl'' [''disable'', ''skylex-agent''];
       ignore (runAgentLifecycleCommand ''systemctl'' [''reset-failed'', ''skylex-agent''])
     }
   }"

definition removeAgentTokenFiles :: "unit act" where
  "removeAgentTokenFiles = for_all_do [''/etc/skylex/agent.yaml'', ''/etc/skylex/token''] (\<lambda>path. ignore (os_Remove path))"

definition deactivate :: "Agent \<Rightarrow> unit res act" where
  "deactivate a =
     try_do (Stop (Ag_Pg a)) Inl (\<lambda>_.
     try_do (WriteDeactivationMarker (Ag_Config a)) Inl (\<lambda>_. do {
       _ \<leftarrow> disableSystemdAgent;
       _ \<leftarrow> removeAgentTokenFiles;
       State_Monad.return (Inr ())
     }))"

section \<open>Installing\<close>

definition use_native :: "Agent \<Rightarrow> string \<Rightarrow> (string \<times> Agent) act" where
  "use_native a fallback = do {
     binDir \<leftarrow> DetectNativeBinDir (AC_PGBinDir (Ag_Config a));
     version \<leftarrow> DetectNativeVersion fallback;
     State_Monad.return (version, set_pg (UseNative binDir version) a)
   }"

definition install_failed :: "Agent \<Rightarrow> string \<Rightarrow> string \<Rightarrow> command_act" where
  "install_failed a action e = failed (setInstallationReport INSTALLATION_STATE_FAILED e a) (enrichError (Ag_Config a) action e)"

text \<open>\<open>mustMarshalJSON\<close> of the preflight result.\<close>

definition preflight_json :: "PreflightResult \<Rightarrow> (string \<times> jval) list" where
  "preflight_json r = [(''state'', JStr (Pre_State r)), (''version'', JStr (Pre_Version r)), (''data_dir'', JStr (Pre_DataDir r)),
     (''data_present'', JBool (Pre_DataPresent r)), (''data_initialized'', JBool (Pre_DataInitialized r))]"

definition exec_preflight :: "Agent \<Rightarrow> command_act" where
  "exec_preflight a = do {
     r \<leftarrow> native_Preflight (installConfig a);
     h \<leftarrow> State_Monad.get;
     (case r of
        Inl e \<Rightarrow> install_failed a ''pg_preflight'' e
      | Inr res \<Rightarrow> succeeded
          (if Pre_State res = PreflightPGExists
           then setInstallationReport INSTALLATION_STATE_CONFLICT (preflight_Details res) a
           else setInstallationReport INSTALLATION_STATE_NOTHING_FOUND [] a)
          (json_text (host_environment h) (preflight_json res)))
   }"

definition exec_install_native :: "Agent \<Rightarrow> command_act" where
  "exec_install_native a0 = do {
     let a = setInstallationReport INSTALLATION_STATE_INSTALLING [] a0;
     (installed, found) \<leftarrow> DetectInstallation;
     if installed then do {
       (_, a') \<leftarrow> use_native a found;
       succeeded (setInstallationReport INSTALLATION_STATE_INSTALLED [] a') (''PostgreSQL already installed: '' @ found)
     } else do {
       r \<leftarrow> native_Install (installConfig a);
       (case r of
          Inl e \<Rightarrow> install_failed a ''pg_install_native'' e
        | Inr _ \<Rightarrow> do {
            (version, a') \<leftarrow> use_native a (AC_PGVersion (Ag_Config a));
            succeeded (setInstallationReport INSTALLATION_STATE_INSTALLED [] a') (''PostgreSQL '' @ version @ '' installed natively'')
          })
     }
   }"

definition payload_string :: "host_env \<Rightarrow> payload \<Rightarrow> string" where
  "payload_string e p = (case p of Text t \<Rightarrow> t | Json fs \<Rightarrow> json_text e fs)"

text \<open>The cluster and the version of \<open>pg_install_docker\<close>: an object, or the version as plain text.\<close>

definition docker_target :: "Agent \<Rightarrow> host_env \<Rightarrow> payload \<Rightarrow> string \<times> string" where
  "docker_target a e p = (let own = AC_PGVersion (Ag_Config a) in case p of
      Text t \<Rightarrow> ([], if t = [] then own else t)
    | Json fs \<Rightarrow> (case (str_field ''cluster_id'' fs, str_field ''version'' fs) of
        (Some c, Some v) \<Rightarrow> (c, if v = [] then own else v)
      | _ \<Rightarrow> ([], json_text e fs)))"

definition exec_install_docker :: "payload \<Rightarrow> Agent \<Rightarrow> command_act" where
  "exec_install_docker p a0 = do {
     let a = setInstallationReport INSTALLATION_STATE_INSTALLING [] a0;
     h \<leftarrow> State_Monad.get;
     let (clusterID, version) = docker_target a (host_environment h) p;
     r \<leftarrow> docker_Install ((installConfig a)\<lparr>IC_ClusterID := clusterID, IC_Version := version\<rparr>);
     (case r of
        Inl e \<Rightarrow> install_failed a ''pg_install_docker'' (docker_error_text e)
      | Inr _ \<Rightarrow> succeeded
          (setInstallationReport INSTALLATION_STATE_INSTALLED []
            (set_pg (UseDocker (''postgres:'' @ version) (DockerContainerName clusterID) (ComposeFilePath clusterID) ''postgres'') a))
          (''PostgreSQL Docker container '' @ quote (DockerContainerName clusterID) @ '' installed''))
   }"

definition exec_purge_native :: "Agent \<Rightarrow> command_act" where
  "exec_purge_native a0 = do {
     let a = setInstallationReport INSTALLATION_STATE_INSTALLING [] a0;
     r \<leftarrow> native_Purge (installConfig a);
     (case r of
        Inl e \<Rightarrow> install_failed a ''pg_purge_native'' e
      | Inr _ \<Rightarrow> succeeded a ''Native PostgreSQL packages and configured data directory removed'')
   }"

definition exec_adopt_native :: "ProtoCommand \<Rightarrow> Agent \<Rightarrow> command_act" where
  "exec_adopt_native cmd a0 = do {
     h \<leftarrow> State_Monad.get;
     (case applyPostgresAdminCredentials (host_environment h) cmd a0 of
        Inl e \<Rightarrow> failed (setInstallationReport INSTALLATION_STATE_FAILED e a0) (wrap ''pg_adopt_native'' e)
      | Inr a \<Rightarrow> do {
          (installed, found) \<leftarrow> DetectInstallation;
          if installed then do {
            (_, a') \<leftarrow> use_native a found;
            succeeded (setInstallationReport INSTALLATION_STATE_ADOPTED [] a') (''Adopted existing PostgreSQL installation: '' @ found)
          } else let msg = ''adopt native failed: no PostgreSQL installation found''
            in failed (setInstallationReport INSTALLATION_STATE_FAILED msg a) msg
        })
   }"

section \<open>Replication targets\<close>

text \<open>\<open>fmt.Sscanf(s, "%d", &port)\<close>: the number at the beginning, \<open>None\<close> when there is none that fits an \<open>int\<close>.\<close>

definition digits_value :: "string \<Rightarrow> int" where
  "digits_value ds = foldl (\<lambda>n c. n * 10 + (of_char c - 48)) 0 ds"

definition scan_int :: "string \<Rightarrow> int option" where
  "scan_int s = (
     let s' = dropWhile (\<lambda>c. is_space c \<and> c \<noteq> CHR 0x0A) s;
         neg = (s' \<noteq> [] \<and> hd s' = CHR ''-'');
         body = (if s' \<noteq> [] \<and> hd s' \<in> {CHR ''-'', CHR ''+''} then tl s' else s');
         ds = takeWhile is_digit body;
         v = (if neg then - digits_value ds else digits_value ds)
     in if ds \<noteq> [] \<and> - (2 ^ 63) \<le> v \<and> v < 2 ^ 63 then Some v else None)"

definition parseReplicationTarget :: "string \<Rightarrow> int \<Rightarrow> string \<times> int" where
  "parseReplicationTarget payload defaultPort = (
     let host = takeWhile (\<lambda>c. c \<noteq> CHR '':'') payload
     in (host, if CHR '':'' \<in> set payload
               then (case scan_int (drop (Suc (length host)) payload) of None \<Rightarrow> defaultPort | Some port \<Rightarrow> port)
               else defaultPort))"

definition at_target :: "string \<Rightarrow> string \<times> int \<Rightarrow> string" where
  "at_target what t = what @ fst t @ '':'' @ dec (snd t)"

section \<open>pgBackRest\<close>

text \<open>The methods of \<open>internal/pgbackrest\<close> on the agent's machine.\<close>

definition agent_pgbackrest :: "Agent \<Rightarrow> string \<Rightarrow> string list \<Rightarrow> unit res act" where
  "agent_pgbackrest a what args = do {
     r \<leftarrow> runStreamingCmd (plain_cmd (AC_PGBackRestPath (Ag_Config a)) args);
     State_Monad.return (case snd r of
        None \<Rightarrow> Inr ()
      | Some e \<Rightarrow> Inl (''pgbackrest '' @ what @ '' failed: '' @ e @ newline @ fst r))
   }"

definition exec_pgbackrest :: "string \<Rightarrow> string \<Rightarrow> Agent \<Rightarrow> command_act" where
  "exec_pgbackrest action stanza a = (
     let dir = optional_args [] (AC_PGDataDir (Ag_Config a)); on = [''--stanza'', stanza];
         run = (\<lambda>what args output. enriched a action (agent_pgbackrest a what (on @ args @ dir)) (\<lambda>_. output))
     in if action = ''pgbackrest_backup'' then run ''backup'' [''--type'', ''full'', ''backup''] ''pgBackRest backup completed successfully''
        else if action = ''pgbackrest_restore'' then run ''restore'' [''restore''] ''pgBackRest restore completed successfully''
        else if action = ''pgbackrest_stanza_create'' then run ''stanza-create'' [''stanza-create''] ''pgBackRest stanza created successfully''
        else run ''check'' [''check''] ''pgBackRest stanza check passed'')"

section \<open>Dispatch\<close>

definition exec_replication :: "string \<Rightarrow> string \<Rightarrow> Agent \<Rightarrow> command_act" where
  "exec_replication action payload a = (
     let c = Ag_Config a; t = parseReplicationTarget payload (AC_Port c); pg = Ag_Pg a
     in if action = ''pg_basebackup''
        then enriched a action (BaseBackup pg (fst t) (snd t) (AC_PGReplUser c) (AC_PGReplPass c))
               (\<lambda>_. at_target ''Base backup completed from primary at '' t)
        else if action = ''pg_rewind''
        then enriched a action (Rewind pg (fst t) (snd t) (AC_PGReplUser c) (AC_PGReplPass c))
               (\<lambda>_. at_target (''pg_rewind completed'' @ dash @ ''repointed to new primary at '') t)
        else enriched a action (UpdateStandbySignal pg (fst t) (snd t)) (\<lambda>_. at_target ''Replica repointed to follow primary at '' t))"

definition exec_settings :: "payload \<Rightarrow> Agent \<Rightarrow> command_act" where
  "exec_settings p a =
     with_payload a p (Option.bind (object_fields p) (\<lambda>fs. decode_settings fs [])) ''invalid settings payload'' (\<lambda>settings.
       enriched a ''pg_apply_settings'' (ApplySettings (Ag_Pg a) settings)
         (\<lambda>how. ''Settings applied via '' @ how @ dash @ ''a reload was issued''))"

definition exec_create_repl_user :: "ProtoCommand \<Rightarrow> Agent \<Rightarrow> command_act" where
  "exec_create_repl_user cmd a0 = do {
     h \<leftarrow> State_Monad.get;
     (case applyPostgresAdminCredentials (host_environment h) cmd a0 of
        Inl e \<Rightarrow> failed a0 (wrap ''pg_create_repl_user'' e)
      | Inr a \<Rightarrow> enriched a ''pg_create_repl_user'' (CreateReplicationUser (Ag_Pg a)) (\<lambda>_. ''Replication user created successfully''))
   }"

definition executeCommand :: "certificate_issuer \<Rightarrow> ProtoCommand \<Rightarrow> Agent \<Rightarrow> command_act" where
  "executeCommand x cmd a = (let action = PCmd_Action cmd; p = PCmd_Payload cmd in do {
     h \<leftarrow> State_Monad.get;
     let raw = payload_string (host_environment h) p;
     if action = ''pg_preflight'' then exec_preflight a
     else if action = ''pg_install_native'' then exec_install_native a
     else if action = ''pg_install_docker'' then exec_install_docker p a
     else if action = ''pg_purge_native'' then exec_purge_native a
     else if action = ''pg_adopt_native'' then exec_adopt_native cmd a
     else if action = ''pg_init'' then enriched a action (InitDB (Ag_Pg a)) (\<lambda>_. ''PostgreSQL data directory initialized successfully'')
     else if action = ''pg_start'' then enriched a action (Start (Ag_Pg a)) (\<lambda>_. ''PostgreSQL started on port '' @ dec (AC_Port (Ag_Config a)))
     else if action = ''pg_stop'' then enriched a action (Stop (Ag_Pg a)) (\<lambda>_. ''PostgreSQL stopped gracefully'')
     else if action = ''agent_deactivate'' then enriched a action (deactivate a) (\<lambda>_. ''Skylex agent deactivated'')
     else if action \<in> {''pg_basebackup'', ''pg_rewind'', ''repoint_replica''} then exec_replication action raw a
     else if action = ''pg_promote'' then enriched a action (Promote (Ag_Pg a)) (\<lambda>_. ''Promoted to primary'' @ dash @ ''node is now writable'')
     else if action = ''pg_create_repl_user'' then exec_create_repl_user cmd a
     else if action = ''pg_create_repl_slot''
     then enriched a action (CreateReplicationSlot (Ag_Pg a) ''skylex_replica'')
            (\<lambda>_. ''Replication slot '' @ single_quoted ''skylex_replica'' @ '' created'')
     else if action = ''pg_apply_settings'' then exec_settings p a
     else if action \<in> {''pgbackrest_backup'', ''pgbackrest_restore'', ''pgbackrest_stanza_create'', ''pgbackrest_stanza_check''}
     then exec_pgbackrest action raw a
     else if action = ''pg_ensure_role'' then executeEnsureRole cmd a
     else if action = ''pg_ensure_admin_role'' then executeEnsureAdminRole cmd a
     else if action = ''pg_rotate_role_password'' then executeRotateRolePassword cmd a
     else if action = ''pg_drop_role'' then executeDropRole cmd a
     else if action = ''pg_ensure_database'' then executeEnsureDatabase cmd a
     else if action = ''pg_drop_database'' then executeDropDatabase cmd a
     else if action = ''pg_grant_database_privileges'' then executeGrantDatabasePrivileges cmd a
     else if action = ''pg_apply_hba'' then executeApplyHBA cmd a
     else if action = ''pg_apply_tls'' then executeApplyTLS x cmd a
     else if action = ''pg_apply_extensions'' then executeApplyExtensions cmd a
     else failed a (''unknown command action: '' @ action)
   })"

end
