(* ===== verification/AgentLoop.thy ===== *)
theory AgentLoop
  imports AgentExec
begin

text \<open>
  The agent together with the server it talks to: registration, heartbeats and the rounds in which it fetches a
  command, runs it and reports the result (\<open>agent.go\<close>), composed with the handlers of the server's
  \<open>AgentService\<close>. A call may be lost before or after the server has run it. The two loops are \<open>step\<close>s of one
  state; the lines a command logs go their own way and are left out.
\<close>

section \<open>The closed system\<close>

record system =
  sys_world :: world
  sys_host :: host
  sys_agent :: Agent

text \<open>
  What may go wrong with the n-th call: whether the server still ran it, and the error the agent sees; the text
  of a gRPC error; and a text as the value the server reads it as (\<open>Json\<close> when it is a JSON object).
\<close>

record network =
  rpc_lost :: "nat \<Rightarrow> (bool \<times> string) option"
  grpc_text :: "grpc_error \<Rightarrow> string"
  text_payload :: "string \<Rightarrow> payload"

type_synonym 'a sys = "(system, 'a) state"

definition on_host :: "'a act \<Rightarrow> 'a sys" where
  "on_host m = do {
     s \<leftarrow> State_Monad.get;
     let (r, h) = run_state m (sys_host s);
     _ \<leftarrow> State_Monad.set (s\<lparr>sys_host := h\<rparr>);
     State_Monad.return r
   }"

definition on_server :: "'a io \<Rightarrow> 'a sys" where
  "on_server m = do {
     s \<leftarrow> State_Monad.get;
     let (r, w) = run_state m (sys_world s);
     _ \<leftarrow> State_Monad.set (s\<lparr>sys_world := w\<rparr>);
     State_Monad.return r
   }"

lemma wp_on_host [wp_simps]: "wp (on_host m) Q s = wp m (\<lambda>r h. Q r (s\<lparr>sys_host := h\<rparr>)) (sys_host s)"
  by (simp add: on_host_def wp_simps wp_def Let_def split: prod.splits)

lemma wp_on_server [wp_simps]: "wp (on_server m) Q s = wp m (\<lambda>r w. Q r (s\<lparr>sys_world := w\<rparr>)) (sys_world s)"
  by (simp add: on_server_def wp_simps wp_def Let_def split: prod.splits)

definition call :: "network \<Rightarrow> 'a rpc io \<Rightarrow> 'a res sys" where
  "call net m = do {
     n \<leftarrow> on_host tick;
     (case rpc_lost net n of
        Some (reached, e) \<Rightarrow> do {
          _ \<leftarrow> (if reached then do { _ \<leftarrow> on_server m; State_Monad.return () } else State_Monad.return ());
          State_Monad.return (Inl e)
        }
      | None \<Rightarrow> do {
          r \<leftarrow> on_server m;
          State_Monad.return (case r of Inl e \<Rightarrow> Inl (grpc_text net e) | Inr v \<Rightarrow> Inr v)
        })
   }"

definition get_agent :: "Agent sys" where
  "get_agent = do { s \<leftarrow> State_Monad.get; State_Monad.return (sys_agent s) }"

definition set_agent :: "Agent \<Rightarrow> unit sys" where
  "set_agent a = do { s \<leftarrow> State_Monad.get; State_Monad.set (s\<lparr>sys_agent := a\<rparr>) }"

lemma wp_get_agent [wp_simps]: "wp get_agent Q s = Q (sys_agent s) s"
  by (simp add: get_agent_def wp_simps)

lemma wp_set_agent [wp_simps]: "wp (set_agent a) Q s = Q () (s\<lparr>sys_agent := a\<rparr>)"
  by (simp add: set_agent_def wp_simps)

section \<open>Registration\<close>

definition detectDockerAvailable :: "bool act" where
  "detectDockerAvailable = do {
     r \<leftarrow> runStreamingCmd (plain_cmd ''docker'' [''version'', ''--format'', ''{{.Server.Version}}'']);
     State_Monad.return (snd r = None)
   }"

definition agent_register :: "network \<Rightarrow> AgentService \<Rightarrow> unit res sys" where
  "agent_register net srv = do {
     (installed, version) \<leftarrow> on_host DetectInstallation;
     docker \<leftarrow> on_host detectDockerAvailable;
     a \<leftarrow> get_agent;
     let c = Ag_Config a;
     try_do (call net (RegisterAgent srv \<lparr>Reg_AgentToken = AC_AgentToken c, Reg_Hostname = AC_Hostname c, Reg_Address = AC_Address c,
         Reg_Port = to_int32 (AC_Port c), Reg_AgentVersion = ''0.1.0'', Reg_Labels = AC_Labels c,
         Reg_Capabilities = Some \<lparr>Caps_PostgresAvailable = installed, Caps_PostgresVersion = version, Caps_DockerAvailable = docker\<rparr>\<rparr>))
       (\<lambda>e. Inl (wrap ''register agent rpc'' e)) (\<lambda>agentID. do {
         _ \<leftarrow> set_agent (a\<lparr>Ag_AgentID := agentID\<rparr>);
         State_Monad.return (Inr ())
       })
   }"

section \<open>Heartbeats\<close>

text \<open>The numbers of the machine; a \<open>float64\<close> is kept as the \<open>int\<close> of its bits and its operations are a parameter.\<close>

record machine =
  mach_parse_float :: "string \<Rightarrow> int option"
  mach_float :: "int \<Rightarrow> int"
  mach_mul :: "int \<Rightarrow> int \<Rightarrow> int"
  mach_div :: "int \<Rightarrow> int \<Rightarrow> int"
  mach_min :: "int \<Rightarrow> int \<Rightarrow> int"
  mach_trunc :: "int \<Rightarrow> int"
  mach_dir_exists :: "string \<Rightarrow> bool"
  mach_statfs :: "string \<Rightarrow> (int \<times> int \<times> int) option"
  mach_arch :: string
  mach_num_cpu :: int

definition to_int64 :: "int \<Rightarrow> int" where
  "to_int64 x = (x + 2 ^ 63) mod 2 ^ 64 - 2 ^ 63"

text \<open>\<open>bufio.Scanner\<close> over lines.\<close>

definition scan_lines :: "string \<Rightarrow> string list" where
  "scan_lines content = (
     let ls = strings_Split content (CHR 0x0A); ls' = (if last ls = [] then butlast ls else ls)
     in map (\<lambda>l. if l \<noteq> [] \<and> last l = CHR 0x0D then butlast l else l) ls')"

fun strings_Fields :: "string \<Rightarrow> string \<Rightarrow> string list" where
  "strings_Fields cur [] = (if cur = [] then [] else [rev cur])"
| "strings_Fields cur (c # s) =
     (if is_space c then (if cur = [] then strings_Fields [] s else rev cur # strings_Fields [] s)
      else strings_Fields (c # cur) s)"

definition ParseInt :: "string \<Rightarrow> int option" where
  "ParseInt s = (
     let neg = (s \<noteq> [] \<and> hd s = CHR ''-'');
         ds = (if s \<noteq> [] \<and> hd s \<in> {CHR ''-'', CHR ''+''} then tl s else s);
         v = (if neg then - digits_value ds else digits_value ds)
     in if ds \<noteq> [] \<and> list_all is_digit ds \<and> - (2 ^ 63) \<le> v \<and> v < 2 ^ 63 then Some v else None)"

definition trim_quotes :: "string \<Rightarrow> string" where
  "trim_quotes s = (let p = (\<lambda>c. c = CHR 0x22) in rev (dropWhile p (rev (dropWhile p s))))"

definition last_value :: "string \<Rightarrow> (string \<times> 'v) list \<Rightarrow> 'v option" where
  "last_value k kvs = map_of (rev kvs) k"

definition os_release :: "string \<Rightarrow> (string \<times> string) list" where
  "os_release content = List.map_filter (\<lambda>line. case strings_Index line ''='' of
      None \<Rightarrow> None
    | Some i \<Rightarrow> Some (take i line, trim_quotes (drop (Suc i) line))) (scan_lines content)"

definition or_empty :: "string option \<Rightarrow> string" where
  "or_empty v = (case v of None \<Rightarrow> [] | Some s \<Rightarrow> s)"

definition or_zero :: "int option \<Rightarrow> int" where
  "or_zero v = (case v of None \<Rightarrow> 0 | Some i \<Rightarrow> i)"

definition applyOSRelease :: "string option \<Rightarrow> NodeSystemMetrics \<Rightarrow> NodeSystemMetrics" where
  "applyOSRelease file m = (case file of
      None \<Rightarrow> m
    | Some content \<Rightarrow> m\<lparr>SM_Platform := or_empty (last_value ''ID'' (os_release content)),
        SM_PlatformVersion := or_empty (last_value ''VERSION_ID'' (os_release content))\<rparr>)"

definition applyKernelVersion :: "string option \<Rightarrow> NodeSystemMetrics \<Rightarrow> NodeSystemMetrics" where
  "applyKernelVersion file m = (case file of None \<Rightarrow> m | Some content \<Rightarrow> m\<lparr>SM_KernelVersion := TrimSpace content\<rparr>)"

definition parseScaledFloat :: "machine \<Rightarrow> string \<Rightarrow> int" where
  "parseScaledFloat x s = (case mach_parse_float x s of None \<Rightarrow> 0 | Some f \<Rightarrow> mach_trunc x (mach_mul x f (mach_float x 100)))"

definition applyLoadAverage :: "machine \<Rightarrow> string option \<Rightarrow> NodeSystemMetrics \<Rightarrow> NodeSystemMetrics" where
  "applyLoadAverage x file m = (case map_option (strings_Fields []) file of
      Some (a # b # c # _) \<Rightarrow> m\<lparr>SM_LoadAverage1M := parseScaledFloat x a, SM_LoadAverage5M := parseScaledFloat x b,
        SM_LoadAverage15M := parseScaledFloat x c\<rparr>
    | _ \<Rightarrow> m)"

definition percent :: "machine \<Rightarrow> int \<Rightarrow> int \<Rightarrow> int" where
  "percent x used tot = (if tot \<le> 0 \<or> used \<le> 0 then mach_float x 0
     else mach_mul x (mach_div x (mach_float x used) (mach_float x tot)) (mach_float x 100))"

definition trim_colon :: "string \<Rightarrow> string" where
  "trim_colon s = (if s \<noteq> [] \<and> last s = CHR '':'' then butlast s else s)"

definition meminfo :: "string \<Rightarrow> (string \<times> int) list" where
  "meminfo content = List.map_filter (\<lambda>line. case strings_Fields [] line of
      name # number # _ \<Rightarrow> map_option (\<lambda>v. (trim_colon name, to_int64 (v * 1024))) (ParseInt number)
    | _ \<Rightarrow> None) (scan_lines content)"

definition applyMemoryStats :: "machine \<Rightarrow> string option \<Rightarrow> NodeSystemMetrics \<Rightarrow> NodeSystemMetrics" where
  "applyMemoryStats x file m = (case file of
      None \<Rightarrow> m
    | Some content \<Rightarrow>
        let tot = or_zero (last_value ''MemTotal'' (meminfo content));
            available = or_zero (last_value ''MemAvailable'' (meminfo content));
            m' = m\<lparr>SM_MemoryTotalBytes := tot, SM_MemoryAvailableBytes := available\<rparr>;
            used = to_int64 (tot - available)
        in if tot > 0 then m'\<lparr>SM_MemoryUsedBytes := used, SM_MemoryUsagePercent := percent x used tot\<rparr> else m')"

definition applyDiskStats :: "machine \<Rightarrow> string \<Rightarrow> NodeSystemMetrics \<Rightarrow> NodeSystemMetrics" where
  "applyDiskStats x path m = (case mach_statfs x path of
      None \<Rightarrow> m
    | Some (blocks, bavail, bsize) \<Rightarrow>
        let tot = to_int64 (blocks * bsize); available = to_int64 (bavail * bsize); used = to_int64 (tot - available)
        in m\<lparr>SM_DiskTotalBytes := tot, SM_DiskAvailableBytes := available, SM_DiskUsedBytes := used,
             SM_DiskUsagePercent := percent x used tot\<rparr>)"

definition applyUptime :: "machine \<Rightarrow> string option \<Rightarrow> NodeSystemMetrics \<Rightarrow> NodeSystemMetrics" where
  "applyUptime x file m = (case map_option (strings_Fields []) file of
      Some (a # _) \<Rightarrow> (case mach_parse_float x a of None \<Rightarrow> m | Some f \<Rightarrow> m\<lparr>SM_UptimeSeconds := mach_trunc x f\<rparr>)
    | _ \<Rightarrow> m)"

definition cpuUsageFromLoad :: "machine \<Rightarrow> int \<Rightarrow> int \<Rightarrow> int" where
  "cpuUsageFromLoad x load cores = (if load \<le> 0 \<or> cores \<le> 0 then mach_float x 0
     else mach_min x (mach_float x 100) (mach_mul x
            (mach_div x (mach_div x (mach_float x load) (mach_float x 100)) (mach_float x cores)) (mach_float x 100)))"

definition file_text :: "string \<Rightarrow> string option act" where
  "file_text path = do { r \<leftarrow> os_ReadFile path; State_Monad.return (case r of Inl _ \<Rightarrow> None | Inr content \<Rightarrow> Some content) }"

definition no_metrics :: "machine \<Rightarrow> string \<Rightarrow> NodeSystemMetrics" where
  "no_metrics x os = \<lparr>SM_Os = os, SM_Platform = [], SM_PlatformVersion = [], SM_KernelVersion = [], SM_Architecture = mach_arch x,
     SM_CpuCores = to_int32 (mach_num_cpu x), SM_CpuUsagePercent = mach_float x 0, SM_LoadAverage1M = 0, SM_LoadAverage5M = 0,
     SM_LoadAverage15M = 0, SM_MemoryTotalBytes = 0, SM_MemoryUsedBytes = 0, SM_MemoryAvailableBytes = 0,
     SM_MemoryUsagePercent = mach_float x 0, SM_DiskTotalBytes = 0, SM_DiskUsedBytes = 0, SM_DiskAvailableBytes = 0,
     SM_DiskUsagePercent = mach_float x 0, SM_UptimeSeconds = 0\<rparr>"

definition collectSystemMetrics :: "machine \<Rightarrow> string \<Rightarrow> NodeSystemMetrics act" where
  "collectSystemMetrics x diskPath0 = do {
     h \<leftarrow> State_Monad.get;
     let diskPath = (if diskPath0 = [] \<or> \<not> mach_dir_exists x diskPath0 then ''/'' else diskPath0);
     release \<leftarrow> file_text ''/etc/os-release'';
     kernel \<leftarrow> file_text ''/proc/sys/kernel/osrelease'';
     load \<leftarrow> file_text ''/proc/loadavg'';
     mem \<leftarrow> file_text ''/proc/meminfo'';
     uptime \<leftarrow> file_text ''/proc/uptime'';
     let m = applyUptime x uptime (applyDiskStats x diskPath (applyMemoryStats x mem (applyLoadAverage x load
               (applyKernelVersion kernel (applyOSRelease release (no_metrics x (host_os (host_environment h))))))));
     State_Monad.return (m\<lparr>SM_CpuUsagePercent := cpuUsageFromLoad x (SM_LoadAverage1M m) (SM_CpuCores m)\<rparr>)
   }"

definition computeAgentStatusDetail :: "bool \<Rightarrow> bool \<Rightarrow> bool \<Rightarrow> string" where
  "computeAgentStatusDetail pgInstalled pgDataInitialized pgRunning =
     (if \<not> pgInstalled then ''waiting_for_postgres''
      else if \<not> pgDataInitialized then ''initializing_data_directory''
      else if \<not> pgRunning then ''stopped'' else ''running'')"

text \<open>What the agent finds out about its PostgreSQL: running, installed, version and data directory.\<close>

definition observe_postgres :: "Agent \<Rightarrow> (bool \<times> bool \<times> string \<times> bool) act" where
  "observe_postgres a = do {
     running \<leftarrow> IsRunning (Ag_Pg a);
     (installed, version) \<leftarrow> DetectInstallation;
     initialized \<leftarrow> IsInitialized (Ag_Pg a);
     if docker_of (Ag_Pg a) = None then State_Monad.return (running, installed, version, initialized)
     else do {
       docker \<leftarrow> detectDockerAvailable;
       State_Monad.return (running, docker, if version = [] then AC_PGVersion (Ag_Config a) else version, initialized \<or> running)
     }
   }"

definition sendHeartbeat :: "network \<Rightarrow> machine \<Rightarrow> unit res sys" where
  "sendHeartbeat net x = do {
     a \<leftarrow> get_agent;
     (running, installed, version, initialized) \<leftarrow> on_host (observe_postgres a);
     start \<leftarrow> on_host host_now;
     try_do (call net (Heartbeat (Ag_AgentID a) (Ag_HeartbeatLatencyMS a))) (\<lambda>e. Inl (wrap ''heartbeat rpc'' e)) (\<lambda>_. do {
       now \<leftarrow> on_host host_now;
       _ \<leftarrow> set_agent (a\<lparr>Ag_HeartbeatLatencyMS := (now - start) div 10 ^ 6\<rparr>);
       metrics \<leftarrow> on_host (collectSystemMetrics x (AC_PGDataDir (Ag_Config a)));
       pgVersion \<leftarrow> (if running then do {
           v \<leftarrow> on_host (GetVersion (Ag_Pg a));
           _ \<leftarrow> on_host (GetReplicationLag (Ag_Pg a));
           State_Monad.return (case v of Inl _ \<Rightarrow> [] | Inr t \<Rightarrow> t)
         } else State_Monad.return []);
       _ \<leftarrow> call net (ReportStatus (Ag_AgentID a) [\<lparr>Rep_NodeId = Ag_NodeID a, Rep_PostgresRunning = running,
            Rep_PostgresInstalled = installed, Rep_PostgresBinVersion = version, Rep_PostgresVersion = pgVersion,
            Rep_PostgresDataInitialized = initialized, Rep_NodeStatusDetail = computeAgentStatusDetail installed initialized running,
            Rep_InstallationState = Ag_InstallationState a, Rep_ConflictDetails = Ag_ConflictDetails a,
            Rep_SystemMetrics = Some metrics\<rparr>]);
       State_Monad.return (Inr ())
     })
   }"

section \<open>Commands\<close>

definition reportCommandResult :: "network \<Rightarrow> AgentService \<Rightarrow> string \<Rightarrow> string \<Rightarrow> outcome \<Rightarrow> unit res sys" where
  "reportCommandResult net srv agentID commandID r = (case r of (success, output, errMsg) \<Rightarrow>
     call net (ReportCommandResult srv \<lparr>Res_AgentId = agentID, Res_CommandId = commandID, Res_Success = success,
       Res_Output = text_payload net (RedactSecrets output), Res_Error = RedactSecrets errMsg\<rparr>))"

definition run_command :: "network \<Rightarrow> certificate_issuer \<Rightarrow> AgentService \<Rightarrow> ProtoCommand \<Rightarrow> unit sys" where
  "run_command net x srv cmd = do {
     a \<leftarrow> get_agent;
     (a', r) \<leftarrow> on_host (executeCommand x cmd a);
     _ \<leftarrow> set_agent a';
     _ \<leftarrow> reportCommandResult net srv (Ag_AgentID a') (PCmd_Id cmd) r;
     if PCmd_Action cmd = ''agent_deactivate'' \<and> fst r then set_agent (a'\<lparr>Ag_Shutdown := True\<rparr>) else State_Monad.return ()
   }"

definition fetchCommands :: "network \<Rightarrow> certificate_issuer \<Rightarrow> AgentService \<Rightarrow> unit res sys" where
  "fetchCommands net x srv = do {
     a \<leftarrow> get_agent;
     try_do (call net (FetchCommand srv (Ag_AgentID a))) (\<lambda>e. Inl (wrap ''fetch command rpc'' e)) (\<lambda>cmds. do {
       _ \<leftarrow> for_all_do cmds (run_command net x srv);
       State_Monad.return (Inr ())
     })
   }"

text \<open>The end of \<open>Run\<close>: PostgreSQL is stopped when it runs; an error is only logged.\<close>

definition stop_postgres :: "Agent \<Rightarrow> unit act" where
  "stop_postgres a = do {
     running \<leftarrow> IsRunning (Ag_Pg a);
     if running then ignore (Stop (Ag_Pg a)) else State_Monad.return ()
   }"

text \<open>The steps of the running agent: one round of either loop, and its end once it is to shut down.\<close>

inductive agent_step :: "network \<Rightarrow> machine \<Rightarrow> certificate_issuer \<Rightarrow> AgentService \<Rightarrow> system \<Rightarrow> system \<Rightarrow> bool"
  for net mach x srv where
  heartbeat_tick: "\<not> Ag_Shutdown (sys_agent s) \<Longrightarrow> agent_step net mach x srv s (after (sendHeartbeat net mach) s)"
| command_tick: "\<not> Ag_Shutdown (sys_agent s) \<Longrightarrow> agent_step net mach x srv s (after (fetchCommands net x srv) s)"
| shutdown: "Ag_Shutdown (sys_agent s) \<Longrightarrow> agent_step net mach x srv s (after (on_host (stop_postgres (sys_agent s))) s)"

end
