(* ===== verification/AgentOutcome.thy ===== *)
theory AgentOutcome
  imports AgentExec
begin

text \<open>
  The form of what a command handler of the agent returns: an output only with success and an error text exactly with
  failure; and an agent whose identity and configuration are the ones it had.
\<close>

definition same_identity :: "Agent \<Rightarrow> Agent \<Rightarrow> bool" where
  "same_identity a a' \<longleftrightarrow> Ag_Config a' = Ag_Config a \<and> Ag_AgentID a' = Ag_AgentID a \<and> Ag_NodeID a' = Ag_NodeID a \<and>
     Ag_HeartbeatLatencyMS a' = Ag_HeartbeatLatencyMS a \<and> Ag_Shutdown a' = Ag_Shutdown a"

fun outcome_ok :: "Agent \<Rightarrow> Agent \<times> outcome \<Rightarrow> bool" where
  "outcome_ok a (a', success, output, errMsg) \<longleftrightarrow>
     same_identity a a' \<and> (if success then errMsg = [] else output = [] \<and> errMsg \<noteq> [])"

definition ends_well :: "Agent \<Rightarrow> command_act \<Rightarrow> bool" where
  "ends_well a m \<longleftrightarrow> (\<forall>h. wp m (\<lambda>r _. outcome_ok a r) h)"

section \<open>Identity\<close>

lemma identity_steps [intro, simp]:
  "same_identity a a"
  "same_identity a b \<Longrightarrow> same_identity a (setInstallationReport st details b)"
  "same_identity a b \<Longrightarrow> same_identity a (set_pg f b)"
  "same_identity a b \<Longrightarrow> same_identity a (applySkylexAdminCredentialsIfPresent cmd b)"
  by (simp_all add: same_identity_def setInstallationReport_def set_pg_def applySkylexAdminCredentialsIfPresent_def Let_def)

lemma identity_credentials: "applyPostgresAdminCredentials e cmd a = Inr b \<Longrightarrow> same_identity a b"
  by (auto simp: applyPostgresAdminCredentials_def Let_def split: if_splits option.splits)

section \<open>Endings\<close>

lemma ends_succeeded: "same_identity a b \<Longrightarrow> ends_well a (succeeded b out)"
  by (simp add: ends_well_def succeeded_def wp_simps)

lemma ends_failed: "same_identity a b \<Longrightarrow> msg \<noteq> [] \<Longrightarrow> ends_well a (failed b msg)"
  by (simp add: ends_well_def failed_def wp_simps)

lemma wp_every: "(\<And>r s'. Q r s') \<Longrightarrow> wp m Q s"
  by (simp add: wp_outcome)

lemma ends_bind: "(\<And>r. ends_well a (k r)) \<Longrightarrow> ends_well a (State_Monad.bind m k)"
  unfolding ends_well_def wp_bind by (intro allI, rule wp_every) blast

lemma ends_finish: "same_identity a b \<Longrightarrow> (\<And>e. onerr e \<noteq> []) \<Longrightarrow> ends_well a (finish m b onerr output)"
  unfolding finish_def by (auto intro!: ends_bind ends_failed ends_succeeded split: sum.split)

lemma if_nonempty: "(c \<Longrightarrow> x \<noteq> []) \<Longrightarrow> (\<not> c \<Longrightarrow> y \<noteq> []) \<Longrightarrow> (if c then x else y) \<noteq> []"
  by simp

lemma enrichError_nonempty: "enrichError cfg action msg \<noteq> []"
  unfolding enrichError_def enrich_start_def enrich_install_def wrap_def Let_def
  by (intro if_nonempty) (simp_all (no_asm))

lemma ends_enriched: "same_identity a b \<Longrightarrow> ends_well a (enriched b action m output)"
  unfolding enriched_def by (rule ends_finish) (simp_all add: enrichError_nonempty)

lemma ends_payload:
  "same_identity a b \<Longrightarrow> (\<And>p. ends_well a (k p)) \<Longrightarrow> ends_well a (with_payload b raw decoded what k)"
  unfolding with_payload_def by (auto intro!: ends_bind ends_failed split: option.split)

lemma wrap_nonempty [simp]: "wrap what e \<noteq> []"
  by (simp add: wrap_def)

lemmas endings_well = ends_succeeded ends_failed ends_bind ends_finish ends_enriched ends_payload

section \<open>Every command\<close>

lemma ends_management:
  "ends_well a (executeEnsureRole cmd a)" "ends_well a (executeEnsureAdminRole cmd a)" "ends_well a (executeRotateRolePassword cmd a)"
  "ends_well a (executeDropRole cmd a)" "ends_well a (executeEnsureDatabase cmd a)" "ends_well a (executeDropDatabase cmd a)"
  "ends_well a (executeGrantDatabasePrivileges cmd a)"
  unfolding executeEnsureRole_def executeEnsureAdminRole_def executeRotateRolePassword_def executeDropRole_def
    executeEnsureDatabase_def executeDropDatabase_def executeGrantDatabasePrivileges_def Let_def
  by (auto intro!: endings_well)

lemma ends_config:
  "ends_well a (executeApplyHBA cmd a)" "ends_well a (executeApplyTLS x cmd a)" "ends_well a (exec_settings p a)"
  unfolding executeApplyHBA_def executeApplyTLS_def exec_settings_def
  by (auto intro!: endings_well split: sum.split option.split)

lemma run_extension_fails: "wp (run_extension_op pg promote op) (\<lambda>r _. r \<noteq> Inl []) h"
  unfolding run_extension_op_def
  by (cases op; simp only: ext_op.case wp_try_do; rule wp_every; simp add: finish_ok_def wp_return split: sum.split)

lemma for_each_fails: "(\<And>y h. wp (f y) (\<lambda>r _. r \<noteq> Inl []) h) \<Longrightarrow> wp (for_each ys f) (\<lambda>r _. r \<noteq> Inl []) h"
proof (induction ys arbitrary: h)
  case (Cons y ys)
  show ?case
    unfolding for_each.simps wp_try_do
    by (rule wp_mono [OF Cons.prems]) (auto intro: Cons.IH Cons.prems split: sum.split)
qed (simp add: wp_return)

lemma ends_extensions: "ends_well a (executeApplyExtensions cmd a)"
proof -
  have "ends_well a (finish (for_each ops (run_extension_op pg promote)) a (\<lambda>e. e) out)" for ops pg promote out
    unfolding ends_well_def finish_def wp_bind
    by (intro allI wp_mono [OF for_each_fails [of "run_extension_op pg promote", OF run_extension_fails]])
       (auto simp: succeeded_def failed_def wp_return split: sum.split)
  then show ?thesis
    unfolding executeApplyExtensions_def Let_def by (auto intro!: endings_well)
qed

lemma ends_use_native:
  "same_identity a b \<Longrightarrow> (\<And>v c. same_identity a c \<Longrightarrow> ends_well a (k (v, c))) \<Longrightarrow> ends_well a (State_Monad.bind (use_native b fallback) k)"
  unfolding use_native_def ends_well_def wp_bind wp_return by (intro allI; rule wp_every; rule wp_every) simp

lemma ends_install_failed: "same_identity a b \<Longrightarrow> ends_well a (install_failed b action e)"
  unfolding install_failed_def by (intro ends_failed enrichError_nonempty) simp

lemma ends_install:
  "ends_well a (exec_preflight a)" "ends_well a (exec_install_native a)" "ends_well a (exec_install_docker p a)"
  "ends_well a (exec_purge_native a)"
  unfolding exec_preflight_def exec_install_native_def exec_install_docker_def exec_purge_native_def Let_def case_prod_unfold
  by (rule ends_use_native ends_bind ends_install_failed ends_succeeded ends_failed ends_enriched
    | simp add: identity_credentials split: sum.split | intro conjI impI allI)+

lemma ends_credentials: "ends_well a (exec_adopt_native cmd a)" "ends_well a (exec_create_repl_user cmd a)"
  unfolding exec_adopt_native_def exec_create_repl_user_def Let_def case_prod_unfold
  by (rule ends_use_native ends_bind ends_install_failed ends_succeeded ends_failed ends_enriched
    | simp add: identity_credentials split: sum.split | intro conjI impI allI)+

lemma ends_others: "ends_well a (exec_pgbackrest action stanza a)" "ends_well a (exec_replication action raw a)"
  unfolding exec_pgbackrest_def exec_replication_def Let_def by (simp_all add: ends_enriched)

lemma ends_command: "ends_well a (executeCommand x cmd a)"
  unfolding executeCommand_def Let_def
  by (rule ends_bind)
    (simp add: ends_install ends_credentials ends_others ends_management ends_config ends_extensions ends_enriched ends_failed)

text \<open>
  C15: Every command ends with a well formed result. Whatever the command and whatever the machine does, the agent
  returns either success with no error text, or failure with no output and an error text that is not empty, and it
  still has the configuration, the agent id and the node id it had: a command can only change how the agent reaches
  its PostgreSQL and the installation state it reports.
\<close>

theorem commands_end_well: "outcome_ok a (result (executeCommand x cmd a) h)"
  using ends_command [of a x cmd] by (simp add: ends_well_def wp_outcome)

end
