(* ===== verification/HostInvariant.thy ===== *)
theory HostInvariant
  imports AgentExec
begin

text \<open>
  What every operation of the agent keeps. \<open>host_invariant\<close> is the contract of the machine: an operation counts its
  calls, changes files and appends to the trace, and does nothing else, so a condition that survives these three
  survives every command. The interpretations at the end are the conditions the properties need.
\<close>

locale host_invariant =
  fixes I :: "host \<Rightarrow> bool"
  assumes count: "I h \<Longrightarrow> I (h\<lparr>n_call := Suc (n_call h)\<rparr>)"
    and touch: "I h \<Longrightarrow> I (h\<lparr>files := f\<rparr>)"
    and emit: "I h \<Longrightarrow> I (h\<lparr>events := events h @ [ev]\<rparr>)"
begin

lemma emit_touch: "I h \<Longrightarrow> I (h\<lparr>n_call := Suc (n_call h), files := f, events := events h @ [ev]\<rparr>)"
  using emit [OF touch [OF count]] by simp

lemma touch_count: "I h \<Longrightarrow> I (h\<lparr>n_call := Suc (n_call h), files := f\<rparr>)"
  using touch [OF count] by simp

lemma prim:
  "keeps I tick" "keeps I State_Monad.get" "keeps I (os_ReadFile path)" "keeps I (os_Stat path)" "keeps I os_try"
  "keeps I (os_WriteFile path content)" "keeps I (os_Remove path)" "keeps I (runStreamingCmd cmd)" "keeps I (sql_call c)"
  "keeps I host_now" "keeps I (exec_LookPath name)" "keeps I (os_ReadDir d)"
  by (rule keeps_wpI; auto simp: wp_simps wp_os_WriteFile wp_os_Remove Let_def count emit_touch touch_count split: option.splits)+

lemma prim_temp: "keeps I os_CreateTemp" "keeps I (os_RemoveAll d)"
  by (rule keeps_wpI; auto simp: os_CreateTemp_def os_RemoveAll_def wp_simps Let_def count touch_count split: option.splits)+

lemma case_fs: "keeps I m \<Longrightarrow> (\<And>x. keeps I (f x)) \<Longrightarrow> keeps I (case_fs_error m f v)"
  by (cases v) auto

lemma case_payload: "(\<And>x. keeps I (f x)) \<Longrightarrow> (\<And>x. keeps I (g x)) \<Longrightarrow> keeps I (case_payload f g v)"
  by (cases v) auto

lemma case_ext: "(\<And>x y. keeps I (f x y)) \<Longrightarrow> (\<And>x y. keeps I (g x y)) \<Longrightarrow> keeps I (case_ext_op f g v)"
  by (cases v) auto

lemmas steps = keeps_return keeps_bind keeps_try_do keeps_for_each keeps_for_all_do keeps_if keeps_case_option keeps_case_sum
  keeps_case_prod keeps_get_bind case_fs case_payload case_ext prim prim_temp

lemma calls:
  "keeps I (must_run what cmd)" "keeps I (query_bool c stmt args)" "keeps I (query_text c stmt args)" "keeps I (conn_Exec c stmt args)"
  unfolding must_run_def query_bool_def query_text_def conn_Exec_def by (intro steps)+

lemma ignored: "keeps I m \<Longrightarrow> keeps I (ignore m)"
  unfolding ignore_def by (intro steps)

lemma instance_ops:
  "keeps I (IsInitialized p)" "keeps I (IsRunning p)" "keeps I (Reload p)"
  unfolding IsInitialized_def IsRunning_def Reload_def Let_def by (intro steps calls)+

lemma hba_ops:
  "keeps I (write_hba p a b c d e f)" "keeps I (instance_ApplyHBA p policy)" "keeps I (refreshManagedHBAPrefix p r)"
  unfolding write_hba_def instance_ApplyHBA_def refreshManagedHBAPrefix_def ensureManagedHBAPrefixCurrent_def restoreHBAInclude_def
    read_previous_def Let_def
  by (intro steps calls instance_ops)+

lemma object_ops:
  "(\<And>c. keeps I (k c)) \<Longrightarrow> keeps I (connectWritable p b k)" "(\<And>c. keeps I (k c)) \<Longrightarrow> keeps I (connectWritableDatabase p db b k)"
  "(\<And>u. keeps I (j u)) \<Longrightarrow> keeps I (exec_or c stmt args what j)" "keeps I (finish_ok u)" "keeps I (quoteIdent name)"
  "keeps I (localConnect p)" "keeps I (localConnectDatabase p db)" "keeps I (postgresWritable c)"
  "(\<And>u. keeps I (kb u)) \<Longrightarrow> keeps I (database_found c db what kb)"
  unfolding connectWritable_def connectWritableDatabase_def on_writable_def exec_or_def finish_ok_def quoteIdent_def localConnect_def
    localConnectDatabase_def connect_to_def postgresWritable_def database_found_def
  by (intro steps calls; assumption?)+

lemma management_ops:
  "keeps I (EnsureRole p n k w b)" "keeps I (instance_RotateRolePassword p n w b)" "keeps I (DropRole p n b)"
  "keeps I (EnsureDatabase p db o' b)" "keeps I (DropDatabase p db b)" "keeps I (GrantDatabasePrivileges p db n k b)"
  "keeps I (EnsureExtension p db ext b)" "keeps I (DropExtension p db ext b)"
  unfolding EnsureRole_def setRolePassword_def instance_RotateRolePassword_def DropRole_def EnsureDatabase_def DropDatabase_def
    GrantDatabasePrivileges_def execGrantStatements_def EnsureExtension_def DropExtension_def Let_def
  by (intro steps calls object_ops)+

lemma conf_ops:
  "keeps I (writePostgresqlConf p)" "keeps I (writePgHBAConf p)" "keeps I (UpdateStandbySignal p host port)" "keeps I (writeStandbySignal p)"
  "keeps I (removeRecoveryMarkers p)" "keeps I (writeSkylexInclude p s)" "keeps I (ensureIncludeDirective p)"
  "keeps I (restoreIncludeFile path v)" "keeps I DetectInstallation"
  unfolding writePostgresqlConf_def writePgHBAConf_def UpdateStandbySignal_def writeStandbySignal_def removeRecoveryMarkers_def
    writeSkylexInclude_def ensureIncludeDirective_def restoreIncludeFile_def DetectInstallation_def version_of_def Let_def
  by (intro steps ignored)+

lemma control_ops:
  "keeps I (done_if_run what cmd)" "keeps I (Start p)" "keeps I (Stop p)" "keeps I (InitDB p)"
  "keeps I (BaseBackup p host port ru rp)" "keeps I (Promote p)" "keeps I (Rewind p host port ru rp)"
  "keeps I (CreateReplicationSlot p slot)" "keeps I (CreateReplicationUser p)"
  unfolding done_if_run_def Start_def start_docker_def start_container_def start_native_def refresh_or_def startupLogSnippet_def log_part_def
    latestLogFile_def readLastBytes_def Stop_def InitDB_def initdb_body_def writeInitPasswordFile_def BaseBackup_def Promote_def Rewind_def
    CreateReplicationSlot_def CreateReplicationUser_def Let_def
  by (intro steps calls instance_ops hba_ops conf_ops object_ops ignored)+

lemma settings_ops: "keeps I (ApplySettings p s)" "keeps I (pg_ApplyTLS x p cfg)"
  unfolding ApplySettings_def pg_ApplyTLS_def tls_Validate_def check_path_def ensureManagedCertificate_def write_delivered_def
    generate_certificate_def make_tls_dir_def write_or_def tls_Settings_def readSkylexIncludeSettings_def read_previous_def activate_tls_def
    restore_and_fail_def verifyTLSActive_def Let_def
  by (intro steps calls instance_ops conf_ops control_ops object_ops ignored)+

lemma run_ops:
  "keeps I (commandExists name)" "keeps I (installer_run name args)" "keeps I (runPrivileged name args)" "keeps I (output_version name)"
  unfolding commandExists_def installer_run_def runPrivileged_def output_version_def Let_def by (intro steps)+

lemma first_command_keeps: "keeps I (first_command cs)"
  by (induction cs) (auto intro: steps run_ops)

lemma detect_ops:
  "keeps I (DetectNativeBinDir d)" "keeps I (DetectNativeVersion f)" "keeps I detectPackageManager" "keeps I (commandAt p)"
  unfolding DetectNativeBinDir_def DetectNativeVersion_def detectPackageManager_def commandAt_def Let_def
  by (intro steps run_ops first_command_keeps)+

lemma preflight: "keeps I (native_Preflight cfg)"
  unfolding native_Preflight_def installed_version_def inspectDataDir_def Let_def
  by (intro steps run_ops)

lemma package_ops:
  "keeps I (install_packages pm v)" "keeps I (purge_packages pm v)" "keeps I (stopNativePostgres cfg)" "keeps I (ensureDataDirWritable d)"
  "keeps I (removeDataDir d)"
  unfolding install_packages_def purge_packages_def stopNativePostgres_def ensureDataDirWritable_def removeDataDir_def Let_def
  by (intro steps run_ops detect_ops object_ops(4) ignored)+

lemma native_ops: "keeps I (native_Install cfg)" "keeps I (native_Purge cfg)"
  unfolding native_Install_def native_Purge_def by (intro steps detect_ops package_ops)+

lemma docker_ops: "keeps I (docker_Install cfg)"
  unfolding docker_Install_def EnsureDockerEngine_def install_engine_if_missing_def installDockerEngine_def dockerReady_def
    docker_group_step_def detectPackageManager_def Let_def
  by (intro steps run_ops first_command_keeps)

lemma write_first_keeps: "keeps I (write_first paths r)"
  by (induction paths r rule: write_first.induct) (auto intro!: steps split: sum.splits)

lemma lifecycle_ops: "keeps I (deactivate a)"
  unfolding deactivate_def WriteDeactivationMarker_def disableSystemdAgent_def runAgentLifecycleCommand_def removeAgentTokenFiles_def Let_def
  by (intro steps run_ops control_ops write_first_keeps ignored)

lemma endings:
  "keeps I (succeeded a s)" "keeps I (failed a s)" "keeps I m \<Longrightarrow> keeps I (finish m a e out)"
  "(\<And>p. keeps I (k p)) \<Longrightarrow> keeps I (with_payload a raw decoded what k)" "keeps I m \<Longrightarrow> keeps I (enriched a act m out)"
  "keeps I (install_failed a act s)" "keeps I (use_native a v)"
  unfolding succeeded_def failed_def finish_def with_payload_def enriched_def install_failed_def use_native_def
  by (intro steps detect_ops; assumption?)+

lemma management_commands:
  "keeps I (executeEnsureRole cmd a)" "keeps I (executeEnsureAdminRole cmd a)" "keeps I (executeRotateRolePassword cmd a)"
  "keeps I (executeDropRole cmd a)" "keeps I (executeEnsureDatabase cmd a)" "keeps I (executeDropDatabase cmd a)"
  "keeps I (executeGrantDatabasePrivileges cmd a)" "keeps I (executeApplyHBA cmd a)" "keeps I (executeApplyTLS x cmd a)"
  "keeps I (executeApplyExtensions cmd a)"
  unfolding executeEnsureRole_def executeEnsureAdminRole_def executeRotateRolePassword_def executeDropRole_def executeEnsureDatabase_def
    executeDropDatabase_def executeGrantDatabasePrivileges_def executeApplyHBA_def executeApplyTLS_def executeApplyExtensions_def
    run_extension_op_def Let_def
  by (intro endings steps management_ops hba_ops control_ops settings_ops object_ops)+

lemma other_commands:
  "keeps I (exec_preflight a)" "keeps I (exec_install_native a)" "keeps I (exec_install_docker p a)" "keeps I (exec_purge_native a)"
  "keeps I (exec_adopt_native cmd a)" "keeps I (exec_pgbackrest act s a)" "keeps I (exec_replication act s a)" "keeps I (exec_settings p a)"
  "keeps I (exec_create_repl_user cmd a)"
  unfolding exec_preflight_def exec_install_native_def exec_install_docker_def exec_purge_native_def exec_adopt_native_def
    exec_pgbackrest_def agent_pgbackrest_def exec_replication_def exec_settings_def exec_create_repl_user_def Let_def
  by (intro endings steps preflight detect_ops native_ops docker_ops conf_ops control_ops settings_ops)+

lemma every_command: "keeps I (executeCommand x cmd a)"
  unfolding executeCommand_def Let_def
  by (intro endings steps management_commands other_commands control_ops lifecycle_ops)

end

text \<open>The machine stays the same, its calls are counted upwards, and its trace only grows.\<close>

interpretation env_kept: host_invariant "\<lambda>h. host_environment h = e" for e
  by unfold_locales simp_all

interpretation counting: host_invariant "\<lambda>h. n \<le> n_call h" for n
  by unfold_locales simp_all

interpretation tracing: host_invariant "\<lambda>h. \<exists>evs. events h = start @ evs" for start
  by unfold_locales auto

end
