(* ===== verification/ObjectSafety.thy ===== *)
theory ObjectSafety
  imports PgControl HbaSafety
begin

section \<open>What an error may show\<close>

lemma strings_Index_first: "strings_Index s sub = Some i \<Longrightarrow> j < i \<Longrightarrow> take (length sub) (drop j s) \<noteq> sub"
proof (induction s arbitrary: i j)
  case (Cons c s)
  then show ?case by (cases j) (auto split: if_splits)
qed (auto split: if_splits)

lemma strings_Index_le: "strings_Index s sub = Some i \<Longrightarrow> i \<le> length s"
  by (induction s arbitrary: i) (auto split: if_splits)

text \<open>Cutting a text at the first occurrence leaves none when what follows begins with another character.\<close>

lemma strings_Index_cut:
  assumes "strings_Index s sub = Some i" "c \<notin> set sub" "strings_Index t sub = None"
  shows "strings_Index (take i s @ c # t) sub = None"
  unfolding strings_Index_None
proof (intro allI impI)
  fix j assume j: "j \<le> length (take i s @ c # t)"
  have i: "i \<le> length s" by (rule strings_Index_le [OF assms(1)])
  have nonempty: "sub \<noteq> []" using assms(3) by (cases t) auto
  let ?w = "take (length sub) (drop j (take i s @ c # t))"
  consider "j + length sub \<le> i" "j < i" | "i < j + length sub" "j \<le> i" | "i < j"
    using nonempty by (metis add_le_same_cancel1 leI length_0_conv less_le_trans not_less0 le_less_linear le_neq_implies_less nat_less_le)
  then show "?w \<noteq> sub"
  proof cases
    case 1
    then have "?w = take (length sub) (drop j s)"
      using i by (simp add: drop_take min_def) arith
    then show ?thesis using strings_Index_first [OF assms(1) 1(2)] by simp
  next
    case 2
    then have "?w ! (i - j) = c" "i - j < length ?w"
      using i by (simp_all add: nth_append)
    then show ?thesis using assms(2) by (metis nth_mem)
  next
    case 3
    then have "?w = take (length sub) (drop (j - Suc i) t)"
      using i by (simp add: drop_Cons' min_def)
    moreover have "j - Suc i \<le> length t" using j i 3 by simp
    ultimately show ?thesis using assms(3) unfolding strings_Index_None by simp
  qed
qed

text \<open>
  An error of the driver never shows what follows the first mention of a password. The text that
  \<open>redactPGError\<close> returns has no \<open>password\<close> in it, in any mix of cases, and it is the error's text up to there.
\<close>

theorem redactPGError_cuts_password:
  "strings_Index (strings_ToLower (redactPGError msg)) ''password'' = None \<and>
   (redactPGError msg = msg \<or> (\<exists>i. redactPGError msg = take i msg @ ''[REDACTED]''))"
proof (cases "strings_Index (strings_ToLower msg) ''password''")
  case (Some i)
  have "strings_ToLower (take i msg @ ''[REDACTED]'') = take i (strings_ToLower msg) @ CHR ''['' # ''redacted]''"
    unfolding strings_ToLower_def map_append take_map by code_simp
  moreover have "strings_Index ''redacted]'' ''password'' = None" "CHR ''['' \<notin> set ''password''"
    by code_simp+
  ultimately show ?thesis
    using Some strings_Index_cut [OF Some] by (auto simp: redactPGError_def)
qed (simp add: redactPGError_def)

section \<open>A server in recovery\<close>

datatype management_op =
    EnsureRoleOp string RoleKind string
  | RotatePasswordOp string string
  | DropRoleOp string
  | EnsureDatabaseOp string string
  | DropDatabaseOp string
  | GrantOp string string RoleKind
  | EnsureExtensionOp string string
  | DropExtensionOp string string

primrec run_management_op :: "Instance \<Rightarrow> bool \<Rightarrow> management_op \<Rightarrow> unit res act" where
  "run_management_op p promote (EnsureRoleOp name kind password) = EnsureRole p name kind password promote"
| "run_management_op p promote (RotatePasswordOp name password) = instance_RotateRolePassword p name password promote"
| "run_management_op p promote (DropRoleOp name) = DropRole p name promote"
| "run_management_op p promote (EnsureDatabaseOp db owner) = EnsureDatabase p db owner promote"
| "run_management_op p promote (DropDatabaseOp db) = DropDatabase p db promote"
| "run_management_op p promote (GrantOp db role kind) = GrantDatabasePrivileges p db role kind promote"
| "run_management_op p promote (EnsureExtensionOp db ext) = EnsureExtension p db ext promote"
| "run_management_op p promote (DropExtensionOp db ext) = DropExtension p db ext promote"

definition recovery_question :: string where
  "recovery_question = ''SELECT pg_is_in_recovery()''"

definition stays_in_recovery :: "host_env \<Rightarrow> bool" where
  "stays_in_recovery e \<longleftrightarrow> (\<forall>n c f. fst (sql_reply e n (SqlStatement c recovery_question []) f) \<noteq> Inr (SqlBool False))"

definition harmless :: "event \<Rightarrow> bool" where
  "harmless ev = (case ev of
      Sent (SqlConnect c) \<Rightarrow> True
    | Sent (SqlStatement c stmt args) \<Rightarrow> stmt = recovery_question \<and> args = []
    | Ran cmd \<Rightarrow> False)"

definition only_asked :: "host \<Rightarrow> 'a res \<Rightarrow> host \<Rightarrow> bool" where
  "only_asked h r h' \<longleftrightarrow> isl r \<and> (\<exists>evs. events h' = events h @ evs \<and> list_all harmless evs)"

lemma wp_on_writable_recovery:
  assumes "stays_in_recovery (host_environment h)"
  shows "wp (on_writable (connect_to p db what) what' promote k) (only_asked h) h"
  using assms
  by (auto simp: stays_in_recovery_def only_asked_def harmless_def recovery_question_def on_writable_def connect_to_def
      postgresWritable_def query_bool_def wp_simps Let_def split: sum.splits SqlValue.splits)

lemma wp_refused: "wp (State_Monad.return (Inl e)) (only_asked h) h"
  by (simp add: wp_return only_asked_def)

lemma wp_management_op_recovery:
  assumes "stays_in_recovery (host_environment h)"
  shows "wp (run_management_op p promote op) (only_asked h) h"
  using wp_on_writable_recovery [OF assms] wp_refused
  by (cases op) (auto simp: EnsureRole_def instance_RotateRolePassword_def DropRole_def EnsureDatabase_def DropDatabase_def
      GrantDatabasePrivileges_def EnsureExtension_def DropExtension_def connectWritable_def connectWritableDatabase_def
      localConnect_def localConnectDatabase_def)

text \<open>
  C16: Management never changes a standby. While the local server says that it is in recovery, or the question
  fails, each of the eight operations on roles, databases and extensions ends with an error, and all it has done
  is connect and ask \<open>pg_is_in_recovery()\<close>; the flag that allows a promotion makes no difference.
\<close>

theorem standby_never_changed:
  assumes "stays_in_recovery (host_environment h)"
  shows "isl (result (run_management_op p promote op) h) \<and>
    (\<exists>evs. events (after (run_management_op p promote op) h) = events h @ evs \<and> list_all harmless evs)"
  using wp_management_op_recovery [OF assms, of p promote op] by (simp add: wp_outcome only_asked_def)

definition standby_host :: host where
  "standby_host = sample_machine\<lparr>host_environment := sample_host_env\<lparr>sql_reply := \<lambda>_ c f. (Inr (SqlBool True), f)\<rparr>\<rparr>"

theorem standby_never_changed_witness:
  "isl (result (run_management_op sample_instance True (DropDatabaseOp ''app'')) standby_host)"
proof -
  have "stays_in_recovery (host_environment standby_host)"
    by (simp add: stays_in_recovery_def standby_host_def)
  from standby_never_changed [OF this, of sample_instance True "DropDatabaseOp ''app''"] show ?thesis by simp
qed

end
