(* ===== verification/ConfigSafety.thy ===== *)
theory ConfigSafety
  imports PgTls ObjectSafety
begin

section \<open>The include file as a map\<close>

lemma Trim_hd_last: "TrimSpace s = s \<Longrightarrow> s \<noteq> [] \<Longrightarrow> \<not> is_space (hd s) \<and> \<not> is_space (last s)"
proof -
  assume t: "TrimSpace s = s" and ne: "s \<noteq> []"
  have len: "length (TrimSpace s) \<le> length (dropWhile is_space s)"
    unfolding TrimSpace_def by (metis length_dropWhile_le length_rev)
  have "\<not> is_space (hd s)"
  proof
    assume "is_space (hd s)"
    then have "length (dropWhile is_space s) < length s"
      using ne by (cases s) (auto simp: le_imp_less_Suc length_dropWhile_le)
    then show False using len t by simp
  qed
  then have d: "dropWhile is_space s = s" using ne by (cases s) auto
  have "\<not> is_space (last s)"
  proof
    assume "is_space (last s)"
    then have "length (dropWhile is_space (rev s)) < length s"
      using ne length_dropWhile_le [of is_space "rev (butlast s)"]
      by (cases s rule: rev_cases) (auto simp: less_Suc_eq_le)
    then show False using t d unfolding TrimSpace_def by (metis length_rev less_irrefl)
  qed
  with \<open>\<not> is_space (hd s)\<close> show ?thesis by simp
qed

lemma Trim_same: "\<not> is_space (hd s) \<Longrightarrow> \<not> is_space (last s) \<Longrightarrow> TrimSpace s = s"
proof (cases s rule: rev_cases)
  case (snoc ys y)
  assume "\<not> is_space (hd s)" "\<not> is_space (last s)"
  then have "dropWhile is_space s = s" by (cases s) auto
  with \<open>\<not> is_space (last s)\<close> snoc show ?thesis by (simp add: TrimSpace_def)
qed (simp add: TrimSpace_def)

lemma Trim_space_left: "TrimSpace (CHR '' '' # s) = TrimSpace s"
  by (simp add: TrimSpace_def is_space_def)

lemma dropWhile_snoc: "\<not> p a \<Longrightarrow> dropWhile p (xs @ [a]) = dropWhile p xs @ [a]"
  by (induction xs) auto

lemma Trim_space_right: "TrimSpace (s @ '' '') = TrimSpace s"
proof (cases "\<forall>c\<in>set s. is_space c")
  case True
  moreover have "is_space (CHR '' '')" by (simp add: is_space_def)
  ultimately have "dropWhile is_space s = []" "dropWhile is_space (s @ '' '') = []"
    by (auto simp only: dropWhile_eq_Nil_conv set_append list.set Un_iff insert_iff empty_iff)
  then show ?thesis by (simp only: TrimSpace_def)
next
  case False
  then have "dropWhile is_space (s @ '' '') = dropWhile is_space s @ '' ''"
    by (simp add: dropWhile_append)
  then show ?thesis by (simp add: TrimSpace_def is_space_def)
qed

lemma Trim_Nil [simp]: "TrimSpace [] = []"
  by (simp add: TrimSpace_def)

definition clean_setting :: "string \<times> string \<Rightarrow> bool" where
  "clean_setting kv \<longleftrightarrow> (case kv of (k, v) \<Rightarrow> k \<noteq> [] \<and> hd k \<noteq> CHR ''#'' \<and> CHR ''='' \<notin> set k \<and> CHR 0x0A \<notin> set (k @ v) \<and>
     TrimSpace k = k \<and> TrimSpace v = v)"

lemma Index_char: "c \<notin> set p \<Longrightarrow> strings_Index (p @ c # s) [c] = Some (length p)"
  by (induction p) auto

lemma parse_setting_line:
  assumes "clean_setting (k, v)"
  shows "parse_setting (k @ '' = '' @ v) = Some (k, v)"
proof -
  have k: "k \<noteq> []" "hd k \<noteq> CHR ''#''" "CHR ''='' \<notin> set k" "TrimSpace k = k" "TrimSpace v = v"
    using assms by (auto simp: clean_setting_def)
  have ends: "\<not> is_space (hd k)" using Trim_hd_last [OF k(4,1)] by simp
  have index: "strings_Index (k @ '' ='' @ w) ''='' = Some (Suc (length k))" for w
    using Index_char [of "CHR ''=''" "k @ '' ''" w] k(3) by simp
  have trimmed: "TrimSpace (k @ '' = '' @ v) = k @ '' ='' @ (if v = [] then [] else CHR '' '' # v)"
  proof (cases "v = []")
    case True
    have "TrimSpace (k @ '' ='') = k @ '' =''"
      by (rule Trim_same) (use k(1) ends in \<open>auto simp: is_space_def\<close>)
    then show ?thesis using True Trim_space_right [of "k @ '' =''"] by simp
  next
    case False
    then have "\<not> is_space (last v)" using Trim_hd_last [OF k(5)] by simp
    then show ?thesis using False k(1) ends by (simp add: Trim_same)
  qed
  have "take (Suc (length k)) (k @ '' ='' @ w) = k @ '' ''" for w by simp
  moreover have "drop (Suc (Suc (length k))) (k @ '' ='' @ w) = w" for w by simp
  moreover have "\<not> strings_HasPrefix (k @ w) ''#''" for w
    using k(1,2) by (cases k) (auto simp: strings_HasPrefix_def)
  moreover have "TrimSpace (if v = [] then [] else CHR '' '' # v) = v"
    using k(5) by (simp add: Trim_space_left)
  ultimately show ?thesis
    unfolding parse_setting_def Let_def trimmed index
    using k(1,4) Trim_space_right [of k] by simp
qed

lemma Split_lines:
  "\<forall>l\<in>set ls. c \<notin> set l \<Longrightarrow> strings_Split (concat (map (\<lambda>l. l @ [c]) ls)) c = ls @ [[]]"
  by (induction ls) (simp_all add: Split_append Split_plain)

lemma newline_not_digit: "CHR 0x0A \<notin> set (dec_nat n)"
proof (induction n rule: dec_nat.induct)
  case (1 n)
  have "digit n \<noteq> CHR 0x0A"
  proof
    assume "digit n = CHR 0x0A"
    then have "of_char (digit n) = (of_char (CHR 0x0A) :: nat)" by simp
    then show False by (simp add: digit_def take_bit_nat_eq_self)
  qed
  with 1 show ?case by (subst dec_nat.simps) simp
qed

lemma newline_not_padded: "CHR 0x0A \<notin> set (pad_int k i)"
  using newline_not_digit by (auto simp: pad_int_def dec_def)

lemma newline_not_time: "CHR 0x0A \<notin> set (format_rfc3339 t)"
  using newline_not_padded by (simp add: format_rfc3339_def Let_def split: prod.splits)

lemma parse_comment: "parse_setting (CHR ''#'' # s) = None"
proof -
  have "strings_HasPrefix (TrimSpace (CHR ''#'' # s)) ''#''"
  proof (cases "\<forall>c\<in>set s. is_space c")
    case True
    then have "dropWhile is_space (rev s) = []" by simp
    then show ?thesis by (simp add: TrimSpace_def is_space_def strings_HasPrefix_def dropWhile_append1 dropWhile_append)
  next
    case False
    then show ?thesis by (simp add: TrimSpace_def is_space_def strings_HasPrefix_def dropWhile_append)
  qed
  then show ?thesis by (simp add: parse_setting_def Let_def)
qed

lemma fold_update_distinct:
  "distinct (map fst (acc @ s)) \<Longrightarrow> fold (\<lambda>(k, v). AList.update k v) s acc = acc @ s"
proof (induction s arbitrary: acc)
  case (Cons kv s)
  obtain k v where kv: "kv = (k, v)" by fastforce
  have "AList.update k v acc = acc @ [(k, v)]"
    using Cons.prems kv by (induction acc) auto
  with Cons.IH [of "acc @ [(k, v)]"] Cons.prems kv show ?case by simp
qed simp

definition header_line :: "Time \<Rightarrow> string" where
  "header_line now = ''# Managed by Skylex. Last updated: '' @ format_rfc3339 now"

lemma render_lines:
  "render_include now s = concat (map (\<lambda>l. l @ [CHR 0x0A]) (header_line now # map (\<lambda>kv. fst kv @ '' = '' @ snd kv) (sort_key fst s)))"
  by (simp add: render_include_def header_line_def setting_line_def [abs_def] newline_def comp_def)

lemma fold_parsed:
  assumes "\<forall>kv\<in>set s. clean_setting kv"
  shows "fold (\<lambda>line settings. case parse_setting line of None \<Rightarrow> settings | Some (k, v) \<Rightarrow> AList.update k v settings)
     (map (\<lambda>kv. fst kv @ '' = '' @ snd kv) s) acc = fold (\<lambda>(k, v). AList.update k v) s acc"
  using assms
proof (induction s arbitrary: acc)
  case (Cons kv s)
  obtain k v where kv: "kv = (k, v)" by fastforce
  with Cons parse_setting_line [of k v] show ?case by simp
qed simp

lemma parse_render:
  assumes "distinct (map fst s)" "\<forall>kv\<in>set s. clean_setting kv"
  shows "parse_settings (render_include now s) = sort_key fst s"
proof -
  have lines: "\<forall>l \<in> set (header_line now # map (\<lambda>kv. fst kv @ '' = '' @ snd kv) (sort_key fst s)). CHR 0x0A \<notin> set l"
    using assms(2) newline_not_time by (auto simp: header_line_def clean_setting_def)
  have header: "parse_setting (header_line now) = None"
    unfolding header_line_def by (simp add: parse_comment)
  have keys: "distinct (map fst (sort_key fst s))"
    using assms(1) by (simp add: distinct_map)
  show ?thesis
    unfolding parse_settings_def render_lines Split_lines [OF lines]
    using fold_parsed [of "sort_key fst s"] fold_update_distinct [of "[]" "sort_key fst s"] assms(2) keys
    by (simp add: header) (simp add: parse_setting_def TrimSpace_def)
qed

lemma parse_render_map:
  assumes "distinct (map fst s)" "\<forall>kv\<in>set s. clean_setting kv"
  shows "map_of (parse_settings (render_include now s)) = map_of s"
proof -
  have "distinct (map fst (sort_key fst s))" "set (sort_key fst s) = set s"
    using assms(1) by (simp_all add: distinct_map)
  then have "map_of (sort_key fst s) = map_of s"
    using assms(1) by (metis map_of_inject_set)
  then show ?thesis using parse_render [OF assms] by simp
qed

text \<open>
  C38: The include file is read back as it was written. For settings with distinct keys whose keys and values can
  stand on a line of their own (no line break, no surrounding blanks, keys without an equals sign that do not look
  like a comment), parsing the file that \<open>writeSkylexInclude\<close> renders gives the same settings, in the order of
  their keys.
\<close>

theorem include_round_trip:
  assumes "distinct (map fst settings)" "\<forall>kv\<in>set settings. clean_setting kv"
  shows "parse_settings (render_include now settings) = sort_key fst settings \<and>
    map_of (parse_settings (render_include now settings)) = map_of settings"
  using parse_render [OF assms] parse_render_map [OF assms] by simp

section \<open>One file under the operations\<close>

text \<open>The host is the same machine, and the file at \<open>path\<close> has the content \<open>v\<close>.\<close>

definition holds_file :: "host_env \<Rightarrow> string \<Rightarrow> string option \<Rightarrow> host \<Rightarrow> bool" where
  "holds_file e path v h \<longleftrightarrow> host_environment h = e \<and> files h path = v"

definition leaves :: "host_env \<Rightarrow> string \<Rightarrow> bool" where
  "leaves e path \<longleftrightarrow> (\<forall>n cmd f. snd (run_process e n cmd f) path = f path)"

named_theorems file_intros \<open>operations that leave a file as it is\<close>

lemmas file_keeps = keeps_return keeps_bind keeps_try_do keeps_for_each keeps_for_all_do keeps_if keeps_case_option
  keeps_case_sum keeps_case_prod keeps_get_bind

lemma file_tick [file_intros]: "keeps (holds_file e path v) tick"
  by (rule keeps_wpI) (simp add: wp_simps holds_file_def)

lemma file_get [file_intros]: "keeps (holds_file e path v) State_Monad.get"
  by (rule keeps_wpI) (simp add: wp_simps)

lemma file_read [file_intros]: "keeps (holds_file e path v) (os_ReadFile f)"
  by (rule keeps_wpI) (simp add: wp_simps holds_file_def)

lemma file_stat [file_intros]: "keeps (holds_file e path v) (os_Stat f)"
  by (rule keeps_wpI) (simp add: wp_simps holds_file_def)

lemma file_try [file_intros]: "keeps (holds_file e path v) os_try"
  by (rule keeps_wpI) (simp add: wp_simps holds_file_def)

lemma file_now [file_intros]: "keeps (holds_file e path v) host_now"
  by (rule keeps_wpI) (simp add: wp_simps holds_file_def)

lemma file_dir [file_intros]: "keeps (holds_file e path v) (os_ReadDir d)"
  by (rule keeps_wpI) (simp add: wp_simps holds_file_def)

lemma file_write [file_intros]: "f \<noteq> path \<Longrightarrow> keeps (holds_file e path v) (os_WriteFile f content)"
  by (rule keeps_wpI) (auto simp: wp_os_WriteFile holds_file_def split: option.splits)

lemma file_run [file_intros]: "leaves e path \<Longrightarrow> keeps (holds_file e path v) (runStreamingCmd cmd)"
  by (rule keeps_wpI) (auto simp: wp_simps holds_file_def leaves_def Let_def)

lemma file_must_run [file_intros]: "leaves e path \<Longrightarrow> keeps (holds_file e path v) (must_run what cmd)"
  unfolding must_run_def by (intro file_keeps file_intros)

lemma file_IsInitialized [file_intros]: "leaves e path \<Longrightarrow> keeps (holds_file e path v) (IsInitialized p)"
  unfolding IsInitialized_def Let_def by (intro file_keeps file_intros)

lemma file_IsRunning [file_intros]: "leaves e path \<Longrightarrow> keeps (holds_file e path v) (IsRunning p)"
  unfolding IsRunning_def Let_def by (intro file_keeps file_intros)

lemma file_Reload [file_intros]: "leaves e path \<Longrightarrow> keeps (holds_file e path v) (Reload p)"
  unfolding Reload_def by (intro file_keeps file_intros)

lemma file_Validate [file_intros]: "keeps (holds_file e path v) (tls_Validate c)"
  unfolding tls_Validate_def check_path_def by (intro file_keeps file_intros)

lemma file_finish [file_intros]: "keeps (holds_file e path v) (finish_ok x)"
  unfolding finish_ok_def by (rule keeps_return)

lemma last_Join: "plain_name x \<Longrightarrow> last (filepath_Join d x) = last x"
  using filepath_Join_plain [of d] by (auto simp: plain_name_def)

lemma include_name: "plain_name includeFileName" "last includeFileName = CHR ''e''"
  by (simp_all add: plain_name_def includeFileName_def)

text \<open>The paths the agent writes besides the include file.\<close>

lemma other_paths:
  "plain_name x \<Longrightarrow> last x \<noteq> CHR ''e'' \<Longrightarrow> filepath_Join d x \<noteq> data_path p includeFileName"
  "data_path p ''postgresql.conf'' \<noteq> data_path p includeFileName"
  "data_path p ''pg_hba.conf'' \<noteq> data_path p includeFileName"
  using include_name by (metis last_Join data_path_def, (simp add: data_path_eq plain_name_def includeFileName_def)+)

lemma tls_names: "plain_name ''server.crt''" "plain_name ''server.key''" "plain_name ''ca.crt''"
  by (simp_all add: plain_name_def)

lemma keeps_case_fs_error: "keeps I m \<Longrightarrow> (\<And>x. keeps I (f x)) \<Longrightarrow> keeps I (case_fs_error m f v)"
  by (cases v) auto

lemma file_certificate:
  assumes "snd (tls_resolved d c)"
  shows "keeps (holds_file e (data_path p includeFileName) v) (ensureManagedCertificate x (fst (tls_resolved d c)))"
proof -
  let ?r = "fst (tls_resolved d c)" and ?I = "holds_file e (data_path p includeFileName) v"
  have cert: "STLS_CertFile ?r \<noteq> data_path p includeFileName" "STLS_KeyFile ?r \<noteq> data_path p includeFileName"
    using assms other_paths(1) [OF tls_names(1)] other_paths(1) [OF tls_names(2)]
    by (auto simp: tls_resolved_def Let_def split: if_splits)
  have ca: "filepath_Join b ''ca.crt'' \<noteq> data_path p includeFileName" for b
    by (rule other_paths(1) [OF tls_names(3)]) simp
  have "keeps ?I (generate_certificate x ?r)" "keeps ?I (write_delivered ?r)"
    unfolding write_delivered_def generate_certificate_def make_tls_dir_def write_or_def
    by (intro file_keeps file_intros cert ca)+
  then show ?thesis
    unfolding ensureManagedCertificate_def by (intro file_keeps file_intros keeps_case_fs_error)
qed

lemma file_directive [file_intros]:
  "keeps (holds_file e (data_path p includeFileName) v) (ensureIncludeDirective p)"
  unfolding ensureIncludeDirective_def Let_def by (intro file_keeps file_intros other_paths(2))

lemma file_verify [file_intros]: "leaves e path \<Longrightarrow> keeps (holds_file e path v) (verifyTLSActive p mode)"
  unfolding verifyTLSActive_def by (intro file_keeps file_intros)

lemma file_ignore [file_intros]: "keeps (holds_file e path v) m \<Longrightarrow> keeps (holds_file e path v) (ignore m)"
  unfolding ignore_def by (intro file_keeps)

lemma file_refresh [file_intros]:
  "leaves e (data_path p includeFileName) \<Longrightarrow> keeps (holds_file e (data_path p includeFileName) v) (refreshManagedHBAPrefix p reload)"
  unfolding refreshManagedHBAPrefix_def ensureManagedHBAPrefixCurrent_def Let_def
  by (intro file_keeps file_intros keeps_case_fs_error other_paths(3))

lemma file_Start [file_intros]:
  "leaves e (data_path p includeFileName) \<Longrightarrow> keeps (holds_file e (data_path p includeFileName) v) (Start p)"
  unfolding Start_def start_docker_def start_container_def start_native_def refresh_or_def startupLogSnippet_def log_part_def
    latestLogFile_def readLastBytes_def Let_def
  by (intro file_keeps file_intros)

lemma file_Stop [file_intros]: "leaves e path \<Longrightarrow> keeps (holds_file e path v) (Stop p)"
  unfolding Stop_def done_if_run_def Let_def by (intro file_keeps file_intros)

section \<open>TLS is applied or put back\<close>

abbreviation include_path :: "Instance \<Rightarrow> string" where
  "include_path p \<equiv> data_path p includeFileName"

lemma wp_restoreInclude:
  assumes "no_io_errors e" "holds_file e path u h"
  shows "wp (restoreIncludeFile path v) (\<lambda>_. holds_file e path v) h"
  using assms by (cases v) (auto simp: restoreIncludeFile_def ignore_def wp_simps wp_os_WriteFile wp_os_Remove holds_file_def)

definition tls_written :: "ServerTLS \<Rightarrow> string option \<Rightarrow> string option \<Rightarrow> bool" where
  "tls_written cfg before now \<longleftrightarrow> (\<exists>t. now = Some (render_include t (tls_settings cfg
     (case before of None \<Rightarrow> [] | Some content \<Rightarrow> parse_settings content))))"

lemma wp_activate:
  assumes "no_io_errors e" "leaves e (include_path p)" "holds_file e (include_path p) new h"
  shows "wp (activate_tls p (include_path p) old mode)
    (\<lambda>r. holds_file e (include_path p) (case r of Inr _ \<Rightarrow> new | Inl _ \<Rightarrow> old)) h"
proof -
  note keep = wp_keeps [where I = "holds_file e (include_path p) w" for w]
  have restore: "wp (restore_and_fail (include_path p) old msg)
      (\<lambda>r. holds_file e (include_path p) (case r of Inr _ \<Rightarrow> new | Inl _ \<Rightarrow> old)) s" if "holds_file e (include_path p) new s" for msg s
    unfolding restore_and_fail_def wp_bind by (rule wp_mono [OF wp_restoreInclude [OF assms(1) that]]) (simp add: wp_return)
  show ?thesis
    unfolding activate_tls_def wp_bind
  proof (rule keep [OF file_directive assms(3)], goal_cases)
    case (1 d s1)
    show ?case
    proof (cases d)
      case (Inr u)
      show ?thesis
        unfolding Inr sum.case wp_bind
      proof (rule keep [OF file_Reload [OF assms(2)] 1], goal_cases)
        case (1 r s2)
        show ?case
        proof (cases r)
          case (Inr u)
          show ?thesis
            unfolding Inr sum.case wp_bind
          proof (rule keep [OF file_verify [OF assms(2)] 1], goal_cases)
            case (1 v s3)
            show ?case
            proof (cases v)
              case (Inl err)
              show ?thesis
                unfolding Inl sum.case wp_bind
                by (rule wp_mono [OF wp_restoreInclude [OF assms(1) 1]])
                  (auto intro: keep [OF file_ignore [OF file_Reload [OF assms(2)]]] simp: wp_return)
            qed (use 1 in \<open>simp add: wp_return\<close>)
          qed
        qed (use 1 restore in simp)
      qed
    qed (use 1 restore in simp)
  qed
qed

lemma wp_read_previous:
  assumes "no_io_errors e" "holds_file e path v h" "\<And>s. holds_file e path v s \<Longrightarrow> Q (Inr v) s"
  shows "wp (read_previous what path) Q h"
  using assms by (auto simp: read_previous_def wp_simps holds_file_def split: option.splits)

lemma wp_tls_Settings:
  assumes "no_io_errors e" "path \<noteq> []" "holds_file e path v h"
    and "\<And>s. holds_file e path v s \<Longrightarrow> Q (tls_settings c (case v of None \<Rightarrow> [] | Some content \<Rightarrow> parse_settings content)) s"
  shows "wp (tls_Settings c path) Q h"
  using assms by (auto simp: tls_Settings_def readSkylexIncludeSettings_def wp_simps holds_file_def split: option.splits)

lemma wp_writeSkylexInclude:
  assumes "no_io_errors e" "holds_file e (include_path p) v h"
    and "\<And>t s. holds_file e (include_path p) (Some (if settings = [] then [] else render_include t settings)) s \<Longrightarrow> Q (Inr ()) s"
  shows "wp (writeSkylexInclude p settings) Q h"
  using assms by (auto simp: writeSkylexInclude_def wp_simps wp_os_WriteFile holds_file_def)

lemma tls_settings_nonempty: "tls_settings c s \<noteq> []"
proof -
  have up: "AList.update k v l \<noteq> []" for k :: string and v :: string and l by (induction l) auto
  have "map_of (AList.delete ''ssl_ca_file'' (AList.update ''ssl_key_file'' a (AList.update ''ssl_cert_file'' b (AList.update ''ssl'' ''on'' s)))) ''ssl''
    = Some ''on''" for a b
    by (simp add: delete_conv' update_conv')
  then have "AList.delete ''ssl_ca_file'' (AList.update ''ssl_key_file'' a (AList.update ''ssl_cert_file'' b (AList.update ''ssl'' ''on'' s))) \<noteq> []" for a b
    by (metis map_of.simps(1) option.distinct(1))
  with up show ?thesis by (simp add: tls_settings_def Let_def)
qed

lemma Join_plain_nonempty: "plain_name x \<Longrightarrow> filepath_Join d x \<noteq> []"
  using filepath_Join_plain [of d] by (auto simp: plain_name_def)

definition tls_outcome_ok :: "Instance \<Rightarrow> ServerTLS \<Rightarrow> host_env \<Rightarrow> string option \<Rightarrow> unit res \<Rightarrow> host \<Rightarrow> bool" where
  "tls_outcome_ok p cfg e v r h \<longleftrightarrow> host_environment h = e \<and>
     (case r of Inl _ \<Rightarrow> files h (include_path p) = v
      | Inr _ \<Rightarrow> tls_written (fst (tls_resolved (Inst_DataDir p) cfg)) v (files h (include_path p)))"

lemma wp_ApplyTLS:
  assumes "no_io_errors e" "leaves e (include_path p)" "holds_file e (include_path p) v h"
  shows "wp (pg_ApplyTLS x p cfg) (tls_outcome_ok p cfg e v) h"
proof -
  let ?r = "fst (tls_resolved (Inst_DataDir p) cfg)" and ?Q = "tls_outcome_ok p cfg e v"
  note keep = wp_keeps [where I = "holds_file e (include_path p) w" for w]
  have fail: "?Q (Inl err) s" if "holds_file e (include_path p) v s" for err s
    using that by (simp add: tls_outcome_ok_def holds_file_def)
  have path: "include_path p \<noteq> []"
    unfolding data_path_def by (rule Join_plain_nonempty [OF include_name(1)])
  have tail: "wp (do {
         settings \<leftarrow> tls_Settings ?r (include_path p);
         try_do (writeSkylexInclude p settings) (\<lambda>e. Inl (wrap ''write tls include file'' e)) (\<lambda>_.
           activate_tls p (include_path p) v (STLS_Mode ?r))
       }) ?Q s" if s: "holds_file e (include_path p) v s" for s
    unfolding wp_bind wp_try_do
  proof (rule wp_tls_Settings [OF assms(1) path s], rule wp_writeSkylexInclude [OF assms(1)], assumption, goal_cases)
    case (1 s1 t s2)
    then show ?case
      unfolding sum.case
      by (elim wp_mono [OF wp_activate [OF assms(1,2)]])
        (auto simp: tls_outcome_ok_def holds_file_def tls_written_def tls_settings_nonempty split: sum.splits)
  qed
  have "keeps (holds_file e (include_path p) v) (if snd (tls_resolved (Inst_DataDir p) cfg) then ensureManagedCertificate x ?r else finish_ok ())"
    using file_certificate [of "Inst_DataDir p" cfg e p v x] file_finish by simp
  note certificate = keep [OF this]
  show ?thesis
    unfolding pg_ApplyTLS_def wp_bind
  proof (rule keep [OF file_IsInitialized [OF assms(2)] assms(3)], goal_cases)
    case (1 init s1)
    show ?case
    proof (cases init)
      case True
      then have True: "init = True" by simp
      show ?thesis
        unfolding True not_True_eq_False if_False wp_try_do
      proof (rule keep [OF file_Validate 1], goal_cases)
        case (1 r s2)
        show ?case
        proof (cases r)
          case (Inr u)
          show ?thesis
            unfolding Inr sum.case case_prod_unfold wp_try_do
          proof (rule certificate [OF 1], goal_cases)
            case (1 c s3)
            show ?case
              using 1 tail fail
              by (cases c) (auto simp: Let_def wp_try_do intro!: wp_read_previous [OF assms(1) 1])
          qed
        qed (use 1 fail in simp)
      qed
    qed (use 1 fail in \<open>simp add: wp_return\<close>)
  qed
qed

lemma tls_resolved_mode: "STLS_Mode (fst (tls_resolved d cfg)) = STLS_Mode cfg"
  by (simp add: tls_resolved_def Let_def)

lemma tls_settings_map:
  "map_of (tls_settings c s) ''ssl'' = Some (if STLS_Mode c = TLSModeDisabled then ''off'' else ''on'')"
  "k \<in> {''ssl'', ''ssl_cert_file'', ''ssl_key_file'', ''ssl_ca_file''} \<or> map_of (tls_settings c s) k = map_of s k"
  by (auto simp: tls_settings_def Let_def delete_conv' update_conv')

text \<open>The TLS settings a request asks for, under the paths of its own certificate or of the managed one.\<close>

definition tls_keys :: "string set" where
  "tls_keys = {''ssl'', ''ssl_cert_file'', ''ssl_key_file'', ''ssl_ca_file''}"

definition tls_wanted :: "string \<Rightarrow> ServerTLS \<Rightarrow> string \<rightharpoonup> string" where
  "tls_wanted dataDir cfg = (
     let managedDir = filepath_Join dataDir ''skylex-tls'';
         manual = (STLS_CertFile cfg \<noteq> [] \<and> STLS_KeyFile cfg \<noteq> []);
         cert = (if manual then STLS_CertFile cfg else filepath_Join managedDir ''server.crt'');
         key = (if manual then STLS_KeyFile cfg else filepath_Join managedDir ''server.key'');
         ca = (if \<not> manual \<and> STLS_CAPEM cfg \<noteq> [] then filepath_Join managedDir ''ca.crt'' else STLS_CAFile cfg)
     in if STLS_Mode cfg = TLSModeDisabled then [''ssl'' \<mapsto> ''off'']
        else (if ca = [] then Map.empty else [''ssl_ca_file'' \<mapsto> quoteConfigValue ca])
          (''ssl'' \<mapsto> ''on'', ''ssl_cert_file'' \<mapsto> quoteConfigValue cert, ''ssl_key_file'' \<mapsto> quoteConfigValue key))"

lemma map_of_tls_off:
  assumes "distinct [a, b, c, d]"
  shows "map_of (AList.update a off (AList.delete d (AList.delete c (AList.delete b s)))) =
    (\<lambda>k. if k \<in> {a, b, c, d} then [a \<mapsto> off] k else map_of s k)"
  using assms by (auto simp: fun_eq_iff delete_conv' update_conv')

lemma map_of_tls_on:
  assumes "distinct [a, b, c, d]"
  shows "map_of (if ca \<noteq> [] then AList.update d (q ca) (AList.update c key (AList.update b cert (AList.update a on s)))
      else AList.delete d (AList.update c key (AList.update b cert (AList.update a on s)))) =
    (\<lambda>k. if k \<in> {a, b, c, d} then ((if ca = [] then Map.empty else [d \<mapsto> q ca])(a \<mapsto> on, b \<mapsto> cert, c \<mapsto> key)) k
      else map_of s k)"
  using assms by (auto simp: fun_eq_iff delete_conv' update_conv')

lemma tls_keys_distinct: "distinct [''ssl'', ''ssl_cert_file'', ''ssl_key_file'', ''ssl_ca_file'']"
  by simp

lemmas map_of_tls = map_of_tls_off [OF tls_keys_distinct] map_of_tls_on [OF tls_keys_distinct]

lemma tls_settings_wanted:
  "map_of (tls_settings (fst (tls_resolved d cfg)) s) = (\<lambda>k. if k \<in> tls_keys then tls_wanted d cfg k else map_of s k)"
proof (cases "STLS_Mode cfg = TLSModeDisabled")
  case True
  then show ?thesis by (simp only: tls_settings_def tls_resolved_def Let_def map_of_tls if_True simp_thms fst_conv tls_keys_def tls_wanted_def)
next
  case False
  define r where "r = fst (tls_resolved d cfg)"
  have "map_of (tls_settings r s) = (\<lambda>k. if k \<in> tls_keys
      then ((if STLS_CAFile r = [] then Map.empty else [''ssl_ca_file'' \<mapsto> quoteConfigValue (STLS_CAFile r)])
        (''ssl'' \<mapsto> ''on'', ''ssl_cert_file'' \<mapsto> quoteConfigValue (STLS_CertFile r), ''ssl_key_file'' \<mapsto> quoteConfigValue (STLS_KeyFile r))) k
      else map_of s k)" if "STLS_Mode r \<noteq> TLSModeDisabled"
    using that by (simp only: tls_settings_def Let_def map_of_tls if_False tls_keys_def)
  moreover have "STLS_Mode r = STLS_Mode cfg" by (simp add: r_def tls_resolved_mode)
  moreover have "STLS_CertFile r = (if STLS_CertFile cfg \<noteq> [] \<and> STLS_KeyFile cfg \<noteq> [] then STLS_CertFile cfg
      else filepath_Join (filepath_Join d ''skylex-tls'') ''server.crt'')"
    "STLS_KeyFile r = (if STLS_CertFile cfg \<noteq> [] \<and> STLS_KeyFile cfg \<noteq> [] then STLS_KeyFile cfg
      else filepath_Join (filepath_Join d ''skylex-tls'') ''server.key'')"
    "STLS_CAFile r = (if \<not> (STLS_CertFile cfg \<noteq> [] \<and> STLS_KeyFile cfg \<noteq> []) \<and> STLS_CAPEM cfg \<noteq> []
      then filepath_Join (filepath_Join d ''skylex-tls'') ''ca.crt'' else STLS_CAFile cfg)"
    using False by (simp_all add: r_def tls_resolved_def Let_def)
  ultimately show ?thesis
    using False by (simp only: r_def [symmetric] tls_wanted_def Let_def if_False simp_thms)
qed

text \<open>
  C11: Applying TLS is all or nothing for the include file. When file operations do not fail and no program writes
  that file, \<open>pg_ApplyTLS\<close> either reports an error and leaves the include file as it was (also when PostgreSQL did not
  reload or does not show the wanted state), or succeeds with the file rendered from the settings it had before, in
  which the four TLS settings are exactly those of the request: \<open>ssl\<close> off and no files when TLS is disabled,
  otherwise on, with the certificate, the key and the authority of the request, or those that Skylex manages under
  the data directory. Every other setting is kept.
\<close>

theorem tls_all_or_nothing:
  assumes "no_io_errors (host_environment h)" "leaves (host_environment h) (include_path p)"
  shows "case result (pg_ApplyTLS x p cfg) h of
      Inl _ \<Rightarrow> files (after (pg_ApplyTLS x p cfg) h) (include_path p) = files h (include_path p)
    | Inr _ \<Rightarrow> \<exists>t settings. files (after (pg_ApplyTLS x p cfg) h) (include_path p) = Some (render_include t settings) \<and>
        map_of settings = (\<lambda>k. if k \<in> tls_keys then tls_wanted (Inst_DataDir p) cfg k
          else map_of (case files h (include_path p) of None \<Rightarrow> [] | Some content \<Rightarrow> parse_settings content) k)"
proof -
  have ok: "tls_outcome_ok p cfg (host_environment h) (files h (include_path p)) (result (pg_ApplyTLS x p cfg) h) (after (pg_ApplyTLS x p cfg) h)"
    using wp_ApplyTLS [OF assms(1,2), of "files h (include_path p)" h x cfg] by (simp add: wp_outcome holds_file_def)
  then show ?thesis
  proof (cases "result (pg_ApplyTLS x p cfg) h")
    case (Inr u)
    let ?s = "tls_settings (fst (tls_resolved (Inst_DataDir p) cfg))
      (case files h (include_path p) of None \<Rightarrow> [] | Some content \<Rightarrow> parse_settings content)"
    obtain t where "files (after (pg_ApplyTLS x p cfg) h) (include_path p) = Some (render_include t ?s)"
      using ok Inr by (auto simp: tls_outcome_ok_def tls_written_def)
    then show ?thesis
      unfolding Inr sum.case by (intro exI [of _ t] exI [of _ ?s] conjI tls_settings_wanted)
  qed (use ok in \<open>simp add: tls_outcome_ok_def\<close>)
qed

section \<open>Settings replace the file\<close>

lemma wp_ApplySettings:
  assumes "no_io_errors e" "leaves e (include_path p)" "holds_file e (include_path p) v h"
  shows "wp (ApplySettings p settings) (\<lambda>r s. \<forall>how. r = Inr how \<longrightarrow>
    (\<exists>t. files s (include_path p) = Some (if settings = [] then [] else render_include t settings))) h"
proof -
  note keep = wp_keeps [where I = "holds_file e (include_path p) w" for w]
  have rest: "keeps (holds_file e (include_path p) w) (try_do (ensureIncludeDirective p) (\<lambda>e. Inl (wrap ''ensure include directive'' e)) (\<lambda>_.
       if list_ex (\<lambda>kv. fst kv \<notin> reloadableSettings) settings
       then try_do (Stop p) (\<lambda>e. Inl (wrap ''stop before restart'' e)) (\<lambda>_.
            try_do (Start p) (\<lambda>e. Inl (wrap ''start after restart'' e)) (\<lambda>_.
            State_Monad.return (Inr ''restart'')))
       else try_do (Reload p) (\<lambda>e. Inl (wrap ''reload settings'' e)) (\<lambda>_. State_Monad.return (Inr ''reload''))))" for w
    by (intro file_keeps file_intros assms(2))
  show ?thesis
    unfolding ApplySettings_def wp_bind
  proof (rule keep [OF file_IsInitialized [OF assms(2)] assms(3)], goal_cases)
    case (1 init s1)
    show ?case
    proof (cases init)
      case True
      then have True: "init = True" by simp
      show ?thesis
        unfolding True not_True_eq_False if_False wp_try_do [of "writeSkylexInclude p settings"]
        by (rule wp_writeSkylexInclude [OF assms(1) 1], unfold sum.case, erule keep [OF rest]) (auto simp: holds_file_def)
    qed (simp add: wp_return)
  qed
qed

text \<open>
  C39: Changing the cluster's settings undoes TLS. A successful \<open>ApplySettings\<close> leaves an include file with exactly
  the settings it was given; a \<open>ssl\<close> setting that \<open>pg_ApplyTLS\<close> had put there before is gone, so PostgreSQL serves
  without TLS from then on while the server has TLS recorded as applied.
\<close>

theorem settings_forget_tls:
  assumes "no_io_errors (host_environment h)" "leaves (host_environment h) (include_path p)"
    and "result (pg_ApplyTLS x p cfg) h = Inr ()" "STLS_Mode cfg \<noteq> TLSModeDisabled"
    and "result (ApplySettings p settings) (after (pg_ApplyTLS x p cfg) h) = Inr how"
    and "distinct (map fst settings)" "\<forall>kv\<in>set settings. clean_setting kv" "''ssl'' \<notin> fst ` set settings"
  shows "(\<exists>t on. files (after (pg_ApplyTLS x p cfg) h) (include_path p) = Some (render_include t on) \<and> map_of on ''ssl'' = Some ''on'') \<and>
    (\<exists>content. files (after (ApplySettings p settings) (after (pg_ApplyTLS x p cfg) h)) (include_path p) = Some content \<and>
       map_of (parse_settings content) = map_of settings \<and> map_of (parse_settings content) ''ssl'' = None)"
proof -
  let ?h1 = "after (pg_ApplyTLS x p cfg) h"
  have tls: "tls_outcome_ok p cfg (host_environment h) (files h (include_path p)) (Inr ()) ?h1"
    using wp_ApplyTLS [OF assms(1,2), of "files h (include_path p)" h x cfg] assms(3) by (simp add: wp_outcome holds_file_def)
  then have env: "host_environment ?h1 = host_environment h" by (simp add: tls_outcome_ok_def)
  have on: "\<exists>t on. files ?h1 (include_path p) = Some (render_include t on) \<and> map_of on ''ssl'' = Some ''on''"
    using tls tls_settings_map(1) assms(4) tls_resolved_mode by (fastforce simp: tls_outcome_ok_def tls_written_def)
  obtain t where written: "files (after (ApplySettings p settings) ?h1) (include_path p)
      = Some (if settings = [] then [] else render_include t settings)"
    using wp_ApplySettings [OF assms(1,2), of "files ?h1 (include_path p)" ?h1 settings] env assms(5)
    by (auto simp: wp_outcome holds_file_def)
  have "parse_settings [] = []"
    by (simp add: parse_settings_def parse_setting_def)
  then have "map_of (parse_settings (if settings = [] then [] else render_include t settings)) = map_of settings"
    using parse_render_map [OF assms(6,7), of t] by simp
  moreover have "map_of settings ''ssl'' = None"
    using assms(8) by (simp add: map_of_eq_None_iff)
  ultimately show ?thesis
    using on written by auto
qed

theorem include_round_trip_witness:
  "parse_settings (render_include 0 [(''work_mem'', ''4MB''), (''max_connections'', ''100'')]) = [(''max_connections'', ''100''), (''work_mem'', ''4MB'')]"
proof -
  have "distinct (map fst [(''work_mem'', ''4MB''), (''max_connections'', ''100'')])" by simp
  moreover have "\<forall>kv\<in>set [(''work_mem'', ''4MB''), (''max_connections'', ''100'')]. clean_setting kv"
    by (simp; code_simp)
  moreover have "sort_key fst [(''work_mem'', ''4MB''), (''max_connections'', ''100'')] = [(''max_connections'', ''100''), (''work_mem'', ''4MB'')]"
    by code_simp
  ultimately show ?thesis
    using include_round_trip [of "[(''work_mem'', ''4MB''), (''max_connections'', ''100'')]" 0] by simp
qed

definition tls_host :: host where
  "tls_host = \<lparr>files = [''/var/lib/pg/PG_VERSION'' \<mapsto> ''16'', ''/var/lib/pg/postgresql.conf'' \<mapsto> [], ''/c'' \<mapsto> ''cert'', ''/k'' \<mapsto> ''key''],
     host_environment = sample_host_env\<lparr>run_process := \<lambda>_ _ f. ((''on'', None), f)\<rparr>, n_call = 0, events = []\<rparr>"

definition sample_tls :: ServerTLS where
  "sample_tls = \<lparr>STLS_Mode = ''required'', STLS_CertFile = ''/c'', STLS_KeyFile = ''/k'', STLS_CAFile = [], STLS_CertPEM = [], STLS_KeyPEM = [],
     STLS_CAPEM = [], STLS_Hosts = []\<rparr>"

definition sample_issuer :: certificate_issuer where
  "sample_issuer = \<lparr>issue = (\<lambda>_ _. Inl ''no entropy''), parse_ip = (\<lambda>_. False)\<rparr>"

lemma sample_paths:
  "data_path sample_instance ''PG_VERSION'' = ''/var/lib/pg/PG_VERSION''"
  "data_path sample_instance ''postgresql.conf'' = ''/var/lib/pg/postgresql.conf''"
  "data_path sample_instance includeFileName = ''/var/lib/pg/skylex.conf.include''"
  by code_simp+

lemma sample_texts: "\<not> strings_Contains [] includeDirective" "strings_ToLower (TrimSpace ''on'') = ''on''" "docker_of sample_instance = None"
  "TLSModeRequired = ''required''" "TLSModeDisabled = ''disabled''" "tls_bad_path ''/c'' = False" "tls_bad_path ''/k'' = False" 
  by code_simp+

lemma settings_reloaded: "host_environment h = host_environment tls_host \<Longrightarrow> files h ''/var/lib/pg/PG_VERSION'' \<noteq> None \<Longrightarrow>
    files h ''/var/lib/pg/postgresql.conf'' \<noteq> None \<Longrightarrow>
    wp (ApplySettings sample_instance [(''work_mem'', ''4MB'')]) (\<lambda>r _. r = Inr ''reload'') h"
  by (cases h) (auto simp: ApplySettings_def IsInitialized_def wp_simps sample_paths sample_texts tls_host_def sample_host_env_def
    writeSkylexInclude_def wp_os_WriteFile ensureIncludeDirective_def Reload_def reloadableSettings_def Let_def)

lemma tls_applied:
  "wp (pg_ApplyTLS sample_issuer sample_instance sample_tls) (\<lambda>r h. r = Inr () \<and> host_environment h = host_environment tls_host \<and>
     files h ''/var/lib/pg/PG_VERSION'' \<noteq> None \<and> files h ''/var/lib/pg/postgresql.conf'' \<noteq> None) tls_host"
  by (simp add: pg_ApplyTLS_def IsInitialized_def tls_Validate_def check_path_def wp_simps sample_paths sample_texts tls_host_def
    sample_tls_def sample_host_env_def tls_resolved_def read_previous_def tls_Settings_def readSkylexIncludeSettings_def
    tls_settings_def writeSkylexInclude_def wp_os_WriteFile activate_tls_def ensureIncludeDirective_def Reload_def
    verifyTLSActive_def expected_ssl_def psql_def finish_ok_def Let_def)

lemma tls_host_facts:
  "no_io_errors (host_environment tls_host)" "leaves (host_environment tls_host) (include_path sample_instance)"
  "result (pg_ApplyTLS sample_issuer sample_instance sample_tls) tls_host = Inr ()"
  "result (ApplySettings sample_instance [(''work_mem'', ''4MB'')]) (after (pg_ApplyTLS sample_issuer sample_instance sample_tls) tls_host)
    = Inr ''reload''"
proof -
  show "no_io_errors (host_environment tls_host)" by (simp add: no_io_errors_def tls_host_def sample_host_env_def)
  show "leaves (host_environment tls_host) (include_path sample_instance)" by (simp add: leaves_def tls_host_def)
  show "result (pg_ApplyTLS sample_issuer sample_instance sample_tls) tls_host = Inr ()"
    using tls_applied by (simp add: wp_outcome)
  have "wp (ApplySettings sample_instance [(''work_mem'', ''4MB'')]) (\<lambda>r _. r = Inr ''reload'')
      (after (pg_ApplyTLS sample_issuer sample_instance sample_tls) tls_host)"
    by (rule settings_reloaded) (use tls_applied in \<open>simp_all add: wp_outcome\<close>)
  then show "result (ApplySettings sample_instance [(''work_mem'', ''4MB'')])
      (after (pg_ApplyTLS sample_issuer sample_instance sample_tls) tls_host) = Inr ''reload''"
    by (simp add: wp_outcome)
qed

theorem tls_all_or_nothing_witness:
  "\<exists>t settings. files (after (pg_ApplyTLS sample_issuer sample_instance sample_tls) tls_host) (include_path sample_instance)
     = Some (render_include t settings) \<and> map_of settings ''ssl'' = Some ''on'' \<and>
     map_of settings ''ssl_cert_file'' = Some (quoteConfigValue ''/c'') \<and>
     map_of settings ''ssl_key_file'' = Some (quoteConfigValue ''/k'') \<and> map_of settings ''ssl_ca_file'' = None"
proof -
  obtain t settings where "files (after (pg_ApplyTLS sample_issuer sample_instance sample_tls) tls_host) (include_path sample_instance)
      = Some (render_include t settings)"
    and "map_of settings = (\<lambda>k. if k \<in> tls_keys then tls_wanted (Inst_DataDir sample_instance) sample_tls k
      else map_of (case files tls_host (include_path sample_instance) of None \<Rightarrow> [] | Some content \<Rightarrow> parse_settings content) k)"
    using tls_all_or_nothing [OF tls_host_facts(1,2), of sample_issuer sample_tls] tls_host_facts(3) by auto
  then show ?thesis
    by (intro exI [of _ t] exI [of _ settings]) (simp add: tls_keys_def tls_wanted_def sample_tls_def sample_texts)
qed

theorem settings_forget_tls_witness:
  "\<exists>content. files (after (ApplySettings sample_instance [(''work_mem'', ''4MB'')])
       (after (pg_ApplyTLS sample_issuer sample_instance sample_tls) tls_host)) (include_path sample_instance) = Some content \<and>
     map_of (parse_settings content) ''ssl'' = None"
proof -
  let ?kvs = "[(''work_mem'', ''4MB'')]"
  have mode: "STLS_Mode sample_tls \<noteq> TLSModeDisabled" by (simp add: sample_tls_def sample_texts)
  have "clean_setting (''work_mem'', ''4MB'')" by code_simp
  then have clean: "distinct (map fst ?kvs)" "\<forall>kv\<in>set ?kvs. clean_setting kv" "''ssl'' \<notin> fst ` set ?kvs" by simp_all
  show ?thesis
    using conjunct2 [OF settings_forget_tls [OF tls_host_facts(1-3) mode tls_host_facts(4) clean]] by blast
qed

end
