(* ===== verification/ControlSafety.thy ===== *)
theory ControlSafety
  imports ConfigSafety
begin

section \<open>Cloning and creating an instance\<close>

lemma wp_os_RemoveAll:
  "no_io_errors (host_environment h) \<Longrightarrow> (\<And>r h'. host_environment h' = host_environment h \<Longrightarrow> Q r h') \<Longrightarrow> wp (os_RemoveAll d) Q h"
  by (auto simp: os_RemoveAll_def wp_simps)

lemma conf_paths: "data_path p ''postgresql.conf'' \<noteq> data_path p ''standby.signal''"
  by (simp add: data_path_eq plain_name_def)

lemma wp_BaseBackup:
  assumes "no_io_errors (host_environment h)" "docker_of p = None" "files h (data_path p ''PG_VERSION'') = None"
  shows "wp (BaseBackup p host port ru rp) (\<lambda>r s. r = Inr () \<longrightarrow>
    files s (data_path p ''standby.signal'') = Some (standby_text p ''primary'' (Inst_Port p)) \<and>
    files s (data_path p ''postgresql.conf'') = Some (text_lines (conf_head p @ conf_logging))) h"
  using assms conf_paths
  by (auto simp: BaseBackup_def IsInitialized_def writePostgresqlConf_def writeStandbySignal_def UpdateStandbySignal_def wp_simps
      wp_os_WriteFile Let_def intro!: wp_os_RemoveAll split: sum.splits prod.splits option.splits)

text \<open>
  A clone is not told where its primary is. After a successful \<open>BaseBackup\<close> of an empty data directory the file
  \<open>standby.signal\<close> names the host \<open>primary\<close> and the instance's own port whatever primary was asked for, and the
  \<open>postgresql.conf\<close> it writes over the copied one has no \<open>primary_conninfo\<close> either.
\<close>

theorem clone_ignores_primary:
  assumes "no_io_errors (host_environment h)" "docker_of p = None" "files h (data_path p ''PG_VERSION'') = None"
    and "result (BaseBackup p host port ru rp) h = Inr ()"
  shows "files (after (BaseBackup p host port ru rp) h) (data_path p ''standby.signal'') = Some (standby_text p ''primary'' (Inst_Port p)) \<and>
    files (after (BaseBackup p host port ru rp) h) (data_path p ''postgresql.conf'') = Some (text_lines (conf_head p @ conf_logging))"
  using wp_BaseBackup [OF assms(1-3), of host port ru rp] assms(4) by (simp add: wp_outcome)

section \<open>The password file of initdb\<close>

definition same_machine :: "host_env \<Rightarrow> host \<Rightarrow> bool" where
  "same_machine e h \<longleftrightarrow> host_environment h = e"

lemma machine_keeps:
  "keeps (same_machine e) tick" "keeps (same_machine e) (os_ReadFile f)" "keeps (same_machine e) os_try"
  "keeps (same_machine e) (os_WriteFile f c)" "keeps (same_machine e) (os_Remove f)" "keeps (same_machine e) (runStreamingCmd cmd)"
  "keeps (same_machine e) (must_run what cmd)"
  by (rule keeps_wpI; auto simp: wp_simps wp_os_WriteFile wp_os_Remove same_machine_def Let_def split: option.splits)+

lemma machine_initdb: "keeps (same_machine e) (initdb_body p f)"
  unfolding initdb_body_def writePostgresqlConf_def writePgHBAConf_def by (intro file_keeps machine_keeps)

lemma wp_InitDB:
  assumes "no_io_errors e" "host_environment h = e" "\<And>n. temp_name e n = tmp" "docker_of p = None"
    and "files h (data_path p ''PG_VERSION'') = None"
  shows "wp (InitDB p) (\<lambda>r s. files s tmp = None) h"
proof -
  have body: "wp (initdb_body p tmp) (\<lambda>r. wp (do { _ \<leftarrow> ignore (os_Remove tmp); State_Monad.return r }) (\<lambda>r s. files s tmp = None)) s"
    if "same_machine e s" for s
    by (rule wp_keeps [OF machine_initdb that])
      (use assms(1) in \<open>auto simp: ignore_def wp_simps wp_os_Remove same_machine_def\<close>)
  show ?thesis
    using assms(1,3-5) body assms(2)
    by (auto simp: InitDB_def IsInitialized_def writeInitPasswordFile_def os_CreateTemp_def wp_bind wp_try_do wp_return wp_os_Stat wp_os_try
        wp_tick wp_get wp_set wp_os_WriteFile Let_def same_machine_def)
qed

text \<open>
  The superuser's password is not left on disk. Whatever \<open>initdb\<close> and the writing of the configuration do,
  \<open>InitDB\<close> on an empty data directory ends without its temporary password file, as long as the system lets it
  remove the file.
\<close>

theorem initdb_password_removed:
  assumes "no_io_errors (host_environment h)" "\<forall>n. temp_name (host_environment h) n = tmp"
    and "docker_of p = None" "files h (data_path p ''PG_VERSION'') = None"
  shows "files (after (InitDB p) h) tmp = None"
  using wp_InitDB [OF assms(1) refl _ assms(3,4), of tmp] assms(2) by (simp add: wp_outcome)

section \<open>Waiting ends\<close>

text \<open>A round of the loop, with its sleep, takes at least a second.\<close>

definition sleeps :: "host_env \<Rightarrow> bool" where
  "sleeps e \<longleftrightarrow> (\<forall>n. host_clock e n \<le> host_clock e (Suc n) \<and> host_clock e n + second_ns \<le> host_clock e (Suc (Suc n)))"

lemma wp_wait_ready:
  assumes "sleeps e" "host_environment h = e" "deadline - host_clock e (n_call h) < int fuel * second_ns"
  shows "wp (wait_ready (Suc fuel) p deadline txt) (\<lambda>r h'. \<exists>y. r = Some y) h"
  using assms(2,3)
proof (induction fuel arbitrary: h)
  case 0
  then show ?case by (simp add: wp_simps)
next
  case (Suc fuel)
  have "host_clock e (n_call h) + second_ns \<le> host_clock e (Suc (Suc (n_call h)))"
    using assms(1) by (simp add: sleeps_def)
  then have "deadline - host_clock e (Suc (Suc (n_call h))) < int fuel * second_ns"
    using Suc.prems(2) by (simp add: algebra_simps)
  then show ?case
    using Suc.prems(1)
    by (subst wait_ready.simps)
      (auto simp: HealthCheck_def done_if_run_def wp_bind wp_host_now wp_return wp_try_do wp_must_run Let_def
        simp del: wait_ready.simps split: sum.splits prod.splits option.splits intro!: Suc.IH)
qed

text \<open>
  C20: Waiting for PostgreSQL ends. When a round of \<open>WaitForReady\<close> takes at least its second of sleep, a timeout of at
  most \<open>k\<close> seconds is over after \<open>k + 2\<close> rounds at the latest, whatever the health checks answer.
\<close>

theorem wait_terminates:
  assumes "sleeps (host_environment h)" "timeout \<le> int k * second_ns"
  shows "result (WaitForReady (k + 2) p timeout txt) h \<noteq> None"
proof -
  have "host_clock (host_environment h) (n_call h) \<le> host_clock (host_environment h) (Suc (n_call h))"
    using assms(1) by (simp add: sleeps_def)
  then have "host_clock (host_environment h) (n_call h) + timeout - host_clock (host_environment h) (Suc (n_call h))
      < int (Suc k) * second_ns"
    using assms(2) by (simp add: algebra_simps second_ns_def)
  then have "wp (WaitForReady (Suc (Suc k)) p timeout txt) (\<lambda>r _. \<exists>y. r = Some y) h"
    unfolding WaitForReady_def wp_bind wp_host_now using assms(1) by (intro wp_wait_ready) auto
  then show ?thesis by (auto simp: wp_outcome)
qed

definition bare_host :: host where
  "bare_host = \<lparr>files = Map.empty, host_environment = sample_host_env, n_call = 0, events = []\<rparr>"

lemma bare_host_facts: "no_io_errors (host_environment bare_host)" "docker_of sample_instance = None" "files bare_host path = None"
  "\<forall>n. temp_name (host_environment bare_host) n = ''/tmp/skylex-initdb-password-1''"
  by (simp_all add: no_io_errors_def bare_host_def sample_host_env_def docker_of_def sample_instance_def postgres_New_def)

theorem clone_ignores_primary_witness:
  "files (after (BaseBackup sample_instance ''10.0.0.7'' 5433 ''replicator'' ''secret'') bare_host) (data_path sample_instance ''standby.signal'')
     = Some (standby_text sample_instance ''primary'' 5432)"
proof -
  have "wp (BaseBackup sample_instance ''10.0.0.7'' 5433 ''replicator'' ''secret'') (\<lambda>r _. r = Inr ()) bare_host"
    by (simp add: BaseBackup_def IsInitialized_def writePostgresqlConf_def writeStandbySignal_def UpdateStandbySignal_def
      os_RemoveAll_def wp_simps wp_os_WriteFile bare_host_def sample_host_env_def docker_of_def sample_instance_def postgres_New_def
      ends_with_dot_def strings_HasPrefix_def Let_def)
  then have "result (BaseBackup sample_instance ''10.0.0.7'' 5433 ''replicator'' ''secret'') bare_host = Inr ()" by (simp add: wp_outcome)
  moreover have "Inst_Port sample_instance = 5432" by (simp add: sample_instance_def postgres_New_def)
  ultimately show ?thesis using clone_ignores_primary [OF bare_host_facts(1-3)] by metis
qed

theorem initdb_password_removed_witness:
  "files (after (InitDB sample_instance) bare_host) ''/tmp/skylex-initdb-password-1'' = None"
  by (rule initdb_password_removed [OF bare_host_facts(1,4,2,3)])

definition slow_host :: host where
  "slow_host = bare_host\<lparr>host_environment := sample_host_env\<lparr>host_clock := \<lambda>n. int n * second_ns,
     run_process := \<lambda>_ _ f. (([], Some ''exit status 2''), f)\<rparr>\<rparr>"

theorem wait_terminates_witness: "result (WaitForReady 5 sample_instance (3 * second_ns) ''3s'') slow_host \<noteq> None"
proof -
  have "sleeps (host_environment slow_host)"
    by (simp add: sleeps_def slow_host_def algebra_simps second_ns_def)
  from wait_terminates [OF this, of "3 * second_ns" 3 sample_instance "''3s''"] show ?thesis by simp
qed

end
