(* ===== verification/InstallSafety.thy ===== *)
theory InstallSafety
  imports Installers ControlSafety
begin

section \<open>What a purge removes\<close>

text \<open>The program and the arguments of a command, also when it runs through \<open>sudo\<close>.\<close>

fun effective :: "Process \<Rightarrow> string \<times> string list" where
  "effective cmd = (case Proc_Args cmd of
      flag # name # args \<Rightarrow> if Proc_Path cmd = ''sudo'' \<and> flag = ''-n'' then (name, args) else (Proc_Path cmd, Proc_Args cmd)
    | _ \<Rightarrow> (Proc_Path cmd, Proc_Args cmd))"

definition removes_only :: "string \<Rightarrow> event \<Rightarrow> bool" where
  "removes_only dir ev = (case ev of
      Sent c \<Rightarrow> True
    | Ran cmd \<Rightarrow> fst (effective cmd) = ''rm'' \<longrightarrow>
        snd (effective cmd) = [''-rf'', ''--'', filepath_Clean dir] \<and> strings_HasPrefix (filepath_Clean dir) ''/'' \<and>
        filepath_Clean dir \<notin> protected_dirs)"

definition traced :: "(event \<Rightarrow> bool) \<Rightarrow> event list \<Rightarrow> host \<Rightarrow> bool" where
  "traced P start h \<longleftrightarrow> (\<exists>evs. events h = start @ evs \<and> list_all P evs)"

lemma traced_tick: "keeps (traced P start) tick"
  by (rule keeps_wpI) (simp add: wp_simps traced_def)

lemma traced_LookPath: "keeps (traced P start) (exec_LookPath name)"
  by (rule keeps_wpI) (simp add: wp_simps traced_def)

lemma traced_run: "P (Ran cmd) \<Longrightarrow> keeps (traced P start) (runStreamingCmd cmd)"
  by (rule keeps_wpI) (auto simp: wp_simps traced_def Let_def)

lemma traced_exists: "keeps (traced P start) (commandExists name)"
  unfolding commandExists_def by (intro file_keeps traced_LookPath)

lemma traced_commandAt: "keeps (traced P start) (commandAt name)"
  unfolding commandAt_def by (intro file_keeps traced_exists)

lemma traced_installer_run: "P (Ran (plain_cmd name args)) \<Longrightarrow> keeps (traced P start) (installer_run name args)"
  unfolding installer_run_def by (intro file_keeps traced_run)

lemma traced_get: "keeps (traced P start) State_Monad.get"
  by (rule keeps_wpI) (simp add: wp_simps)

text \<open>A privileged command counts as the command itself, as root and through \<open>sudo\<close>.\<close>

lemma traced_privileged:
  assumes "P (Ran (plain_cmd name args))" "P (Ran (plain_cmd ''sudo'' ([''-n'', name] @ args)))"
  shows "keeps (traced P start) (runPrivileged name args)"
proof -
  have "keeps (traced P start) (case privilegedCommand euid sudo name args of
      Inl e \<Rightarrow> State_Monad.return (Inl e) | Inr (cmdName, cmdArgs) \<Rightarrow> installer_run cmdName cmdArgs)" for euid sudo
    using assms by (auto simp: privilegedCommand_def intro: traced_installer_run keeps_return)
  then show ?thesis
    unfolding runPrivileged_def by (intro keeps_bind [OF traced_exists] keeps_get_bind)
qed

lemma harmless_command:
  "name \<noteq> ''rm'' \<Longrightarrow> name \<noteq> ''sudo'' \<Longrightarrow> removes_only dir (Ran (plain_cmd name args))"
  "name \<noteq> ''rm'' \<Longrightarrow> removes_only dir (Ran (plain_cmd ''sudo'' ([''-n'', name] @ args)))"
  by (auto simp: removes_only_def plain_cmd_def split: list.splits)

lemma traced_other:
  "name \<noteq> ''rm'' \<Longrightarrow> name \<noteq> ''sudo'' \<Longrightarrow> keeps (traced (removes_only dir) start) (runPrivileged name args)"
  by (intro traced_privileged harmless_command)

lemma pg_ctl_path: "filepath_Join d ''pg_ctl'' \<noteq> ''rm''" "filepath_Join d ''pg_ctl'' \<noteq> ''sudo''"
  using last_Join [of "''pg_ctl''" d] by (auto simp: plain_name_def)

lemma traced_stop: "keeps (traced (removes_only dir) start) (stopNativePostgres cfg)"
  unfolding stopNativePostgres_def DetectNativeBinDir_def ignore_def Let_def
  by (intro file_keeps traced_LookPath traced_exists traced_commandAt traced_installer_run harmless_command(1) pg_ctl_path traced_other)
    simp_all

lemma traced_packages: "keeps (traced (removes_only dir) start) (purge_packages pm version)"
  unfolding purge_packages_def by (intro file_keeps traced_other) simp_all

lemma traced_first: "keeps (traced P start) (first_command cs)"
  by (induction cs) (auto intro: file_keeps traced_exists)

lemma traced_pm: "keeps (traced P start) detectPackageManager"
  unfolding detectPackageManager_def by (intro file_keeps traced_first)

lemma traced_removeDataDir: "keeps (traced (removes_only dir) start) (removeDataDir dir)"
proof -
  let ?clean = "filepath_Clean dir"
  have "keeps (traced (removes_only dir) start) (runPrivileged ''rm'' [''-rf'', ''--'', ?clean])"
    if "strings_HasPrefix ?clean ''/''" "?clean \<notin> protected_dirs"
    using that by (intro traced_privileged) (simp_all add: removes_only_def plain_cmd_def)
  then show ?thesis
    unfolding removeDataDir_def Let_def by (auto intro: keeps_return)
qed

lemma traced_purge: "keeps (traced (removes_only (IC_DataDir cfg)) start) (native_Purge cfg)"
  unfolding native_Purge_def by (intro file_keeps traced_pm traced_stop traced_packages traced_removeDataDir)

text \<open>
  C19: A purge removes the configured data directory and nothing else. Of all the programs \<open>Purge\<close> runs, with or
  without \<open>sudo\<close>, whatever they answer, the only \<open>rm\<close> is \<open>rm -rf --\<close> of the cleaned data directory, and only when
  that is an absolute path that is not one of the protected directories.
\<close>

theorem purge_removes_only_data_dir:
  "\<exists>evs. events (after (native_Purge cfg) h) = events h @ evs \<and> list_all (removes_only (IC_DataDir cfg)) evs"
  using keeps_after [OF traced_purge, of cfg "events h" h] by (simp add: traced_def)

section \<open>Docker\<close>

definition nothing_works :: "host_env \<Rightarrow> bool" where
  "nothing_works e \<longleftrightarrow> (\<forall>n cmd f. snd (fst (run_process e n cmd f)) \<noteq> None)"

text \<open>
  The agent asks for a restart although nothing was set up. For a user other than root on Linux with a \<open>docker\<close>
  program, when every command fails, the one that adds the user to the docker group included, \<open>EnsureDockerEngine\<close>
  still ends with the error that says that the setup completed and a restart applies the group membership.
\<close>

theorem docker_restart_without_setup:
  assumes "nothing_works (host_environment h)" "host_os (host_environment h) = ''linux''"
    and "host_user (host_environment h) = Inr username" "username \<noteq> ''root''"
    and "\<forall>n f. look_path (host_environment h) n ''docker'' f \<noteq> None"
  shows "result EnsureDockerEngine h = Inl DockerNeedsRestart"
proof -
  have fails: "wp (installer_run name args) (\<lambda>r s. host_environment s = host_environment h) s"
    if "host_environment s = host_environment h" for name args s
    using that by (simp add: installer_run_def wp_simps Let_def)
  have ready: "wp dockerReady (\<lambda>r s. r = False \<and> host_environment s = host_environment h) s"
    if "host_environment s = host_environment h" for s
    using that assms(1) by (simp add: dockerReady_def wp_simps Let_def nothing_works_def)
  have group: "wp docker_group_step (\<lambda>r s. r = Inl DockerNeedsRestart) s" if "host_environment s = host_environment h" for s
    unfolding docker_group_step_def wp_bind
    by (rule wp_mono [OF ready [OF that]])
      (auto simp: wp_simps assms(3,4) intro!: wp_mono [OF fails] wp_mono [OF ready])
  have "wp EnsureDockerEngine (\<lambda>r s. r = Inl DockerNeedsRestart) h"
    unfolding EnsureDockerEngine_def install_engine_if_missing_def commandExists_def wp_bind
    by (rule wp_mono [OF ready])
      (use assms(2,5) in \<open>auto simp: wp_simps intro!: group wp_mono [OF fails]\<close>)
  then show ?thesis by (simp add: wp_outcome)
qed

theorem docker_restart_without_setup_witness:
  "result EnsureDockerEngine (slow_host\<lparr>host_environment := (host_environment slow_host)\<lparr>host_user := Inr ''skylex''\<rparr>\<rparr>) = Inl DockerNeedsRestart"
  by (rule docker_restart_without_setup [where username = "''skylex''"])
    (simp_all add: nothing_works_def slow_host_def sample_host_env_def)

end
