(* ===== verification/AgentContract.thy ===== *)
theory AgentContract
  imports AgentExec InstallSafety Failover PostgresManagement PostgresExtensions NodeService AgentResults
begin

section \<open>Commands of the server are understood\<close>

lemma digit_facts: "of_char (digit n) - (48 :: int) = int (n mod 10)" "digit n \<noteq> CHR ''-''" "digit n \<noteq> CHR ''+''"
  "\<not> is_space (digit n)" "digit n \<noteq> CHR '':''"
proof -
  have code: "of_char (digit n) = 48 + n mod 10"
    by (simp add: digit_def take_bit_nat_eq_self)
  have "of_char (digit n) = int (48 + n mod 10)"
    using code by (metis of_nat_of_char)
  then show "of_char (digit n) - (48 :: int) = int (n mod 10)" by simp
  have "of_char c \<noteq> (of_char (digit n) :: nat) \<Longrightarrow> digit n \<noteq> c" for c by auto
  from this [of "CHR ''-''"] this [of "CHR ''+''"] this [of "CHR '':''"] code
  show "digit n \<noteq> CHR ''-''" "digit n \<noteq> CHR ''+''" "digit n \<noteq> CHR '':''" by auto
  have "of_char c < (48 :: nat) \<Longrightarrow> digit n \<noteq> c" for c using code by auto
  then show "\<not> is_space (digit n)" unfolding is_space_def by auto
qed

lemma dec_nat_head: "\<exists>m. hd (dec_nat n) = digit m"
  by (induction n rule: dec_nat.induct; subst dec_nat.simps; auto simp: dec_nat_digits)

lemma digits_value_dec: "digits_value (dec_nat n) = int n"
proof (induction n rule: dec_nat.induct)
  case (1 n)
  then show ?case
    by (subst dec_nat.simps) (auto simp: digits_value_def digit_facts zmod_int zdiv_int)
qed

lemma scan_dec:
  assumes "0 \<le> i" "i < 2 ^ 63"
  shows "scan_int (dec i) = Some i"
proof -
  obtain m where hd: "hd (dec_nat (nat i)) = digit m" using dec_nat_head by blast
  have ne: "dec_nat (nat i) \<noteq> []" by (rule dec_nat_digits(2))
  have "dropWhile (\<lambda>c. is_space c \<and> c \<noteq> CHR 0x0A) (dec_nat (nat i)) = dec_nat (nat i)"
    using hd ne digit_facts(4) [of m] by (cases "dec_nat (nat i)") auto
  moreover have "takeWhile is_digit (dec_nat (nat i)) = dec_nat (nat i)"
    using dec_nat_digits(1) [of "nat i"] by (simp add: takeWhile_eq_all_conv list_all_iff)
  ultimately show ?thesis
    using assms hd ne digit_facts(2,3) [of m]
    by (simp add: scan_int_def dec_def digits_value_dec Let_def del: takeWhile_eq_all_conv)
qed

text \<open>
  A replication command names its primary. The payload that the failover, the rejoining of nodes and the
  creation of clusters build from an address without a colon and a port is read back by the agent as that host and
  that port.
\<close>

theorem replication_target_round_trip:
  assumes "host_port host port = Text payload" "CHR '':'' \<notin> set host" "0 \<le> port" "port < 2 ^ 63"
  shows "parseReplicationTarget payload defaultPort = (host, port)"
proof -
  have "payload = host @ '':'' @ dec port" using assms(1) by (simp add: host_port_def)
  moreover have "takeWhile (\<lambda>c. c \<noteq> CHR '':'') (host @ '':'' @ dec port) = host"
    using assms(2) by (subst takeWhile_append2) auto
  ultimately show ?thesis
    using scan_dec [OF assms(3,4)] by (simp add: parseReplicationTarget_def)
qed

text \<open>An IPv6 address is cut at its first colon.\<close>

lemma replication_target_ipv6: "parseReplicationTarget ''fd00::1:5432'' 5433 = (''fd00'', 5433)"
  by code_simp

lemma get_ignored: "State_Monad.bind State_Monad.get (\<lambda>_. m) = m"
  by (simp add: State_Monad.bind_def State_Monad.get_def)

lemma decode_create_role:
  "decode_role (create_role_payload roleID opID name kind promote) = Some \<lparr>RCP_RoleName = name, RCP_RoleKind = kind,
     RCP_PasswordSecretKey = ''password'', RCP_AllowPromote = promote\<rparr>"
  by (simp add: decode_role_def create_role_payload_def object_fields_def str_field_def bool_field_def field_value_def names_field_def
      fold_char_def lower_char_def strings_HasPrefix_def)

lemmas decode_simps = object_fields_def str_field_def bool_field_def list_field_def field_value_def names_field_def
  fold_char_def lower_char_def strings_HasPrefix_def

lemma decode_rotate:
  "decode_role (rotate_payload role opID promote) = Some \<lparr>RCP_RoleName = MRole_RoleName role, RCP_RoleKind = [],
     RCP_PasswordSecretKey = ''password'', RCP_AllowPromote = promote\<rparr>"
  by (simp add: decode_role_def rotate_payload_def decode_simps)

lemma decode_delete_role:
  "decode_role (delete_role_payload role opID promote) = Some \<lparr>RCP_RoleName = MRole_RoleName role, RCP_RoleKind = [],
     RCP_PasswordSecretKey = [], RCP_AllowPromote = promote\<rparr>"
  by (simp add: decode_role_def delete_role_payload_def decode_simps)

lemma decode_create_database:
  "decode_database (create_database_payload databaseID opID db promote owner) = Some \<lparr>DCP_DatabaseName = db,
     DCP_OwnerRoleName = (case owner of None \<Rightarrow> [] | Some r \<Rightarrow> MRole_RoleName r),
     DCP_OwnerRoleKind = (case owner of None \<Rightarrow> [] | Some r \<Rightarrow> MRole_RoleKind r),
     DCP_GrantRoleName = [], DCP_GrantRoleKind = [], DCP_AllowPromote = promote\<rparr>"
  by (cases owner) (simp_all add: decode_database_def create_database_payload_def decode_simps)

lemma decode_delete_database:
  "decode_database (delete_database_payload d opID promote) = Some \<lparr>DCP_DatabaseName = MDb_DatabaseName d,
     DCP_OwnerRoleName = [], DCP_OwnerRoleKind = [], DCP_GrantRoleName = [], DCP_GrantRoleKind = [], DCP_AllowPromote = promote\<rparr>"
  by (simp add: decode_database_def delete_database_payload_def decode_simps)

lemma decode_hba_command:
  "decode_hba (AH_Payload (hba_command clusterID (app, adm, rep) roles dbs n node)) = Some (\<lparr>Pol_AdminCIDRs = adm, Pol_ReplicationCIDRs = rep,
     Pol_ApplicationCIDRs = app, Pol_AdminRoles = readyAdminRoleNames roles, Pol_ApplicationRoles = readyApplicationRoleNames roles,
     Pol_ApplicationDBs = readyApplicationDatabaseNames dbs\<rparr>, Node_Role node = NodeRolePrimary \<and> n = 1)"
  by (simp add: decode_hba_def hba_command_def decode_simps)

lemma decode_extensions_command:
  "decode_extensions (extensions_payload clusterID node dbNames enable disable promote) = Some \<lparr>ECP_ClusterID = clusterID,
     ECP_NodeID = Node_ID node, ECP_Databases = dbNames, ECP_Enable = enable, ECP_Disable = disable, ECP_AllowPromote = promote\<rparr>"
  by (simp add: decode_extensions_def extensions_payload_def decode_simps)

lemma decode_grant:
  "decode_database (grant_payload g promote) = Some \<lparr>DCP_DatabaseName = Grant_DatabaseName g, DCP_OwnerRoleName = [],
     DCP_OwnerRoleKind = [], DCP_GrantRoleName = Grant_GrantRoleName g, DCP_GrantRoleKind = Grant_GrantRoleKind g,
     DCP_AllowPromote = promote\<rparr>"
  by (simp add: decode_database_def grant_payload_def decode_simps)

lemma decode_admin_role:
  "decode_role admin_role_payload = Some \<lparr>RCP_RoleName = SkylexAdminRole, RCP_RoleKind = ''admin'',
     RCP_PasswordSecretKey = ''skylex_admin_password'', RCP_AllowPromote = False\<rparr>"
  by (simp add: decode_role_def admin_role_payload_def SkylexAdminRole_def decode_simps)

lemma decode_tls_command:
  "decode_tls (tls_payload_for clusterID tlsMode profile node managed) = Some \<lparr>TCP_TLSMode = tlsMode,
     TCP_CertFile = CP_TLSCertFile profile, TCP_KeyFile = CP_TLSKeyFile profile, TCP_CAFile = CP_TLSCAFile profile,
     TCP_CertSecretKey = (if managed then ''server_cert_pem'' else []), TCP_KeySecretKey = (if managed then ''server_key_pem'' else []),
     TCP_CACertSecretKey = (if managed then ''ca_cert_pem'' else []), TCP_CertHosts = tlsCertificateHosts profile node\<rparr>"
  by (simp add: decode_tls_def tls_payload_for_def Let_def decode_simps)

lemma decode_adopt:
  "PCmd_Payload cmd = nativeAdoptCredentialPayload creds \<Longrightarrow>
   admin_credentials cmd = Some (AdminUser creds, ''postgres_admin_password'', [])"
  by (simp add: admin_credentials_def nativeAdoptCredentialPayload_def decode_simps)

lemma decode_docker:
  "map (\<lambda>c. (Prov_action c, docker_target a e (Prov_payload c))) (installCommands node version ServiceLocationDocker resolved clusterID) =
   [(''pg_install_docker'', clusterID, if version = [] then AC_PGVersion (Ag_Config a) else version)]"
  by (simp add: installCommands_def pcmd_def docker_target_def Let_def decode_simps)

lemma decode_settings_map:
  "\<exists>settings. decode_settings (map (\<lambda>(k, v). (k, JStr v)) kvs) acc = Some settings \<and> map_of settings = map_of acc ++ map_of (rev kvs)"
proof (induction kvs arbitrary: acc)
  case (Cons kv kvs)
  obtain k v where "kv = (k, v)" by (cases kv)
  moreover have "map_of (AList.update k v acc) = map_of acc ++ [k \<mapsto> v]" by (simp add: update_conv fun_eq_iff map_add_def)
  ultimately show ?case using Cons.IH [of "AList.update k v acc"] by (auto simp del: map_add_upd simp: map_add_assoc)
qed simp

lemma decode_settings_command:
  assumes "distinct (map fst parameters)"
  shows "map_option map_of (Option.bind (object_fields (settings_payload parameters)) (\<lambda>fs. decode_settings fs [])) = Some (map_of parameters)"
proof (cases "parameters = []")
  case False
  have "distinct (map fst (sort_key fst parameters))"
    using assms by (simp add: distinct_map)
  then have "map_of (rev (sort_key fst parameters)) = map_of parameters"
    using assms by (simp add: map_of_rev map_of_inject_set)
  with False decode_settings_map [of "sort_key fst parameters" "[]"] show ?thesis
    by (auto simp: settings_payload_def object_fields_def)
qed (simp add: settings_payload_def object_fields_def)

text \<open>
  C14: Every payload is understood. What the server writes into its commands is decoded by the agent to the same
  values: for the roles, the role of the administrator, the databases, the grants, the network rules, TLS and the
  extensions the same names, owners, grantees, lists, paths, names of secrets and permission to promote, with the
  fields a command does not carry empty; for the settings the same map, for an installation with Docker the same
  cluster and version (the agent's own version when the server names none), and for the adoption of an installation
  the same administrator and the name of the secret with his password.
\<close>

theorem payloads_understood:
  assumes "distinct (map fst parameters)" "PCmd_Payload cmd = nativeAdoptCredentialPayload creds"
  shows "decode_role (create_role_payload roleID opID name kind promote) = Some \<lparr>RCP_RoleName = name, RCP_RoleKind = kind,
     RCP_PasswordSecretKey = ''password'', RCP_AllowPromote = promote\<rparr> \<and>
   decode_role (rotate_payload role opID promote) = Some \<lparr>RCP_RoleName = MRole_RoleName role, RCP_RoleKind = [],
     RCP_PasswordSecretKey = ''password'', RCP_AllowPromote = promote\<rparr> \<and>
   decode_role (delete_role_payload role opID promote) = Some \<lparr>RCP_RoleName = MRole_RoleName role, RCP_RoleKind = [],
     RCP_PasswordSecretKey = [], RCP_AllowPromote = promote\<rparr> \<and>
   decode_database (create_database_payload databaseID opID db promote owner) = Some \<lparr>DCP_DatabaseName = db,
     DCP_OwnerRoleName = (case owner of None \<Rightarrow> [] | Some r \<Rightarrow> MRole_RoleName r),
     DCP_OwnerRoleKind = (case owner of None \<Rightarrow> [] | Some r \<Rightarrow> MRole_RoleKind r),
     DCP_GrantRoleName = [], DCP_GrantRoleKind = [], DCP_AllowPromote = promote\<rparr> \<and>
   decode_database (delete_database_payload d opID promote) = Some \<lparr>DCP_DatabaseName = MDb_DatabaseName d,
     DCP_OwnerRoleName = [], DCP_OwnerRoleKind = [], DCP_GrantRoleName = [], DCP_GrantRoleKind = [], DCP_AllowPromote = promote\<rparr> \<and>
   decode_hba (AH_Payload (hba_command clusterID (app, adm, rep) roles dbs n node)) = Some (\<lparr>Pol_AdminCIDRs = adm, Pol_ReplicationCIDRs = rep,
     Pol_ApplicationCIDRs = app, Pol_AdminRoles = readyAdminRoleNames roles, Pol_ApplicationRoles = readyApplicationRoleNames roles,
     Pol_ApplicationDBs = readyApplicationDatabaseNames dbs\<rparr>, Node_Role node = NodeRolePrimary \<and> n = 1) \<and>
   decode_extensions (extensions_payload clusterID node dbNames enable disable promote) = Some \<lparr>ECP_ClusterID = clusterID,
     ECP_NodeID = Node_ID node, ECP_Databases = dbNames, ECP_Enable = enable, ECP_Disable = disable, ECP_AllowPromote = promote\<rparr> \<and>
   decode_role admin_role_payload = Some \<lparr>RCP_RoleName = SkylexAdminRole, RCP_RoleKind = ''admin'',
     RCP_PasswordSecretKey = ''skylex_admin_password'', RCP_AllowPromote = False\<rparr> \<and>
   decode_database (grant_payload g promote) = Some \<lparr>DCP_DatabaseName = Grant_DatabaseName g, DCP_OwnerRoleName = [],
     DCP_OwnerRoleKind = [], DCP_GrantRoleName = Grant_GrantRoleName g, DCP_GrantRoleKind = Grant_GrantRoleKind g,
     DCP_AllowPromote = promote\<rparr> \<and>
   decode_tls (tls_payload_for clusterID tlsMode profile node managed) = Some \<lparr>TCP_TLSMode = tlsMode,
     TCP_CertFile = CP_TLSCertFile profile, TCP_KeyFile = CP_TLSKeyFile profile, TCP_CAFile = CP_TLSCAFile profile,
     TCP_CertSecretKey = (if managed then ''server_cert_pem'' else []), TCP_KeySecretKey = (if managed then ''server_key_pem'' else []),
     TCP_CACertSecretKey = (if managed then ''ca_cert_pem'' else []), TCP_CertHosts = tlsCertificateHosts profile node\<rparr> \<and>
   map_option map_of (Option.bind (object_fields (settings_payload parameters)) (\<lambda>fs. decode_settings fs [])) = Some (map_of parameters) \<and>
   map (\<lambda>c. (Prov_action c, docker_target a e (Prov_payload c))) (installCommands node version ServiceLocationDocker resolved clusterID) =
     [(''pg_install_docker'', clusterID, if version = [] then AC_PGVersion (Ag_Config a) else version)] \<and>
   admin_credentials cmd = Some (AdminUser creds, ''postgres_admin_password'', [])"
  by (intro conjI decode_rotate decode_delete_role decode_create_database decode_delete_database decode_hba_command
      decode_extensions_command decode_create_role decode_admin_role decode_grant decode_tls_command
      decode_settings_command [OF assms(1)] decode_docker decode_adopt [OF assms(2)])

theorem payloads_understood_witness:
  "map_option map_of (Option.bind (object_fields (settings_payload [(''work_mem'', ''4MB'')])) (\<lambda>fs. decode_settings fs [])) =
     Some [''work_mem'' \<mapsto> ''4MB''] \<and>
   admin_credentials \<lparr>PCmd_Id = ''k1'', PCmd_NodeId = ''n1'', PCmd_Action = ''pg_adopt_native'',
     PCmd_Payload = nativeAdoptCredentialPayload \<lparr>AdminUser = ''postgres'', AdminPassword = ''pw''\<rparr>, PCmd_Secrets = Map.empty\<rparr>
   = Some (''postgres'', ''postgres_admin_password'', [])"
  using payloads_understood [where parameters = "[(''work_mem'', ''4MB'')]" and creds = "\<lparr>AdminUser = ''postgres'', AdminPassword = ''pw''\<rparr>"
    and cmd = "\<lparr>PCmd_Id = ''k1'', PCmd_NodeId = ''n1'', PCmd_Action = ''pg_adopt_native'',
     PCmd_Payload = nativeAdoptCredentialPayload \<lparr>AdminUser = ''postgres'', AdminPassword = ''pw''\<rparr>, PCmd_Secrets = Map.empty\<rparr>"]
  by simp

section \<open>Errors of a start\<close>

lemma Contains_mid: "strings_Contains (a @ sub @ b) sub"
proof -
  have "take (length sub) (drop (length a) (a @ sub @ b)) = sub" by simp
  then have "strings_Index (a @ sub @ b) sub \<noteq> None"
    unfolding strings_Index_None by (metis le_add1 length_append)
  then show ?thesis by (simp add: strings_Contains_def)
qed

text \<open>
  A failed start hides its reason. The startup log that a failed \<open>pg_ctl start\<close> appends to its error has the line in
  which the server says on which port it listens; with it the hint for \<open>pg_start\<close> blames a port in use and drops
  the error, whatever stopped the server.
\<close>

theorem start_error_blames_port:
  assumes "\<not> strings_Contains (strings_ToLower msg) ''permission denied''" "msg = before @ ''listening on IPv4 address, port 5432'' @ rest"
  shows "enrichError cfg ''pg_start'' msg = ''pg_start failed: port is already in use'' @ dash
    @ ''stop the existing PostgreSQL process on port '' @ dec (AC_Port cfg) @ '' or change the port''"
proof -
  have mid: "map lower_char ''listening on IPv4 address, port 5432'' = ''listening on ipv4 address, '' @ ''port'' @ '' 5432''"
    by code_simp
  have "strings_ToLower msg = (strings_ToLower before @ ''listening on ipv4 address, '') @ ''port'' @ ('' 5432'' @ strings_ToLower rest)"
    by (simp only: assms(2) strings_ToLower_def map_append mid append_assoc)
  then have "strings_Contains (strings_ToLower msg) ''port''"
    using Contains_mid by metis
  then show ?thesis
    using assms(1) by (simp add: enrichError_def enrich_start_def Let_def)
qed

section \<open>A deactivated agent stays deactivated\<close>

definition markers :: "AgentConfig \<Rightarrow> string set" where
  "markers cfg = set (deactivationMarkerPaths cfg)"

text \<open>No program removes a file of the machine.\<close>

definition nothing_removed :: "host_env \<Rightarrow> bool" where
  "nothing_removed e \<longleftrightarrow> (\<forall>n cmd f path. f path \<noteq> None \<longrightarrow> snd (run_process e n cmd f) path \<noteq> None)"

definition has_file :: "host_env \<Rightarrow> string \<Rightarrow> host \<Rightarrow> bool" where
  "has_file e path h \<longleftrightarrow> host_environment h = e \<and> files h path \<noteq> None"

lemma has_file_keeps:
  "keeps (has_file e path) tick"
  "nothing_removed e \<Longrightarrow> keeps (has_file e path) (runStreamingCmd cmd)"
  "f \<noteq> path \<Longrightarrow> keeps (has_file e path) (os_Remove f)"
  "keeps (has_file e path) (exec_LookPath name)"
  by (rule keeps_wpI; auto simp: wp_simps wp_os_Remove has_file_def nothing_removed_def Let_def split: option.splits)+

lemma has_file_disable: "nothing_removed e \<Longrightarrow> keeps (has_file e path) disableSystemdAgent"
  unfolding disableSystemdAgent_def commandExists_def runAgentLifecycleCommand_def ignore_def Let_def
  by (intro file_keeps has_file_keeps)

lemma has_file_tokens:
  "path = ''/etc/skylex/.skylex-agent-deactivated'' \<Longrightarrow> keeps (has_file e path) removeAgentTokenFiles"
  unfolding removeAgentTokenFiles_def ignore_def
  by (simp, intro file_keeps has_file_keeps) simp_all

lemma machine_Stop: "keeps (same_machine e) (Stop p)"
  unfolding Stop_def done_if_run_def IsRunning_def Let_def
  by (intro file_keeps machine_keeps; (rule keeps_wpI; simp add: wp_simps same_machine_def)?)

lemma wp_write_marker:
  assumes "no_io_errors e" "host_environment h = e"
    and "\<And>s. has_file e ''/etc/skylex/.skylex-agent-deactivated'' s \<Longrightarrow> Q (Inr ()) s"
  shows "wp (WriteDeactivationMarker cfg) Q h"
  using assms by (simp add: WriteDeactivationMarker_def deactivationMarkerPaths_def wp_simps wp_os_WriteFile has_file_def)

lemma wp_deactivate:
  assumes "no_io_errors e" "nothing_removed e" "host_environment h = e"
  shows "wp (deactivate a) (\<lambda>r s. r = Inr () \<longrightarrow> has_file e ''/etc/skylex/.skylex-agent-deactivated'' s) h"
proof -
  have rest: "keeps (has_file e ''/etc/skylex/.skylex-agent-deactivated'') (do {
       _ \<leftarrow> disableSystemdAgent; _ \<leftarrow> removeAgentTokenFiles; State_Monad.return (Inr () :: unit res) })"
    by (intro file_keeps has_file_disable has_file_tokens assms(2) refl)
  show ?thesis
    unfolding deactivate_def wp_try_do
    by (rule wp_keeps [OF machine_Stop [of e]])
      (use assms(1,3) in \<open>auto simp: same_machine_def wp_try_do split: sum.splits
         intro!: wp_write_marker [where e = e] wp_keeps [OF rest]\<close>)
qed

text \<open>
  Deactivation lasts. After a successful \<open>agent_deactivate\<close> an agent that starts again on this machine with any
  configuration finds the marker and does not run: on a machine whose file operations succeed and whose programs
  do not remove files, \<open>IsDeactivated\<close> is true, also after the token and configuration files are gone.
\<close>

theorem deactivation_lasts:
  assumes "no_io_errors (host_environment h)" "nothing_removed (host_environment h)"
    and "result (deactivate a) h = Inr ()"
  shows "result (IsDeactivated cfg) (after (deactivate a) h)"
proof -
  have "has_file (host_environment h) ''/etc/skylex/.skylex-agent-deactivated'' (after (deactivate a) h)"
    using wp_deactivate [OF assms(1,2) refl, of a] assms(3) by (simp add: wp_outcome)
  then have "wp (IsDeactivated cfg) (\<lambda>r _. r) (after (deactivate a) h)"
    using assms(1) by (auto simp: IsDeactivated_def deactivationMarkerPaths_def has_file_def wp_simps)
  then show ?thesis by (simp add: wp_outcome)
qed

lemma sample_ports: "dec 5432 = ''5432''" "dec 5433 = ''5433''"
  by (simp_all add: dec_def dec_nat.simps digit_def) (code_simp+)?

theorem replication_target_round_trip_witness: "parseReplicationTarget ''10.0.0.7:5433'' 5432 = (''10.0.0.7'', 5433)"
proof -
  have "host_port ''10.0.0.7'' 5433 = Text ''10.0.0.7:5433''" by (simp add: host_port_def sample_ports)
  from replication_target_round_trip [OF this, of 5432] show ?thesis by simp
qed

theorem start_error_blames_port_witness:
  "enrichError DefaultConfig ''pg_start'' ''FATAL: listening on IPv4 address, port 5432''
   = ''pg_start failed: port is already in use'' @ dash @ ''stop the existing PostgreSQL process on port 5432 or change the port''"
proof -
  have "strings_ToLower ''FATAL: listening on IPv4 address, port 5432'' = ''fatal: listening on ipv4 address, port 5432''" by code_simp
  then have no: "\<not> strings_Contains (strings_ToLower ''FATAL: listening on IPv4 address, port 5432'') ''permission denied''"
    by (simp add: strings_Contains_def)
  have msg: "''FATAL: listening on IPv4 address, port 5432'' = ''FATAL: '' @ ''listening on IPv4 address, port 5432'' @ []" by simp
  have port: "dec (AC_Port DefaultConfig) = ''5432''" by (simp add: DefaultConfig_def sample_ports)
  have tail: "''stop the existing PostgreSQL process on port '' @ ''5432'' @ '' or change the port''
    = ''stop the existing PostgreSQL process on port 5432 or change the port''" by simp
  show ?thesis
    using start_error_blames_port [OF no msg, of DefaultConfig] unfolding port tail .
qed

theorem deactivation_lasts_witness:
  "result (IsDeactivated DefaultConfig) (after (deactivate (agent_New DefaultConfig)) bare_host)"
proof (rule deactivation_lasts)
  show "no_io_errors (host_environment bare_host)" by (rule bare_host_facts)
  show "nothing_removed (host_environment bare_host)"
    by (simp add: nothing_removed_def bare_host_def sample_host_env_def)
  show "result (deactivate (agent_New DefaultConfig)) bare_host = Inr ()" by code_simp
qed

end
