(* ===== verification/AgentRounds.thy ===== *)
theory AgentRounds
  imports AgentLoop AgentOutcome HostInvariant AgentSafety AgentContract
begin

section \<open>A result that is lost\<close>


























end
