(* ===== verification/RedactionSafety.thy ===== *)
theory RedactionSafety
  imports AgentLog
begin

section \<open>One pass of the redaction\<close>

lemma fold_char_shorter: "fold_char c s = Some r \<Longrightarrow> length r < length s"
  by (cases s) (auto simp: fold_char_def strings_HasPrefix_def split: if_splits)

lemma fold_lit_shorter: "fold_lit l s = Some r \<Longrightarrow> length r \<le> length s"
proof (induction l s rule: fold_lit.induct)
  case (2 c cs s)
  then show ?case by (auto split: option.splits dest: fold_char_shorter)
qed simp

lemma fold_lit_Cons_shorter: "fold_lit (c # cs) s = Some r \<Longrightarrow> length r < length s"
  using fold_lit_shorter fold_char_shorter by (fastforce split: option.splits)

text \<open>What an assignment matches: the name, an equals sign between blanks, and the longest run without a blank.\<close>

definition match_value :: "string \<Rightarrow> string option" where
  "match_value r = (case dropWhile re_space r of
      [] \<Rightarrow> None
    | c # r' \<Rightarrow> if c = CHR ''='' \<and> dropWhile re_space r' \<noteq> [] then Some (dropWhile not_space (dropWhile re_space r')) else None)"

lemma fold_equals: "fold_char (CHR ''='') s = (case s of [] \<Rightarrow> None | c # r \<Rightarrow> if c = CHR ''='' then Some r else None)"
proof -
  have "lower_char c = CHR ''='' \<longleftrightarrow> c = CHR ''=''" for c
  proof
    assume h: "lower_char c = CHR ''=''"
    show "c = CHR ''=''"
    proof (cases "65 \<le> byte c \<and> byte c \<le> 90")
      case True
      then have "byte (char_of (byte c + 32)) = 61"
        using h by (simp add: lower_char_def)
      then show ?thesis using True by (simp add: take_bit_nat_eq_self)
    qed (use h in \<open>auto simp: lower_char_def\<close>)
  qed (simp add: lower_char_def)
  then show ?thesis by (auto simp: fold_char_def lower_char_def split: list.splits)
qed

lemma not_space_head: "dropWhile re_space r = c # s \<Longrightarrow> not_space c"
  using hd_dropWhile [of re_space r] by (simp add: not_space_def)

lemma match_assignment:
  "match_steps (assignment name) prev s = Option.bind (fold_lit name s) match_value"
proof (cases "fold_lit name s")
  case (Some r)
  show ?thesis
  proof (cases "dropWhile re_space r")
    case (Cons c r')
    show ?thesis
    proof (cases "dropWhile re_space r'")
      case Cons2: (Cons d r2)
      then show ?thesis
        using Some Cons not_space_head [OF Cons2]
          by (simp add: assignment_def match_value_def fold_equals del: dropWhile_eq_Nil_conv)
    qed (use Some Cons in \<open>simp add: assignment_def match_value_def fold_equals del: dropWhile_eq_Nil_conv\<close>)
  qed (use Some in \<open>simp add: assignment_def match_value_def fold_equals del: dropWhile_eq_Nil_conv\<close>)
qed (simp add: assignment_def)

lemma match_value_shorter: "match_value r = Some r' \<Longrightarrow> length r' < length r"
  using length_dropWhile_le [of re_space r]
  by (auto simp: match_value_def split: list.splits if_splits)
    (meson le_trans length_dropWhile_le less_le_trans Suc_le_lessD not_less_eq_eq)

lemma match_shorter: "Option.bind (fold_lit name s) match_value = Some r \<Longrightarrow> length r < length s"
  by (metis bind_eq_Some_conv fold_lit_shorter less_le_trans match_value_shorter)

text \<open>Without a word boundary the character before plays no part, and enough fuel is as good as more.\<close>

definition redact_assignment :: "string \<Rightarrow> string \<Rightarrow> string \<Rightarrow> string" where
  "redact_assignment name k s = replace_all (length s) [assignment name] (\<lambda>_. k) None s"

lemma replace_fuel:
  "length s \<le> n \<Longrightarrow> replace_all n [assignment name] (\<lambda>_. k) prev s = redact_assignment name k s"
  unfolding redact_assignment_def
proof (induction "length s" arbitrary: n s prev rule: less_induct)
  case less
  show ?case
  proof (cases s)
    case (Cons c t)
    obtain m where n: "n = Suc m" "length t \<le> m" using less.prems Cons by (cases n) auto
    have IH: "length u \<le> length t \<Longrightarrow> replace_all m [assignment name] (\<lambda>_. k) p u = replace_all (length t) [assignment name] (\<lambda>_. k) q u"
      for u p q
      using less.hyps [of u m p] less.hyps [of u "length t" q] n(2) Cons by simp
    show ?thesis
    proof (cases "Option.bind (fold_lit name s) match_value")
      case None
      then show ?thesis
        using IH [of t "Some c" "Some c"] unfolding Cons n(1) by (simp add: match_assignment del: fold_lit.simps)
    next
      case (Some r)
      have "length r \<le> length t" using match_shorter [OF Some] Cons by simp
      then show ?thesis
        using IH [of r] Some unfolding Cons n(1) by (simp add: match_assignment Let_def del: fold_lit.simps)
    qed
  qed simp
qed

lemma redact_assignment_Nil: "redact_assignment name k [] = []"
  by (simp add: redact_assignment_def)

lemma redact_assignment_Cons:
  "redact_assignment name k (c # s) = (case Option.bind (fold_lit name (c # s)) match_value of
      None \<Rightarrow> c # redact_assignment name k s
    | Some r \<Rightarrow> k @ redact_assignment name k r)"
proof (cases "Option.bind (fold_lit name (c # s)) match_value")
  case (Some r)
  then have "length r \<le> length s" using match_shorter [OF Some] by simp
  then show ?thesis
    using Some by (simp add: redact_assignment_def [of name k "c # s"] match_assignment Let_def replace_fuel)
qed (simp add: redact_assignment_def [of name k "c # s"] match_assignment replace_fuel)

section \<open>The value of an assignment does not matter\<close>

definition pg_assignment :: string where
  "pg_assignment = ''PGPASSWORD=''"

text \<open>
  Matching in a text \<open>u\<close> that is followed by an assignment: no match, one that runs into the assignment and ends with
  its value (\<open>Some None\<close>), or one that ends within \<open>u\<close>.
\<close>

definition match_before :: "string \<Rightarrow> string option option" where
  "match_before u = (case fold_lit ''PGPASSWORD'' u of
      None \<Rightarrow> None
    | Some r \<Rightarrow> (case dropWhile re_space r of
        [] \<Rightarrow> None
      | c # r' \<Rightarrow> if c \<noteq> CHR ''='' then None
          else let v = dropWhile not_space (dropWhile re_space r') in Some (if v = [] then None else Some v)))"

definition ended :: "string \<Rightarrow> bool" where
  "ended post \<longleftrightarrow> post = [] \<or> re_space (hd post)"

lemma HasPrefix_iff: "strings_HasPrefix s p \<longleftrightarrow> (\<exists>r. s = p @ r)"
  unfolding strings_HasPrefix_def by (metis append_eq_conv_conj append_take_drop_id)

lemma fold_lit_within: "fold_lit l u = Some r \<Longrightarrow> fold_lit l (u @ v) = Some (r @ v)"
proof (induction l u rule: fold_lit.induct)
  case (2 c cs s)
  have "fold_char c s = Some s' \<Longrightarrow> fold_char c (s @ v) = Some (s' @ v)" for s'
    by (cases s) (auto simp: fold_char_def HasPrefix_iff split: if_splits)
  with 2 show ?case by (auto split: option.splits)
qed simp

text \<open>A match that begins in \<open>u\<close> and is not complete there would need the rest of the name to begin the assignment.\<close>

lemma fold_lit_across:
  assumes "fold_lit l (u @ CHR ''P'' # v) = Some r" "fold_lit l u = None"
  shows "\<exists>j<length l. (u \<noteq> [] \<longrightarrow> 0 < j) \<and> fold_lit (drop j l) (CHR ''P'' # v) = Some r"
  using assms
proof (induction l u rule: fold_lit.induct)
  case (2 c cs s)
  show ?case
  proof (cases s)
    case Nil
    then show ?thesis using 2(2) by (intro exI [of _ 0]) simp
  next
    case (Cons d s')
    have char: "fold_char c (s @ CHR ''P'' # v) = map_option (\<lambda>r. r @ CHR ''P'' # v) (fold_char c s)"
      using Cons by (cases s'; cases "tl s'") (auto simp: fold_char_def strings_HasPrefix_def)
    show ?thesis
    proof (cases "fold_char c s")
      case (Some t)
      then obtain j where "j < length cs" "fold_lit (drop j cs) (CHR ''P'' # v) = Some r"
        using 2(1) [OF Some] 2(2,3) char by auto
      then show ?thesis by (intro exI [of _ "Suc j"]) simp
    qed (use 2(2) char in simp)
  qed
qed simp

lemma fold_name_region:
  "fold_lit ''PGPASSWORD'' (u @ pg_assignment @ v) =
     (if u = [] then Some (CHR ''='' # v) else map_option (\<lambda>r. r @ pg_assignment @ v) (fold_lit ''PGPASSWORD'' u))"
proof (cases "u = []")
  case True
  then show ?thesis by (simp add: pg_assignment_def fold_char_def)
next
  case False
  have tails: "fold_lit (drop j ''PGPASSWORD'') (pg_assignment @ v) = None" if "0 < j" "j < 10" for j
  proof -
    have "j \<in> {1, 2, 3, 4, 5, 6, 7, 8, 9}" using that by auto
    then show ?thesis
      by (auto simp: pg_assignment_def fold_char_def lower_char_def strings_HasPrefix_def)
  qed
  show ?thesis
  proof (cases "fold_lit ''PGPASSWORD'' u")
    case None
    have "fold_lit ''PGPASSWORD'' (u @ pg_assignment @ v) = None"
    proof (rule ccontr)
      assume "fold_lit ''PGPASSWORD'' (u @ pg_assignment @ v) \<noteq> None"
      then obtain r where "fold_lit ''PGPASSWORD'' (u @ CHR ''P'' # ''GPASSWORD='' @ v) = Some r"
        by (auto simp: pg_assignment_def)
      from fold_lit_across [OF this None] tails False show False
        by (auto simp: pg_assignment_def)
    qed
    then show ?thesis using None False by simp
  next
    case (Some r)
    then show ?thesis using fold_lit_within [OF Some] False by simp
  qed
qed

lemma fold_own: "fold_lit ''PGPASSWORD'' (pg_assignment @ v) = Some (CHR ''='' # v)"
  using fold_name_region [of "[]" v] by (simp del: fold_lit.simps)

lemma dropWhile_through: "p (hd b) = False \<Longrightarrow> b \<noteq> [] \<Longrightarrow> dropWhile p (a @ b) = dropWhile p a @ b"
  by (induction a) (cases b; auto)+

lemma region_head: "pg_assignment @ v \<noteq> []" "\<not> re_space (hd (pg_assignment @ v))"
  by (simp_all add: pg_assignment_def re_space_def)

lemma skip_value:
  assumes "ended post" "w \<noteq> []" "list_all not_space w"
  shows "dropWhile not_space (pg_assignment @ w @ post) = post" "dropWhile not_space (w @ post) = post"
proof -
  have "dropWhile not_space post = post"
    using assms(1) by (cases post) (auto simp: ended_def not_space_def)
  then show "dropWhile not_space (w @ post) = post"
    using assms(3) by (simp add: dropWhile_append3 list_all_iff dropWhile_append2)
  then show "dropWhile not_space (pg_assignment @ w @ post) = post"
    by (simp add: pg_assignment_def not_space_def re_space_def)
qed

lemma match_region:
  assumes "ended post" "w \<noteq> []" "list_all not_space w"
  shows "Option.bind (fold_lit ''PGPASSWORD'' (u @ pg_assignment @ w @ post)) match_value =
    (if u = [] then Some post
     else map_option (\<lambda>o'. case o' of None \<Rightarrow> post | Some v \<Rightarrow> v @ pg_assignment @ w @ post) (match_before u))"
proof (cases "u = []")
  case True
  have "dropWhile re_space (w @ post) = w @ post"
    using assms(2,3) by (cases w) (auto simp: not_space_def)
  then show ?thesis
    using True skip_value(2) [OF assms] assms(2)
    by (simp add: fold_own match_value_def re_space_def del: dropWhile_eq_Nil_conv fold_lit.simps)
next
  case False
  let ?t = "pg_assignment @ w @ post"
  have through: "dropWhile re_space (a @ ?t) = dropWhile re_space a @ ?t" for a
    by (rule dropWhile_through) (use region_head in auto)
  show ?thesis
  proof (cases "fold_lit ''PGPASSWORD'' u")
    case (Some r)
    show ?thesis
    proof (cases "dropWhile re_space r")
      case Nil
      have "match_value (r @ ?t) = None"
        unfolding match_value_def through Nil by (simp add: pg_assignment_def)
      then show ?thesis
        using Some False Nil
        by (simp add: fold_name_region match_before_def del: fold_lit.simps dropWhile_eq_Nil_conv)
    next
      case (Cons c r')
      have val: "dropWhile not_space (dropWhile re_space r' @ ?t)
          = (let v = dropWhile not_space (dropWhile re_space r') in if v = [] then post else v @ ?t)"
        using skip_value(1) [OF assms] by (auto simp: dropWhile_append Let_def)
      show ?thesis
        using Some False through [of r] through [of r'] Cons val region_head(1)
        by (auto simp: fold_name_region match_value_def match_before_def Let_def simp del: fold_lit.simps dropWhile_eq_Nil_conv)
    qed
  qed (use False in \<open>simp add: fold_name_region match_before_def del: fold_lit.simps\<close>)
qed

lemma match_before_shorter: "match_before u = Some (Some v) \<Longrightarrow> length v < length u"
proof -
  assume "match_before u = Some (Some v)"
  then obtain r c r' where r: "fold_lit ''PGPASSWORD'' u = Some r" "dropWhile re_space r = c # r'"
    "v = dropWhile not_space (dropWhile re_space r')"
    by (auto simp: match_before_def Let_def simp del: fold_lit.simps split: option.splits list.splits if_splits)
  have "length v \<le> length r'" unfolding r(3) by (meson le_trans length_dropWhile_le)
  moreover have "length (c # r') \<le> length r" unfolding r(2) [symmetric] by (rule length_dropWhile_le)
  moreover have "length r \<le> length u" by (rule fold_lit_shorter [OF r(1)])
  ultimately show ?thesis by simp
qed

lemma redact_region:
  assumes "ended post" "w \<noteq> []" "list_all not_space w" "w' \<noteq> []" "list_all not_space w'"
  shows "redact_assignment ''PGPASSWORD'' k (u @ pg_assignment @ w @ post) = redact_assignment ''PGPASSWORD'' k (u @ pg_assignment @ w' @ post)"
proof (induction "length u" arbitrary: u rule: less_induct)
  case less
  show ?case
  proof (cases u)
    case Nil
    have "redact_assignment ''PGPASSWORD'' k (pg_assignment @ x @ post) = k @ redact_assignment ''PGPASSWORD'' k post"
      if "x \<noteq> []" "list_all not_space x" for x
      using match_region [OF assms(1) that, of "[]"] redact_assignment_Cons [of "''PGPASSWORD''" k "CHR ''P''" "''GPASSWORD='' @ x @ post"]
      by (simp add: pg_assignment_def del: fold_lit.simps)
    then show ?thesis using Nil assms(2-5) by simp
  next
    case (Cons c t)
    note step = redact_assignment_Cons [of "''PGPASSWORD''" k c "t @ pg_assignment @ x @ post" for x]
    have IH: "length v < length u \<Longrightarrow> redact_assignment ''PGPASSWORD'' k (v @ pg_assignment @ w @ post)
        = redact_assignment ''PGPASSWORD'' k (v @ pg_assignment @ w' @ post)" for v
      by (rule less.hyps)
    show ?thesis
      unfolding Cons append_Cons step
      using match_region [OF assms(1-3), of u] match_region [OF assms(1,4,5), of u] match_before_shorter [of u] IH Cons
      by (auto simp del: fold_lit.simps split: option.splits)
  qed
qed

lemma RedactSecrets_first_pass:
  "RedactSecrets input = RedactSecrets input' \<or>
   redact_assignment ''PGPASSWORD'' ''PGPASSWORD=***'' input \<noteq> redact_assignment ''PGPASSWORD'' ''PGPASSWORD=***'' input'"
  by (auto simp: RedactSecrets_def ReplaceAll_def redact_assignment_def)

text \<open>
  C37: The database password in a command line does not reach the server when it contains no blank. For two passwords
  that are not empty, contain no blank and are followed by a blank or the end of the line, the redacted text of a line
  with an assignment to \<open>PGPASSWORD\<close> is the same, whatever stands before and after, so the line the server stores says
  nothing about such a password, not even its length.
\<close>

theorem redaction_hides_password:
  assumes "password \<noteq> []" "list_all not_space password" "password' \<noteq> []" "list_all not_space password'" "ended post"
  shows "RedactSecrets (pre @ pg_assignment @ password @ post) = RedactSecrets (pre @ pg_assignment @ password' @ post)"
  using RedactSecrets_first_pass redact_region [OF assms(5,1-4)] by blast

theorem redaction_hides_password_witness:
  "RedactSecrets ''docker exec -e PGPASSWORD=hunter2 pg psql'' = RedactSecrets ''docker exec -e PGPASSWORD=x pg psql''"
proof -
  have "ended '' pg psql''" "list_all not_space ''hunter2''" "list_all not_space ''x''" by code_simp+
  with redaction_hides_password [of "''hunter2''" "''x''" "'' pg psql''" "''docker exec -e ''"]
  show ?thesis by (simp add: pg_assignment_def)
qed

text \<open>The tail of a password with a blank is not covered.\<close>

lemma redaction_leaves_tail: "RedactSecrets ''PGPASSWORD=a b'' = ''PGPASSWORD=*** b''"
  by code_simp

end
