(* ===== verification/RoleDelivery.thy ===== *)
theory RoleDelivery
  imports AgentContract ManagementSafety
begin

text \<open>
  A managed role from the call of an operator to the statements on the database server: \<open>CreateRole\<close> of the management
  service, the secrets of the command it queues, \<open>commandToProto\<close> of the agent service and \<open>executeEnsureRole\<close> of the
  agent, composed.
\<close>

section \<open>Reading steps\<close>

text \<open>The checks of a handler read: they leave the tables and the environment as they are.\<close>

definition stands :: "db \<Rightarrow> env \<Rightarrow> world \<Rightarrow> bool" where
  "stands d e w \<longleftrightarrow> store w = d \<and> the_env w = e"

lemma wp_or_status_reads:
  assumes "keeps_db (\<lambda>x. x = d) m" "keeps_env (\<lambda>x. x = e) m" "\<And>e w'. Q (Inl e) w'"
    "\<And>a w'. stands d e w' \<Longrightarrow> wp (k a) Q w'" "stands d e w"
  shows "wp (or_status c p m k) Q w"
proof (rule wp_or_statusI)
  have "wp m (\<lambda>_ s'. store s' = d) w" "wp m (\<lambda>_ s'. the_env s' = e) w"
    using wp_keeps [OF assms(1), of w "\<lambda>_ s'. store s' = d"] wp_keeps [OF assms(2), of w "\<lambda>_ s'. the_env s' = e"] assms(5)
    by (simp_all add: stands_def)
  then show "wp m (\<lambda>r s'. \<forall>a. r = Inr a \<longrightarrow> stands d e s') w"
    by (simp add: wp_outcome stands_def)
qed (use assms in auto)

lemma wp_checks_read:
  assumes "\<And>e w'. Q (Inl e) w'"
  shows "(\<And>w'. stands d e w' \<Longrightarrow> wp k Q w') \<Longrightarrow> stands d e w \<Longrightarrow> wp (pm_requireCluster c k) Q w"
    "(\<And>w'. stands d e w' \<Longrightarrow> wp (k1 pg_provider) Q w') \<Longrightarrow> stands d e w \<Longrightarrow> wp (requireModule c md k1) Q w"
    "(\<And>p w'. stands d e w' \<Longrightarrow> wp (k3 p) Q w') \<Longrightarrow> stands d e w \<Longrightarrow> wp (resolveManagementPrimary c k3) Q w"
    "(\<And>b w'. stands d e w' \<Longrightarrow> wp (k4 b) Q w') \<Longrightarrow> stands d e w \<Longrightarrow> wp (pm_allowPromotionForCluster c k4) Q w"
  unfolding pm_requireCluster_def requireModule_def providerForCluster_def resolveManagementPrimary_def
    pm_allowPromotionForCluster_def
  by (auto simp: assms wp_fail(1) split: option.split sum.split dest!: registered_provider
      intro!: wp_or_status_reads keeps_intros)

abbreviation key_ok :: "PostgresManagementService \<Rightarrow> bool" where
  "key_ok s \<equiv> length (PM_roleEncryptKey s) \<in> {16, 24, 32}"

lemma wp_encrypt_reads:
  assumes "aead_ok (PM_aead s)" "nonces12 e" "stands d e w"
  shows "wp (EncryptAES256GCM (PM_aead s) pw (PM_roleEncryptKey s)) (\<lambda>r w'. \<forall>ct. r = Inr ct \<longrightarrow>
     stands d e w' \<and> key_ok s \<and> decrypts_to s (base64_EncodeToString ct) pw) w"
proof (cases "key_ok s")
  case True
  have "wp (EncryptAES256GCM (PM_aead s) pw (PM_roleEncryptKey s)) (\<lambda>_ w'. store w' = d) w"
    by (rule wp_keeps [where I = "\<lambda>w. store w = d"], intro keeps_intros) (use assms(3) in \<open>simp_all add: stands_def\<close>)
  with wp_encrypt_decrypts [OF assms(1,2), of w pw] assms(3) True show ?thesis
    by (auto simp: wp_outcome stands_def)
qed (simp add: EncryptAES256GCM_def aes_NewCipher_def wp_simps)

lemma wp_fresh_password_reads:
  assumes "aead_ok (PM_aead s)" "nonces12 e" "\<And>e w'. Q (Inl e) w'"
    and "\<And>pw sp cs w'. stands d e w' \<Longrightarrow> key_ok s \<Longrightarrow> decrypts_to s (base64_EncodeToString cs) pw \<Longrightarrow> wp (k pw sp cs) Q w'"
    and "stands d e w"
  shows "wp (fresh_password s k) Q w"
  unfolding fresh_password_def wp_bind wp_GenerateToken
  apply (rule wp_or_statusI [OF wp_encrypt_reads [OF assms(1,2)]])
    apply (use assms(5) in \<open>simp add: stands_def\<close>)
   apply (rule assms(3))
  apply (elim conjE)
  apply (rule wp_or_statusI [OF wp_encrypt_reads [OF assms(1,2)]], assumption)
  using assms(3,4) by auto

section \<open>The administrator's secret\<close>

text \<open>The cluster has the password \<open>admin\<close> of its administrator stored.\<close>

definition admin_stored :: "PostgresManagementService \<Rightarrow> string \<Rightarrow> string \<Rightarrow> db \<Rightarrow> bool" where
  "admin_stored s cid admin d \<longleftrightarrow> admin \<noteq> [] \<and> (\<exists>cs row. PM_clusterSecrets s = Some cs \<and>
     List.find (\<lambda>x. CSecret_ClusterID x = cid \<and> CSecret_Key x = ''skylex_admin_password'') (cluster_secrets d) = Some row \<and>
     opens_to cs (CSecret_Ciphertext row) admin)"

lemma decrypts_nonempty: "decrypts_to s (base64_EncodeToString ct) pw \<Longrightarrow> ct \<noteq> []"
  by (auto simp: decrypts_to_def DecryptAES256GCM_def gcm_NonceSize_def split: sum.splits)

lemma wp_stored_admin:
  assumes "admin_stored s cid admin d" "stands d e w" "fault_free e" "PM_clusterSecrets s = Some cs"
  shows "wp (csecrets_ResolveSecret cs cid ''skylex_admin_password'') (\<lambda>r w'. r = Inr admin \<and> stands d e w') w"
  using assms by (auto simp: admin_stored_def csecrets_ResolveSecret_def stands_def wp_simps open_secret_opens)

lemma wp_with_stored_admin:
  assumes "aead_ok (PM_aead s)" "nonces12 e" "admin_stored s cid admin d" "fault_free e" "stands d e w" "\<And>e w'. Q (Inl e) w'"
    and keys: "key_ok s"
    and "\<And>ct w'. stands d e w' \<Longrightarrow> decrypts_to s (base64_EncodeToString ct) admin \<Longrightarrow> wp (k ct ''skylex_admin_password'') Q w'"
  shows "wp (with_admin_secret s cid p k) Q w"
proof -
  obtain cs where cs: "PM_clusterSecrets s = Some cs" and admin: "admin \<noteq> []"
    using assms(3) by (auto simp: admin_stored_def)
  note stored = wp_stored_admin [OF assms(3) _ assms(4) cs]
  have provisioned: "wp (ensureSkylexAdminProvisioned (PM_clusterSecrets s) (PM_commandSecrets s) cid p) (\<lambda>r w'. r = Inr False \<and> stands d e w') w"
    using assms(5) admin
    by (auto simp: ensureSkylexAdminProvisioned_def cs wp_try_do wp_return split: option.split intro!: wp_mono [OF stored])
  have encrypted: "wp (EncryptAES256GCM (PM_aead s) admin (PM_roleEncryptKey s)) (\<lambda>r w'. \<exists>ct. r = Inr ct \<and> stands d e w' \<and>
      decrypts_to s (base64_EncodeToString ct) admin) w1" if "stands d e w1" for w1
  proof -
    have "nonces_ok w1" using assms(2) that by (simp add: stands_def)
    from wp_encrypt_reads [OF assms(1,2) that, of admin] wp_Encrypt [OF assms(1) this keys, of admin]
    show ?thesis by (auto simp: wp_outcome)
  qed
  have secret: "wp (skylexAdminCommandSecret s cid) (\<lambda>r w'. \<exists>ct. r = (ct, ''skylex_admin_password'') \<and> stands d e w' \<and>
      decrypts_to s (base64_EncodeToString ct) admin) w1" if "stands d e w1" for w1
    unfolding skylexAdminCommandSecret_def resolveSkylexAdminCommandSecret_def cs option.case wp_try_do
    by (rule wp_mono [OF stored [OF that]])
      (auto simp: admin wp_try_do wp_return intro!: wp_mono [OF encrypted])
  show ?thesis
    unfolding with_admin_secret_def wp_or_status
    by (rule wp_mono [OF provisioned]) (auto simp: wp_bind intro!: wp_mono [OF secret] assms(8))
qed

section \<open>The command that is queued\<close>

text \<open>Every stored secret belongs to a stored command.\<close>

definition secrets_have_commands :: "db \<Rightarrow> bool" where
  "secrets_have_commands d \<longleftrightarrow> Secret_CommandID ` set (agent_command_secrets d) \<subseteq> Cmd_ID ` set (agent_commands d)"

lemma wp_insertAgentCommand_fresh:
  "wp (insertAgentCommand i a n act p now) (\<lambda>r w'. \<forall>c. r = Inr c \<longrightarrow>
     Cmd_ID c \<notin> Cmd_ID ` set (agent_commands (store w)) \<and> agent_commands (store w') = agent_commands (store w) @ [c]) w"
  by (auto simp: insertAgentCommand_def commands_insert_def Let_def wp_simps command_row_def split: option.splits)

lemma wp_queue_fresh:
  "wp (queue_operation q now) (\<lambda>r w'. \<forall>x. r = Inr x \<longrightarrow> Cmd_ID (snd x) \<notin> Cmd_ID ` set (agent_commands (store w))) w"
  unfolding queue_operation_def
  apply (rule wp_try_doI [OF wp_insertServiceOperation], simp)
  apply (rule wp_try_doI [OF wp_queue_before], simp)
  apply (rule wp_try_doI [OF wp_insertAgentCommand_fresh], simp)
  apply (rule wp_try_doI [where R = "\<lambda>_ _. True"], simp add: wp_True, simp)
  apply (rule wp_try_doI [where R = "\<lambda>_ _. True"], simp add: wp_True, simp)
  apply (rule wp_try_doI [where R = "\<lambda>_ _. True"], simp add: wp_True, simp)
  apply (auto simp: wp_return)
  done

abbreviation new_command :: "db \<Rightarrow> ManagedRoleTx res \<Rightarrow> bool" where
  "new_command d r \<equiv> \<forall>tx. r = Inr tx \<longrightarrow> Cmd_ID (Tx_Command tx) \<notin> Cmd_ID ` set (agent_commands d)"

lemma wp_create_fresh: "wp (roles_CreateWithCommand inp) (\<lambda>r w'. new_command (store w) r) w"
proof -
  have "wp (roles_CreateWithCommand inp) (\<lambda>r w'. new_command (store w) r \<or> isl r \<and> store w' = store w) w"
    unfolding roles_CreateWithCommand_def
    apply (rule wp_in_tx_outcome [where A = isl and C = "\<lambda>r _. new_command (store w) r"])
      apply (simp only: wp_bind wp_time_now Let_def)
      apply (rule wp_mono [where Q = "\<lambda>_ w'. store w' = store w"], simp add: wp_simps)
      apply (rule wp_try_txI [OF wp_roles_insert], simp)
      apply (rule wp_try_txI [OF wp_queue_fresh], simp)
      apply (auto simp: wp_return split: prod.splits)
    done
  then show ?thesis by (rule wp_mono) auto
qed

lemma wp_retry_fresh: "wp (roles_RetryCreateWithCommand inp) (\<lambda>r w'. new_command (store w) r) w"
proof -
  have "wp (roles_RetryCreateWithCommand inp) (\<lambda>r w'. new_command (store w) r \<or> isl r \<and> store w' = store w) w"
    unfolding roles_RetryCreateWithCommand_def
    apply (rule wp_in_tx_outcome [where A = isl and C = "\<lambda>r _. new_command (store w) r"])
      apply (rule wp_try_txI [OF wp_role_by_id], simp)
      apply (clarsimp simp: wp_return wp_bind wp_time_now Let_def split: option.split)
      apply (rule wp_try_txI [OF wp_update_role], simp)
      apply (rule wp_try_txI [OF wp_queue_fresh], simp)
      apply (auto simp: wp_return split: prod.splits)
    done
  then show ?thesis by (rule wp_mono) auto
qed

text \<open>\<open>sends_role\<close>: a new pending command with exactly this action, payload and secrets.\<close>

definition sends :: "PostgresManagementService \<Rightarrow> string \<Rightarrow> payload \<Rightarrow> (string \<times> string) list \<Rightarrow> AgentCommand \<Rightarrow> db \<Rightarrow> bool" where
  "sends s action p secrets cmd d \<longleftrightarrow> cmd \<in> set (agent_commands d) \<and> Cmd_Status cmd = CommandStatusPending \<and>
     Cmd_Action cmd = action \<and> Cmd_Payload cmd = p \<and>
     list_all2 (\<lambda>(k, v) x. Secret_Key x = k \<and> decrypts_to s (Secret_Ciphertext x) v) secrets
       (filter (\<lambda>x. Secret_CommandID x = Cmd_ID cmd) (agent_command_secrets d))"

lemma queued_sends:
  assumes "queued q now d0 d' op cmd" "agent_commands d0 = agent_commands d" "agent_command_secrets d0 = agent_command_secrets d"
    "secrets_have_commands d" "Cmd_ID cmd \<notin> Cmd_ID ` set (agent_commands d)"
    "Q_Password q = Some ct" "decrypts_to s (base64_EncodeToString ct) pw" "Q_AdminSecretKey q = key" "key \<noteq> []"
    "decrypts_to s (base64_EncodeToString (Q_AdminSecret q)) admin"
  shows "sends s (Q_Action q) (Q_Payload q) [(''password'', pw), (key, admin)] cmd d'"
proof -
  obtain cs ss where d': "d' = d0\<lparr>service_operations := service_operations d0 @ [op],
      agent_commands := agent_commands d0 @ cs, agent_command_secrets := agent_command_secrets d0 @ ss\<rparr>"
    and c: "queued_commands q now cmd cs" and ss: "map secret_triple ss = queued_secrets q (Cmd_ID cmd)"
    using assms(1) by (auto simp: queued_def)
  have "\<forall>x\<in>set (agent_command_secrets d). Secret_CommandID x \<noteq> Cmd_ID cmd"
    using assms(4,5) unfolding secrets_have_commands_def image_subset_iff by metis
  then have "filter (\<lambda>x. Secret_CommandID x = Cmd_ID cmd) (agent_command_secrets d) = []" by simp
  moreover have triples: "map secret_triple ss =
      [(Cmd_ID cmd, ''password'', base64_EncodeToString ct), (Cmd_ID cmd, key, base64_EncodeToString (Q_AdminSecret q))]"
    using ss assms(6-9) decrypts_nonempty [OF assms(10)] by (simp add: queued_secrets_def)
  then have "filter (\<lambda>x. Secret_CommandID x = Cmd_ID cmd) ss = ss"
    by (auto simp: secret_triple_def map_eq_Cons_conv)
  ultimately have rows: "filter (\<lambda>x. Secret_CommandID x = Cmd_ID cmd) (agent_command_secrets d') = ss"
    by (simp add: d' assms(3))
  have "cmd \<in> set cs" "cmd = command_row (Cmd_ID cmd) (Q_AgentID q) (Q_NodeID q) (Q_Action q) (Q_Payload q) now"
    using c by (auto simp: queued_commands_def split: if_splits)
  then have "cmd \<in> set (agent_commands d')" "Cmd_Action cmd = Q_Action q" "Cmd_Payload cmd = Q_Payload q" "Cmd_Status cmd = CommandStatusPending"
    by (simp add: d', (metis (no_types) command_row_def AgentCommand.select_convs)+)
  with triples assms(7,10) show ?thesis
    unfolding sends_def rows by (auto simp: secret_triple_def map_eq_Cons_conv)
qed

definition requested_kind :: "CreateRoleRequest \<Rightarrow> string" where
  "requested_kind req = (if CRR_RoleKind req = [] then ''custom'' else CRR_RoleKind req)"

definition role_sent :: "PostgresManagementService \<Rightarrow> CreateRoleRequest \<Rightarrow> string \<Rightarrow> string \<Rightarrow> AgentCommand \<Rightarrow> db \<Rightarrow> bool" where
  "role_sent s req pw admin cmd d \<longleftrightarrow> TrimSpace (CRR_RoleName req) \<noteq> [] \<and>
     (\<exists>roleID opID promote. sends s ''pg_ensure_role''
       (create_role_payload roleID opID (TrimSpace (CRR_RoleName req)) (requested_kind req) promote)
       [(''password'', pw), (''skylex_admin_password'', admin)] cmd d)"

definition role_input_ok :: "PostgresManagementService \<Rightarrow> string \<Rightarrow> string \<Rightarrow> string \<Rightarrow> string \<Rightarrow> CreateRoleTxInput \<Rightarrow> bool" where
  "role_input_ok s name kind pw admin inp \<longleftrightarrow> CR_EnsureAction inp = ''pg_ensure_role'' \<and>
     (\<exists>roleID opID promote. CR_Payload inp = create_role_payload roleID opID name kind promote) \<and>
     decrypts_to s (base64_EncodeToString (CR_EncryptedCommandSecret inp)) pw \<and>
     decrypts_to s (base64_EncodeToString (CR_EncryptedAdminSecret inp)) admin \<and> CR_AdminSecretKey inp = ''skylex_admin_password''"

lemma wp_role_tx_sends:
  assumes "role_input_ok s name kind pw admin inp" "secrets_have_commands (store w)"
  shows "wp (case existing of None \<Rightarrow> roles_CreateWithCommand inp | Some _ \<Rightarrow> roles_RetryCreateWithCommand inp)
     (\<lambda>r w'. \<forall>tx. r = Inr tx \<longrightarrow> (\<exists>roleID opID promote. sends s ''pg_ensure_role'' (create_role_payload roleID opID name kind promote)
        [(''password'', pw), (''skylex_admin_password'', admin)] (Tx_Command tx) (store w'))) w"
proof -
  let ?sends = "\<lambda>tx d'. sends s ''pg_ensure_role'' (CR_Payload inp) [(''password'', pw), (''skylex_admin_password'', admin)] (Tx_Command tx) d'"
  note ok = assms(1) [unfolded role_input_ok_def]
  have created: "?sends tx d'" if "created_role inp tx (store w) d'" "Cmd_ID (Tx_Command tx) \<notin> Cmd_ID ` set (agent_commands (store w))" for tx d'
    using that ok unfolding created_role_def
    by (elim exE conjE) (drule queued_sends [where d = "store w"]; simp add: create_queue_input_def assms(2))
  have retried: "?sends tx d'" if "retried_role inp tx (store w) d'" "Cmd_ID (Tx_Command tx) \<notin> Cmd_ID ` set (agent_commands (store w))" for tx d'
    using that ok unfolding retried_role_def changed_role_def
    by (elim exE conjE) (drule queued_sends [where d = "store w"]; simp add: create_queue_input_def assms(2))
  have "wp (case existing of None \<Rightarrow> roles_CreateWithCommand inp | Some _ \<Rightarrow> roles_RetryCreateWithCommand inp)
     (\<lambda>r w'. \<forall>tx. r = Inr tx \<longrightarrow> ?sends tx (store w')) w"
  proof (cases existing)
    case None
    show ?thesis unfolding None option.case
      by (rule wp_mono [OF wp_conj [THEN iffD2, OF conjI [OF wp_CreateWithCommand wp_create_fresh]]]) (auto intro: created)
  next
    case (Some r)
    show ?thesis unfolding Some option.case
      by (rule wp_mono [OF wp_conj [THEN iffD2, OF conjI [OF wp_RetryCreateWithCommand wp_retry_fresh]]]) (auto intro: retried)
  qed
  then show ?thesis by (rule wp_mono) (use ok in metis)
qed

lemma valid_role_name: "Prov_ValidateRoleName pg_provider [] \<noteq> None"
  by (auto simp: pg_provider_def pg_ValidateRoleName_def roleNamePattern_def split: if_splits)

lemma wp_CreateRole_sends:
  assumes "aead_ok (PM_aead s)" "nonces_ok w" "no_faults w" "secrets_have_commands (store w)"
    and "admin_stored s (CRR_ClusterId req) admin (store w)"
  shows "wp (CreateRole s ctx req) (\<lambda>r w'. \<forall>role pw. r = Inr (role, pw) \<longrightarrow> (\<exists>cmd. role_sent s req pw admin cmd (store w'))) w"
    (is "wp _ ?Q w")
proof -
  let ?d = "store w" and ?e = "the_env w" and ?name = "TrimSpace (CRR_RoleName req)"
  have tx: "wp (create_role s req ?name (requested_kind req) pg_provider primary b existing) ?Q w'"
    if name: "?name \<noteq> []" and at: "stands ?d ?e w'" for primary b existing w'
    unfolding create_role_def Let_def
    apply (rule wp_fresh_password_reads [OF assms(1,2) _ _ at], simp)
    apply (simp only: wp_bind wp_id_New wp_time_now)
    apply (rule wp_with_stored_admin [OF assms(1,2,5,3)])
       apply (simp add: stands_def)
      apply simp
     apply assumption
    subgoal for pw sp cs w1 ct w2
      by (rule wp_or_statusI [OF wp_role_tx_sends [of s ?name "requested_kind req" pw admin]])
        (use assms(4) name in \<open>auto simp: role_input_ok_def create_role_input_def stands_def role_sent_def wp_fail(3)\<close>)
    done
  have at: "stands ?d ?e w" by (simp add: stands_def)
  show ?thesis
    unfolding CreateRole_def no_viewer_def Let_def roles_GetByClusterAndName_def requested_kind_def [symmetric]
    by (auto simp: wp_fail(1) at split: option.split simp del: split_paired_All intro!: wp_checks_read [where d = ?d and e = ?e]
        wp_or_status_reads [where d = ?d and e = ?e] tx keeps_intros simp: valid_role_name)
qed

section \<open>The command on its way\<close>

lemma wp_resolve_open:
  assumes "list_all2 (\<lambda>(k, v) x. Secret_Key x = k \<and> opens_to r (Secret_Ciphertext x) v \<and> never_expires e (Secret_ExpiresAt x)) ss rows"
    "the_env w = e"
  shows "wp (resolve_rows r rows m) (\<lambda>res _. res = Inr (m ++ map_of (rev ss))) w"
  using assms
proof (induction ss arbitrary: rows m w)
  case (Cons kp ss)
  obtain k v where kp: "kp = (k, v)" by (cases kp)
  then obtain x rest where rows: "rows = x # rest" "Secret_Key x = k" "opens_to r (Secret_Ciphertext x) v" "never_expires e (Secret_ExpiresAt x)"
      and rest: "list_all2 (\<lambda>(k, v) x. Secret_Key x = k \<and> opens_to r (Secret_Ciphertext x) v \<and> never_expires e (Secret_ExpiresAt x)) ss rest"
    using Cons.prems(1) by (auto simp: list_all2_Cons1)
  have "wp (resolve_rows r rest (m(k \<mapsto> v))) (\<lambda>res _. res = Inr (m ++ map_of (rev (kp # ss)))) w2" if "the_env w2 = e" for w2
  proof -
    have eq: "m ++ map_of (rev (kp # ss)) = m(k \<mapsto> v) ++ map_of (rev ss)" by (simp add: kp)
    show ?thesis unfolding eq by (rule Cons.IH [OF rest that])
  qed
  then show ?case
    unfolding rows(1) resolve_rows.simps wp_bind
    by (intro wp_mono [OF wp_is_expired_not])
      (use Cons.prems(2) rows in \<open>auto simp: open_secret_opens wp_try_do wp_return\<close>)
qed (simp add: wp_simps)

definition command_repo :: "PostgresManagementService \<Rightarrow> SecretRepository" where
  "command_repo s = \<lparr>repo_aead = PM_aead s, encryptKey = PM_roleEncryptKey s\<rparr>"

lemma decrypts_opens: "decrypts_to s x v \<longleftrightarrow> opens_to (command_repo s) x v"
  by (auto simp: decrypts_to_def opens_to_def command_repo_def split: option.splits)

definition unexpired :: "world \<Rightarrow> bool" where
  "unexpired w \<longleftrightarrow> (\<forall>x\<in>set (agent_command_secrets (store w)). never_expires (the_env w) (Secret_ExpiresAt x))"

lemma sent_to_proto:
  assumes "sends s action p secrets cmd (store w)" "AS_commandSecrets g = Some (command_repo s)" "no_faults w" "unexpired w"
    and "isSecretBearingAction action" "distinct (map fst secrets)"
  shows "PCmd_Action (result (command_to_proto g cmd) w) = action \<and> PCmd_Payload (result (command_to_proto g cmd) w) = p \<and>
    PCmd_Secrets (result (command_to_proto g cmd) w) = map_of secrets"
proof -
  let ?rows = "filter (\<lambda>x. Secret_CommandID x = Cmd_ID cmd) (agent_command_secrets (store w))"
  have "list_all2 (\<lambda>(k, v) x. Secret_Key x = k \<and> opens_to (command_repo s) (Secret_Ciphertext x) v \<and>
      never_expires (the_env w) (Secret_ExpiresAt x)) secrets ?rows"
    using assms(1,4) unfolding sends_def decrypts_opens unexpired_def
    by (elim conjE, elim list.rel_mono_strong) auto
  then have "wp (secrets_ResolveAllForCommand (command_repo s) (Cmd_ID cmd)) (\<lambda>res _. res = Inr (map_of secrets)) w"
    using assms(3) wp_resolve_open [of "command_repo s" "the_env w" secrets ?rows "w\<lparr>n_stmt := Suc (n_stmt w)\<rparr>" Map.empty]
    by (simp add: secrets_ResolveAllForCommand_def wp_simps map_of_rev [OF assms(6)])
  then have "wp (command_to_proto g cmd) (\<lambda>r _. PCmd_Action r = action \<and> PCmd_Payload r = p \<and> PCmd_Secrets r = map_of secrets) w"
    using assms(1,2,5) by (auto simp: command_to_proto_def sends_def wp_try_do wp_return Let_def elim!: wp_mono)
  then show ?thesis by (simp add: wp_outcome)
qed

section \<open>The command on the host\<close>

text \<open>A host whose server is writable, knows no role and accepts everything.\<close>

definition accepts_all :: "host_env \<Rightarrow> bool" where
  "accepts_all e \<longleftrightarrow> (\<forall>n c f. sql_reply e n c f = (Inr (SqlBool False), f))"

definition create_role_trace :: "Agent \<Rightarrow> host_env \<Rightarrow> string \<Rightarrow> string \<Rightarrow> string \<Rightarrow> string \<Rightarrow> SqlCall list" where
  "create_role_trace a e name kind password admin = (
     let c = \<lparr>Conn_Port = Inst_Port (Ag_Pg a), Conn_User = ''skylex_admin'', Conn_Password = admin, Conn_Database = ''postgres''\<rparr>
     in [SqlConnect c, SqlStatement c ''SELECT pg_is_in_recovery()'' [],
         SqlStatement c ''SELECT EXISTS(SELECT 1 FROM pg_catalog.pg_roles WHERE rolname = $1)'' [name],
         SqlStatement c (''CREATE ROLE '' @ pgx_Sanitize e name @ '' WITH '' @ (if kind = ''admin'' then ''SUPERUSER LOGIN'' else ''NOSUPERUSER LOGIN'')) [],
         SqlStatement c alterRolePasswordFunction [],
         SqlStatement c ''SELECT pg_temp.skylex_alter_role_password($1, $2)'' [name, password]])"

lemma role_attributes: "roleAttributes (RoleKind_of kind) = (if kind = ''admin'' then ''SUPERUSER LOGIN'' else ''NOSUPERUSER LOGIN'')"
  by (simp add: RoleKind_of_def)

lemma wp_create_role_on_host:
  assumes "accepts_all (host_environment h)" "name \<noteq> []" "kind \<noteq> []" "password \<noteq> []" "admin \<noteq> []"
    "PCmd_Action cmd = ''pg_ensure_role''" "PCmd_Payload cmd = create_role_payload roleID opID name kind promote"
    "PCmd_Secrets cmd = map_of [(''password'', password), (''skylex_admin_password'', admin)]"
  shows "wp (executeCommand x cmd a)
    (\<lambda>r h'. fst (snd r) \<and> events h' = events h @ map Sent (create_role_trace a (host_environment h) name kind password admin)) h"
  using assms
  by (simp add: executeCommand_def executeEnsureRole_def with_payload_def decode_create_role secret_of_def
      applySkylexAdminCredentialsIfPresent_def set_pg_def SetSuperuserCredentials_def key_or_def finish_def succeeded_def failed_def
      EnsureRole_def connectWritable_def localConnect_def connect_to_def on_writable_def postgresWritable_def query_bool_def exec_or_def
      setRolePassword_def conn_Exec_def quoteIdent_def finish_ok_def local_connection_def SkylexAdminRole_def create_role_trace_def
      role_attributes wp_simps Let_def accepts_all_def)

text \<open>
  C13: A role is created the way it was asked for. When \<open>CreateRole\<close> answers with a password, nothing failed meanwhile
  and the cluster has the password of its administrator stored, a pending command is among the commands of the server
  that, translated by \<open>commandToProto\<close> while its secrets have not expired and run by an agent whose PostgreSQL is
  writable, knows no such role and accepts every statement, succeeds and sends exactly these: it connects as
  \<open>skylex_admin\<close> with the stored password, creates the role under its quoted name with the attributes of its kind, and
  sets the password that \<open>CreateRole\<close> has answered with. Both passwords are arguments, never part of a statement.
\<close>

theorem create_role_reaches_postgres:
  assumes "aead_ok (PM_aead s)" "nonces_ok w" "no_faults w" "secrets_have_commands (store w)"
    and "admin_stored s (CRR_ClusterId req) admin (store w)"
    and "result (CreateRole s ctx req) w = Inr (role, password)" "password \<noteq> []"
    and "store w2 = store (after (CreateRole s ctx req) w)" "no_faults w2" "unexpired w2"
    and "AS_commandSecrets g = Some (command_repo s)" "accepts_all (host_environment h)"
  shows "\<exists>cmd\<in>set (agent_commands (store w2)). Cmd_Status cmd = CommandStatusPending \<and>
    (let run = executeCommand x (result (command_to_proto g cmd) w2) a
     in fst (snd (result run h)) \<and> events (after run h) = events h @ map Sent (create_role_trace a (host_environment h)
          (TrimSpace (CRR_RoleName req)) (requested_kind req) password admin))"
proof -
  obtain cmd roleID opID promote where name: "TrimSpace (CRR_RoleName req) \<noteq> []"
    and sent: "sends s ''pg_ensure_role'' (create_role_payload roleID opID (TrimSpace (CRR_RoleName req)) (requested_kind req) promote)
      [(''password'', password), (''skylex_admin_password'', admin)] cmd (store w2)"
    using wp_CreateRole_sends [OF assms(1-5), of ctx] assms(6,8) by (auto simp: wp_outcome role_sent_def)
  have kind: "requested_kind req \<noteq> []" by (simp add: requested_kind_def)
  have admin: "admin \<noteq> []" using assms(5) by (simp add: admin_stored_def)
  have "isSecretBearingAction ''pg_ensure_role''" by (simp add: isSecretBearingAction_def secret_bearing_actions_def)
  from sent_to_proto [OF sent assms(11,9,10) this]
  have proto: "PCmd_Action (result (command_to_proto g cmd) w2) = ''pg_ensure_role''"
    "PCmd_Payload (result (command_to_proto g cmd) w2) = create_role_payload roleID opID (TrimSpace (CRR_RoleName req)) (requested_kind req) promote"
    "PCmd_Secrets (result (command_to_proto g cmd) w2) = map_of [(''password'', password), (''skylex_admin_password'', admin)]"
    by simp_all
  have "cmd \<in> set (agent_commands (store w2))" "Cmd_Status cmd = CommandStatusPending" using sent by (simp_all add: sends_def)
  with wp_create_role_on_host [OF assms(12) name kind assms(7) admin proto, of x a] show ?thesis
    unfolding wp_outcome Let_def by blast
qed

section \<open>An instance\<close>

definition admin_row :: ClusterSecret where
  "admin_row = \<lparr>CSecret_ID = ''s1'', CSecret_ClusterID = ''c1'', CSecret_Key = ''skylex_admin_password'',
     CSecret_Ciphertext = base64_EncodeToString (''nonce-of-12-'' @ ''0123456789abcdef'' @ ''adm''), CSecret_CreatedAt = 1, CSecret_UpdatedAt = 1\<rparr>"

definition admin_db :: db where
  "admin_db = managed_db\<lparr>cluster_secrets := [admin_row]\<rparr>"

abbreviation created_world :: world where
  "created_world \<equiv> after (CreateRole sample_pm sample_operator sample_create_role) (world_of admin_db)"

text \<open>The clock at the time of the fetch stands still, so no secret expires.\<close>

definition fetching_world :: world where
  "fetching_world = created_world\<lparr>the_env := sample_env\<lparr>clock := (\<lambda>_. 0)\<rparr>\<rparr>"

definition delivering_service :: AgentService where
  "delivering_service = \<lparr>AS_AgentToken = [], AS_aead = sample_aead, AS_roleEncryptKey = ''0123456789abcdef'',
     AS_commandSecrets = Some sample_repo, AS_clusterSecrets = Some sample_repo, AS_postgresRoles = True, AS_postgresDBs = True,
     AS_postgresAccess = True, AS_postgresTLS = True, AS_postgresExt = True\<rparr>"

lemma admin_db_stored: "admin_stored sample_pm ''c1'' ''adm'' admin_db"
proof -
  have "opens_to sample_repo (CSecret_Ciphertext admin_row) ''adm''"
    unfolding admin_row_def ClusterSecret.select_convs
    by (rule opens_to_encode)
      (simp add: DecryptAES256GCM_def aes_NewCipher_def sample_repo_def sample_aead_def gcm_NonceSize_def)
  then show ?thesis by (simp add: admin_stored_def admin_db_def sample_pm_def) (simp add: admin_row_def)
qed

lemma created_answer:
  "map_sum id snd (result (CreateRole sample_pm sample_operator sample_create_role) (world_of admin_db)) = Inr ''token-0''"
  by code_simp

lemma created_expiry:
  "list_all (\<lambda>x. case Secret_ExpiresAt x of None \<Rightarrow> True | Some t \<Rightarrow> 0 \<le> t) (agent_command_secrets (store created_world))"
  by code_simp

theorem create_role_reaches_postgres_witness:
  "\<exists>cmd\<in>set (agent_commands (store fetching_world)).
     map (\<lambda>ev. case ev of Sent (SqlStatement c stmt args) \<Rightarrow> (Conn_User c, Conn_Password c, args) | _ \<Rightarrow> ([], [], []))
       (events (after (executeCommand sample_issuer (result (command_to_proto delivering_service cmd) fetching_world)
          (agent_New DefaultConfig)) bare_host)) =
     (let adm = (\<lambda>args. (''skylex_admin'', ''adm'', args)) in
      [([], [], []), adm [], adm [''app''], adm [], adm [], adm [''app'', ''token-0'']])"
proof -
  obtain role where answer: "result (CreateRole sample_pm sample_operator sample_create_role) (world_of admin_db) = Inr (role, ''token-0'')"
    using created_answer by (cases "result (CreateRole sample_pm sample_operator sample_create_role) (world_of admin_db)") auto
  have host: "accepts_all (host_environment bare_host)" "events bare_host = []"
    by (simp_all add: accepts_all_def bare_host_def sample_host_env_def)
  have svc: "aead_ok (PM_aead sample_pm)" "nonces_ok (world_of admin_db)" "no_faults (world_of admin_db)"
    by (simp_all add: sample_pm_def sample_env_def nonces12_def gcm_NonceSize_def fault_free_def)
  have db: "secrets_have_commands (store (world_of admin_db))" "admin_stored sample_pm (CRR_ClusterId sample_create_role) ''adm'' (store (world_of admin_db))"
    using admin_db_stored by (simp_all add: secrets_have_commands_def sample_create_role_def) (simp add: admin_db_def managed_db_def)
  have fetch: "store fetching_world = store created_world" "no_faults fetching_world" "unexpired fetching_world"
    using created_expiry by (auto simp: fetching_world_def unexpired_def never_expires_def fault_free_def sample_env_def list_all_iff split: option.splits)
  have repo: "AS_commandSecrets delivering_service = Some (command_repo sample_pm)"
    by (simp add: delivering_service_def command_repo_def sample_pm_def sample_repo_def)
  have pw: "''token-0'' \<noteq> []" by simp
  have name: "TrimSpace (CRR_RoleName sample_create_role) = ''app''" by code_simp
  obtain cmd where cmd: "cmd \<in> set (agent_commands (store fetching_world))"
    and ev: "events (after (executeCommand sample_issuer (result (command_to_proto delivering_service cmd) fetching_world)
      (agent_New DefaultConfig)) bare_host) = map Sent (create_role_trace (agent_New DefaultConfig) (host_environment bare_host) ''app''
        (requested_kind sample_create_role) ''token-0'' ''adm'')"
    using create_role_reaches_postgres [OF svc db answer pw fetch repo host(1), of sample_issuer "agent_New DefaultConfig"] host(2) name
    by (auto simp: Let_def)
  show ?thesis by (rule bexI [OF _ cmd]) (simp add: ev create_role_trace_def Let_def)
qed

end
