(* ===== verification/Spec2Isabelle.thy ===== *)
theory Spec2Isabelle
  imports ClusterCreate NodeSafety AuthService ManagementSafety BackupSafety HbaSafety PgObjects
    CommandLogger AgentRounds AgentOutcome RedactionSafety RoleDelivery
begin

text \<open>
  A verification of Skylex, a manager for PostgreSQL clusters. The server keeps the state of clusters, nodes,
  agents and managed objects in an SQL database, queues commands for the agents that run on the hosts, and moves
  that state forward when the agents report results. An agent executes its commands on its host: it installs
  PostgreSQL, writes its configuration and its access rules, runs its programs and sends it statements. The
  theories model the Go code under \<open>internal/\<close> function by function; names of definitions are the names of the Go
  functions, with the receiver as a prefix where several types have a method of that name
  (\<open>nodes_GetByID\<close> is \<open>NodeRepository.GetByID\<close>).

  \<^bold>\<open>How the parts interact.\<close> A request passes the interceptor (\<open>Auth\<close>), which proves an identity and refuses what a
  viewer may not do, and reaches a service. The services (clusters, settings, nodes, roles, databases, network
  access, TLS, extensions, backups, users) change rows and queue commands in \<open>agent_commands\<close>, with their secrets
  encrypted beside them. An agent polls the oldest pending command of its node (\<open>FetchCommand\<close>), executes it
  (\<open>executeCommand\<close>) and reports the result (\<open>ReportCommandResult\<close>), which is offered to the handlers of the roles,
  databases, network access, TLS and extensions and, when none of them claims it, to the provisioning state
  machine. Heartbeats and status reports move the state of a node; the failover engine watches them and promotes a
  replica. Log lines of a command are redacted, sent in batches, stored and passed on to live subscribers by a
  broker. Backups run on the server with pgBackRest, on request or by the jobs of a scheduler. \<open>AgentLoop\<close> puts agent
  and server together: its \<open>system\<close> is the world of the server, the host and the agent, and a call between them may
  be lost in either direction.

  \<^bold>\<open>Theories of the server.\<close>
  \<^item> \<open>Prelude\<close>: updates of tables (\<open>upd_where\<close>, \<open>del_where\<close>), pages, the state monad with its weakest
    preconditions (\<open>wp\<close>) and invariants (\<open>keeps\<close>), loops over slices, the string functions of Go.
  \<^item> \<open>Models\<close>: \<open>internal/models\<close> and the row types of \<open>internal/db\<close>.
  \<^item> \<open>Store\<close>: the world (tables, clock, identifiers, faults), statements and transactions; the locales
    \<open>keyed_table\<close> and \<open>db_table\<close> for a table with a primary key, interpreted on every table used by key.
  \<^item> \<open>NodeRepo\<close>, \<open>ClusterRepo\<close> (clusters, settings, commands, operations), \<open>Secrets\<close>, \<open>ManagedRoles\<close>,
    \<open>ManagedDatabases\<close>, \<open>FeatureRepos\<close> (HBA, TLS, extensions), \<open>ConnectionProfiles\<close>, \<open>CommandLogs\<close>, \<open>AuditRepo\<close>,
    \<open>UserRepo\<close>, \<open>BackupRepo\<close>: the repositories of \<open>internal/db\<close>. The locale \<open>result_handler\<close> of \<open>FeatureRepos\<close> states
    what the dispatch of command results relies on and is interpreted on the five handlers.
  \<^item> \<open>Crypto\<close>: \<open>internal/crypto\<close> over parameters for AES-GCM and SHA-256, and base64. \<open>NetIP\<close>: the part of
    \<open>net/netip\<close> that the normalization of networks uses.
  \<^item> \<open>Engine\<close>: \<open>internal/engine\<close> and its PostgreSQL provider. \<open>Proto\<close>: messages, status codes and conversions.
  \<^item> \<open>Auth\<close>, \<open>AuthService\<close>: tokens, the gRPC interceptor, the HTTP guard and \<open>server/auth_service.go\<close>.
  \<^item> \<open>ClusterSettings\<close>, \<open>ClusterService\<close>, \<open>ClusterLifecycle\<close>, \<open>ClusterCreate\<close>: \<open>server/cluster_service.go\<close>, the
    definitions in \<open>ClusterService\<close> and the proofs about deletion, lifecycle and creation after it.
  \<^item> \<open>ClusterHealth\<close>, \<open>NodeService\<close>, \<open>NodeSafety\<close>, \<open>Failover\<close>: \<open>server/cluster_health.go\<close>, \<open>server/node_service.go\<close> and
    \<open>server/failover.go\<close>.
  \<^item> \<open>AdminBackfill\<close>, \<open>AgentService\<close>, \<open>AgentResults\<close>, \<open>AgentSafety\<close>: \<open>server/agent_service.go\<close> and the
    provisioning of the administrator's role it shares with the PostgreSQL management service.
  \<^item> \<open>PostgresManagement\<close> (roles and databases), \<open>PostgresAccess\<close> (connection profiles, networks, TLS),
    \<open>PostgresExtensions\<close>, with the proofs in \<open>AccessSafety\<close> and \<open>ManagementSafety\<close>:
    \<open>server/postgres_management_service.go\<close>.
  \<^item> \<open>BackupEngine\<close>, \<open>BackupService\<close>, \<open>BackupSafety\<close>: \<open>internal/backup\<close>, \<open>internal/pgbackrest\<close> and the services of backups
    and storage.
  \<^item> \<open>LogStream\<close>: \<open>server/logstream.go\<close>, with the broker as a transition system.
  \<^item> \<open>Samples\<close>: small worlds for the concrete instances of the theorems.

  \<^bold>\<open>Theories of the agent.\<close>
  \<^item> \<open>AgentHost\<close>: the host of an agent: its files, the programs and statements it has run (\<open>events\<close>), and an
    environment that decides what every call of the operating system answers; the path functions of Go.
  \<^item> \<open>PgInstance\<close>, \<open>PgHba\<close>, \<open>PgObjects\<close>, \<open>PgControl\<close>, \<open>PgTls\<close>: \<open>internal/postgres\<close>, the instance with its command lines,
    access rules (\<open>hba.go\<close>), objects (\<open>roles.go\<close>, \<open>databases.go\<close>, \<open>extensions.go\<close>), life cycle, replication and settings
    (\<open>postgres.go\<close>) and certificates (\<open>tls.go\<close>).
  \<^item> \<open>Installers\<close>: \<open>internal/agent/installer\<close>.
  \<^item> \<open>AgentLog\<close>, \<open>CommandLogger\<close>: \<open>internal/agent/log.go\<close>, the redaction and the batches of log lines.
  \<^item> \<open>AgentCommands\<close>, \<open>AgentExec\<close>: the state of the agent, the payloads and every command; \<open>config.go\<close>.
  \<^item> \<open>AgentLoop\<close>: registration, heartbeats with their metrics, polling, and the agent as a transition system.
  \<^item> \<open>HostInvariant\<close>: the locale \<open>host_invariant\<close> of what every primitive call keeps, and that every command keeps it;
    interpreted on the environment, the call counter and the trace.
  \<^item> \<open>HbaSafety\<close>, \<open>ObjectSafety\<close>, \<open>ConfigSafety\<close>, \<open>ControlSafety\<close>, \<open>InstallSafety\<close>, \<open>AgentContract\<close>, \<open>AgentOutcome\<close>,
    \<open>AgentRounds\<close>, \<open>RedactionSafety\<close>: the theorems about them.
  \<^item> \<open>RoleDelivery\<close>: a managed role from \<open>CreateRole\<close> through its command and secrets to the agent's statements.

  \<^bold>\<open>What is shown.\<close> Transactions are all or nothing under every pattern of failing statements, and what
  they leave on success is stated as a function of the tables before (roles, databases, extensions,
  clusters, logs, secrets). A cluster has at most one primary after creation (from distinct nodes) and after
  every fault-free tick of the failover engine, which refines an abstract change of topology to the freshest
  online replica; the theorem on a failing demotion shows that the hypothesis is needed. Sequences of role
  operations refine a labelled machine on the status and the password version of a role.
  Lifecycle operations exclude each other; a cluster is reported running only after its provisioning commands.
  Handlers run only for proved identities; agents act only on their own commands and nodes. Secrets, network
  lists and one-time passwords read back as they were given; accepted names and settings contain no character
  with a meaning in SQL. A requested backup ends, and a schedule has at most one job.
  On the host, a change of the access rules or of TLS takes effect as a whole or leaves the files as they were, also
  when PostgreSQL refuses it, and access rules converge: an equal policy changes nothing. No management operation
  changes a server in recovery. A purge removes nothing but the data directory. What the server writes into a
  payload is what the agent reads, and the creation of a role is followed from the request over the queued command
  and its encrypted secrets to the statements.
  Every command ends with a well formed result, waiting ends, every log line is handed over, redacted and in order.
  Theorems of kind error state where the code falls short of its purpose, for instance settings that drop TLS, or a
  command that runs again because its report was lost.

  \<^bold>\<open>Conventions.\<close> A repository call returns \<open>string + 'a\<close> (the text of the Go error), a handler
  \<open>grpc_error + 'a\<close>. A table is the list of its rows in scan order, ORDER BY a stable sort, a null
  foreign key the empty string. A text column that holds JSON is the value it encodes; floating point
  numbers are bit patterns and their operations parameters. Whether a statement or a call of the operating system
  fails, what the clock shows and which identifiers, tokens and nonces are drawn are functions of counters in the
  environment, so every theorem holds for all of them; theorems on fault-free runs say so. A program or a statement
  may change any file, unless a hypothesis says which it leaves. An early return inside a transaction is a rollback.
  Handlers run one at a time: a transaction of SQLite excludes other writers, an agent executes one command after
  the other, and interleavings appear as sequences of calls. Strings are ASCII texts, other characters their bytes;
  a Go map is an association list in the order of its iteration. Logging has no effect on the state and is left
  out, and so are sleeping, contexts and timeouts: a call that is cut off is one that fails.

  \<^bold>\<open>Bounds and fuel.\<close> Loops over slices are structural recursions and every handler is total. Two functions count
  down: \<open>replace_all\<close> starts with the length of the text, and a match takes at least one character; \<open>wait_ready\<close> has
  fuel because its loop ends by the clock, and \<open>wait_terminates\<close> shows that the seconds of the timeout and two more
  rounds are enough. Machine integers wrap where the code computes with them (\<open>to_int32\<close>, \<open>to_int64\<close>).

  \<^bold>\<open>Not modelled.\<close> Transport and wiring (connect, gRPC set-up, configuration, web pages), generated code,
  SQL migrations, foreign key actions, etcd sessions, the backup of the server's own database, the set-up of the
  agent's loggers and the streaming of output into the log, file modes and directories: they perform I/O or call
  third-party code. Parameters with their documented laws as hypotheses are the primitives of cryptography, tokens
  and password hashes, certificates, \<open>pgx\<close>, cron, object stores, and the programs of PostgreSQL, pgBackRest, Docker
  and the package managers.
\<close>

end
